(* ===== verification/Prelude.thy ===== *)
theory Prelude
  imports Main "HOL-Library.Word"
begin

text \<open>
  Shared vocabulary of the development: the machine types of the Rust sources, Rust's
  \<^verbatim>\<open>Result\<close> and its \<^verbatim>\<open>?\<close> operator, the saturating integer operations of the standard
  library, and little-endian encodings of integers with their round trips.

  \<^item> \<open>'e + 'a\<close> is \<^verbatim>\<open>Result\<close>: \<open>Inl\<close> is \<^verbatim>\<open>Err\<close>, \<open>Inr\<close> is \<^verbatim>\<open>Ok\<close>.
  \<^item> \<^verbatim>\<open>u8\<close>, \<^verbatim>\<open>u16\<close>, \<^verbatim>\<open>u32\<close>, \<^verbatim>\<open>u64\<close> are words of that width; \<^verbatim>\<open>i64\<close> and \<^verbatim>\<open>i128\<close> values
    (timestamps) are \<open>int\<close> and every operation that could leave the range saturates
    explicitly, as the sources do; \<^verbatim>\<open>usize\<close> counts are \<open>nat\<close>.
  \<^item> \<^verbatim>\<open>[u8; 32]\<close> is a 256-bit word, \<^verbatim>\<open>[u8; 24]\<close> a 192-bit word and a \<^verbatim>\<open>Uuid\<close> a 128-bit
    word: the width is in the type, as it is in Rust.
\<close>

section \<open>Machine types\<close>

type_synonym byte = "8 word"
type_synonym u16 = "16 word"
type_synonym u32 = "32 word"
type_synonym u64 = "64 word"
type_synonym digest = "256 word"
type_synonym nonce24 = "192 word"
type_synonym uuid = "128 word"

named_theorems rust_defs \<open>definitions of the operations being modelled\<close>
named_theorems domain_simps \<open>characteristic equations of the domain data types\<close>
named_theorems path_simps \<open>equations about paths and their components\<close>
named_theorems journal_simps \<open>equations about journals and event chains\<close>

section \<open>Result and the question mark operator\<close>

text \<open>\<^verbatim>\<open>r?\<close> followed by the rest of the function.\<close>

definition try_bind :: "'e + 'a \<Rightarrow> ('a \<Rightarrow> 'e + 'b) \<Rightarrow> 'e + 'b" where
  "try_bind r k = (case r of Inl e \<Rightarrow> Inl e | Inr x \<Rightarrow> k x)"

text \<open>\<^verbatim>\<open>option.ok_or(e)\<close>\<close>

definition ok_or :: "'a option \<Rightarrow> 'e \<Rightarrow> 'e + 'a" where
  "ok_or x e = (case x of None \<Rightarrow> Inl e | Some y \<Rightarrow> Inr y)"

text \<open>\<^verbatim>\<open>result.map_err(f)\<close>\<close>

definition map_err :: "('e \<Rightarrow> 'd) \<Rightarrow> 'e + 'a \<Rightarrow> 'd + 'a" where
  "map_err f r = (case r of Inl e \<Rightarrow> Inl (f e) | Inr x \<Rightarrow> Inr x)"

definition is_ok :: "'e + 'a \<Rightarrow> bool" where
  "is_ok r = (case r of Inl _ \<Rightarrow> False | Inr _ \<Rightarrow> True)"

text \<open>
  A computation on a world \<open>'w\<close> that may fail; the world it reached is kept on failure,
  because an early return of the source does not undo the effects before it.
\<close>

type_synonym ('w, 'e, 'a) eff = "'w \<Rightarrow> ('e + 'a) \<times> 'w"

definition eff_ok :: "'a \<Rightarrow> ('w, 'e, 'a) eff" where
  "eff_ok x w = (Inr x, w)"

definition eff_err :: "'e \<Rightarrow> ('w, 'e, 'a) eff" where
  "eff_err e w = (Inl e, w)"

definition eff_bind :: "('w, 'e, 'a) eff \<Rightarrow> ('a \<Rightarrow> ('w, 'e, 'b) eff) \<Rightarrow> ('w, 'e, 'b) eff" where
  "eff_bind m k w = (case m w of (Inl e, w') \<Rightarrow> (Inl e, w') | (Inr x, w') \<Rightarrow> k x w')"

text \<open>A pure result inside an effectful function.\<close>

definition eff_lift :: "'e + 'a \<Rightarrow> ('w, 'e, 'a) eff" where
  "eff_lift r w = (r, w)"

definition eff_map_err :: "('e \<Rightarrow> 'd) \<Rightarrow> ('w, 'e, 'a) eff \<Rightarrow> ('w, 'd, 'a) eff" where
  "eff_map_err f m w = (case m w of (r, w') \<Rightarrow> (map_err f r, w'))"

lemma try_bind_simps [simp]:
  "try_bind (Inl e) k = Inl e"
  "try_bind (Inr x) k = k x"
  by (simp_all add: try_bind_def)

lemma ok_or_simps [simp]:
  "ok_or None e = Inl e"
  "ok_or (Some x) e = Inr x"
  by (simp_all add: ok_or_def)

lemma map_err_simps [simp]:
  "map_err f (Inl e) = Inl (f e)"
  "map_err f (Inr x) = Inr x"
  by (simp_all add: map_err_def)

lemma is_ok_simps [simp]:
  "is_ok (Inl e) = False"
  "is_ok (Inr x) = True"
  by (simp_all add: is_ok_def)

lemma try_bind_Inr: "try_bind r k = Inr y \<longleftrightarrow> (\<exists>x. r = Inr x \<and> k x = Inr y)"
  by (cases r) auto

lemma try_bind_Inl: "try_bind r k = Inl e \<longleftrightarrow> r = Inl e \<or> (\<exists>x. r = Inr x \<and> k x = Inl e)"
  by (cases r) auto

lemma ok_or_Inr: "ok_or x e = Inr y \<longleftrightarrow> x = Some y"
  by (cases x) auto

lemma map_err_Inr: "map_err f r = Inr y \<longleftrightarrow> r = Inr y"
  by (cases r) auto

lemma eff_simps [simp]:
  "eff_ok x w = (Inr x, w)"
  "eff_err e w = (Inl e, w)"
  "eff_lift r w = (r, w)"
  by (simp_all add: eff_ok_def eff_err_def eff_lift_def)

lemma eff_bind_eqs [simp]:
  "eff_bind (eff_ok x) k w = k x w"
  "eff_bind (eff_err e) k w = (Inl e, w)"
  "eff_bind (eff_lift r) k w = (case r of Inl e \<Rightarrow> (Inl e, w) | Inr x \<Rightarrow> k x w)"
  by (simp_all add: eff_bind_def split: sum.splits)

lemma eff_bind_Inr:
  "eff_bind m k w = (Inr y, w'') \<longleftrightarrow> (\<exists>x w'. m w = (Inr x, w') \<and> k x w' = (Inr y, w''))"
  by (auto simp: eff_bind_def split: prod.splits sum.splits)

lemma eff_bind_step:
  "m w = (Inr x, w') \<Longrightarrow> eff_bind m k w = k x w'"
  "m w = (Inl e, w') \<Longrightarrow> eff_bind m k w = (Inl e, w')"
  by (simp_all add: eff_bind_def)

section \<open>Saturating arithmetic\<close>

text \<open>\<^verbatim>\<open>u64::saturating_add(1)\<close>, the only saturating increment of a word in the sources.\<close>

definition sat_succ64 :: "u64 \<Rightarrow> u64" where
  "sat_succ64 n = (if n = - 1 then n else n + 1)"

text \<open>\<^verbatim>\<open>i64::saturating_add\<close> and \<^verbatim>\<open>i64::saturating_sub\<close> on values in range.\<close>

definition i64_min :: int where "i64_min = - (2 ^ 63)"
definition i64_max :: int where "i64_max = 2 ^ 63 - 1"

definition clamp_i64 :: "int \<Rightarrow> int" where
  "clamp_i64 x = max i64_min (min i64_max x)"

definition sat_add_i64 :: "int \<Rightarrow> int \<Rightarrow> int" where
  "sat_add_i64 a b = clamp_i64 (a + b)"

definition sat_sub_i64 :: "int \<Rightarrow> int \<Rightarrow> int" where
  "sat_sub_i64 a b = clamp_i64 (a - b)"

lemma clamp_i64_id: "i64_min \<le> x \<Longrightarrow> x \<le> i64_max \<Longrightarrow> clamp_i64 x = x"
  by (simp add: clamp_i64_def)

lemma sat_succ64_unat: "unat n < 2 ^ 64 - 1 \<Longrightarrow> unat (sat_succ64 n) = unat n + 1"
proof -
  assume n: "unat n < 2 ^ 64 - 1"
  then have "n \<noteq> - 1" by (auto simp: unsigned_minus_1_eq_mask mask_eq_exp_minus_1)
  with n show ?thesis by (simp add: sat_succ64_def unat_word_ariths)
qed

lemma sat_succ64_of_nat: "n < 2 ^ 64 - 1 \<Longrightarrow> sat_succ64 (of_nat n) = of_nat (Suc n)"
proof -
  assume n: "n < 2 ^ 64 - 1"
  then have u: "unat (of_nat n :: u64) = n" by (simp add: unsigned_of_nat take_bit_eq_mod)
  have "(of_nat n :: u64) \<noteq> - 1"
  proof
    assume "(of_nat n :: u64) = - 1"
    then have "unat (of_nat n :: u64) = 2 ^ 64 - 1" by (simp add: unsigned_minus_1_eq_mask mask_eq_exp_minus_1)
    with u n show False by simp
  qed
  then show ?thesis by (simp add: sat_succ64_def)
qed

section \<open>Little-endian bytes\<close>

fun le_bytes :: "nat \<Rightarrow> nat \<Rightarrow> byte list" where
  "le_bytes 0 n = []"
| "le_bytes (Suc k) n = of_nat (n mod 256) # le_bytes k (n div 256)"

fun from_le :: "byte list \<Rightarrow> nat" where
  "from_le [] = 0"
| "from_le (b # bs) = unat b + 256 * from_le bs"

definition be_bytes :: "nat \<Rightarrow> nat \<Rightarrow> byte list" where
  "be_bytes k n = rev (le_bytes k n)"

definition from_be :: "byte list \<Rightarrow> nat" where
  "from_be bs = from_le (rev bs)"

lemma length_le_bytes [simp]: "length (le_bytes k n) = k"
  by (induction k arbitrary: n) auto

lemma from_le_le_bytes: "from_le (le_bytes k n) = n mod 256 ^ k"
proof (induction k arbitrary: n)
  case 0
  then show ?case by simp
next
  case (Suc k)
  have "unat (of_nat (n mod 256) :: byte) = n mod 256"
    by (simp add: unsigned_of_nat take_bit_eq_mod)
  then show ?case
    using Suc [of "n div 256"] by (simp add: mod_mult2_eq mult.commute)
qed

lemma le_bytes_from_le: "le_bytes (length bs) (from_le bs) = bs"
proof (induction bs)
  case Nil
  then show ?case by simp
next
  case (Cons b bs)
  have b: "unat b < 256" using unsigned_less [of b] by simp
  then have "(unat b + 256 * from_le bs) mod 256 = unat b"
    and "(unat b + 256 * from_le bs) div 256 = from_le bs"
    by simp_all
  with Cons show ?case by simp
qed

lemma from_le_less: "from_le bs < 256 ^ length bs"
  using from_le_le_bytes [of "length bs" "from_le bs"]
  by (simp add: le_bytes_from_le) (metis mod_less_divisor zero_less_numeral zero_less_power)

lemma from_be_be_bytes: "n < 256 ^ k \<Longrightarrow> from_be (be_bytes k n) = n"
  by (simp add: from_be_def be_bytes_def from_le_le_bytes)

lemma length_be_bytes [simp]: "length (be_bytes k n) = k"
  by (simp add: be_bytes_def)

lemma be_bytes_from_be: "be_bytes (length bs) (from_be bs) = bs"
  using le_bytes_from_le [of "rev bs"] by (simp add: be_bytes_def from_be_def)

text \<open>\<^verbatim>\<open>to_le_bytes\<close> of a word and the bytes of a fixed-width array.\<close>

definition word_le_bytes :: "nat \<Rightarrow> 'a::len word \<Rightarrow> byte list" where
  "word_le_bytes k w = le_bytes k (unat w)"

lemma length_word_le_bytes [simp]: "length (word_le_bytes k w) = k"
  by (simp add: word_le_bytes_def)

lemma word_le_bytes_inj:
  fixes v w :: "'a::len word"
  assumes "LENGTH('a) \<le> 8 * k" and "word_le_bytes k v = word_le_bytes k w"
  shows "v = w"
proof -
  have le: "(2::nat) ^ LENGTH('a) \<le> 256 ^ k"
  proof -
    have "(2::nat) ^ LENGTH('a) \<le> 2 ^ (8 * k)"
      using assms(1) by (simp add: power_increasing)
    also have "\<dots> = 256 ^ k" by (simp add: power_mult)
    finally show ?thesis .
  qed
  have "unat v mod 256 ^ k = unat w mod 256 ^ k"
    using assms(2) by (metis from_le_le_bytes word_le_bytes_def)
  moreover have "unat v < 256 ^ k" and "unat w < 256 ^ k"
    using le unsigned_less [of v, where ?'a = nat] unsigned_less [of w, where ?'a = nat] by linarith+
  ultimately show ?thesis by (simp add: word_unat_eq_iff)
qed

abbreviation digest_bytes :: "digest \<Rightarrow> byte list" where
  "digest_bytes \<equiv> word_le_bytes 32"

lemma digest_bytes_inj: "digest_bytes d = digest_bytes d' \<Longrightarrow> d = d'"
  by (rule word_le_bytes_inj [of 32]) simp_all

text \<open>\<^verbatim>\<open>i64::to_le_bytes\<close>: two's complement in eight bytes.\<close>

definition i64_le_bytes :: "int \<Rightarrow> byte list" where
  "i64_le_bytes x = word_le_bytes 8 (word_of_int x :: u64)"

lemma length_i64_le_bytes [simp]: "length (i64_le_bytes x) = 8"
  by (simp add: i64_le_bytes_def)

definition is_i64 :: "int \<Rightarrow> bool" where
  "is_i64 x \<longleftrightarrow> i64_min \<le> x \<and> x \<le> i64_max"

lemma i64_le_bytes_inj:
  assumes "i64_le_bytes x = i64_le_bytes y" and "is_i64 x" and "is_i64 y"
  shows "x = y"
proof -
  have w: "(word_of_int x :: u64) = word_of_int y"
    using assms(1) unfolding i64_le_bytes_def by (rule word_le_bytes_inj [rotated]) simp
  have "signed_take_bit 63 x = x" "signed_take_bit 63 y = y"
    using assms(2,3)
    by (auto simp: is_i64_def i64_min_def i64_max_def intro!: signed_take_bit_int_eq_self)
  moreover have "sint (word_of_int x :: u64) = sint (word_of_int y :: u64)"
    using w by simp
  ultimately show ?thesis by (simp add: signed_of_int)
qed

section \<open>Lists\<close>

text \<open>\<^verbatim>\<open>iter().find_map(f)\<close>\<close>

fun find_map :: "('a \<Rightarrow> 'b option) \<Rightarrow> 'a list \<Rightarrow> 'b option" where
  "find_map f [] = None"
| "find_map f (x # xs) = (case f x of None \<Rightarrow> find_map f xs | Some y \<Rightarrow> Some y)"

lemma find_map_None: "find_map f xs = None \<longleftrightarrow> (\<forall>x \<in> set xs. f x = None)"
  by (induction xs) (auto split: option.splits)

lemma find_map_Some: "find_map f xs = Some y \<Longrightarrow> \<exists>x \<in> set xs. f x = Some y"
  by (induction xs) (auto split: option.splits)

text \<open>
  An explicit collision: two different inputs with one hash value. Integrity theorems
  exhibit the colliding pair instead of assuming that a 256-bit hash is injective.
\<close>

definition collide :: "('a \<Rightarrow> 'b) \<Rightarrow> 'a \<Rightarrow> 'a \<Rightarrow> bool" where
  "collide h x y \<longleftrightarrow> x \<noteq> y \<and> h x = h y"

lemma collideI: "h x = h y \<Longrightarrow> x = y \<or> collide h x y"
  by (auto simp: collide_def)

lemma collideE: "collide h x y \<Longrightarrow> (x \<noteq> y \<Longrightarrow> h x = h y \<Longrightarrow> P) \<Longrightarrow> P"
  by (auto simp: collide_def)

end
