(* ===== verification/Rust_Text.thy ===== *)
theory Rust_Text
  imports Prelude
begin

text \<open>
  Rust text: a \<^verbatim>\<open>char\<close> is a Unicode scalar value, a \<^verbatim>\<open>String\<close> a sequence of them. The
  standard-library operations the sources use are defined here: \<^verbatim>\<open>encode_utf16\<close> and its
  inverse \<^verbatim>\<open>String::from_utf16\<close>, the UTF-8 bytes of a string, \<^verbatim>\<open>trim\<close>, \<^verbatim>\<open>split\<close>,
  \<^verbatim>\<open>rsplit_once\<close>, \<^verbatim>\<open>strip_prefix\<close>, \<^verbatim>\<open>replace\<close>, \<^verbatim>\<open>join\<close>, ASCII case mapping and the
  character classes. Full Unicode \<^verbatim>\<open>to_lowercase\<close> needs the Unicode tables and is a
  parameter (\<open>lower\<close>) of the definitions that use it; \<open>ascii_lower\<close> agrees with it on
  ASCII text and instantiates it in the witnesses.
\<close>

section \<open>Characters and strings\<close>

type_synonym uchar = nat
type_synonym ustring = "uchar list"

text \<open>A literal of the source (ASCII part).\<close>

definition lit :: "string \<Rightarrow> ustring" where
  "lit s = map of_char s"

definition is_scalar :: "uchar \<Rightarrow> bool" where
  "is_scalar c \<longleftrightarrow> c < 0x110000 \<and> \<not> (0xD800 \<le> c \<and> c < 0xE000)"

definition wf_text :: "ustring \<Rightarrow> bool" where
  "wf_text s \<longleftrightarrow> list_all is_scalar s"

lemma lit_simps:
  "lit [] = []"
  "lit (c # s) = of_char c # lit s"
  by (simp_all add: lit_def)

lemma lit_inject [simp]: "lit s = lit t \<longleftrightarrow> s = t"
  unfolding lit_def by (rule inj_map_eq_map) (simp add: inj_def)

lemma wf_text_simps [simp]:
  "wf_text []"
  "wf_text (c # s) \<longleftrightarrow> is_scalar c \<and> wf_text s"
  "wf_text (s @ t) \<longleftrightarrow> wf_text s \<and> wf_text t"
  by (simp_all add: wf_text_def)

section \<open>Character classes\<close>

text \<open>\<^verbatim>\<open>char::is_control\<close> is the general category Cc.\<close>

definition is_control :: "uchar \<Rightarrow> bool" where
  "is_control c \<longleftrightarrow> c < 0x20 \<or> (0x7F \<le> c \<and> c < 0xA0)"

text \<open>\<^verbatim>\<open>char::is_whitespace\<close> is the property White\_Space.\<close>

definition is_whitespace :: "uchar \<Rightarrow> bool" where
  "is_whitespace c \<longleftrightarrow>
     (9 \<le> c \<and> c \<le> 13) \<or> c = 0x20 \<or> c = 0x85 \<or> c = 0xA0 \<or> c = 0x1680
     \<or> (0x2000 \<le> c \<and> c \<le> 0x200A) \<or> c = 0x2028 \<or> c = 0x2029 \<or> c = 0x202F
     \<or> c = 0x205F \<or> c = 0x3000"

definition is_ascii_upper :: "uchar \<Rightarrow> bool" where
  "is_ascii_upper c \<longleftrightarrow> 65 \<le> c \<and> c \<le> 90"

definition is_ascii_lower :: "uchar \<Rightarrow> bool" where
  "is_ascii_lower c \<longleftrightarrow> 97 \<le> c \<and> c \<le> 122"

definition is_ascii_alphabetic :: "uchar \<Rightarrow> bool" where
  "is_ascii_alphabetic c \<longleftrightarrow> is_ascii_upper c \<or> is_ascii_lower c"

definition is_ascii_digit :: "uchar \<Rightarrow> bool" where
  "is_ascii_digit c \<longleftrightarrow> 48 \<le> c \<and> c \<le> 57"

definition upper_char :: "uchar \<Rightarrow> uchar" where
  "upper_char c = (if is_ascii_lower c then c - 32 else c)"

definition lower_char :: "uchar \<Rightarrow> uchar" where
  "lower_char c = (if is_ascii_upper c then c + 32 else c)"

definition to_ascii_uppercase :: "ustring \<Rightarrow> ustring" where
  "to_ascii_uppercase s = map upper_char s"

definition ascii_lower :: "ustring \<Rightarrow> ustring" where
  "ascii_lower s = map lower_char s"

definition eq_ignore_ascii_case :: "ustring \<Rightarrow> ustring \<Rightarrow> bool" where
  "eq_ignore_ascii_case s t \<longleftrightarrow> ascii_lower s = ascii_lower t"

lemmas char_class_defs =
  is_control_def is_whitespace_def is_ascii_upper_def is_ascii_lower_def
  is_ascii_alphabetic_def is_ascii_digit_def upper_char_def lower_char_def

section \<open>UTF-16\<close>

definition len_utf16 :: "uchar \<Rightarrow> nat" where
  "len_utf16 c = (if c < 0x10000 then 1 else 2)"

fun encode_utf16 :: "ustring \<Rightarrow> nat list" where
  "encode_utf16 [] = []"
| "encode_utf16 (c # s) =
     (if c < 0x10000 then [c]
      else [0xD800 + (c - 0x10000) div 0x400, 0xDC00 + (c - 0x10000) mod 0x400])
     @ encode_utf16 s"

text \<open>\<^verbatim>\<open>s.encode_utf16().count()\<close>\<close>

definition utf16_count :: "ustring \<Rightarrow> nat" where
  "utf16_count s = sum_list (map len_utf16 s)"

fun from_utf16 :: "nat list \<Rightarrow> ustring option" where
  "from_utf16 [] = Some []"
| "from_utf16 (u # us) =
     (if \<not> (0xD800 \<le> u \<and> u < 0xE000) then map_option ((#) u) (from_utf16 us)
      else if 0xDC00 \<le> u then None
      else (case us of
              [] \<Rightarrow> None
            | v # vs \<Rightarrow>
                if 0xDC00 \<le> v \<and> v < 0xE000
                then map_option ((#) (0x10000 + (u - 0xD800) * 0x400 + (v - 0xDC00)))
                       (from_utf16 vs)
                else None))"

lemma len_utf16_pos [simp]: "0 < len_utf16 c"
  by (simp add: len_utf16_def)

lemma utf16_count_simps [simp]:
  "utf16_count [] = 0"
  "utf16_count (c # s) = len_utf16 c + utf16_count s"
  "utf16_count (s @ t) = utf16_count s + utf16_count t"
  by (simp_all add: utf16_count_def)

lemma utf16_count_eq_length: "utf16_count s = length (encode_utf16 s)"
  by (induction s) (auto simp: len_utf16_def)

lemma length_le_utf16_count: "length s \<le> utf16_count s"
  by (induction s) (auto simp: len_utf16_def)

lemma from_utf16_encode_utf16: "wf_text s \<Longrightarrow> from_utf16 (encode_utf16 s) = Some s"
proof (induction s)
  case Nil
  then show ?case by simp
next
  case (Cons c s)
  then have sc: "is_scalar c" and IH: "from_utf16 (encode_utf16 s) = Some s" by simp_all
  show ?case
  proof (cases "c < 0x10000")
    case True
    with sc IH show ?thesis by (auto simp: is_scalar_def)
  next
    case False
    define d where "d = c - 0x10000"
    have c: "c = 0x10000 + d" and d: "d < 0x100000"
      using False sc by (simp_all add: d_def is_scalar_def)
    have hi: "d div 0x400 < 0x400" using d by (simp add: less_mult_imp_div_less)
    have lo: "d mod 0x400 < 0x400" by simp
    have "d div 0x400 * 0x400 + d mod 0x400 = d" by simp
    with c hi lo IH show ?thesis by simp
  qed
qed

lemma encode_utf16_units: "wf_text s \<Longrightarrow> u \<in> set (encode_utf16 s) \<Longrightarrow> u < 0x10000"
proof (induction s)
  case (Cons c s)
  have "\<not> c < 0x10000 \<Longrightarrow> is_scalar c \<Longrightarrow> (c - 0x10000) div 0x400 < 0x400"
    by (simp add: is_scalar_def less_mult_imp_div_less)
  moreover have "(c - 0x10000) mod 0x400 < 0x400" by simp
  ultimately show ?case using Cons by (auto split: if_splits)
qed simp

text \<open>\<^verbatim>\<open>u16::to_le_bytes\<close> of every unit, and the units of a byte sequence of even length.\<close>

definition units_to_le :: "nat list \<Rightarrow> byte list" where
  "units_to_le us = concat (map (le_bytes 2) us)"

fun units_from_le :: "byte list \<Rightarrow> nat list option" where
  "units_from_le [] = Some []"
| "units_from_le [b] = None"
| "units_from_le (a # b # bs) = map_option ((#) (unat a + 256 * unat b)) (units_from_le bs)"

lemma units_from_le_units_to_le:
  "\<forall>u \<in> set us. u < 0x10000 \<Longrightarrow> units_from_le (units_to_le us) = Some us"
proof (induction us)
  case Nil
  then show ?case by (simp add: units_to_le_def)
next
  case (Cons u us)
  then have u: "u < 256 ^ 2" by simp
  have "from_le (le_bytes 2 u) = u" using u by (simp only: from_le_le_bytes mod_less)
  with Cons show ?case
    by (simp add: units_to_le_def numeral_2_eq_2)
qed

section \<open>UTF-8\<close>

definition utf8_char :: "uchar \<Rightarrow> nat list" where
  "utf8_char c =
     (if c < 0x80 then [c]
      else if c < 0x800 then [0xC0 + c div 0x40, 0x80 + c mod 0x40]
      else if c < 0x10000 then [0xE0 + c div 0x1000, 0x80 + c div 0x40 mod 0x40, 0x80 + c mod 0x40]
      else [0xF0 + c div 0x40000, 0x80 + c div 0x1000 mod 0x40, 0x80 + c div 0x40 mod 0x40,
            0x80 + c mod 0x40])"

text \<open>\<^verbatim>\<open>String::into_bytes\<close>\<close>

definition utf8_bytes :: "ustring \<Rightarrow> byte list" where
  "utf8_bytes s = map of_nat (concat (map utf8_char s))"

lemma utf8_bytes_simps [simp]:
  "utf8_bytes [] = []"
  "utf8_bytes (s @ t) = utf8_bytes s @ utf8_bytes t"
  by (simp_all add: utf8_bytes_def)

lemma utf8_bytes_Cons: "utf8_bytes (c # s) = map of_nat (utf8_char c) @ utf8_bytes s"
  by (simp add: utf8_bytes_def)

lemma utf8_char_range: "is_scalar c \<Longrightarrow> b \<in> set (utf8_char c) \<Longrightarrow> b < 256"
  by (auto simp: utf8_char_def is_scalar_def split: if_splits)

text \<open>
  An ASCII byte occurs in the UTF-8 encoding of a string only as that ASCII character:
  every byte of a longer sequence is at least 0x80.
\<close>

lemma utf8_char_ascii: "is_scalar c \<Longrightarrow> b \<in> set (utf8_char c) \<Longrightarrow> b < 0x80 \<Longrightarrow> c = b"
  by (auto simp: utf8_char_def split: if_splits)

lemma utf8_bytes_ascii:
  assumes "wf_text s" and "a < 0x80" and "(of_nat a :: byte) \<in> set (utf8_bytes s)"
  shows "a \<in> set s"
proof -
  obtain c b where c: "c \<in> set s" and b: "b \<in> set (utf8_char c)" and eq: "(of_nat a :: byte) = of_nat b"
    using assms(3) by (auto simp: utf8_bytes_def)
  have sc: "is_scalar c" using assms(1) c by (simp add: wf_text_def list_all_iff)
  have "unat (of_nat a :: byte) = a" "unat (of_nat b :: byte) = b"
    using assms(2) utf8_char_range [OF sc b] by (simp_all add: unsigned_of_nat take_bit_eq_mod)
  with eq have "a = b" by metis
  with utf8_char_ascii [OF sc b] assms(2) c show ?thesis by simp
qed

section \<open>Trimming, splitting, joining\<close>

definition trim_end_by :: "(uchar \<Rightarrow> bool) \<Rightarrow> ustring \<Rightarrow> ustring" where
  "trim_end_by P s = rev (dropWhile P (rev s))"

definition trim :: "ustring \<Rightarrow> ustring" where
  "trim s = trim_end_by is_whitespace (dropWhile is_whitespace s)"

text \<open>\<^verbatim>\<open>s.ends_with([..])\<close>\<close>

definition ends_with_any :: "uchar list \<Rightarrow> ustring \<Rightarrow> bool" where
  "ends_with_any cs s \<longleftrightarrow> s \<noteq> [] \<and> last s \<in> set cs"

text \<open>\<^verbatim>\<open>s.split(c).next().unwrap_or_default()\<close>: the text before the first separator.\<close>

definition first_split :: "uchar \<Rightarrow> ustring \<Rightarrow> ustring" where
  "first_split c s = takeWhile (\<lambda>x. x \<noteq> c) s"

text \<open>\<^verbatim>\<open>s.rsplit_once(c)\<close>\<close>

definition rsplit_once :: "uchar \<Rightarrow> ustring \<Rightarrow> (ustring \<times> ustring) option" where
  "rsplit_once c s =
     (if c \<in> set s
      then Some (rev (tl (dropWhile (\<lambda>x. x \<noteq> c) (rev s))), rev (takeWhile (\<lambda>x. x \<noteq> c) (rev s)))
      else None)"

fun strip_prefix :: "'a list \<Rightarrow> 'a list \<Rightarrow> 'a list option" where
  "strip_prefix [] s = Some s"
| "strip_prefix (p # ps) [] = None"
| "strip_prefix (p # ps) (c # s) = (if p = c then strip_prefix ps s else None)"

definition starts_with :: "'a list \<Rightarrow> 'a list \<Rightarrow> bool" where
  "starts_with p s \<longleftrightarrow> strip_prefix p s \<noteq> None"

text \<open>\<^verbatim>\<open>s.contains(pattern)\<close>\<close>

fun contains_text :: "ustring \<Rightarrow> ustring \<Rightarrow> bool" where
  "contains_text p [] \<longleftrightarrow> p = []"
| "contains_text p (c # s) \<longleftrightarrow> starts_with p (c # s) \<or> contains_text p s"

definition replace_char :: "uchar \<Rightarrow> uchar \<Rightarrow> ustring \<Rightarrow> ustring" where
  "replace_char a b s = map (\<lambda>c. if c = a then b else c) s"

text \<open>\<^verbatim>\<open>s.replacen(c, t, 1)\<close>\<close>

fun replace_first :: "uchar \<Rightarrow> uchar \<Rightarrow> ustring \<Rightarrow> ustring" where
  "replace_first a b [] = []"
| "replace_first a b (c # s) = (if c = a then b # s else c # replace_first a b s)"

text \<open>\<^verbatim>\<open>parts.join(sep)\<close>\<close>

fun join_with :: "ustring \<Rightarrow> ustring list \<Rightarrow> ustring" where
  "join_with sep [] = []"
| "join_with sep [s] = s"
| "join_with sep (s # t # ts) = s @ sep @ join_with sep (t # ts)"

lemma strip_prefix_Some: "strip_prefix p s = Some t \<longleftrightarrow> s = p @ t"
  by (induction p s rule: strip_prefix.induct) auto

lemma starts_with_iff: "starts_with p s \<longleftrightarrow> (\<exists>t. s = p @ t)"
  by (auto simp: starts_with_def strip_prefix_Some)

lemma rsplit_once_Some:
  assumes "rsplit_once c s = Some (a, b)"
  shows "s = a @ c # b" and "c \<notin> set b"
proof -
  let ?r = "rev s"
  have c: "c \<in> set ?r" and a: "a = rev (tl (dropWhile (\<lambda>x. x \<noteq> c) ?r))"
    and b: "b = rev (takeWhile (\<lambda>x. x \<noteq> c) ?r)"
    using assms by (auto simp: rsplit_once_def split: if_splits)
  have ne: "dropWhile (\<lambda>x. x \<noteq> c) ?r \<noteq> []" using c by (simp add: dropWhile_eq_Nil_conv)
  then have "hd (dropWhile (\<lambda>x. x \<noteq> c) ?r) = c" using hd_dropWhile [of "\<lambda>x. x \<noteq> c" ?r] by simp
  then have "dropWhile (\<lambda>x. x \<noteq> c) ?r = c # rev a" using ne a by (cases "dropWhile (\<lambda>x. x \<noteq> c) ?r") auto
  then have "?r = rev b @ c # rev a" using b by (metis rev_rev_ident takeWhile_dropWhile_id)
  then have "rev ?r = rev (rev b @ c # rev a)" by (rule arg_cong)
  then show "s = a @ c # b" by simp
  show "c \<notin> set b" using b by (auto dest: set_takeWhileD)
qed

lemma trim_end_by_not_last: "trim_end_by P s \<noteq> [] \<Longrightarrow> \<not> P (last (trim_end_by P s))"
  by (simp add: trim_end_by_def last_rev hd_dropWhile)

lemma trim_end_by_prefix: "\<exists>t. s = trim_end_by P s @ t \<and> (\<forall>x \<in> set t. P x)"
proof -
  have "s = rev (dropWhile P (rev s)) @ rev (takeWhile P (rev s))"
    by (metis rev_append rev_rev_ident takeWhile_dropWhile_id)
  moreover have "\<forall>x \<in> set (rev (takeWhile P (rev s))). P x"
    by (auto dest: set_takeWhileD)
  ultimately show ?thesis by (auto simp: trim_end_by_def)
qed

lemma trim_end_by_set: "set (trim_end_by P s) \<subseteq> set s"
  using trim_end_by_prefix [of s P] by (metis Un_upper1 set_append)

lemma trim_set: "set (trim s) \<subseteq> set s"
  using trim_end_by_set [of is_whitespace "dropWhile is_whitespace s"]
  by (auto simp: trim_def dest: set_dropWhileD)

lemma trim_empty_iff: "trim s = [] \<longleftrightarrow> list_all is_whitespace s"
proof
  assume e: "trim s = []"
  obtain t where t: "dropWhile is_whitespace s = trim s @ t" "\<forall>x \<in> set t. is_whitespace x"
    using trim_end_by_prefix [of "dropWhile is_whitespace s" is_whitespace] by (auto simp: trim_def)
  then have "\<forall>x \<in> set (dropWhile is_whitespace s). is_whitespace x" using e by simp
  moreover have "\<forall>x \<in> set (takeWhile is_whitespace s). is_whitespace x" by (auto dest: set_takeWhileD)
  ultimately show "list_all is_whitespace s"
    by (metis Un_iff list_all_iff set_append takeWhile_dropWhile_id)
next
  assume "list_all is_whitespace s"
  then have "\<forall>x \<in> set s. is_whitespace x" by (simp add: list_all_iff)
  then have d: "dropWhile is_whitespace s = []" by (simp only: dropWhile_eq_Nil_conv)
  show "trim s = []" unfolding trim_def d by (simp add: trim_end_by_def)
qed

lemma replace_char_set: "a \<noteq> b \<Longrightarrow> a \<notin> set (replace_char a b s)"
  by (auto simp: replace_char_def)

lemma wf_text_subset: "wf_text s \<Longrightarrow> set t \<subseteq> set s \<Longrightarrow> wf_text t"
  by (auto simp: wf_text_def list_all_iff)

lemma wf_text_join: "wf_text sep \<Longrightarrow> \<forall>t \<in> set ts. wf_text t \<Longrightarrow> wf_text (join_with sep ts)"
  by (induction sep ts rule: join_with.induct) auto

section \<open>Decimal numbers\<close>

text \<open>\<^verbatim>\<open>format!("{n}")\<close> of an unsigned number.\<close>

fun dec :: "nat \<Rightarrow> ustring" where
  "dec n = (if n < 10 then [48 + n] else dec (n div 10) @ [48 + n mod 10])"

declare dec.simps [simp del]

lemma dec_digits: "c \<in> set (dec n) \<Longrightarrow> is_ascii_digit c"
proof (induction n rule: dec.induct)
  case (1 n)
  have "n mod 10 < 10" by simp
  with 1 show ?case
    by (subst (asm) dec.simps) (auto simp: is_ascii_digit_def split: if_splits)
qed

lemma dec_neq_Nil [simp]: "dec n \<noteq> []"
  by (subst dec.simps) simp

lemma dec_inj: "dec m = dec n \<Longrightarrow> m = n"
proof (induction m arbitrary: n rule: dec.induct)
  case (1 m)
  show ?case
  proof (cases "m < 10")
    case True
    then show ?thesis
      using "1.prems" dec_neq_Nil [symmetric]
      by (simp add: dec.simps [of m] dec.simps [of n] split: if_splits)
  next
    case False
    then have n: "\<not> n < 10"
      using "1.prems" by (auto simp: dec.simps [of m] dec.simps [of n])
    then have "dec (m div 10) = dec (n div 10)" and m: "m mod 10 = n mod 10"
      using "1.prems" False by (simp_all add: dec.simps [of m] dec.simps [of n])
    then have "m div 10 = n div 10" using "1.IH" False by blast
    with m show ?thesis by (metis mult_div_mod_eq)
  qed
qed

end
