(* ===== verification/Domain_Types.thy ===== *)
theory Domain_Types
  imports Complex_Main Rust_Text
begin

text \<open>
  The value types of \<^verbatim>\<open>crates/domain/src/file.rs\<close>, \<^verbatim>\<open>ids.rs\<close>, \<^verbatim>\<open>search.rs\<close> (evidence)
  and the review-only half of \<^verbatim>\<open>proposal.rs\<close>: files and their fingerprints, proposal items,
  proposal revisions and simulations, with the operations the domain crate defines on them.
  The identifier types of \<^verbatim>\<open>ids.rs\<close> are all newtypes over a 128-bit UUID.
\<close>

section \<open>Identifiers\<close>

type_synonym artifact_id = uuid
type_synonym file_id = uuid
type_synonym file_version_id = uuid
type_synonym root_id = uuid
type_synonym scan_id = uuid
type_synonym workspace_id = uuid
type_synonym proposal_id = uuid
type_synonym proposal_item_id = uuid
type_synonym plan_id = uuid
type_synonym actor_id = uuid
type_synonym execution_id = uuid
type_synonym operation_step_id = uuid
type_synonym organization_revision_id = uuid
type_synonym proposal_node_id = uuid
type_synonym proposal_override_id = uuid
type_synonym rule_id = uuid
type_synonym rule_suggestion_id = uuid
type_synonym learning_observation_id = uuid

section \<open>Files (file.rs)\<close>

datatype platform_kind = Windows | MacOs | Linux | OtherPlatform

datatype path_encoding = WindowsUtf16Le | UnixBytes

record native_path =
  np_encoding :: path_encoding
  np_bytes :: "byte list"

definition native_path_is_empty :: "native_path \<Rightarrow> bool" where
  "native_path_is_empty p \<longleftrightarrow> np_bytes p = []"

datatype display_label = DisplayLabel (label_text: ustring)

datatype display_label_error = LabelEmpty | LabelContainsPathSeparator

definition display_label_new :: "ustring \<Rightarrow> display_label_error + display_label" where
  "display_label_new value =
     (let trimmed = trim value in
      if trimmed = [] then Inl LabelEmpty
      else if 47 \<in> set trimmed \<or> 92 \<in> set trimmed then Inl LabelContainsPathSeparator
      else Inr (DisplayLabel (take 120 trimmed)))"

datatype file_kind = Regular | Directory | SymbolicLink | Special

datatype file_lifecycle = Present | Missing | Offline | Retired

record volume_identity =
  vol_platform :: platform_kind
  vol_stable_identifier :: ustring
  vol_filesystem_type :: "ustring option"
  vol_case_sensitive :: bool
  vol_removable :: bool
  vol_local :: bool

record native_file_identity =
  nid_volume :: volume_identity
  nid_object_key :: "byte list"
  nid_parent_key :: "byte list"
  nid_leaf_name :: native_path
  nid_link_count :: u32
  nid_reparse_tag :: "u32 option"

record file_fingerprint =
  fp_native_identity :: native_file_identity
  fp_byte_size :: u64
  fp_modified_at_ns :: "int option"
  fp_created_at_ns :: "int option"
  fp_attributes :: u64
  fp_quick_digest :: "digest option"
  fp_content_digest :: "digest option"

definition stable_for_apply :: "file_fingerprint \<Rightarrow> bool" where
  "stable_for_apply f \<longleftrightarrow>
     nid_link_count (fp_native_identity f) = 1
     \<and> nid_reparse_tag (fp_native_identity f) = None
     \<and> fp_content_digest f \<noteq> None"

record file_observation =
  obs_file_id :: file_id
  obs_version_id :: file_version_id
  obs_workspace_id :: workspace_id
  obs_root_id :: root_id
  obs_scan_id :: scan_id
  obs_relative_path :: native_path
  obs_display_label :: display_label
  obs_kind :: file_kind
  obs_detected_mime :: "ustring option"
  obs_fingerprint :: file_fingerprint
  obs_read_only :: bool
  obs_hidden :: bool
  obs_cloud_placeholder :: bool
  obs_encrypted :: bool

datatype review_reason =
    LowConfidence | ReasonUncalibrated | ReasonOutOfDistribution | UnsupportedFormat
  | ExtractionFailed | EncryptedContent | ReparsePoint | HardLink | CloudPlaceholder
  | NonLocalVolume | NonNtfsVolume | RemovableVolume | SourceChanged | DestinationConflict
  | InvalidPath | FileLocked | PermissionDenied | CrossVolume | AmbiguousRecovery

section \<open>Floating point values that are only compared\<close>

text \<open>
  An \<^verbatim>\<open>f32\<close> of the proposal model is stored and compared, never computed with. It is a
  finite number (a dyadic rational), an infinity or a NaN; comparisons with NaN are false.
\<close>

datatype f32 = F32_NaN | F32_NegInf | F32_PosInf | F32 rat

fun f32_is_finite :: "f32 \<Rightarrow> bool" where
  "f32_is_finite (F32 _) = True"
| "f32_is_finite _ = False"

fun f32_ge :: "f32 \<Rightarrow> f32 \<Rightarrow> bool" where
  "f32_ge F32_NaN _ = False"
| "f32_ge _ F32_NaN = False"
| "f32_ge F32_PosInf _ = True"
| "f32_ge _ F32_NegInf = True"
| "f32_ge F32_NegInf _ = False"
| "f32_ge _ F32_PosInf = False"
| "f32_ge (F32 x) (F32 y) = (y \<le> x)"

section \<open>Evidence (search.rs)\<close>

datatype evidence_locator =
    TextLocator nat nat "u32 option" "u32 option"
  | PageLocator u32 "(f32 \<times> f32 \<times> f32 \<times> f32) option"
  | MediaLocator u64 u64 "u64 option"

record evidence_ref =
  ev_artifact_id :: artifact_id
  ev_file_version_id :: file_version_id
  ev_display_label :: display_label
  ev_locator :: evidence_locator
  ev_excerpt :: ustring
  ev_excerpt_digest :: digest
  ev_explanation :: "ustring option"

section \<open>Proposals (proposal.rs)\<close>

datatype calibration_state = Calibrated | Uncalibrated | OutOfDistribution

record confidence =
  conf_raw_score :: f32
  conf_probability :: "f32 option"
  conf_calibration :: calibration_state

datatype confidence_error = NotFinite | ProbabilityOutOfRange

definition confidence_new ::
  "f32 \<Rightarrow> f32 option \<Rightarrow> calibration_state \<Rightarrow> confidence_error + confidence" where
  "confidence_new raw_score probability calibration =
     (if \<not> f32_is_finite raw_score then Inl NotFinite
      else if (case probability of
                 None \<Rightarrow> False
               | Some value \<Rightarrow> \<not> (f32_ge value (F32 0) \<and> f32_ge (F32 1) value))
      then Inl ProbabilityOutOfRange
      else Inr \<lparr>conf_raw_score = raw_score, conf_probability = probability,
                conf_calibration = calibration\<rparr>)"

definition is_eligible :: "confidence \<Rightarrow> f32 \<Rightarrow> bool" where
  "is_eligible c threshold \<longleftrightarrow>
     conf_calibration c = Calibrated
     \<and> (case conf_probability c of None \<Rightarrow> False | Some value \<Rightarrow> f32_ge value threshold)"

datatype review_state = Ready | ToReview | Accepted | Rejected | Blocked | Stale

record destination_intent =
  di_root_id :: root_id
  di_folder_components :: "ustring list"
  di_file_name :: ustring

datatype proposal_action = Keep | Move destination_intent | PlaceInReview destination_intent

fun mutates_filesystem :: "proposal_action \<Rightarrow> bool" where
  "mutates_filesystem Keep = False"
| "mutates_filesystem (Move _) = True"
| "mutates_filesystem (PlaceInReview _) = True"

record proposal_item =
  item_id :: proposal_item_id
  item_file_id :: file_id
  item_expected_file_version_id :: file_version_id
  item_action :: proposal_action
  item_review_state :: review_state
  item_confidence :: confidence
  item_rationale :: ustring
  item_evidence :: "evidence_ref list"
  item_counter_evidence :: "evidence_ref list"
  item_uncertainty_reasons :: "review_reason list"
  item_alternatives :: "proposal_action list"

datatype proposal_decision_error = NotReviewable

definition decide_item :: "proposal_item \<Rightarrow> bool \<Rightarrow> proposal_decision_error + proposal_item" where
  "decide_item item accept =
     (if item_review_state item = Blocked \<or> item_review_state item = Stale
      then Inl NotReviewable
      else Inr (item\<lparr>item_review_state := (if accept then Accepted else Rejected)\<rparr>))"

definition requires_decision :: "proposal_item \<Rightarrow> bool" where
  "requires_decision item \<longleftrightarrow>
     mutates_filesystem (item_action item)
     \<and> item_review_state item \<notin> {Accepted, Rejected, Blocked}"

record proposal_revision =
  prop_id :: proposal_id
  prop_workspace_id :: workspace_id
  prop_base_scan_id :: scan_id
  prop_revision :: u32
  prop_policy_digest :: digest
  prop_items :: "proposal_item list"
  prop_created_at_unix_ms :: int

record proposal_counts =
  count_ready :: nat
  count_to_review :: nat
  count_blocked :: nat

definition proposal_counts_default :: proposal_counts where
  "proposal_counts_default = \<lparr>count_ready = 0, count_to_review = 0, count_blocked = 0\<rparr>"

fun count_item :: "proposal_counts \<Rightarrow> review_state \<Rightarrow> proposal_counts" where
  "count_item t Ready = t\<lparr>count_ready := count_ready t + 1\<rparr>"
| "count_item t Accepted = t\<lparr>count_ready := count_ready t + 1\<rparr>"
| "count_item t ToReview = t\<lparr>count_to_review := count_to_review t + 1\<rparr>"
| "count_item t Blocked = t\<lparr>count_blocked := count_blocked t + 1\<rparr>"
| "count_item t Stale = t\<lparr>count_blocked := count_blocked t + 1\<rparr>"
| "count_item t Rejected = t"

definition counts :: "proposal_revision \<Rightarrow> proposal_counts" where
  "counts p = foldl (\<lambda>t item. count_item t (item_review_state item))
                proposal_counts_default (prop_items p)"

definition can_be_sealed :: "proposal_revision \<Rightarrow> bool" where
  "can_be_sealed p \<longleftrightarrow>
     prop_items p \<noteq> []
     \<and> list_all (\<lambda>item. item_review_state item \<in> {Accepted, Rejected}
                        \<or> \<not> mutates_filesystem (item_action item)) (prop_items p)
     \<and> list_ex (\<lambda>item. item_review_state item = Accepted) (prop_items p)"

datatype conflict_severity = Warning | Blocker

record simulation_conflict =
  conflict_item_id :: proposal_item_id
  conflict_reason :: review_reason
  conflict_severity :: conflict_severity
  conflict_message :: ustring

record simulation_diff =
  diff_item_id :: proposal_item_id
  diff_display_label :: ustring
  diff_before_label :: "ustring option"
  diff_after_label :: "ustring option"
  diff_summary :: ustring

record proposal_simulation =
  sim_proposal_id :: proposal_id
  sim_proposal_digest :: digest
  sim_diffs :: "simulation_diff list"
  sim_conflicts :: "simulation_conflict list"
  sim_simulated_at_unix_ms :: int

definition has_blockers :: "proposal_simulation \<Rightarrow> bool" where
  "has_blockers s \<longleftrightarrow> list_ex (\<lambda>c. conflict_severity c = Blocker) (sim_conflicts s)"

section \<open>Properties of the domain operations\<close>

lemma display_label_new_Inr:
  "display_label_new v = Inr l \<longleftrightarrow>
     trim v \<noteq> [] \<and> 47 \<notin> set (trim v) \<and> 92 \<notin> set (trim v) \<and> l = DisplayLabel (take 120 (trim v))"
  by (auto simp: display_label_new_def Let_def)

text \<open>A display label is non-empty, has at most 120 characters and holds no separator.\<close>

theorem display_label_is_safe:
  assumes "display_label_new v = Inr l"
  shows "label_text l \<noteq> []" "length (label_text l) \<le> 120"
    "47 \<notin> set (label_text l)" "92 \<notin> set (label_text l)"
  using assms by (auto simp: display_label_new_Inr dest: in_set_takeD)

lemma f32_ge_refl: "f32_is_finite x \<Longrightarrow> f32_ge x x"
  by (cases x) auto

lemma confidence_new_finite:
  "confidence_new r p c = Inr x \<Longrightarrow> f32_is_finite (conf_raw_score x)"
  by (auto simp: confidence_new_def split: if_splits)

lemma confidence_new_probability:
  assumes "confidence_new r p c = Inr x" and "conf_probability x = Some q"
  shows "\<exists>y. q = F32 y \<and> 0 \<le> y \<and> y \<le> 1"
  using assms by (cases q) (auto simp: confidence_new_def split: if_splits option.splits)

lemma decide_item_Inr:
  "decide_item i a = Inr j \<longleftrightarrow>
     item_review_state i \<noteq> Blocked \<and> item_review_state i \<noteq> Stale
     \<and> j = i\<lparr>item_review_state := (if a then Accepted else Rejected)\<rparr>"
  by (auto simp: decide_item_def)

lemma decided_item_needs_no_decision: "decide_item i a = Inr j \<Longrightarrow> \<not> requires_decision j"
  by (auto simp: decide_item_Inr requires_decision_def)

lemma count_item_total:
  "count_ready (count_item t s) + count_to_review (count_item t s) + count_blocked (count_item t s)
     = count_ready t + count_to_review t + count_blocked t + (if s = Rejected then 0 else 1)"
  by (cases s) auto

lemma counts_fold_total:
  "(let t' = foldl (\<lambda>t item. count_item t (item_review_state item)) t items in
     count_ready t' + count_to_review t' + count_blocked t')
   = count_ready t + count_to_review t + count_blocked t
     + length (filter (\<lambda>item. item_review_state item \<noteq> Rejected) items)"
proof (induction items arbitrary: t)
  case Nil
  then show ?case by simp
next
  case (Cons i items)
  then show ?case by (simp add: Let_def count_item_total)
qed

lemma can_be_sealed_no_pending:
  "can_be_sealed p \<Longrightarrow> item \<in> set (prop_items p) \<Longrightarrow> \<not> requires_decision item"
  by (auto simp: can_be_sealed_def list_all_iff requires_decision_def)

section \<open>Properties\<close>

text \<open>the counters of a proposal add up: ready, to-review and blocked items together are the
  items that are not rejected, so no item is counted twice or lost.\<close>

theorem proposal_counts_partition:
  "count_ready (counts p) + count_to_review (counts p) + count_blocked (counts p)
     = length (filter (\<lambda>item. item_review_state item \<noteq> Rejected) (prop_items p))"
  using counts_fold_total [of proposal_counts_default "prop_items p"]
  by (simp add: counts_def Let_def proposal_counts_default_def)

end
