(* ===== verification/Domain_Review.thy ===== *)
theory Domain_Review
  imports Domain_Types
begin

text \<open>
  The review-only organisation proposals of \<^verbatim>\<open>crates/domain/src/proposal.rs\<close> (its second
  half) and the local rules of \<^verbatim>\<open>crates/domain/src/rules.rs\<close>: statuses with their database
  names, the proposal, its operations, summary, difference and preferences, and the rule
  vocabulary with the precedence order of policy sources. Values of \<^verbatim>\<open>serde_json::Value\<close> are
  a type parameter.
\<close>

section \<open>Organisation proposals\<close>

datatype organization_proposal_status =
    Prop_Draft | Prop_ReadyForReview | Prop_Reviewed | Prop_ApprovedForFutureApply
  | Prop_Superseded | Prop_Cancelled

fun proposal_status_name :: "organization_proposal_status \<Rightarrow> ustring" where
  "proposal_status_name Prop_Draft = lit ''draft''"
| "proposal_status_name Prop_ReadyForReview = lit ''ready_for_review''"
| "proposal_status_name Prop_Reviewed = lit ''reviewed''"
| "proposal_status_name Prop_ApprovedForFutureApply = lit ''approved_for_future_apply''"
| "proposal_status_name Prop_Superseded = lit ''superseded''"
| "proposal_status_name Prop_Cancelled = lit ''cancelled''"

datatype proposal_operation_kind =
    Pk_MoveProposal | Pk_RenameProposal | Pk_CreateFolderProposal | Pk_KeepInPlace
  | Pk_ToReview | Pk_NoAction

fun proposal_operation_kind_name :: "proposal_operation_kind \<Rightarrow> ustring" where
  "proposal_operation_kind_name Pk_MoveProposal = lit ''move_proposal''"
| "proposal_operation_kind_name Pk_RenameProposal = lit ''rename_proposal''"
| "proposal_operation_kind_name Pk_CreateFolderProposal = lit ''create_folder_proposal''"
| "proposal_operation_kind_name Pk_KeepInPlace = lit ''keep_in_place''"
| "proposal_operation_kind_name Pk_ToReview = lit ''to_review''"
| "proposal_operation_kind_name Pk_NoAction = lit ''no_action''"

datatype proposal_confidence_level =
    Level_VeryHigh | Level_High | Level_Medium | Level_Low

fun confidence_level_name :: "proposal_confidence_level \<Rightarrow> ustring" where
  "confidence_level_name Level_VeryHigh = lit ''very_high''"
| "confidence_level_name Level_High = lit ''high''"
| "confidence_level_name Level_Medium = lit ''medium''"
| "confidence_level_name Level_Low = lit ''low''"

datatype proposal_conflict_state =
    Clash_None | Clash_AutoResolved | Clash_DestinationCollision | Clash_InvalidPath
  | Clash_PathTooLong | Clash_StaleSource

fun conflict_state_name :: "proposal_conflict_state \<Rightarrow> ustring" where
  "conflict_state_name Clash_None = lit ''none''"
| "conflict_state_name Clash_AutoResolved = lit ''auto_resolved''"
| "conflict_state_name Clash_DestinationCollision = lit ''destination_collision''"
| "conflict_state_name Clash_InvalidPath = lit ''invalid_path''"
| "conflict_state_name Clash_PathTooLong = lit ''path_too_long''"
| "conflict_state_name Clash_StaleSource = lit ''stale_source''"

definition requires_review :: "proposal_conflict_state \<Rightarrow> bool" where
  "requires_review s \<longleftrightarrow>
     s \<in> {Clash_DestinationCollision, Clash_InvalidPath, Clash_PathTooLong, Clash_StaleSource}"

record organization_reason =
  reason_code :: ustring
  reason_explanation :: ustring
  reason_evidence_references :: "ustring list"

record proposal_source_snapshot =
  snap_relative_path :: ustring
  snap_content_hash :: "ustring option"
  snap_byte_size :: u64
  snap_modified_at :: "ustring option"

record organization_proposal_operation =
  pop_id :: proposal_item_id
  pop_file_id :: file_id
  pop_file_version_id :: file_version_id
  pop_source :: proposal_source_snapshot
  pop_source_name :: ustring
  pop_machine_destination :: "ustring list"
  pop_machine_name :: ustring
  pop_proposed_destination :: "ustring list"
  pop_proposed_name :: ustring
  pop_operation_kind :: proposal_operation_kind
  pop_confidence_score :: f32
  pop_confidence_level :: proposal_confidence_level
  pop_reasons :: "organization_reason list"
  pop_conflict_state :: proposal_conflict_state
  pop_needs_review :: bool
  pop_stale :: bool
  pop_user_override :: bool
  pop_disruption_score :: f32
  pop_proposed_path_length :: nat
  pop_proposed_depth :: nat
  pop_semantic_context :: ustring
  pop_document_type :: ustring
  pop_customer_name :: "ustring option"
  pop_supplier_name :: "ustring option"
  pop_project_name :: "ustring option"
  pop_duplicate_group_id :: "ustring option"
  pop_duplicate_canonical :: bool

definition proposed_relative_path :: "organization_proposal_operation \<Rightarrow> ustring" where
  "proposed_relative_path op =
     join_with [92] (pop_proposed_destination op @ [pop_proposed_name op])"

definition is_rename :: "organization_proposal_operation \<Rightarrow> bool" where
  "is_rename op \<longleftrightarrow> \<not> eq_ignore_ascii_case (pop_source_name op) (pop_proposed_name op)"

datatype virtual_node_kind =
    Node_Root | Node_Folder | Node_File

record virtual_proposal_node =
  node_id :: proposal_node_id
  node_parent_id :: "proposal_node_id option"
  node_kind :: virtual_node_kind
  node_name :: ustring
  node_virtual_path :: ustring
  node_operation_id :: "proposal_item_id option"
  node_child_count :: u64
  node_needs_review_count :: u64
  node_conflict_count :: u64

record organization_proposal_summary =
  psum_files_analyzed :: u64
  psum_proposed_moves :: u64
  psum_proposed_renames :: u64
  psum_unchanged :: u64
  psum_needs_review :: u64
  psum_unresolved :: u64
  psum_conflicts :: u64
  psum_high_confidence :: u64
  psum_medium_confidence :: u64
  psum_low_confidence :: u64
  psum_duplicate_no_action :: u64
  psum_average_depth :: f32
  psum_maximum_depth :: u32

record organization_proposal_diff =
  pdiff_destinations_changed :: u64
  pdiff_files_added :: u64
  pdiff_conflicts_resolved :: u64
  pdiff_moved_to_review :: u64

record organization_proposal =
  op_id :: proposal_id
  op_revision_id :: organization_revision_id
  op_workspace_id :: workspace_id
  op_root_id :: root_id
  op_source_scan_id :: scan_id
  op_revision :: u32
  op_status :: organization_proposal_status
  op_engine_version :: ustring
  op_policy_version :: ustring
  op_source_semantic_version :: "ustring option"
  op_source_relationship_version :: "ustring option"
  op_created_at :: ustring
  op_updated_at :: ustring
  op_summary :: organization_proposal_summary
  op_diff :: organization_proposal_diff
  op_nodes :: "virtual_proposal_node list"
  op_operations :: "organization_proposal_operation list"

record organization_preferences =
  pref_client_first :: bool
  pref_include_year_folders :: bool
  pref_maximum_depth :: nat
  pref_minimum_group_size :: nat
  pref_keep_photos_inside_projects :: bool
  pref_supplier_invoices_inside_projects :: bool
  pref_naming_language :: ustring
  pref_preserve_existing_folders :: bool
  pref_personal_root_name :: ustring
  pref_business_root_name :: ustring
  pref_rename_template :: ustring
  pref_review_threshold :: f32

text \<open>The \<^verbatim>\<open>f32\<close> literal \<^verbatim>\<open>0.65\<close>, rounded to 24 bits.\<close>

definition default_organization_preferences :: organization_preferences where
  "default_organization_preferences =
     \<lparr>pref_client_first = True, pref_include_year_folders = True, pref_maximum_depth = 6,
      pref_minimum_group_size = 2, pref_keep_photos_inside_projects = True,
      pref_supplier_invoices_inside_projects = True, pref_naming_language = lit ''en'',
      pref_preserve_existing_folders = True, pref_personal_root_name = lit ''Personal'',
      pref_business_root_name = lit ''Business'',
      pref_rename_template = lit ''{date}_{party}_{document_type}_{identifier}'',
      pref_review_threshold = F32 (10905190 / 16777216)\<rparr>"

datatype proposal_override_action =
    Ov_Destination | Ov_Rename | Ov_DestinationAndRename | Ov_KeepInPlace | Ov_ToReview
  | Ov_Reject

fun override_action_name :: "proposal_override_action \<Rightarrow> ustring" where
  "override_action_name Ov_Destination = lit ''destination''"
| "override_action_name Ov_Rename = lit ''rename''"
| "override_action_name Ov_DestinationAndRename = lit ''destination_and_rename''"
| "override_action_name Ov_KeepInPlace = lit ''keep_in_place''"
| "override_action_name Ov_ToReview = lit ''to_review''"
| "override_action_name Ov_Reject = lit ''reject''"

record organization_proposal_override =
  ovr_id :: proposal_override_id
  ovr_proposal_id :: proposal_id
  ovr_file_id :: file_id
  ovr_action :: proposal_override_action
  ovr_destination :: "ustring list option"
  ovr_proposed_name :: "ustring option"
  ovr_reason :: "ustring option"
  ovr_created_at :: ustring
  ovr_updated_at :: ustring

section \<open>Local rules\<close>

definition RULE_SUGGESTION_THRESHOLD :: u64 where
  "RULE_SUGGESTION_THRESHOLD = 3"

datatype rule_field =
    Rf_DocumentType | Rf_Context | Rf_Supplier | Rf_Customer | Rf_Project | Rf_AnyParty
  | Rf_SourcePath

fun rule_field_name :: "rule_field \<Rightarrow> ustring" where
  "rule_field_name Rf_DocumentType = lit ''document_type''"
| "rule_field_name Rf_Context = lit ''context''"
| "rule_field_name Rf_Supplier = lit ''supplier''"
| "rule_field_name Rf_Customer = lit ''customer''"
| "rule_field_name Rf_Project = lit ''project''"
| "rule_field_name Rf_AnyParty = lit ''any_party''"
| "rule_field_name Rf_SourcePath = lit ''source_path''"

datatype rule_operator =
    Ro_Equals | Ro_Exists | Ro_StartsWith

record rule_condition =
  cond_field :: rule_field
  cond_operator :: rule_operator
  cond_value :: "ustring option"

datatype semantic_rule_field =
    Sf_DocumentType | Sf_Context | Sf_Supplier | Sf_Customer | Sf_Project

fun semantic_rule_field_name :: "semantic_rule_field \<Rightarrow> ustring" where
  "semantic_rule_field_name Sf_DocumentType = lit ''document_type''"
| "semantic_rule_field_name Sf_Context = lit ''context''"
| "semantic_rule_field_name Sf_Supplier = lit ''supplier_candidate''"
| "semantic_rule_field_name Sf_Customer = lit ''customer_candidate''"
| "semantic_rule_field_name Sf_Project = lit ''project_reference_candidate''"

datatype rule_party_role =
    Role_Supplier | Role_Customer

datatype rule_action =
    SetSemanticField semantic_rule_field ustring
  | ClassifyParty ustring rule_party_role
  | PreferProjectLocation
  | SetDestination "ustring list"
  | PreserveSubtree
  | UseYearFolders bool

fun rule_action_name :: "rule_action \<Rightarrow> ustring" where
  "rule_action_name (SetSemanticField _ _) = lit ''set_semantic_field''"
| "rule_action_name (ClassifyParty _ _) = lit ''classify_party''"
| "rule_action_name PreferProjectLocation = lit ''prefer_project_location''"
| "rule_action_name (SetDestination _) = lit ''set_destination''"
| "rule_action_name PreserveSubtree = lit ''preserve_subtree''"
| "rule_action_name (UseYearFolders _) = lit ''use_year_folders''"

datatype rule_origin =
    Origin_UserCreated | Origin_AcceptedSuggestion

fun rule_origin_name :: "rule_origin \<Rightarrow> ustring" where
  "rule_origin_name Origin_UserCreated = lit ''user_created''"
| "rule_origin_name Origin_AcceptedSuggestion = lit ''accepted_suggestion''"

record local_rule =
  rule_id :: rule_id
  rule_workspace_id :: workspace_id
  rule_name :: ustring
  rule_explanation :: ustring
  rule_position :: u32
  rule_enabled :: bool
  rule_conditions :: "rule_condition list"
  rule_action :: rule_action
  rule_origin :: rule_origin
  rule_source_suggestion_id :: "rule_suggestion_id option"
  rule_created_at :: ustring
  rule_updated_at :: ustring

record local_rule_input =
  rin_name :: ustring
  rin_explanation :: ustring
  rin_enabled :: bool
  rin_conditions :: "rule_condition list"
  rin_action :: rule_action

datatype rule_suggestion_status =
    Sug_Pending | Sug_Accepted | Sug_Dismissed

fun suggestion_status_name :: "rule_suggestion_status \<Rightarrow> ustring" where
  "suggestion_status_name Sug_Pending = lit ''pending''"
| "suggestion_status_name Sug_Accepted = lit ''accepted''"
| "suggestion_status_name Sug_Dismissed = lit ''dismissed''"

record rule_suggestion =
  sug_id :: rule_suggestion_id
  sug_workspace_id :: workspace_id
  sug_signature :: ustring
  sug_title :: ustring
  sug_explanation :: ustring
  sug_evidence_count :: u64
  sug_status :: rule_suggestion_status
  sug_proposed_rule :: local_rule_input
  sug_accepted_rule_id :: "rule_id option"
  sug_created_at :: ustring
  sug_updated_at :: ustring

datatype learning_source_kind =
    Src_SemanticCorrection | Src_OrganizationOverride

fun learning_source_kind_name :: "learning_source_kind \<Rightarrow> ustring" where
  "learning_source_kind_name Src_SemanticCorrection = lit ''semantic_correction''"
| "learning_source_kind_name Src_OrganizationOverride = lit ''organization_override''"

datatype learning_pattern_kind =
    Pat_SemanticField | Pat_ProjectSupplierInvoice | Pat_Destination

fun learning_pattern_kind_name :: "learning_pattern_kind \<Rightarrow> ustring" where
  "learning_pattern_kind_name Pat_SemanticField = lit ''semantic_field''"
| "learning_pattern_kind_name Pat_ProjectSupplierInvoice = lit ''project_supplier_invoice''"
| "learning_pattern_kind_name Pat_Destination = lit ''destination''"

record 'json local_learning_observation =
  lob_id :: learning_observation_id
  lob_workspace_id :: workspace_id
  lob_file_id :: "file_id option"
  lob_source_kind :: learning_source_kind
  lob_source_ref :: ustring
  lob_pattern_kind :: learning_pattern_kind
  lob_pattern_key :: ustring
  lob_evidence :: 'json
  lob_created_at :: ustring

record 'json learning_observation_input =
  loi_file_id :: "file_id option"
  loi_source_kind :: learning_source_kind
  loi_source_ref :: ustring
  loi_pattern_kind :: learning_pattern_kind
  loi_pattern_key :: ustring
  loi_evidence :: 'json

record rule_suggestion_seed =
  seed_title :: ustring
  seed_explanation :: ustring
  seed_proposed_rule :: local_rule_input

datatype policy_precedence =
    Prec_DefaultPolicy | Prec_HighConfidenceMachineInference | Prec_UserPreference
  | Prec_UserConfirmedField | Prec_UserExplicitRule

fun policy_precedence_name :: "policy_precedence \<Rightarrow> ustring" where
  "policy_precedence_name Prec_DefaultPolicy = lit ''default_policy''"
| "policy_precedence_name Prec_HighConfidenceMachineInference = lit ''high_confidence_machine_inference''"
| "policy_precedence_name Prec_UserPreference = lit ''user_preference''"
| "policy_precedence_name Prec_UserConfirmedField = lit ''user_confirmed_field''"
| "policy_precedence_name Prec_UserExplicitRule = lit ''user_explicit_rule''"

text \<open>\<^verbatim>\<open>derive(PartialOrd, Ord)\<close>: the order of the variants.\<close>

fun precedence_rank :: "policy_precedence \<Rightarrow> nat" where
  "precedence_rank Prec_DefaultPolicy = 0"
| "precedence_rank Prec_HighConfidenceMachineInference = 1"
| "precedence_rank Prec_UserPreference = 2"
| "precedence_rank Prec_UserConfirmedField = 3"
| "precedence_rank Prec_UserExplicitRule = 4"

lemma precedence_rank_inj: "precedence_rank p = precedence_rank q \<Longrightarrow> p = q"
  by (cases p; cases q) simp_all

instantiation policy_precedence :: linorder
begin

definition less_eq_policy_precedence :: "policy_precedence \<Rightarrow> policy_precedence \<Rightarrow> bool" where
  "p \<le> q \<longleftrightarrow> precedence_rank p \<le> precedence_rank q"

definition less_policy_precedence :: "policy_precedence \<Rightarrow> policy_precedence \<Rightarrow> bool" where
  "p < q \<longleftrightarrow> precedence_rank p < precedence_rank q"

instance
  by standard (auto simp: less_eq_policy_precedence_def less_policy_precedence_def
      intro: precedence_rank_inj)

end

record 'v precedence_candidate =
  pc_value :: 'v
  pc_source :: policy_precedence
  pc_order :: u32
  pc_rule_id :: "rule_id option"
  pc_explanation :: "ustring option"

record 'v resolved_value =
  rv_value :: 'v
  rv_source :: policy_precedence
  rv_rule_id :: "rule_id option"
  rv_explanation :: "ustring option"

end
