(* ===== verification/Rule_Engine.thy ===== *)
theory Rule_Engine
  imports Domain_Review "HOL-Library.Product_Lexorder" "HOL-Library.Multiset"
begin

text \<open>
  \<^verbatim>\<open>crates/organizer/src/rules.rs\<close>: validation and evaluation of the user's local rules
  and the resolution of competing policy values. \<open>lower\<close> stands for Unicode
  \<^verbatim>\<open>to_lowercase\<close>. The evaluation is a fold over the matching rules in priority order; the
  lemmas show that every outcome is the one of the first rule that has that kind of action,
  whatever the order in which the rules are given.
\<close>

section \<open>Signals and evaluation results\<close>

record behavior_signal =
  sig_value :: ustring
  sig_confidence :: f32
  sig_user_confirmed :: bool

record rule_evaluation_context =
  ctx_source_path :: ustring
  ctx_document_type :: "behavior_signal option"
  ctx_context :: "behavior_signal option"
  ctx_supplier :: "behavior_signal option"
  ctx_customer :: "behavior_signal option"
  ctx_project :: "behavior_signal option"
  ctx_parties :: "behavior_signal list"

record matched_rule =
  mr_id :: rule_id
  mr_name :: ustring
  mr_explanation :: ustring
  mr_position :: u32
  mr_action :: rule_action

record rule_evaluation =
  re_matched_rules :: "matched_rule list"
  re_semantic_overrides :: "semantic_rule_field \<rightharpoonup> ustring \<times> matched_rule"
  re_classified_supplier :: "(ustring \<times> matched_rule) option"
  re_classified_customer :: "(ustring \<times> matched_rule) option"
  re_prefer_project_location :: "matched_rule option"
  re_destination :: "(ustring list \<times> matched_rule) option"
  re_preserve_subtree :: "matched_rule option"
  re_use_year_folders :: "(bool \<times> matched_rule) option"

definition rule_evaluation_default :: rule_evaluation where
  "rule_evaluation_default =
     \<lparr>re_matched_rules = [], re_semantic_overrides = Map.empty, re_classified_supplier = None,
      re_classified_customer = None, re_prefer_project_location = None, re_destination = None,
      re_preserve_subtree = None, re_use_year_folders = None\<rparr>"

datatype rule_validation_error = InvalidDescription | InvalidConditions | InvalidAction

section \<open>Normalisation and matching\<close>

fun split_whitespace_from :: "ustring \<Rightarrow> ustring \<Rightarrow> ustring list" where
  "split_whitespace_from acc [] = (if acc = [] then [] else [rev acc])"
| "split_whitespace_from acc (c # s) =
     (if is_whitespace c
      then (if acc = [] then [] else [rev acc]) @ split_whitespace_from [] s
      else split_whitespace_from (c # acc) s)"

definition normalize_value :: "(ustring \<Rightarrow> ustring) \<Rightarrow> ustring \<Rightarrow> ustring" where
  "normalize_value lower value = lower (join_with [32] (split_whitespace_from [] value))"

definition is_slash :: "uchar \<Rightarrow> bool" where
  "is_slash c \<longleftrightarrow> c = 47"

definition normalized_path :: "(ustring \<Rightarrow> ustring) \<Rightarrow> ustring \<Rightarrow> ustring" where
  "normalized_path lower value =
     lower (trim_end_by is_slash (dropWhile is_slash (replace_char 92 47 (trim value))))"

text \<open>The \<^verbatim>\<open>f32\<close> literal \<^verbatim>\<open>0.85\<close>, rounded to 24 bits.\<close>

definition signal_is_eligible :: "behavior_signal \<Rightarrow> bool" where
  "signal_is_eligible s \<longleftrightarrow>
     sig_user_confirmed s \<or> f32_ge (sig_confidence s) (F32 (14260634 / 16777216))"

definition signal_values :: "behavior_signal option \<Rightarrow> ustring list" where
  "signal_values v =
     (case v of None \<Rightarrow> [] | Some s \<Rightarrow> if signal_is_eligible s then [sig_value s] else [])"

fun values_for :: "rule_field \<Rightarrow> rule_evaluation_context \<Rightarrow> ustring list" where
  "values_for Rf_DocumentType c = signal_values (ctx_document_type c)"
| "values_for Rf_Context c = signal_values (ctx_context c)"
| "values_for Rf_Supplier c = signal_values (ctx_supplier c)"
| "values_for Rf_Customer c = signal_values (ctx_customer c)"
| "values_for Rf_Project c = signal_values (ctx_project c)"
| "values_for Rf_AnyParty c =
     map sig_value (filter signal_is_eligible (ctx_parties c))
     @ signal_values (ctx_supplier c) @ signal_values (ctx_customer c)"
| "values_for Rf_SourcePath c = [ctx_source_path c]"

definition path_has_prefix :: "ustring \<Rightarrow> ustring \<Rightarrow> bool" where
  "path_has_prefix expected value \<longleftrightarrow>
     value = expected
     \<or> (case strip_prefix expected value of
          None \<Rightarrow> False
        | Some remainder \<Rightarrow> starts_with [47] remainder)"

definition condition_matches ::
  "(ustring \<Rightarrow> ustring) \<Rightarrow> rule_condition \<Rightarrow> rule_evaluation_context \<Rightarrow> bool" where
  "condition_matches lower condition c =
     (let values = values_for (cond_field condition) c in
      case cond_operator condition of
        Ro_Exists \<Rightarrow> list_ex (\<lambda>v. trim v \<noteq> []) values
      | Ro_Equals \<Rightarrow>
          (case cond_value condition of
             None \<Rightarrow> False
           | Some expected \<Rightarrow>
               list_ex (\<lambda>v. normalize_value lower v = normalize_value lower expected) values)
      | Ro_StartsWith \<Rightarrow>
          (case cond_value condition of
             None \<Rightarrow> False
           | Some expected \<Rightarrow>
               list_ex (\<lambda>v. path_has_prefix (normalized_path lower expected)
                              (normalized_path lower v)) values))"

section \<open>Validation\<close>

definition condition_is_invalid :: "rule_condition \<Rightarrow> bool" where
  "condition_is_invalid condition =
     (let operator_is_valid =
            (if cond_field condition = Rf_SourcePath
             then cond_operator condition = Ro_StartsWith
             else cond_operator condition \<noteq> Ro_StartsWith);
          value = map_option trim (cond_value condition)
      in \<not> operator_is_valid
         \<or> (case cond_operator condition of
              Ro_Exists \<Rightarrow> (case value of None \<Rightarrow> False | Some v \<Rightarrow> v \<noteq> [])
            | _ \<Rightarrow> (case value of None \<Rightarrow> True | Some v \<Rightarrow> v = [])
                   \<or> (case value of None \<Rightarrow> False | Some v \<Rightarrow> length v > 512)))"

fun action_is_valid :: "rule_action \<Rightarrow> bool" where
  "action_is_valid (SetSemanticField _ value) \<longleftrightarrow> trim value \<noteq> [] \<and> length value \<le> 512"
| "action_is_valid (ClassifyParty party _) \<longleftrightarrow> trim party \<noteq> [] \<and> length party \<le> 512"
| "action_is_valid (SetDestination segments) \<longleftrightarrow>
     segments \<noteq> [] \<and> length segments \<le> 8
     \<and> list_all (\<lambda>segment. trim segment \<noteq> [] \<and> length segment \<le> 512) segments"
| "action_is_valid PreferProjectLocation \<longleftrightarrow> True"
| "action_is_valid PreserveSubtree \<longleftrightarrow> True"
| "action_is_valid (UseYearFolders _) \<longleftrightarrow> True"

definition validate_rule :: "local_rule \<Rightarrow> rule_validation_error + unit" where
  "validate_rule r =
     (if \<not> (trim (rule_name r) \<noteq> [] \<and> length (rule_name r) \<le> 120
           \<and> trim (rule_explanation r) \<noteq> [] \<and> length (rule_explanation r) \<le> 512)
      then Inl InvalidDescription
      else if rule_conditions r = [] \<or> length (rule_conditions r) > 8
           \<or> list_ex condition_is_invalid (rule_conditions r)
      then Inl InvalidConditions
      else if \<not> action_is_valid (rule_action r) then Inl InvalidAction
      else Inr ())"

section \<open>Evaluation\<close>

text \<open>\<^verbatim>\<open>get_or_insert\<close> and \<^verbatim>\<open>entry(k).or_insert\<close>: the first value stays.\<close>

definition get_or :: "'a option \<Rightarrow> 'a \<Rightarrow> 'a option" where
  "get_or x y = (case x of None \<Rightarrow> Some y | Some z \<Rightarrow> Some z)"

definition to_matched :: "local_rule \<Rightarrow> matched_rule" where
  "to_matched r =
     \<lparr>mr_id = rule_id r, mr_name = rule_name r, mr_explanation = rule_explanation r,
      mr_position = rule_position r, mr_action = rule_action r\<rparr>"

definition apply_rule :: "rule_evaluation \<Rightarrow> local_rule \<Rightarrow> rule_evaluation" where
  "apply_rule e0 r =
     (let m = to_matched r;
          e = e0\<lparr>re_matched_rules := re_matched_rules e0 @ [m]\<rparr>
      in case rule_action r of
           SetSemanticField field value \<Rightarrow>
             e\<lparr>re_semantic_overrides :=
                (re_semantic_overrides e)(field := get_or (re_semantic_overrides e field) (value, m))\<rparr>
         | ClassifyParty party role \<Rightarrow>
             (case role of
                Role_Supplier \<Rightarrow>
                  e\<lparr>re_classified_supplier := get_or (re_classified_supplier e) (party, m)\<rparr>
              | Role_Customer \<Rightarrow>
                  e\<lparr>re_classified_customer := get_or (re_classified_customer e) (party, m)\<rparr>)
         | PreferProjectLocation \<Rightarrow>
             e\<lparr>re_prefer_project_location := get_or (re_prefer_project_location e) m\<rparr>
         | SetDestination segments \<Rightarrow>
             e\<lparr>re_destination := get_or (re_destination e) (segments, m)\<rparr>
         | PreserveSubtree \<Rightarrow>
             e\<lparr>re_preserve_subtree := get_or (re_preserve_subtree e) m\<rparr>
         | UseYearFolders enabled \<Rightarrow>
             e\<lparr>re_use_year_folders := get_or (re_use_year_folders e) (enabled, m)\<rparr>)"

definition rule_applies ::
  "(ustring \<Rightarrow> ustring) \<Rightarrow> rule_evaluation_context \<Rightarrow> local_rule \<Rightarrow> bool" where
  "rule_applies lower c r \<longleftrightarrow>
     rule_enabled r \<and> is_ok (validate_rule r)
     \<and> list_all (\<lambda>condition. condition_matches lower condition c) (rule_conditions r)"

text \<open>\<^verbatim>\<open>sort_by\<close> is stable, and so is \<open>sort_key\<close>.\<close>

definition rule_key :: "local_rule \<Rightarrow> u32 \<times> rule_id" where
  "rule_key r = (rule_position r, rule_id r)"

definition ordered_rules ::
  "(ustring \<Rightarrow> ustring) \<Rightarrow> rule_evaluation_context \<Rightarrow> local_rule list \<Rightarrow> local_rule list" where
  "ordered_rules lower c rules = sort_key rule_key (filter (rule_applies lower c) rules)"

definition evaluate ::
  "(ustring \<Rightarrow> ustring) \<Rightarrow> rule_evaluation_context \<Rightarrow> local_rule list \<Rightarrow> rule_evaluation" where
  "evaluate lower c rules = foldl apply_rule rule_evaluation_default (ordered_rules lower c rules)"

section \<open>Precedence\<close>

text \<open>
  The comparison of \<^verbatim>\<open>resolve_precedence\<close>: higher source first, then lower order, then lower
  rule id with \<^verbatim>\<open>None\<close> before \<^verbatim>\<open>Some\<close>. The sort key spells out that lexicographic order.
\<close>

definition candidate_key :: "'v precedence_candidate \<Rightarrow> nat \<times> u32 \<times> bool \<times> rule_id" where
  "candidate_key c =
     (4 - precedence_rank (pc_source c), pc_order c, pc_rule_id c \<noteq> None,
      case pc_rule_id c of None \<Rightarrow> 0 | Some i \<Rightarrow> i)"

definition resolve_precedence :: "'v precedence_candidate list \<Rightarrow> 'v resolved_value option" where
  "resolve_precedence candidates =
     (case sort_key candidate_key candidates of
        [] \<Rightarrow> None
      | c # _ \<Rightarrow> Some \<lparr>rv_value = pc_value c, rv_source = pc_source c,
                        rv_rule_id = pc_rule_id c, rv_explanation = pc_explanation c\<rparr>)"

definition signal_candidate :: "'v \<Rightarrow> behavior_signal \<Rightarrow> u32 \<Rightarrow> 'v precedence_candidate" where
  "signal_candidate v s order =
     \<lparr>pc_value = v,
      pc_source = (if sig_user_confirmed s then Prec_UserConfirmedField
                   else Prec_HighConfidenceMachineInference),
      pc_order = order, pc_rule_id = None, pc_explanation = None\<rparr>"


section \<open>The first rule in priority order wins\<close>

lemma get_or_simps [simp]: "get_or None y = Some y" "get_or (Some z) y = Some z"
  by (simp_all add: get_or_def)

lemma find_map_sorted:
  assumes "sorted (map k xs)" and "find_map f xs = Some y"
  shows "\<exists>x \<in> set xs. f x = Some y \<and> (\<forall>z \<in> set xs. f z \<noteq> None \<longrightarrow> k x \<le> k z)"
  using assms
proof (induction xs)
  case (Cons x xs)
  show ?case
  proof (cases "f x")
    case None
    with Cons show ?thesis by auto
  next
    case (Some z)
    with Cons show ?thesis by auto
  qed
qed simp

lemma ordered_rules_set:
  "r \<in> set (ordered_rules lower c rules) \<longleftrightarrow> r \<in> set rules \<and> rule_applies lower c r"
  by (auto simp: ordered_rules_def)

lemma ordered_rules_sorted: "sorted (map rule_key (ordered_rules lower c rules))"
  by (simp add: ordered_rules_def)

text \<open>
  The contract of one outcome of the evaluation: \<open>get\<close> reads it and \<open>pick\<close> says which value a
  rule proposes for it. A rule sets the outcome exactly when no earlier rule did.
\<close>

locale first_wins =
  fixes get :: "rule_evaluation \<Rightarrow> 'a option"
    and pick :: "local_rule \<Rightarrow> 'a option"
  assumes get_default: "get rule_evaluation_default = None"
    and get_apply: "get (apply_rule e r) = (case get e of None \<Rightarrow> pick r | Some x \<Rightarrow> Some x)"
begin

lemma get_fold:
  "get (foldl apply_rule e rs) = (case get e of None \<Rightarrow> find_map pick rs | Some x \<Rightarrow> Some x)"
  by (induction rs arbitrary: e) (auto simp: get_apply split: option.splits)

lemma get_evaluate: "get (evaluate lower c rules) = find_map pick (ordered_rules lower c rules)"
  by (simp add: evaluate_def get_fold get_default)

lemma winner:
  assumes "get (evaluate lower c rules) = Some x"
  shows "\<exists>r \<in> set rules. rule_applies lower c r \<and> pick r = Some x
    \<and> (\<forall>r' \<in> set rules. rule_applies lower c r' \<and> pick r' \<noteq> None \<longrightarrow> rule_key r \<le> rule_key r')"
  using find_map_sorted [OF ordered_rules_sorted assms [unfolded get_evaluate]]
  by (auto simp: ordered_rules_set)

lemma no_winner:
  "get (evaluate lower c rules) = None \<longleftrightarrow>
     (\<forall>r \<in> set rules. rule_applies lower c r \<longrightarrow> pick r = None)"
  by (auto simp: get_evaluate find_map_None ordered_rules_set)

end

definition pick_override :: "semantic_rule_field \<Rightarrow> local_rule \<Rightarrow> (ustring \<times> matched_rule) option" where
  "pick_override f r =
     (case rule_action r of
        SetSemanticField g v \<Rightarrow> if g = f then Some (v, to_matched r) else None
      | _ \<Rightarrow> None)"

definition pick_party :: "rule_party_role \<Rightarrow> local_rule \<Rightarrow> (ustring \<times> matched_rule) option" where
  "pick_party role r =
     (case rule_action r of
        ClassifyParty party ro \<Rightarrow> if ro = role then Some (party, to_matched r) else None
      | _ \<Rightarrow> None)"

definition pick_destination :: "local_rule \<Rightarrow> (ustring list \<times> matched_rule) option" where
  "pick_destination r =
     (case rule_action r of SetDestination s \<Rightarrow> Some (s, to_matched r) | _ \<Rightarrow> None)"

definition pick_years :: "local_rule \<Rightarrow> (bool \<times> matched_rule) option" where
  "pick_years r = (case rule_action r of UseYearFolders b \<Rightarrow> Some (b, to_matched r) | _ \<Rightarrow> None)"

definition pick_action :: "rule_action \<Rightarrow> local_rule \<Rightarrow> matched_rule option" where
  "pick_action a r = (if rule_action r = a then Some (to_matched r) else None)"

lemmas rule_step_simps =
  rule_evaluation_default_def apply_rule_def Let_def pick_override_def pick_party_def
  pick_destination_def pick_years_def pick_action_def

interpretation override: first_wins "\<lambda>e. re_semantic_overrides e f" "pick_override f" for f
  by unfold_locales
    (auto simp: rule_step_simps split: rule_action.split rule_party_role.split option.split)

interpretation supplier: first_wins re_classified_supplier "pick_party Role_Supplier"
  by unfold_locales
    (auto simp: rule_step_simps split: rule_action.split rule_party_role.split option.split)

interpretation customer: first_wins re_classified_customer "pick_party Role_Customer"
  by unfold_locales
    (auto simp: rule_step_simps split: rule_action.split rule_party_role.split option.split)

interpretation project: first_wins re_prefer_project_location "pick_action PreferProjectLocation"
  by unfold_locales
    (auto simp: rule_step_simps split: rule_action.split rule_party_role.split option.split)

interpretation destination: first_wins re_destination pick_destination
  by unfold_locales
    (auto simp: rule_step_simps split: rule_action.split rule_party_role.split option.split)

interpretation subtree: first_wins re_preserve_subtree "pick_action PreserveSubtree"
  by unfold_locales
    (auto simp: rule_step_simps split: rule_action.split rule_party_role.split option.split)

interpretation years: first_wins re_use_year_folders pick_years
  by unfold_locales
    (auto simp: rule_step_simps split: rule_action.split rule_party_role.split option.split)

lemma matched_rules_fold:
  "re_matched_rules (foldl apply_rule e rs) = re_matched_rules e @ map to_matched rs"
proof (induction rs arbitrary: e)
  case (Cons r rs)
  have "re_matched_rules (apply_rule e r) = re_matched_rules e @ [to_matched r]"
    by (simp add: apply_rule_def Let_def split: rule_action.split rule_party_role.split)
  with Cons show ?case by simp
qed simp

lemma matched_rules_evaluate:
  "re_matched_rules (evaluate lower c rules) = map to_matched (ordered_rules lower c rules)"
  by (simp add: evaluate_def matched_rules_fold rule_evaluation_default_def)

text \<open>With distinct rule ids the result does not depend on the order of the given rules.\<close>

lemma ordered_rules_perm:
  assumes "mset rules = mset rules'" and "distinct (map rule_id rules)"
  shows "ordered_rules lower c rules = ordered_rules lower c rules'"
proof -
  have "inj_on rule_id (set rules)" using assms(2) by (simp add: distinct_map)
  then have "inj_on rule_key (set (filter (rule_applies lower c) rules))"
    by (auto simp: inj_on_def rule_key_def)
  moreover have "mset (filter (rule_applies lower c) rules) = mset (filter (rule_applies lower c) rules')"
    using assms(1) by simp
  ultimately show ?thesis
    unfolding ordered_rules_def by (intro sort_key_inj_key_eq) simp_all
qed

lemma evaluate_perm:
  "mset rules = mset rules' \<Longrightarrow> distinct (map rule_id rules)
   \<Longrightarrow> evaluate lower c rules = evaluate lower c rules'"
  by (simp add: evaluate_def ordered_rules_perm [of rules rules'])

lemma evaluate_ignores_disabled:
  "evaluate lower c (filter rule_enabled rules) = evaluate lower c rules"
proof -
  have "filter (rule_applies lower c) (filter rule_enabled rules) = filter (rule_applies lower c) rules"
    by (induction rules) (auto simp: rule_applies_def)
  then show ?thesis by (simp add: evaluate_def ordered_rules_def)
qed

section \<open>Resolution of competing values\<close>

lemma resolve_precedence_None: "resolve_precedence cs = None \<longleftrightarrow> cs = []"
proof -
  have "length (sort_key candidate_key cs) = length cs" by simp
  then show ?thesis by (cases cs) (auto simp: resolve_precedence_def simp del: length_sort
      split: list.splits)
qed

lemma precedence_rank_le: "precedence_rank p \<le> 4"
  by (cases p) simp_all

lemma resolve_precedence_winner:
  assumes "resolve_precedence cs = Some v"
  shows "\<exists>c \<in> set cs. v = \<lparr>rv_value = pc_value c, rv_source = pc_source c,
      rv_rule_id = pc_rule_id c, rv_explanation = pc_explanation c\<rparr>
    \<and> (\<forall>c' \<in> set cs. candidate_key c \<le> candidate_key c')"
proof -
  obtain c ds where s: "sort_key candidate_key cs = c # ds"
    using assms by (auto simp: resolve_precedence_def split: list.splits)
  have "sorted (map candidate_key (c # ds))" using sorted_sort_key [of candidate_key cs] s by simp
  moreover have "set cs = set (c # ds)" using s set_sort [of candidate_key cs] by simp
  ultimately show ?thesis using assms s by (auto simp: resolve_precedence_def)
qed

lemma candidate_key_source:
  "candidate_key c \<le> candidate_key d \<Longrightarrow> pc_source d \<le> pc_source c"
  using precedence_rank_le [of "pc_source c"] precedence_rank_le [of "pc_source d"]
  by (auto simp: candidate_key_def less_eq_policy_precedence_def less_eq_prod_def)

lemma candidate_key_order:
  "candidate_key c \<le> candidate_key d \<Longrightarrow> pc_source c = pc_source d \<Longrightarrow> pc_order c \<le> pc_order d"
  by (auto simp: candidate_key_def less_eq_prod_def)

section \<open>Path prefixes stop at separators\<close>

lemma path_has_prefix_iff:
  "path_has_prefix p v \<longleftrightarrow> v = p \<or> (\<exists>r. v = p @ 47 # r)"
  by (auto simp: path_has_prefix_def strip_prefix_Some starts_with_iff split: option.splits)
    (metis strip_prefix_Some option.distinct(1))+

lemma validate_rule_ok:
  "is_ok (validate_rule r) \<longleftrightarrow>
     trim (rule_name r) \<noteq> [] \<and> length (rule_name r) \<le> 120
     \<and> trim (rule_explanation r) \<noteq> [] \<and> length (rule_explanation r) \<le> 512
     \<and> rule_conditions r \<noteq> [] \<and> length (rule_conditions r) \<le> 8
     \<and> list_all (\<lambda>c. \<not> condition_is_invalid c) (rule_conditions r)
     \<and> action_is_valid (rule_action r)"
  by (auto simp: validate_rule_def list_all_iff list_ex_iff)

section \<open>Properties\<close>

definition sample_rule :: "nat \<Rightarrow> nat \<Rightarrow> string \<Rightarrow> local_rule" where
  "sample_rule i pos folder =
     \<lparr>rule_id = of_nat i, rule_workspace_id = 1, rule_name = lit ''r'', rule_explanation = lit ''e'',
      rule_position = of_nat pos, rule_enabled = True,
      rule_conditions = [\<lparr>cond_field = Rf_SourcePath, cond_operator = Ro_StartsWith,
                          cond_value = Some (lit ''/Docs/'')\<rparr>],
      rule_action = SetDestination [lit folder], rule_origin = Origin_UserCreated,
      rule_source_suggestion_id = None, rule_created_at = [], rule_updated_at = []\<rparr>"

definition sample_context :: rule_evaluation_context where
  "sample_context =
     \<lparr>ctx_source_path = [100, 111, 99, 115, 92, 120], ctx_document_type = None, ctx_context = None,
      ctx_supplier = None, ctx_customer = None, ctx_project = None, ctx_parties = []\<rparr>"

lemma sample_rule_applies:
  "folder = ''A'' \<or> folder = ''B'' \<Longrightarrow> rule_applies ascii_lower sample_context (sample_rule i pos folder)"
  by (auto simp: rule_applies_def validate_rule_def sample_rule_def sample_context_def
      condition_is_invalid_def Let_def condition_matches_def path_has_prefix_def normalized_path_def
      lit_simps trim_def trim_end_by_def is_whitespace_def replace_char_def is_slash_def
      ascii_lower_def lower_char_def is_ascii_upper_def starts_with_def)

lemma sample_ordered:
  "ordered_rules ascii_lower sample_context [sample_rule 5 3 ''A'', sample_rule 6 2 ''B'']
     = [sample_rule 6 2 ''B'', sample_rule 5 3 ''A'']"
proof -
  have "rule_key (sample_rule 6 2 ''B'') = (2, 6)" "rule_key (sample_rule 5 3 ''A'') = (3, 5)"
    by (simp_all add: rule_key_def sample_rule_def)
  then show ?thesis by (simp add: ordered_rules_def sample_rule_applies less_eq_prod_def word_le_nat_alt)
qed

lemma sample_destination:
  "re_destination (evaluate ascii_lower sample_context [sample_rule 5 3 ''A'', sample_rule 6 2 ''B''])
     = Some ([lit ''B''], to_matched (sample_rule 6 2 ''B''))"
  unfolding destination.get_evaluate sample_ordered
  by (simp add: pick_destination_def) (simp add: sample_rule_def)

text \<open>The outcome of evaluating local rules does not depend on the order in which the rules
  are given: any permutation of a list of rules with distinct ids gives the same matched
  rules, overrides, destination and other outcomes.\<close>

lemma rules_order_independent:
  assumes "mset rules = mset rules'" and "distinct (map rule_id rules)"
  shows "evaluate lower c rules = evaluate lower c rules'"
  using assms by (rule evaluate_perm)

theorem rules_order_independent_witness:
  "re_destination (evaluate ascii_lower sample_context [sample_rule 6 2 ''B'', sample_rule 5 3 ''A''])
     = Some ([lit ''B''], to_matched (sample_rule 6 2 ''B''))"
proof -
  have "distinct (map rule_id [sample_rule 5 3 ''A'', sample_rule 6 2 ''B''])"
    by (simp add: sample_rule_def)
  from rules_order_independent [OF _ this, of "[sample_rule 6 2 ''B'', sample_rule 5 3 ''A'']"
      ascii_lower sample_context]
  have "evaluate ascii_lower sample_context [sample_rule 6 2 ''B'', sample_rule 5 3 ''A'']
      = evaluate ascii_lower sample_context [sample_rule 5 3 ''A'', sample_rule 6 2 ''B'']"
    by simp
  then show ?thesis using sample_destination by (simp only:)
qed

text \<open>The rule that comes first among the valid, enabled and matching rules with an action of a kind.\<close>

definition wins ::
  "(ustring \<Rightarrow> ustring) \<Rightarrow> rule_evaluation_context \<Rightarrow> local_rule list \<Rightarrow> (rule_action \<Rightarrow> bool)
    \<Rightarrow> local_rule \<Rightarrow> bool" where
  "wins lower c rules kind r \<longleftrightarrow>
     r \<in> set rules \<and> rule_applies lower c r \<and> kind (rule_action r)
     \<and> (\<forall>r' \<in> set rules. rule_applies lower c r' \<and> kind (rule_action r')
          \<longrightarrow> rule_position r < rule_position r'
            \<or> rule_position r = rule_position r' \<and> rule_id r \<le> rule_id r')"

lemma rule_key_order:
  "rule_key r \<le> rule_key r' \<longleftrightarrow> rule_position r < rule_position r'
      \<or> rule_position r = rule_position r' \<and> rule_id r \<le> rule_id r'"
  by (auto simp: rule_key_def less_eq_prod_def)

lemma picked_destination:
  "pick_destination r = Some (segments, m) \<longleftrightarrow> rule_action r = SetDestination segments \<and> m = to_matched r"
  by (auto simp: pick_destination_def split: rule_action.splits)

lemma picked_party:
  "pick_party role r = Some (party, m) \<longleftrightarrow> rule_action r = ClassifyParty party role \<and> m = to_matched r"
  by (auto simp: pick_party_def split: rule_action.splits)

text \<open>
  What was found for the actions of one kind: the value of the first such rule, or nothing when no
  such rule applies.
\<close>

definition decided_by_first ::
  "(ustring \<Rightarrow> ustring) \<Rightarrow> rule_evaluation_context \<Rightarrow> local_rule list \<Rightarrow> ('x \<Rightarrow> rule_action)
    \<Rightarrow> ('x \<times> matched_rule) option \<Rightarrow> bool" where
  "decided_by_first lower c rules action found \<longleftrightarrow>
     (case found of
        None \<Rightarrow> \<not> (\<exists>r \<in> set rules. rule_applies lower c r \<and> rule_action r \<in> range action)
      | Some (x, m) \<Rightarrow>
          \<exists>r. wins lower c rules (\<lambda>a. a \<in> range action) r \<and> rule_action r = action x \<and> m = to_matched r)"

lemma decided_by_firstI:
  assumes pick: "\<And>r x m. pick r = Some (x, m) \<longleftrightarrow> rule_action r = action x \<and> m = to_matched r"
    and none: "found = None \<longleftrightarrow> (\<forall>r \<in> set rules. rule_applies lower c r \<longrightarrow> pick r = None)"
    and some: "\<And>x. found = Some x \<Longrightarrow> \<exists>r \<in> set rules. rule_applies lower c r \<and> pick r = Some x
      \<and> (\<forall>r' \<in> set rules. rule_applies lower c r' \<and> pick r' \<noteq> None \<longrightarrow> rule_key r \<le> rule_key r')"
  shows "decided_by_first lower c rules action found"
proof -
  have kind: "pick r \<noteq> None \<longleftrightarrow> rule_action r \<in> range action" for r
    using pick [of r] by (metis (no_types, lifting) image_iff not_None_eq rangeE rangeI surj_pair)
  show ?thesis
  proof (cases found)
    case None
    then have "\<not> (\<exists>r \<in> set rules. rule_applies lower c r \<and> pick r \<noteq> None)" using none by auto
    then show ?thesis unfolding kind by (simp add: decided_by_first_def None)
  next
    case (Some x)
    then obtain v m where x: "x = (v, m)" by (cases x)
    from some [OF Some] obtain r where r: "r \<in> set rules" "rule_applies lower c r" "pick r = Some x"
      and min: "\<forall>r' \<in> set rules. rule_applies lower c r' \<and> rule_action r' \<in> range action
        \<longrightarrow> rule_key r \<le> rule_key r'"
      unfolding kind by blast
    then have "wins lower c rules (\<lambda>a. a \<in> range action) r"
      using kind [of r] unfolding wins_def rule_key_order by blast
    moreover have "rule_action r = action v \<and> m = to_matched r" using r(3) x pick by blast
    ultimately show ?thesis unfolding decided_by_first_def Some x by auto
  qed
qed

lemma picked_override:
  "pick_override f r = Some (v, m) \<longleftrightarrow> rule_action r = SetSemanticField f v \<and> m = to_matched r"
  by (auto simp: pick_override_def split: rule_action.splits)

text \<open>C31: the first matching rule wins. The destination chosen by the rule engine is that of an
  enabled, valid and matching rule with a destination action, and no such rule has a smaller
  position (ties broken by the rule id); nothing is chosen only when there is no such rule. The
  same holds of the party classified as supplier among the rules that classify a supplier, of the
  customer among those that classify a customer, and of the value of each semantic field among
  the rules that set this field.\<close>

theorem first_matching_rule_wins:
  "decided_by_first lower c rules SetDestination (re_destination (evaluate lower c rules))
   \<and> decided_by_first lower c rules (\<lambda>party. ClassifyParty party Role_Supplier)
       (re_classified_supplier (evaluate lower c rules))
   \<and> decided_by_first lower c rules (\<lambda>party. ClassifyParty party Role_Customer)
       (re_classified_customer (evaluate lower c rules))
   \<and> decided_by_first lower c rules (SetSemanticField field)
       (re_semantic_overrides (evaluate lower c rules) field)"
proof (intro conjI)
  show "decided_by_first lower c rules SetDestination (re_destination (evaluate lower c rules))"
    using picked_destination destination.no_winner destination.winner by (rule decided_by_firstI)
  show "decided_by_first lower c rules (\<lambda>party. ClassifyParty party Role_Supplier)
      (re_classified_supplier (evaluate lower c rules))"
    using picked_party supplier.no_winner supplier.winner by (rule decided_by_firstI)
  show "decided_by_first lower c rules (\<lambda>party. ClassifyParty party Role_Customer)
      (re_classified_customer (evaluate lower c rules))"
    using picked_party customer.no_winner customer.winner by (rule decided_by_firstI)
  show "decided_by_first lower c rules (SetSemanticField field)
      (re_semantic_overrides (evaluate lower c rules) field)"
    using picked_override override.no_winner override.winner by (rule decided_by_firstI)
qed

text \<open>A resolved policy value comes from one of the candidates; no candidate has a higher
  precedence, and among those of the same precedence none has a smaller order. In particular
  a value confirmed or ruled by the user is never overridden by machine inference.\<close>

lemma precedence_resolution:
  assumes "resolve_precedence candidates = Some v"
  shows "\<exists>c \<in> set candidates. rv_value v = pc_value c \<and> rv_source v = pc_source c
    \<and> rv_rule_id v = pc_rule_id c \<and> rv_explanation v = pc_explanation c
    \<and> (\<forall>d \<in> set candidates. pc_source d \<le> rv_source v
          \<and> (pc_source d = rv_source v \<longrightarrow> pc_order c \<le> pc_order d))"
proof -
  obtain c where "c \<in> set candidates" and v: "v = \<lparr>rv_value = pc_value c, rv_source = pc_source c,
      rv_rule_id = pc_rule_id c, rv_explanation = pc_explanation c\<rparr>"
    and "\<forall>d \<in> set candidates. candidate_key c \<le> candidate_key d"
    using resolve_precedence_winner [OF assms] by blast
  then show ?thesis
    by (auto intro!: bexI [of _ c] dest: candidate_key_source candidate_key_order [OF _ sym])
qed

definition sample_candidates :: "nat precedence_candidate list" where
  "sample_candidates =
     [\<lparr>pc_value = 7, pc_source = Prec_HighConfidenceMachineInference, pc_order = 0,
       pc_rule_id = None, pc_explanation = None\<rparr>,
      \<lparr>pc_value = 9, pc_source = Prec_UserExplicitRule, pc_order = 3,
       pc_rule_id = Some 1, pc_explanation = None\<rparr>]"

theorem precedence_resolution_witness:
  "\<exists>v. resolve_precedence sample_candidates = Some v \<and> rv_value v = 9"
proof -
  obtain v where v: "resolve_precedence sample_candidates = Some v"
    using resolve_precedence_None [of sample_candidates] by (auto simp: sample_candidates_def)
  have "rv_value v = 9"
    using precedence_resolution [OF v]
    by (auto simp: sample_candidates_def less_eq_policy_precedence_def)
  with v show ?thesis by blast
qed

end
