(* ===== verification/Path_Properties.thy ===== *)
theory Path_Properties
  imports Path_Safety
begin

text \<open>
  Concrete runs of the sanitiser of \<^verbatim>\<open>organizer/src/path_safety.rs\<close> on long names, and the
  properties of that file. The code cuts a name to its length limit after it has trimmed
  trailing spaces and dots and escaped reserved device names, and does neither again: the two
  long names here come out of the sanitiser in a form that the validator of the same file
  rejects. Names that need no cutting always come out valid.
\<close>

section \<open>Truncation can undo sanitising\<close>

text \<open>Evaluation of the sanitiser on long repetitive names.\<close>

lemma truncate_from_append:
  "u + utf16_count a \<le> m \<Longrightarrow> truncate_from u m (a @ b) = a @ truncate_from (u + utf16_count a) m b"
  by (induction a arbitrary: u) (auto simp: add.assoc)

lemma utf16_count_replicate: "utf16_count (replicate n c) = n * len_utf16 c"
  by (induction n) auto

lemma rsplit_once_append: "c \<notin> set b \<Longrightarrow> rsplit_once c (a @ c # b) = Some (a, b)"
proof -
  assume c: "c \<notin> set b"
  then have b: "\<And>x. x \<in> set (rev b) \<Longrightarrow> x \<noteq> c" by auto
  have "takeWhile (\<lambda>x. x \<noteq> c) (rev b @ c # rev a) = rev b"
    using takeWhile_append2 [of "rev b" "\<lambda>x. x \<noteq> c" "c # rev a"] b by simp
  moreover have "dropWhile (\<lambda>x. x \<noteq> c) (rev b @ c # rev a) = c # rev a"
    using dropWhile_append2 [of "rev b" "\<lambda>x. x \<noteq> c" "c # rev a"] b by simp
  ultimately show ?thesis by (simp add: rsplit_once_def)
qed

lemma dropWhile_replicate_append:
  "P c \<Longrightarrow> dropWhile P (replicate n c @ s) = dropWhile P s"
  by (induction n) auto

lemma trim_id: "s \<noteq> [] \<Longrightarrow> \<not> is_whitespace (hd s) \<Longrightarrow> \<not> is_whitespace (last s) \<Longrightarrow> trim s = s"
proof -
  assume s: "s \<noteq> []" "\<not> is_whitespace (hd s)" "\<not> is_whitespace (last s)"
  have "dropWhile is_whitespace s = s" using s by (cases s) auto
  moreover have "dropWhile is_whitespace (rev s) = rev s"
    using s by (cases s rule: rev_cases) auto
  ultimately show ?thesis by (simp add: trim_def trim_end_by_def)
qed

definition long_segment :: ustring where
  "long_segment = replicate 79 97 @ [32, 98]"

definition long_device_name :: ustring where
  "long_device_name = lit ''CON'' @ replicate 200 32 @ lit ''x.txt''"

lemmas char_eval =
  lit_simps allowed_char_def is_windows_invalid_def is_control_def is_whitespace_def
  is_space_or_dot_def len_utf16_def

lemma long_segment_sanitized:
  "sv_value (sanitize_machine_segment default_path_policy long_segment) = replicate 79 97 @ [32]"
proof -
  have "clean_text long_segment"
    by (simp add: long_segment_def clean_text_def list_all_iff char_eval)
  moreover have "trim long_segment = long_segment"
    by (rule trim_id) (simp_all add: long_segment_def char_eval)
  moreover have "\<not> is_reserved_windows_name long_segment"
  proof -
    have "length (trim_end_by is_space_or_dot (first_split 46 long_segment)) = 81"
    proof -
      have "first_split 46 long_segment = long_segment"
        by (simp add: first_split_def long_segment_def takeWhile_eq_all_conv)
      then show ?thesis by (simp add: trim_end_by_def long_segment_def is_space_or_dot_def)
    qed
    then have "length (to_ascii_uppercase (trim_end_by is_space_or_dot (first_split 46 long_segment))) = 81"
      by (simp add: to_ascii_uppercase_def)
    then show ?thesis
      by (auto simp: is_reserved_windows_name_def Let_def lit_def strip_prefix_Some device_digits_def
          split: option.splits)
  qed
  ultimately have "sanitize_before_truncation long_segment = long_segment"
    by (simp add: sanitize_before_truncation_id)
  then show ?thesis
    by (simp add: sanitize_machine_segment_def sanitize_component_def Let_def policy_defs
        truncate_utf16_def long_segment_def truncate_from_append utf16_count_replicate len_utf16_def)
qed

lemma long_device_name_split:
  "split_extension long_device_name = (lit ''CON'' @ replicate 200 32 @ lit ''x'', Some (lit ''txt''))"
proof -
  let ?a = "lit ''CON'' @ replicate 200 32 @ lit ''x''"
  have "long_device_name = ?a @ 46 # lit ''txt''"
    by (simp add: long_device_name_def lit_simps)
  then have "rsplit_once 46 long_device_name = rsplit_once 46 (?a @ 46 # lit ''txt'')"
    by (rule arg_cong)
  also have "\<dots> = Some (?a, lit ''txt'')"
    by (rule rsplit_once_append) (simp add: lit_simps)
  finally have "rsplit_once 46 long_device_name = Some (?a, lit ''txt'')" .
  then show ?thesis by (simp add: split_extension_def lit_simps len_utf16_def)
qed

lemma takeWhile_replicate_append:
  "P c \<Longrightarrow> takeWhile P (replicate n c @ s) = replicate n c @ takeWhile P s"
  by (induction n) auto

lemma long_device_name_count: "utf16_count long_device_name = 208"
  by (simp add: long_device_name_def utf16_count_replicate lit_simps len_utf16_def)

lemma device_stem_truncated:
  "truncate_utf16 (lit ''CON'' @ replicate 200 32 @ lit ''x'') 156 = lit ''CON'' @ replicate 153 32"
proof -
  have "replicate 200 (32::nat) = replicate 153 32 @ replicate 47 32"
    by (simp flip: replicate_add)
  then have "lit ''CON'' @ replicate 200 32 @ lit ''x''
      = (lit ''CON'' @ replicate 153 32) @ (replicate 47 32 @ lit ''x'')"
    by simp
  moreover have "utf16_count (lit ''CON'' @ replicate 153 32) = 156"
    by (simp add: utf16_count_replicate lit_simps len_utf16_def)
  moreover have "truncate_from 156 156 (replicate 47 32 @ lit ''x'') = []"
  proof -
    have "replicate 47 (32::nat) = 32 # replicate 46 32" by (simp flip: replicate_Suc)
    then show ?thesis by (simp only: append_Cons truncate_from.simps) (simp add: len_utf16_def)
  qed
  ultimately show ?thesis
    unfolding truncate_utf16_def by (simp only: truncate_from_append add_0 le_refl append_Nil2)
qed

lemma long_device_name_sanitized:
  "sv_value (sanitize_machine_filename default_path_policy long_device_name)
     = lit ''CON'' @ replicate 153 32 @ lit ''.txt''"
proof -
  have "clean_text long_device_name"
    by (simp add: long_device_name_def clean_text_def list_all_iff char_eval)
  moreover have "trim long_device_name = long_device_name"
    by (rule trim_id) (simp_all add: long_device_name_def char_eval)
  moreover have "\<not> is_reserved_windows_name long_device_name"
  proof -
    have "first_split 46 long_device_name = (lit ''CON'' @ replicate 200 32) @ [120]"
      by (simp add: first_split_def long_device_name_def lit_simps takeWhile_replicate_append)
    then have "length (trim_end_by is_space_or_dot (first_split 46 long_device_name)) = 204"
      by (simp add: trim_end_by_def is_space_or_dot_def lit_simps)
    then have "length (to_ascii_uppercase (trim_end_by is_space_or_dot (first_split 46 long_device_name))) = 204"
      by (simp add: to_ascii_uppercase_def)
    then show ?thesis
      by (auto simp: is_reserved_windows_name_def Let_def lit_def strip_prefix_Some device_digits_def
          split: option.splits)
  qed
  ultimately have b: "sanitize_before_truncation long_device_name = long_device_name"
    by (simp add: sanitize_before_truncation_id)
  have c: "utf16_count (lit ''txt'') = 3" by (simp add: lit_simps len_utf16_def)
  have "truncate_filename_preserving_extension long_device_name 160
      = lit ''CON'' @ replicate 153 32 @ lit ''.txt''"
    unfolding truncate_filename_preserving_extension_def long_device_name_count
      long_device_name_split prod.case option.case c Let_def
    using device_stem_truncated by (simp add: lit_simps)
  then show ?thesis
    by (simp add: sanitize_machine_filename_def sanitize_component_def Let_def policy_defs b)
qed

lemma device_name_reserved: "is_reserved_windows_name (lit ''CON'' @ replicate 153 32 @ lit ''.txt'')"
proof -
  have "first_split 46 (lit ''CON'' @ replicate 153 32 @ lit ''.txt'') = lit ''CON'' @ replicate 153 32"
    by (simp add: first_split_def lit_simps takeWhile_replicate_append)
  moreover have "trim_end_by is_space_or_dot (lit ''CON'' @ replicate 153 32) = lit ''CON''"
    by (simp add: trim_end_by_def lit_simps dropWhile_replicate_append is_space_or_dot_def)
  ultimately show ?thesis
    by (simp add: is_reserved_windows_name_def Let_def to_ascii_uppercase_def upper_char_def
        is_ascii_lower_def lit_simps)
qed

section \<open>Properties\<close>

text \<open>A machine-made path component that needs no shortening is accepted by the validator
  after sanitising, whatever text it came from, and an already valid, trimmed component is left
  unchanged and reported as unchanged.\<close>

lemma sanitised_component_is_valid:
  assumes "utf16_count (sanitize_before_truncation s) \<le> m"
  shows "validate_component (sv_value (sanitize_component s m e)) m = Inr ()
    \<and> (validate_component s m = Inr () \<and> trim s = s
         \<longrightarrow> sanitize_component s m e = \<lparr>sv_value = s, sv_changed = False\<rparr>)"
  using sanitize_component_valid [OF assms] sanitize_valid_unchanged by simp

lemma sanitize_bad_name: "sanitize_before_truncation (lit ''a:b. '') = lit ''a_b''"
  by (simp add: sanitize_before_truncation_def Let_def trim_def trim_end_by_def char_eval
      is_reserved_windows_name_def first_split_def to_ascii_uppercase_def upper_char_def
      is_ascii_lower_def device_digits_def has_drive_prefix_def)

theorem sanitised_component_is_valid_witness:
  "validate_component (sv_value (sanitize_component (lit ''a:b. '') 80 True)) 80 = Inr ()"
proof -
  have "utf16_count (sanitize_before_truncation (lit ''a:b. '')) \<le> 80"
    unfolding sanitize_bad_name by (simp add: lit_simps len_utf16_def)
  from sanitised_component_is_valid [OF this] show ?thesis by blast
qed

text \<open>C32: under a policy whose path budget leaves room for its depth, and so under the default
  policy, fitting a machine path always succeeds: the flag is true, the depth is within the
  bound and the whole path is within the UTF-16 budget.\<close>

theorem machine_path_always_fits:
  assumes "33 * maximum_depth P + 16 \<le> maximum_path_utf16 P"
    and "fit_machine_path P destination filename = (d, n, changed, valid)"
  shows "valid \<and> length d \<le> maximum_depth P \<and> path_length_utf16 d n \<le> maximum_path_utf16 P"
  using fit_machine_path_fits [OF assms(2,1)] by blast

theorem machine_path_always_fits_witness:
  "\<exists>d n c. fit_machine_path default_path_policy (replicate 9 (lit ''dir'')) (lit ''f.txt'') = (d, n, c, True)
     \<and> length d \<le> 6"
proof -
  obtain d n c v where f:
    "fit_machine_path default_path_policy (replicate 9 (lit ''dir'')) (lit ''f.txt'') = (d, n, c, v)"
    by (metis prod_cases4)
  have "33 * maximum_depth default_path_policy + 16 \<le> maximum_path_utf16 default_path_policy"
    by (simp add: policy_defs)
  from machine_path_always_fits [OF this f] f show ?thesis by (auto simp: policy_defs)
qed

text \<open>two collision names of one file name with different ordinals differ, whatever their
  length limits, so numbering duplicates never maps two of them to one name.\<close>

lemma collision_names_distinct:
  "collision_name filename i m = collision_name filename j m' \<longleftrightarrow>
     i = j \<and> collision_name filename i m = collision_name filename i m'"
  using collision_name_inj by metis

text \<open>Two destinations have the same collision key exactly when they agree component by
  component after lower-casing, provided no lower-cased component holds a backslash.\<close>

lemma collision_key_is_exact:
  assumes "\<forall>s \<in> set (d @ [f]) \<union> set (d' @ [f']). 92 \<notin> set (lower s)"
  shows "collision_key lower d f = collision_key lower d' f' \<longleftrightarrow>
    map lower d = map lower d' \<and> lower f = lower f'"
  using assms by (rule collision_key_eq_iff)

theorem collision_key_is_exact_witness:
  "collision_key ascii_lower [lit ''A''] (lit ''B'') = collision_key ascii_lower [lit ''a''] (lit ''b'')
   \<and> collision_key ascii_lower [lit ''A''] (lit ''B'') \<noteq> collision_key ascii_lower [lit ''Ab''] (lit ''B'')"
  by (subst collision_key_is_exact; simp add: lit_simps ascii_lower_def lower_char_def is_ascii_upper_def)+

lemma space_terminated:
  fixes seg :: ustring
  defines "seg \<equiv> replicate 79 97 @ [32]"
  shows "trim seg \<noteq> []" "seg \<noteq> lit ''.''" "seg \<noteq> lit ''..''" "\<not> has_drive_prefix seg"
    "47 \<notin> set seg" "92 \<notin> set seg"
proof -
  show "trim seg \<noteq> []" by (auto simp: trim_empty_iff seg_def is_whitespace_def list_all_iff)
  have "length seg = 80" by (simp add: seg_def)
  then show "seg \<noteq> lit ''.''" "seg \<noteq> lit ''..''" by (auto simp: lit_simps)
  show "\<not> has_drive_prefix seg" by (rule no_drive_prefix) (simp add: seg_def)
qed (simp_all add: seg_def)

text \<open>Truncation undoes sanitising. Under the default policy there is a segment and a file
  name whose sanitised forms the validator of the same policy rejects: the segment ends in a
  space and the file name is a reserved device name.\<close>

lemma truncation_can_break_sanitising:
  "sv_value (sanitize_machine_segment default_path_policy long_segment) = replicate 79 97 @ [32]
   \<and> validate_component (sv_value (sanitize_machine_segment default_path_policy long_segment)) 80
       = Inl InvalidCharacter
   \<and> validate_component (sv_value (sanitize_machine_filename default_path_policy long_device_name)) 160
       = Inl ReservedWindowsName"
proof (intro conjI)
  show s: "sv_value (sanitize_machine_segment default_path_policy long_segment) = replicate 79 97 @ [32]"
    by (rule long_segment_sanitized)
  show "validate_component (sv_value (sanitize_machine_segment default_path_policy long_segment)) 80
       = Inl InvalidCharacter"
    unfolding s using space_terminated by (simp add: validate_component_def ends_with_any_def)
  show "validate_component (sv_value (sanitize_machine_filename default_path_policy long_device_name)) 160
       = Inl ReservedWindowsName"
    unfolding long_device_name_sanitized using device_name_reserved
    by (simp add: validate_component_def lit_simps char_eval ends_with_any_def has_drive_prefix_def
        list_ex_iff trim_empty_iff)
qed

end
