(* ===== verification/Domain_Plan.thy ===== *)
theory Domain_Plan
  imports Domain_Types
begin

text \<open>
  \<^verbatim>\<open>crates/domain/src/operation.rs\<close>: operation steps and their preconditions, plan drafts
  and the sealing of a draft, the integrity check and the approval of a sealed plan, and the
  hash-chained journal events. Hashing (\<^verbatim>\<open>blake3\<close>), the text form of a UUID and the JSON
  encoder are third-party code and come in as the fields of a record of parameters.
\<close>

section \<open>Library parameters\<close>

record libs =
  blake3 :: "byte list \<Rightarrow> digest"
  uuid_text :: "uuid \<Rightarrow> byte list"

text \<open>
  What the sources rely on of \<^verbatim>\<open>Uuid\<close>'s \<^verbatim>\<open>Display\<close>: the hyphenated form has 36 ASCII
  characters and determines the UUID.
\<close>

definition uuid_display :: "(uuid \<Rightarrow> byte list) \<Rightarrow> bool" where
  "uuid_display t \<longleftrightarrow> inj t \<and> (\<forall>u. length (t u) = 36)"

section \<open>Steps and plans\<close>

datatype operation_kind = CreateDirectory | RemoveDirectoryIfEmpty | RenameEntrySameVolume | NoOp

datatype step_precondition =
    SourceMatches file_fingerprint
  | DestinationAbsent root_id native_path
  | ParentMatches "byte list"
  | SameVolume ustring
  | SingleLink
  | NotReparsePoint
  | LocalNtfsVolume

datatype operation_step = OperationStep
  (step_uid: operation_step_id)
  (step_proposal_item_id: "proposal_item_id option")
  (step_sequence: u32)
  (step_kind: operation_kind)
  (step_source_root_id: "root_id option")
  (step_source_path: "native_path option")
  (step_destination_root_id: "root_id option")
  (step_destination_path: "native_path option")
  (step_preconditions: "step_precondition list")
  (step_inverse: "operation_step option")

record plan_draft =
  draft_id :: plan_id
  draft_workspace_id :: workspace_id
  draft_proposal_id :: proposal_id
  draft_proposal_digest :: digest
  draft_steps :: "operation_step list"
  draft_created_at_unix_ms :: int

record plan_libs = libs +
  json_plan_draft :: "plan_draft \<Rightarrow> byte list option"

fun is_destination_absent :: "step_precondition \<Rightarrow> bool" where
  "is_destination_absent (DestinationAbsent _ _) = True"
| "is_destination_absent _ = False"

definition step_is_safe_and_reversible :: "operation_step \<Rightarrow> bool" where
  "step_is_safe_and_reversible step \<longleftrightarrow>
     (case step_kind step of
        NoOp \<Rightarrow> True
      | CreateDirectory \<Rightarrow>
          step_source_path step = None \<and> step_destination_path step \<noteq> None
          \<and> (case step_inverse step of
               None \<Rightarrow> False
             | Some undo \<Rightarrow>
                 step_kind undo = RemoveDirectoryIfEmpty
                 \<and> step_destination_path undo = step_destination_path step)
      | RemoveDirectoryIfEmpty \<Rightarrow>
          step_source_path step = None \<and> step_destination_path step \<noteq> None
          \<and> (case step_inverse step of
               None \<Rightarrow> False
             | Some undo \<Rightarrow>
                 step_kind undo = CreateDirectory
                 \<and> step_destination_path undo = step_destination_path step)
      | RenameEntrySameVolume \<Rightarrow>
          step_source_path step \<noteq> None \<and> step_destination_path step \<noteq> None
          \<and> (case step_inverse step of
               None \<Rightarrow> False
             | Some undo \<Rightarrow>
                 step_kind undo = RenameEntrySameVolume
                 \<and> step_source_path undo = step_destination_path step
                 \<and> step_destination_path undo = step_source_path step)
          \<and> list_ex is_destination_absent (step_preconditions step))"

datatype plan_seal_error = SealEmpty | SealStaleSimulation | SealUnsafeStep | SealSerialization

record sealed_plan =
  plan_id :: plan_id
  plan_workspace_id :: workspace_id
  plan_proposal_id :: proposal_id
  plan_proposal_digest :: digest
  plan_digest :: digest
  plan_steps :: "operation_step list"
  plan_sealed_at_unix_ms :: int

definition seal ::
  "'a plan_libs_scheme \<Rightarrow> plan_draft \<Rightarrow> digest \<Rightarrow> plan_seal_error + sealed_plan" where
  "seal L draft simulated_proposal_digest =
     (if draft_proposal_digest draft \<noteq> simulated_proposal_digest then Inl SealStaleSimulation
      else if draft_steps draft = [] then Inl SealEmpty
      else if list_ex (\<lambda>step. \<not> step_is_safe_and_reversible step) (draft_steps draft)
      then Inl SealUnsafeStep
      else
        try_bind (ok_or (json_plan_draft L draft) SealSerialization) (\<lambda>encoded.
          Inr \<lparr>plan_id = draft_id draft,
               plan_workspace_id = draft_workspace_id draft,
               plan_proposal_id = draft_proposal_id draft,
               plan_proposal_digest = draft_proposal_digest draft,
               plan_digest = blake3 L encoded,
               plan_steps = draft_steps draft,
               plan_sealed_at_unix_ms = draft_created_at_unix_ms draft\<rparr>))"

text \<open>\<^verbatim>\<open>format!("{byte:02x}")\<close>\<close>

definition hex_digit :: "nat \<Rightarrow> uchar" where
  "hex_digit n = (if n < 10 then 48 + n else 87 + n)"

definition hex_byte :: "byte \<Rightarrow> ustring" where
  "hex_byte b = [hex_digit (unat b div 16), hex_digit (unat b mod 16)]"

definition digest_hex :: "sealed_plan \<Rightarrow> ustring" where
  "digest_hex p = concat (map hex_byte (digest_bytes (plan_digest p)))"

datatype plan_integrity_error = IntegrityDigestMismatch | IntegrityUnsafeStructure | IntegritySerialization

text \<open>The draft that \<^verbatim>\<open>verify_integrity\<close> rebuilds from a sealed plan.\<close>

definition draft_of_plan :: "sealed_plan \<Rightarrow> plan_draft" where
  "draft_of_plan p =
     \<lparr>draft_id = plan_id p,
      draft_workspace_id = plan_workspace_id p,
      draft_proposal_id = plan_proposal_id p,
      draft_proposal_digest = plan_proposal_digest p,
      draft_steps = plan_steps p,
      draft_created_at_unix_ms = plan_sealed_at_unix_ms p\<rparr>"

definition verify_integrity ::
  "'a plan_libs_scheme \<Rightarrow> sealed_plan \<Rightarrow> plan_integrity_error + unit" where
  "verify_integrity L p =
     try_bind (ok_or (json_plan_draft L (draft_of_plan p)) IntegritySerialization) (\<lambda>encoded.
       if blake3 L encoded \<noteq> plan_digest p then Inl IntegrityDigestMismatch
       else if plan_steps p = []
            \<or> list_ex (\<lambda>step. \<not> step_is_safe_and_reversible step) (plan_steps p)
       then Inl IntegrityUnsafeStructure
       else Inr ())"

datatype approval_error = ApprovalDigestMismatch | ApprovalInvalidPlan

record approval_receipt =
  appr_plan_id :: plan_id
  appr_plan_digest :: digest
  appr_actor_id :: actor_id
  appr_scope_digest :: digest
  appr_approved_at_unix_ms :: int

definition approve ::
  "'a plan_libs_scheme \<Rightarrow> sealed_plan \<Rightarrow> actor_id \<Rightarrow> digest \<Rightarrow> int \<Rightarrow> approval_error + approval_receipt" where
  "approve L p actor_id presented_digest approved_at_unix_ms =
     try_bind (map_err (\<lambda>_. ApprovalInvalidPlan) (verify_integrity L p)) (\<lambda>_.
       if plan_digest p \<noteq> presented_digest then Inl ApprovalDigestMismatch
       else Inr \<lparr>appr_plan_id = plan_id p,
                 appr_plan_digest = plan_digest p,
                 appr_actor_id = actor_id,
                 appr_scope_digest = plan_digest p,
                 appr_approved_at_unix_ms = approved_at_unix_ms\<rparr>)"

section \<open>Executions and journal events\<close>

datatype execution_state =
    ExecApproved | ExecApplying | ExecApplied | ExecPartial | ExecFailed | ExecRecoveryRequired
  | ExecRollingBack | ExecRolledBack | ExecConflict

datatype journal_event_kind =
    ApprovedDurable | IntentDurable | PreconditionsValidated | AppliedObserved | StepFailed
  | ExecutionFinished | RollbackIntent | RolledBackObserved | Conflict

text \<open>\<^verbatim>\<open>kind as u8\<close>: the position of the variant.\<close>

fun kind_u8 :: "journal_event_kind \<Rightarrow> byte" where
  "kind_u8 ApprovedDurable = 0"
| "kind_u8 IntentDurable = 1"
| "kind_u8 PreconditionsValidated = 2"
| "kind_u8 AppliedObserved = 3"
| "kind_u8 StepFailed = 4"
| "kind_u8 ExecutionFinished = 5"
| "kind_u8 RollbackIntent = 6"
| "kind_u8 RolledBackObserved = 7"
| "kind_u8 Conflict = 8"

record journal_event =
  je_execution_id :: execution_id
  je_sequence :: u64
  je_step_id :: "operation_step_id option"
  je_kind :: journal_event_kind
  je_payload :: "byte list"
  je_payload_digest :: digest
  je_previous_event_digest :: "digest option"
  je_event_digest :: digest
  je_occurred_at_unix_ms :: int

text \<open>The bytes fed to the hasher for the event digest, in the order of the updates.\<close>

definition event_preimage ::
  "'a libs_scheme \<Rightarrow> execution_id \<Rightarrow> u64 \<Rightarrow> operation_step_id option \<Rightarrow> journal_event_kind
    \<Rightarrow> digest \<Rightarrow> digest option \<Rightarrow> int \<Rightarrow> byte list" where
  "event_preimage L execution_id sequence step_id kind payload_digest previous occurred_at =
     uuid_text L execution_id
     @ word_le_bytes 8 sequence
     @ (case step_id of None \<Rightarrow> [] | Some s \<Rightarrow> uuid_text L s)
     @ [kind_u8 kind]
     @ digest_bytes payload_digest
     @ (case previous of None \<Rightarrow> [] | Some d \<Rightarrow> digest_bytes d)
     @ i64_le_bytes occurred_at"

definition journal_event_new ::
  "'a libs_scheme \<Rightarrow> execution_id \<Rightarrow> u64 \<Rightarrow> operation_step_id option \<Rightarrow> journal_event_kind
    \<Rightarrow> byte list \<Rightarrow> digest option \<Rightarrow> int \<Rightarrow> journal_event" where
  "journal_event_new L execution_id sequence step_id kind payload previous occurred_at =
     (let payload_digest = blake3 L payload;
          event_digest = blake3 L (event_preimage L execution_id sequence step_id kind
                                     payload_digest previous occurred_at)
      in \<lparr>je_execution_id = execution_id,
          je_sequence = sequence,
          je_step_id = step_id,
          je_kind = kind,
          je_payload = payload,
          je_payload_digest = payload_digest,
          je_previous_event_digest = previous,
          je_event_digest = event_digest,
          je_occurred_at_unix_ms = occurred_at\<rparr>)"

definition event_verify :: "'a libs_scheme \<Rightarrow> journal_event \<Rightarrow> digest option \<Rightarrow> bool" where
  "event_verify L e expected_previous \<longleftrightarrow>
     (if je_previous_event_digest e \<noteq> expected_previous then False
      else
        (let rebuilt = journal_event_new L (je_execution_id e) (je_sequence e) (je_step_id e)
                         (je_kind e) (je_payload e) (je_previous_event_digest e)
                         (je_occurred_at_unix_ms e)
         in je_payload_digest rebuilt = je_payload_digest e
            \<and> je_event_digest rebuilt = je_event_digest e))"

datatype recovery_observation =
    NotApplied | Applied | BothEntriesPresent | NeitherEntryPresent | IdentityMismatch

section \<open>Sealing, integrity and approval\<close>

lemma seal_Inr:
  "seal L d s = Inr p \<longleftrightarrow>
     draft_proposal_digest d = s \<and> draft_steps d \<noteq> []
     \<and> list_all step_is_safe_and_reversible (draft_steps d)
     \<and> (\<exists>encoded. json_plan_draft L d = Some encoded
         \<and> p = \<lparr>plan_id = draft_id d, plan_workspace_id = draft_workspace_id d,
                plan_proposal_id = draft_proposal_id d,
                plan_proposal_digest = draft_proposal_digest d,
                plan_digest = blake3 L encoded, plan_steps = draft_steps d,
                plan_sealed_at_unix_ms = draft_created_at_unix_ms d\<rparr>)"
  by (cases "json_plan_draft L d") (auto simp: seal_def list_all_iff list_ex_iff)

lemma verify_integrity_ok:
  "verify_integrity L p = Inr () \<longleftrightarrow>
     plan_steps p \<noteq> [] \<and> list_all step_is_safe_and_reversible (plan_steps p)
     \<and> (\<exists>encoded. json_plan_draft L (draft_of_plan p) = Some encoded
         \<and> blake3 L encoded = plan_digest p)"
  by (cases "json_plan_draft L (draft_of_plan p)")
    (auto simp: verify_integrity_def list_all_iff list_ex_iff)

lemma draft_of_sealed:
  "seal L d s = Inr p \<Longrightarrow> draft_of_plan p = d"
  by (cases d) (auto simp: seal_Inr draft_of_plan_def)

lemma sealed_plan_verifies: "seal L d s = Inr p \<Longrightarrow> verify_integrity L p = Inr ()"
  using draft_of_sealed [of L d s p] by (auto simp: seal_Inr verify_integrity_ok)

lemma approve_Inr:
  "approve L p a d t = Inr r \<longleftrightarrow>
     verify_integrity L p = Inr () \<and> plan_digest p = d
     \<and> r = \<lparr>appr_plan_id = plan_id p, appr_plan_digest = plan_digest p, appr_actor_id = a,
            appr_scope_digest = plan_digest p, appr_approved_at_unix_ms = t\<rparr>"
  by (cases "verify_integrity L p") (auto simp: approve_def)

lemma plan_determined_by_draft:
  "draft_of_plan p = draft_of_plan q \<Longrightarrow> plan_digest p = plan_digest q \<Longrightarrow> p = q"
  by (cases p; cases q) (simp add: draft_of_plan_def)

section \<open>Journal events bind their contents\<close>

lemma journal_event_new_fields [simp]:
  "je_execution_id (journal_event_new L x n s k pl pr t) = x"
  "je_sequence (journal_event_new L x n s k pl pr t) = n"
  "je_step_id (journal_event_new L x n s k pl pr t) = s"
  "je_kind (journal_event_new L x n s k pl pr t) = k"
  "je_payload (journal_event_new L x n s k pl pr t) = pl"
  "je_payload_digest (journal_event_new L x n s k pl pr t) = blake3 L pl"
  "je_previous_event_digest (journal_event_new L x n s k pl pr t) = pr"
  "je_occurred_at_unix_ms (journal_event_new L x n s k pl pr t) = t"
  by (simp_all add: journal_event_new_def Let_def)

lemma journal_event_new_digest:
  "je_event_digest (journal_event_new L x n s k pl pr t) =
     blake3 L (event_preimage L x n s k (blake3 L pl) pr t)"
  by (simp add: journal_event_new_def Let_def)

lemma journal_event_new_verify [simp]: "event_verify L (journal_event_new L x n s k pl pr t) pr"
  by (simp add: event_verify_def journal_event_new_def Let_def)

text \<open>The preimage of the digest stored in an event.\<close>

definition event_bytes :: "'a libs_scheme \<Rightarrow> journal_event \<Rightarrow> byte list" where
  "event_bytes L e =
     event_preimage L (je_execution_id e) (je_sequence e) (je_step_id e) (je_kind e)
       (je_payload_digest e) (je_previous_event_digest e) (je_occurred_at_unix_ms e)"

lemma event_verify_iff:
  "event_verify L e pr \<longleftrightarrow>
     je_previous_event_digest e = pr
     \<and> je_payload_digest e = blake3 L (je_payload e)
     \<and> je_event_digest e = blake3 L (event_bytes L e)"
  by (auto simp: event_verify_def Let_def journal_event_new_digest event_bytes_def)

lemma kind_u8_inj: "kind_u8 k = kind_u8 l \<longleftrightarrow> k = l"
  by (cases k; cases l) simp_all

lemma append_eq_same_length:
  "length a = length b \<Longrightarrow> a @ x = b @ y \<longleftrightarrow> a = b \<and> x = y"
  by simp

text \<open>
  The concatenation is unambiguous: the two optional fields have lengths 36 and 32, so the
  total length tells which of them are present.
\<close>

lemma event_preimage_length:
  assumes "uuid_display (uuid_text L)"
  shows "length (event_preimage L x n s k pd pr t) =
     85 + (if s = None then 0 else 36) + (if pr = None then 0 else 32)"
  using assms by (auto simp: event_preimage_def uuid_display_def split: option.splits)

lemma event_preimage_inj:
  assumes U: "uuid_display (uuid_text L)"
    and eq: "event_preimage L x n s k pd pr t = event_preimage L x' n' s' k' pd' pr' t'"
    and t: "is_i64 t" "is_i64 t'"
  shows "x = x' \<and> n = n' \<and> s = s' \<and> k = k' \<and> pd = pd' \<and> pr = pr' \<and> t = t'"
proof -
  have len: "length (uuid_text L u) = 36" for u using U by (simp add: uuid_display_def)
  have inj: "uuid_text L u = uuid_text L v \<Longrightarrow> u = v" for u v
    using U by (simp add: uuid_display_def inj_def)
  have "length (event_preimage L x n s k pd pr t) = length (event_preimage L x' n' s' k' pd' pr' t')"
    using eq by simp
  then have opt: "(s = None) = (s' = None)" "(pr = None) = (pr' = None)"
    unfolding event_preimage_length [OF U] by (auto split: if_splits)
  note parts = append_eq_same_length len length_word_le_bytes length_i64_le_bytes
  have "uuid_text L x = uuid_text L x' \<and> word_le_bytes 8 n = word_le_bytes 8 n'
    \<and> (case s of None \<Rightarrow> [] | Some u \<Rightarrow> uuid_text L u) = (case s' of None \<Rightarrow> [] | Some u \<Rightarrow> uuid_text L u)
    \<and> kind_u8 k = kind_u8 k' \<and> digest_bytes pd = digest_bytes pd'
    \<and> (case pr of None \<Rightarrow> [] | Some d \<Rightarrow> digest_bytes d) = (case pr' of None \<Rightarrow> [] | Some d \<Rightarrow> digest_bytes d)
    \<and> i64_le_bytes t = i64_le_bytes t'"
    using eq opt unfolding event_preimage_def
    by (cases s; cases s'; cases pr; cases pr') (simp_all add: parts)
  moreover have "word_le_bytes 8 n = word_le_bytes 8 n' \<Longrightarrow> n = n'"
    by (rule word_le_bytes_inj [of 8 n n']) simp_all
  ultimately show ?thesis
    using opt t by (auto simp: kind_u8_inj dest: inj digest_bytes_inj i64_le_bytes_inj
        split: option.splits)
qed

text \<open>
  Two verified events with one digest are the same event, unless the hash collides on the
  two preimages or on the two payloads, which are given.
\<close>

lemma event_digest_binds:
  assumes U: "uuid_display (uuid_text L)"
    and v: "event_verify L e pr" "event_verify L e' pr'"
    and d: "je_event_digest e = je_event_digest e'"
    and t: "is_i64 (je_occurred_at_unix_ms e)" "is_i64 (je_occurred_at_unix_ms e')"
  shows "e = e' \<or> collide (blake3 L) (event_bytes L e) (event_bytes L e')
    \<or> collide (blake3 L) (je_payload e) (je_payload e')"
proof (cases "event_bytes L e = event_bytes L e' \<and> je_payload e = je_payload e'")
  case True
  then have "event_bytes L e = event_bytes L e'" by simp
  from event_preimage_inj [OF U this [unfolded event_bytes_def] t] True d
  show ?thesis by (cases e; cases e') simp
next
  case False
  have h: "blake3 L (event_bytes L e) = blake3 L (event_bytes L e')"
    using v d by (simp add: event_verify_iff)
  show ?thesis
  proof (cases "event_bytes L e = event_bytes L e'")
    case True
    from event_preimage_inj [OF U this [unfolded event_bytes_def] t]
    have "je_payload_digest e = je_payload_digest e'" by simp
    then have "blake3 L (je_payload e) = blake3 L (je_payload e')"
      using v by (simp add: event_verify_iff)
    with True False show ?thesis by (simp add: collide_def)
  next
    case False
    with h show ?thesis by (simp add: collide_def)
  qed
qed

section \<open>Properties\<close>

definition sample_plan_libs :: plan_libs where
  "sample_plan_libs =
     \<lparr>blake3 = (\<lambda>b. of_nat (length b)), uuid_text = word_le_bytes 36,
      json_plan_draft = (\<lambda>d. Some (word_le_bytes 16 (draft_id d)))\<rparr>"

definition sample_noop :: operation_step where
  "sample_noop = OperationStep 1 None 1 NoOp None None None None [] None"

definition sample_draft :: plan_draft where
  "sample_draft =
     \<lparr>draft_id = 7, draft_workspace_id = 1, draft_proposal_id = 2, draft_proposal_digest = 3,
      draft_steps = [sample_noop], draft_created_at_unix_ms = 4\<rparr>"

lemma sample_uuid_display: "uuid_display (word_le_bytes 36)"
  by (auto simp: uuid_display_def inj_def intro: word_le_bytes_inj [of 36])

lemma sample_sealed:
  "\<exists>p. seal sample_plan_libs sample_draft 3 = Inr p \<and> plan_digest p = 16 \<and> plan_steps p = [sample_noop]"
  by (simp add: seal_def sample_draft_def sample_plan_libs_def step_is_safe_and_reversible_def
      sample_noop_def)

text \<open>C20: sealing a draft succeeds only for the simulated proposal and a non-empty list of safe,
  reversible steps; the sealed plan keeps the draft unchanged, passes its integrity check and
  can be approved exactly by presenting its own digest.\<close>

theorem sealed_plans_are_sound:
  assumes "seal L draft simulated = Inr p"
  shows "draft_of_plan p = draft \<and> draft_proposal_digest draft = simulated
    \<and> plan_steps p \<noteq> [] \<and> list_all step_is_safe_and_reversible (plan_steps p)
    \<and> verify_integrity L p = Inr ()
    \<and> (is_ok (approve L p actor presented t) \<longleftrightarrow> presented = plan_digest p)"
proof -
  have v: "verify_integrity L p = Inr ()" using assms by (rule sealed_plan_verifies)
  then have "is_ok (approve L p actor presented t) \<longleftrightarrow> presented = plan_digest p"
    by (auto simp: approve_def)
  moreover have "plan_steps p \<noteq> [] \<and> list_all step_is_safe_and_reversible (plan_steps p)"
    using v by (simp add: verify_integrity_ok)
  moreover have "draft_proposal_digest draft = simulated" using assms by (simp add: seal_Inr)
  ultimately show ?thesis using v draft_of_sealed [OF assms] by simp
qed

theorem sealed_plans_are_sound_witness:
  "\<exists>p. seal sample_plan_libs sample_draft 3 = Inr p
     \<and> is_ok (approve sample_plan_libs p 1 16 0) \<and> \<not> is_ok (approve sample_plan_libs p 1 17 0)"
proof -
  obtain p where p: "seal sample_plan_libs sample_draft 3 = Inr p" "plan_digest p = 16"
    using sample_sealed by blast
  show ?thesis
    using sealed_plans_are_sound [OF p(1), of 1 16 0] sealed_plans_are_sound [OF p(1), of 1 17 0] p
    by (intro exI [of _ p]) auto
qed

text \<open>C26: an approval binds the plan. Two plans that pass the integrity check and carry the same
  digest are the same plan, unless the JSON encoder maps their two drafts to one text or the
  hash maps their two texts to one digest; the colliding pair is named.\<close>

theorem plan_digest_binds_plan:
  assumes "verify_integrity L p = Inr ()" and "verify_integrity L q = Inr ()"
    and "plan_digest p = plan_digest q"
  shows "p = q
    \<or> collide (json_plan_draft L) (draft_of_plan p) (draft_of_plan q)
    \<or> collide (blake3 L) (the (json_plan_draft L (draft_of_plan p)))
        (the (json_plan_draft L (draft_of_plan q)))"
proof -
  obtain b c where bc: "json_plan_draft L (draft_of_plan p) = Some b" "blake3 L b = plan_digest p"
      "json_plan_draft L (draft_of_plan q) = Some c" "blake3 L c = plan_digest q"
    using assms(1,2) by (auto simp: verify_integrity_ok)
  show ?thesis
  proof (cases "draft_of_plan p = draft_of_plan q")
    case True
    then show ?thesis using assms(3) plan_determined_by_draft by blast
  next
    case False
    then show ?thesis using bc assms(3) by (auto simp: collide_def)
  qed
qed

theorem plan_digest_binds_plan_witness:
  "\<exists>p q. p \<noteq> q \<and> collide (json_plan_draft sample_plan_libs) (draft_of_plan p) (draft_of_plan q)"
proof -
  obtain p where p: "seal sample_plan_libs sample_draft 3 = Inr p"
    using sample_sealed by blast
  define q where "q = p\<lparr>plan_sealed_at_unix_ms := 5\<rparr>"
  have vp: "verify_integrity sample_plan_libs p = Inr ()" using p by (rule sealed_plan_verifies)
  have vq: "verify_integrity sample_plan_libs q = Inr ()"
    using vp by (simp add: verify_integrity_ok q_def draft_of_plan_def sample_plan_libs_def)
  have ne: "p \<noteq> q"
  proof
    assume "p = q"
    then have "plan_sealed_at_unix_ms p = plan_sealed_at_unix_ms q" by (rule arg_cong)
    then show False using p by (auto simp: q_def seal_Inr sample_draft_def)
  qed
  have "plan_digest p = plan_digest q" by (simp add: q_def)
  from plan_digest_binds_plan [OF vp vq this] ne
  have "collide (json_plan_draft sample_plan_libs) (draft_of_plan p) (draft_of_plan q)
      \<or> collide (blake3 sample_plan_libs) (the (json_plan_draft sample_plan_libs (draft_of_plan p)))
          (the (json_plan_draft sample_plan_libs (draft_of_plan q)))" by blast
  moreover have "json_plan_draft sample_plan_libs (draft_of_plan p)
      = json_plan_draft sample_plan_libs (draft_of_plan q)"
    by (simp add: q_def draft_of_plan_def sample_plan_libs_def)
  ultimately have "collide (json_plan_draft sample_plan_libs) (draft_of_plan p) (draft_of_plan q)"
    by (simp add: collide_def)
  with ne show ?thesis by blast
qed

text \<open>The digest of a journal event binds all of its fields. Two events that verify, each
  against its own predecessor, and carry the same digest are equal, unless the hash collides on
  the two events' byte encodings or on their payloads.\<close>

lemma journal_event_digest_binds:
  assumes "uuid_display (uuid_text L)"
    and "event_verify L e previous" and "event_verify L e' previous'"
    and "je_event_digest e = je_event_digest e'"
    and "is_i64 (je_occurred_at_unix_ms e)" and "is_i64 (je_occurred_at_unix_ms e')"
  shows "e = e' \<or> collide (blake3 L) (event_bytes L e) (event_bytes L e')
    \<or> collide (blake3 L) (je_payload e) (je_payload e')"
  using assms by (rule event_digest_binds)

theorem journal_event_digest_binds_witness:
  "let e = journal_event_new sample_plan_libs 1 0 None ApprovedDurable [1] None 5;
       e' = journal_event_new sample_plan_libs 1 1 None ApprovedDurable [1] None 5
   in e \<noteq> e' \<and> collide (blake3 sample_plan_libs) (event_bytes sample_plan_libs e)
                 (event_bytes sample_plan_libs e')"
proof -
  let ?e = "journal_event_new sample_plan_libs 1 0 None ApprovedDurable [1] None 5"
  let ?e' = "journal_event_new sample_plan_libs 1 1 None ApprovedDurable [1] None 5"
  have u: "uuid_display (uuid_text sample_plan_libs)"
    using sample_uuid_display by (simp add: sample_plan_libs_def)
  have "length (event_preimage sample_plan_libs x n s k pd None t) = 85 + (if s = None then 0 else 36)"
    for x n s k pd t using event_preimage_length [OF u] by simp
  then have d: "je_event_digest ?e = je_event_digest ?e'"
    by (simp add: journal_event_new_digest) (simp add: sample_plan_libs_def)
  have t: "is_i64 5" by (simp add: is_i64_def i64_min_def i64_max_def)
  have "?e \<noteq> ?e'"
  proof
    assume "?e = ?e'"
    then have "je_sequence ?e = je_sequence ?e'" by (rule arg_cong)
    then show False by simp
  qed
  with journal_event_digest_binds [OF u journal_event_new_verify journal_event_new_verify d] t
  show ?thesis by (simp add: Let_def collide_def)
qed

end
