(* ===== verification/Domain_Execution.thy ===== *)
theory Domain_Execution
  imports Domain_Plan
begin

text \<open>
  \<^verbatim>\<open>crates/domain/src/execution.rs\<close>: the stored form of an execution. The status enums with
  their database names, the records of a session, its operations, its consent and its executor
  requests, and the state machine of an executor request (\<open>may_transition_to\<close>) with the
  states each state can reach.
\<close>

definition EXECUTION_PLAN_MATERIAL_VERSION :: u32 where
  "EXECUTION_PLAN_MATERIAL_VERSION = 2"

definition MAX_EXECUTION_VERIFICATION_BYTES :: u64 where
  "MAX_EXECUTION_VERIFICATION_BYTES = 64 * 1024 * 1024 * 1024"

definition EXECUTION_SAFETY_POLICY_VERSION :: ustring where
  "EXECUTION_SAFETY_POLICY_VERSION = lit ''execution-safety-v2''"

section \<open>Statuses and their database names\<close>

datatype organization_execution_status =
    St_Prepared | St_AwaitingConfirmation | St_Approved | St_Running | St_Paused
  | St_Cancelled | St_Completed | St_Partial | St_Failed | St_RecoveryRequired
  | St_RecoveryAvailable | St_RecoveryAmbiguous | St_RollingBack | St_RolledBack
  | St_RollbackPartial

fun session_status_name :: "organization_execution_status \<Rightarrow> ustring" where
  "session_status_name St_Prepared = lit ''prepared''"
| "session_status_name St_AwaitingConfirmation = lit ''awaiting_confirmation''"
| "session_status_name St_Approved = lit ''approved''"
| "session_status_name St_Running = lit ''running''"
| "session_status_name St_Paused = lit ''paused''"
| "session_status_name St_Cancelled = lit ''cancelled''"
| "session_status_name St_Completed = lit ''completed''"
| "session_status_name St_Partial = lit ''partial''"
| "session_status_name St_Failed = lit ''failed''"
| "session_status_name St_RecoveryRequired = lit ''recovery_required''"
| "session_status_name St_RecoveryAvailable = lit ''recovery_available''"
| "session_status_name St_RecoveryAmbiguous = lit ''recovery_ambiguous''"
| "session_status_name St_RollingBack = lit ''rolling_back''"
| "session_status_name St_RolledBack = lit ''rolled_back''"
| "session_status_name St_RollbackPartial = lit ''rollback_partial''"

definition blocks_new_execution :: "organization_execution_status \<Rightarrow> bool" where
  "blocks_new_execution s \<longleftrightarrow>
     s \<in> {St_Prepared, St_AwaitingConfirmation, St_Approved, St_Running, St_Paused,
          St_RecoveryRequired, St_RecoveryAvailable, St_RecoveryAmbiguous, St_RollingBack}"

datatype execution_operation_kind =
    Xk_CreateDirectory | Xk_RemoveDirectoryIfEmpty | Xk_Move | Xk_Rename
  | Xk_MoveAndRename | Xk_InternalStage

fun operation_kind_name :: "execution_operation_kind \<Rightarrow> ustring" where
  "operation_kind_name Xk_CreateDirectory = lit ''create_directory''"
| "operation_kind_name Xk_RemoveDirectoryIfEmpty = lit ''remove_directory_if_empty''"
| "operation_kind_name Xk_Move = lit ''move''"
| "operation_kind_name Xk_Rename = lit ''rename''"
| "operation_kind_name Xk_MoveAndRename = lit ''move_and_rename''"
| "operation_kind_name Xk_InternalStage = lit ''internal_stage''"

datatype execution_operation_status =
    Op_Planned | Op_PreflightOk | Op_Blocked | Op_Running | Op_Applied | Op_Failed
  | Op_Skipped | Op_Stale | Op_Recovered | Op_RollingBack | Op_RolledBack
  | Op_RollbackBlocked | Op_RollbackFailed

fun operation_status_name :: "execution_operation_status \<Rightarrow> ustring" where
  "operation_status_name Op_Planned = lit ''planned''"
| "operation_status_name Op_PreflightOk = lit ''preflight_ok''"
| "operation_status_name Op_Blocked = lit ''blocked''"
| "operation_status_name Op_Running = lit ''running''"
| "operation_status_name Op_Applied = lit ''applied''"
| "operation_status_name Op_Failed = lit ''failed''"
| "operation_status_name Op_Skipped = lit ''skipped''"
| "operation_status_name Op_Stale = lit ''stale''"
| "operation_status_name Op_Recovered = lit ''recovered''"
| "operation_status_name Op_RollingBack = lit ''rolling_back''"
| "operation_status_name Op_RolledBack = lit ''rolled_back''"
| "operation_status_name Op_RollbackBlocked = lit ''rollback_blocked''"
| "operation_status_name Op_RollbackFailed = lit ''rollback_failed''"

datatype execution_recovery_state =
    Rec_RecoveryNotRequired | Rec_RecoveryAvailable | Rec_RecoveryRequired
  | Rec_RecoveryAmbiguous

fun recovery_state_name :: "execution_recovery_state \<Rightarrow> ustring" where
  "recovery_state_name Rec_RecoveryNotRequired = lit ''recovery_not_required''"
| "recovery_state_name Rec_RecoveryAvailable = lit ''recovery_available''"
| "recovery_state_name Rec_RecoveryRequired = lit ''recovery_required''"
| "recovery_state_name Rec_RecoveryAmbiguous = lit ''recovery_ambiguous''"

datatype execution_failure_category =
    Fail_IsolatedFailure | Fail_DependencyFailure | Fail_CriticalExecutionFailure

fun failure_category_name :: "execution_failure_category \<Rightarrow> ustring" where
  "failure_category_name Fail_IsolatedFailure = lit ''isolated_failure''"
| "failure_category_name Fail_DependencyFailure = lit ''dependency_failure''"
| "failure_category_name Fail_CriticalExecutionFailure = lit ''critical_execution_failure''"

datatype execution_consent_state =
    Consent_Pending | Consent_Attested | Consent_Consumed | Consent_Expired
  | Consent_Invalidated

fun consent_state_name :: "execution_consent_state \<Rightarrow> ustring" where
  "consent_state_name Consent_Pending = lit ''pending''"
| "consent_state_name Consent_Attested = lit ''attested''"
| "consent_state_name Consent_Consumed = lit ''consumed''"
| "consent_state_name Consent_Expired = lit ''expired''"
| "consent_state_name Consent_Invalidated = lit ''invalidated''"

datatype executor_session_purpose =
    Purpose_Forward | Purpose_Rollback

fun session_purpose_name :: "executor_session_purpose \<Rightarrow> ustring" where
  "session_purpose_name Purpose_Forward = lit ''forward''"
| "session_purpose_name Purpose_Rollback = lit ''rollback''"

datatype executor_request_direction =
    Dir_Forward | Dir_Rollback

fun request_direction_name :: "executor_request_direction \<Rightarrow> ustring" where
  "request_direction_name Dir_Forward = lit ''forward''"
| "request_direction_name Dir_Rollback = lit ''rollback''"

datatype executor_request_state =
    Req_IntentDurable | Req_AcknowledgedSuccess | Req_ProvenNotApplied
  | Req_RecoveryRequired | Req_ProvenNotStarted | Req_ProvenApplied | Req_Ambiguous

fun request_state_name :: "executor_request_state \<Rightarrow> ustring" where
  "request_state_name Req_IntentDurable = lit ''intent_durable''"
| "request_state_name Req_AcknowledgedSuccess = lit ''acknowledged_success''"
| "request_state_name Req_ProvenNotApplied = lit ''proven_not_applied''"
| "request_state_name Req_RecoveryRequired = lit ''recovery_required''"
| "request_state_name Req_ProvenNotStarted = lit ''proven_not_started''"
| "request_state_name Req_ProvenApplied = lit ''proven_applied''"
| "request_state_name Req_Ambiguous = lit ''ambiguous''"

section \<open>Records\<close>

record execution_root_binding =
  xrb_canonical_path :: native_path
  xrb_display_path :: ustring
  xrb_volume :: volume_identity

record execution_safety_policy_binding =
  xsp_version :: ustring
  xsp_maximum_rehash_bytes :: u64
  xsp_allow_qualified_case_only_rename :: bool
  xsp_digest_hex :: ustring

record execution_consent =
  xc_state :: execution_consent_state
  xc_issued_at_unix_ms :: "int option"
  xc_expires_at_unix_ms :: "int option"
  xc_attested_at_unix_ms :: "int option"
  xc_consumed_at_unix_ms :: "int option"
  xc_invalidated_at_unix_ms :: "int option"
  xc_invalidation_reason :: "ustring option"
  xc_nonce :: "digest option"
  xc_attestation_mac :: "digest option"

record approved_execution_plan =
  aep_material_version :: u32
  aep_execution_id :: execution_id
  aep_plan_id :: plan_id
  aep_proposal_id :: proposal_id
  aep_proposal_revision_id :: organization_revision_id
  aep_proposal_revision :: u32
  aep_source_snapshot_version :: scan_id
  aep_approved_operation_ids :: "proposal_item_id list"
  aep_operation_count :: u64
  aep_destination_root :: execution_root_binding
  aep_safety_policy :: execution_safety_policy_binding
  aep_approval_timestamp :: "ustring option"
  aep_user_confirmed :: bool
  aep_digest_hex :: ustring

record execution_operation =
  xop_id :: operation_step_id
  xop_execution_id :: execution_id
  xop_proposal_operation_id :: "proposal_item_id option"
  xop_kind :: execution_operation_kind
  xop_source_relative_path :: "ustring option"
  xop_destination_relative_path :: ustring
  xop_original_source_relative_path :: "ustring option"
  xop_expected_source_hash :: "ustring option"
  xop_expected_source_size :: "u64 option"
  xop_expected_source_modified_at :: "ustring option"
  xop_live_fingerprint :: "file_fingerprint option"
  xop_post_fingerprint :: "file_fingerprint option"
  xop_preconditions :: "ustring list"
  xop_dependencies :: "operation_step_id list"
  xop_sequence :: u32
  xop_status :: execution_operation_status
  xop_directory_existed_before :: "bool option"
  xop_reason :: "ustring option"
  xop_error_code :: "ustring option"
  xop_error_message :: "ustring option"
  xop_started_at :: "ustring option"
  xop_completed_at :: "ustring option"
  xop_rolled_back_at :: "ustring option"

record execution_summary =
  xsum_affected_files :: u64
  xsum_folders_to_create :: u64
  xsum_files_to_move :: u64
  xsum_files_to_rename :: u64
  xsum_files_unchanged :: u64
  xsum_conflicts :: u64
  xsum_needs_review :: u64
  xsum_preflight_ok :: u64
  xsum_applied :: u64
  xsum_blocked :: u64
  xsum_skipped :: u64
  xsum_failed :: u64
  xsum_rolled_back :: u64
  xsum_rollback_blocked :: u64
  xsum_rollback_failed :: u64

record execution_session =
  xs_id :: execution_id
  xs_plan_id :: plan_id
  xs_proposal_id :: proposal_id
  xs_proposal_revision_id :: organization_revision_id
  xs_proposal_revision :: u32
  xs_workspace_id :: workspace_id
  xs_root_id :: root_id
  xs_source_scan_id :: scan_id
  xs_status :: organization_execution_status
  xs_recovery_state :: execution_recovery_state
  xs_plan_digest_hex :: ustring
  xs_approval :: approved_execution_plan
  xs_consent :: execution_consent
  xs_summary :: execution_summary
  xs_current_operation :: "ustring option"
  xs_rollback_available :: bool
  xs_confirmation_phrase_required :: bool
  xs_created_at :: ustring
  xs_approved_at :: "ustring option"
  xs_started_at :: "ustring option"
  xs_completed_at :: "ustring option"
  xs_rolled_back_at :: "ustring option"
  xs_error :: "ustring option"

record execution_detail =
  xd_session :: execution_session
  xd_operations :: "execution_operation list"

record execution_progress =
  xp_execution_id :: execution_id
  xp_status :: organization_execution_status
  xp_completed :: u64
  xp_total :: u64
  xp_applied :: u64
  xp_blocked :: u64
  xp_skipped :: u64
  xp_failed :: u64
  xp_current :: "ustring option"

record executor_session_identity =
  xsi_session_id :: ustring
  xsi_execution_id :: execution_id
  xsi_plan_id :: plan_id
  xsi_plan_digest_hex :: ustring
  xsi_purpose :: executor_session_purpose
  xsi_coordinator_pid :: u32
  xsi_child_pid :: "u32 option"
  xsi_worker_nonce_hash_hex :: ustring
  xsi_coordinator_nonce_hash_hex :: ustring
  xsi_response_nonce_hash_hex :: "ustring option"
  xsi_opened_at_unix_ms :: int

record executor_request_identity =
  xri_request_id :: ustring
  xri_session_id :: ustring
  xri_execution_id :: execution_id
  xri_operation_id :: operation_step_id
  xri_direction :: executor_request_direction
  xri_request_sequence :: u64
  xri_request_nonce :: digest
  xri_request_digest_hex :: ustring

record executor_session_fact =
  xsf_session_id :: ustring
  xsf_execution_id :: execution_id
  xsf_plan_id :: plan_id
  xsf_plan_digest_hex :: ustring
  xsf_purpose :: executor_session_purpose
  xsf_coordinator_pid :: u32
  xsf_child_pid :: "u32 option"
  xsf_worker_nonce_hash_hex :: ustring
  xsf_coordinator_nonce_hash_hex :: ustring
  xsf_response_nonce_hash_hex :: "ustring option"
  xsf_opened_at_unix_ms :: int

record executor_request_fact =
  xrf_request_id :: ustring
  xrf_session_id :: ustring
  xrf_operation_id :: operation_step_id
  xrf_direction :: executor_request_direction
  xrf_request_sequence :: u64
  xrf_request_nonce_hash_hex :: ustring
  xrf_request_digest_hex :: ustring
  xrf_intent_event_sequence :: u64
  xrf_intent_event_digest_hex :: ustring
  xrf_state :: executor_request_state
  xrf_response_digest_hex :: "ustring option"
  xrf_outcome_class :: "ustring option"
  xrf_attempt_count :: "byte option"
  xrf_error_class :: "ustring option"

datatype journal_diagnostic_scope =
    Scope_Database | Scope_External

record journal_diagnostic =
  jd_scope :: journal_diagnostic_scope
  jd_execution_id :: "execution_id option"
  jd_code :: ustring
  jd_message :: ustring
  jd_detected_at_unix_ms :: int
  jd_recovery_available :: bool
  jd_rollback_available :: bool

record journal_diagnostic_state =
  jds_locked :: bool
  jds_diagnostics :: "journal_diagnostic list"

record recovery_item =
  ri_operation_id :: operation_step_id
  ri_direction :: executor_request_direction
  ri_item :: ustring
  ri_reason :: "ustring option"

record execution_retention_metadata =
  xrm_execution_id :: execution_id
  xrm_finalized_at :: "ustring option"
  xrm_journal_retention_reason :: ustring
  xrm_rollback_retention_reason :: ustring
  xrm_minimum_retain_until :: "ustring option"
  xrm_active_recovery :: bool
  xrm_rollback_eligible :: bool
  xrm_cleanup_eligible_at :: "ustring option"
  xrm_cleanup_eligibility_reason :: ustring
  xrm_updated_at :: ustring

record recovery_assessment =
  ra_execution_id :: execution_id
  ra_state :: execution_recovery_state
  ra_affected_count :: u64
  ra_not_started :: u64
  ra_applied :: u64
  ra_ambiguous :: u64
  ra_verified_applied_items :: "recovery_item list"
  ra_verified_not_started_items :: "recovery_item list"
  ra_ambiguous_items :: "recovery_item list"
  ra_rollback_available :: bool
  ra_executor_sessions :: "executor_session_fact list"
  ra_executor_requests :: "executor_request_fact list"
  ra_journal_diagnostics :: journal_diagnostic_state
  ra_message :: ustring

section \<open>Records with constructors in the source\<close>

definition consent_pending :: execution_consent where
  "consent_pending =
     \<lparr>xc_state = Consent_Pending, xc_issued_at_unix_ms = None, xc_expires_at_unix_ms = None,
      xc_attested_at_unix_ms = None, xc_consumed_at_unix_ms = None,
      xc_invalidated_at_unix_ms = None, xc_invalidation_reason = None, xc_nonce = None,
      xc_attestation_mac = None\<rparr>"

text \<open>\<^verbatim>\<open>ExecutionSummary::default()\<close>: every counter is zero.\<close>

definition execution_summary_default :: execution_summary where
  "execution_summary_default =
     \<lparr>xsum_affected_files = 0, xsum_folders_to_create = 0, xsum_files_to_move = 0,
      xsum_files_to_rename = 0, xsum_files_unchanged = 0, xsum_conflicts = 0,
      xsum_needs_review = 0, xsum_preflight_ok = 0, xsum_applied = 0, xsum_blocked = 0,
      xsum_skipped = 0, xsum_failed = 0, xsum_rolled_back = 0, xsum_rollback_blocked = 0,
      xsum_rollback_failed = 0\<rparr>"

definition executor_nonce_hash :: "'a libs_scheme \<Rightarrow> digest \<Rightarrow> ustring" where
  "executor_nonce_hash L nonce =
     concat (map hex_byte (digest_bytes (blake3 L
       (map of_nat (lit ''com.workingname.operation-executor/nonce-hash/v1'') @ [0]
        @ digest_bytes nonce))))"

section \<open>The state machine of an executor request\<close>

fun may_transition_to :: "executor_request_state \<Rightarrow> executor_request_state \<Rightarrow> bool" where
  "may_transition_to Req_IntentDurable next = True"
| "may_transition_to Req_AcknowledgedSuccess next \<longleftrightarrow>
     next \<in> {Req_AcknowledgedSuccess, Req_ProvenApplied, Req_RecoveryRequired, Req_Ambiguous}"
| "may_transition_to Req_RecoveryRequired next \<longleftrightarrow>
     next \<in> {Req_RecoveryRequired, Req_ProvenNotStarted, Req_ProvenApplied, Req_Ambiguous}"
| "may_transition_to Req_ProvenNotApplied next \<longleftrightarrow>
     next \<in> {Req_ProvenNotApplied, Req_RecoveryRequired, Req_ProvenNotStarted, Req_Ambiguous}"
| "may_transition_to Req_ProvenNotStarted next \<longleftrightarrow> next \<in> {Req_ProvenNotStarted, Req_Ambiguous}"
| "may_transition_to Req_ProvenApplied next \<longleftrightarrow> next \<in> {Req_ProvenApplied, Req_Ambiguous}"
| "may_transition_to Req_Ambiguous next \<longleftrightarrow> next = Req_Ambiguous"

inductive request_reaches :: "executor_request_state \<Rightarrow> executor_request_state \<Rightarrow> bool" where
  reaches_refl: "request_reaches s s"
| reaches_step: "request_reaches s t \<Longrightarrow> may_transition_to t u \<Longrightarrow> request_reaches s u"

inductive_cases request_reachesE: "request_reaches s t"

text \<open>Progress of a request: every proper transition raises it.\<close>

fun request_rank :: "executor_request_state \<Rightarrow> nat" where
  "request_rank Req_IntentDurable = 0"
| "request_rank Req_AcknowledgedSuccess = 1"
| "request_rank Req_ProvenNotApplied = 1"
| "request_rank Req_RecoveryRequired = 2"
| "request_rank Req_ProvenNotStarted = 3"
| "request_rank Req_ProvenApplied = 3"
| "request_rank Req_Ambiguous = 4"

lemma may_transition_rank: "may_transition_to s t \<Longrightarrow> s = t \<or> request_rank s < request_rank t"
  by (cases s; cases t) auto

lemma request_reaches_rank: "request_reaches s t \<Longrightarrow> s = t \<or> request_rank s < request_rank t"
  by (induction rule: request_reaches.induct) (auto dest: may_transition_rank)

lemma request_reaches_trans:
  "request_reaches t u \<Longrightarrow> request_reaches s t \<Longrightarrow> request_reaches s u"
  by (induction rule: request_reaches.induct) (auto intro: request_reaches.intros)

lemma may_transition_reaches: "may_transition_to s t \<Longrightarrow> request_reaches s t"
  by (rule reaches_step [OF reaches_refl])

lemma request_reaches_closed:
  assumes "request_reaches s t" and "s \<in> S" and "\<And>x y. x \<in> S \<Longrightarrow> may_transition_to x y \<Longrightarrow> y \<in> S"
  shows "t \<in> S"
  using assms by (induction rule: request_reaches.induct) auto

lemma reaches_from_not_started:
  "request_reaches Req_ProvenNotStarted t \<Longrightarrow> t \<in> {Req_ProvenNotStarted, Req_Ambiguous}"
  by (erule request_reaches_closed) auto

lemma reaches_from_applied:
  "request_reaches Req_ProvenApplied t \<Longrightarrow> t \<in> {Req_ProvenApplied, Req_Ambiguous}"
  by (erule request_reaches_closed) auto

lemma reaches_from_ambiguous: "request_reaches Req_Ambiguous t \<Longrightarrow> t = Req_Ambiguous"
  by (drule request_reaches_closed [where S = "{Req_Ambiguous}"]) auto

lemma reaches_ambiguous: "request_reaches s Req_Ambiguous"
  by (rule may_transition_reaches) (cases s; simp)

section \<open>Properties\<close>

text \<open>The executor request states only move forward. A proper transition can never be undone,
  so the proper transitions are well-founded and every history of a request settles; from a
  request proven not started or proven applied only that state and Ambiguous remain, Ambiguous
  is final, and it can be reached from everywhere.\<close>

lemma request_states_settle:
  "wf {(t, s). s \<noteq> t \<and> may_transition_to s t}
   \<and> (request_reaches s t \<and> request_reaches t s \<longleftrightarrow> s = t)
   \<and> {t. request_reaches Req_ProvenNotStarted t} = {Req_ProvenNotStarted, Req_Ambiguous}
   \<and> {t. request_reaches Req_ProvenApplied t} = {Req_ProvenApplied, Req_Ambiguous}
   \<and> {t. request_reaches Req_Ambiguous t} = {Req_Ambiguous}
   \<and> {s. request_reaches s Req_Ambiguous} = UNIV"
proof (intro conjI)
  have "{(t, s). s \<noteq> t \<and> may_transition_to s t} \<subseteq> measure (\<lambda>s. 4 - request_rank s)"
  proof clarsimp
    fix t s assume "s \<noteq> t" "may_transition_to s t"
    then have "request_rank s < request_rank t" using may_transition_rank by blast
    moreover have "request_rank t \<le> 4" by (cases t) auto
    ultimately show "4 - request_rank t < 4 - request_rank s" by simp
  qed
  then show "wf {(t, s). s \<noteq> t \<and> may_transition_to s t}" by (rule wf_subset [OF wf_measure])
next
  show "request_reaches s t \<and> request_reaches t s \<longleftrightarrow> s = t"
    using request_reaches_rank [of s t] request_reaches_rank [of t s] by (auto intro: reaches_refl)
next
  show "{t. request_reaches Req_ProvenNotStarted t} = {Req_ProvenNotStarted, Req_Ambiguous}"
    using reaches_from_not_started reaches_ambiguous reaches_refl by blast
next
  show "{t. request_reaches Req_ProvenApplied t} = {Req_ProvenApplied, Req_Ambiguous}"
    using reaches_from_applied reaches_ambiguous reaches_refl by blast
next
  show "{t. request_reaches Req_Ambiguous t} = {Req_Ambiguous}"
    using reaches_from_ambiguous reaches_refl by blast
next
  show "{s. request_reaches s Req_Ambiguous} = UNIV"
    using reaches_ambiguous by blast
qed

end
