(* ===== verification/Stored_Names.thy ===== *)
theory Stored_Names
  imports Domain_Execution Domain_Review
begin

text \<open>
  How the persistence layer writes enum values and digests into SQLite columns and reads them
  back: the \<^verbatim>\<open>parse_*\<close> functions of \<^verbatim>\<open>crates/persistence/src/execution.rs\<close> and
  \<^verbatim>\<open>proposal.rs\<close> against the \<^verbatim>\<open>database_name\<close> functions of the domain crate, and
  \<^verbatim>\<open>encode_digest\<close>/\<^verbatim>\<open>decode_digest\<close>. The locale \<open>stored_enum\<close> is the contract of one such
  column; it is interpreted for every pair of functions.
\<close>

section \<open>Errors of the persistence layer\<close>

datatype persistence_error =
    SqlError | WriterPoisoned | UnsupportedSchema int | InvalidCipher | NotFound
  | InvalidIdentifier | InvalidNativePath | NumericOverflow | InvalidSemanticOutput
  | InvalidIdentityInput | IdentityConflict | InvalidProposal | InvalidExecution | InvalidRule
  | RuleConflict | InvalidMonitoringInput

section \<open>Parsers of stored names\<close>

definition parse_executor_session_purpose :: "ustring \<Rightarrow> persistence_error + executor_session_purpose" where
  "parse_executor_session_purpose value =
     (if value = lit ''forward'' then Inr Purpose_Forward
      else if value = lit ''rollback'' then Inr Purpose_Rollback
      else Inl InvalidExecution)"

definition parse_executor_request_direction :: "ustring \<Rightarrow> persistence_error + executor_request_direction" where
  "parse_executor_request_direction value =
     (if value = lit ''forward'' then Inr Dir_Forward
      else if value = lit ''rollback'' then Inr Dir_Rollback
      else Inl InvalidExecution)"

definition parse_executor_request_state :: "ustring \<Rightarrow> persistence_error + executor_request_state" where
  "parse_executor_request_state value =
     (if value = lit ''intent_durable'' then Inr Req_IntentDurable
      else if value = lit ''acknowledged_success'' then Inr Req_AcknowledgedSuccess
      else if value = lit ''proven_not_applied'' then Inr Req_ProvenNotApplied
      else if value = lit ''recovery_required'' then Inr Req_RecoveryRequired
      else if value = lit ''proven_not_started'' then Inr Req_ProvenNotStarted
      else if value = lit ''proven_applied'' then Inr Req_ProvenApplied
      else if value = lit ''ambiguous'' then Inr Req_Ambiguous
      else Inl InvalidExecution)"

definition parse_session_status :: "ustring \<Rightarrow> persistence_error + organization_execution_status" where
  "parse_session_status value =
     (if value = lit ''prepared'' then Inr St_Prepared
      else if value = lit ''awaiting_confirmation'' then Inr St_AwaitingConfirmation
      else if value = lit ''approved'' then Inr St_Approved
      else if value = lit ''running'' then Inr St_Running
      else if value = lit ''paused'' then Inr St_Paused
      else if value = lit ''cancelled'' then Inr St_Cancelled
      else if value = lit ''completed'' then Inr St_Completed
      else if value = lit ''partial'' then Inr St_Partial
      else if value = lit ''failed'' then Inr St_Failed
      else if value = lit ''recovery_required'' then Inr St_RecoveryRequired
      else if value = lit ''recovery_available'' then Inr St_RecoveryAvailable
      else if value = lit ''recovery_ambiguous'' then Inr St_RecoveryAmbiguous
      else if value = lit ''rolling_back'' then Inr St_RollingBack
      else if value = lit ''rolled_back'' then Inr St_RolledBack
      else if value = lit ''rollback_partial'' then Inr St_RollbackPartial
      else Inl InvalidExecution)"

definition parse_recovery_state :: "ustring \<Rightarrow> persistence_error + execution_recovery_state" where
  "parse_recovery_state value =
     (if value = lit ''recovery_not_required'' then Inr Rec_RecoveryNotRequired
      else if value = lit ''recovery_available'' then Inr Rec_RecoveryAvailable
      else if value = lit ''recovery_required'' then Inr Rec_RecoveryRequired
      else if value = lit ''recovery_ambiguous'' then Inr Rec_RecoveryAmbiguous
      else Inl InvalidExecution)"

definition parse_consent_state :: "ustring \<Rightarrow> persistence_error + execution_consent_state" where
  "parse_consent_state value =
     (if value = lit ''pending'' then Inr Consent_Pending
      else if value = lit ''attested'' then Inr Consent_Attested
      else if value = lit ''consumed'' then Inr Consent_Consumed
      else if value = lit ''expired'' then Inr Consent_Expired
      else if value = lit ''invalidated'' then Inr Consent_Invalidated
      else Inl InvalidExecution)"

definition parse_execution_operation_kind :: "ustring \<Rightarrow> persistence_error + execution_operation_kind" where
  "parse_execution_operation_kind value =
     (if value = lit ''create_directory'' then Inr Xk_CreateDirectory
      else if value = lit ''remove_directory_if_empty'' then Inr Xk_RemoveDirectoryIfEmpty
      else if value = lit ''move'' then Inr Xk_Move
      else if value = lit ''rename'' then Inr Xk_Rename
      else if value = lit ''move_and_rename'' then Inr Xk_MoveAndRename
      else if value = lit ''internal_stage'' then Inr Xk_InternalStage
      else Inl InvalidExecution)"

definition parse_operation_status :: "ustring \<Rightarrow> persistence_error + execution_operation_status" where
  "parse_operation_status value =
     (if value = lit ''planned'' then Inr Op_Planned
      else if value = lit ''preflight_ok'' then Inr Op_PreflightOk
      else if value = lit ''blocked'' then Inr Op_Blocked
      else if value = lit ''running'' then Inr Op_Running
      else if value = lit ''applied'' then Inr Op_Applied
      else if value = lit ''failed'' then Inr Op_Failed
      else if value = lit ''skipped'' then Inr Op_Skipped
      else if value = lit ''stale'' then Inr Op_Stale
      else if value = lit ''recovered'' then Inr Op_Recovered
      else if value = lit ''rolling_back'' then Inr Op_RollingBack
      else if value = lit ''rolled_back'' then Inr Op_RolledBack
      else if value = lit ''rollback_blocked'' then Inr Op_RollbackBlocked
      else if value = lit ''rollback_failed'' then Inr Op_RollbackFailed
      else Inl InvalidExecution)"

definition parse_journal_kind :: "ustring \<Rightarrow> persistence_error + journal_event_kind" where
  "parse_journal_kind value =
     (if value = lit ''approved_durable'' then Inr ApprovedDurable
      else if value = lit ''intent_durable'' then Inr IntentDurable
      else if value = lit ''preconditions_validated'' then Inr PreconditionsValidated
      else if value = lit ''applied_observed'' then Inr AppliedObserved
      else if value = lit ''step_failed'' then Inr StepFailed
      else if value = lit ''execution_finished'' then Inr ExecutionFinished
      else if value = lit ''rollback_intent'' then Inr RollbackIntent
      else if value = lit ''rolled_back_observed'' then Inr RolledBackObserved
      else if value = lit ''conflict'' then Inr Conflict
      else Inl InvalidExecution)"

definition parse_proposal_operation_kind :: "ustring \<Rightarrow> persistence_error + proposal_operation_kind" where
  "parse_proposal_operation_kind value =
     (if value = lit ''move_proposal'' then Inr Pk_MoveProposal
      else if value = lit ''rename_proposal'' then Inr Pk_RenameProposal
      else if value = lit ''create_folder_proposal'' then Inr Pk_CreateFolderProposal
      else if value = lit ''keep_in_place'' then Inr Pk_KeepInPlace
      else if value = lit ''to_review'' then Inr Pk_ToReview
      else if value = lit ''no_action'' then Inr Pk_NoAction
      else Inl InvalidProposal)"

definition parse_confidence_level :: "ustring \<Rightarrow> persistence_error + proposal_confidence_level" where
  "parse_confidence_level value =
     (if value = lit ''very_high'' then Inr Level_VeryHigh
      else if value = lit ''high'' then Inr Level_High
      else if value = lit ''medium'' then Inr Level_Medium
      else if value = lit ''low'' then Inr Level_Low
      else Inl InvalidProposal)"

definition parse_conflict_state :: "ustring \<Rightarrow> persistence_error + proposal_conflict_state" where
  "parse_conflict_state value =
     (if value = lit ''none'' then Inr Clash_None
      else if value = lit ''auto_resolved'' then Inr Clash_AutoResolved
      else if value = lit ''destination_collision'' then Inr Clash_DestinationCollision
      else if value = lit ''invalid_path'' then Inr Clash_InvalidPath
      else if value = lit ''path_too_long'' then Inr Clash_PathTooLong
      else if value = lit ''stale_source'' then Inr Clash_StaleSource
      else Inl InvalidProposal)"

definition parse_proposal_status :: "ustring \<Rightarrow> persistence_error + organization_proposal_status" where
  "parse_proposal_status value =
     (if value = lit ''draft'' then Inr Prop_Draft
      else if value = lit ''ready_for_review'' then Inr Prop_ReadyForReview
      else if value = lit ''reviewed'' then Inr Prop_Reviewed
      else if value = lit ''approved_for_future_apply'' then Inr Prop_ApprovedForFutureApply
      else if value = lit ''superseded'' then Inr Prop_Superseded
      else if value = lit ''cancelled'' then Inr Prop_Cancelled
      else Inl InvalidProposal)"

definition parse_override_action :: "ustring \<Rightarrow> persistence_error + proposal_override_action" where
  "parse_override_action value =
     (if value = lit ''destination'' then Inr Ov_Destination
      else if value = lit ''rename'' then Inr Ov_Rename
      else if value = lit ''destination_and_rename'' then Inr Ov_DestinationAndRename
      else if value = lit ''keep_in_place'' then Inr Ov_KeepInPlace
      else if value = lit ''to_review'' then Inr Ov_ToReview
      else if value = lit ''reject'' then Inr Ov_Reject
      else Inl InvalidProposal)"

definition parse_node_kind :: "ustring \<Rightarrow> persistence_error + virtual_node_kind" where
  "parse_node_kind value =
     (if value = lit ''root'' then Inr Node_Root
      else if value = lit ''folder'' then Inr Node_Folder
      else if value = lit ''file'' then Inr Node_File
      else Inl InvalidProposal)"

fun journal_kind_name :: "journal_event_kind \<Rightarrow> ustring" where
  "journal_kind_name ApprovedDurable = lit ''approved_durable''"
| "journal_kind_name IntentDurable = lit ''intent_durable''"
| "journal_kind_name PreconditionsValidated = lit ''preconditions_validated''"
| "journal_kind_name AppliedObserved = lit ''applied_observed''"
| "journal_kind_name StepFailed = lit ''step_failed''"
| "journal_kind_name ExecutionFinished = lit ''execution_finished''"
| "journal_kind_name RollbackIntent = lit ''rollback_intent''"
| "journal_kind_name RolledBackObserved = lit ''rolled_back_observed''"
| "journal_kind_name Conflict = lit ''conflict''"

fun virtual_node_kind_name :: "virtual_node_kind \<Rightarrow> ustring" where
  "virtual_node_kind_name Node_Root = lit ''root''"
| "virtual_node_kind_name Node_Folder = lit ''folder''"
| "virtual_node_kind_name Node_File = lit ''file''"

fun revision_status_name :: "organization_proposal_status \<Rightarrow> ustring" where
  "revision_status_name Prop_Draft = lit ''draft''"
| "revision_status_name Prop_Cancelled = lit ''cancelled''"
| "revision_status_name Prop_ReadyForReview = lit ''ready_for_review''"
| "revision_status_name Prop_Reviewed = lit ''ready_for_review''"
| "revision_status_name Prop_ApprovedForFutureApply = lit ''ready_for_review''"
| "revision_status_name Prop_Superseded = lit ''ready_for_review''"

section \<open>The contract of a stored enum column\<close>

text \<open>Exactly the written names are read, each as its value; every other text is the error \<open>bad\<close>.\<close>

definition exact_column ::
  "('a \<Rightarrow> ustring) \<Rightarrow> (ustring \<Rightarrow> persistence_error + 'a) \<Rightarrow> persistence_error \<Rightarrow> bool" where
  "exact_column name parse bad \<longleftrightarrow>
     (\<forall>v x. parse v = Inr x \<longleftrightarrow> v = name x) \<and> (\<forall>v. parse v = Inl bad \<longleftrightarrow> v \<notin> range name)"

locale stored_enum =
  fixes name :: "'a \<Rightarrow> ustring"
    and parse :: "ustring \<Rightarrow> persistence_error + 'a"
    and bad :: persistence_error
  assumes parse_name: "parse (name x) = Inr x"
    and name_parse: "parse v = Inr x \<Longrightarrow> v = name x"
    and parse_bad: "parse v = Inl e \<Longrightarrow> e = bad"
begin

lemma name_inj: "name x = name y \<longleftrightarrow> x = y"
  by (metis parse_name sum.inject(2))

lemma parse_iff: "parse v = Inr x \<longleftrightarrow> v = name x"
  using parse_name name_parse by blast

lemma parse_rejects: "parse v = Inl bad \<longleftrightarrow> v \<notin> range name"
  using parse_bad [of v] parse_iff [of v] by (cases "parse v") auto

lemma exact: "exact_column name parse bad"
  by (simp add: exact_column_def parse_iff parse_rejects)

end

interpretation purpose: stored_enum session_purpose_name parse_executor_session_purpose InvalidExecution
proof
  show "parse_executor_session_purpose (session_purpose_name x) = Inr x" for x
    by (cases x) (simp_all add: parse_executor_session_purpose_def)
  show "parse_executor_session_purpose v = Inr x \<Longrightarrow> v = session_purpose_name x" for v x
    by (auto simp: parse_executor_session_purpose_def split: if_splits)
  show "parse_executor_session_purpose v = Inl e \<Longrightarrow> e = InvalidExecution" for v e
    by (auto simp: parse_executor_session_purpose_def split: if_splits)
qed

interpretation direction: stored_enum request_direction_name parse_executor_request_direction InvalidExecution
proof
  show "parse_executor_request_direction (request_direction_name x) = Inr x" for x
    by (cases x) (simp_all add: parse_executor_request_direction_def)
  show "parse_executor_request_direction v = Inr x \<Longrightarrow> v = request_direction_name x" for v x
    by (auto simp: parse_executor_request_direction_def split: if_splits)
  show "parse_executor_request_direction v = Inl e \<Longrightarrow> e = InvalidExecution" for v e
    by (auto simp: parse_executor_request_direction_def split: if_splits)
qed

interpretation request_state: stored_enum request_state_name parse_executor_request_state InvalidExecution
proof
  show "parse_executor_request_state (request_state_name x) = Inr x" for x
    by (cases x) (simp_all add: parse_executor_request_state_def)
  show "parse_executor_request_state v = Inr x \<Longrightarrow> v = request_state_name x" for v x
    by (auto simp: parse_executor_request_state_def split: if_splits)
  show "parse_executor_request_state v = Inl e \<Longrightarrow> e = InvalidExecution" for v e
    by (auto simp: parse_executor_request_state_def split: if_splits)
qed

interpretation session_status: stored_enum session_status_name parse_session_status InvalidExecution
proof
  show "parse_session_status (session_status_name x) = Inr x" for x
    by (cases x) (simp_all add: parse_session_status_def)
  show "parse_session_status v = Inr x \<Longrightarrow> v = session_status_name x" for v x
    by (auto simp: parse_session_status_def split: if_splits)
  show "parse_session_status v = Inl e \<Longrightarrow> e = InvalidExecution" for v e
    by (auto simp: parse_session_status_def split: if_splits)
qed

interpretation recovery_state: stored_enum recovery_state_name parse_recovery_state InvalidExecution
proof
  show "parse_recovery_state (recovery_state_name x) = Inr x" for x
    by (cases x) (simp_all add: parse_recovery_state_def)
  show "parse_recovery_state v = Inr x \<Longrightarrow> v = recovery_state_name x" for v x
    by (auto simp: parse_recovery_state_def split: if_splits)
  show "parse_recovery_state v = Inl e \<Longrightarrow> e = InvalidExecution" for v e
    by (auto simp: parse_recovery_state_def split: if_splits)
qed

interpretation consent_state: stored_enum consent_state_name parse_consent_state InvalidExecution
proof
  show "parse_consent_state (consent_state_name x) = Inr x" for x
    by (cases x) (simp_all add: parse_consent_state_def)
  show "parse_consent_state v = Inr x \<Longrightarrow> v = consent_state_name x" for v x
    by (auto simp: parse_consent_state_def split: if_splits)
  show "parse_consent_state v = Inl e \<Longrightarrow> e = InvalidExecution" for v e
    by (auto simp: parse_consent_state_def split: if_splits)
qed

interpretation execution_kind: stored_enum operation_kind_name parse_execution_operation_kind InvalidExecution
proof
  show "parse_execution_operation_kind (operation_kind_name x) = Inr x" for x
    by (cases x) (simp_all add: parse_execution_operation_kind_def)
  show "parse_execution_operation_kind v = Inr x \<Longrightarrow> v = operation_kind_name x" for v x
    by (auto simp: parse_execution_operation_kind_def split: if_splits)
  show "parse_execution_operation_kind v = Inl e \<Longrightarrow> e = InvalidExecution" for v e
    by (auto simp: parse_execution_operation_kind_def split: if_splits)
qed

interpretation operation_status: stored_enum operation_status_name parse_operation_status InvalidExecution
proof
  show "parse_operation_status (operation_status_name x) = Inr x" for x
    by (cases x) (simp_all add: parse_operation_status_def)
  show "parse_operation_status v = Inr x \<Longrightarrow> v = operation_status_name x" for v x
    by (auto simp: parse_operation_status_def split: if_splits)
  show "parse_operation_status v = Inl e \<Longrightarrow> e = InvalidExecution" for v e
    by (auto simp: parse_operation_status_def split: if_splits)
qed

interpretation journal_kind: stored_enum journal_kind_name parse_journal_kind InvalidExecution
proof
  show "parse_journal_kind (journal_kind_name x) = Inr x" for x
    by (cases x) (simp_all add: parse_journal_kind_def)
  show "parse_journal_kind v = Inr x \<Longrightarrow> v = journal_kind_name x" for v x
    by (auto simp: parse_journal_kind_def split: if_splits)
  show "parse_journal_kind v = Inl e \<Longrightarrow> e = InvalidExecution" for v e
    by (auto simp: parse_journal_kind_def split: if_splits)
qed

interpretation proposal_kind: stored_enum proposal_operation_kind_name parse_proposal_operation_kind InvalidProposal
proof
  show "parse_proposal_operation_kind (proposal_operation_kind_name x) = Inr x" for x
    by (cases x) (simp_all add: parse_proposal_operation_kind_def)
  show "parse_proposal_operation_kind v = Inr x \<Longrightarrow> v = proposal_operation_kind_name x" for v x
    by (auto simp: parse_proposal_operation_kind_def split: if_splits)
  show "parse_proposal_operation_kind v = Inl e \<Longrightarrow> e = InvalidProposal" for v e
    by (auto simp: parse_proposal_operation_kind_def split: if_splits)
qed

interpretation confidence_level: stored_enum confidence_level_name parse_confidence_level InvalidProposal
proof
  show "parse_confidence_level (confidence_level_name x) = Inr x" for x
    by (cases x) (simp_all add: parse_confidence_level_def)
  show "parse_confidence_level v = Inr x \<Longrightarrow> v = confidence_level_name x" for v x
    by (auto simp: parse_confidence_level_def split: if_splits)
  show "parse_confidence_level v = Inl e \<Longrightarrow> e = InvalidProposal" for v e
    by (auto simp: parse_confidence_level_def split: if_splits)
qed

interpretation conflict_state: stored_enum conflict_state_name parse_conflict_state InvalidProposal
proof
  show "parse_conflict_state (conflict_state_name x) = Inr x" for x
    by (cases x) (simp_all add: parse_conflict_state_def)
  show "parse_conflict_state v = Inr x \<Longrightarrow> v = conflict_state_name x" for v x
    by (auto simp: parse_conflict_state_def split: if_splits)
  show "parse_conflict_state v = Inl e \<Longrightarrow> e = InvalidProposal" for v e
    by (auto simp: parse_conflict_state_def split: if_splits)
qed

interpretation proposal_status: stored_enum proposal_status_name parse_proposal_status InvalidProposal
proof
  show "parse_proposal_status (proposal_status_name x) = Inr x" for x
    by (cases x) (simp_all add: parse_proposal_status_def)
  show "parse_proposal_status v = Inr x \<Longrightarrow> v = proposal_status_name x" for v x
    by (auto simp: parse_proposal_status_def split: if_splits)
  show "parse_proposal_status v = Inl e \<Longrightarrow> e = InvalidProposal" for v e
    by (auto simp: parse_proposal_status_def split: if_splits)
qed

interpretation override_action: stored_enum override_action_name parse_override_action InvalidProposal
proof
  show "parse_override_action (override_action_name x) = Inr x" for x
    by (cases x) (simp_all add: parse_override_action_def)
  show "parse_override_action v = Inr x \<Longrightarrow> v = override_action_name x" for v x
    by (auto simp: parse_override_action_def split: if_splits)
  show "parse_override_action v = Inl e \<Longrightarrow> e = InvalidProposal" for v e
    by (auto simp: parse_override_action_def split: if_splits)
qed

interpretation node_kind: stored_enum virtual_node_kind_name parse_node_kind InvalidProposal
proof
  show "parse_node_kind (virtual_node_kind_name x) = Inr x" for x
    by (cases x) (simp_all add: parse_node_kind_def)
  show "parse_node_kind v = Inr x \<Longrightarrow> v = virtual_node_kind_name x" for v x
    by (auto simp: parse_node_kind_def split: if_splits)
  show "parse_node_kind v = Inl e \<Longrightarrow> e = InvalidProposal" for v e
    by (auto simp: parse_node_kind_def split: if_splits)
qed

section \<open>Digests in hexadecimal\<close>

definition encode_digest :: "digest \<Rightarrow> ustring" where
  "encode_digest d = concat (map hex_byte (digest_bytes d))"

text \<open>
  \<^verbatim>\<open>u8::from_str_radix(pair, 16)\<close> on the two bytes of a pair: an optional plus sign is part of
  its grammar, so \<^verbatim>\<open>+f\<close> reads as 15; a minus sign is refused for an unsigned type. A
  pair here is a piece of the text, so both characters are ASCII; cutting a longer character
  apart panics (\<open>None\<close> below).
\<close>

definition hex_value :: "uchar \<Rightarrow> nat option" where
  "hex_value c =
     (if 48 \<le> c \<and> c \<le> 57 then Some (c - 48)
      else if 65 \<le> c \<and> c \<le> 70 then Some (c - 55)
      else if 97 \<le> c \<and> c \<le> 102 then Some (c - 87)
      else None)"

definition from_str_radix_pair :: "uchar \<Rightarrow> uchar \<Rightarrow> byte option" where
  "from_str_radix_pair a b =
     (if a = 43 then map_option of_nat (hex_value b)
      else (case (hex_value a, hex_value b) of
              (Some x, Some y) \<Rightarrow> Some (of_nat (16 * x + y))
            | _ \<Rightarrow> None))"

definition digest_from_bytes :: "byte list \<Rightarrow> digest" where
  "digest_from_bytes bs = of_nat (from_le bs)"

text \<open>
  \<^verbatim>\<open>decode_digest\<close>. The length test counts bytes, and the pairs are cut with
  \<^verbatim>\<open>&value[i..j]\<close>, which panics when a cut falls inside a character: a panic is the outer
  \<open>None\<close>.
\<close>

definition char_boundary :: "ustring \<Rightarrow> nat \<Rightarrow> bool" where
  "char_boundary s i \<longleftrightarrow>
     (\<exists>k \<le> length s. length (utf8_bytes (take k s)) = i)"

fun decode_slices :: "ustring \<Rightarrow> nat list \<Rightarrow> (persistence_error + byte list) option" where
  "decode_slices s [] = Some (Inr [])"
| "decode_slices s (i # is) =
     (if \<not> char_boundary s (2 * i) \<or> \<not> char_boundary s (2 * i + 2) then None
      else (case (utf8_bytes s ! (2 * i), utf8_bytes s ! (2 * i + 1)) of
              (a, b) \<Rightarrow>
                (case from_str_radix_pair (unat a) (unat b) of
                   None \<Rightarrow> Some (Inl InvalidExecution)
                 | Some x \<Rightarrow>
                     (case decode_slices s is of
                        Some (Inr xs) \<Rightarrow> Some (Inr (x # xs))
                      | r \<Rightarrow> r))))"

definition decode_digest :: "ustring \<Rightarrow> (persistence_error + digest) option" where
  "decode_digest value =
     (if length (utf8_bytes value) \<noteq> 64 then Some (Inl InvalidExecution)
      else (case decode_slices value [0..<32] of
              None \<Rightarrow> None
            | Some (Inl e) \<Rightarrow> Some (Inl e)
            | Some (Inr bs) \<Rightarrow> Some (Inr (digest_from_bytes bs))))"

definition decode_fixed_32 :: "byte list \<Rightarrow> persistence_error + digest" where
  "decode_fixed_32 value =
     (if length value = 32 then Inr (digest_from_bytes value) else Inl InvalidExecution)"

section \<open>Hexadecimal digests round-trip\<close>

lemma hex_value_digit: "n < 16 \<Longrightarrow> hex_value (hex_digit n) = Some n"
  by (auto simp: hex_value_def hex_digit_def)

lemma hex_digit_ascii: "n < 16 \<Longrightarrow> hex_digit n < 0x80" "n < 16 \<Longrightarrow> hex_digit n \<noteq> 43"
  by (auto simp: hex_digit_def)

lemma hex_pair: "from_str_radix_pair (hex_digit (unat b div 16)) (hex_digit (unat b mod 16)) = Some b"
  for b :: byte
proof -
  have b: "unat b < 256" using unsigned_less [of b] by simp
  then have "unat b div 16 < 16" "unat b mod 16 < 16" by auto
  then show ?thesis by (simp add: from_str_radix_pair_def hex_value_digit hex_digit_ascii)
qed

lemma utf8_bytes_ascii_text: "list_all (\<lambda>c. c < 0x80) s \<Longrightarrow> utf8_bytes s = map of_nat s"
  by (induction s) (auto simp: utf8_bytes_Cons utf8_char_def)

lemma char_boundary_ascii:
  "list_all (\<lambda>c. c < 0x80) s \<Longrightarrow> i \<le> length s \<Longrightarrow> char_boundary s i"
proof -
  assume s: "list_all (\<lambda>c. c < 0x80) s" and i: "i \<le> length s"
  have "list_all (\<lambda>c. c < 0x80) (take i s)" using s by (auto simp: list_all_iff dest: in_set_takeD)
  then have "length (utf8_bytes (take i s)) = i" using i by (simp add: utf8_bytes_ascii_text)
  with i show ?thesis by (auto simp: char_boundary_def)
qed

abbreviation hex_text :: "byte list \<Rightarrow> ustring" where
  "hex_text bs \<equiv> concat (map hex_byte bs)"

lemma hex_text_ascii: "list_all (\<lambda>c. c < 0x80) (hex_text bs)"
proof (induction bs)
  case (Cons b bs)
  have "unat b < 256" using unsigned_less [of b] by simp
  then have "unat b div 16 < 16" "unat b mod 16 < 16" by auto
  with Cons show ?case by (simp add: hex_byte_def hex_digit_ascii)
qed simp

lemma length_hex_text [simp]: "length (hex_text bs) = 2 * length bs"
  by (induction bs) (auto simp: hex_byte_def)

lemma hex_text_nth:
  "i < length bs \<Longrightarrow> hex_text bs ! (2 * i) = hex_digit (unat (bs ! i) div 16)
     \<and> hex_text bs ! Suc (2 * i) = hex_digit (unat (bs ! i) mod 16)"
proof (induction bs arbitrary: i)
  case (Cons b bs)
  then show ?case by (cases i) (auto simp: hex_byte_def)
qed simp

lemma unat_of_ascii: "c < 0x80 \<Longrightarrow> unat (of_nat c :: byte) = c"
  by (simp add: unsigned_of_nat take_bit_eq_mod)

lemma decode_slices_ascii:
  assumes "list_all (\<lambda>c. c < 0x80) s"
    and "\<forall>i \<in> set is. 2 * i + 1 < length s \<and> from_str_radix_pair (s ! (2 * i)) (s ! (2 * i + 1)) = Some (f i)"
  shows "decode_slices s is = Some (Inr (map f is))"
  using assms(2)
proof (induction "is")
  case (Cons i "is")
  have i: "2 * i + 1 < length s" using Cons.prems by simp
  have bytes: "unat (utf8_bytes s ! j) = s ! j" if "j < length s" for j
    using that assms(1) unat_of_ascii [of "s ! j"]
    by (simp add: utf8_bytes_ascii_text list_all_length)
  have "from_str_radix_pair (unat (utf8_bytes s ! (2 * i))) (unat (utf8_bytes s ! (2 * i + 1))) = Some (f i)"
    using Cons.prems bytes [of "2 * i"] bytes [of "2 * i + 1"] i by simp
  moreover have "char_boundary s (2 * i)" "char_boundary s (2 * i + 2)"
    using i by (auto intro!: char_boundary_ascii assms(1))
  ultimately show ?case using Cons by simp
qed simp

lemma decode_slices_hex_text:
  "\<forall>i \<in> set is. i < length bs \<Longrightarrow> decode_slices (hex_text bs) is = Some (Inr (map ((!) bs) is))"
  by (rule decode_slices_ascii [OF hex_text_ascii]) (auto simp: hex_text_nth hex_pair)

lemma digest_from_digest_bytes: "digest_from_bytes (digest_bytes d) = d"
proof -
  have "unat d < 2 ^ LENGTH(256)" by (rule unsigned_less)
  also have "(2::nat) ^ LENGTH(256) = 256 ^ 32" by simp
  finally have u: "unat d < 256 ^ 32" .
  have "from_le (digest_bytes d) = unat d"
    unfolding word_le_bytes_def from_le_le_bytes using u by (rule mod_less)
  then show ?thesis by (simp add: digest_from_bytes_def)
qed

lemma decode_encode_digest: "decode_digest (encode_digest d) = Some (Inr d)"
proof -
  have "length (utf8_bytes (hex_text (digest_bytes d))) = 64"
    by (simp add: utf8_bytes_ascii_text [OF hex_text_ascii])
  moreover have "decode_slices (hex_text (digest_bytes d)) [0..<32] = Some (Inr (digest_bytes d))"
    using decode_slices_hex_text [of "[0..<32]" "digest_bytes d"] map_nth [of "digest_bytes d"] by simp
  ultimately show ?thesis
    by (simp add: decode_digest_def encode_digest_def digest_from_digest_bytes)
qed

lemma encode_digest_inj: "encode_digest d = encode_digest e \<Longrightarrow> d = e"
  by (metis decode_encode_digest option.inject sum.inject(2))

lemma decode_fixed_32_bytes: "decode_fixed_32 (digest_bytes d) = Inr d"
  by (simp add: decode_fixed_32_def digest_from_digest_bytes)

lemma plus_pairs_nth:
  "i < n \<Longrightarrow> concat (replicate n [43, 48 :: nat]) ! (2 * i) = 43
     \<and> concat (replicate n [43, 48 :: nat]) ! Suc (2 * i) = 48"
proof (induction n arbitrary: i)
  case (Suc n)
  then show ?case by (cases i) auto
qed simp

lemma from_le_zeros: "from_le (replicate n 0) = 0"
  by (induction n) auto

section \<open>Properties\<close>

text \<open>A digest written to a text column in hexadecimal reads back as itself, and one written
  as raw bytes reads back as itself; a blob of another length is refused.\<close>

lemma stored_digests_round_trip:
  "decode_digest (encode_digest d) = Some (Inr d) \<and> decode_fixed_32 (digest_bytes d) = Inr d
   \<and> (\<forall>bs. (\<exists>e. decode_fixed_32 bs = Inl e) = (length bs \<noteq> 32))"
  by (simp add: decode_encode_digest decode_fixed_32_bytes) (simp add: decode_fixed_32_def)

text \<open>C33: nine enum columns of the execution tables round-trip and are exact: the session purposes and
  request directions and states of the executor, the statuses of sessions and operations, the
  recovery and consent states and the kinds of operations and journal events read back what was
  written, each from its own name alone, and for any text that is not one of the written names the
  answer is the error of an invalid execution.\<close>

theorem stored_names_round_trip:
  "exact_column session_purpose_name parse_executor_session_purpose InvalidExecution
   \<and> exact_column request_direction_name parse_executor_request_direction InvalidExecution
   \<and> exact_column request_state_name parse_executor_request_state InvalidExecution
   \<and> exact_column session_status_name parse_session_status InvalidExecution
   \<and> exact_column operation_status_name parse_operation_status InvalidExecution
   \<and> exact_column recovery_state_name parse_recovery_state InvalidExecution
   \<and> exact_column consent_state_name parse_consent_state InvalidExecution
   \<and> exact_column operation_kind_name parse_execution_operation_kind InvalidExecution
   \<and> exact_column journal_kind_name parse_journal_kind InvalidExecution"
  by (intro conjI) (rule purpose.exact direction.exact request_state.exact session_status.exact
      operation_status.exact recovery_state.exact consent_state.exact execution_kind.exact
      journal_kind.exact)+

text \<open>The digest decoder is not strict. Plus signs are accepted as the first character of a
  pair, so a text that no encoder writes decodes to a digest, and a text of 64 bytes with a
  two-byte character at an odd offset makes the decoder panic.\<close>

lemma digest_decoder_is_lenient:
  "decode_digest (concat (replicate 32 [43, 48])) = Some (Inr 0)
   \<and> encode_digest 0 \<noteq> concat (replicate 32 [43, 48])
   \<and> decode_digest (48 # 233 # replicate 61 48) = None"
proof (intro conjI)
  let ?s = "concat (replicate 32 [43, 48]) :: ustring"
  have a: "list_all (\<lambda>c. c < 0x80) ?s" by (simp add: list_all_iff)
  have "decode_slices ?s [0..<32] = Some (Inr (map (\<lambda>_. 0) [0..<32]))"
    by (rule decode_slices_ascii [OF a]) (auto simp: plus_pairs_nth from_str_radix_pair_def hex_value_def
        length_concat sum_list_replicate)
  moreover have "length (utf8_bytes ?s) = 64"
    by (simp add: utf8_bytes_ascii_text [OF a] length_concat sum_list_replicate)
  ultimately show "decode_digest ?s = Some (Inr 0)"
    by (simp add: decode_digest_def digest_from_bytes_def map_replicate_const from_le_zeros)
next
  have "43 \<in> set (concat (replicate 32 [43, 48 :: nat]))" by simp
  moreover have "43 \<notin> set (encode_digest 0)"
    by (auto simp: encode_digest_def hex_byte_def hex_digit_def split: if_splits)
  ultimately show "encode_digest 0 \<noteq> concat (replicate 32 [43, 48])" by metis
next
  let ?s = "48 # 233 # replicate 61 48 :: ustring"
  have z: "utf8_bytes (replicate n 48) = replicate n 48" for n
    by (induction n) (auto simp: utf8_bytes_Cons utf8_char_def)
  have "\<not> char_boundary ?s 2"
  proof
    assume "char_boundary ?s 2"
    then obtain k where k: "length (utf8_bytes (take k ?s)) = 2" by (auto simp: char_boundary_def)
    then show False
      by (cases k rule: nat.exhaust; cases "k - 1") (auto simp: utf8_bytes_Cons utf8_char_def)
  qed
  moreover have "[0..<32] = 0 # [1..<32]" by (simp add: upt_conv_Cons)
  moreover have "length (utf8_bytes ?s) = 64" by (simp add: utf8_bytes_Cons utf8_char_def z)
  ultimately show "decode_digest ?s = None" by (simp add: decode_digest_def numeral_2_eq_2)
qed

end
