(* ===== verification/Consent_Store.thy ===== *)
theory Consent_Store
  imports Stored_Names
begin

text \<open>
  The consent state machine of \<^verbatim>\<open>crates/persistence/src/execution.rs\<close> over the three tables it
  writes: consents, execution sessions and approval snapshots. A table is a map from the
  execution to its row, \<open>sql_update\<close> is one \<^verbatim>\<open>UPDATE .. WHERE\<close> by primary key with the
  \<^verbatim>\<open>CHECK\<close> constraints of the migrations, and a transaction that does not reach its commit
  leaves the database as it was. The columns are decoded values; their text forms are the
  subject of \<^verbatim>\<open>Stored_Names\<close>.
\<close>

section \<open>Rows and constraints\<close>

record stored_execution_consent =
  sc_material_version :: u32
  sc_destination_root :: execution_root_binding
  sc_safety_policy :: execution_safety_policy_binding
  sc_consent :: execution_consent

record consent_row = stored_execution_consent +
  cr_state_changed_at_unix_ms :: int

record session_row =
  sr_status :: organization_execution_status
  sr_user_confirmed :: bool
  sr_approved_at :: "ustring option"
  sr_started_at :: "ustring option"
  sr_preflight_ok_count :: int

record snapshot_row =
  sn_user_confirmed :: bool
  sn_approved_at :: "ustring option"

record consent_db =
  db_poisoned :: bool
  db_consents :: "execution_id \<rightharpoonup> consent_row"
  db_sessions :: "execution_id \<rightharpoonup> session_row"
  db_snapshots :: "execution_id \<rightharpoonup> snapshot_row"

text \<open>The constraints of the challenge, of the attestation and of the state.\<close>

definition challenge_check :: "execution_consent \<Rightarrow> bool" where
  "challenge_check c \<longleftrightarrow>
     (case (xc_issued_at_unix_ms c, xc_expires_at_unix_ms c, xc_nonce c) of
        (None, None, None) \<Rightarrow> True
      | (Some issued, Some expires, Some _) \<Rightarrow> expires > issued
      | _ \<Rightarrow> False)"

definition attestation_check :: "execution_consent \<Rightarrow> bool" where
  "attestation_check c \<longleftrightarrow>
     (case (xc_attested_at_unix_ms c, xc_attestation_mac c) of
        (None, None) \<Rightarrow> True
      | (Some attested, Some _) \<Rightarrow>
          (case (xc_issued_at_unix_ms c, xc_expires_at_unix_ms c) of
             (Some issued, Some expires) \<Rightarrow> attested \<ge> issued \<and> attested \<le> expires
           | _ \<Rightarrow> False)
      | _ \<Rightarrow> False)"

fun state_check :: "execution_consent_state \<Rightarrow> execution_consent \<Rightarrow> bool" where
  "state_check Consent_Pending c \<longleftrightarrow>
     xc_attested_at_unix_ms c = None \<and> xc_consumed_at_unix_ms c = None
     \<and> xc_invalidated_at_unix_ms c = None"
| "state_check Consent_Attested c \<longleftrightarrow>
     xc_issued_at_unix_ms c \<noteq> None \<and> xc_attested_at_unix_ms c \<noteq> None
     \<and> xc_consumed_at_unix_ms c = None \<and> xc_invalidated_at_unix_ms c = None"
| "state_check Consent_Consumed c \<longleftrightarrow>
     xc_issued_at_unix_ms c \<noteq> None
     \<and> (case (xc_attested_at_unix_ms c, xc_consumed_at_unix_ms c) of
          (Some attested, Some consumed) \<Rightarrow> consumed \<ge> attested | _ \<Rightarrow> False)
     \<and> xc_invalidated_at_unix_ms c = None"
| "state_check Consent_Expired c \<longleftrightarrow>
     xc_issued_at_unix_ms c \<noteq> None \<and> xc_consumed_at_unix_ms c = None
     \<and> xc_invalidated_at_unix_ms c = None"
| "state_check Consent_Invalidated c \<longleftrightarrow>
     xc_consumed_at_unix_ms c = None \<and> xc_invalidated_at_unix_ms c \<noteq> None
     \<and> xc_invalidation_reason c \<noteq> None"

text \<open>\<^verbatim>\<open>length(text)\<close> counts characters; 68719476736 is the limit written in migration 14.\<close>

definition binding_check :: "'a stored_execution_consent_scheme \<Rightarrow> bool" where
  "binding_check r \<longleftrightarrow>
     sc_material_version r > 0
     \<and> length (xsp_digest_hex (sc_safety_policy r)) = 64
     \<and> 1 \<le> length (xsp_version (sc_safety_policy r)) \<and> length (xsp_version (sc_safety_policy r)) \<le> 64
     \<and> 1 \<le> length (np_bytes (xrb_canonical_path (sc_destination_root r)))
     \<and> length (np_bytes (xrb_canonical_path (sc_destination_root r))) \<le> 32768
     \<and> 1 \<le> length (xrb_display_path (sc_destination_root r))
     \<and> length (xrb_display_path (sc_destination_root r)) \<le> 4096
     \<and> xsp_maximum_rehash_bytes (sc_safety_policy r) > 0
     \<and> xsp_maximum_rehash_bytes (sc_safety_policy r) \<le> 68719476736"

definition consent_check :: "'a stored_execution_consent_scheme \<Rightarrow> bool" where
  "consent_check r \<longleftrightarrow>
     binding_check r
     \<and> (case xc_invalidation_reason (sc_consent r) of None \<Rightarrow> True | Some reason \<Rightarrow> length reason \<le> 256)
     \<and> challenge_check (sc_consent r)
     \<and> attestation_check (sc_consent r)
     \<and> state_check (xc_state (sc_consent r)) (sc_consent r)"

definition session_check :: "session_row \<Rightarrow> bool" where
  "session_check r \<longleftrightarrow> (sr_approved_at r = None \<or> sr_user_confirmed r) \<and> sr_preflight_ok_count r \<ge> 0"

definition snapshot_check :: "snapshot_row \<Rightarrow> bool" where
  "snapshot_check r \<longleftrightarrow> sn_approved_at r = None \<or> sn_user_confirmed r"

section \<open>Statements and transactions\<close>

text \<open>The number of changed rows and the new table, or a constraint failure.\<close>

definition sql_update ::
  "('r \<Rightarrow> bool) \<Rightarrow> ('k \<rightharpoonup> 'r) \<Rightarrow> 'k \<Rightarrow> ('r \<Rightarrow> bool) \<Rightarrow> ('r \<Rightarrow> 'r)
    \<Rightarrow> persistence_error + (nat \<times> ('k \<rightharpoonup> 'r))" where
  "sql_update chk table key guard f =
     (case table key of
        None \<Rightarrow> Inr (0, table)
      | Some row \<Rightarrow>
          if guard row
          then (if chk (f row) then Inr (1, table(key \<mapsto> f row)) else Inl SqlError)
          else Inr (0, table))"

type_synonym 'a consent_op = "consent_db \<Rightarrow> (persistence_error + 'a) \<times> consent_db"

text \<open>A transaction that commits at its end; an early return drops it and rolls back.\<close>

definition committed ::
  "(consent_db \<Rightarrow> persistence_error + ('a \<times> consent_db)) \<Rightarrow> 'a consent_op" where
  "committed body db =
     (if db_poisoned db then (Inl WriterPoisoned, db)
      else (case body db of Inl e \<Rightarrow> (Inl e, db) | Inr (x, db') \<Rightarrow> (Inr x, db')))"

text \<open>A transaction that is dropped without a commit.\<close>

definition dropped ::
  "(consent_db \<Rightarrow> persistence_error + ('a \<times> consent_db)) \<Rightarrow> 'a consent_op" where
  "dropped body db =
     (if db_poisoned db then (Inl WriterPoisoned, db)
      else (case body db of Inl e \<Rightarrow> (Inl e, db) | Inr (x, db') \<Rightarrow> (Inr x, db)))"

definition update_consent ::
  "consent_db \<Rightarrow> execution_id \<Rightarrow> (consent_row \<Rightarrow> bool) \<Rightarrow> (consent_row \<Rightarrow> consent_row)
    \<Rightarrow> persistence_error + (nat \<times> consent_db)" where
  "update_consent db x guard f =
     try_bind (sql_update consent_check (db_consents db) x guard f) (\<lambda>(n, t).
       Inr (n, db\<lparr>db_consents := t\<rparr>))"

definition update_session ::
  "consent_db \<Rightarrow> execution_id \<Rightarrow> (session_row \<Rightarrow> bool) \<Rightarrow> (session_row \<Rightarrow> session_row)
    \<Rightarrow> persistence_error + (nat \<times> consent_db)" where
  "update_session db x guard f =
     try_bind (sql_update session_check (db_sessions db) x guard f) (\<lambda>(n, t).
       Inr (n, db\<lparr>db_sessions := t\<rparr>))"

definition update_snapshot ::
  "consent_db \<Rightarrow> execution_id \<Rightarrow> (snapshot_row \<Rightarrow> bool) \<Rightarrow> (snapshot_row \<Rightarrow> snapshot_row)
    \<Rightarrow> persistence_error + (nat \<times> consent_db)" where
  "update_snapshot db x guard f =
     try_bind (sql_update snapshot_check (db_snapshots db) x guard f) (\<lambda>(n, t).
       Inr (n, db\<lparr>db_snapshots := t\<rparr>))"

text \<open>\<^verbatim>\<open>i64::to_string\<close>\<close>

definition dec_int :: "int \<Rightarrow> ustring" where
  "dec_int i = (if i < 0 then 45 # dec (nat (- i)) else dec (nat i))"

section \<open>Validation of a stored consent\<close>

fun state_is_stored_correctly :: "execution_consent_state \<Rightarrow> bool \<Rightarrow> execution_consent \<Rightarrow> bool" where
  "state_is_stored_correctly Consent_Pending full c \<longleftrightarrow>
     \<not> (xc_attested_at_unix_ms c \<noteq> None \<or> xc_consumed_at_unix_ms c \<noteq> None
        \<or> xc_invalidated_at_unix_ms c \<noteq> None)"
| "state_is_stored_correctly Consent_Attested full c \<longleftrightarrow>
     \<not> (\<not> full \<or> xc_attested_at_unix_ms c = None \<or> xc_consumed_at_unix_ms c \<noteq> None
        \<or> xc_invalidated_at_unix_ms c \<noteq> None)"
| "state_is_stored_correctly Consent_Consumed full c \<longleftrightarrow>
     \<not> (\<not> full \<or> xc_attested_at_unix_ms c = None \<or> xc_consumed_at_unix_ms c = None
        \<or> xc_invalidated_at_unix_ms c \<noteq> None)"
| "state_is_stored_correctly Consent_Expired full c \<longleftrightarrow>
     \<not> (\<not> full \<or> xc_consumed_at_unix_ms c \<noteq> None \<or> xc_invalidated_at_unix_ms c \<noteq> None)"
| "state_is_stored_correctly Consent_Invalidated full c \<longleftrightarrow>
     \<not> (xc_invalidated_at_unix_ms c = None \<or> xc_invalidation_reason c = None
        \<or> xc_consumed_at_unix_ms c \<noteq> None)"

definition validate_stored_consent :: "'a stored_execution_consent_scheme \<Rightarrow> persistence_error + unit" where
  "validate_stored_consent stored =
     (let c = sc_consent stored;
          full = (xc_issued_at_unix_ms c \<noteq> None \<and> xc_expires_at_unix_ms c \<noteq> None
                      \<and> xc_nonce c \<noteq> None);
          vacant = (xc_issued_at_unix_ms c = None \<and> xc_expires_at_unix_ms c = None
                   \<and> xc_nonce c = None)
      in if sc_material_version stored = 0
            \<or> native_path_is_empty (xrb_canonical_path (sc_destination_root stored))
            \<or> xrb_display_path (sc_destination_root stored) = []
            \<or> xsp_version (sc_safety_policy stored) = []
            \<or> length (utf8_bytes (xsp_digest_hex (sc_safety_policy stored))) \<noteq> 64
            \<or> xsp_maximum_rehash_bytes (sc_safety_policy stored) = 0
            \<or> xsp_maximum_rehash_bytes (sc_safety_policy stored) > MAX_EXECUTION_VERIFICATION_BYTES
            \<or> (\<not> full \<and> \<not> vacant)
            \<or> (case (xc_expires_at_unix_ms c, xc_issued_at_unix_ms c) of
                 (Some expires, Some issued) \<Rightarrow> expires \<le> issued | _ \<Rightarrow> False)
            \<or> (xc_attested_at_unix_ms c \<noteq> None) \<noteq> (xc_attestation_mac c \<noteq> None)
         then Inl InvalidExecution
         else if \<not> state_is_stored_correctly (xc_state c) full c then Inl InvalidExecution
         else Inr ())"

section \<open>The operations\<close>

text \<open>A comparison with a column that is \<^verbatim>\<open>NULL\<close> is not true.\<close>

definition column_is :: "'a option \<Rightarrow> 'a \<Rightarrow> bool" where
  "column_is column value \<longleftrightarrow> column = Some value"

definition set_consent :: "(execution_consent \<Rightarrow> execution_consent) \<Rightarrow> int \<Rightarrow> consent_row \<Rightarrow> consent_row" where
  "set_consent f moment r =
     r\<lparr>sc_consent := f (sc_consent r), cr_state_changed_at_unix_ms := moment\<rparr>"

definition reset_legacy_execution_approval ::
  "consent_db \<Rightarrow> execution_id \<Rightarrow> persistence_error + consent_db" where
  "reset_legacy_execution_approval db x =
     try_bind (update_session db x
         (\<lambda>r. sr_status r \<in> {St_AwaitingConfirmation, St_Approved})
         (\<lambda>r. r\<lparr>sr_status := St_AwaitingConfirmation, sr_user_confirmed := False, sr_approved_at := None\<rparr>))
       (\<lambda>(session_changed, db1).
     try_bind (update_snapshot db1 x (\<lambda>_. True)
         (\<lambda>r. r\<lparr>sn_user_confirmed := False, sn_approved_at := None\<rparr>))
       (\<lambda>(snapshot_changed, db2).
     if session_changed \<noteq> 1 \<or> snapshot_changed \<noteq> 1 then Inl InvalidExecution else Inr db2))"

text \<open>
  The three operations that answer with the session's detail read it after the commit; that
  read is the argument \<open>detail\<close>.
\<close>

definition and_then_read ::
  "(consent_db \<Rightarrow> persistence_error + 'd) \<Rightarrow> unit consent_op \<Rightarrow> 'd consent_op" where
  "and_then_read detail op db =
     (case op db of (Inl e, db') \<Rightarrow> (Inl e, db') | (Inr _, db') \<Rightarrow> (detail db', db'))"

definition issue_transaction :: "execution_id \<Rightarrow> digest \<Rightarrow> int \<Rightarrow> int \<Rightarrow> unit consent_op" where
  "issue_transaction x nonce issued expires =
     committed (\<lambda>db.
       try_bind (update_consent db x
           (\<lambda>r. sc_material_version r = EXECUTION_PLAN_MATERIAL_VERSION
               \<and> xc_state (sc_consent r) \<in> {Consent_Pending, Consent_Expired})
           (set_consent (\<lambda>c. c\<lparr>xc_state := Consent_Pending, xc_issued_at_unix_ms := Some issued,
               xc_expires_at_unix_ms := Some expires, xc_attested_at_unix_ms := None,
               xc_consumed_at_unix_ms := None, xc_invalidated_at_unix_ms := None,
               xc_invalidation_reason := None, xc_nonce := Some nonce,
               xc_attestation_mac := None\<rparr>) issued))
         (\<lambda>(changed, db1).
       if changed \<noteq> 1 then Inl InvalidExecution
       else try_bind (update_session db1 x
           (\<lambda>r. sr_status r = St_AwaitingConfirmation \<and> sr_preflight_ok_count r > 0)
           (\<lambda>r. r\<lparr>sr_status := St_AwaitingConfirmation, sr_user_confirmed := False, sr_approved_at := None\<rparr>))
         (\<lambda>(session_changed, db2).
       try_bind (update_snapshot db2 x (\<lambda>_. True)
           (\<lambda>r. r\<lparr>sn_user_confirmed := False, sn_approved_at := None\<rparr>))
         (\<lambda>(snapshot_changed, db3).
       if session_changed \<noteq> 1 \<or> snapshot_changed \<noteq> 1 then Inl InvalidExecution
       else Inr ((), db3)))))"

definition issue_execution_consent_challenge ::
  "(consent_db \<Rightarrow> persistence_error + 'd) \<Rightarrow> execution_id \<Rightarrow> digest \<Rightarrow> int \<Rightarrow> int \<Rightarrow> 'd consent_op" where
  "issue_execution_consent_challenge detail x nonce issued expires db =
     (if expires \<le> issued then (Inl InvalidExecution, db)
      else and_then_read detail (issue_transaction x nonce issued expires) db)"

definition attest_transaction ::
  "execution_id \<Rightarrow> digest \<Rightarrow> int \<Rightarrow> int \<Rightarrow> digest \<Rightarrow> int \<Rightarrow> unit consent_op" where
  "attest_transaction x nonce issued expires mac now =
     committed (\<lambda>db.
       try_bind (update_consent db x
           (\<lambda>r. let c = sc_consent r in
               xc_state c = Consent_Pending \<and> column_is (xc_nonce c) nonce
               \<and> column_is (xc_issued_at_unix_ms c) issued
               \<and> column_is (xc_expires_at_unix_ms c) expires
               \<and> issued \<le> now \<and> now \<le> expires \<and> xc_attestation_mac c = None)
           (set_consent (\<lambda>c. c\<lparr>xc_state := Consent_Attested, xc_attested_at_unix_ms := Some now,
               xc_attestation_mac := Some mac\<rparr>) now))
         (\<lambda>(changed, db1).
       if changed \<noteq> 1 then Inl InvalidExecution
       else try_bind (update_session db1 x
           (\<lambda>r. sr_status r = St_AwaitingConfirmation \<and> sr_preflight_ok_count r > 0
               \<and> \<not> sr_user_confirmed r)
           (\<lambda>r. r\<lparr>sr_status := St_Approved, sr_user_confirmed := True, sr_approved_at := Some (dec_int now)\<rparr>))
         (\<lambda>(session_changed, db2).
       try_bind (update_snapshot db2 x (\<lambda>r. \<not> sn_user_confirmed r)
           (\<lambda>r. r\<lparr>sn_user_confirmed := True, sn_approved_at := Some (dec_int now)\<rparr>))
         (\<lambda>(snapshot_changed, db3).
       if session_changed \<noteq> 1 \<or> snapshot_changed \<noteq> 1 then Inl InvalidExecution
       else Inr ((), db3)))))"

definition attest_execution_consent ::
  "(consent_db \<Rightarrow> persistence_error + 'd) \<Rightarrow> execution_id \<Rightarrow> digest \<Rightarrow> int \<Rightarrow> int \<Rightarrow> digest \<Rightarrow> int
    \<Rightarrow> 'd consent_op" where
  "attest_execution_consent detail x nonce issued expires mac now =
     and_then_read detail (attest_transaction x nonce issued expires mac now)"

text \<open>The transaction of the source reaches its end without a commit.\<close>

definition clear_execution_consent_challenge ::
  "execution_id \<Rightarrow> digest \<Rightarrow> int \<Rightarrow> int \<Rightarrow> int \<Rightarrow> bool consent_op" where
  "clear_execution_consent_challenge x nonce issued expires now =
     dropped (\<lambda>db.
       try_bind (update_consent db x
           (\<lambda>r. let c = sc_consent r in
               xc_state c = Consent_Pending \<and> column_is (xc_nonce c) nonce
               \<and> column_is (xc_issued_at_unix_ms c) issued
               \<and> column_is (xc_expires_at_unix_ms c) expires \<and> xc_attestation_mac c = None)
           (set_consent (\<lambda>c. c\<lparr>xc_issued_at_unix_ms := None, xc_expires_at_unix_ms := None,
               xc_nonce := None\<rparr>) now))
         (\<lambda>(changed, db1). Inr (changed = 1, db1)))"

definition expire_execution_consent :: "execution_id \<Rightarrow> int \<Rightarrow> bool consent_op" where
  "expire_execution_consent x now =
     committed (\<lambda>db.
       try_bind (update_consent db x
           (\<lambda>r. let c = sc_consent r in
               xc_state c \<in> {Consent_Pending, Consent_Attested}
               \<and> (case xc_expires_at_unix_ms c of None \<Rightarrow> False | Some expires \<Rightarrow> expires \<le> now))
           (set_consent (\<lambda>c. c\<lparr>xc_state := Consent_Expired\<rparr>) now))
         (\<lambda>(changed, db1).
       if changed = 1
       then try_bind (reset_legacy_execution_approval db1 x) (\<lambda>db2. Inr (True, db2))
       else Inr (False, db1)))"

definition invalidate_execution_consent :: "execution_id \<Rightarrow> ustring \<Rightarrow> int \<Rightarrow> bool consent_op" where
  "invalidate_execution_consent x reason0 now db =
     (let reason = take 256 reason0
      in if reason = [] then (Inl InvalidExecution, db)
         else committed (\<lambda>db.
           try_bind (update_consent db x
               (\<lambda>r. xc_state (sc_consent r) \<in> {Consent_Pending, Consent_Attested, Consent_Expired})
               (set_consent (\<lambda>c. c\<lparr>xc_state := Consent_Invalidated,
                   xc_invalidated_at_unix_ms := Some now, xc_invalidation_reason := Some reason\<rparr>) now))
             (\<lambda>(changed, db1).
           if changed = 1
           then try_bind (reset_legacy_execution_approval db1 x) (\<lambda>db2. Inr (True, db2))
           else Inr (False, db1))) db)"

definition consume_transaction ::
  "execution_id \<Rightarrow> digest \<Rightarrow> int \<Rightarrow> int \<Rightarrow> digest \<Rightarrow> int \<Rightarrow> unit consent_op" where
  "consume_transaction x nonce issued expires mac now =
     committed (\<lambda>db.
       try_bind (update_consent db x
           (\<lambda>r. let c = sc_consent r in
               xc_state c = Consent_Attested \<and> column_is (xc_nonce c) nonce
               \<and> column_is (xc_issued_at_unix_ms c) issued
               \<and> column_is (xc_expires_at_unix_ms c) expires
               \<and> column_is (xc_attestation_mac c) mac \<and> now \<le> expires)
           (set_consent (\<lambda>c. c\<lparr>xc_state := Consent_Consumed, xc_consumed_at_unix_ms := Some now\<rparr>) now))
         (\<lambda>(changed, db1).
       if changed \<noteq> 1 then Inl InvalidExecution
       else try_bind (update_session db1 x
           (\<lambda>r. sr_status r = St_Approved)
           (\<lambda>r. r\<lparr>sr_status := St_Running,
               sr_started_at := (case sr_started_at r of None \<Rightarrow> Some (dec_int now) | Some t \<Rightarrow> Some t)\<rparr>))
         (\<lambda>(session_changed, db2).
       if session_changed \<noteq> 1 then Inl InvalidExecution else Inr ((), db2))))"

definition consume_execution_consent ::
  "(consent_db \<Rightarrow> persistence_error + 'd) \<Rightarrow> execution_id \<Rightarrow> digest \<Rightarrow> int \<Rightarrow> int \<Rightarrow> digest \<Rightarrow> int
    \<Rightarrow> 'd consent_op" where
  "consume_execution_consent detail x nonce issued expires mac now =
     and_then_read detail (consume_transaction x nonce issued expires mac now)"

section \<open>Single-row updates\<close>

text \<open>What the client of a table relies on: one \<^verbatim>\<open>UPDATE\<close> touches at most the row of its key.\<close>

locale row_update =
  fixes upd :: "'db \<Rightarrow> 'k \<Rightarrow> ('r \<Rightarrow> bool) \<Rightarrow> ('r \<Rightarrow> 'r) \<Rightarrow> persistence_error + (nat \<times> 'db)"
    and rows :: "'db \<Rightarrow> ('k \<rightharpoonup> 'r)"
    and store :: "('k \<rightharpoonup> 'r) \<Rightarrow> 'db \<Rightarrow> 'db"
    and chk :: "'r \<Rightarrow> bool"
  assumes upd_sql: "upd db x g f =
      try_bind (sql_update chk (rows db) x g f) (\<lambda>(n, t). Inr (n, store t db))"
    and rows_store: "rows (store t db) = t"
    and store_rows: "store (rows db) db = db"
begin

lemma changed_one:
  "upd db x g f = Inr (Suc 0, db') \<longleftrightarrow>
     (\<exists>r. rows db x = Some r \<and> g r \<and> chk (f r) \<and> db' = store ((rows db)(x \<mapsto> f r)) db)"
  by (auto simp: upd_sql sql_update_def split: option.splits if_splits)

lemma changed_none:
  "upd db x g f = Inr (0, db') \<longleftrightarrow>
     (\<forall>r. rows db x = Some r \<longrightarrow> \<not> g r) \<and> db' = db"
  by (auto simp: upd_sql sql_update_def store_rows split: option.splits if_splits)

lemma changed_cases:
  assumes "upd db x g f = Inr (n, db')"
  obtains "n = 0" "db' = db" | r where "n = 1" "rows db x = Some r" "g r" "chk (f r)"
    "db' = store ((rows db)(x \<mapsto> f r)) db"
  using assms by (auto simp: upd_sql sql_update_def store_rows split: option.splits if_splits)

lemma constraints_kept:
  assumes "upd db x g f = Inr (n, db')" and "\<And>y r. rows db y = Some r \<Longrightarrow> chk r"
  shows "rows db' y = Some r \<Longrightarrow> chk r"
  using assms by (elim changed_cases) (auto simp: rows_store split: if_splits)

end

interpretation consents: row_update update_consent db_consents
    "\<lambda>t db. db\<lparr>db_consents := t\<rparr>" consent_check
  by unfold_locales (simp_all add: update_consent_def)

interpretation sessions: row_update update_session db_sessions
    "\<lambda>t db. db\<lparr>db_sessions := t\<rparr>" session_check
  by unfold_locales (simp_all add: update_session_def)

interpretation snapshots: row_update update_snapshot db_snapshots
    "\<lambda>t db. db\<lparr>db_snapshots := t\<rparr>" snapshot_check
  by unfold_locales (simp_all add: update_snapshot_def)

lemmas changed_one = consents.changed_one sessions.changed_one snapshots.changed_one

lemma committed_Inr:
  "committed body db = (Inr v, db') \<longleftrightarrow> \<not> db_poisoned db \<and> body db = Inr (v, db')"
  by (auto simp: committed_def split: sum.splits)

lemma committed_Inl: "committed body db = (Inl e, db') \<Longrightarrow> db' = db"
  by (auto simp: committed_def split: sum.splits if_splits)

section \<open>What a successful transaction did\<close>

abbreviation (input) unconfirmed_session :: "session_row \<Rightarrow> session_row" where
  "unconfirmed_session s \<equiv>
     s\<lparr>sr_status := St_AwaitingConfirmation, sr_user_confirmed := False, sr_approved_at := None\<rparr>"

abbreviation (input) unconfirmed_snapshot :: "snapshot_row \<Rightarrow> snapshot_row" where
  "unconfirmed_snapshot n \<equiv> n\<lparr>sn_user_confirmed := False, sn_approved_at := None\<rparr>"

lemma reset_Inr:
  "reset_legacy_execution_approval db x = Inr db' \<longleftrightarrow>
     (\<exists>s n. db_sessions db x = Some s \<and> sr_status s \<in> {St_AwaitingConfirmation, St_Approved}
        \<and> session_check (unconfirmed_session s)
        \<and> db_snapshots db x = Some n \<and> snapshot_check (unconfirmed_snapshot n)
        \<and> db' = db\<lparr>db_sessions := (db_sessions db)(x \<mapsto> unconfirmed_session s),
                   db_snapshots := (db_snapshots db)(x \<mapsto> unconfirmed_snapshot n)\<rparr>)"
  by (auto simp: reset_legacy_execution_approval_def try_bind_Inr changed_one split: if_splits)

lemma challenge_overwrites:
  "c\<lparr>xc_state := Consent_Pending, xc_issued_at_unix_ms := Some issued,
     xc_expires_at_unix_ms := Some expires, xc_attested_at_unix_ms := None,
     xc_consumed_at_unix_ms := None, xc_invalidated_at_unix_ms := None,
     xc_invalidation_reason := None, xc_nonce := Some nonce, xc_attestation_mac := None\<rparr>
   = consent_pending\<lparr>xc_issued_at_unix_ms := Some issued,
       xc_expires_at_unix_ms := Some expires, xc_nonce := Some nonce\<rparr>"
  for c :: execution_consent
  by (cases c) (simp add: consent_pending_def)

lemma issue_done:
  assumes "issue_transaction x nonce issued expires db = (Inr (), db')"
  obtains r s n where
    "db_consents db x = Some r" "sc_material_version r = EXECUTION_PLAN_MATERIAL_VERSION"
    "xc_state (sc_consent r) \<in> {Consent_Pending, Consent_Expired}"
    "db_sessions db x = Some s" "sr_status s = St_AwaitingConfirmation" "sr_preflight_ok_count s > 0"
    "db_snapshots db x = Some n"
    "let r' = set_consent (\<lambda>c. consent_pending\<lparr>xc_issued_at_unix_ms := Some issued,
                 xc_expires_at_unix_ms := Some expires, xc_nonce := Some nonce\<rparr>) issued r
     in consent_check r'
        \<and> db' = db\<lparr>db_consents := (db_consents db)(x \<mapsto> r'),
                   db_sessions := (db_sessions db)(x \<mapsto> unconfirmed_session s),
                   db_snapshots := (db_snapshots db)(x \<mapsto> unconfirmed_snapshot n)\<rparr>"
  using assms
  by (auto simp: issue_transaction_def committed_Inr try_bind_Inr changed_one set_consent_def
        challenge_overwrites Let_def split: if_splits)

lemma attest_done:
  assumes "attest_transaction x nonce issued expires mac now db = (Inr (), db')"
  obtains r s n where
    "db_consents db x = Some r" "xc_state (sc_consent r) = Consent_Pending"
    "xc_nonce (sc_consent r) = Some nonce" "xc_issued_at_unix_ms (sc_consent r) = Some issued"
    "xc_expires_at_unix_ms (sc_consent r) = Some expires" "issued \<le> now" "now \<le> expires"
    "db_sessions db x = Some s" "sr_status s = St_AwaitingConfirmation" "sr_preflight_ok_count s > 0"
    "\<not> sr_user_confirmed s" "db_snapshots db x = Some n" "\<not> sn_user_confirmed n"
    "let r' = set_consent (\<lambda>c. c\<lparr>xc_state := Consent_Attested, xc_attested_at_unix_ms := Some now,
                 xc_attestation_mac := Some mac\<rparr>) now r
     in consent_check r'
        \<and> db' = db\<lparr>db_consents := (db_consents db)(x \<mapsto> r'),
                   db_sessions := (db_sessions db)(x \<mapsto>
                     s\<lparr>sr_status := St_Approved, sr_user_confirmed := True,
                       sr_approved_at := Some (dec_int now)\<rparr>),
                   db_snapshots := (db_snapshots db)(x \<mapsto>
                     n\<lparr>sn_user_confirmed := True, sn_approved_at := Some (dec_int now)\<rparr>)\<rparr>"
  using assms
  by (auto simp: attest_transaction_def committed_Inr try_bind_Inr changed_one column_is_def Let_def
        split: if_splits)

lemma expire_done:
  assumes "expire_execution_consent x now db = (Inr True, db')"
  obtains r s n expires where
    "db_consents db x = Some r" "xc_state (sc_consent r) \<in> {Consent_Pending, Consent_Attested}"
    "xc_expires_at_unix_ms (sc_consent r) = Some expires" "expires \<le> now"
    "db_sessions db x = Some s" "db_snapshots db x = Some n"
    "let r' = set_consent (\<lambda>c. c\<lparr>xc_state := Consent_Expired\<rparr>) now r
     in consent_check r'
        \<and> db' = db\<lparr>db_consents := (db_consents db)(x \<mapsto> r'),
                   db_sessions := (db_sessions db)(x \<mapsto> unconfirmed_session s),
                   db_snapshots := (db_snapshots db)(x \<mapsto> unconfirmed_snapshot n)\<rparr>"
  using assms
  by (auto simp: expire_execution_consent_def committed_Inr try_bind_Inr changed_one reset_Inr Let_def
        split: if_splits option.splits)

lemma invalidate_done:
  assumes "invalidate_execution_consent x reason now db = (Inr True, db')"
  obtains r s n where
    "db_consents db x = Some r"
    "xc_state (sc_consent r) \<in> {Consent_Pending, Consent_Attested, Consent_Expired}"
    "db_sessions db x = Some s" "db_snapshots db x = Some n"
    "let r' = set_consent (\<lambda>c. c\<lparr>xc_state := Consent_Invalidated,
                 xc_invalidated_at_unix_ms := Some now,
                 xc_invalidation_reason := Some (take 256 reason)\<rparr>) now r
     in consent_check r'
        \<and> db' = db\<lparr>db_consents := (db_consents db)(x \<mapsto> r'),
                   db_sessions := (db_sessions db)(x \<mapsto> unconfirmed_session s),
                   db_snapshots := (db_snapshots db)(x \<mapsto> unconfirmed_snapshot n)\<rparr>"
  using assms
  by (auto simp: invalidate_execution_consent_def committed_Inr try_bind_Inr changed_one reset_Inr
        Let_def split: if_splits)

lemma consume_done:
  assumes "consume_transaction x nonce issued expires mac now db = (Inr (), db')"
  obtains r s where
    "db_consents db x = Some r" "xc_state (sc_consent r) = Consent_Attested"
    "xc_nonce (sc_consent r) = Some nonce" "xc_issued_at_unix_ms (sc_consent r) = Some issued"
    "xc_expires_at_unix_ms (sc_consent r) = Some expires"
    "xc_attestation_mac (sc_consent r) = Some mac" "now \<le> expires"
    "db_sessions db x = Some s" "sr_status s = St_Approved"
    "let r' = set_consent (\<lambda>c. c\<lparr>xc_state := Consent_Consumed, xc_consumed_at_unix_ms := Some now\<rparr>) now r
     in consent_check r'
        \<and> db' = db\<lparr>db_consents := (db_consents db)(x \<mapsto> r'),
                   db_sessions := (db_sessions db)(x \<mapsto>
                     s\<lparr>sr_status := St_Running, sr_started_at :=
                        (case sr_started_at s of None \<Rightarrow> Some (dec_int now) | Some t \<Rightarrow> Some t)\<rparr>)\<rparr>"
  using assms
  by (auto simp: consume_transaction_def committed_Inr try_bind_Inr changed_one column_is_def Let_def
        split: if_splits)

text \<open>Every other answer of these operations leaves the database unchanged.\<close>

lemma unsuccessful_unchanged:
  "issue_transaction x nonce issued expires db = (Inl e, db') \<Longrightarrow> db' = db"
  "attest_transaction x nonce issued expires mac now db = (Inl e, db') \<Longrightarrow> db' = db"
  "consume_transaction x nonce issued expires mac now db = (Inl e, db') \<Longrightarrow> db' = db"
  "expire_execution_consent x now db = (Inl e, db') \<Longrightarrow> db' = db"
  "invalidate_execution_consent x reason now db = (Inl e, db') \<Longrightarrow> db' = db"
  by (auto simp: issue_transaction_def attest_transaction_def consume_transaction_def Let_def
      expire_execution_consent_def invalidate_execution_consent_def dest: committed_Inl split: if_splits)

lemma answered_false_unchanged:
  "expire_execution_consent x now db = (Inr False, db') \<Longrightarrow> db' = db"
  "invalidate_execution_consent x reason now db = (Inr False, db') \<Longrightarrow> db' = db"
  by (auto simp: expire_execution_consent_def invalidate_execution_consent_def committed_Inr
      try_bind_Inr Let_def elim!: consents.changed_cases split: if_splits)

lemma clear_unchanged: "snd (clear_execution_consent_challenge x nonce issued expires now db) = db"
  by (auto simp: clear_execution_consent_challenge_def dropped_def split: sum.splits)

section \<open>The invariant of the three tables\<close>

fun consent_is_live :: "execution_consent_state \<Rightarrow> bool" where
  "consent_is_live Consent_Attested = True"
| "consent_is_live Consent_Consumed = True"
| "consent_is_live _ = False"

fun session_status_for :: "execution_consent_state \<Rightarrow> organization_execution_status" where
  "session_status_for Consent_Attested = St_Approved"
| "session_status_for Consent_Consumed = St_Running"
| "session_status_for _ = St_AwaitingConfirmation"

definition rows_agree :: "execution_consent_state \<Rightarrow> session_row \<Rightarrow> snapshot_row \<Rightarrow> bool" where
  "rows_agree st s n \<longleftrightarrow>
     sr_user_confirmed s = consent_is_live st \<and> sn_user_confirmed n = consent_is_live st
     \<and> sr_status s = session_status_for st"

definition consent_db_ok :: "consent_db \<Rightarrow> bool" where
  "consent_db_ok db \<longleftrightarrow>
     (\<forall>x s. db_sessions db x = Some s \<longrightarrow> session_check s)
     \<and> (\<forall>x n. db_snapshots db x = Some n \<longrightarrow> snapshot_check n)
     \<and> (\<forall>x r. db_consents db x = Some r \<longrightarrow> consent_check r
          \<and> (\<exists>s n. db_sessions db x = Some s \<and> db_snapshots db x = Some n
               \<and> rows_agree (xc_state (sc_consent r)) s n))"

text \<open>Replacing the three rows of one execution by rows that agree keeps the invariant.\<close>

lemma consent_db_ok_rows:
  assumes "consent_db_ok db" "consent_check r" "session_check s" "snapshot_check n"
    and "rows_agree (xc_state (sc_consent r)) s n"
  shows "consent_db_ok (db\<lparr>db_consents := (db_consents db)(x \<mapsto> r),
                           db_sessions := (db_sessions db)(x \<mapsto> s),
                           db_snapshots := (db_snapshots db)(x \<mapsto> n)\<rparr>)"
  using assms by (simp add: consent_db_ok_def)

lemma consent_db_ok_rows_of:
  assumes "consent_db_ok db" "db_consents db x = Some r"
  obtains s n where "db_sessions db x = Some s" "db_snapshots db x = Some n"
    "rows_agree (xc_state (sc_consent r)) s n" "session_check s" "snapshot_check n" "consent_check r"
  using assms unfolding consent_db_ok_def by blast

lemma unconfirmed_checks:
  "session_check s \<Longrightarrow> session_check (unconfirmed_session s)"
  "snapshot_check (unconfirmed_snapshot n)"
  by (simp_all add: session_check_def snapshot_check_def)

lemma unconfirmed_rows_agree:
  "\<not> consent_is_live st \<Longrightarrow> rows_agree st (unconfirmed_session s) (unconfirmed_snapshot n)"
  by (cases st) (simp_all add: rows_agree_def)

lemma set_consent_state [simp]: "sc_consent (set_consent f moment r) = f (sc_consent r)"
  by (simp add: set_consent_def)

lemma consent_db_ok_unconfirmed:
  assumes "consent_db_ok db" "consent_check r" "\<not> consent_is_live (xc_state (sc_consent r))"
    and "db_sessions db x = Some s"
  shows "consent_db_ok (db\<lparr>db_consents := (db_consents db)(x \<mapsto> r),
                           db_sessions := (db_sessions db)(x \<mapsto> unconfirmed_session s),
                           db_snapshots := (db_snapshots db)(x \<mapsto> unconfirmed_snapshot n)\<rparr>)"
proof -
  have "session_check s" using assms unfolding consent_db_ok_def by blast
  then show ?thesis
    using assms by (intro consent_db_ok_rows unconfirmed_checks unconfirmed_rows_agree) auto
qed

lemma issue_keeps:
  assumes "consent_db_ok db" "issue_transaction x nonce issued expires db = (Inr (), db')"
  shows "consent_db_ok db'"
  using assms(2) by (rule issue_done)
    (auto simp: Let_def consent_pending_def intro!: consent_db_ok_unconfirmed assms(1))

lemma expire_keeps:
  assumes "consent_db_ok db" "expire_execution_consent x now db = (Inr True, db')"
  shows "consent_db_ok db'"
  using assms(2) by (rule expire_done) (auto simp: Let_def intro!: consent_db_ok_unconfirmed assms(1))

lemma invalidate_keeps:
  assumes "consent_db_ok db" "invalidate_execution_consent x reason now db = (Inr True, db')"
  shows "consent_db_ok db'"
  using assms(2) by (rule invalidate_done)
    (auto simp: Let_def intro!: consent_db_ok_unconfirmed assms(1))

lemma attest_keeps:
  assumes "consent_db_ok db" "attest_transaction x nonce issued expires mac now db = (Inr (), db')"
  shows "consent_db_ok db'"
  using assms(2) by (rule attest_done)
    (auto simp: Let_def rows_agree_def session_check_def snapshot_check_def
      intro!: consent_db_ok_rows assms(1))

lemma consume_keeps:
  assumes ok: "consent_db_ok db"
    and step: "consume_transaction x nonce issued expires mac now db = (Inr (), db')"
  shows "consent_db_ok db'"
  using step
proof (rule consume_done)
  fix r s
  assume row: "db_consents db x = Some r" and attested: "xc_state (sc_consent r) = Consent_Attested"
    and s: "db_sessions db x = Some s"
    and db': "let r' = set_consent (\<lambda>c. c\<lparr>xc_state := Consent_Consumed,
                 xc_consumed_at_unix_ms := Some now\<rparr>) now r
     in consent_check r'
        \<and> db' = db\<lparr>db_consents := (db_consents db)(x \<mapsto> r'),
                   db_sessions := (db_sessions db)(x \<mapsto>
                     s\<lparr>sr_status := St_Running, sr_started_at :=
                        (case sr_started_at s of None \<Rightarrow> Some (dec_int now) | Some t \<Rightarrow> Some t)\<rparr>)\<rparr>"
  obtain n where "db_snapshots db x = Some n" "rows_agree Consent_Attested s n" "session_check s"
    using consent_db_ok_rows_of [OF ok row] s attested by (metis option.inject)
  with ok db' show ?thesis
    by (auto simp: consent_db_ok_def Let_def rows_agree_def session_check_def)
qed

section \<open>Histories of calls\<close>

datatype consent_call =
    Issue execution_id digest int int
  | Attest execution_id digest int int digest int
  | Clear execution_id digest int int int
  | Expire execution_id int
  | Invalidate execution_id ustring int
  | Consume execution_id digest int int digest int

text \<open>Whether the call answered with success, and the database after it.\<close>

fun perform_call :: "(consent_db \<Rightarrow> persistence_error + 'd) \<Rightarrow> consent_call \<Rightarrow> consent_db \<Rightarrow> bool \<times> consent_db" where
  "perform_call detail (Issue x nonce issued expires) db =
     map_prod is_ok id (issue_execution_consent_challenge detail x nonce issued expires db)"
| "perform_call detail (Attest x nonce issued expires mac now) db =
     map_prod is_ok id (attest_execution_consent detail x nonce issued expires mac now db)"
| "perform_call detail (Clear x nonce issued expires now) db =
     map_prod is_ok id (clear_execution_consent_challenge x nonce issued expires now db)"
| "perform_call detail (Expire x now) db = map_prod is_ok id (expire_execution_consent x now db)"
| "perform_call detail (Invalidate x reason now) db =
     map_prod is_ok id (invalidate_execution_consent x reason now db)"
| "perform_call detail (Consume x nonce issued expires mac now) db =
     map_prod is_ok id (consume_execution_consent detail x nonce issued expires mac now db)"

fun consent_history ::
  "(consent_db \<Rightarrow> persistence_error + 'd) \<Rightarrow> consent_call list \<Rightarrow> consent_db
    \<Rightarrow> (consent_call \<times> bool) list \<times> consent_db" where
  "consent_history detail [] db = ([], db)"
| "consent_history detail (c # cs) db =
     (case perform_call detail c db of
        (ok, db1) \<Rightarrow> (case consent_history detail cs db1 of
          (answers, db2) \<Rightarrow> ((c, ok) # answers, db2)))"

text \<open>
  A call either leaves the database as it was or is one of the five committed transactions.
\<close>

lemma perform_call_cases:
  assumes "perform_call detail c db = (ok, db')"
  obtains "db' = db" "\<And>x nonce issued expires mac now. c = Consume x nonce issued expires mac now \<Longrightarrow> \<not> ok"
  | x nonce issued expires where "c = Issue x nonce issued expires"
      "issue_transaction x nonce issued expires db = (Inr (), db')"
  | x nonce issued expires mac now where "c = Attest x nonce issued expires mac now"
      "attest_transaction x nonce issued expires mac now db = (Inr (), db')"
  | x now where "c = Expire x now" "expire_execution_consent x now db = (Inr True, db')"
  | x reason now where "c = Invalidate x reason now"
      "invalidate_execution_consent x reason now db = (Inr True, db')"
  | x nonce issued expires mac now where "c = Consume x nonce issued expires mac now"
      "consume_transaction x nonce issued expires mac now db = (Inr (), db')"
proof (cases c)
  case (Issue x nonce issued expires)
  with assms that(1,2) show ?thesis
    by (auto simp: issue_execution_consent_challenge_def and_then_read_def
        dest: unsuccessful_unchanged split: sum.splits prod.splits if_splits)
next
  case (Attest x nonce issued expires mac now)
  with assms that(1,3) show ?thesis
    by (auto simp: attest_execution_consent_def and_then_read_def
        dest: unsuccessful_unchanged split: sum.splits prod.splits)
next
  case (Clear x nonce issued expires now)
  moreover have "snd (clear_execution_consent_challenge x nonce issued expires now db) = db"
    by (rule clear_unchanged)
  ultimately show ?thesis
    using assms by (intro that(1)) (auto simp: map_prod_def split: prod.splits)
next
  case (Expire x now)
  with assms obtain res where run: "expire_execution_consent x now db = (res, db')"
    by (cases "expire_execution_consent x now db") auto
  consider e where "res = Inl e" | "res = Inr True" | "res = Inr False"
    by (cases res) auto
  then show ?thesis
    using run Expire that(1,4)
    by cases (auto dest: unsuccessful_unchanged answered_false_unchanged)
next
  case (Invalidate x reason now)
  with assms obtain res where run: "invalidate_execution_consent x reason now db = (res, db')"
    by (cases "invalidate_execution_consent x reason now db") auto
  consider e where "res = Inl e" | "res = Inr True" | "res = Inr False"
    by (cases res) auto
  then show ?thesis
    using run Invalidate that(1,5)
    by cases (auto dest: unsuccessful_unchanged answered_false_unchanged)
next
  case (Consume x nonce issued expires mac now)
  with assms that(1,6) show ?thesis
    by (auto simp: consume_execution_consent_def and_then_read_def
        dest: unsuccessful_unchanged split: sum.splits prod.splits)
qed

lemma perform_call_keeps:
  assumes "consent_db_ok db" "perform_call detail c db = (ok, db')"
  shows "consent_db_ok db'"
  using assms(2,1)
  by (cases rule: perform_call_cases)
    (auto intro: issue_keeps attest_keeps expire_keeps invalidate_keeps consume_keeps)

lemma history_Cons:
  assumes "perform_call detail c db = (ok, db1)"
  shows "fst (consent_history detail (c # cs) db) = (c, ok) # fst (consent_history detail cs db1)"
    and "snd (consent_history detail (c # cs) db) = snd (consent_history detail cs db1)"
  using assms by (simp_all split: prod.split)

text \<open>C23: No sequence of the six operations breaks the constraints of the three tables or the
  agreement between them: in every database reached from a well-formed one the approval flags of
  the session and of its snapshot are set exactly when the consent is attested or consumed, and
  the session waits, is approved or runs as the consent says.\<close>

theorem consent_history_keeps_invariant:
  assumes "consent_db_ok db"
  shows "consent_db_ok (snd (consent_history detail cs db))"
  using assms
proof (induction cs arbitrary: db)
  case (Cons c cs)
  obtain ok db1 where step: "perform_call detail c db = (ok, db1)" by fastforce
  from Cons.IH [OF perform_call_keeps [OF Cons.prems step]] show ?case
    by (simp add: history_Cons [OF step] del: consent_history.simps)
qed simp

section \<open>Use of a consent\<close>

fun consumes :: "execution_id \<Rightarrow> consent_call \<times> bool \<Rightarrow> bool" where
  "consumes x (Consume y nonce issued expires mac now, ok) \<longleftrightarrow> y = x \<and> ok"
| "consumes x _ \<longleftrightarrow> False"

definition consumed :: "consent_db \<Rightarrow> execution_id \<Rightarrow> bool" where
  "consumed db x \<longleftrightarrow>
     (case db_consents db x of None \<Rightarrow> False | Some r \<Rightarrow> xc_state (sc_consent r) = Consent_Consumed)"

lemma consumed_stays:
  assumes "perform_call detail c db = (ok, db')" "consumed db x"
  shows "consumed db' x \<and> \<not> consumes x (c, ok)"
  using assms(1)
proof (cases rule: perform_call_cases)
  case 1
  then show ?thesis using assms(2) by (cases c) auto
next
  case 2
  from 2(2) show ?thesis
    by (rule issue_done) (use assms(2) 2(1) in \<open>auto simp: consumed_def Let_def\<close>)
next
  case 3
  from 3(2) show ?thesis
    by (rule attest_done) (use assms(2) 3(1) in \<open>auto simp: consumed_def Let_def\<close>)
next
  case 4
  from 4(2) show ?thesis
    by (rule expire_done) (use assms(2) 4(1) in \<open>auto simp: consumed_def Let_def\<close>)
next
  case 5
  from 5(2) show ?thesis
    by (rule invalidate_done) (use assms(2) 5(1) in \<open>auto simp: consumed_def Let_def\<close>)
next
  case 6
  from 6(2) show ?thesis
    by (rule consume_done) (use assms(2) 6(1) in \<open>auto simp: consumed_def Let_def\<close>)
qed

lemma consuming_consumes:
  assumes "perform_call detail c db = (ok, db')" "consumes x (c, ok)"
  shows "consumed db' x"
  using assms(1)
proof (cases rule: perform_call_cases)
  case 6
  from 6(2) show ?thesis
    by (rule consume_done) (use assms(2) 6(1) in \<open>auto simp: consumed_def Let_def\<close>)
qed (use assms(2) in \<open>cases c; auto\<close>)+

lemma no_use_once_consumed:
  "consumed db x \<Longrightarrow> filter (consumes x) (fst (consent_history detail cs db)) = []"
proof (induction cs arbitrary: db)
  case (Cons c cs)
  obtain ok db1 where step: "perform_call detail c db = (ok, db1)" by fastforce
  from consumed_stays [OF step Cons.prems] Cons.IH [of db1] show ?case
    by (simp add: history_Cons [OF step] del: consent_history.simps)
qed simp

text \<open>C19: A consent is used at most once: in every sequence of calls, on any database, at most one
  call of \<^verbatim>\<open>consume_execution_consent\<close> for an execution answers with success.\<close>

theorem consent_is_used_at_most_once:
  "length (filter (consumes x) (fst (consent_history detail cs db))) \<le> 1"
proof (induction cs arbitrary: db)
  case (Cons c cs)
  obtain ok db1 where step: "perform_call detail c db = (ok, db1)" by fastforce
  show ?case
  proof (cases "consumes x (c, ok)")
    case True
    from no_use_once_consumed [OF consuming_consumes [OF step True]] True show ?thesis
      by (simp add: history_Cons [OF step] del: consent_history.simps)
  next
    case False
    with Cons.IH [of db1] show ?thesis
      by (simp add: history_Cons [OF step] del: consent_history.simps)
  qed
qed simp

text \<open>A successful consumption spends a live attestation: the stored consent was attested with
  exactly the nonce, issue and expiry times and authentication code of the call, at a time between
  its issue and the consumption, which is not after the expiry; the session and its snapshot were
  approved; the consent is consumed and its session running afterwards, and no other execution is
  touched.\<close>

lemma consumption_spends_live_attestation:
  assumes "consent_db_ok db"
    and "consume_execution_consent detail x nonce issued expires mac now db = (Inr d, db')"
  shows "(\<exists>r s n attested. db_consents db x = Some r \<and> db_sessions db x = Some s
            \<and> db_snapshots db x = Some n
            \<and> xc_state (sc_consent r) = Consent_Attested
            \<and> xc_nonce (sc_consent r) = Some nonce \<and> xc_attestation_mac (sc_consent r) = Some mac
            \<and> xc_issued_at_unix_ms (sc_consent r) = Some issued
            \<and> xc_expires_at_unix_ms (sc_consent r) = Some expires
            \<and> xc_attested_at_unix_ms (sc_consent r) = Some attested
            \<and> issued \<le> attested \<and> attested \<le> now \<and> now \<le> expires
            \<and> sr_status s = St_Approved \<and> sr_user_confirmed s \<and> sn_user_confirmed n)
         \<and> consumed db' x
         \<and> (\<exists>s. db_sessions db' x = Some s \<and> sr_status s = St_Running)
         \<and> (\<forall>y. y \<noteq> x \<longrightarrow> db_consents db' y = db_consents db y
               \<and> db_sessions db' y = db_sessions db y \<and> db_snapshots db' y = db_snapshots db y)"
proof -
  have step: "consume_transaction x nonce issued expires mac now db = (Inr (), db')"
    using assms(2) by (auto simp: consume_execution_consent_def and_then_read_def split: prod.splits sum.splits)
  then show ?thesis
  proof (rule consume_done)
    fix r s
    assume row: "db_consents db x = Some r" "xc_state (sc_consent r) = Consent_Attested"
      "xc_nonce (sc_consent r) = Some nonce" "xc_issued_at_unix_ms (sc_consent r) = Some issued"
      "xc_expires_at_unix_ms (sc_consent r) = Some expires"
      "xc_attestation_mac (sc_consent r) = Some mac" "now \<le> expires"
      and s: "db_sessions db x = Some s" "sr_status s = St_Approved"
      and db': "let r' = set_consent (\<lambda>c. c\<lparr>xc_state := Consent_Consumed,
                 xc_consumed_at_unix_ms := Some now\<rparr>) now r
     in consent_check r'
        \<and> db' = db\<lparr>db_consents := (db_consents db)(x \<mapsto> r'),
                   db_sessions := (db_sessions db)(x \<mapsto>
                     s\<lparr>sr_status := St_Running, sr_started_at :=
                        (case sr_started_at s of None \<Rightarrow> Some (dec_int now) | Some t \<Rightarrow> Some t)\<rparr>)\<rparr>"
    from consent_db_ok_rows_of [OF assms(1) row(1)] s row(2) obtain n
      where n: "db_snapshots db x = Some n" "rows_agree Consent_Attested s n"
      by (metis option.inject)
    from db' have "consent_check (set_consent (\<lambda>c. c\<lparr>xc_state := Consent_Consumed,
                 xc_consumed_at_unix_ms := Some now\<rparr>) now r)"
      by (simp add: Let_def)
    with row obtain attested where "xc_attested_at_unix_ms (sc_consent r) = Some attested"
      "issued \<le> attested" "attested \<le> now"
      by (auto simp: consent_check_def attestation_check_def split: option.splits)
    with row s n db' show ?thesis
      by (auto simp: rows_agree_def consumed_def Let_def)
  qed
qed

lemma utf8_length: "length s \<le> length (utf8_bytes s)"
  by (induction s) (auto simp: utf8_bytes_Cons utf8_char_def)

lemma utf8_length_ascii: "length (utf8_bytes s) = length s \<longleftrightarrow> (\<forall>c \<in> set s. c < 128)"
proof (induction s)
  case (Cons c s)
  with utf8_length [of s] show ?case by (auto simp: utf8_bytes_Cons utf8_char_def)
qed simp

text \<open>The constraints of the schema and the validation in the code agree: a row that the
  database accepts is accepted again when it is read, except that the code measures the policy
  digest in bytes where the schema counts characters.\<close>

lemma schema_implies_validation:
  assumes "consent_check r"
  shows "validate_stored_consent r = Inr ()
           \<longleftrightarrow> (\<forall>c \<in> set (xsp_digest_hex (sc_safety_policy r)). c < 128)"
proof -
  have "length (utf8_bytes (xsp_digest_hex (sc_safety_policy r))) = 64
          \<longleftrightarrow> (\<forall>c \<in> set (xsp_digest_hex (sc_safety_policy r)). c < 128)"
    using utf8_length_ascii [of "xsp_digest_hex (sc_safety_policy r)"] assms
    by (simp add: consent_check_def binding_check_def)
  moreover have "state_is_stored_correctly (xc_state (sc_consent r))
      (xc_issued_at_unix_ms (sc_consent r) \<noteq> None \<and> xc_expires_at_unix_ms (sc_consent r) \<noteq> None
        \<and> xc_nonce (sc_consent r) \<noteq> None) (sc_consent r)"
    using assms
    by (cases "xc_state (sc_consent r)")
      (auto simp: consent_check_def challenge_check_def split: option.splits)
  moreover have "sc_material_version r \<noteq> 0" "xsp_maximum_rehash_bytes (sc_safety_policy r) \<noteq> 0"
    "xsp_maximum_rehash_bytes (sc_safety_policy r) \<le> MAX_EXECUTION_VERIFICATION_BYTES"
    using assms by (auto simp: consent_check_def binding_check_def MAX_EXECUTION_VERIFICATION_BYTES_def)
  ultimately show ?thesis
    using assms
    by (auto simp: validate_stored_consent_def Let_def consent_check_def binding_check_def
        native_path_is_empty_def challenge_check_def attestation_check_def split: option.splits)
qed

text \<open>\<^verbatim>\<open>clear_execution_consent_challenge\<close> never clears a challenge: it can answer that it did,
  and the database is the same before and after.\<close>

lemma clearing_a_challenge_has_no_effect:
  "snd (clear_execution_consent_challenge x nonce issued expires now db) = db
   \<and> (\<not> db_poisoned db \<and> db_consents db x = Some r \<and> consent_check r
      \<and> xc_state (sc_consent r) = Consent_Pending \<and> xc_nonce (sc_consent r) = Some nonce
      \<and> xc_issued_at_unix_ms (sc_consent r) = Some issued
      \<and> xc_expires_at_unix_ms (sc_consent r) = Some expires
      \<longrightarrow> fst (clear_execution_consent_challenge x nonce issued expires now db) = Inr True)"
  by (auto simp: clear_execution_consent_challenge_def dropped_def update_consent_def sql_update_def
      set_consent_def consent_check_def binding_check_def challenge_check_def attestation_check_def
      column_is_def Let_def split: option.splits)

text \<open>An untouched consent can be driven to its end: when the session waits with at least one
  operation that passed preflight, issuing a challenge, attesting it within its lifetime and
  consuming it no earlier and no later than the expiry all succeed.\<close>

lemma consent_can_be_completed:
  assumes "consent_db_ok db" "\<not> db_poisoned db"
    and "db_consents db x = Some r" "sc_material_version r = EXECUTION_PLAN_MATERIAL_VERSION"
    and "xc_state (sc_consent r) = Consent_Pending"
    and "db_sessions db x = Some s" "sr_preflight_ok_count s > 0"
    and "issued < expires" "issued \<le> attested" "attested \<le> now" "now \<le> expires"
  shows "map snd (fst (consent_history (\<lambda>_. Inr ())
           [Issue x nonce issued expires, Attest x nonce issued expires mac attested,
            Consume x nonce issued expires mac now] db)) = [True, True, True]"
proof -
  from consent_db_ok_rows_of [OF assms(1,3)] assms(5,6) obtain n
    where "db_snapshots db x = Some n" "sr_status s = St_AwaitingConfirmation" "consent_check r"
    by (auto simp: rows_agree_def)
  with assms(2-) show ?thesis
    by (simp add: issue_execution_consent_challenge_def attest_execution_consent_def
        consume_execution_consent_def and_then_read_def issue_transaction_def attest_transaction_def
        consume_transaction_def committed_def update_consent_def update_session_def
        update_snapshot_def sql_update_def set_consent_def column_is_def Let_def consent_check_def
        binding_check_def challenge_check_def attestation_check_def session_check_def
        snapshot_check_def)
qed

section \<open>Concrete databases\<close>

definition sample_consent_row :: "execution_consent \<Rightarrow> consent_row" where
  "sample_consent_row c =
     \<lparr>sc_material_version = EXECUTION_PLAN_MATERIAL_VERSION,
      sc_destination_root = \<lparr>xrb_canonical_path = \<lparr>np_encoding = UnixBytes, np_bytes = [47]\<rparr>,
        xrb_display_path = lit ''/'',
        xrb_volume = \<lparr>vol_platform = Linux, vol_stable_identifier = lit ''v'',
          vol_filesystem_type = None, vol_case_sensitive = True, vol_removable = False,
          vol_local = True\<rparr>\<rparr>,
      sc_safety_policy = \<lparr>xsp_version = EXECUTION_SAFETY_POLICY_VERSION,
        xsp_maximum_rehash_bytes = 1, xsp_allow_qualified_case_only_rename = False,
        xsp_digest_hex = replicate 64 48\<rparr>,
      sc_consent = c, cr_state_changed_at_unix_ms = 0\<rparr>"

definition sample_consent_db :: "execution_consent \<Rightarrow> consent_db" where
  "sample_consent_db c =
     \<lparr>db_poisoned = False,
      db_consents = [7 \<mapsto> sample_consent_row c],
      db_sessions = [7 \<mapsto> \<lparr>sr_status = session_status_for (xc_state c),
        sr_user_confirmed = consent_is_live (xc_state c), sr_approved_at = None,
        sr_started_at = None, sr_preflight_ok_count = 1\<rparr>],
      db_snapshots = [7 \<mapsto> \<lparr>sn_user_confirmed = consent_is_live (xc_state c),
        sn_approved_at = None\<rparr>]\<rparr>"

definition sample_attested :: execution_consent where
  "sample_attested = consent_pending\<lparr>xc_state := Consent_Attested,
     xc_issued_at_unix_ms := Some 10, xc_expires_at_unix_ms := Some 20, xc_nonce := Some 1,
     xc_attested_at_unix_ms := Some 12, xc_attestation_mac := Some 2\<rparr>"

definition sample_issued :: execution_consent where
  "sample_issued = consent_pending\<lparr>xc_issued_at_unix_ms := Some 10,
     xc_expires_at_unix_ms := Some 20, xc_nonce := Some 1\<rparr>"

lemmas sample_consents = sample_attested_def sample_issued_def consent_pending_def

lemma sample_consent_check:
  "challenge_check c \<Longrightarrow> attestation_check c \<Longrightarrow> state_check (xc_state c) c
     \<Longrightarrow> xc_invalidation_reason c = None \<Longrightarrow> consent_check (sample_consent_row c)"
  by (simp add: sample_consent_row_def consent_check_def binding_check_def
      EXECUTION_PLAN_MATERIAL_VERSION_def EXECUTION_SAFETY_POLICY_VERSION_def lit_def)

lemma sample_db_ok:
  "consent_check (sample_consent_row c) \<Longrightarrow> consent_db_ok (sample_consent_db c)"
  by (simp add: consent_db_ok_def sample_consent_db_def session_check_def snapshot_check_def
      rows_agree_def) (simp add: sample_consent_row_def)

lemma sample_checks:
  "consent_check (sample_consent_row consent_pending)"
  "consent_check (sample_consent_row sample_attested)"
  "consent_check (sample_consent_row sample_issued)"
  by (rule sample_consent_check; simp add: sample_consents challenge_check_def attestation_check_def)+

theorem consent_history_keeps_invariant_witness:
  "consent_db_ok (snd (consent_history (\<lambda>_. Inr ())
     [Issue 7 1 10 20, Attest 7 1 10 20 2 12, Expire 7 20] (sample_consent_db consent_pending)))"
  by (rule consent_history_keeps_invariant) (intro sample_db_ok sample_checks)

theorem consumption_spends_live_attestation_witness:
  "consumed (snd (consume_execution_consent (\<lambda>_. Inr ()) 7 1 10 20 2 15
     (sample_consent_db sample_attested))) 7"
proof -
  let ?run = "consume_execution_consent (\<lambda>_. Inr ()) 7 1 10 20 2 15 (sample_consent_db sample_attested)"
  have "fst ?run = Inr ()"
    by (simp add: consume_execution_consent_def and_then_read_def consume_transaction_def
        committed_def update_consent_def update_session_def sql_update_def set_consent_def
        column_is_def Let_def sample_consent_db_def session_check_def)
      (simp add: sample_consent_row_def sample_consents consent_check_def binding_check_def
        challenge_check_def attestation_check_def EXECUTION_PLAN_MATERIAL_VERSION_def
        EXECUTION_SAFETY_POLICY_VERSION_def lit_def)
  then have "?run = (Inr (), snd ?run)" by (metis prod.collapse)
  from consumption_spends_live_attestation [OF sample_db_ok [OF sample_checks(2)] this]
  show ?thesis by blast
qed

theorem schema_implies_validation_witness:
  "validate_stored_consent (sample_consent_row consent_pending) = Inr ()"
  using schema_implies_validation [OF sample_checks(1)]
  by (simp add: sample_consent_row_def)

theorem clearing_a_challenge_has_no_effect_witness:
  "clear_execution_consent_challenge 7 1 10 20 15 (sample_consent_db sample_issued)
     = (Inr True, sample_consent_db sample_issued)"
  using clearing_a_challenge_has_no_effect [of 7 1 10 20 15 "sample_consent_db sample_issued"
      "sample_consent_row sample_issued"] sample_checks(3)
  by (simp add: prod_eq_iff sample_consent_db_def)
    (simp add: sample_consent_row_def sample_consents)

theorem consent_can_be_completed_witness:
  "map snd (fst (consent_history (\<lambda>_. Inr ())
     [Issue 7 1 10 20, Attest 7 1 10 20 2 12, Consume 7 1 10 20 2 20]
     (sample_consent_db consent_pending))) = [True, True, True]"
  by (rule consent_can_be_completed [OF sample_db_ok [OF sample_checks(1)],
        where r = "sample_consent_row consent_pending"
          and s = "the (db_sessions (sample_consent_db consent_pending) 7)"])
    (simp_all add: sample_consent_db_def sample_consent_row_def consent_pending_def)

end
