(* ===== verification/Consent_Ledger.thy ===== *)
theory Consent_Ledger
  imports Domain_Types
begin

text \<open>
  The one-task cloud consent of \<^verbatim>\<open>crates/privacy/src/lib.rs\<close>: grants with a scope, an expiry
  and two budgets, and the ledger that authorises each disclosure against them. The mutex is the
  flag \<open>led_poisoned\<close>; the hash map of the grants is a map from their identifiers.
\<close>

section \<open>Grants, requests and receipts\<close>

type_synonym consent_grant_id = uuid
type_synonym model_release_id = uuid

datatype data_class = Data_Text | Data_Image | Data_Audio | Data_Video | Data_Metadata

record consent_grant =
  cg_id :: consent_grant_id
  cg_workspace_id :: workspace_id
  cg_task_id :: ustring
  cg_request_digest :: digest
  cg_provider_id :: ustring
  cg_model_release_id :: model_release_id
  cg_purpose :: ustring
  cg_artifact_digests :: "digest list"
  cg_allowed_data_classes :: "data_class list"
  cg_max_bytes :: u64
  cg_max_calls :: u32
  cg_expires_at_unix_ms :: int

record egress_request =
  eg_workspace_id :: workspace_id
  eg_task_id :: ustring
  eg_request_digest :: digest
  eg_provider_id :: ustring
  eg_model_release_id :: model_release_id
  eg_artifact_id :: artifact_id
  eg_artifact_digest :: digest
  eg_data_class :: data_class
  eg_byte_count :: u64
  eg_now_unix_ms :: int

record disclosure_receipt =
  dr_grant_id :: consent_grant_id
  dr_artifact_id :: artifact_id
  dr_provider_id :: ustring
  dr_model_release_id :: model_release_id
  dr_data_class :: data_class
  dr_byte_count :: u64
  dr_disclosed_at_unix_ms :: int

datatype privacy_error =
    MissingGrant | GrantExpired | ScopeMismatch | ByteBudgetExceeded | CallBudgetExceeded
  | LedgerPoisoned

record grant_state =
  gs_grant :: consent_grant
  gs_calls_used :: u32
  gs_bytes_used :: u64
  gs_revoked :: bool

record consent_ledger =
  led_poisoned :: bool
  led_grants :: "consent_grant_id \<rightharpoonup> grant_state"

section \<open>The ledger\<close>

text \<open>\<^verbatim>\<open>saturating_add\<close> on an unsigned word of any width.\<close>

definition sat_add :: "'w::len word \<Rightarrow> 'w word \<Rightarrow> 'w word" where
  "sat_add a b = (if a > - 1 - b then - 1 else a + b)"

definition ledger_lock :: "consent_ledger \<Rightarrow> privacy_error + (consent_grant_id \<rightharpoonup> grant_state)" where
  "ledger_lock L = (if led_poisoned L then Inl LedgerPoisoned else Inr (led_grants L))"

definition ledger_grant :: "consent_grant \<Rightarrow> consent_ledger \<Rightarrow> (privacy_error + unit) \<times> consent_ledger" where
  "ledger_grant g L =
     (case ledger_lock L of
        Inl e \<Rightarrow> (Inl e, L)
      | Inr grants \<Rightarrow>
          (Inr (), L\<lparr>led_grants := grants(cg_id g \<mapsto>
             \<lparr>gs_grant = g, gs_calls_used = 0, gs_bytes_used = 0, gs_revoked = False\<rparr>)\<rparr>))"

definition ledger_revoke :: "consent_grant_id \<Rightarrow> consent_ledger \<Rightarrow> (privacy_error + unit) \<times> consent_ledger" where
  "ledger_revoke x L =
     (case ledger_lock L of
        Inl e \<Rightarrow> (Inl e, L)
      | Inr grants \<Rightarrow>
          (case grants x of
             None \<Rightarrow> (Inl MissingGrant, L)
           | Some st \<Rightarrow> (Inr (), L\<lparr>led_grants := grants(x \<mapsto> st\<lparr>gs_revoked := True\<rparr>)\<rparr>)))"

definition scope_mismatch :: "consent_grant \<Rightarrow> egress_request \<Rightarrow> bool" where
  "scope_mismatch g r \<longleftrightarrow>
     cg_workspace_id g \<noteq> eg_workspace_id r
     \<or> cg_task_id g \<noteq> eg_task_id r
     \<or> cg_request_digest g \<noteq> eg_request_digest r
     \<or> cg_provider_id g \<noteq> eg_provider_id r
     \<or> cg_model_release_id g \<noteq> eg_model_release_id r
     \<or> eg_artifact_digest r \<notin> set (cg_artifact_digests g)
     \<or> eg_data_class r \<notin> set (cg_allowed_data_classes g)"

definition receipt_of :: "consent_grant_id \<Rightarrow> egress_request \<Rightarrow> disclosure_receipt" where
  "receipt_of x r =
     \<lparr>dr_grant_id = x, dr_artifact_id = eg_artifact_id r, dr_provider_id = eg_provider_id r,
      dr_model_release_id = eg_model_release_id r, dr_data_class = eg_data_class r,
      dr_byte_count = eg_byte_count r, dr_disclosed_at_unix_ms = eg_now_unix_ms r\<rparr>"

text \<open>The checks in the order of the code, and the state after an authorised call.\<close>

definition spend :: "grant_state \<Rightarrow> egress_request \<Rightarrow> privacy_error + grant_state" where
  "spend st r =
     (if gs_revoked st then Inl MissingGrant
      else if eg_now_unix_ms r > cg_expires_at_unix_ms (gs_grant st) then Inl GrantExpired
      else if scope_mismatch (gs_grant st) r then Inl ScopeMismatch
      else if gs_calls_used st \<ge> cg_max_calls (gs_grant st) then Inl CallBudgetExceeded
      else if sat_add (gs_bytes_used st) (eg_byte_count r) > cg_max_bytes (gs_grant st)
      then Inl ByteBudgetExceeded
      else Inr (st\<lparr>gs_calls_used := sat_add (gs_calls_used st) 1,
                   gs_bytes_used := sat_add (gs_bytes_used st) (eg_byte_count r)\<rparr>))"

definition authorize_once ::
  "consent_grant_id \<Rightarrow> egress_request \<Rightarrow> consent_ledger
    \<Rightarrow> (privacy_error + disclosure_receipt) \<times> consent_ledger" where
  "authorize_once x r L =
     (case ledger_lock L of
        Inl e \<Rightarrow> (Inl e, L)
      | Inr grants \<Rightarrow>
          (case grants x of
             None \<Rightarrow> (Inl MissingGrant, L)
           | Some st \<Rightarrow>
               (case spend st r of
                  Inl e \<Rightarrow> (Inl e, L)
                | Inr st' \<Rightarrow> (Inr (receipt_of x r), L\<lparr>led_grants := grants(x \<mapsto> st')\<rparr>))))"

section \<open>Histories\<close>

datatype ledger_call =
    GrantCall consent_grant
  | RevokeCall consent_grant_id
  | AuthorizeCall consent_grant_id egress_request

text \<open>The receipt of a call, if it gave one, and the ledger after it.\<close>

fun run_ledger_call :: "ledger_call \<Rightarrow> consent_ledger \<Rightarrow> disclosure_receipt option \<times> consent_ledger" where
  "run_ledger_call (GrantCall g) L = (None, snd (ledger_grant g L))"
| "run_ledger_call (RevokeCall x) L = (None, snd (ledger_revoke x L))"
| "run_ledger_call (AuthorizeCall x r) L =
     (case authorize_once x r L of (Inl e, L') \<Rightarrow> (None, L') | (Inr d, L') \<Rightarrow> (Some d, L'))"

fun receipts :: "ledger_call list \<Rightarrow> consent_ledger \<Rightarrow> disclosure_receipt list" where
  "receipts [] L = []"
| "receipts (c # cs) L =
     (case run_ledger_call c L of
        (None, L') \<Rightarrow> receipts cs L'
      | (Some d, L') \<Rightarrow> d # receipts cs L')"

section \<open>Budgets\<close>

lemma sat_add_unat:
  "unat (sat_add a b) = min (2 ^ LENGTH('w) - 1) (unat a + unat b)" for a b :: "'w::len word"
proof -
  have top: "unat (- 1 :: 'w word) = 2 ^ LENGTH('w) - 1"
    by (simp add: unsigned_minus_1_eq_mask mask_eq_exp_minus_1)
  have sub: "unat (- 1 - b) = 2 ^ LENGTH('w) - 1 - unat b"
    using unat_sub [of b "- 1"] top by simp
  have bounds: "unat a < 2 ^ LENGTH('w)" "unat b < 2 ^ LENGTH('w)" by simp_all
  show ?thesis
  proof (cases "a > - 1 - b")
    case True
    then have "2 ^ LENGTH('w) - 1 - unat b < unat a" by (simp add: word_less_nat_alt sub)
    with True bounds show ?thesis by (simp add: sat_add_def top min_def)
  next
    case False
    then have le: "unat a + unat b < 2 ^ LENGTH('w)"
    proof -
      have "unat a \<le> 2 ^ LENGTH('w) - 1 - unat b" using False by (simp add: word_less_nat_alt sub not_less)
      with bounds(2) show ?thesis by linarith
    qed
    then have "unat (a + b) = unat a + unat b" by (simp add: unat_word_ariths)
    moreover have "unat a + unat b \<le> 2 ^ LENGTH('w) - 1" using le by linarith
    ultimately show ?thesis using False by (simp add: sat_add_def min_def)
  qed
qed

lemma spend_Inr:
  "spend st r = Inr st' \<longleftrightarrow>
     \<not> gs_revoked st \<and> eg_now_unix_ms r \<le> cg_expires_at_unix_ms (gs_grant st)
     \<and> \<not> scope_mismatch (gs_grant st) r
     \<and> gs_calls_used st < cg_max_calls (gs_grant st)
     \<and> sat_add (gs_bytes_used st) (eg_byte_count r) \<le> cg_max_bytes (gs_grant st)
     \<and> st' = st\<lparr>gs_calls_used := sat_add (gs_calls_used st) 1,
                gs_bytes_used := sat_add (gs_bytes_used st) (eg_byte_count r)\<rparr>"
  by (auto simp: spend_def)

lemma spend_counts:
  assumes "spend st r = Inr st'" and "cg_max_bytes (gs_grant st) \<noteq> - 1"
  shows "unat (gs_calls_used st') = unat (gs_calls_used st) + 1"
    and "unat (gs_bytes_used st') = unat (gs_bytes_used st) + unat (eg_byte_count r)"
    and "unat (gs_calls_used st') \<le> unat (cg_max_calls (gs_grant st))"
    and "unat (gs_bytes_used st') \<le> unat (cg_max_bytes (gs_grant st))"
    and "gs_grant st' = gs_grant st"
proof -
  have calls: "unat (gs_calls_used st) < unat (cg_max_calls (gs_grant st))"
    and bytes: "unat (sat_add (gs_bytes_used st) (eg_byte_count r)) \<le> unat (cg_max_bytes (gs_grant st))"
    and st': "st' = st\<lparr>gs_calls_used := sat_add (gs_calls_used st) 1,
                gs_bytes_used := sat_add (gs_bytes_used st) (eg_byte_count r)\<rparr>"
    using assms(1) by (simp_all add: spend_Inr word_less_nat_alt word_le_nat_alt)
  have "unat (cg_max_calls (gs_grant st)) < 2 ^ 32" using unsigned_less [of "cg_max_calls (gs_grant st)"] by simp
  with calls st' show "unat (gs_calls_used st') = unat (gs_calls_used st) + 1"
    "unat (gs_calls_used st') \<le> unat (cg_max_calls (gs_grant st))"
    by (simp_all add: sat_add_unat)
  have "unat (cg_max_bytes (gs_grant st)) < 2 ^ 64 - 1"
  proof -
    have "unat (cg_max_bytes (gs_grant st)) < 2 ^ 64" using unsigned_less [of "cg_max_bytes (gs_grant st)"] by simp
    moreover have "unat (cg_max_bytes (gs_grant st)) \<noteq> unat (- 1 :: u64)"
      using assms(2) by (simp add: unsigned_word_eqI word_unat_eq_iff)
    ultimately show ?thesis by (simp add: unsigned_minus_1_eq_mask mask_eq_exp_minus_1)
  qed
  with bytes st' show "unat (gs_bytes_used st') = unat (gs_bytes_used st) + unat (eg_byte_count r)"
    "unat (gs_bytes_used st') \<le> unat (cg_max_bytes (gs_grant st))"
    by (simp_all add: sat_add_unat)
  show "gs_grant st' = gs_grant st" using st' by simp
qed

abbreviation (input) receipts_under :: "consent_grant_id \<Rightarrow> disclosure_receipt list \<Rightarrow> disclosure_receipt list" where
  "receipts_under x rs \<equiv> filter (\<lambda>d. dr_grant_id d = x) rs"

definition within_scope :: "consent_grant \<Rightarrow> disclosure_receipt \<Rightarrow> bool" where
  "within_scope g d \<longleftrightarrow>
     dr_disclosed_at_unix_ms d \<le> cg_expires_at_unix_ms g
     \<and> dr_provider_id d = cg_provider_id g
     \<and> dr_model_release_id d = cg_model_release_id g
     \<and> dr_data_class d \<in> set (cg_allowed_data_classes g)"

text \<open>What one call does to the state of a grant it does not replace.\<close>

lemma ledger_call_state:
  assumes "run_ledger_call c L = (res, L')" and "led_grants L x = Some st"
    and "\<forall>g. c = GrantCall g \<longrightarrow> cg_id g \<noteq> x"
  obtains (kept) "led_grants L' x = Some st" "\<And>d. res = Some d \<Longrightarrow> dr_grant_id d \<noteq> x"
  | (revoked) "led_grants L' x = Some (st\<lparr>gs_revoked := True\<rparr>)" "res = None"
  | (spent) r st' where "spend st r = Inr st'" "led_grants L' x = Some st'"
      "res = Some (receipt_of x r)"
proof (cases c)
  case (GrantCall g)
  with assms kept show ?thesis
    by (auto simp: ledger_grant_def ledger_lock_def split: if_splits)
next
  case (RevokeCall y)
  with assms kept revoked show ?thesis
    by (cases "y = x") (auto simp: ledger_revoke_def ledger_lock_def split: if_splits option.splits)
next
  case (AuthorizeCall y r)
  show ?thesis
  proof (cases "y = x")
    case True
    with AuthorizeCall assms kept spent show ?thesis
      by (auto simp: authorize_once_def ledger_lock_def split: if_splits sum.splits)
  next
    case False
    with AuthorizeCall assms kept show ?thesis
      by (auto simp: authorize_once_def ledger_lock_def receipt_of_def
          split: if_splits sum.splits option.splits)
  qed
qed

lemma spent_within_scope:
  "spend st r = Inr st' \<Longrightarrow> within_scope (gs_grant st) (receipt_of x r)"
  by (auto simp: spend_Inr within_scope_def receipt_of_def scope_mismatch_def)

lemma budget_from_state:
  assumes "led_grants L x = Some st" and "cg_max_bytes (gs_grant st) \<noteq> - 1"
    and "\<forall>g. GrantCall g \<in> set cs \<longrightarrow> cg_id g \<noteq> x"
    and "gs_calls_used st \<le> cg_max_calls (gs_grant st)" "gs_bytes_used st \<le> cg_max_bytes (gs_grant st)"
  shows "unat (gs_calls_used st) + length (receipts_under x (receipts cs L)) \<le> unat (cg_max_calls (gs_grant st))
    \<and> unat (gs_bytes_used st) + (\<Sum>d \<leftarrow> receipts_under x (receipts cs L). unat (dr_byte_count d))
        \<le> unat (cg_max_bytes (gs_grant st))
    \<and> (\<forall>d \<in> set (receipts_under x (receipts cs L)). within_scope (gs_grant st) d)"
  using assms
proof (induction cs arbitrary: L st)
  case Nil
  then show ?case by (simp add: word_le_nat_alt)
next
  case (Cons c cs)
  obtain res L' where step: "run_ledger_call c L = (res, L')" by fastforce
  have new: "\<forall>g. c = GrantCall g \<longrightarrow> cg_id g \<noteq> x" using Cons.prems(3) by auto
  from step Cons.prems(1) new show ?case
  proof (cases rule: ledger_call_state)
    case kept
    with Cons.IH [OF kept(1)] Cons.prems step show ?thesis
      by (cases res) auto
  next
    case revoked
    with Cons.IH [OF revoked(1)] Cons.prems step show ?thesis by simp
  next
    case (spent r st')
    from spend_counts [OF spent(1) Cons.prems(2)] Cons.IH [OF spent(2)] Cons.prems step spent
      spent_within_scope [OF spent(1), of x]
    show ?thesis by (simp add: word_le_nat_alt receipt_of_def)
  qed
qed

text \<open>C36: A grant is never overspent: from the moment it is granted, and as long as no other grant
  takes its identifier, the disclosures it authorises are at most as many as its calls, their bytes
  add up to at most its byte budget, and each of them happens at or before its expiry, with its provider
  and model and in an allowed data class. The byte budget has to be below the largest \<^verbatim>\<open>u64\<close>, where
  the saturating sum of the code can no longer exceed it.\<close>

theorem grants_are_never_overspent:
  assumes "ledger_grant g L = (Inr (), L')"
    and "\<forall>g'. GrantCall g' \<in> set cs \<longrightarrow> cg_id g' \<noteq> cg_id g"
    and "cg_max_bytes g \<noteq> - 1"
  shows "length (filter (\<lambda>d. dr_grant_id d = cg_id g) (receipts cs L')) \<le> unat (cg_max_calls g)
    \<and> (\<Sum>d \<leftarrow> filter (\<lambda>d. dr_grant_id d = cg_id g) (receipts cs L'). unat (dr_byte_count d))
        \<le> unat (cg_max_bytes g)
    \<and> (\<forall>d \<in> set (filter (\<lambda>d. dr_grant_id d = cg_id g) (receipts cs L')). within_scope g d)"
proof -
  let ?st = "\<lparr>gs_grant = g, gs_calls_used = 0, gs_bytes_used = 0, gs_revoked = False\<rparr>"
  have "led_grants L' (cg_id g) = Some ?st"
    using assms(1) by (auto simp: ledger_grant_def ledger_lock_def split: if_splits)
  from budget_from_state [OF this _ assms(2)] assms(3) show ?thesis by simp
qed

lemma revoked_stays:
  assumes "led_grants L x = Some st" "gs_revoked st"
    and "\<forall>g. GrantCall g \<in> set cs \<longrightarrow> cg_id g \<noteq> x"
  shows "receipts_under x (receipts cs L) = []"
  using assms
proof (induction cs arbitrary: L st)
  case (Cons c cs)
  obtain res L' where step: "run_ledger_call c L = (res, L')" by fastforce
  have new: "\<forall>g. c = GrantCall g \<longrightarrow> cg_id g \<noteq> x" using Cons.prems(3) by auto
  from step Cons.prems(1) new show ?case
  proof (cases rule: ledger_call_state)
    case kept
    with Cons.IH [OF kept(1)] Cons.prems step show ?thesis by (cases res) auto
  next
    case revoked
    with Cons.IH [OF revoked(1)] Cons.prems step show ?thesis by simp
  next
    case (spent r st')
    then show ?thesis using Cons.prems(2) by (simp add: spend_Inr)
  qed
qed simp

text \<open>A revocation is final: after a successful \<^verbatim>\<open>revoke\<close> the grant authorises nothing, whatever
  calls follow, unless a new grant takes its identifier.\<close>

lemma revoked_grants_disclose_nothing:
  assumes "ledger_revoke x L = (Inr (), L')"
    and "\<forall>g. GrantCall g \<in> set cs \<longrightarrow> cg_id g \<noteq> x"
  shows "filter (\<lambda>d. dr_grant_id d = x) (receipts cs L') = []"
proof -
  obtain st where "led_grants L' x = Some st" "gs_revoked st"
    using assms(1) by (auto simp: ledger_revoke_def ledger_lock_def split: if_splits option.splits)
  then show ?thesis using assms(2) by (rule revoked_stays)
qed

text \<open>With the largest byte budget the sum saturates below it: two disclosures of \<open>2 ^ 63\<close> bytes
  and more are authorised under a grant of \<open>2 ^ 64 - 1\<close> bytes.\<close>

lemma saturation_hides_overspending:
  "sat_add (2 ^ 63) (2 ^ 63 + 5) \<le> (- 1 :: u64)
   \<and> unat (2 ^ 63 :: u64) + unat (2 ^ 63 + 5 :: u64) > unat (- 1 :: u64)"
  by (simp add: unsigned_minus_1_eq_mask mask_eq_exp_minus_1)

section \<open>Concrete histories\<close>

definition sample_grant :: consent_grant where
  "sample_grant = \<lparr>cg_id = 1, cg_workspace_id = 2, cg_task_id = [], cg_request_digest = 3,
     cg_provider_id = [], cg_model_release_id = 4, cg_purpose = [], cg_artifact_digests = [5],
     cg_allowed_data_classes = [Data_Text], cg_max_bytes = 10, cg_max_calls = 2,
     cg_expires_at_unix_ms = 100\<rparr>"

definition sample_request :: "u64 \<Rightarrow> egress_request" where
  "sample_request n = \<lparr>eg_workspace_id = 2, eg_task_id = [], eg_request_digest = 3,
     eg_provider_id = [], eg_model_release_id = 4, eg_artifact_id = 6, eg_artifact_digest = 5,
     eg_data_class = Data_Text, eg_byte_count = n, eg_now_unix_ms = 50\<rparr>"

definition sample_ledger :: consent_ledger where
  "sample_ledger = \<lparr>led_poisoned = False, led_grants = Map.empty\<rparr>"

lemma sample_granted:
  "ledger_grant sample_grant sample_ledger = (Inr (), snd (ledger_grant sample_grant sample_ledger))"
  by (simp add: ledger_grant_def ledger_lock_def sample_ledger_def)

theorem grants_are_never_overspent_witness:
  "(\<Sum>d \<leftarrow> filter (\<lambda>d. dr_grant_id d = 1)
      (receipts [AuthorizeCall 1 (sample_request 7), AuthorizeCall 1 (sample_request 4)]
        (snd (ledger_grant sample_grant sample_ledger))). unat (dr_byte_count d)) \<le> 10"
  using grants_are_never_overspent [OF sample_granted,
      of "[AuthorizeCall 1 (sample_request 7), AuthorizeCall 1 (sample_request 4)]"]
  by (simp add: sample_grant_def)

theorem revoked_grants_disclose_nothing_witness:
  "filter (\<lambda>d. dr_grant_id d = 1)
     (receipts [AuthorizeCall 1 (sample_request 7)]
       (snd (ledger_revoke 1 (snd (ledger_grant sample_grant sample_ledger))))) = []"
proof -
  have "ledger_revoke 1 (snd (ledger_grant sample_grant sample_ledger))
      = (Inr (), snd (ledger_revoke 1 (snd (ledger_grant sample_grant sample_ledger))))"
    by (simp add: ledger_revoke_def ledger_grant_def ledger_lock_def sample_ledger_def sample_grant_def)
  from revoked_grants_disclose_nothing [OF this, of "[AuthorizeCall 1 (sample_request 7)]"]
  show ?thesis by (simp del: receipts.simps)
qed

end
