(* ===== verification/Execution_Store.thy ===== *)
theory Execution_Store
  imports Stored_Names
begin

text \<open>
  The execution store of \<^verbatim>\<open>crates/persistence/src/execution.rs\<close>: sessions, operations, the
  database journal, executor sessions and requests, rollback records, recovery assessments and
  retention. A table is the list of its rows in insertion order, \<open>update_where\<close> is one
  \<^verbatim>\<open>UPDATE .. SET .. WHERE\<close>, and a transaction that does not reach its commit leaves the
  store as it was. Columns hold decoded values; their text forms are the subject of
  \<^verbatim>\<open>Stored_Names\<close>. The JSON reader and SQLite's date functions are parameters.
\<close>

section \<open>Tables\<close>

record execution_row =
  er_id :: execution_id
  er_plan_id :: plan_id
  er_plan_digest :: ustring
  er_status :: organization_execution_status
  er_recovery_state :: execution_recovery_state
  er_journal_sequence :: int
  er_journal_chain_head :: "digest option"
  er_current_operation :: "ustring option"
  er_pause_requested :: bool
  er_cancel_requested :: bool
  er_applied_count :: nat
  er_blocked_count :: nat
  er_skipped_count :: nat
  er_failed_count :: nat
  er_rolled_back_count :: nat
  er_rollback_blocked_count :: nat
  er_rollback_failed_count :: nat
  er_rollback_available :: bool
  er_started_at :: "ustring option"
  er_completed_at :: "ustring option"
  er_rolled_back_at :: "ustring option"
  er_error_message :: "ustring option"

record journal_row =
  jw_event :: journal_event
  jw_created_at :: ustring

record request_row =
  rq_request_id :: ustring
  rq_session_id :: ustring
  rq_execution_id :: execution_id
  rq_operation_id :: operation_step_id
  rq_direction :: executor_request_direction
  rq_request_sequence :: u64
  rq_request_nonce :: digest
  rq_request_digest :: ustring
  rq_intent_event_sequence :: u64
  rq_intent_event_digest :: digest
  rq_state :: executor_request_state
  rq_response_digest :: "ustring option"
  rq_outcome_class :: "ustring option"
  rq_attempt_count :: "byte option"
  rq_error_class :: "ustring option"
  rq_prepared_at :: ustring
  rq_response_recorded_at :: "ustring option"
  rq_proof_recorded_at :: "ustring option"

record rollback_row =
  rb_execution_id :: execution_id
  rb_operation_id :: operation_step_id
  rb_rollback_order :: u32
  rb_source_relative_path :: ustring
  rb_destination_relative_path :: ustring
  rb_expected_fingerprint :: "file_fingerprint option"
  rb_prepared_at :: ustring

record recovery_row =
  rv_execution_id :: execution_id
  rv_recovery_state :: execution_recovery_state
  rv_not_started_count :: u64
  rv_applied_count :: u64
  rv_ambiguous_count :: u64
  rv_details_json :: ustring
  rv_assessed_at :: ustring
  rv_resolved_at :: "ustring option"

record execution_store =
  es_poisoned :: bool
  es_sessions :: "execution_row list"
  es_operations :: "execution_operation list"
  es_journal :: "journal_row list"
  es_executor_sessions :: "executor_session_identity list"
  es_requests :: "request_row list"
  es_rollbacks :: "rollback_row list"
  es_recoveries :: "recovery_row list"
  es_retentions :: "execution_retention_metadata list"

text \<open>The JSON reader of the sources, over an abstract type of values, and
  \<^verbatim>\<open>strftime(.., julianday(t) + 30)\<close> of SQLite, which is \<^verbatim>\<open>NULL\<close> for a text that is no time.\<close>

record 'j store_libs = libs +
  json_parse :: "ustring \<Rightarrow> 'j option"
  json_get :: "'j \<Rightarrow> ustring \<Rightarrow> 'j option"
  json_as_str :: "'j \<Rightarrow> ustring option"
  json_as_u64 :: "'j \<Rightarrow> u64 option"
  sql_plus_30_days :: "ustring \<Rightarrow> ustring option"

section \<open>Constraints\<close>

definition opt_length_le :: "nat \<Rightarrow> ustring option \<Rightarrow> bool" where
  "opt_length_le n t = (case t of None \<Rightarrow> True | Some s \<Rightarrow> length s \<le> n)"

definition execution_row_check :: "execution_row \<Rightarrow> bool" where
  "execution_row_check r \<longleftrightarrow>
     opt_length_le 4096 (er_current_operation r) \<and> opt_length_le 2048 (er_error_message r)
     \<and> er_journal_sequence r \<ge> - 1"

text \<open>The unique index over the active executions has at most one entry.\<close>

definition one_active :: "execution_row list \<Rightarrow> bool" where
  "one_active rows \<longleftrightarrow> length (filter (\<lambda>r. blocks_new_execution (er_status r)) rows) \<le> 1"

text \<open>
  What an update of an operation can violate. The columns that an update leaves alone satisfy their
  constraints already; the fingerprints are stored as JSON, whose length is not modelled.
\<close>

definition operation_row_check :: "execution_operation \<Rightarrow> bool" where
  "operation_row_check r \<longleftrightarrow>
     opt_length_le 128 (xop_error_code r) \<and> opt_length_le 2048 (xop_error_message r)"

fun trigger_allows :: "executor_request_state \<Rightarrow> executor_request_state \<Rightarrow> bool" where
  "trigger_allows Req_IntentDurable new \<longleftrightarrow>
     new \<in> {Req_AcknowledgedSuccess, Req_ProvenNotApplied, Req_RecoveryRequired,
            Req_ProvenNotStarted, Req_ProvenApplied, Req_Ambiguous}"
| "trigger_allows Req_AcknowledgedSuccess new \<longleftrightarrow>
     new \<in> {Req_ProvenApplied, Req_RecoveryRequired, Req_Ambiguous}"
| "trigger_allows Req_RecoveryRequired new \<longleftrightarrow>
     new \<in> {Req_ProvenNotStarted, Req_ProvenApplied, Req_Ambiguous}"
| "trigger_allows Req_ProvenNotApplied new \<longleftrightarrow>
     new \<in> {Req_RecoveryRequired, Req_ProvenNotStarted, Req_Ambiguous}"
| "trigger_allows Req_ProvenNotStarted new \<longleftrightarrow> new = Req_Ambiguous"
| "trigger_allows Req_ProvenApplied new \<longleftrightarrow> new = Req_Ambiguous"
| "trigger_allows Req_Ambiguous new \<longleftrightarrow> False"

definition outcome_classes :: "ustring set" where
  "outcome_classes =
     {lit ''success'', lit ''proven_not_applied'', lit ''recovery_required'',
      lit ''protocol_refusal'', lit ''transport_ambiguous''}"

definition request_row_check :: "request_row \<Rightarrow> bool" where
  "request_row_check r \<longleftrightarrow>
     length (rq_request_id r) = 64 \<and> rq_request_sequence r > 0
     \<and> length (rq_request_digest r) = 64
     \<and> (case rq_response_digest r of None \<Rightarrow> True | Some d \<Rightarrow> length d = 64)
     \<and> (case rq_outcome_class r of None \<Rightarrow> True | Some c \<Rightarrow> c \<in> outcome_classes)
     \<and> (case rq_attempt_count r of None \<Rightarrow> True | Some n \<Rightarrow> 1 \<le> n \<and> n \<le> 3)
     \<and> (case rq_error_class r of None \<Rightarrow> True | Some c \<Rightarrow> 1 \<le> length c \<and> length c \<le> 128)
     \<and> (rq_state r = Req_IntentDurable \<longrightarrow>
          rq_response_digest r = None \<and> rq_response_recorded_at r = None)
     \<and> (rq_response_digest r = None) = (rq_response_recorded_at r = None)"

definition retention_row_check :: "execution_retention_metadata \<Rightarrow> bool" where
  "retention_row_check r \<longleftrightarrow>
     1 \<le> length (xrm_journal_retention_reason r) \<and> length (xrm_journal_retention_reason r) \<le> 256
     \<and> 1 \<le> length (xrm_rollback_retention_reason r) \<and> length (xrm_rollback_retention_reason r) \<le> 256
     \<and> 1 \<le> length (xrm_cleanup_eligibility_reason r)
     \<and> length (xrm_cleanup_eligibility_reason r) \<le> 256
     \<and> (xrm_active_recovery r \<longrightarrow>
          xrm_cleanup_eligible_at r = None \<and> \<not> xrm_rollback_eligible r)"

section \<open>Statements\<close>

text \<open>
  One \<^verbatim>\<open>UPDATE\<close>: the number of rows it touched and the new table, or a failure when a
  changed row, given with the row it replaces, is refused.
\<close>

definition update_where ::
  "('r \<Rightarrow> 'r \<Rightarrow> bool) \<Rightarrow> ('r \<Rightarrow> bool) \<Rightarrow> ('r \<Rightarrow> 'r) \<Rightarrow> 'r list \<Rightarrow> persistence_error + (nat \<times> 'r list)" where
  "update_where chk guard f rows =
     (if list_all (\<lambda>r. guard r \<longrightarrow> chk r (f r)) rows
      then Inr (length (filter guard rows), map (\<lambda>r. if guard r then f r else r) rows)
      else Inl SqlError)"

definition update_sessions ::
  "(execution_row \<Rightarrow> bool) \<Rightarrow> (execution_row \<Rightarrow> execution_row) \<Rightarrow> execution_store
    \<Rightarrow> persistence_error + (nat \<times> execution_store)" where
  "update_sessions guard f st =
     try_bind (update_where (\<lambda>_. execution_row_check) guard f (es_sessions st)) (\<lambda>(n, rows).
       if one_active rows \<or> n = 0 then Inr (n, st\<lparr>es_sessions := rows\<rparr>) else Inl SqlError)"

definition update_operations ::
  "(execution_operation \<Rightarrow> bool) \<Rightarrow> (execution_operation \<Rightarrow> execution_operation) \<Rightarrow> execution_store
    \<Rightarrow> persistence_error + (nat \<times> execution_store)" where
  "update_operations guard f st =
     try_bind (update_where (\<lambda>_. operation_row_check) guard f (es_operations st)) (\<lambda>(n, rows).
       Inr (n, st\<lparr>es_operations := rows\<rparr>))"

text \<open>The trigger fires only when the state changes.\<close>

definition update_requests ::
  "(request_row \<Rightarrow> bool) \<Rightarrow> (request_row \<Rightarrow> request_row) \<Rightarrow> execution_store
    \<Rightarrow> persistence_error + (nat \<times> execution_store)" where
  "update_requests guard f st =
     try_bind (update_where
         (\<lambda>old new. request_row_check new
            \<and> (rq_state new \<noteq> rq_state old \<longrightarrow> trigger_allows (rq_state old) (rq_state new)))
         guard f (es_requests st)) (\<lambda>(n, rows).
       Inr (n, st\<lparr>es_requests := rows\<rparr>))"

text \<open>A transaction that commits at its end; an early return drops it and rolls back.\<close>

definition in_transaction ::
  "(execution_store \<Rightarrow> persistence_error + ('a \<times> execution_store)) \<Rightarrow> execution_store
    \<Rightarrow> (persistence_error + 'a) \<times> execution_store" where
  "in_transaction body st =
     (if es_poisoned st then (Inl WriterPoisoned, st)
      else (case body st of Inl e \<Rightarrow> (Inl e, st) | Inr (x, st') \<Rightarrow> (Inr x, st')))"

text \<open>\<^verbatim>\<open>to_sql_u64\<close> and the rows a query by execution finds\<close>

definition to_sql_u64 :: "u64 \<Rightarrow> persistence_error + int" where
  "to_sql_u64 value = (if uint value > i64_max then Inl NumericOverflow else Inr (uint value))"

definition session_row :: "execution_store \<Rightarrow> execution_id \<Rightarrow> execution_row option" where
  "session_row st x = find (\<lambda>r. er_id r = x) (es_sessions st)"

definition journal_of :: "execution_store \<Rightarrow> execution_id \<Rightarrow> journal_event list" where
  "journal_of st x =
     sort_key (\<lambda>e. unat (je_sequence e))
       (filter (\<lambda>e. je_execution_id e = x) (map jw_event (es_journal st)))"

section \<open>Executor requests\<close>

definition executor_request_state :: "execution_store \<Rightarrow> ustring \<Rightarrow> persistence_error + executor_request_state" where
  "executor_request_state st request =
     (case find (\<lambda>r. rq_request_id r = request) (es_requests st) of
        None \<Rightarrow> Inl NotFound | Some r \<Rightarrow> Inr (rq_state r))"

definition transition_executor_request_state ::
  "execution_store \<Rightarrow> ustring \<Rightarrow> executor_request_state \<Rightarrow> ustring \<Rightarrow> bool
    \<Rightarrow> persistence_error + execution_store" where
  "transition_executor_request_state st request next recorded_at proof =
     try_bind (executor_request_state st request) (\<lambda>current.
       if \<not> may_transition_to current next then Inl InvalidExecution
       else try_bind (update_requests
           (\<lambda>r. rq_request_id r = request \<and> rq_state r = current)
           (\<lambda>r. r\<lparr>rq_state := next,
               rq_proof_recorded_at :=
                 (if proof then (case rq_proof_recorded_at r of None \<Rightarrow> Some recorded_at | t \<Rightarrow> t)
                  else rq_proof_recorded_at r)\<rparr>) st) (\<lambda>(changed, st').
         if changed \<noteq> 1 then Inl InvalidExecution else Inr st'))"

definition transition_executor_request_proof ::
  "ustring \<Rightarrow> executor_request_state \<Rightarrow> ustring \<Rightarrow> execution_store
    \<Rightarrow> (persistence_error + unit) \<times> execution_store" where
  "transition_executor_request_proof request proof_state recorded_at st =
     (if proof_state \<notin> {Req_ProvenNotStarted, Req_ProvenApplied, Req_Ambiguous, Req_RecoveryRequired}
      then (Inl InvalidExecution, st)
      else in_transaction (\<lambda>st.
        try_bind (transition_executor_request_state st request proof_state recorded_at True)
          (\<lambda>st'. Inr ((), st'))) st)"

definition record_executor_response ::
  "ustring \<Rightarrow> ustring \<Rightarrow> ustring \<Rightarrow> byte option \<Rightarrow> ustring option \<Rightarrow> executor_request_state \<Rightarrow> ustring
    \<Rightarrow> execution_store \<Rightarrow> (persistence_error + unit) \<times> execution_store" where
  "record_executor_response request response_digest outcome attempts err next recorded_at st =
     (if length (utf8_bytes request) \<noteq> 64
         \<or> length (utf8_bytes response_digest) \<noteq> 64
         \<or> outcome \<notin> outcome_classes
         \<or> (case attempts of None \<Rightarrow> False | Some n \<Rightarrow> \<not> (1 \<le> n \<and> n \<le> 3))
         \<or> (case err of None \<Rightarrow> False | Some c \<Rightarrow> c = [] \<or> length (utf8_bytes c) > 128)
         \<or> next \<notin> {Req_AcknowledgedSuccess, Req_ProvenNotApplied, Req_RecoveryRequired}
      then (Inl InvalidExecution, st)
      else in_transaction (\<lambda>st.
        try_bind (executor_request_state st request) (\<lambda>current.
        if \<not> may_transition_to current next then Inl InvalidExecution
        else try_bind (update_requests
            (\<lambda>r. rq_request_id r = request \<and> rq_state r = current \<and> rq_response_digest r = None)
            (\<lambda>r. r\<lparr>rq_state := next, rq_response_digest := Some response_digest,
                rq_outcome_class := Some outcome, rq_attempt_count := attempts,
                rq_error_class := err, rq_response_recorded_at := Some recorded_at\<rparr>) st)
          (\<lambda>(changed, st'). if changed \<noteq> 1 then Inl InvalidExecution else Inr ((), st')))) st)"

text \<open>
  \<^verbatim>\<open>INSERT .. SELECT\<close>: one row when the execution has this plan and digest, refused by a
  session identifier already present or by a length.
\<close>

definition executor_session_check :: "executor_session_identity \<Rightarrow> bool" where
  "executor_session_check i \<longleftrightarrow>
     length (xsi_session_id i) = 64 \<and> length (xsi_plan_digest_hex i) = 64
     \<and> length (xsi_worker_nonce_hash_hex i) = 64 \<and> length (xsi_coordinator_nonce_hash_hex i) = 64
     \<and> (case xsi_response_nonce_hash_hex i of None \<Rightarrow> True | Some h \<Rightarrow> length h = 64)
     \<and> xsi_coordinator_pid i > 0 \<and> xsi_child_pid i \<noteq> Some 0 \<and> xsi_opened_at_unix_ms i \<ge> 0"

definition persist_executor_session ::
  "executor_session_identity \<Rightarrow> execution_store \<Rightarrow> (persistence_error + unit) \<times> execution_store" where
  "persist_executor_session i st =
     (if length (utf8_bytes (xsi_session_id i)) \<noteq> 64
         \<or> length (utf8_bytes (xsi_plan_digest_hex i)) \<noteq> 64
         \<or> xsi_coordinator_pid i = 0
         \<or> xsi_child_pid i = Some 0
         \<or> length (utf8_bytes (xsi_worker_nonce_hash_hex i)) \<noteq> 64
         \<or> length (utf8_bytes (xsi_coordinator_nonce_hash_hex i)) \<noteq> 64
         \<or> (case xsi_response_nonce_hash_hex i of None \<Rightarrow> False | Some h \<Rightarrow> length (utf8_bytes h) \<noteq> 64)
         \<or> xsi_opened_at_unix_ms i < 0
      then (Inl InvalidExecution, st)
      else if es_poisoned st then (Inl WriterPoisoned, st)
      else (case find (\<lambda>r. er_id r = xsi_execution_id i \<and> er_plan_id r = xsi_plan_id i
                         \<and> er_plan_digest r = xsi_plan_digest_hex i) (es_sessions st) of
              None \<Rightarrow> (Inl InvalidExecution, st)
            | Some _ \<Rightarrow>
                if \<not> executor_session_check i
                   \<or> xsi_session_id i \<in> set (map xsi_session_id (es_executor_sessions st))
                then (Inl SqlError, st)
                else (Inr (), st\<lparr>es_executor_sessions := es_executor_sessions st @ [i]\<rparr>)))"

text \<open>The part of \<^verbatim>\<open>persist_execution_event_inner\<close> that stores a request with its intent event.\<close>

definition payload_names_request :: "('j, 'z) store_libs_scheme \<Rightarrow> 'j \<Rightarrow> executor_request_identity \<Rightarrow> persistence_error + unit" where
  "payload_names_request L payload q =
     try_bind (ok_or (json_get L payload (lit ''executor_request'')) InvalidExecution) (\<lambda>stored.
       let str = (\<lambda>name. case json_get L stored name of None \<Rightarrow> None | Some v \<Rightarrow> json_as_str L v);
           num = (\<lambda>name. case json_get L stored name of None \<Rightarrow> None | Some v \<Rightarrow> json_as_u64 L v)
       in if str (lit ''request_id'') \<noteq> Some (xri_request_id q)
             \<or> str (lit ''session_id'') \<noteq> Some (xri_session_id q)
             \<or> num (lit ''request_sequence'') \<noteq> Some (xri_request_sequence q)
             \<or> str (lit ''request_digest'') \<noteq> Some (xri_request_digest_hex q)
          then Inl InvalidExecution else Inr ())"

definition request_of :: "executor_request_identity \<Rightarrow> journal_event \<Rightarrow> ustring \<Rightarrow> request_row" where
  "request_of q e created_at =
     \<lparr>rq_request_id = xri_request_id q, rq_session_id = xri_session_id q,
      rq_execution_id = xri_execution_id q, rq_operation_id = xri_operation_id q,
      rq_direction = xri_direction q, rq_request_sequence = xri_request_sequence q,
      rq_request_nonce = xri_request_nonce q, rq_request_digest = xri_request_digest_hex q,
      rq_intent_event_sequence = je_sequence e, rq_intent_event_digest = je_event_digest e,
      rq_state = Req_IntentDurable, rq_response_digest = None, rq_outcome_class = None,
      rq_attempt_count = None, rq_error_class = None, rq_prepared_at = created_at,
      rq_response_recorded_at = None, rq_proof_recorded_at = None\<rparr>"

text \<open>The keys of the request table and its references to the other tables.\<close>

definition request_insertable :: "execution_store \<Rightarrow> request_row \<Rightarrow> bool" where
  "request_insertable st r \<longleftrightarrow>
     request_row_check r
     \<and> rq_request_id r \<notin> set (map rq_request_id (es_requests st))
     \<and> list_all (\<lambda>s. \<not> (rq_session_id s = rq_session_id r
           \<and> (rq_request_sequence s = rq_request_sequence r \<or> rq_request_nonce s = rq_request_nonce r)))
         (es_requests st)
     \<and> list_ex (\<lambda>i. xsi_session_id i = rq_session_id r \<and> xsi_execution_id i = rq_execution_id r)
         (es_executor_sessions st)
     \<and> list_ex (\<lambda>p. xop_execution_id p = rq_execution_id r \<and> xop_id p = rq_operation_id r)
         (es_operations st)
     \<and> list_ex (\<lambda>w. je_execution_id (jw_event w) = rq_execution_id r
           \<and> je_sequence (jw_event w) = rq_intent_event_sequence r) (es_journal st)"

definition insert_request_intent ::
  "('j, 'z) store_libs_scheme \<Rightarrow> journal_event \<Rightarrow> ustring \<Rightarrow> executor_request_identity \<Rightarrow> ustring
    \<Rightarrow> execution_store \<Rightarrow> persistence_error + execution_store" where
  "insert_request_intent L e data q created_at st =
     (if xri_execution_id q \<noteq> je_execution_id e
         \<or> je_step_id e \<noteq> Some (xri_operation_id q)
         \<or> je_kind e \<notin> {IntentDurable, RollbackIntent}
         \<or> length (utf8_bytes (xri_request_id q)) \<noteq> 64
         \<or> length (utf8_bytes (xri_session_id q)) \<noteq> 64
         \<or> length (utf8_bytes (xri_request_digest_hex q)) \<noteq> 64
         \<or> xri_request_sequence q = 0
         \<or> xri_request_nonce q = 0
      then Inl InvalidExecution
      else try_bind (ok_or (json_parse L data) InvalidExecution) (\<lambda>payload.
      try_bind (payload_names_request L payload q) (\<lambda>_.
      try_bind (ok_or (find (\<lambda>i. xsi_session_id i = xri_session_id q
                           \<and> xsi_execution_id i = xri_execution_id q) (es_executor_sessions st))
                  SqlError) (\<lambda>session.
      if session_purpose_name (xsi_purpose session) \<noteq> request_direction_name (xri_direction q)
      then Inl InvalidExecution
      else
        (let prior = filter (\<lambda>r. rq_execution_id r = xri_execution_id q
                         \<and> rq_operation_id r = xri_operation_id q
                         \<and> rq_direction r = xri_direction q) (es_requests st)
         in if (prior \<noteq> [] \<and> xri_direction q = Dir_Forward)
               \<or> list_ex (\<lambda>r. rq_state r \<notin> {Req_ProvenNotApplied, Req_ProvenNotStarted}) prior
            then Inl InvalidExecution
            else try_bind (to_sql_u64 (xri_request_sequence q)) (\<lambda>_.
            try_bind (to_sql_u64 (je_sequence e)) (\<lambda>_.
            if request_insertable st (request_of q e created_at)
            then Inr (st\<lparr>es_requests := es_requests st @ [request_of q e created_at]\<rparr>)
            else Inl SqlError)))))))"

section \<open>Counters, rollback records and retention\<close>

definition count_ops ::
  "execution_store \<Rightarrow> execution_id \<Rightarrow> execution_operation_status set \<Rightarrow> execution_operation_kind set \<Rightarrow> nat" where
  "count_ops st x statuses ignored =
     length (filter (\<lambda>p. xop_execution_id p = x \<and> xop_status p \<in> statuses \<and> xop_kind p \<notin> ignored)
       (es_operations st))"

definition uncounted_kinds :: "execution_operation_kind set" where
  "uncounted_kinds = {Xk_CreateDirectory, Xk_RemoveDirectoryIfEmpty, Xk_InternalStage}"

definition refresh_execution_counts :: "execution_id \<Rightarrow> execution_store \<Rightarrow> persistence_error + execution_store" where
  "refresh_execution_counts x st =
     try_bind (update_sessions (\<lambda>r. er_id r = x)
         (\<lambda>r. r\<lparr>er_applied_count := count_ops st x {Op_Applied, Op_Recovered} uncounted_kinds,
             er_blocked_count := count_ops st x {Op_Blocked, Op_Stale} {},
             er_skipped_count := count_ops st x {Op_Skipped} {},
             er_failed_count := count_ops st x {Op_Failed} {},
             er_rolled_back_count := count_ops st x {Op_RolledBack} uncounted_kinds,
             er_rollback_blocked_count := count_ops st x {Op_RollbackBlocked} {},
             er_rollback_failed_count := count_ops st x {Op_RollbackFailed} {},
             er_rollback_available :=
               (if er_status r \<in> {St_RolledBack, St_RollbackPartial, St_RecoveryAmbiguous} then False
                else count_ops st x {Op_Applied, Op_Recovered} {} > 0)\<rparr>) st)
       (\<lambda>(_, st'). Inr st')"

text \<open>\<^verbatim>\<open>INSERT OR IGNORE .. SELECT\<close>: a record that exists, or that its table refuses, is left out.\<close>

definition rollback_insertable :: "execution_store \<Rightarrow> rollback_row \<Rightarrow> bool" where
  "rollback_insertable st r \<longleftrightarrow>
     list_all (\<lambda>s. \<not> (rb_execution_id s = rb_execution_id r
           \<and> (rb_operation_id s = rb_operation_id r \<or> rb_rollback_order s = rb_rollback_order r)))
       (es_rollbacks st)
     \<and> 1 \<le> length (rb_source_relative_path r) \<and> length (rb_source_relative_path r) \<le> 4096
     \<and> 1 \<le> length (rb_destination_relative_path r) \<and> length (rb_destination_relative_path r) \<le> 4096"

definition insert_rollback_record ::
  "execution_id \<Rightarrow> operation_step_id \<Rightarrow> ustring \<Rightarrow> execution_store \<Rightarrow> execution_store" where
  "insert_rollback_record x step prepared_at st =
     (case find (\<lambda>p. xop_execution_id p = x \<and> xop_id p = step) (es_operations st) of
        None \<Rightarrow> st
      | Some p \<Rightarrow>
          (let r = \<lparr>rb_execution_id = x, rb_operation_id = step, rb_rollback_order = xop_sequence p,
                    rb_source_relative_path = xop_destination_relative_path p,
                    rb_destination_relative_path =
                      (case xop_source_relative_path p of None \<Rightarrow> xop_destination_relative_path p
                       | Some s \<Rightarrow> s),
                    rb_expected_fingerprint = xop_post_fingerprint p, rb_prepared_at = prepared_at\<rparr>
           in if rollback_insertable st r then st\<lparr>es_rollbacks := es_rollbacks st @ [r]\<rparr> else st))"

definition terminal_statuses :: "organization_execution_status set" where
  "terminal_statuses =
     {St_Completed, St_Partial, St_Failed, St_Cancelled, St_RolledBack, St_RollbackPartial}"

definition or_else :: "'a option \<Rightarrow> 'a option \<Rightarrow> 'a option" where
  "or_else a b = (case a of None \<Rightarrow> b | Some x \<Rightarrow> Some x)"

text \<open>Every right-hand side of the statement reads the row as it was before the update.\<close>

definition refreshed_retention ::
  "(ustring \<Rightarrow> ustring option) \<Rightarrow> execution_row option \<Rightarrow> ustring \<Rightarrow> execution_retention_metadata
    \<Rightarrow> execution_retention_metadata" where
  "refreshed_retention plus30 session updated_at r =
     (let final = (case session of None \<Rightarrow> False | Some s \<Rightarrow> er_status s \<in> terminal_statuses);
          recovering = (case session of None \<Rightarrow> False
            | Some s \<Rightarrow> er_recovery_state s \<in> {Rec_RecoveryRequired, Rec_RecoveryAmbiguous});
          reversible = (case session of None \<Rightarrow> False | Some s \<Rightarrow> er_rollback_available s)
      in r\<lparr>xrm_finalized_at :=
             (if final then or_else (xrm_finalized_at r) (Some updated_at) else xrm_finalized_at r),
           xrm_minimum_retain_until :=
             (if final then or_else (xrm_minimum_retain_until r) (plus30 updated_at)
              else xrm_minimum_retain_until r),
           xrm_active_recovery := recovering,
           xrm_rollback_eligible := (if recovering then False else reversible),
           xrm_journal_retention_reason :=
             (if recovering then lit ''recovery_evidence_required''
              else if reversible then lit ''rollback_evidence_required''
              else lit ''execution_audit_history''),
           xrm_rollback_retention_reason :=
             (if reversible then lit ''verified_applied_operations''
              else lit ''no_rollback_eligible_operations''),
           xrm_cleanup_eligible_at :=
             (if recovering then None
              else if reversible then None
              else if xrm_finalized_at r \<noteq> None
              then or_else (xrm_minimum_retain_until r) (plus30 updated_at)
              else None),
           xrm_cleanup_eligibility_reason :=
             (if recovering then lit ''active_recovery_blocks_cleanup''
              else if reversible then lit ''rollback_eligibility_blocks_cleanup''
              else if xrm_finalized_at r = None then lit ''execution_not_finalized''
              else lit ''eligible_after_minimum_retention''),
           xrm_updated_at := updated_at\<rparr>)"

definition refresh_execution_retention ::
  "('j, 'z) store_libs_scheme \<Rightarrow> execution_id \<Rightarrow> ustring \<Rightarrow> execution_store
    \<Rightarrow> persistence_error + execution_store" where
  "refresh_execution_retention L x updated_at st =
     try_bind (update_where (\<lambda>_. retention_row_check) (\<lambda>r. xrm_execution_id r = x)
         (refreshed_retention (sql_plus_30_days L) (session_row st x) updated_at) (es_retentions st))
       (\<lambda>(_, rows). Inr (st\<lparr>es_retentions := rows\<rparr>))"

section \<open>Persisting a journal event\<close>

definition session_after_event ::
  "execution_store \<Rightarrow> journal_event \<Rightarrow> organization_execution_status option \<Rightarrow> ustring option
    \<Rightarrow> ustring \<Rightarrow> execution_row \<Rightarrow> execution_row" where
  "session_after_event st e status error_message created_at r =
     r\<lparr>er_journal_sequence := uint (je_sequence e),
       er_journal_chain_head := Some (je_event_digest e),
       er_status := (case status of None \<Rightarrow> er_status r | Some s \<Rightarrow> s),
       er_recovery_state :=
         (if status \<in> Some ` terminal_statuses then Rec_RecoveryNotRequired else er_recovery_state r),
       er_current_operation :=
         (if status = Some St_Running \<and> je_step_id e \<noteq> None
          then map_option xop_destination_relative_path
                 (find (\<lambda>p. xop_execution_id p = je_execution_id e \<and> Some (xop_id p) = je_step_id e)
                   (es_operations st))
          else if status \<in> Some ` (terminal_statuses \<union>
                 {St_Paused, St_RecoveryRequired, St_RecoveryAvailable, St_RecoveryAmbiguous})
          then None else er_current_operation r),
       er_error_message := or_else error_message (er_error_message r),
       er_started_at :=
         (if status = Some St_Running then or_else (er_started_at r) (Some created_at)
          else er_started_at r),
       er_completed_at :=
         (if status \<in> Some ` {St_Completed, St_Partial, St_Failed, St_Cancelled}
          then Some created_at else er_completed_at r),
       er_rolled_back_at :=
         (if status \<in> Some ` {St_RolledBack, St_RollbackPartial} then Some created_at
          else er_rolled_back_at r)\<rparr>"

definition operation_after_event ::
  "execution_operation_status option \<Rightarrow> file_fingerprint option \<Rightarrow> ustring option \<Rightarrow> ustring option
    \<Rightarrow> ustring \<Rightarrow> execution_operation \<Rightarrow> execution_operation" where
  "operation_after_event status fingerprint error_code error_message created_at p =
     p\<lparr>xop_status := (case status of None \<Rightarrow> xop_status p | Some s \<Rightarrow> s),
       xop_post_fingerprint := or_else fingerprint (xop_post_fingerprint p),
       xop_error_code := or_else error_code (xop_error_code p),
       xop_error_message := or_else error_message (xop_error_message p),
       xop_started_at :=
         (if status \<in> {Some Op_Running, Some Op_RollingBack}
          then or_else (xop_started_at p) (Some created_at) else xop_started_at p),
       xop_completed_at :=
         (if status \<in> {Some Op_Applied, Some Op_Failed, Some Op_Skipped, Some Op_Recovered}
          then Some created_at else xop_completed_at p),
       xop_rolled_back_at :=
         (if status = Some Op_RolledBack then Some created_at else xop_rolled_back_at p)\<rparr>"

text \<open>The journal row, with its primary key, its reference to an operation and its length.\<close>

definition insert_journal_row ::
  "journal_event \<Rightarrow> ustring \<Rightarrow> ustring \<Rightarrow> execution_store \<Rightarrow> persistence_error + execution_store" where
  "insert_journal_row e data created_at st =
     (if list_ex (\<lambda>w. je_execution_id (jw_event w) = je_execution_id e
              \<and> je_sequence (jw_event w) = je_sequence e) (es_journal st)
         \<or> (case je_step_id e of None \<Rightarrow> False
             | Some step \<Rightarrow> \<not> list_ex (\<lambda>p. xop_id p = step) (es_operations st))
         \<or> length data > 16777216
      then Inl SqlError
      else Inr (st\<lparr>es_journal := es_journal st @ [\<lparr>jw_event = e, jw_created_at = created_at\<rparr>]\<rparr>))"

definition update_step_of_event ::
  "journal_event \<Rightarrow> execution_operation_status option \<Rightarrow> file_fingerprint option \<Rightarrow> ustring option
    \<Rightarrow> ustring option \<Rightarrow> ustring \<Rightarrow> execution_store \<Rightarrow> persistence_error + execution_store" where
  "update_step_of_event e status fingerprint error_code error_message created_at st =
     (case je_step_id e of
        None \<Rightarrow> Inr st
      | Some step \<Rightarrow>
          try_bind (update_operations
              (\<lambda>p. xop_execution_id p = je_execution_id e \<and> xop_id p = step)
              (operation_after_event status fingerprint error_code error_message created_at) st)
            (\<lambda>(changed, st1).
          if changed \<noteq> 1 then Inl InvalidExecution
          else if status \<in> {Some Op_Applied, Some Op_Recovered}
          then Inr (insert_rollback_record (je_execution_id e) step created_at st1)
          else Inr st1))"

definition resolve_recovery :: "execution_id \<Rightarrow> ustring \<Rightarrow> execution_store \<Rightarrow> execution_store" where
  "resolve_recovery x resolved_at st =
     st\<lparr>es_recoveries := map (\<lambda>r. if rv_execution_id r = x
        then r\<lparr>rv_recovery_state := Rec_RecoveryNotRequired, rv_resolved_at := Some resolved_at\<rparr>
        else r) (es_recoveries st)\<rparr>"

record event_update =
  eu_operation_status :: "execution_operation_status option"
  eu_session_status :: "organization_execution_status option"
  eu_post_fingerprint :: "file_fingerprint option"
  eu_error_code :: "ustring option"
  eu_error_message :: "ustring option"
  eu_created_at :: ustring
  eu_request_intent :: "executor_request_identity option"
  eu_request_proof :: "(ustring \<times> executor_request_state) option"

definition persist_event_body ::
  "('j, 'z) store_libs_scheme \<Rightarrow> journal_event \<Rightarrow> ustring \<Rightarrow> event_update \<Rightarrow> execution_store
    \<Rightarrow> persistence_error + (unit \<times> execution_store)" where
  "persist_event_body L e data u st =
     try_bind (ok_or (session_row st (je_execution_id e)) SqlError) (\<lambda>session.
     try_bind (to_sql_u64 (je_sequence e)) (\<lambda>sequence.
     if sequence \<noteq> sat_add_i64 (er_journal_sequence session) 1
        \<or> \<not> event_verify L e (er_journal_chain_head session)
     then Inl InvalidExecution
     else
       try_bind (insert_journal_row e data (eu_created_at u) st) (\<lambda>st1.
       try_bind (case eu_request_intent u of
           None \<Rightarrow> Inr st1
         | Some q \<Rightarrow> insert_request_intent L e data q (eu_created_at u) st1) (\<lambda>st2.
       try_bind (update_sessions (\<lambda>r. er_id r = je_execution_id e)
           (session_after_event st2 e (eu_session_status u) (eu_error_message u) (eu_created_at u)) st2)
         (\<lambda>(_, st3).
       let st4 = (if eu_session_status u \<in> Some ` terminal_statuses
                  then resolve_recovery (je_execution_id e) (eu_created_at u) st3 else st3)
       in try_bind (update_step_of_event e (eu_operation_status u) (eu_post_fingerprint u)
            (eu_error_code u) (eu_error_message u) (eu_created_at u) st4) (\<lambda>st5.
       try_bind (refresh_execution_counts (je_execution_id e) st5) (\<lambda>st6.
       try_bind (case eu_request_proof u of
           None \<Rightarrow> Inr st6
         | Some (request, proof_state) \<Rightarrow>
             transition_executor_request_state st6 request proof_state (eu_created_at u) True) (\<lambda>st7.
       try_bind (refresh_execution_retention L (je_execution_id e) (eu_created_at u) st7) (\<lambda>st8.
       Inr ((), st8))))))))))"

definition persist_execution_event ::
  "('j, 'z) store_libs_scheme \<Rightarrow> journal_event \<Rightarrow> ustring \<Rightarrow> event_update \<Rightarrow> execution_store
    \<Rightarrow> (persistence_error + unit) \<times> execution_store" where
  "persist_execution_event L e data u st =
     (if json_parse L data = None \<or> je_payload e \<noteq> utf8_bytes data
         \<or> je_payload_digest e \<noteq> blake3 L (utf8_bytes data)
      then (Inl InvalidExecution, st)
      else in_transaction (persist_event_body L e data u) st)"

section \<open>Session control\<close>

text \<open>An \<^verbatim>\<open>UPDATE\<close> outside a transaction that answers whether it changed exactly one row.\<close>

definition control_update ::
  "(execution_row \<Rightarrow> bool) \<Rightarrow> (execution_row \<Rightarrow> execution_row) \<Rightarrow> execution_store
    \<Rightarrow> (persistence_error + bool) \<times> execution_store" where
  "control_update guard f =
     in_transaction (\<lambda>st. try_bind (update_sessions guard f st) (\<lambda>(changed, st'). Inr (changed = 1, st')))"

definition interrupted_message :: ustring where
  "interrupted_message = lit ''Execution was interrupted before a durable terminal state.''"

definition mark_interrupted_executions_for_recovery ::
  "execution_store \<Rightarrow> (persistence_error + nat) \<times> execution_store" where
  "mark_interrupted_executions_for_recovery =
     in_transaction (update_sessions (\<lambda>r. er_status r \<in> {St_Running, St_RollingBack})
       (\<lambda>r. r\<lparr>er_status := St_RecoveryRequired, er_recovery_state := Rec_RecoveryRequired,
           er_error_message := or_else (er_error_message r) (Some interrupted_message)\<rparr>))"

definition mark_execution_recovery_required ::
  "execution_id \<Rightarrow> ustring \<Rightarrow> execution_store \<Rightarrow> (persistence_error + bool) \<times> execution_store" where
  "mark_execution_recovery_required x message =
     control_update (\<lambda>r. er_id r = x \<and> er_status r \<in> {St_Running, St_RollingBack})
       (\<lambda>r. r\<lparr>er_status := St_RecoveryRequired, er_recovery_state := Rec_RecoveryRequired,
           er_current_operation := None, er_error_message := Some (take 2048 message)\<rparr>)"

definition set_execution_control ::
  "execution_id \<Rightarrow> bool \<Rightarrow> bool \<Rightarrow> execution_store \<Rightarrow> (persistence_error + bool) \<times> execution_store" where
  "set_execution_control x pause cancel =
     control_update (\<lambda>r. er_id r = x \<and> er_status r = St_Running)
       (\<lambda>r. r\<lparr>er_pause_requested := (pause \<or> er_pause_requested r),
           er_cancel_requested := (cancel \<or> er_cancel_requested r)\<rparr>)"

definition request_execution_pause ::
  "execution_id \<Rightarrow> execution_store \<Rightarrow> (persistence_error + bool) \<times> execution_store" where
  "request_execution_pause x = set_execution_control x True False"

definition request_execution_cancel ::
  "execution_id \<Rightarrow> execution_store \<Rightarrow> (persistence_error + bool) \<times> execution_store" where
  "request_execution_cancel x = set_execution_control x False True"

definition clear_execution_pause ::
  "execution_id \<Rightarrow> execution_store \<Rightarrow> (persistence_error + unit) \<times> execution_store" where
  "clear_execution_pause x =
     in_transaction (\<lambda>st.
       try_bind (update_sessions (\<lambda>r. er_id r = x \<and> er_status r = St_Paused)
           (\<lambda>r. r\<lparr>er_pause_requested := False\<rparr>) st)
         (\<lambda>(changed, st'). if changed \<noteq> 1 then Inl InvalidExecution else Inr ((), st')))"

definition cancel_unstarted_execution ::
  "('j, 'z) store_libs_scheme \<Rightarrow> execution_id \<Rightarrow> ustring \<Rightarrow> execution_store
    \<Rightarrow> (persistence_error + bool) \<times> execution_store" where
  "cancel_unstarted_execution L x completed_at =
     in_transaction (\<lambda>st.
       try_bind (update_sessions
           (\<lambda>r. er_id r = x \<and> er_status r \<in> {St_AwaitingConfirmation, St_Approved, St_Paused}
               \<and> er_applied_count r = 0
               \<and> \<not> list_ex (\<lambda>p. xop_execution_id p = x
                     \<and> xop_status p \<in> {Op_Running, Op_Applied, Op_Recovered}) (es_operations st))
           (\<lambda>r. r\<lparr>er_status := St_Cancelled, er_cancel_requested := True,
               er_completed_at := Some completed_at, er_rollback_available := False\<rparr>) st)
         (\<lambda>(changed, st1).
       if changed = 1
       then try_bind (refresh_execution_retention L x completed_at st1) (\<lambda>st2. Inr (True, st2))
       else Inr (False, st1)))"

fun assessed_status :: "execution_recovery_state \<Rightarrow> organization_execution_status" where
  "assessed_status Rec_RecoveryNotRequired = St_Paused"
| "assessed_status Rec_RecoveryAvailable = St_RecoveryAvailable"
| "assessed_status Rec_RecoveryRequired = St_RecoveryRequired"
| "assessed_status Rec_RecoveryAmbiguous = St_RecoveryAmbiguous"

text \<open>\<^verbatim>\<open>INSERT .. ON CONFLICT DO UPDATE\<close>, which refers to an existing session.\<close>

definition upsert_recovery :: "recovery_row \<Rightarrow> execution_store \<Rightarrow> persistence_error + execution_store" where
  "upsert_recovery r st =
     (if session_row st (rv_execution_id r) = None \<or> length (rv_details_json r) > 1048576
      then Inl SqlError
      else if list_ex (\<lambda>s. rv_execution_id s = rv_execution_id r) (es_recoveries st)
      then Inr (st\<lparr>es_recoveries := map (\<lambda>s. if rv_execution_id s = rv_execution_id r then r else s)
                     (es_recoveries st)\<rparr>)
      else Inr (st\<lparr>es_recoveries := es_recoveries st @ [r]\<rparr>))"

definition persist_recovery_assessment ::
  "('j, 'z) store_libs_scheme \<Rightarrow> execution_id \<Rightarrow> execution_recovery_state \<Rightarrow> u64 \<Rightarrow> u64 \<Rightarrow> u64
    \<Rightarrow> ustring \<Rightarrow> ustring \<Rightarrow> execution_store \<Rightarrow> (persistence_error + unit) \<times> execution_store" where
  "persist_recovery_assessment L x state not_started applied ambiguous details assessed_at st =
     (if json_parse L details = None then (Inl InvalidExecution, st)
      else in_transaction (\<lambda>st.
        try_bind (to_sql_u64 not_started) (\<lambda>_.
        try_bind (to_sql_u64 applied) (\<lambda>_.
        try_bind (to_sql_u64 ambiguous) (\<lambda>_.
        try_bind (upsert_recovery
            \<lparr>rv_execution_id = x, rv_recovery_state = state, rv_not_started_count = not_started,
             rv_applied_count = applied, rv_ambiguous_count = ambiguous, rv_details_json = details,
             rv_assessed_at = assessed_at, rv_resolved_at = None\<rparr> st) (\<lambda>st1.
        try_bind (update_sessions (\<lambda>r. er_id r = x)
            (\<lambda>r. r\<lparr>er_status := assessed_status state, er_recovery_state := state\<rparr>) st1)
          (\<lambda>(_, st2).
        try_bind (refresh_execution_counts x st2) (\<lambda>st3.
        try_bind (refresh_execution_retention L x assessed_at st3) (\<lambda>st4.
        Inr ((), st4))))))))) st)"

section \<open>Queries\<close>

definition blocking_execution_exists :: "execution_store \<Rightarrow> persistence_error + bool" where
  "blocking_execution_exists st =
     (if es_poisoned st then Inl WriterPoisoned
      else Inr (length (filter (\<lambda>r. blocks_new_execution (er_status r)) (es_sessions st)) > 0))"

definition execution_control :: "execution_store \<Rightarrow> execution_id \<Rightarrow> persistence_error + (bool \<times> bool)" where
  "execution_control st x =
     (if es_poisoned st then Inl WriterPoisoned
      else (case session_row st x of
              None \<Rightarrow> Inl NotFound
            | Some r \<Rightarrow> Inr (er_pause_requested r, er_cancel_requested r)))"

definition execution_journal_events :: "execution_store \<Rightarrow> execution_id \<Rightarrow> persistence_error + journal_event list" where
  "execution_journal_events st x =
     (if es_poisoned st then Inl WriterPoisoned else Inr (journal_of st x))"

fun replay_chain :: "'a libs_scheme \<Rightarrow> nat \<Rightarrow> digest option \<Rightarrow> journal_event list \<Rightarrow> digest option option" where
  "replay_chain L index previous [] = Some previous"
| "replay_chain L index previous (e # es) =
     (if unat (je_sequence e) \<noteq> index \<or> \<not> event_verify L e previous then None
      else replay_chain L (index + 1) (Some (je_event_digest e)) es)"

definition validate_execution_journal ::
  "'a libs_scheme \<Rightarrow> execution_store \<Rightarrow> execution_id \<Rightarrow> persistence_error + bool" where
  "validate_execution_journal L st x =
     try_bind (execution_journal_events st x) (\<lambda>events.
       (case replay_chain L 0 None events of
          None \<Rightarrow> Inr False
        | Some previous \<Rightarrow>
            (case session_row st x of
               None \<Rightarrow> Inl NotFound
             | Some r \<Rightarrow> Inr (er_journal_chain_head r = previous))))"

definition request_fact :: "'a libs_scheme \<Rightarrow> request_row \<Rightarrow> executor_request_fact" where
  "request_fact L r =
     \<lparr>xrf_request_id = rq_request_id r, xrf_session_id = rq_session_id r,
      xrf_operation_id = rq_operation_id r, xrf_direction = rq_direction r,
      xrf_request_sequence = rq_request_sequence r,
      xrf_request_nonce_hash_hex = executor_nonce_hash L (rq_request_nonce r),
      xrf_request_digest_hex = rq_request_digest r,
      xrf_intent_event_sequence = rq_intent_event_sequence r,
      xrf_intent_event_digest_hex = encode_digest (rq_intent_event_digest r),
      xrf_state = rq_state r, xrf_response_digest_hex = rq_response_digest r,
      xrf_outcome_class = rq_outcome_class r, xrf_attempt_count = rq_attempt_count r,
      xrf_error_class = rq_error_class r\<rparr>"

definition execution_retention_metadata_of ::
  "execution_store \<Rightarrow> execution_id \<Rightarrow> persistence_error + execution_retention_metadata" where
  "execution_retention_metadata_of st x =
     (if es_poisoned st then Inl WriterPoisoned
      else ok_or (find (\<lambda>r. xrm_execution_id r = x) (es_retentions st)) NotFound)"

end
