(* ===== verification/Store_History.thy ===== *)
theory Store_History
  imports Execution_Store
begin

text \<open>
  Histories of the execution store: \<open>store_step\<close> relates a store to the one after any of the
  operations of \<^verbatim>\<open>Execution_Store\<close>. The stored journals stay chained to the heads kept in
  the session rows, requests only progress, and a stored request always rests on the event
  that journaled its intent.
\<close>

section \<open>Transactions\<close>

lemma in_transaction_cases:
  assumes "in_transaction body st = (res, st')"
  obtains "st' = st" | v where "body st = Inr (v, st')" "res = Inr v" "\<not> es_poisoned st"
  using assms by (auto simp: in_transaction_def split: if_splits sum.splits)

lemma if_Inl_Inr: "(if b then Inl e else r) = Inr y \<longleftrightarrow> \<not> b \<and> r = Inr y"
  by simp

lemma update_where_Inr:
  "update_where chk guard f rows = Inr (n, rows') \<longleftrightarrow>
     (\<forall>r \<in> set rows. guard r \<longrightarrow> chk r (f r)) \<and> n = length (filter guard rows)
     \<and> rows' = map (\<lambda>r. if guard r then f r else r) rows"
  by (auto simp: update_where_def list_all_iff)

section \<open>What the operations leave alone\<close>

text \<open>The part of a store that the chain of a journal depends on.\<close>

definition journal_key :: "execution_row \<Rightarrow> execution_id \<times> int \<times> digest option" where
  "journal_key r = (er_id r, er_journal_sequence r, er_journal_chain_head r)"

definition same_journal :: "execution_store \<Rightarrow> execution_store \<Rightarrow> bool" where
  "same_journal st st' \<longleftrightarrow>
     es_journal st' = es_journal st
     \<and> map journal_key (es_sessions st') = map journal_key (es_sessions st)
     \<and> es_poisoned st' = es_poisoned st"

text \<open>The part of a request that no update may change, and the progress of a row.\<close>

definition request_origin ::
  "request_row \<Rightarrow> ustring \<times> ustring \<times> execution_id \<times> operation_step_id \<times> executor_request_direction
     \<times> u64 \<times> digest \<times> ustring \<times> u64 \<times> digest" where
  "request_origin r =
     (rq_request_id r, rq_session_id r, rq_execution_id r, rq_operation_id r, rq_direction r,
      rq_request_sequence r, rq_request_nonce r, rq_request_digest r, rq_intent_event_sequence r,
      rq_intent_event_digest r)"

definition request_progress :: "request_row \<Rightarrow> request_row \<Rightarrow> bool" where
  "request_progress r s \<longleftrightarrow>
     request_origin s = request_origin r
     \<and> request_reaches (rq_state r) (rq_state s)
     \<and> (rq_response_digest r \<noteq> None \<longrightarrow>
          rq_response_digest s = rq_response_digest r \<and> rq_outcome_class s = rq_outcome_class r
          \<and> rq_attempt_count s = rq_attempt_count r \<and> rq_error_class s = rq_error_class r)"

definition requests_progress :: "execution_store \<Rightarrow> execution_store \<Rightarrow> bool" where
  "requests_progress st st' \<longleftrightarrow> list_all2 request_progress (es_requests st) (es_requests st')"

lemma same_journal_refl [simp]: "same_journal st st"
  by (simp add: same_journal_def)

lemma same_journal_trans: "same_journal st st1 \<Longrightarrow> same_journal st1 st2 \<Longrightarrow> same_journal st st2"
  by (simp add: same_journal_def)

lemma request_progress_refl [simp]: "request_progress r r"
  by (simp add: request_progress_def reaches_refl)

lemma request_progress_trans:
  "request_progress r s \<Longrightarrow> request_progress s t \<Longrightarrow> request_progress r t"
  by (auto simp: request_progress_def intro: request_reaches_trans)

lemma requests_progress_refl [simp]: "requests_progress st st"
  by (simp add: requests_progress_def list.rel_refl)

lemma requests_progress_trans:
  "requests_progress st st1 \<Longrightarrow> requests_progress st1 st2 \<Longrightarrow> requests_progress st st2"
  unfolding requests_progress_def by (rule list_all2_trans [OF request_progress_trans])

lemma requests_unchanged: "es_requests st' = es_requests st \<Longrightarrow> requests_progress st st'"
  by (simp add: requests_progress_def list.rel_refl)

text \<open>An operation that moves neither journal nor executor sessions and only advances requests.\<close>

definition quiet :: "execution_store \<Rightarrow> execution_store \<Rightarrow> bool" where
  "quiet st st' \<longleftrightarrow>
     same_journal st st' \<and> requests_progress st st'
     \<and> es_executor_sessions st' = es_executor_sessions st"

lemma quiet_refl [simp]: "quiet st st"
  by (simp add: quiet_def)

lemma quiet_trans [trans]: "quiet st st1 \<Longrightarrow> quiet st1 st2 \<Longrightarrow> quiet st st2"
  by (auto simp: quiet_def intro: same_journal_trans requests_progress_trans)

lemma quiet_sessions:
  assumes "update_sessions guard f st = Inr (n, st')" and "\<And>r. journal_key (f r) = journal_key r"
  shows "quiet st st'"
  using assms
  by (auto simp: update_sessions_def try_bind_Inr update_where_Inr quiet_def same_journal_def
      requests_unchanged split: if_splits)

lemma quiet_operations:
  assumes "update_operations guard f st = Inr (n, st')"
  shows "quiet st st'"
  using assms
  by (auto simp: update_operations_def try_bind_Inr update_where_Inr quiet_def same_journal_def
      requests_unchanged)

lemma quiet_requests:
  assumes "update_requests guard f st = Inr (n, st')"
    and "\<And>r. guard r \<Longrightarrow> request_progress r (f r)"
  shows "quiet st st'"
  using assms
  by (auto simp: update_requests_def try_bind_Inr update_where_Inr quiet_def same_journal_def
      requests_progress_def list_all2_conv_all_nth)

lemma quiet_counts: "refresh_execution_counts x st = Inr st' \<Longrightarrow> quiet st st'"
  by (auto simp: refresh_execution_counts_def try_bind_Inr journal_key_def intro: quiet_sessions)

lemma quiet_retention: "refresh_execution_retention L x t st = Inr st' \<Longrightarrow> quiet st st'"
  by (auto simp: refresh_execution_retention_def try_bind_Inr quiet_def same_journal_def
      requests_unchanged)

lemma quiet_rollback: "quiet st (insert_rollback_record x step t st)"
  by (auto simp: insert_rollback_record_def quiet_def same_journal_def requests_unchanged Let_def
      split: option.splits)

lemma quiet_recovery: "quiet st (resolve_recovery x t st)"
  by (simp add: resolve_recovery_def quiet_def same_journal_def requests_unchanged)

lemma quiet_upsert: "upsert_recovery r st = Inr st' \<Longrightarrow> quiet st st'"
  by (auto simp: upsert_recovery_def quiet_def same_journal_def requests_unchanged split: if_splits)

lemma quiet_step_of_event:
  "update_step_of_event e status fp code msg t st = Inr st' \<Longrightarrow> quiet st st'"
  by (auto simp: update_step_of_event_def try_bind_Inr split: option.splits if_splits
      intro: quiet_trans [OF quiet_operations quiet_rollback] quiet_operations)

lemma quiet_transition:
  assumes "transition_executor_request_state st request next t proof = Inr st'"
  shows "quiet st st'"
proof -
  obtain current n where "may_transition_to current next"
    and "update_requests (\<lambda>r. rq_request_id r = request \<and> rq_state r = current)
           (\<lambda>r. r\<lparr>rq_state := next,
               rq_proof_recorded_at :=
                 (if proof then (case rq_proof_recorded_at r of None \<Rightarrow> Some t | t \<Rightarrow> t)
                  else rq_proof_recorded_at r)\<rparr>) st = Inr (n, st')"
    using assms
    by (auto simp: transition_executor_request_state_def try_bind_Inr split: if_splits)
  from this(2) show ?thesis
    by (rule quiet_requests)
      (auto simp: request_progress_def request_origin_def may_transition_reaches
        \<open>may_transition_to current next\<close>)
qed

section \<open>A persisted event\<close>

lemma insert_journal_row_Inr:
  "insert_journal_row e data t st = Inr st' \<longleftrightarrow>
     (\<forall>w \<in> set (es_journal st). \<not> (je_execution_id (jw_event w) = je_execution_id e
          \<and> je_sequence (jw_event w) = je_sequence e))
     \<and> (\<forall>step. je_step_id e = Some step \<longrightarrow> (\<exists>p \<in> set (es_operations st). xop_id p = step))
     \<and> length data \<le> 16777216
     \<and> st' = st\<lparr>es_journal := es_journal st @ [\<lparr>jw_event = e, jw_created_at = t\<rparr>]\<rparr>"
  by (auto simp: insert_journal_row_def list_ex_iff split: option.splits)

definition intent_matches :: "execution_store \<Rightarrow> journal_event \<Rightarrow> request_row \<Rightarrow> bool" where
  "intent_matches st e r \<longleftrightarrow>
     rq_execution_id r = je_execution_id e \<and> je_step_id e = Some (rq_operation_id r)
     \<and> je_kind e \<in> {IntentDurable, RollbackIntent}
     \<and> rq_intent_event_sequence r = je_sequence e \<and> rq_intent_event_digest r = je_event_digest e
     \<and> (\<exists>i \<in> set (es_executor_sessions st). xsi_session_id i = rq_session_id r
          \<and> xsi_execution_id i = rq_execution_id r
          \<and> session_purpose_name (xsi_purpose i) = request_direction_name (rq_direction r))"

lemma insert_request_intent_Inr:
  assumes "insert_request_intent L e data q t st = Inr st'"
  obtains r where "st' = st\<lparr>es_requests := es_requests st @ [r]\<rparr>" "intent_matches st e r"
    "request_insertable st r" "rq_state r = Req_IntentDurable"
    "\<forall>s \<in> set (es_requests st). rq_execution_id s = rq_execution_id r
        \<and> rq_operation_id s = rq_operation_id r \<and> rq_direction s = rq_direction r
        \<longrightarrow> rq_direction r \<noteq> Dir_Forward \<and> rq_state s \<in> {Req_ProvenNotApplied, Req_ProvenNotStarted}"
proof -
  let ?r = "request_of q e t"
  let ?prior = "filter (\<lambda>r. rq_execution_id r = xri_execution_id q
       \<and> rq_operation_id r = xri_operation_id q \<and> rq_direction r = xri_direction q) (es_requests st)"
  obtain i where e: "xri_execution_id q = je_execution_id e" "je_step_id e = Some (xri_operation_id q)"
      "je_kind e \<in> {IntentDurable, RollbackIntent}"
    and i: "find (\<lambda>i. xsi_session_id i = xri_session_id q \<and> xsi_execution_id i = xri_execution_id q)
         (es_executor_sessions st) = Some i"
      "session_purpose_name (xsi_purpose i) = request_direction_name (xri_direction q)"
    and p: "\<not> (?prior \<noteq> [] \<and> xri_direction q = Dir_Forward)"
      "\<not> list_ex (\<lambda>r. rq_state r \<notin> {Req_ProvenNotApplied, Req_ProvenNotStarted}) ?prior"
    and ins: "request_insertable st ?r" "st' = st\<lparr>es_requests := es_requests st @ [?r]\<rparr>"
    using assms
    by (auto simp: insert_request_intent_def try_bind_Inr ok_or_Inr Let_def split: if_splits)
  have "intent_matches st e ?r"
    using e i by (auto simp: intent_matches_def request_of_def find_Some_iff)
  moreover have "\<forall>s \<in> set (es_requests st). rq_execution_id s = rq_execution_id ?r
      \<and> rq_operation_id s = rq_operation_id ?r \<and> rq_direction s = rq_direction ?r
      \<longrightarrow> rq_direction ?r \<noteq> Dir_Forward \<and> rq_state s \<in> {Req_ProvenNotApplied, Req_ProvenNotStarted}"
    using p by (auto simp: request_of_def filter_empty_conv list_ex_iff)
  ultimately show ?thesis
    using that [of ?r] ins by (simp add: request_of_def)
qed

text \<open>The stages of the transaction: the journal row, the intent if there is one, the session row,
  and quiet updates.\<close>

lemma persist_event_body_stages:
  assumes "persist_event_body L e data u st = Inr ((), st')"
  obtains session st1 st2 n st3 where
    "session_row st (je_execution_id e) = Some session"
    "uint (je_sequence e) \<le> i64_max"
    "uint (je_sequence e) = sat_add_i64 (er_journal_sequence session) 1"
    "event_verify L e (er_journal_chain_head session)"
    "insert_journal_row e data (eu_created_at u) st = Inr st1"
    "st2 = st1 \<or> (\<exists>q. insert_request_intent L e data q (eu_created_at u) st1 = Inr st2)"
    "update_sessions (\<lambda>r. er_id r = je_execution_id e)
       (session_after_event st2 e (eu_session_status u) (eu_error_message u) (eu_created_at u)) st2
       = Inr (n, st3)"
    "quiet st3 st'"
proof -
  obtain session sequence st1 st2 n st3 st5 st6 st7 where
    s: "session_row st (je_execution_id e) = Some session" "to_sql_u64 (je_sequence e) = Inr sequence"
      "sequence = sat_add_i64 (er_journal_sequence session) 1"
      "event_verify L e (er_journal_chain_head session)"
    and st1: "insert_journal_row e data (eu_created_at u) st = Inr st1"
    and st2: "(case eu_request_intent u of None \<Rightarrow> Inr st1
         | Some q \<Rightarrow> insert_request_intent L e data q (eu_created_at u) st1) = Inr st2"
    and st3: "update_sessions (\<lambda>r. er_id r = je_execution_id e)
       (session_after_event st2 e (eu_session_status u) (eu_error_message u) (eu_created_at u)) st2
       = Inr (n, st3)"
    and st5: "update_step_of_event e (eu_operation_status u) (eu_post_fingerprint u)
            (eu_error_code u) (eu_error_message u) (eu_created_at u)
            (if eu_session_status u \<in> Some ` terminal_statuses
             then resolve_recovery (je_execution_id e) (eu_created_at u) st3 else st3) = Inr st5"
    and st6: "refresh_execution_counts (je_execution_id e) st5 = Inr st6"
    and st7: "(case eu_request_proof u of None \<Rightarrow> Inr st6
         | Some (request, proof_state) \<Rightarrow>
             transition_executor_request_state st6 request proof_state (eu_created_at u) True) = Inr st7"
    and st8: "refresh_execution_retention L (je_execution_id e) (eu_created_at u) st7 = Inr st'"
    using assms unfolding persist_event_body_def Let_def
    by (auto simp: try_bind_Inr ok_or_Inr if_Inl_Inr)
  have "quiet st3 (if eu_session_status u \<in> Some ` terminal_statuses
             then resolve_recovery (je_execution_id e) (eu_created_at u) st3 else st3)"
    by (simp add: quiet_recovery)
  also note quiet_step_of_event [OF st5]
  also note quiet_counts [OF st6]
  also have "quiet st6 st7"
    using st7 by (auto split: option.splits dest: quiet_transition)
  also note quiet_retention [OF st8]
  finally have "quiet st3 st'" .
  moreover have "uint (je_sequence e) \<le> i64_max" "sequence = uint (je_sequence e)"
    using s(2) by (auto simp: to_sql_u64_def split: if_splits)
  moreover have "st2 = st1 \<or> (\<exists>q. insert_request_intent L e data q (eu_created_at u) st1 = Inr st2)"
    using st2 by (auto split: option.splits)
  ultimately show ?thesis
    using that s st1 st3 by blast
qed

section \<open>Steps\<close>

inductive store_step :: "('j, 'z) store_libs_scheme \<Rightarrow> execution_store \<Rightarrow> execution_store \<Rightarrow> bool"
  for L where
  step_event: "persist_execution_event L e data u st = (res, st') \<Longrightarrow> store_step L st st'"
| step_session: "persist_executor_session i st = (res, st') \<Longrightarrow> store_step L st st'"
| step_response: "record_executor_response q d out n err s t st = (res, st') \<Longrightarrow> store_step L st st'"
| step_proof: "transition_executor_request_proof q s t st = (res, st') \<Longrightarrow> store_step L st st'"
| step_interrupted: "mark_interrupted_executions_for_recovery st = (k, st') \<Longrightarrow> store_step L st st'"
| step_recovery: "mark_execution_recovery_required x m st = (b, st') \<Longrightarrow> store_step L st st'"
| step_control: "set_execution_control x p c st = (b, st') \<Longrightarrow> store_step L st st'"
| step_clear: "clear_execution_pause x st = (res, st') \<Longrightarrow> store_step L st st'"
| step_cancel: "cancel_unstarted_execution L x t st = (b, st') \<Longrightarrow> store_step L st st'"
| step_assess: "persist_recovery_assessment L x rs n a g det t st = (res, st') \<Longrightarrow> store_step L st st'"

text \<open>A step is quiet, or opens an executor session, or persists an event.\<close>

lemma control_update_quiet:
  assumes "control_update guard f st = (res, st')" and "\<And>r. journal_key (f r) = journal_key r"
  shows "quiet st st'"
  using assms(1) unfolding control_update_def
  by (rule in_transaction_cases) (auto simp: try_bind_Inr intro: quiet_sessions assms(2))

lemma response_quiet:
  assumes "record_executor_response q d out n err s t st = (res, st')"
  shows "quiet st st'"
proof -
  have "quiet st st'" if "in_transaction (\<lambda>st.
        try_bind (executor_request_state st q) (\<lambda>current.
        if \<not> may_transition_to current s then Inl InvalidExecution
        else try_bind (update_requests
            (\<lambda>r. rq_request_id r = q \<and> rq_state r = current \<and> rq_response_digest r = None)
            (\<lambda>r. r\<lparr>rq_state := s, rq_response_digest := Some d, rq_outcome_class := Some out,
                rq_attempt_count := n, rq_error_class := err,
                rq_response_recorded_at := Some t\<rparr>) st)
          (\<lambda>(changed, st'). if changed \<noteq> 1 then Inl InvalidExecution else Inr ((), st')))) st = (res, st')"
    using that
    by (rule in_transaction_cases)
      (auto simp: try_bind_Inr if_Inl_Inr request_progress_def request_origin_def
        may_transition_reaches elim!: quiet_requests)
  with assms show ?thesis
    unfolding record_executor_response_def by (auto split: if_splits)
qed

lemma assessment_quiet:
  assumes "persist_recovery_assessment L x rs n a g det t st = (res, st')"
  shows "quiet st st'"
proof (cases "json_parse L det")
  case (Some j)
  let ?row = "\<lparr>rv_execution_id = x, rv_recovery_state = rs, rv_not_started_count = n,
             rv_applied_count = a, rv_ambiguous_count = g, rv_details_json = det,
             rv_assessed_at = t, rv_resolved_at = None\<rparr>"
  let ?body = "\<lambda>st. try_bind (to_sql_u64 n) (\<lambda>_. try_bind (to_sql_u64 a) (\<lambda>_.
        try_bind (to_sql_u64 g) (\<lambda>_. try_bind (upsert_recovery ?row st) (\<lambda>st1.
        try_bind (update_sessions (\<lambda>r. er_id r = x)
            (\<lambda>r. r\<lparr>er_status := assessed_status rs, er_recovery_state := rs\<rparr>) st1) (\<lambda>(_, st2).
        try_bind (refresh_execution_counts x st2) (\<lambda>st3.
        try_bind (refresh_execution_retention L x t st3) (\<lambda>st4. Inr ((), st4))))))))"
  have "in_transaction ?body st = (res, st')"
    using assms Some by (simp add: persist_recovery_assessment_def)
  then show ?thesis
  proof (rule in_transaction_cases)
    fix v assume "?body st = Inr (v, st')"
    then obtain r st1 k st2 st3 where "upsert_recovery r st = Inr st1"
      and st2: "update_sessions (\<lambda>r. er_id r = x)
            (\<lambda>r. r\<lparr>er_status := assessed_status rs, er_recovery_state := rs\<rparr>) st1 = Inr (k, st2)"
      and "refresh_execution_counts x st2 = Inr st3" "refresh_execution_retention L x t st3 = Inr st'"
      by (auto simp: try_bind_Inr)
    then have "quiet st st1" "quiet st2 st3" "quiet st3 st'"
      by (auto intro: quiet_upsert quiet_counts quiet_retention)
    moreover have "quiet st1 st2"
      using st2 by (rule quiet_sessions) (simp add: journal_key_def)
    ultimately show ?thesis by (blast intro: quiet_trans)
  qed simp
qed (use assms in \<open>simp add: persist_recovery_assessment_def\<close>)

lemma cancel_quiet:
  assumes "cancel_unstarted_execution L x t st = (res, st')"
  shows "quiet st st'"
  using assms unfolding cancel_unstarted_execution_def
proof (rule in_transaction_cases)
  fix v
  let ?guard = "\<lambda>r. er_id r = x \<and> er_status r \<in> {St_AwaitingConfirmation, St_Approved, St_Paused}
               \<and> er_applied_count r = 0
               \<and> \<not> list_ex (\<lambda>p. xop_execution_id p = x
                     \<and> xop_status p \<in> {Op_Running, Op_Applied, Op_Recovered}) (es_operations st)"
  let ?f = "\<lambda>r. r\<lparr>er_status := St_Cancelled, er_cancel_requested := True,
               er_completed_at := Some t, er_rollback_available := False\<rparr>"
  assume "try_bind (update_sessions ?guard ?f st)
         (\<lambda>(changed, st1).
       if changed = 1
       then try_bind (refresh_execution_retention L x t st1) (\<lambda>st2. Inr (True, st2))
       else Inr (False, st1)) = Inr (v, st')"
  then obtain k st1 where st1: "update_sessions ?guard ?f st = Inr (k, st1)"
    and "st' = st1 \<or> refresh_execution_retention L x t st1 = Inr st'"
    by (auto simp: try_bind_Inr split: if_splits)
  moreover have "quiet st st1"
    using st1 by (rule quiet_sessions) (simp add: journal_key_def)
  ultimately show ?thesis by (blast intro: quiet_trans quiet_retention)
qed simp

lemma store_step_cases:
  assumes "store_step L st st'"
  obtains (quiet) "quiet st st'"
  | (session) i where "st' = st\<lparr>es_executor_sessions := es_executor_sessions st @ [i]\<rparr>"
  | (event) e data u where "persist_event_body L e data u st = Inr ((), st')"
      "je_payload e = utf8_bytes data"
  using assms
proof cases
  case (step_event e data u res)
  then show ?thesis
    using that(1,3) by (auto simp: persist_execution_event_def split: if_splits
        elim!: in_transaction_cases)
next
  case (step_session i res)
  then show ?thesis
    using that(1,2) by (auto simp: persist_executor_session_def split: if_splits option.splits)
next
  case (step_proof q s t res)
  then show ?thesis
    by (intro that(1)) (auto simp: transition_executor_request_proof_def try_bind_Inr
        split: if_splits elim!: in_transaction_cases intro: quiet_transition)
next
  case (step_interrupted k)
  show ?thesis
    using step_interrupted unfolding mark_interrupted_executions_for_recovery_def
    by (rule in_transaction_cases) (auto intro!: that(1) elim!: quiet_sessions simp: journal_key_def)
next
  case (step_recovery x m b)
  then show ?thesis
    unfolding mark_execution_recovery_required_def
    by (intro that(1)) (erule control_update_quiet, simp add: journal_key_def)
next
  case (step_control x p c b)
  then show ?thesis
    unfolding set_execution_control_def
    by (intro that(1)) (erule control_update_quiet, simp add: journal_key_def)
next
  case (step_clear x res)
  show ?thesis
    using step_clear unfolding clear_execution_pause_def
    by (rule in_transaction_cases)
      (auto simp: try_bind_Inr if_Inl_Inr journal_key_def intro!: that(1) elim!: quiet_sessions)
qed (blast intro: that(1) response_quiet cancel_quiet assessment_quiet)+

section \<open>The chain of a stored journal\<close>

definition raw_journal :: "execution_store \<Rightarrow> execution_id \<Rightarrow> journal_event list" where
  "raw_journal st x = filter (\<lambda>e. je_execution_id e = x) (map jw_event (es_journal st))"

definition chain_ok :: "'a libs_scheme \<Rightarrow> execution_store \<Rightarrow> bool" where
  "chain_ok L st \<longleftrightarrow>
     distinct (map er_id (es_sessions st))
     \<and> (\<forall>(x, n, h) \<in> set (map journal_key (es_sessions st)).
          replay_chain L 0 None (raw_journal st x) = Some h
          \<and> n = int (length (raw_journal st x)) - 1)"

lemma er_id_key: "map er_id rows = map fst (map journal_key rows)"
  by (simp add: journal_key_def)

lemma chain_ok_same:
  assumes "same_journal st st'" and "chain_ok L st"
  shows "chain_ok L st'"
proof -
  have "map er_id (es_sessions st') = map er_id (es_sessions st)"
    using assms(1) by (simp only: er_id_key same_journal_def)
  moreover have "raw_journal st' x = raw_journal st x" for x
    using assms(1) by (simp add: raw_journal_def same_journal_def)
  moreover have "map journal_key (es_sessions st') = map journal_key (es_sessions st)"
    using assms(1) by (simp only: same_journal_def)
  ultimately show ?thesis
    using assms(2) by (auto simp only: chain_ok_def)
qed

lemma replay_chain_append:
  "replay_chain L i p (es @ fs) =
     (case replay_chain L i p es of None \<Rightarrow> None | Some q \<Rightarrow> replay_chain L (i + length es) q fs)"
  by (induction es arbitrary: i p) (auto split: option.split)

lemma replay_chain_sequence:
  "replay_chain L i p es = Some q \<Longrightarrow> j < length es \<Longrightarrow> unat (je_sequence (es ! j)) = i + j"
proof (induction es arbitrary: i p j)
  case (Cons e es)
  then show ?case by (cases j) (auto split: if_splits)
qed simp

lemma replay_chain_sorted:
  assumes "replay_chain L 0 None es = Some q"
  shows "sort_key (\<lambda>e. unat (je_sequence e)) es = es"
  by (rule sort_key_id_if_sorted)
    (auto simp: sorted_iff_nth_mono replay_chain_sequence [OF assms])

lemma journal_of_raw:
  "replay_chain L 0 None (raw_journal st x) = Some q \<Longrightarrow> journal_of st x = raw_journal st x"
  using replay_chain_sorted by (simp add: journal_of_def raw_journal_def)

lemma session_row_key:
  "session_row st x = Some r \<Longrightarrow> (x, er_journal_sequence r, er_journal_chain_head r)
     \<in> set (map journal_key (es_sessions st))"
  by (auto simp: session_row_def find_Some_iff journal_key_def)

text \<open>The next sequence number is the length of the journal: at the end of the range the
  primary key refuses the event instead.\<close>

lemma next_sequence:
  assumes chain: "replay_chain L 0 None es = Some h" and n: "n = int (length es) - 1"
    and s: "uint s = sat_add_i64 n 1"
    and fresh: "\<forall>e \<in> set es. je_sequence e \<noteq> s"
  shows "unat s = length es"
proof (cases "int (length es) \<le> i64_max")
  case True
  then have "uint s = int (length es)"
    using s n by (simp add: sat_add_i64_def clamp_i64_def i64_min_def)
  then show ?thesis by (metis nat_int unat_eq_nat_uint)
next
  case False
  then have u: "uint s = i64_max"
    using s n by (simp add: sat_add_i64_def clamp_i64_def i64_min_def i64_max_def)
  let ?j = "nat i64_max"
  have j: "?j < length es" using False by (simp add: i64_max_def)
  have "unat (je_sequence (es ! ?j)) = ?j"
    using replay_chain_sequence [OF chain j] by simp
  also have "\<dots> = unat s" using u by (metis unat_eq_nat_uint)
  finally have "je_sequence (es ! ?j) = s" by (simp add: word_unat_eq_iff)
  with fresh j show ?thesis by (metis nth_mem)
qed

lemma keyed_update:
  "(y, m, h) \<in> set (map (\<lambda>(x, n, g). if x = z then (x, a, b) else (x, n, g)) ks) \<Longrightarrow>
     y = z \<and> m = a \<and> h = b \<or> y \<noteq> z \<and> (y, m, h) \<in> set ks"
  by (auto split: if_splits)

lemma key_after_event:
  "journal_key (session_after_event st0 e status msg t r)
     = (er_id r, uint (je_sequence e), Some (je_event_digest e))"
  by (simp add: journal_key_def session_after_event_def)

lemma keys_after_event:
  assumes "update_sessions (\<lambda>r. er_id r = je_execution_id e)
       (session_after_event st0 e status msg t) st = Inr (n, st')"
  shows "map journal_key (es_sessions st') = map (\<lambda>(x, n, h). if x = je_execution_id e
            then (x, uint (je_sequence e), Some (je_event_digest e)) else (x, n, h))
          (map journal_key (es_sessions st))"
    and "es_journal st' = es_journal st" and "es_requests st' = es_requests st"
    and "es_executor_sessions st' = es_executor_sessions st" and "es_poisoned st' = es_poisoned st"
proof -
  have st': "st' = st\<lparr>es_sessions := map (\<lambda>r. if er_id r = je_execution_id e
      then session_after_event st0 e status msg t r else r) (es_sessions st)\<rparr>"
    using assms by (auto simp: update_sessions_def try_bind_Inr update_where_Inr split: if_splits)
  show "map journal_key (es_sessions st') = map (\<lambda>(x, n, h). if x = je_execution_id e
            then (x, uint (je_sequence e), Some (je_event_digest e)) else (x, n, h))
          (map journal_key (es_sessions st))"
    by (simp add: st' comp_def if_distrib [of journal_key] key_after_event)
      (simp add: journal_key_def)
  show "es_journal st' = es_journal st" "es_requests st' = es_requests st"
    "es_executor_sessions st' = es_executor_sessions st" "es_poisoned st' = es_poisoned st"
    by (simp_all add: st')
qed

text \<open>The journal, the keys and the requests after a persisted event.\<close>

lemma event_effect:
  assumes "persist_event_body L e data u st = Inr ((), st')"
  obtains session reqs w where
    "session_row st (je_execution_id e) = Some session"
    "uint (je_sequence e) = sat_add_i64 (er_journal_sequence session) 1"
    "event_verify L e (er_journal_chain_head session)"
    "\<forall>f \<in> set (raw_journal st (je_execution_id e)). je_sequence f \<noteq> je_sequence e"
    "es_journal st' = es_journal st @ [w]" "jw_event w = e"
    "map journal_key (es_sessions st') = map (\<lambda>(x, n, h). if x = je_execution_id e
            then (x, uint (je_sequence e), Some (je_event_digest e)) else (x, n, h))
          (map journal_key (es_sessions st))"
    "es_executor_sessions st' = es_executor_sessions st" "es_poisoned st' = es_poisoned st"
    "reqs = es_requests st \<or> (\<exists>r. reqs = es_requests st @ [r] \<and> intent_matches st e r
        \<and> rq_request_id r \<notin> set (map rq_request_id (es_requests st))
        \<and> (\<forall>s \<in> set (es_requests st). rq_execution_id s = rq_execution_id r
              \<and> rq_operation_id s = rq_operation_id r \<and> rq_direction s = rq_direction r
              \<longrightarrow> rq_direction r \<noteq> Dir_Forward))"
    "list_all2 request_progress reqs (es_requests st')"
proof -
  obtain session st1 st2 n st3 where
    s: "session_row st (je_execution_id e) = Some session"
      "uint (je_sequence e) = sat_add_i64 (er_journal_sequence session) 1"
      "event_verify L e (er_journal_chain_head session)"
    and ins: "insert_journal_row e data (eu_created_at u) st = Inr st1"
    and int: "st2 = st1 \<or> (\<exists>q. insert_request_intent L e data q (eu_created_at u) st1 = Inr st2)"
    and upd: "update_sessions (\<lambda>r. er_id r = je_execution_id e)
       (session_after_event st2 e (eu_session_status u) (eu_error_message u) (eu_created_at u)) st2
       = Inr (n, st3)"
    and q: "quiet st3 st'"
    using assms by (rule persist_event_body_stages)
  let ?w = "\<lparr>jw_event = e, jw_created_at = eu_created_at u\<rparr>"
  have st1: "st1 = st\<lparr>es_journal := es_journal st @ [?w]\<rparr>"
    and fresh: "\<forall>f \<in> set (raw_journal st (je_execution_id e)). je_sequence f \<noteq> je_sequence e"
    using ins by (auto simp: insert_journal_row_Inr raw_journal_def)
  have st2: "es_journal st2 = es_journal st1" "es_sessions st2 = es_sessions st1"
    "es_executor_sessions st2 = es_executor_sessions st1" "es_poisoned st2 = es_poisoned st1"
    using int by (auto elim!: insert_request_intent_Inr)
  have reqs: "es_requests st2 = es_requests st \<or> (\<exists>r. es_requests st2 = es_requests st @ [r]
        \<and> intent_matches st e r
        \<and> rq_request_id r \<notin> set (map rq_request_id (es_requests st))
        \<and> (\<forall>s \<in> set (es_requests st). rq_execution_id s = rq_execution_id r
              \<and> rq_operation_id s = rq_operation_id r \<and> rq_direction s = rq_direction r
              \<longrightarrow> rq_direction r \<noteq> Dir_Forward))"
    using int
  proof (elim disjE exE)
    fix q assume "insert_request_intent L e data q (eu_created_at u) st1 = Inr st2"
    then show ?thesis
      by (rule insert_request_intent_Inr)
        (auto simp: st1 request_insertable_def intent_matches_def)
  qed (simp add: st1)
  note k = keys_after_event [OF upd]
  show ?thesis
    using q k st2 st1
    by (intro that [OF s fresh _ _ _ _ _ reqs, of ?w])
      (simp_all add: quiet_def same_journal_def requests_progress_def)
qed

lemma chain_ok_event:
  assumes ok: "chain_ok L st" and step: "persist_event_body L e data u st = Inr ((), st')"
  shows "chain_ok L st'"
proof -
  obtain session reqs w where
    s: "session_row st (je_execution_id e) = Some session"
    and seq: "uint (je_sequence e) = sat_add_i64 (er_journal_sequence session) 1"
    and ver: "event_verify L e (er_journal_chain_head session)"
    and fresh: "\<forall>f \<in> set (raw_journal st (je_execution_id e)). je_sequence f \<noteq> je_sequence e"
    and j: "es_journal st' = es_journal st @ [w]" "jw_event w = e"
    and k: "map journal_key (es_sessions st') = map (\<lambda>(x, n, h). if x = je_execution_id e
            then (x, uint (je_sequence e), Some (je_event_digest e)) else (x, n, h))
          (map journal_key (es_sessions st))"
    using step by (rule event_effect)
  let ?x = "je_execution_id e"
  have raw: "raw_journal st' y = raw_journal st y @ (if y = ?x then [e] else [])" for y
    using j by (simp add: raw_journal_def)
  from ok session_row_key [OF s] have chain:
    "replay_chain L 0 None (raw_journal st ?x) = Some (er_journal_chain_head session)"
    and n: "er_journal_sequence session = int (length (raw_journal st ?x)) - 1"
    by (auto simp: chain_ok_def)
  have len: "unat (je_sequence e) = length (raw_journal st ?x)"
    by (rule next_sequence [OF chain n seq fresh])
  have new: "replay_chain L 0 None (raw_journal st' ?x) = Some (Some (je_event_digest e))"
    using ver by (simp add: raw replay_chain_append chain len)
  have "map fst (map journal_key (es_sessions st')) = map fst (map journal_key (es_sessions st))"
    unfolding k by (simp add: comp_def split_beta)
  then have "distinct (map er_id (es_sessions st'))"
    using ok by (simp only: chain_ok_def er_id_key)
  moreover have "\<forall>(y, m, h) \<in> set (map journal_key (es_sessions st')).
      replay_chain L 0 None (raw_journal st' y) = Some h \<and> m = int (length (raw_journal st' y)) - 1"
  proof clarify
    fix y m h assume "(y, m, h) \<in> set (map journal_key (es_sessions st'))"
    from keyed_update [OF this [unfolded k]]
    show "replay_chain L 0 None (raw_journal st' y) = Some h \<and> m = int (length (raw_journal st' y)) - 1"
    proof
      assume "y = ?x \<and> m = uint (je_sequence e) \<and> h = Some (je_event_digest e)"
      with new len show ?thesis by (simp add: raw uint_nat)
    next
      assume "y \<noteq> ?x \<and> (y, m, h) \<in> set (map journal_key (es_sessions st))"
      with ok show ?thesis by (auto simp: chain_ok_def raw simp del: set_map)
    qed
  qed
  ultimately show ?thesis by (simp only: chain_ok_def)
qed

lemma chain_ok_step:
  assumes "store_step L st st'" "chain_ok L st"
  shows "chain_ok L st'"
  using assms(1)
proof (cases rule: store_step_cases)
  case quiet
  then show ?thesis using assms(2) by (auto simp: quiet_def intro: chain_ok_same)
next
  case (session i)
  then have "same_journal st st'" by (simp add: same_journal_def)
  then show ?thesis using assms(2) by (rule chain_ok_same)
next
  case (event e data u)
  from assms(2) event(1) show ?thesis by (rule chain_ok_event)
qed

section \<open>Requests rest on journaled intents\<close>

definition intents_ok :: "execution_store \<Rightarrow> bool" where
  "intents_ok st \<longleftrightarrow>
     distinct (map rq_request_id (es_requests st))
     \<and> sorted_wrt (\<lambda>r s. \<not> (rq_execution_id r = rq_execution_id s
           \<and> rq_operation_id r = rq_operation_id s
           \<and> rq_direction r = Dir_Forward \<and> rq_direction s = Dir_Forward)) (es_requests st)
     \<and> (\<forall>r \<in> set (es_requests st). \<exists>w \<in> set (es_journal st). intent_matches st (jw_event w) r)"

lemma intent_matches_frame [simp]:
  "intent_matches (st\<lparr>es_journal := j\<rparr>) = intent_matches st"
  "intent_matches (st\<lparr>es_requests := q\<rparr>) = intent_matches st"
  by (simp_all add: intent_matches_def fun_eq_iff)

lemma intent_matches_mono:
  "intent_matches st e r \<Longrightarrow> set (es_executor_sessions st) \<subseteq> set (es_executor_sessions st') \<Longrightarrow>
     intent_matches st' e r"
  by (auto simp: intent_matches_def)

lemma origin_eq:
  assumes "request_progress r s"
  shows "rq_request_id s = rq_request_id r" "rq_execution_id s = rq_execution_id r"
    "rq_operation_id s = rq_operation_id r" "rq_direction s = rq_direction r"
    "intent_matches st e s = intent_matches st e r"
  using assms by (auto simp: request_progress_def request_origin_def intent_matches_def)

lemma intents_ok_progress:
  assumes ok: "intents_ok st" and rel: "list_all2 request_progress (es_requests st) (es_requests st')"
    and j: "set (es_journal st) \<subseteq> set (es_journal st')"
    and sess: "set (es_executor_sessions st) \<subseteq> set (es_executor_sessions st')"
  shows "intents_ok st'"
proof -
  have n: "length (es_requests st') = length (es_requests st)"
    and prog: "\<And>i. i < length (es_requests st) \<Longrightarrow>
       request_progress (es_requests st ! i) (es_requests st' ! i)"
    using rel by (auto simp: list_all2_conv_all_nth)
  have "map rq_request_id (es_requests st') = map rq_request_id (es_requests st)"
    by (rule nth_equalityI) (auto simp: n origin_eq(1) [OF prog])
  moreover have "sorted_wrt (\<lambda>r s. \<not> (rq_execution_id r = rq_execution_id s
           \<and> rq_operation_id r = rq_operation_id s
           \<and> rq_direction r = Dir_Forward \<and> rq_direction s = Dir_Forward)) (es_requests st')"
    using ok unfolding intents_ok_def sorted_wrt_iff_nth_less n
    by (simp add: origin_eq(2-4) [OF prog])
  moreover have "\<exists>w \<in> set (es_journal st'). intent_matches st' (jw_event w) r"
    if r: "r \<in> set (es_requests st')" for r
  proof -
    obtain i where i: "i < length (es_requests st)" "r = es_requests st' ! i"
      using r by (metis in_set_conv_nth n)
    then obtain w where "w \<in> set (es_journal st)" "intent_matches st (jw_event w) (es_requests st ! i)"
      using ok by (meson intents_ok_def nth_mem)
    moreover from this(2) have "intent_matches st (jw_event w) r"
      using origin_eq(5) [OF prog [OF i(1)], of st "jw_event w"] i(2) by simp
    ultimately show ?thesis
      using intent_matches_mono [OF _ sess] j by blast
  qed
  ultimately show ?thesis using ok by (simp add: intents_ok_def)
qed

lemma intents_ok_step:
  assumes "store_step L st st'" "intents_ok st"
  shows "intents_ok st'"
  using assms(1)
proof (cases rule: store_step_cases)
  case quiet
  then show ?thesis
    using assms(2)
    by (intro intents_ok_progress [OF assms(2)])
      (auto simp: quiet_def same_journal_def requests_progress_def)
next
  case (session i)
  then show ?thesis
    by (intro intents_ok_progress [OF assms(2)]) (auto simp: list.rel_refl)
next
  case (event e data u)
  from event(1) obtain reqs w where
    j: "es_journal st' = es_journal st @ [w]" "jw_event w = e"
    and sess: "es_executor_sessions st' = es_executor_sessions st"
    and reqs: "reqs = es_requests st \<or> (\<exists>r. reqs = es_requests st @ [r] \<and> intent_matches st e r
        \<and> rq_request_id r \<notin> set (map rq_request_id (es_requests st))
        \<and> (\<forall>s \<in> set (es_requests st). rq_execution_id s = rq_execution_id r
              \<and> rq_operation_id s = rq_operation_id r \<and> rq_direction s = rq_direction r
              \<longrightarrow> rq_direction r \<noteq> Dir_Forward))"
    and rel: "list_all2 request_progress reqs (es_requests st')"
    by (rule event_effect)
  let ?mid = "st\<lparr>es_journal := es_journal st @ [w], es_requests := reqs\<rparr>"
  have "intents_ok ?mid"
    using reqs
  proof
    assume "reqs = es_requests st"
    then show ?thesis using assms(2) by (auto simp: intents_ok_def)
  next
    assume "\<exists>r. reqs = es_requests st @ [r] \<and> intent_matches st e r
        \<and> rq_request_id r \<notin> set (map rq_request_id (es_requests st))
        \<and> (\<forall>s \<in> set (es_requests st). rq_execution_id s = rq_execution_id r
              \<and> rq_operation_id s = rq_operation_id r \<and> rq_direction s = rq_direction r
              \<longrightarrow> rq_direction r \<noteq> Dir_Forward)"
    then show ?thesis
      using assms(2) j(2) by (auto simp: intents_ok_def sorted_wrt_append)
  qed
  then show ?thesis
    by (rule intents_ok_progress) (simp_all add: rel j sess)
qed

lemma requests_step:
  assumes "store_step L st st'"
  shows "list_all2 request_progress (es_requests st) (take (length (es_requests st)) (es_requests st'))"
    and "length (es_requests st) \<le> length (es_requests st')"
proof -
  have "\<exists>rest. list_all2 request_progress (es_requests st @ rest) (es_requests st')"
    using assms
  proof (cases rule: store_step_cases)
    case quiet
    then show ?thesis by (auto simp: quiet_def requests_progress_def intro: exI [of _ "[]"])
  next
    case (session i)
    then show ?thesis by (auto simp: list.rel_refl intro: exI [of _ "[]"])
  next
    case (event e data u)
    from event(1) obtain reqs where
      "reqs = es_requests st \<or> (\<exists>r. reqs = es_requests st @ [r])"
      "list_all2 request_progress reqs (es_requests st')"
      by (rule event_effect) blast
    then show ?thesis by (metis append_Nil2)
  qed
  then obtain rest where rel: "list_all2 request_progress (es_requests st @ rest) (es_requests st')"
    by blast
  then show "length (es_requests st) \<le> length (es_requests st')"
    by (auto dest: list_all2_lengthD)
  from list_all2_takeI [OF rel, of "length (es_requests st)"]
  show "list_all2 request_progress (es_requests st) (take (length (es_requests st)) (es_requests st'))"
    by simp
qed

section \<open>Properties\<close>

text \<open>C18: Journals written by the store always validate: from a store whose journals are chained to
  their session rows, whatever operations follow, \<^verbatim>\<open>validate_execution_journal\<close> answers true for
  every execution, and the stored events of each execution are numbered from zero without gaps.\<close>

theorem stored_journals_always_validate:
  assumes "chain_ok L st" and "(store_step L)\<^sup>*\<^sup>* st st'"
    and "\<not> es_poisoned st'" and "session_row st' x = Some r"
  shows "validate_execution_journal L st' x = Inr True
    \<and> map (\<lambda>e. unat (je_sequence e)) (journal_of st' x) = [0 ..< length (journal_of st' x)]"
proof -
  have "chain_ok L st'"
    using assms(2,1) by (induction rule: rtranclp_induct) (auto intro: chain_ok_step)
  with session_row_key [OF assms(4)]
  have chain: "replay_chain L 0 None (raw_journal st' x) = Some (er_journal_chain_head r)"
    by (auto simp: chain_ok_def)
  have "map (\<lambda>e. unat (je_sequence e)) (raw_journal st' x) = [0 ..< length (raw_journal st' x)]"
    by (rule nth_equalityI) (simp_all add: replay_chain_sequence [OF chain])
  with chain journal_of_raw [OF chain] assms(3,4) show ?thesis
    by (simp add: validate_execution_journal_def execution_journal_events_def)
qed

text \<open>C24: Nothing is asked of the executor before it is journaled: in every history each stored
  request belongs to an intent event of its execution and operation, with the sequence number and
  digest it names, and to an executor session opened for its direction; no two requests share an
  identifier, and an operation is requested forward at most once.\<close>

theorem requests_rest_on_journaled_intents:
  assumes "intents_ok st" and "(store_step L)\<^sup>*\<^sup>* st st'"
  shows "(\<forall>r \<in> set (es_requests st'). \<exists>w \<in> set (es_journal st'). intent_matches st' (jw_event w) r)
    \<and> distinct (map rq_request_id (es_requests st'))
    \<and> (\<forall>i j. i < j \<and> j < length (es_requests st') \<longrightarrow>
         (let r = es_requests st' ! i; s = es_requests st' ! j
          in rq_direction r = Dir_Forward \<and> rq_direction s = Dir_Forward
             \<and> rq_execution_id r = rq_execution_id s \<longrightarrow> rq_operation_id r \<noteq> rq_operation_id s))"
proof -
  have "intents_ok st'"
    using assms(2,1) by (induction rule: rtranclp_induct) (auto intro: intents_ok_step)
  then show ?thesis
    by (auto simp: intents_ok_def sorted_wrt_iff_nth_less Let_def)
qed

text \<open>C25: Requests only progress: in every history a stored request keeps everything that
  identifies it, its state only moves along the allowed transitions, and a response that was
  recorded is never replaced.\<close>

theorem requests_only_progress:
  assumes "(store_step L)\<^sup>*\<^sup>* st st'"
  shows "list_all2 request_progress (es_requests st) (take (length (es_requests st)) (es_requests st'))"
proof -
  have "length (es_requests st) \<le> length (es_requests st')
    \<and> list_all2 request_progress (es_requests st) (take (length (es_requests st)) (es_requests st'))"
    using assms
  proof (induction rule: rtranclp_induct)
    case (step st1 st2)
    let ?n = "length (es_requests st)"
    have "list_all2 request_progress (take ?n (es_requests st1))
        (take ?n (take (length (es_requests st1)) (es_requests st2)))"
      using requests_step(1) [OF step.hyps(2)] by (rule list_all2_takeI)
    with step.IH requests_step(2) [OF step.hyps(2)] show ?case
      by (auto simp: min_absorb1 intro: list_all2_trans [OF request_progress_trans])
  qed (simp add: list.rel_refl)
  then show ?thesis by blast
qed

text \<open>The trigger of the schema and the check in the code are the same state machine: the
  trigger admits exactly the proper transitions that \<^verbatim>\<open>may_transition_to\<close> admits.\<close>

lemma trigger_agrees_with_code:
  "trigger_allows s t \<longleftrightarrow> may_transition_to s t \<and> s \<noteq> t"
  by (cases s; cases t) simp_all

lemma or_else_None: "or_else None b = b" "or_else (Some a) b = Some a"
  by (simp_all add: or_else_def)

lemma retention_check_refreshed: "retention_row_check (refreshed_retention plus30 session t r)"
  by (simp add: retention_row_check_def refreshed_retention_def Let_def lit_def)

text \<open>Retention protects evidence: refreshing the retention of an execution never violates the
  constraints of its table, and afterwards an execution that needs recovery is marked as such and
  neither it nor one that can still be rolled back has a date from which it may be cleaned up.\<close>

lemma retention_protects_evidence:
  "\<exists>st'. refresh_execution_retention L x t st = Inr st'
     \<and> (\<forall>r \<in> set (es_retentions st'). \<forall>s. xrm_execution_id r = x \<and> session_row st x = Some s \<longrightarrow>
          (er_recovery_state s \<in> {Rec_RecoveryRequired, Rec_RecoveryAmbiguous} \<longrightarrow>
             xrm_active_recovery r \<and> \<not> xrm_rollback_eligible r \<and> xrm_cleanup_eligible_at r = None)
          \<and> (er_rollback_available s \<longrightarrow> xrm_cleanup_eligible_at r = None))"
proof -
  let ?f = "refreshed_retention (sql_plus_30_days L) (session_row st x) t"
  let ?rows = "map (\<lambda>r. if xrm_execution_id r = x then ?f r else r) (es_retentions st)"
  have "refresh_execution_retention L x t st = Inr (st\<lparr>es_retentions := ?rows\<rparr>)"
    by (simp add: refresh_execution_retention_def update_where_def retention_check_refreshed list_all_iff)
  then show ?thesis
    by (auto simp: refreshed_retention_def Let_def)
qed

text \<open>The statement that finalises the retention of an execution still reports it as not
  finalised, because it reads the row as it was: only a second refresh gives the date from which
  the execution may be cleaned up.\<close>

lemma finalisation_is_reported_late:
  assumes "xrm_finalized_at r = None" "er_status s \<in> terminal_statuses"
    and "er_recovery_state s \<notin> {Rec_RecoveryRequired, Rec_RecoveryAmbiguous}"
    and "\<not> er_rollback_available s"
  shows "let r1 = refreshed_retention plus30 (Some s) t r; r2 = refreshed_retention plus30 (Some s) t r1
    in xrm_finalized_at r1 = Some t \<and> xrm_cleanup_eligible_at r1 = None
       \<and> xrm_cleanup_eligibility_reason r1 = lit ''execution_not_finalized''
       \<and> xrm_cleanup_eligible_at r2 = xrm_minimum_retain_until r2
       \<and> xrm_cleanup_eligibility_reason r2 = lit ''eligible_after_minimum_retention''"
  using assms by (simp add: refreshed_retention_def Let_def or_else_None)

section \<open>A concrete store\<close>

definition sample_store_libs :: "ustring store_libs" where
  "sample_store_libs =
     \<lparr>blake3 = (\<lambda>_. 5), uuid_text = (\<lambda>_. []), json_parse = (\<lambda>_. Some []),
      json_get = (\<lambda>_ name. Some name), json_as_str = (\<lambda>_. Some (replicate 64 97)),
      json_as_u64 = (\<lambda>_. Some 1), sql_plus_30_days = Some\<rparr>"

definition sample_execution_row :: execution_row where
  "sample_execution_row =
     \<lparr>er_id = 1, er_plan_id = 2, er_plan_digest = [], er_status = St_Approved,
      er_recovery_state = Rec_RecoveryNotRequired, er_journal_sequence = - 1,
      er_journal_chain_head = None, er_current_operation = None, er_pause_requested = False,
      er_cancel_requested = False, er_applied_count = 0, er_blocked_count = 0, er_skipped_count = 0,
      er_failed_count = 0, er_rolled_back_count = 0, er_rollback_blocked_count = 0,
      er_rollback_failed_count = 0, er_rollback_available = False, er_started_at = None,
      er_completed_at = None, er_rolled_back_at = None, er_error_message = None\<rparr>"

definition sample_operation :: execution_operation where
  "sample_operation =
     \<lparr>xop_id = 9, xop_execution_id = 1, xop_proposal_operation_id = None, xop_kind = Xk_Move,
      xop_source_relative_path = Some [97], xop_destination_relative_path = [98],
      xop_original_source_relative_path = None, xop_expected_source_hash = None,
      xop_expected_source_size = None, xop_expected_source_modified_at = None,
      xop_live_fingerprint = None, xop_post_fingerprint = None, xop_preconditions = [],
      xop_dependencies = [], xop_sequence = 0, xop_status = Op_PreflightOk,
      xop_directory_existed_before = None, xop_reason = None, xop_error_code = None,
      xop_error_message = None, xop_started_at = None, xop_completed_at = None,
      xop_rolled_back_at = None\<rparr>"

definition sample_executor_session :: executor_session_identity where
  "sample_executor_session =
     \<lparr>xsi_session_id = replicate 64 97, xsi_execution_id = 1, xsi_plan_id = 2,
      xsi_plan_digest_hex = [], xsi_purpose = Purpose_Forward, xsi_coordinator_pid = 1,
      xsi_child_pid = None, xsi_worker_nonce_hash_hex = [], xsi_coordinator_nonce_hash_hex = [],
      xsi_response_nonce_hash_hex = None, xsi_opened_at_unix_ms = 0\<rparr>"

definition sample_store :: execution_store where
  "sample_store =
     \<lparr>es_poisoned = False, es_sessions = [sample_execution_row], es_operations = [sample_operation],
      es_journal = [], es_executor_sessions = [sample_executor_session], es_requests = [],
      es_rollbacks = [], es_recoveries = [], es_retentions = []\<rparr>"

definition sample_intent :: journal_event where
  "sample_intent = journal_event_new sample_store_libs 1 0 (Some 9) IntentDurable
     (utf8_bytes [123, 125]) None 0"

definition sample_update :: event_update where
  "sample_update =
     \<lparr>eu_operation_status = Some Op_Running, eu_session_status = Some St_Running,
      eu_post_fingerprint = None, eu_error_code = None, eu_error_message = None,
      eu_created_at = [], eu_request_intent = Some
        \<lparr>xri_request_id = replicate 64 97, xri_session_id = replicate 64 97, xri_execution_id = 1,
         xri_operation_id = 9, xri_direction = Dir_Forward, xri_request_sequence = 1,
         xri_request_nonce = 1, xri_request_digest_hex = replicate 64 97\<rparr>,
      eu_request_proof = None\<rparr>"

definition sample_after :: execution_store where
  "sample_after = snd (persist_execution_event sample_store_libs sample_intent [123, 125]
     sample_update sample_store)"

lemma sample_store_step: "(store_step sample_store_libs)\<^sup>*\<^sup>* sample_store sample_after"
  unfolding sample_after_def
  by (rule r_into_rtranclp, rule step_event) (rule prod.collapse [symmetric])

lemma sample_store_ok: "chain_ok sample_store_libs sample_store" "intents_ok sample_store"
  by (simp_all add: chain_ok_def intents_ok_def sample_store_def journal_key_def raw_journal_def
      sample_execution_row_def)

lemma sample_ids: "utf8_bytes (replicate 64 97) = replicate 64 97"
  by (simp add: utf8_bytes_ascii_text list_all_iff)

lemma sample_after_persisted:
  "\<not> es_poisoned sample_after" "length (es_requests sample_after) = 1"
  "session_row sample_after 1 \<noteq> None"
proof -
  have "\<not> es_poisoned sample_after \<and> length (es_requests sample_after) = 1
     \<and> session_row sample_after 1 \<noteq> None"
    by (simp add: sample_after_def persist_execution_event_def sample_store_libs_def
        sample_intent_def journal_event_new_def Let_def in_transaction_def sample_store_def
        persist_event_body_def session_row_def sample_execution_row_def to_sql_u64_def i64_max_def
        sat_add_i64_def clamp_i64_def i64_min_def event_verify_def insert_journal_row_def
        sample_operation_def sample_update_def insert_request_intent_def sample_ids
        payload_names_request_def sample_executor_session_def request_insertable_def request_of_def
        request_row_check_def update_sessions_def update_where_def session_after_event_def
        execution_row_check_def opt_length_le_def one_active_def update_step_of_event_def
        update_operations_def operation_after_event_def operation_row_check_def
        refresh_execution_counts_def refresh_execution_retention_def or_else_def
        blocks_new_execution_def terminal_statuses_def image_def)
  then show "\<not> es_poisoned sample_after" "length (es_requests sample_after) = 1"
    "session_row sample_after 1 \<noteq> None"
    by simp_all
qed

theorem stored_journals_always_validate_witness:
  "validate_execution_journal sample_store_libs sample_after 1 = Inr True"
proof -
  obtain r where "session_row sample_after 1 = Some r" using sample_after_persisted(3) by blast
  from stored_journals_always_validate [OF sample_store_ok(1) sample_store_step sample_after_persisted(1) this]
  show ?thesis by blast
qed

theorem requests_rest_on_journaled_intents_witness:
  "es_requests sample_after \<noteq> []
   \<and> (\<exists>w \<in> set (es_journal sample_after).
        intent_matches sample_after (jw_event w) (hd (es_requests sample_after)))"
  using requests_rest_on_journaled_intents [OF sample_store_ok(2) sample_store_step]
    sample_after_persisted(2)
  by (auto simp: neq_Nil_conv length_Suc_conv)

theorem requests_only_progress_witness:
  "list_all2 request_progress (es_requests sample_after)
     (take 1 (es_requests (snd (record_executor_response (replicate 64 97) (replicate 64 98)
        (lit ''success'') None None Req_AcknowledgedSuccess [] sample_after))))"
proof -
  let ?after = "snd (record_executor_response (replicate 64 97) (replicate 64 98)
        (lit ''success'') None None Req_AcknowledgedSuccess [] sample_after)"
  have "store_step sample_store_libs sample_after ?after"
    by (rule step_response) (rule prod.collapse [symmetric])
  then have "(store_step sample_store_libs)\<^sup>*\<^sup>* sample_after ?after" by (rule r_into_rtranclp)
  from requests_only_progress [OF this] sample_after_persisted(2) show ?thesis by simp
qed

theorem retention_protects_evidence_witness:
  "\<exists>st'. refresh_execution_retention sample_store_libs 1 [] sample_store = Inr st'"
  using retention_protects_evidence [of sample_store_libs 1 "[]" sample_store] by blast

definition sample_retention :: execution_retention_metadata where
  "sample_retention =
     \<lparr>xrm_execution_id = 1, xrm_finalized_at = None, xrm_journal_retention_reason = [97],
      xrm_rollback_retention_reason = [97], xrm_minimum_retain_until = None,
      xrm_active_recovery = False, xrm_rollback_eligible = False, xrm_cleanup_eligible_at = None,
      xrm_cleanup_eligibility_reason = [97], xrm_updated_at = []\<rparr>"

lemma finalisation_is_reported_late_example:
  "xrm_cleanup_eligibility_reason (refreshed_retention Some
     (Some (sample_execution_row\<lparr>er_status := St_Completed\<rparr>)) [98] sample_retention)
     = lit ''execution_not_finalized''"
  using finalisation_is_reported_late [of sample_retention
      "sample_execution_row\<lparr>er_status := St_Completed\<rparr>" Some "[98]"]
  by (simp add: sample_retention_def sample_execution_row_def terminal_statuses_def Let_def)

end
