(* ===== verification/Rust_Path.thy ===== *)
theory Rust_Path
  imports Rust_Text
begin

text \<open>
  \<^verbatim>\<open>std::path\<close> on the Unix targets of the program: a path is a byte string,
  \<^verbatim>\<open>Path::components\<close> parses it (repeated separators and interior \<^verbatim>\<open>.\<close> are dropped, a
  leading \<^verbatim>\<open>.\<close> is kept), and equality, \<^verbatim>\<open>starts_with\<close> and \<^verbatim>\<open>parent\<close> are those of the
  component sequence, as in the standard library. The main fact is
  \<open>components_join_normal\<close>: joining a relative path that has only normal components
  appends exactly those components to the base.
\<close>

type_synonym path = "byte list"

datatype component = RootDir | CurDir | ParentDir | Normal "byte list"

fun split_slash :: "byte list \<Rightarrow> byte list list" where
  "split_slash [] = [[]]"
| "split_slash (b # bs) =
     (if b = 47 then [] # split_slash bs
      else (case split_slash bs of [] \<Rightarrow> [[b]] | s # ss \<Rightarrow> (b # s) # ss))"

definition has_root :: "path \<Rightarrow> bool" where
  "has_root p \<longleftrightarrow> (case p of [] \<Rightarrow> False | b # _ \<Rightarrow> b = 47)"

definition seg_component :: "byte list \<Rightarrow> component option" where
  "seg_component s =
     (if s = [] \<or> s = [46] then None
      else if s = [46, 46] then Some ParentDir
      else Some (Normal s))"

definition body_components :: "byte list list \<Rightarrow> component list" where
  "body_components ss = List.map_filter seg_component ss"

definition components :: "path \<Rightarrow> component list" where
  "components p =
     (if has_root p then [RootDir]
      else if hd (split_slash p) = [46] then [CurDir] else [])
     @ body_components (split_slash p)"

definition is_absolute :: "path \<Rightarrow> bool" where
  "is_absolute p \<longleftrightarrow> has_root p"

text \<open>\<^verbatim>\<open>Path::join\<close>, that is \<^verbatim>\<open>PathBuf::push\<close> on a copy.\<close>

definition path_join :: "path \<Rightarrow> path \<Rightarrow> path" where
  "path_join p q =
     (if has_root q then q
      else if p = [] \<or> last p = 47 then p @ q
      else p @ 47 # q)"

text \<open>\<^verbatim>\<open>p == q\<close> and \<^verbatim>\<open>q.starts_with(p)\<close> compare components.\<close>

definition path_eq :: "path \<Rightarrow> path \<Rightarrow> bool" where
  "path_eq p q \<longleftrightarrow> components p = components q"

definition path_starts_with :: "path \<Rightarrow> path \<Rightarrow> bool" where
  "path_starts_with q p \<longleftrightarrow> starts_with (components p) (components q)"

fun is_normal :: "component \<Rightarrow> bool" where
  "is_normal (Normal _) = True"
| "is_normal _ = False"

definition all_normal :: "path \<Rightarrow> bool" where
  "all_normal p \<longleftrightarrow> list_all is_normal (components p)"

section \<open>Rendering and parents\<close>

fun component_bytes :: "component \<Rightarrow> byte list" where
  "component_bytes RootDir = []"
| "component_bytes CurDir = [46]"
| "component_bytes ParentDir = [46, 46]"
| "component_bytes (Normal s) = s"

fun join_slash :: "byte list list \<Rightarrow> byte list" where
  "join_slash [] = []"
| "join_slash [s] = s"
| "join_slash (s # t # ts) = s @ 47 # join_slash (t # ts)"

fun render :: "component list \<Rightarrow> path" where
  "render (RootDir # cs) = 47 # join_slash (map component_bytes cs)"
| "render cs = join_slash (map component_bytes cs)"

definition path_parent :: "path \<Rightarrow> path option" where
  "path_parent p =
     (case rev (components p) of
        [] \<Rightarrow> None
      | RootDir # _ \<Rightarrow> None
      | _ # cs \<Rightarrow> Some (render (rev cs)))"

section \<open>Facts\<close>

lemma split_slash_neq_Nil [simp]: "split_slash p \<noteq> []"
  by (induction p) (auto split: list.splits)

lemma split_slash_append: "split_slash (p @ 47 # q) = split_slash p @ split_slash q"
  by (induction p) (auto split: list.splits)

lemma split_slash_no_slash: "47 \<notin> set s \<Longrightarrow> split_slash s = [s]"
  by (induction s) auto

lemma split_slash_segments: "s \<in> set (split_slash p) \<Longrightarrow> 47 \<notin> set s"
  by (induction p arbitrary: s) (auto split: if_splits list.splits)

lemma body_components_simps [simp]:
  "body_components [] = []"
  "body_components (s # ss) =
     (case seg_component s of None \<Rightarrow> body_components ss | Some c \<Rightarrow> c # body_components ss)"
  "body_components (ss @ ts) = body_components ss @ body_components ts"
  by (simp_all add: body_components_def List.map_filter_def split: option.splits)

lemma seg_component_Nil [simp]: "seg_component [] = None"
  by (simp add: seg_component_def)

lemma has_root_simps [simp]:
  "has_root [] = False"
  "has_root (b # p) = (b = 47)"
  by (simp_all add: has_root_def)

lemma has_root_append: "p \<noteq> [] \<Longrightarrow> has_root (p @ q) = has_root p"
  by (cases p) auto

lemma hd_split_slash_append_slash: "hd (split_slash (p @ 47 # q)) = hd (split_slash p)"
  by (simp add: split_slash_append)

lemma has_root_hd_split: "has_root p \<Longrightarrow> hd (split_slash p) = []"
  by (cases p) auto

lemma components_relative:
  assumes "\<not> has_root q" and "CurDir \<notin> set (components q)"
  shows "components q = body_components (split_slash q)"
  using assms by (auto simp: components_def split: if_splits)

lemma components_join_slash:
  assumes "p \<noteq> []"
  shows "components (p @ 47 # q) = components p @ body_components (split_slash q)"
  using assms
  by (simp add: components_def has_root_append split_slash_append)

lemma components_trailing_slash:
  "components (p @ [47]) = (if p = [] then [RootDir] else components p)"
  by (simp add: components_def has_root_append split_slash_append)

theorem components_join_normal:
  assumes "\<not> has_root q" and "CurDir \<notin> set (components q)"
  shows "components (path_join p q) = components p @ components q"
proof -
  have q: "components q = body_components (split_slash q)"
    using assms by (rule components_relative)
  consider (empty) "p = []" | (sep) "p \<noteq> []" "last p = 47" | (nosep) "p \<noteq> []" "last p \<noteq> 47"
    by blast
  then show ?thesis
  proof cases
    case empty
    then show ?thesis using assms(1) by (simp add: path_join_def components_def)
  next
    case sep
    then obtain p' where p: "p = p' @ [47]" by (metis append_butlast_last_id)
    then have j: "path_join p q = p' @ 47 # q" using assms(1) by (simp add: path_join_def)
    show ?thesis
    proof (cases "p' = []")
      case True
      then show ?thesis using j p q by (simp add: components_def)
    next
      case False
      then show ?thesis using j p q by (simp add: components_join_slash components_trailing_slash)
    qed
  next
    case nosep
    then show ?thesis using assms(1) q by (simp add: path_join_def components_join_slash)
  qed
qed

lemma all_normal_relative:
  assumes "all_normal q"
  shows "\<not> has_root q" and "CurDir \<notin> set (components q)" and "ParentDir \<notin> set (components q)"
proof -
  have n: "\<forall>c \<in> set (components q). is_normal c"
    using assms by (simp add: all_normal_def list_all_iff)
  then show "CurDir \<notin> set (components q)" and "ParentDir \<notin> set (components q)" by auto
  show "\<not> has_root q"
  proof
    assume "has_root q"
    then have "RootDir \<in> set (components q)" by (simp add: components_def)
    with n show False by auto
  qed
qed

lemma components_join_all_normal:
  "all_normal q \<Longrightarrow> components (path_join p q) = components p @ components q"
  by (rule components_join_normal) (auto dest: all_normal_relative)

lemma path_starts_with_join:
  "all_normal q \<Longrightarrow> path_starts_with (path_join p q) p"
  by (simp add: path_starts_with_def starts_with_iff components_join_all_normal)

subsection \<open>Rendered components parse back\<close>

fun wf_seg :: "component \<Rightarrow> bool" where
  "wf_seg (Normal s) \<longleftrightarrow> s \<noteq> [] \<and> s \<noteq> [46] \<and> s \<noteq> [46, 46] \<and> 47 \<notin> set s"
| "wf_seg ParentDir \<longleftrightarrow> True"
| "wf_seg _ \<longleftrightarrow> False"

definition wf_components :: "component list \<Rightarrow> bool" where
  "wf_components cs \<longleftrightarrow>
     (case cs of [] \<Rightarrow> True | c # ds \<Rightarrow> (c = RootDir \<or> c = CurDir \<or> wf_seg c) \<and> list_all wf_seg ds)"

lemma wf_seg_component: "47 \<notin> set s \<Longrightarrow> seg_component s = Some c \<Longrightarrow> wf_seg c"
  by (auto simp: seg_component_def split: if_splits)

lemma wf_body_components: "list_all wf_seg (body_components (split_slash p))"
proof -
  have "\<forall>s \<in> set ss. 47 \<notin> set s \<Longrightarrow> list_all wf_seg (body_components ss)" for ss
    by (induction ss) (auto split: option.splits intro: wf_seg_component)
  then show ?thesis by (simp add: split_slash_segments)
qed

lemma wf_components_components: "wf_components (components p)"
  using wf_body_components [of p]
  by (cases "body_components (split_slash p)") (auto simp: components_def wf_components_def)

lemma wf_seg_bytes:
  "wf_seg c \<Longrightarrow> 47 \<notin> set (component_bytes c) \<and> component_bytes c \<noteq> []
     \<and> seg_component (component_bytes c) = Some c \<and> component_bytes c \<noteq> [46]"
  by (cases c) (auto simp: seg_component_def)

lemma split_slash_join:
  "ss \<noteq> [] \<Longrightarrow> \<forall>s \<in> set ss. 47 \<notin> set s \<Longrightarrow> split_slash (join_slash ss) = ss"
proof (induction ss rule: join_slash.induct)
  case (3 s t ts)
  then show ?case by (simp add: split_slash_append split_slash_no_slash)
qed (auto simp: split_slash_no_slash)

lemma body_components_bytes:
  "list_all wf_seg cs \<Longrightarrow> body_components (map component_bytes cs) = cs"
  by (induction cs) (auto dest: wf_seg_bytes)

lemma join_slash_no_root:
  "ss \<noteq> [] \<Longrightarrow> hd ss \<noteq> [] \<Longrightarrow> 47 \<notin> set (hd ss) \<Longrightarrow> \<not> has_root (join_slash ss)"
proof (induction ss rule: join_slash.induct)
  case (2 s)
  then show ?case by (cases s) auto
next
  case (3 s t ts)
  then show ?case by (cases s) auto
qed simp

lemma components_join_segs:
  assumes "list_all wf_seg cs" and "cs \<noteq> []"
  shows "components (join_slash (map component_bytes cs)) = cs"
proof -
  let ?ss = "map component_bytes cs"
  have segs: "\<forall>s \<in> set ?ss. 47 \<notin> set s \<and> s \<noteq> [] \<and> s \<noteq> [46]"
    using assms(1) by (auto simp: list_all_iff dest: wf_seg_bytes)
  have ne: "?ss \<noteq> []" using assms(2) by simp
  have hd: "hd ?ss \<in> set ?ss" using ne by (rule hd_in_set)
  have s: "split_slash (join_slash ?ss) = ?ss" using ne segs by (simp add: split_slash_join)
  have "hd ?ss \<noteq> []" "47 \<notin> set (hd ?ss)" using hd segs by blast+
  with ne have "\<not> has_root (join_slash ?ss)" by (rule join_slash_no_root)
  moreover have "hd (split_slash (join_slash ?ss)) \<noteq> [46]" unfolding s using hd segs by blast
  ultimately show ?thesis using s body_components_bytes [OF assms(1)] by (simp add: components_def)
qed

lemma components_render: "wf_components cs \<Longrightarrow> components (render cs) = cs"
proof (cases cs)
  case Nil
  then show ?thesis by (simp add: components_def)
next
  case (Cons c ds)
  assume wf: "wf_components cs"
  then have ds: "list_all wf_seg ds" using Cons by (simp add: wf_components_def)
  have seg: "\<forall>s \<in> set (map component_bytes ds). 47 \<notin> set s"
    using ds by (auto simp: list_all_iff dest: wf_seg_bytes)
  consider (root) "c = RootDir" | (cur) "c = CurDir" | (seg) "wf_seg c"
    using wf Cons by (auto simp: wf_components_def)
  then show ?thesis
  proof cases
    case root
    show ?thesis
    proof (cases "ds = []")
      case True
      then show ?thesis using Cons root by (simp add: components_def)
    next
      case False
      then have "split_slash (join_slash (map component_bytes ds)) = map component_bytes ds"
        using seg by (simp add: split_slash_join)
      then show ?thesis using Cons root ds by (simp add: components_def body_components_bytes)
    qed
  next
    case cur
    have "split_slash (join_slash ([46] # map component_bytes ds)) = [46] # map component_bytes ds"
      using seg by (intro split_slash_join) auto
    moreover have "\<not> has_root (join_slash ([46] # map component_bytes ds))"
      by (rule join_slash_no_root) auto
    moreover have "seg_component [46] = None" by (simp add: seg_component_def)
    ultimately show ?thesis using Cons cur ds by (simp add: components_def body_components_bytes)
  next
    case seg
    then have "list_all wf_seg cs" using Cons ds by simp
    moreover have "render cs = join_slash (map component_bytes cs)"
      using Cons seg by (cases c) auto
    ultimately show ?thesis using components_join_segs [of cs] Cons by simp
  qed
qed

lemma wf_components_butlast: "wf_components cs \<Longrightarrow> wf_components (butlast cs)"
  by (cases cs) (auto simp: wf_components_def list_all_iff split: list.splits dest: in_set_butlastD)

text \<open>The components of the parent are those of the path without the last one.\<close>

lemma components_parent:
  assumes "path_parent p = Some q"
  shows "components q = butlast (components p)"
proof -
  obtain c cs where r: "rev (components p) = c # cs" and q: "q = render (rev cs)"
    using assms by (auto simp: path_parent_def split: list.splits component.splits)
  then have "components p = rev cs @ [c]" by (metis rev.simps(2) rev_rev_ident)
  moreover from this have "wf_components (rev cs)"
    using wf_components_butlast [OF wf_components_components [of p]] by simp
  ultimately show ?thesis using q by (simp add: components_render)
qed

end
