(* ===== verification/Platform.thy ===== *)
theory Platform
  imports Domain_Execution Rust_Path
begin

text \<open>
  \<^verbatim>\<open>crates/platform/src/lib.rs\<close>, the operating-system ports: error classes and errors, the
  read-only platform and the mutation capability as records of functions over a world
  \<open>'w\<close>, and the provided (default) methods of the two traits. The calls into
  \<^verbatim>\<open>std::fs\<close> are the fields of \<open>os_fs\<close>.
\<close>

section \<open>Error classes\<close>

definition STREAMING_FINGERPRINT_BUFFER_BYTES :: nat where
  "STREAMING_FINGERPRINT_BUFFER_BYTES = 1024 * 1024"

definition MAX_EXECUTION_FINGERPRINT_BYTES :: u64 where
  "MAX_EXECUTION_FINGERPRINT_BYTES = MAX_EXECUTION_VERIFICATION_BYTES"

datatype platform_error_class =
    ClassSharingViolation | ClassLockViolation | ClassPermissionDenied | ClassDiskFull
  | ClassDestinationCollision | ClassSourceMissing | ClassPathPolicyRefusal
  | ClassAmbiguousMutationOutcome | ClassCancelled | ClassVerificationLimit
  | ClassPrecondition | ClassUnsupported | ClassIo | ClassSecretStore

fun class_code :: "platform_error_class \<Rightarrow> ustring" where
  "class_code ClassSharingViolation = lit ''sharing_violation''"
| "class_code ClassLockViolation = lit ''lock_violation''"
| "class_code ClassPermissionDenied = lit ''permission_denied''"
| "class_code ClassDiskFull = lit ''disk_full''"
| "class_code ClassDestinationCollision = lit ''destination_collision''"
| "class_code ClassSourceMissing = lit ''source_missing''"
| "class_code ClassPathPolicyRefusal = lit ''path_policy_refusal''"
| "class_code ClassAmbiguousMutationOutcome = lit ''ambiguous_mutation_outcome''"
| "class_code ClassCancelled = lit ''cancelled''"
| "class_code ClassVerificationLimit = lit ''verification_limit''"
| "class_code ClassPrecondition = lit ''precondition''"
| "class_code ClassUnsupported = lit ''unsupported''"
| "class_code ClassIo = lit ''io''"
| "class_code ClassSecretStore = lit ''secret_store''"

definition classify_windows_error_code :: "u32 \<Rightarrow> platform_error_class" where
  "classify_windows_error_code code =
     (if code = 2 \<or> code = 3 then ClassSourceMissing
      else if code = 5 then ClassPermissionDenied
      else if code = 32 then ClassSharingViolation
      else if code = 33 then ClassLockViolation
      else if code = 39 \<or> code = 112 then ClassDiskFull
      else if code = 80 \<or> code = 183 then ClassDestinationCollision
      else if code = 4390 \<or> code = 4394 \<or> code = 1920 then ClassPathPolicyRefusal
      else ClassIo)"

section \<open>Errors\<close>

text \<open>
  \<^verbatim>\<open>std::io::Error\<close>: what the program inspects is its kind. An error made from a raw OS
  code has the kind of the Unix table (\<^verbatim>\<open>EPERM\<close>, \<^verbatim>\<open>ENOENT\<close>, \<^verbatim>\<open>EACCES\<close>).
\<close>

datatype io_error_kind = KindNotFound | KindPermissionDenied | KindOther

datatype io_error = IoError io_error_kind ustring | RawOsError int

fun io_kind :: "io_error \<Rightarrow> io_error_kind" where
  "io_kind (IoError k _) = k"
| "io_kind (RawOsError n) =
     (if n = 2 then KindNotFound else if n = 1 \<or> n = 13 then KindPermissionDenied else KindOther)"

datatype platform_error =
    PlatOutsideRoot | PlatReparsePoint | PlatCloudPlaceholder | PlatPathPolicyRefusal
  | PlatUnsupported ustring | PlatPrecondition ustring | PlatSharingViolation
  | PlatLockViolation | PlatPermissionDenied | PlatDiskFull | PlatDestinationExists
  | PlatSourceMissing | PlatAmbiguousMutationOutcome | PlatCancelled
  | PlatVerificationLimitExceeded u64 | PlatIo io_error | PlatSecretStore ustring

fun error_class :: "platform_error \<Rightarrow> platform_error_class" where
  "error_class PlatOutsideRoot = ClassPathPolicyRefusal"
| "error_class PlatReparsePoint = ClassPathPolicyRefusal"
| "error_class PlatCloudPlaceholder = ClassPathPolicyRefusal"
| "error_class PlatPathPolicyRefusal = ClassPathPolicyRefusal"
| "error_class (PlatUnsupported _) = ClassUnsupported"
| "error_class (PlatPrecondition _) = ClassPrecondition"
| "error_class PlatSharingViolation = ClassSharingViolation"
| "error_class PlatLockViolation = ClassLockViolation"
| "error_class PlatPermissionDenied = ClassPermissionDenied"
| "error_class PlatDiskFull = ClassDiskFull"
| "error_class PlatDestinationExists = ClassDestinationCollision"
| "error_class PlatSourceMissing = ClassSourceMissing"
| "error_class PlatAmbiguousMutationOutcome = ClassAmbiguousMutationOutcome"
| "error_class PlatCancelled = ClassCancelled"
| "error_class (PlatVerificationLimitExceeded _) = ClassVerificationLimit"
| "error_class (PlatIo _) = ClassIo"
| "error_class (PlatSecretStore _) = ClassSecretStore"

definition retryable_before_mutation :: "platform_error \<Rightarrow> bool" where
  "retryable_before_mutation e \<longleftrightarrow> e = PlatSharingViolation \<or> e = PlatLockViolation"

definition from_windows_code :: "u32 \<Rightarrow> bool \<Rightarrow> platform_error" where
  "from_windows_code code mutation_outcome_uncertain =
     (if mutation_outcome_uncertain then PlatAmbiguousMutationOutcome
      else (case classify_windows_error_code code of
              ClassSharingViolation \<Rightarrow> PlatSharingViolation
            | ClassLockViolation \<Rightarrow> PlatLockViolation
            | ClassPermissionDenied \<Rightarrow> PlatPermissionDenied
            | ClassDiskFull \<Rightarrow> PlatDiskFull
            | ClassDestinationCollision \<Rightarrow> PlatDestinationExists
            | ClassSourceMissing \<Rightarrow> PlatSourceMissing
            | ClassPathPolicyRefusal \<Rightarrow> PlatPathPolicyRefusal
            | _ \<Rightarrow> PlatIo (RawOsError (if uint code < 2 ^ 31 then uint code else 2 ^ 31 - 1))))"

definition inspection_error :: "platform_error \<Rightarrow> platform_error" where
  "inspection_error error =
     (case error of
        PlatIo e \<Rightarrow> (case io_kind e of
                       KindNotFound \<Rightarrow> PlatSourceMissing
                     | KindPermissionDenied \<Rightarrow> PlatPermissionDenied
                     | KindOther \<Rightarrow> error)
      | other \<Rightarrow> other)"

section \<open>Read-only inspection\<close>

record fingerprint_progress =
  fpp_bytes_hashed :: u64
  fpp_total_bytes :: u64

record read_only_entry =
  roe_absolute_path :: path
  roe_relative_path :: native_path
  roe_identity :: native_file_identity
  roe_byte_size :: u64
  roe_modified_at_ns :: "int option"
  roe_created_at_ns :: "int option"
  roe_accessed_at_ns :: "int option"
  roe_attributes :: u64
  roe_read_only :: bool
  roe_hidden :: bool
  roe_cloud_placeholder :: bool
  roe_encrypted :: bool

record enumeration_issue =
  iss_path :: path
  iss_error :: platform_error
  iss_is_directory :: bool

record enumeration_progress =
  ep_entries_discovered :: u64
  ep_files_discovered :: u64
  ep_directories_discovered :: u64
  ep_bytes_discovered :: u64
  ep_errors :: u64
  ep_skipped_items :: u64

record read_only_enumeration =
  enum_files :: "read_only_entry list"
  enum_issues :: "enumeration_issue list"
  enum_progress :: enumeration_progress
  enum_truncated :: bool
  enum_cancelled :: bool

text \<open>
  The required methods of \<^verbatim>\<open>ReadOnlyPlatform\<close>. A cancellation test reads the world, a
  progress callback changes it. \<open>usize_max\<close> is \<^verbatim>\<open>usize::MAX\<close>.
\<close>

record 'w read_only_platform =
  inspect_volume :: "path \<Rightarrow> ('w, platform_error, volume_identity) eff"
  enumerate_regular_files ::
    "path \<Rightarrow> nat \<Rightarrow> ('w \<Rightarrow> bool) \<Rightarrow> (enumeration_progress \<Rightarrow> 'w \<Rightarrow> 'w)
      \<Rightarrow> ('w, platform_error, read_only_enumeration) eff"
  read_bounded :: "path \<Rightarrow> u64 \<Rightarrow> ('w, platform_error, byte list) eff"
  read_prefix :: "path \<Rightarrow> nat \<Rightarrow> ('w, platform_error, byte list) eff"
  fingerprint :: "path \<Rightarrow> bool \<Rightarrow> u64 \<Rightarrow> ('w, platform_error, file_fingerprint) eff"

record 'w os_fs =
  canonicalize :: "path \<Rightarrow> ('w, io_error, path) eff"
  symlink_metadata :: "path \<Rightarrow> ('w, io_error, unit) eff"

definition usize_max :: nat where "usize_max = 2 ^ 64 - 1"

definition is_scoped_component :: "component \<Rightarrow> bool" where
  "is_scoped_component c \<longleftrightarrow> c \<noteq> ParentDir \<and> c \<noteq> RootDir"

definition validated_scoped_path ::
  "('w, 'x) os_fs_scheme \<Rightarrow> path \<Rightarrow> path \<Rightarrow> ('w, platform_error, path) eff" where
  "validated_scoped_path OS root_path relative_path =
     (if relative_path = [] \<or> is_absolute relative_path
         \<or> \<not> list_all is_scoped_component (components relative_path)
      then eff_err PlatOutsideRoot
      else
        eff_bind (eff_map_err PlatIo (canonicalize OS root_path)) (\<lambda>canonical_root.
        (let joined = path_join root_path relative_path in
         eff_bind (eff_map_err PlatIo (canonicalize OS joined)) (\<lambda>canonical_target.
           if path_eq canonical_target canonical_root
              \<or> \<not> path_starts_with canonical_target canonical_root
           then eff_err PlatOutsideRoot
           else eff_ok joined))))"

definition find_entry :: "path \<Rightarrow> read_only_enumeration \<Rightarrow> read_only_entry option" where
  "find_entry target e = find (\<lambda>x. path_eq (roe_absolute_path x) target) (enum_files e)"

definition find_issue :: "path \<Rightarrow> read_only_enumeration \<Rightarrow> enumeration_issue option" where
  "find_issue target e = find (\<lambda>x. path_eq (iss_path x) target) (enum_issues e)"

definition inspect_regular_file ::
  "('w, 'x) os_fs_scheme \<Rightarrow> ('w, 'y) read_only_platform_scheme \<Rightarrow> path \<Rightarrow> path
    \<Rightarrow> ('w, platform_error, read_only_entry) eff" where
  "inspect_regular_file OS P root_path relative_path =
     eff_bind (eff_map_err inspection_error (validated_scoped_path OS root_path relative_path)) (\<lambda>target.
     eff_bind (enumerate_regular_files P root_path usize_max (\<lambda>_. False) (\<lambda>_ w. w)) (\<lambda>enumeration.
       case find_entry target enumeration of
         Some entry \<Rightarrow> eff_ok entry
       | None \<Rightarrow>
           (case find_issue target enumeration of
              Some issue \<Rightarrow> eff_err (inspection_error (iss_error issue))
            | None \<Rightarrow> eff_err PlatSourceMissing)))"

definition read_bounded_scoped ::
  "('w, 'x) os_fs_scheme \<Rightarrow> ('w, 'y) read_only_platform_scheme \<Rightarrow> path \<Rightarrow> path \<Rightarrow> u64
    \<Rightarrow> ('w, platform_error, byte list) eff" where
  "read_bounded_scoped OS P root_path relative_path max_bytes =
     eff_bind (validated_scoped_path OS root_path relative_path) (\<lambda>p. read_bounded P p max_bytes)"

definition read_prefix_scoped ::
  "('w, 'x) os_fs_scheme \<Rightarrow> ('w, 'y) read_only_platform_scheme \<Rightarrow> path \<Rightarrow> path \<Rightarrow> nat
    \<Rightarrow> ('w, platform_error, byte list) eff" where
  "read_prefix_scoped OS P root_path relative_path max_bytes =
     eff_bind (validated_scoped_path OS root_path relative_path) (\<lambda>p. read_prefix P p max_bytes)"

text \<open>A callback and a cancellation test inside an effectful function.\<close>

definition eff_do :: "('w \<Rightarrow> 'w) \<Rightarrow> ('w, 'e, unit) eff" where
  "eff_do f w = (Inr (), f w)"

definition eff_ask :: "('w \<Rightarrow> 'a) \<Rightarrow> ('w, 'e, 'a) eff" where
  "eff_ask f w = (Inr (f w), w)"

definition fingerprint_streaming ::
  "('w, 'y) read_only_platform_scheme \<Rightarrow> path \<Rightarrow> bool \<Rightarrow> u64 \<Rightarrow> ('w \<Rightarrow> bool)
    \<Rightarrow> (fingerprint_progress \<Rightarrow> 'w \<Rightarrow> 'w) \<Rightarrow> ('w, platform_error, file_fingerprint) eff" where
  "fingerprint_streaming P p include_content_digest max_bytes is_cancelled on_progress =
     (if max_bytes > MAX_EXECUTION_FINGERPRINT_BYTES
      then eff_err (PlatVerificationLimitExceeded MAX_EXECUTION_FINGERPRINT_BYTES)
      else
        eff_bind (eff_ask is_cancelled) (\<lambda>cancelled. if cancelled then eff_err PlatCancelled else
        eff_bind (eff_do (on_progress \<lparr>fpp_bytes_hashed = 0, fpp_total_bytes = 0\<rparr>)) (\<lambda>_.
        eff_bind (fingerprint P p include_content_digest max_bytes) (\<lambda>fp.
        if fp_byte_size fp > max_bytes then eff_err (PlatVerificationLimitExceeded max_bytes)
        else
          eff_bind (eff_ask is_cancelled) (\<lambda>cancelled. if cancelled then eff_err PlatCancelled else
          eff_bind (eff_do (on_progress
              \<lparr>fpp_bytes_hashed = (if include_content_digest then fp_byte_size fp else 0),
               fpp_total_bytes = fp_byte_size fp\<rparr>)) (\<lambda>_.
          eff_ok fp))))))"

section \<open>The mutation capability\<close>

record rename_request =
  rr_source :: path
  rr_destination :: path
  rr_expected_identity :: native_file_identity
  rr_expected_byte_size :: u64
  rr_expected_modified_at_ns :: "int option"
  rr_expected_attributes :: u64
  rr_expected_content_digest :: digest
  rr_maximum_hash_bytes :: u64

record rename_outcome =
  ro_observed_identity :: native_file_identity

record 'w safe_file_operations =
  rename_same_volume_no_replace :: "rename_request \<Rightarrow> ('w, platform_error, rename_outcome) eff"
  create_directory_no_replace :: "path \<Rightarrow> ('w, platform_error, unit) eff"
  remove_directory_if_empty :: "path \<Rightarrow> ('w, platform_error, unit) eff"

definition validate_destination_absent ::
  "('w, 'x) os_fs_scheme \<Rightarrow> path \<Rightarrow> ('w, platform_error, unit) eff" where
  "validate_destination_absent OS p w =
     (case symlink_metadata OS p w of
        (Inr _, w') \<Rightarrow> (Inl PlatDestinationExists, w')
      | (Inl error, w') \<Rightarrow>
          (if io_kind error = KindNotFound then (Inr (), w')
           else if io_kind error = KindPermissionDenied then (Inl PlatPermissionDenied, w')
           else (Inl (PlatIo error), w')))"

section \<open>Lemmas\<close>

lemma class_code_inj: "class_code c = class_code d \<Longrightarrow> c = d"
  by (cases c; cases d) simp_all

lemma from_windows_code_class:
  "error_class (from_windows_code code False) = classify_windows_error_code code"
  by (simp add: from_windows_code_def classify_windows_error_code_def)

lemma retryable_class:
  "retryable_before_mutation e \<longleftrightarrow> error_class e \<in> {ClassSharingViolation, ClassLockViolation}"
  by (cases e) (simp_all add: retryable_before_mutation_def)

lemma classify_retryable:
  "(classify_windows_error_code code = ClassSharingViolation
    \<or> classify_windows_error_code code = ClassLockViolation) \<longleftrightarrow> code = 32 \<or> code = 33"
  by (simp add: classify_windows_error_code_def)

lemma validated_scoped_path_Inr:
  assumes "validated_scoped_path OS r q w = (Inr p, w')"
  shows "p = path_join r q" and "q \<noteq> []" and "\<not> is_absolute q"
    and "list_all is_scoped_component (components q)"
    and "\<exists>cr ct w1. canonicalize OS r w = (Inr cr, w1) \<and> canonicalize OS p w1 = (Inr ct, w')
           \<and> path_starts_with ct cr \<and> \<not> path_eq ct cr"
  using assms
  by (auto simp: validated_scoped_path_def eff_bind_Inr eff_map_err_def map_err_Inr Let_def eff_ok_def
      eff_err_def split: if_splits prod.splits)

lemma scoped_components:
  "\<not> is_absolute q \<Longrightarrow> list_all is_scoped_component (components q) \<Longrightarrow>
   \<forall>c \<in> set (components q). c = CurDir \<or> is_normal c"
  by (auto simp: list_all_iff is_scoped_component_def) (metis component.exhaust is_normal.simps(1))

lemma fingerprint_streaming_Inr:
  assumes "fingerprint_streaming P p c m can prog w = (Inr fp, w')"
  shows "m \<le> MAX_EXECUTION_FINGERPRINT_BYTES" and "fp_byte_size fp \<le> m" and "\<not> can w"
  using assms
  by (auto simp: fingerprint_streaming_def eff_bind_Inr eff_ask_def eff_do_def eff_ok_def eff_err_def
      split: if_splits)

section \<open>Properties\<close>

text \<open>A Windows error is offered for a retry exactly when the outcome of the mutation is
  certain and the code is a sharing or lock violation; an uncertain outcome is always reported
  as ambiguous, and a certain one keeps the class of its code.\<close>

lemma windows_errors_retry_only_before_mutation:
  "(retryable_before_mutation (from_windows_code code uncertain)
     \<longleftrightarrow> \<not> uncertain \<and> (code = 32 \<or> code = 33))
   \<and> error_class (from_windows_code code uncertain)
     = (if uncertain then ClassAmbiguousMutationOutcome else classify_windows_error_code code)"
proof (cases uncertain)
  case True
  then show ?thesis by (simp add: from_windows_code_def retryable_before_mutation_def)
next
  case False
  then show ?thesis by (simp add: retryable_class from_windows_code_class classify_retryable)
qed

text \<open>A scoped read that succeeds has read a path whose canonical form lies strictly below the
  canonical form of the root, and the relative path it was given is not empty, not absolute and
  has no parent component.\<close>

lemma scoped_reads_stay_below_root:
  assumes "read_bounded_scoped OS P r q m w = (Inr bytes, w')"
  shows "\<exists>cr ct w1 w2. canonicalize OS r w = (Inr cr, w1)
    \<and> canonicalize OS (path_join r q) w1 = (Inr ct, w2)
    \<and> path_starts_with ct cr \<and> \<not> path_eq ct cr
    \<and> read_bounded P (path_join r q) m w2 = (Inr bytes, w')
    \<and> q \<noteq> [] \<and> \<not> is_absolute q \<and> ParentDir \<notin> set (components q)"
proof -
  obtain p w2 where v: "validated_scoped_path OS r q w = (Inr p, w2)"
    and rd: "read_bounded P p m w2 = (Inr bytes, w')"
    using assms by (auto simp: read_bounded_scoped_def eff_bind_Inr)
  note V = validated_scoped_path_Inr [OF v]
  have "ParentDir \<notin> set (components q)" using V(4) by (auto simp: list_all_iff is_scoped_component_def)
  with V rd show ?thesis by blast
qed

definition sample_os :: "unit os_fs" where
  "sample_os = \<lparr>canonicalize = (\<lambda>p w. (Inr p, w)), symlink_metadata = (\<lambda>p w. (Inl (RawOsError 2), w))\<rparr>"

definition sample_platform :: "unit read_only_platform" where
  "sample_platform =
     \<lparr>inspect_volume = (\<lambda>p w. (Inl PlatSourceMissing, w)),
      enumerate_regular_files = (\<lambda>p n c f w. (Inl PlatSourceMissing, w)),
      read_bounded = (\<lambda>p m w. (Inr [1], w)), read_prefix = (\<lambda>p m w. (Inr [1], w)),
      fingerprint = (\<lambda>p c m w. (Inl PlatSourceMissing, w))\<rparr>"

theorem scoped_reads_stay_below_root_witness:
  "read_bounded_scoped sample_os sample_platform [47, 114] [97] 10 () = (Inr [1], ())
   \<and> path_starts_with (path_join [47, 114] [97]) [47, 114]"
proof -
  have r: "read_bounded_scoped sample_os sample_platform [47, 114] [97] 10 () = (Inr [1], ())"
    by (simp add: read_bounded_scoped_def validated_scoped_path_def sample_os_def sample_platform_def
        eff_bind_def eff_map_err_def Let_def path_join_def is_absolute_def components_def
        seg_component_def is_scoped_component_def path_eq_def path_starts_with_def starts_with_def)
  show ?thesis using scoped_reads_stay_below_root [OF r] r by (auto simp: sample_os_def)
qed

text \<open>the portable streaming fingerprint never exceeds its bounds: whenever it succeeds the
  requested limit is at most the global ceiling, the reported size is within the requested limit
  and the operation was not cancelled at its start; a limit above the ceiling is refused before
  anything is read.\<close>

theorem streaming_fingerprint_bounded:
  "(fingerprint_streaming P p c m can prog w = (Inr fp, w') \<longrightarrow>
      m \<le> MAX_EXECUTION_FINGERPRINT_BYTES \<and> fp_byte_size fp \<le> m \<and> \<not> can w)
   \<and> (m > MAX_EXECUTION_FINGERPRINT_BYTES \<longrightarrow>
        fingerprint_streaming P p c m can prog w
          = (Inl (PlatVerificationLimitExceeded MAX_EXECUTION_FINGERPRINT_BYTES), w))"
  using fingerprint_streaming_Inr [of P p c m can prog w fp w']
  by (auto simp: fingerprint_streaming_def)

definition sample_streaming :: "unit read_only_platform" where
  "sample_streaming = sample_platform\<lparr>fingerprint := (\<lambda>p c m w. (Inr
     \<lparr>fp_native_identity =
        \<lparr>nid_volume = \<lparr>vol_platform = Linux, vol_stable_identifier = [], vol_filesystem_type = None,
                       vol_case_sensitive = True, vol_removable = False, vol_local = True\<rparr>,
         nid_object_key = [], nid_parent_key = [],
         nid_leaf_name = \<lparr>np_encoding = UnixBytes, np_bytes = [97]\<rparr>,
         nid_link_count = 1, nid_reparse_tag = None\<rparr>,
      fp_byte_size = 7, fp_modified_at_ns = None, fp_created_at_ns = None, fp_attributes = 0,
      fp_quick_digest = None, fp_content_digest = None\<rparr>, w))\<rparr>"

theorem streaming_fingerprint_bounded_witness:
  "\<exists>fp. fingerprint_streaming sample_streaming [97] True 10 (\<lambda>_. False) (\<lambda>_ w. w) () = (Inr fp, ())
     \<and> fp_byte_size fp \<le> 10"
proof -
  let ?run = "fingerprint_streaming sample_streaming [97] True 10 (\<lambda>_. False) (\<lambda>_ w. w) ()"
  have "\<exists>fp. ?run = (Inr fp, ())"
    by (simp add: fingerprint_streaming_def sample_streaming_def eff_bind_def eff_ask_def eff_do_def
        MAX_EXECUTION_FINGERPRINT_BYTES_def MAX_EXECUTION_VERIFICATION_BYTES_def)
  then obtain fp where fp: "?run = (Inr fp, ())" ..
  with streaming_fingerprint_bounded [of sample_streaming "[97]" True 10 "\<lambda>_. False" "\<lambda>_ w. w" "()" fp "()"]
  have "fp_byte_size fp \<le> 10" by simp
  with fp show ?thesis by blast
qed

end
