(* ===== verification/Journal.thy ===== *)
theory Journal
  imports Platform
begin

text \<open>
  The recovery journals of \<^verbatim>\<open>crates/operations/src/lib.rs\<close>: the \<^verbatim>\<open>DurableJournal\<close> trait as a
  record of functions over a world, its in-memory and locked implementations, and the
  validation of hash-chained events. The locale \<open>durable_journal\<close> is the contract the
  executor relies on. The encrypted file journal is in the theory \<^verbatim>\<open>File_Journal\<close>.
\<close>

section \<open>Errors and their texts\<close>

datatype operations_error =
    OpsGateDisabled ustring | OpsApprovalMismatch | OpsPlanIntegrity | OpsStaleSimulation
  | OpsRootMissing | OpsInvalidNativePath | OpsOutsideRoot | OpsMissingPrecondition
  | OpsPlatform platform_error | OpsJournal ustring | OpsSeal plan_seal_error

text \<open>
  \<^verbatim>\<open>Display\<close> of the errors. The texts of \<^verbatim>\<open>std::io::Error\<close> and \<^verbatim>\<open>serde_json::Error\<close> are
  parameters.
\<close>

record error_texts =
  io_text :: "io_error \<Rightarrow> ustring"
  serde_text :: ustring

fun platform_error_text :: "error_texts \<Rightarrow> platform_error \<Rightarrow> ustring" where
  "platform_error_text T PlatOutsideRoot = lit ''path is outside the registered root''"
| "platform_error_text T PlatReparsePoint = lit ''path contains a reparse point or symbolic link''"
| "platform_error_text T PlatCloudPlaceholder =
     lit ''cloud placeholder access would hydrate remote content''"
| "platform_error_text T PlatPathPolicyRefusal = lit ''path policy refused the filesystem entry''"
| "platform_error_text T (PlatUnsupported m) = lit ''filesystem operation is unsupported: '' @ m"
| "platform_error_text T (PlatPrecondition m) = lit ''filesystem precondition failed: '' @ m"
| "platform_error_text T PlatSharingViolation =
     lit ''file is in use because its sharing mode blocks the operation''"
| "platform_error_text T PlatLockViolation =
     lit ''file is in use because a byte-range or filesystem lock blocks the operation''"
| "platform_error_text T PlatPermissionDenied = lit ''permission denied''"
| "platform_error_text T PlatDiskFull = lit ''the destination volume has insufficient free space''"
| "platform_error_text T PlatDestinationExists = lit ''destination already exists''"
| "platform_error_text T PlatSourceMissing = lit ''source no longer exists''"
| "platform_error_text T PlatAmbiguousMutationOutcome = lit ''filesystem mutation outcome is ambiguous''"
| "platform_error_text T PlatCancelled = lit ''streaming verification was cancelled''"
| "platform_error_text T (PlatVerificationLimitExceeded n) =
     lit ''file exceeds the '' @ dec (unat n) @ lit ''-byte execution verification bound''"
| "platform_error_text T (PlatIo e) = lit ''I/O failure: '' @ io_text T e"
| "platform_error_text T (PlatSecretStore m) = lit ''secret store failure: '' @ m"

fun seal_error_text :: "error_texts \<Rightarrow> plan_seal_error \<Rightarrow> ustring" where
  "seal_error_text T SealEmpty = lit ''operation plan cannot be empty''"
| "seal_error_text T SealStaleSimulation = lit ''simulation does not match the proposal revision''"
| "seal_error_text T SealUnsafeStep = lit ''operation plan contains a step that is not safely reversible''"
| "seal_error_text T SealSerialization = lit ''operation plan could not be serialized: '' @ serde_text T"

fun operations_error_text :: "error_texts \<Rightarrow> operations_error \<Rightarrow> ustring" where
  "operations_error_text T (OpsGateDisabled m) = lit ''Apply is disabled: '' @ m"
| "operations_error_text T OpsApprovalMismatch = lit ''approval does not match the sealed plan''"
| "operations_error_text T OpsPlanIntegrity =
     lit ''sealed plan failed canonical integrity validation''"
| "operations_error_text T OpsStaleSimulation = lit ''proposal and simulation revisions do not match''"
| "operations_error_text T OpsRootMissing = lit ''root is not registered''"
| "operations_error_text T OpsInvalidNativePath = lit ''native path is invalid''"
| "operations_error_text T OpsOutsideRoot = lit ''resolved path escapes its registered root''"
| "operations_error_text T OpsMissingPrecondition = lit ''operation precondition is incomplete''"
| "operations_error_text T (OpsPlatform e) =
     lit ''filesystem operation failed: '' @ platform_error_text T e"
| "operations_error_text T (OpsJournal m) = lit ''journal failure: '' @ m"
| "operations_error_text T (OpsSeal e) = lit ''plan cannot be sealed: '' @ seal_error_text T e"

section \<open>The trait and its contract\<close>

record 'w journal_ops =
  j_append :: "journal_event \<Rightarrow> ('w, operations_error, unit) eff"
  j_flush :: "('w, operations_error, unit) eff"
  j_events :: "execution_id \<Rightarrow> ('w, operations_error, journal_event list) eff"
  j_diagnostics :: "'w \<Rightarrow> journal_diagnostic list"

text \<open>
  The contract: on states satisfying the journal's invariant a successful append adds exactly
  its event at the end of the log, a flush keeps the log, and a successful query returns the
  events of one execution in log order. A failed append promises nothing.
\<close>

locale durable_journal =
  fixes J :: "'w journal_ops"
    and inv :: "'w \<Rightarrow> bool"
    and log :: "'w \<Rightarrow> journal_event list"
  assumes append_ok: "inv w \<Longrightarrow> j_append J e w = (Inr (), w') \<Longrightarrow> inv w' \<and> log w' = log w @ [e]"
    and flush_ok: "inv w \<Longrightarrow> j_flush J w = (Inr (), w') \<Longrightarrow> inv w' \<and> log w' = log w"
    and events_ok: "inv w \<Longrightarrow> j_events J x w = (Inr es, w')
      \<Longrightarrow> es = filter (\<lambda>e. je_execution_id e = x) (log w) \<and> log w' = log w"
begin

text \<open>An append followed by a flush, the pattern of every caller.\<close>

definition append_flush :: "journal_event \<Rightarrow> ('w, operations_error, unit) eff" where
  "append_flush e = eff_bind (j_append J e) (\<lambda>_. j_flush J)"

lemma append_flush_ok:
  assumes "inv w" and "append_flush e w = (Inr (), w')"
  shows "inv w' \<and> log w' = log w @ [e]"
proof -
  obtain w1 where a: "j_append J e w = (Inr (), w1)" and f: "j_flush J w1 = (Inr (), w')"
    using assms(2) by (auto simp: append_flush_def eff_bind_Inr)
  have "inv w1 \<and> log w1 = log w @ [e]" using assms(1) a by (rule append_ok)
  then show ?thesis using flush_ok [OF _ f] by simp
qed

lemma events_after_append:
  assumes "inv w" and "j_append J e w = (Inr (), w1)" and "j_events J x w1 = (Inr es, w2)"
  shows "es = filter (\<lambda>e. je_execution_id e = x) (log w) @ (if je_execution_id e = x then [e] else [])"
proof -
  have w1: "inv w1 \<and> log w1 = log w @ [e]" using assms(1,2) by (rule append_ok)
  then have "es = filter (\<lambda>e. je_execution_id e = x) (log w1)"
    using events_ok [OF _ assms(3)] by simp
  with w1 show ?thesis by simp
qed

end

section \<open>MemoryJournal\<close>

record memory_journal =
  mj_poisoned :: bool
  mj_events :: "journal_event list"

definition memory_lock :: "(memory_journal, operations_error, unit) eff" where
  "memory_lock s =
     (if mj_poisoned s then (Inl (OpsJournal (lit ''journal mutex poisoned'')), s) else (Inr (), s))"

definition memory_journal_ops :: "memory_journal journal_ops" where
  "memory_journal_ops =
     \<lparr>j_append = (\<lambda>e. eff_bind memory_lock (\<lambda>_ s. (Inr (), s\<lparr>mj_events := mj_events s @ [e]\<rparr>))),
      j_flush = eff_ok (),
      j_events = (\<lambda>x. eff_bind memory_lock (\<lambda>_ s. (Inr (filter (\<lambda>e. je_execution_id e = x) (mj_events s)), s))),
      j_diagnostics = (\<lambda>_. [])\<rparr>"

interpretation memory: durable_journal memory_journal_ops "\<lambda>_. True" mj_events
  by unfold_locales
    (auto simp: memory_journal_ops_def memory_lock_def eff_bind_def split: if_splits)

section \<open>LockedJournal\<close>

definition from_open_error :: "error_texts \<Rightarrow> operations_error \<Rightarrow> int \<Rightarrow> journal_diagnostic" where
  "from_open_error T error detected_at_unix_ms =
     (let technical = operations_error_text T error;
          mentions = (\<lambda>words. list_ex (\<lambda>word. contains_text (lit word) technical) words);
          (code, message) =
            (if mentions [''decrypt'', ''authentication'', ''cipher'']
             then (lit ''external_journal_authentication_failed'',
                   lit ''The encrypted recovery journal could not be authenticated.'')
             else if mentions [''sequence'', ''hash chain'', ''event chain'', ''journal chain'',
                               ''chain verification'']
             then (lit ''external_journal_chain_invalid'',
                   lit ''The encrypted recovery journal chain is invalid.'')
             else if mentions [''invalid journal record'', ''unsupported journal version'', ''nonce'']
             then (lit ''external_journal_record_invalid'',
                   lit ''The encrypted recovery journal contains an invalid record.'')
             else (lit ''external_journal_unavailable'',
                   lit ''The encrypted recovery journal is unavailable.''))
      in \<lparr>jd_scope = Scope_External, jd_execution_id = None, jd_code = code, jd_message = message,
          jd_detected_at_unix_ms = detected_at_unix_ms, jd_recovery_available = False,
          jd_rollback_available = False\<rparr>)"

definition locked_error :: "journal_diagnostic \<Rightarrow> operations_error" where
  "locked_error d = OpsJournal (jd_code d @ lit '': '' @ jd_message d)"

definition locked_journal_ops :: "journal_diagnostic \<Rightarrow> 'w journal_ops" where
  "locked_journal_ops d =
     \<lparr>j_append = (\<lambda>_. eff_err (locked_error d)),
      j_flush = eff_err (locked_error d),
      j_events = (\<lambda>_. eff_err (locked_error d)),
      j_diagnostics = (\<lambda>_. [d])\<rparr>"

interpretation locked: durable_journal "locked_journal_ops d" "\<lambda>_. True" "\<lambda>_. []" for d
  by unfold_locales (simp_all add: locked_journal_ops_def)

section \<open>Chain validation\<close>

type_synonym chain_heads = "execution_id \<rightharpoonup> u64 \<times> digest"

text \<open>The test shared by \<^verbatim>\<open>append\<close> and \<^verbatim>\<open>validate_event_chains\<close>.\<close>

definition extends_chain :: "'a libs_scheme \<Rightarrow> chain_heads \<Rightarrow> journal_event \<Rightarrow> bool" where
  "extends_chain L heads e \<longleftrightarrow>
     (case heads (je_execution_id e) of
        Some (sequence, d) \<Rightarrow> je_sequence e = sat_succ64 sequence \<and> event_verify L e (Some d)
      | None \<Rightarrow> je_sequence e = 0 \<and> event_verify L e None)"

fun validate_event_chains ::
  "'a libs_scheme \<Rightarrow> journal_event list \<Rightarrow> chain_heads \<Rightarrow> operations_error + chain_heads" where
  "validate_event_chains L [] heads = Inr heads"
| "validate_event_chains L (e # es) heads =
     (if \<not> extends_chain L heads e
      then Inl (OpsJournal (lit ''journal chain verification failed''))
      else validate_event_chains L es (heads(je_execution_id e \<mapsto> (je_sequence e, je_event_digest e))))"

text \<open>
  The reference reading of a valid chain: the events of one execution, in order, carry the
  numbers 0, 1, 2, ... and each names the digest of the one before it.
\<close>

fun linked :: "'a libs_scheme \<Rightarrow> (u64 \<times> digest) option \<Rightarrow> journal_event list \<Rightarrow> bool" where
  "linked L head [] \<longleftrightarrow> True"
| "linked L head (e # es) \<longleftrightarrow>
     je_sequence e = (case head of None \<Rightarrow> 0 | Some (n, _) \<Rightarrow> sat_succ64 n)
     \<and> event_verify L e (map_option snd head)
     \<and> linked L (Some (je_sequence e, je_event_digest e)) es"

fun chain_head :: "(u64 \<times> digest) option \<Rightarrow> journal_event list \<Rightarrow> (u64 \<times> digest) option" where
  "chain_head head [] = head"
| "chain_head head (e # es) = chain_head (Some (je_sequence e, je_event_digest e)) es"

abbreviation of_execution :: "execution_id \<Rightarrow> journal_event list \<Rightarrow> journal_event list" where
  "of_execution x es \<equiv> filter (\<lambda>e. je_execution_id e = x) es"

lemma extends_chain_linked:
  "extends_chain L heads e \<longleftrightarrow> linked L (heads (je_execution_id e)) [e]"
  by (auto simp: extends_chain_def split: option.splits)

lemma validate_event_chains_Inr:
  "validate_event_chains L es heads = Inr heads' \<longleftrightarrow>
     (\<forall>x. linked L (heads x) (of_execution x es)) \<and> heads' = (\<lambda>x. chain_head (heads x) (of_execution x es))"
proof (induction es arbitrary: heads)
  case Nil
  then show ?case by auto
next
  case (Cons e es)
  let ?x = "je_execution_id e"
  let ?h = "heads(?x \<mapsto> (je_sequence e, je_event_digest e))"
  show ?case
  proof (cases "extends_chain L heads e")
    case False
    then have "\<not> linked L (heads ?x) (of_execution ?x (e # es))"
      by (auto simp: extends_chain_linked)
    with False show ?thesis by auto
  next
    case True
    then have e: "linked L (heads ?x) [e]" by (simp add: extends_chain_linked)
    have l: "linked L (?h x) (of_execution x es) = linked L (heads x) (of_execution x (e # es))" for x
      using e by auto
    have c: "chain_head (?h x) (of_execution x es) = chain_head (heads x) (of_execution x (e # es))" for x
      by auto
    have v: "validate_event_chains L (e # es) heads = validate_event_chains L es ?h"
      using True by simp
    show ?thesis unfolding v Cons.IH [of ?h] l c ..
  qed
qed

lemma linked_append:
  "linked L h (es @ fs) \<longleftrightarrow> linked L h es \<and> linked L (chain_head h es) fs"
  by (induction es arbitrary: h) auto

lemma chain_head_append: "chain_head h (es @ fs) = chain_head (chain_head h es) fs"
  by (induction es arbitrary: h) auto

lemma chain_head_snoc: "chain_head h (es @ [e]) = Some (je_sequence e, je_event_digest e)"
  by (simp add: chain_head_append)

lemma chain_head_None: "chain_head h es = None \<longleftrightarrow> h = None \<and> es = []"
  by (induction es arbitrary: h) auto

text \<open>Without saturation the numbers are the positions.\<close>

lemma linked_sequences:
  assumes "linked L None es" and "length es < 2 ^ 64"
  shows "\<forall>i < length es. je_sequence (es ! i) = of_nat i"
  using assms
proof (induction es rule: rev_induct)
  case (snoc e es)
  then have l: "linked L None es" "linked L (chain_head None es) [e]"
    by (simp_all add: linked_append)
  have IH: "\<forall>i < length es. je_sequence (es ! i) = of_nat i" using snoc l by simp
  have "je_sequence e = of_nat (length es)"
  proof (cases es rule: rev_cases)
    case Nil
    then show ?thesis using l(2) by simp
  next
    case (snoc fs f)
    have "je_sequence f = of_nat (length fs)" using IH snoc by auto
    moreover have "je_sequence e = sat_succ64 (je_sequence f)"
      using l(2) snoc by (simp add: chain_head_snoc)
    moreover have "sat_succ64 (of_nat (length fs)) = of_nat (Suc (length fs))"
      using snoc.prems snoc by (intro sat_succ64_of_nat) simp
    ultimately show ?thesis using snoc by simp
  qed
  with IH show ?case by (auto simp: nth_append less_Suc_eq)
qed simp

text \<open>
  Two valid chains with the same head digest and number are the same chain, unless the hash
  collides on two of their events or payloads.
\<close>

definition hash_clash :: "'a libs_scheme \<Rightarrow> journal_event list \<Rightarrow> journal_event list \<Rightarrow> bool" where
  "hash_clash L es fs \<longleftrightarrow>
     (\<exists>e \<in> set es. \<exists>f \<in> set fs. collide (blake3 L) (event_bytes L e) (event_bytes L f)
        \<or> collide (blake3 L) (je_payload e) (je_payload f))"

lemma chain_head_binds:
  assumes U: "uuid_display (uuid_text L)"
    and "linked L None es" and "linked L None fs" and "es \<noteq> []" and "fs \<noteq> []"
    and "snd (the (chain_head None es)) = snd (the (chain_head None fs))"
    and "\<forall>e \<in> set es \<union> set fs. is_i64 (je_occurred_at_unix_ms e)"
  shows "es = fs \<or> hash_clash L es fs"
  using assms(2-)
proof (induction es arbitrary: fs rule: rev_induct)
  case (snoc e es)
  obtain fs' f where fs: "fs = fs' @ [f]" using snoc.prems(4) by (cases fs rule: rev_cases) auto
  have le: "linked L None es" "linked L (chain_head None es) [e]"
    and lf: "linked L None fs'" "linked L (chain_head None fs') [f]"
    using snoc.prems(1,2) by (simp_all add: fs linked_append)
  have d: "je_event_digest e = je_event_digest f"
    using snoc.prems(5) by (simp add: fs chain_head_snoc)
  have ve: "event_verify L e (map_option snd (chain_head None es))"
    and vf: "event_verify L f (map_option snd (chain_head None fs'))"
    using le(2) lf(2) by simp_all
  have t: "is_i64 (je_occurred_at_unix_ms e)" "is_i64 (je_occurred_at_unix_ms f)"
    using snoc.prems(6) by (simp_all add: fs)
  have "e = f \<or> collide (blake3 L) (event_bytes L e) (event_bytes L f)
      \<or> collide (blake3 L) (je_payload e) (je_payload f)"
    by (rule event_digest_binds [OF U ve vf d t])
  moreover have "es @ [e] = fs \<or> hash_clash L (es @ [e]) fs" if ef: "e = f"
  proof -
    have p: "map_option snd (chain_head None es) = map_option snd (chain_head None fs')"
      using ve vf ef by (simp add: event_verify_iff)
    show ?thesis
    proof (cases "es = []")
      case True
      then have "chain_head None fs' = None" using p by simp
      then show ?thesis using True ef by (simp add: fs chain_head_None)
    next
      case False
      then have "fs' \<noteq> []" using p by (auto simp: chain_head_None)
      moreover have "snd (the (chain_head None es)) = snd (the (chain_head None fs'))"
        using p False \<open>fs' \<noteq> []\<close>
        by (cases "chain_head None es"; cases "chain_head None fs'") (auto simp: chain_head_None)
      ultimately have "es = fs' \<or> hash_clash L es fs'"
        using snoc.IH [OF le(1) lf(1) False] snoc.prems(6) by (simp add: fs)
      then show ?thesis using ef by (auto simp: fs hash_clash_def)
    qed
  qed
  ultimately show ?case by (auto simp: fs hash_clash_def)
qed simp

section \<open>Properties\<close>

text \<open>C28: chain validation is exact. The one pass over the whole file with its map of heads
  accepts a journal precisely when the events of every execution, read on their own, are
  numbered from zero in steps of one and each verifies against the digest of the one before;
  the heads it returns are the last number and digest of each execution.\<close>

theorem chain_validation_is_exact:
  "validate_event_chains L es Map.empty = Inr heads \<longleftrightarrow>
     (\<forall>x. linked L None (of_execution x es)) \<and> heads = (\<lambda>x. chain_head None (of_execution x es))"
  by (simp add: validate_event_chains_Inr)

text \<open>The last digest of a valid chain binds the whole history. Two histories of one
  execution that end in the same digest are the same list of events, unless the hash collides
  on two of their events or payloads: events cannot be removed, reordered, replaced or
  inserted.\<close>

lemma last_digest_binds_history:
  assumes "uuid_display (uuid_text L)"
    and "validate_event_chains L es Map.empty = Inr heads"
    and "validate_event_chains L fs Map.empty = Inr heads'"
    and "heads x = Some (n, d)" and "heads' x = Some (m, d)"
    and "\<forall>e \<in> set es \<union> set fs. is_i64 (je_occurred_at_unix_ms e)"
  shows "of_execution x es = of_execution x fs \<or> hash_clash L (of_execution x es) (of_execution x fs)"
proof -
  let ?es = "of_execution x es" and ?fs = "of_execution x fs"
  have l: "linked L None ?es" "linked L None ?fs"
    and h: "chain_head None ?es = Some (n, d)" "chain_head None ?fs = Some (m, d)"
    using assms(2-5) by (auto simp: validate_event_chains_Inr)
  have "?es \<noteq> []" "?fs \<noteq> []" using h by (auto simp: chain_head_None)
  moreover have "snd (the (chain_head None ?es)) = snd (the (chain_head None ?fs))" using h by simp
  moreover have "\<forall>e \<in> set ?es \<union> set ?fs. is_i64 (je_occurred_at_unix_ms e)" using assms(6) by auto
  ultimately show ?thesis by (rule chain_head_binds [OF assms(1) l])
qed

text \<open>A chain of two events and one of three.\<close>

definition sample_first :: journal_event where
  "sample_first = journal_event_new sample_plan_libs 1 0 None ApprovedDurable [1] None 5"

definition sample_second :: journal_event where
  "sample_second = journal_event_new sample_plan_libs 1 1 None ExecutionFinished [1]
     (Some (je_event_digest sample_first)) 5"

definition sample_third :: journal_event where
  "sample_third = journal_event_new sample_plan_libs 1 2 None ExecutionFinished [1]
     (Some (je_event_digest sample_second)) 5"

lemma sample_fields:
  "je_execution_id sample_first = 1" "je_execution_id sample_second = 1"
  "je_execution_id sample_third = 1"
  "je_sequence sample_first = 0" "je_sequence sample_second = 1" "je_sequence sample_third = 2"
  "je_kind sample_first = ApprovedDurable" "je_kind sample_second = ExecutionFinished"
  "je_kind sample_third = ExecutionFinished"
  "event_verify sample_plan_libs sample_first None"
  "event_verify sample_plan_libs sample_second (Some (je_event_digest sample_first))"
  "event_verify sample_plan_libs sample_third (Some (je_event_digest sample_second))"
  "je_occurred_at_unix_ms sample_first = 5" "je_occurred_at_unix_ms sample_second = 5"
  "je_occurred_at_unix_ms sample_third = 5"
  by (simp_all add: sample_first_def sample_second_def sample_third_def)

lemma sample_chain_valid:
  "validate_event_chains sample_plan_libs [sample_first, sample_second] Map.empty
     = Inr [1 \<mapsto> (1, je_event_digest sample_second)]"
  "validate_event_chains sample_plan_libs [sample_first, sample_second, sample_third] Map.empty
     = Inr [1 \<mapsto> (2, je_event_digest sample_third)]"
  by (simp_all add: extends_chain_def sample_fields sat_succ64_def)

lemma sample_digests_equal: "je_event_digest sample_second = je_event_digest sample_third"
proof -
  have u: "uuid_display (uuid_text sample_plan_libs)"
    using sample_uuid_display by (simp add: sample_plan_libs_def)
  have "length (event_preimage sample_plan_libs x n None k pd (Some d) t) = 117" for x n k pd d t
    using event_preimage_length [OF u] by simp
  then show ?thesis
    by (simp add: sample_second_def sample_third_def journal_event_new_digest)
      (simp add: sample_plan_libs_def)
qed

theorem last_digest_binds_history_witness:
  "hash_clash sample_plan_libs [sample_first, sample_second] [sample_first, sample_second, sample_third]"
proof -
  have u: "uuid_display (uuid_text sample_plan_libs)"
    using sample_uuid_display by (simp add: sample_plan_libs_def)
  have t: "is_i64 5" by (simp add: is_i64_def i64_min_def i64_max_def)
  have "of_execution 1 [sample_first, sample_second] = [sample_first, sample_second]"
    and "of_execution 1 [sample_first, sample_second, sample_third]
      = [sample_first, sample_second, sample_third]"
    by (simp_all add: sample_fields)
  with last_digest_binds_history [OF u sample_chain_valid, of 1 1 "je_event_digest sample_second" 2]
    sample_digests_equal t
  show ?thesis by (simp add: sample_fields)
qed

end
