(* ===== verification/File_Journal.thy ===== *)
theory File_Journal
  imports Journal
begin

text \<open>
  \<^verbatim>\<open>FileJournal\<close> of \<^verbatim>\<open>crates/operations/src/lib.rs\<close>: the append-only recovery journal whose
  lines are JSON records with a base64 nonce and ciphertext, its reader \<^verbatim>\<open>read_encrypted_events\<close>
  and the queries over it. The JSON and base64 codecs and the XChaCha20-Poly1305 cipher are
  parameters; what the code relies on of them is \<open>codec_ok\<close>. The file and the system calls on
  it are the state \<open>journal_file\<close>: each call takes its outcome from a script, and a failed write
  may leave a prefix of its bytes behind. The theory interprets \<open>durable_journal\<close> for the
  file journal.
\<close>

section \<open>Lines of a file\<close>

text \<open>\<^verbatim>\<open>String::from_utf8\<close> on the byte values.\<close>

definition is_continuation :: "nat \<Rightarrow> bool" where
  "is_continuation b \<longleftrightarrow> 0x80 \<le> b \<and> b < 0xC0"

fun utf8_decode_nats :: "nat list \<Rightarrow> ustring option" where
  "utf8_decode_nats [] = Some []"
| "utf8_decode_nats (a # xs) =
     (if a < 0x80 then map_option ((#) a) (utf8_decode_nats xs)
      else if 0xC2 \<le> a \<and> a < 0xE0 then
        (case xs of
           b # ys \<Rightarrow>
             if is_continuation b
             then map_option ((#) ((a - 0xC0) * 0x40 + (b - 0x80))) (utf8_decode_nats ys) else None
         | _ \<Rightarrow> None)
      else if 0xE0 \<le> a \<and> a < 0xF0 then
        (case xs of
           b # c # ys \<Rightarrow>
             (let v = (a - 0xE0) * 0x1000 + (b - 0x80) * 0x40 + (c - 0x80) in
              if is_continuation b \<and> is_continuation c \<and> 0x800 \<le> v \<and> is_scalar v
              then map_option ((#) v) (utf8_decode_nats ys) else None)
         | _ \<Rightarrow> None)
      else if 0xF0 \<le> a \<and> a < 0xF5 then
        (case xs of
           b # c # d # ys \<Rightarrow>
             (let v = (a - 0xF0) * 0x40000 + (b - 0x80) * 0x1000 + (c - 0x80) * 0x40 + (d - 0x80) in
              if is_continuation b \<and> is_continuation c \<and> is_continuation d \<and> 0x10000 \<le> v \<and> is_scalar v
              then map_option ((#) v) (utf8_decode_nats ys) else None)
         | _ \<Rightarrow> None)
      else None)"

definition utf8_decode :: "byte list \<Rightarrow> ustring option" where
  "utf8_decode bs = utf8_decode_nats (map unat bs)"

text \<open>
  \<^verbatim>\<open>BufRead::lines\<close>: a terminated line loses its newline and one carriage return before it;
  a last line without newline is returned as it is.
\<close>

definition strip_cr :: "byte list \<Rightarrow> byte list" where
  "strip_cr bs = (if bs \<noteq> [] \<and> last bs = 13 then butlast bs else bs)"

fun lines_from :: "byte list \<Rightarrow> byte list \<Rightarrow> byte list list" where
  "lines_from acc [] = (if acc = [] then [] else [rev acc])"
| "lines_from acc (b # bs) =
     (if b = 10 then strip_cr (rev acc) # lines_from [] bs else lines_from (b # acc) bs)"

abbreviation lines_of :: "byte list \<Rightarrow> byte list list" where
  "lines_of \<equiv> lines_from []"

definition newline_terminated :: "byte list \<Rightarrow> bool" where
  "newline_terminated bs \<longleftrightarrow> bs = [] \<or> last bs = 10"

section \<open>Codecs and cipher\<close>

record encrypted_journal_record =
  er_version :: u32
  er_nonce :: ustring
  er_ciphertext :: ustring

text \<open>Errors of the codecs are their texts, as the code only formats them.\<close>

record journal_libs = plan_libs +
  json_event :: "journal_event \<Rightarrow> ustring + byte list"
  parse_event :: "byte list \<Rightarrow> ustring + journal_event"
  json_record :: "encrypted_journal_record \<Rightarrow> ustring + byte list"
  parse_record :: "ustring \<Rightarrow> ustring + encrypted_journal_record"
  b64_encode :: "byte list \<Rightarrow> ustring"
  b64_decode :: "ustring \<Rightarrow> ustring + byte list"
  aead_encrypt :: "digest \<Rightarrow> nonce24 \<Rightarrow> byte list \<Rightarrow> byte list \<Rightarrow> byte list option"
  aead_decrypt :: "digest \<Rightarrow> nonce24 \<Rightarrow> byte list \<Rightarrow> byte list \<Rightarrow> byte list option"
  derive_key :: "ustring \<Rightarrow> byte list \<Rightarrow> digest"
  parse_approved ::
    "byte list \<Rightarrow> (sealed_plan \<times> approval_receipt \<times> (root_id \<rightharpoonup> path)) option"

text \<open>
  What the code relies on: each codec reads back what it wrote, decryption undoes encryption,
  and the compact JSON text of a record is UTF-8 on one line, not blank and not ending in a
  carriage return.
\<close>

definition codec_ok :: "'a journal_libs_scheme \<Rightarrow> bool" where
  "codec_ok L \<longleftrightarrow>
     (\<forall>e b. json_event L e = Inr b \<longrightarrow> parse_event L b = Inr e)
     \<and> (\<forall>r b. json_record L r = Inr b \<longrightarrow>
          10 \<notin> set b \<and> strip_cr b = b
          \<and> (\<exists>t. utf8_decode b = Some t \<and> trim t \<noteq> [] \<and> parse_record L t = Inr r))
     \<and> (\<forall>b. b64_decode L (b64_encode L b) = Inr b)
     \<and> (\<forall>k n a m c. aead_encrypt L k n a m = Some c \<longrightarrow> aead_decrypt L k n a c = Some m)"

definition journal_key_derive :: "'a journal_libs_scheme \<Rightarrow> byte list \<Rightarrow> digest" where
  "journal_key_derive L key_material =
     derive_key L (lit ''working-name operation recovery journal v1'') key_material"

definition journal_aad :: "byte list" where
  "journal_aad = map of_nat (lit ''working-name-operation-journal-v1'')"

text \<open>The array of 24 bytes from a slice of that length.\<close>

definition nonce_from_bytes :: "byte list \<Rightarrow> nonce24" where
  "nonce_from_bytes bs = word_of_nat (from_le bs)"

section \<open>Reading\<close>

definition decrypt_line ::
  "'a journal_libs_scheme \<Rightarrow> error_texts \<Rightarrow> digest \<Rightarrow> byte list
    \<Rightarrow> operations_error + journal_event option" where
  "decrypt_line L T key line =
     try_bind (ok_or (utf8_decode line)
       (OpsJournal (io_text T
          (IoError KindOther (lit ''stream did not contain valid UTF-8''))))) (\<lambda>text.
     if trim text = [] then Inr None
     else
       try_bind (map_err (\<lambda>e. OpsJournal (lit ''invalid journal record: '' @ e)) (parse_record L text))
         (\<lambda>record.
       if er_version record \<noteq> 1 then Inl (OpsJournal (lit ''unsupported journal version''))
       else
         try_bind (map_err OpsJournal (b64_decode L (er_nonce record))) (\<lambda>nonce.
         if length nonce \<noteq> 24 then Inl (OpsJournal (lit ''invalid journal nonce''))
         else
           try_bind (map_err OpsJournal (b64_decode L (er_ciphertext record))) (\<lambda>ciphertext.
           try_bind (ok_or (aead_decrypt L key (nonce_from_bytes nonce) journal_aad ciphertext)
               (OpsJournal (lit ''journal authentication failed''))) (\<lambda>plaintext.
           try_bind (map_err OpsJournal (parse_event L plaintext)) (\<lambda>e. Inr (Some e)))))))"

fun decrypt_lines ::
  "'a journal_libs_scheme \<Rightarrow> error_texts \<Rightarrow> digest \<Rightarrow> byte list list
    \<Rightarrow> operations_error + journal_event list" where
  "decrypt_lines L T key [] = Inr []"
| "decrypt_lines L T key (l # ls) =
     try_bind (decrypt_line L T key l) (\<lambda>event.
     try_bind (decrypt_lines L T key ls) (\<lambda>es.
       Inr (case event of None \<Rightarrow> es | Some e \<Rightarrow> e # es)))"

text \<open>The reader on the bytes of the file, when no read fails.\<close>

definition read_events_of ::
  "'a journal_libs_scheme \<Rightarrow> error_texts \<Rightarrow> digest \<Rightarrow> byte list
    \<Rightarrow> operations_error + journal_event list" where
  "read_events_of L T key content =
     try_bind (decrypt_lines L T key (lines_of content)) (\<lambda>es.
     try_bind (validate_event_chains L es Map.empty) (\<lambda>_. Inr es))"

section \<open>The file and its system calls\<close>

text \<open>
  \<open>jf_script\<close> holds the outcomes of the coming system calls: \<open>None\<close> is success, and
  \<open>Some (e, k)\<close> is the failure \<open>e\<close> after \<open>k\<close> bytes of a write or \<open>k\<close> lines of a read. When
  it is empty every call succeeds.
\<close>

record journal_file =
  jf_content :: "byte list option"
  jf_symlink :: bool
  jf_script :: "(io_error \<times> nat) option list"
  jf_entropy :: "nat \<Rightarrow> ustring + nonce24"
  jf_drawn :: nat

definition next_call :: "journal_file \<Rightarrow> (io_error \<times> nat) option \<times> journal_file" where
  "next_call f =
     (case jf_script f of [] \<Rightarrow> (None, f) | c # cs \<Rightarrow> (c, f\<lparr>jf_script := cs\<rparr>))"

definition fill_nonce :: "(journal_file, ustring, nonce24) eff" where
  "fill_nonce f = (jf_entropy f (jf_drawn f), f\<lparr>jf_drawn := Suc (jf_drawn f)\<rparr>)"

definition write_all :: "byte list \<Rightarrow> (journal_file, io_error, unit) eff" where
  "write_all bs f =
     (case next_call f of
        (None, g) \<Rightarrow> (Inr (), g\<lparr>jf_content := map_option (\<lambda>c. c @ bs) (jf_content g)\<rparr>)
      | (Some (e, k), g) \<Rightarrow>
          (Inl e, g\<lparr>jf_content := map_option (\<lambda>c. c @ take (min k (length bs - 1)) bs) (jf_content g)\<rparr>))"

definition sync_all :: "(journal_file, io_error, unit) eff" where
  "sync_all f = (case next_call f of (None, g) \<Rightarrow> (Inr (), g) | (Some (e, _), g) \<Rightarrow> (Inl e, g))"

definition open_read :: "(journal_file, io_error, byte list) eff" where
  "open_read f =
     (case next_call f of
        (Some (e, _), g) \<Rightarrow> (Inl e, g)
      | (None, g) \<Rightarrow> (case jf_content g of None \<Rightarrow> (Inl (RawOsError 2), g) | Some c \<Rightarrow> (Inr c, g)))"

text \<open>\<^verbatim>\<open>OpenOptions::new().create(true).append(true).open\<close>\<close>

definition open_append :: "(journal_file, io_error, unit) eff" where
  "open_append f =
     (case next_call f of
        (Some (e, _), g) \<Rightarrow> (Inl e, g)
      | (None, g) \<Rightarrow>
          (Inr (), g\<lparr>jf_content := Some (case jf_content g of None \<Rightarrow> [] | Some c \<Rightarrow> c)\<rparr>))"

definition path_exists :: "journal_file \<Rightarrow> bool \<times> journal_file" where
  "path_exists f =
     (case next_call f of (Some _, g) \<Rightarrow> (False, g) | (None, g) \<Rightarrow> (jf_content g \<noteq> None, g))"

definition is_symlink_ok :: "journal_file \<Rightarrow> bool \<times> journal_file" where
  "is_symlink_ok f =
     (case next_call f of (Some _, g) \<Rightarrow> (False, g) | (None, g) \<Rightarrow> (jf_symlink g, g))"

definition read_encrypted_events ::
  "'a journal_libs_scheme \<Rightarrow> error_texts \<Rightarrow> digest
    \<Rightarrow> (journal_file, operations_error, journal_event list) eff" where
  "read_encrypted_events L T key =
     eff_bind (eff_map_err (\<lambda>e. OpsJournal (io_text T e)) open_read) (\<lambda>content f.
       (case next_call f of
          (None, g) \<Rightarrow> (read_events_of L T key content, g)
        | (Some (e, k), g) \<Rightarrow>
            (try_bind (decrypt_lines L T key (take k (lines_of content)))
               (\<lambda>_. Inl (OpsJournal (io_text T e))), g)))"

section \<open>The journal\<close>

record file_journal =
  fj_disk :: journal_file
  fj_key :: digest
  fj_last :: chain_heads
  fj_file_poisoned :: bool
  fj_last_poisoned :: bool

text \<open>A system call of an operation of the journal.\<close>

definition on_disk :: "(journal_file, 'e, 'a) eff \<Rightarrow> (file_journal, 'e, 'a) eff" where
  "on_disk m s = (case m (fj_disk s) of (r, d) \<Rightarrow> (r, s\<lparr>fj_disk := d\<rparr>))"

abbreviation journal_io :: "error_texts \<Rightarrow> ('w, io_error, 'a) eff \<Rightarrow> ('w, operations_error, 'a) eff" where
  "journal_io T \<equiv> eff_map_err (\<lambda>e. OpsJournal (io_text T e))"

definition journal_open ::
  "'a journal_libs_scheme \<Rightarrow> error_texts \<Rightarrow> digest
    \<Rightarrow> journal_file \<Rightarrow> (operations_error + file_journal) \<times> journal_file" where
  "journal_open L T key f =
     (case is_symlink_ok f of
        (True, g) \<Rightarrow> (Inl (OpsJournal (lit ''journal path cannot be a symbolic link'')), g)
      | (False, g) \<Rightarrow>
          (case path_exists g of
             (exists, h) \<Rightarrow>
               eff_bind (if exists then read_encrypted_events L T key else eff_ok []) (\<lambda>existing.
               eff_bind (eff_lift (validate_event_chains L existing Map.empty)) (\<lambda>last_events.
               eff_bind (journal_io T open_append) (\<lambda>_ g'.
                 (Inr \<lparr>fj_disk = g', fj_key = key, fj_last = last_events,
                       fj_file_poisoned = False, fj_last_poisoned = False\<rparr>, g')))) h))"

datatype opened_journal = OpenedFile file_journal | OpenedLocked journal_diagnostic

definition open_or_locked ::
  "'a journal_libs_scheme \<Rightarrow> error_texts \<Rightarrow> digest \<Rightarrow> int \<Rightarrow> journal_file \<Rightarrow> opened_journal" where
  "open_or_locked L T key detected_at_unix_ms f =
     (case fst (journal_open L T key f) of
        Inr journal \<Rightarrow> OpenedFile journal
      | Inl error \<Rightarrow> OpenedLocked (from_open_error T error detected_at_unix_ms))"

definition lock_file :: "(file_journal, operations_error, unit) eff" where
  "lock_file s =
     (if fj_file_poisoned s then (Inl (OpsJournal (lit ''journal file mutex poisoned'')), s)
      else (Inr (), s))"

definition lock_last :: "(file_journal, operations_error, chain_heads) eff" where
  "lock_last s =
     (if fj_last_poisoned s then (Inl (OpsJournal (lit ''journal chain mutex poisoned'')), s)
      else (Inr (fj_last s), s))"

definition file_append ::
  "'a journal_libs_scheme \<Rightarrow> error_texts \<Rightarrow> journal_event \<Rightarrow> (file_journal, operations_error, unit) eff" where
  "file_append L T event =
     eff_bind lock_last (\<lambda>last_events.
     if \<not> extends_chain L last_events event
     then eff_err (OpsJournal (lit ''journal event sequence or hash chain is invalid''))
     else
       eff_bind (eff_lift (map_err OpsJournal (json_event L event))) (\<lambda>plaintext.
       eff_bind (eff_map_err OpsJournal (on_disk fill_nonce)) (\<lambda>nonce.
       eff_bind (eff_ask fj_key) (\<lambda>key.
       eff_bind (eff_lift (ok_or (aead_encrypt L key nonce journal_aad plaintext)
           (OpsJournal (lit ''journal encryption failed'')))) (\<lambda>ciphertext.
       eff_bind (eff_lift (map_err OpsJournal (json_record L
           \<lparr>er_version = 1, er_nonce = b64_encode L (word_le_bytes 24 nonce),
            er_ciphertext = b64_encode L ciphertext\<rparr>))) (\<lambda>encoded.
       eff_bind lock_file (\<lambda>_.
       eff_bind (journal_io T (on_disk (write_all (encoded @ [10])))) (\<lambda>_.
       eff_do (\<lambda>s. s\<lparr>fj_last := last_events(je_execution_id event
         \<mapsto> (je_sequence event, je_event_digest event))\<rparr>)))))))))"

definition file_flush :: "error_texts \<Rightarrow> (file_journal, operations_error, unit) eff" where
  "file_flush T = eff_bind lock_file (\<lambda>_. journal_io T (on_disk sync_all))"

definition file_read ::
  "'a journal_libs_scheme \<Rightarrow> error_texts \<Rightarrow> (file_journal, operations_error, journal_event list) eff" where
  "file_read L T = eff_bind (eff_ask fj_key) (\<lambda>key. on_disk (read_encrypted_events L T key))"

definition file_events ::
  "'a journal_libs_scheme \<Rightarrow> error_texts \<Rightarrow> execution_id
    \<Rightarrow> (file_journal, operations_error, journal_event list) eff" where
  "file_events L T x = eff_bind (file_read L T) (\<lambda>es. eff_ok (of_execution x es))"

definition file_journal_ops ::
  "'a journal_libs_scheme \<Rightarrow> error_texts \<Rightarrow> file_journal journal_ops" where
  "file_journal_ops L T =
     \<lparr>j_append = file_append L T, j_flush = file_flush T, j_events = file_events L T,
      j_diagnostics = (\<lambda>_. [])\<rparr>"

text \<open>Whether the last event of each execution was terminal, built event by event.\<close>

fun terminal_flags :: "journal_event list \<Rightarrow> (execution_id \<rightharpoonup> bool) \<Rightarrow> (execution_id \<rightharpoonup> bool)" where
  "terminal_flags [] terminal = terminal"
| "terminal_flags (e # es) terminal =
     terminal_flags es (terminal(je_execution_id e \<mapsto> je_kind e = ExecutionFinished))"

text \<open>
  The keys of the map come from the events; the sort makes the order of a \<^verbatim>\<open>HashMap\<close>
  irrelevant. UUIDs are compared as big-endian bytes, which is the order of the words.
\<close>

definition pending_ids :: "journal_event list \<Rightarrow> execution_id list" where
  "pending_ids es =
     (let terminal = terminal_flags es Map.empty
      in sort (filter (\<lambda>x. terminal x = Some False) (remdups (map je_execution_id es))))"

definition pending_execution_ids ::
  "'a journal_libs_scheme \<Rightarrow> error_texts \<Rightarrow> (file_journal, operations_error, execution_id list) eff" where
  "pending_execution_ids L T = eff_bind (file_read L T) (\<lambda>es. eff_ok (pending_ids es))"

definition approves_plan :: "'a journal_libs_scheme \<Rightarrow> plan_id \<Rightarrow> journal_event \<Rightarrow> bool" where
  "approves_plan L p e \<longleftrightarrow>
     je_kind e = ApprovedDurable
     \<and> (case parse_approved L (je_payload e) of
          Some (plan, _, _) \<Rightarrow> plan_id plan = p
        | None \<Rightarrow> False)"

definition contains_plan_id ::
  "'a journal_libs_scheme \<Rightarrow> error_texts \<Rightarrow> plan_id \<Rightarrow> (file_journal, operations_error, bool) eff" where
  "contains_plan_id L T p = eff_bind (file_read L T) (\<lambda>es. eff_ok (list_ex (approves_plan L p) es))"

section \<open>Lines and appending\<close>

lemma lines_from_append:
  "lines_from acc (bs @ 10 # cs) = lines_from acc (bs @ [10]) @ lines_of cs"
  by (induction acc bs rule: lines_from.induct) auto

lemma lines_from_line: "10 \<notin> set bs \<Longrightarrow> lines_from acc (bs @ [10]) = [strip_cr (rev acc @ bs)]"
  by (induction bs arbitrary: acc) auto

lemma lines_of_append_line:
  assumes "newline_terminated c" and "10 \<notin> set b"
  shows "lines_of (c @ b @ [10]) = lines_of c @ [strip_cr b]"
proof (cases c rule: rev_cases)
  case Nil
  then show ?thesis using lines_from_line [OF assms(2), of "[]"] by simp
next
  case (snoc c' x)
  then have x: "x = 10" using assms(1) by (simp add: newline_terminated_def)
  have "lines_of (c @ b @ [10]) = lines_of (c' @ [10]) @ lines_of (b @ [10])"
    using lines_from_append [of "[]" c' "b @ [10]"] snoc x by simp
  then show ?thesis using lines_from_line [OF assms(2), of "[]"] snoc x by simp
qed

lemma decrypt_lines_append:
  "decrypt_lines L T k ls = Inr es \<Longrightarrow> decrypt_lines L T k ms = Inr fs
    \<Longrightarrow> decrypt_lines L T k (ls @ ms) = Inr (es @ fs)"
proof (induction ls arbitrary: es)
  case (Cons l ls)
  then obtain o' es' where l: "decrypt_line L T k l = Inr o'" "decrypt_lines L T k ls = Inr es'"
    and es: "es = (case o' of None \<Rightarrow> es' | Some e \<Rightarrow> e # es')"
    by (auto simp: try_bind_Inr)
  have "decrypt_lines L T k (ls @ ms) = Inr (es' @ fs)" using Cons.IH [OF l(2) Cons.prems(2)] .
  then show ?case using l es by (cases o') simp_all
qed simp

lemma nonce_bytes_round_trip: "nonce_from_bytes (word_le_bytes 24 n) = n"
proof -
  have "unat n < 2 ^ LENGTH(192)" by (rule unsigned_less)
  also have "(2::nat) ^ LENGTH(192) = 256 ^ 24" by simp
  finally have u: "unat n < 256 ^ 24" .
  have "from_le (word_le_bytes 24 n) = unat n"
    unfolding word_le_bytes_def from_le_le_bytes using u by (rule mod_less)
  then show ?thesis by (simp add: nonce_from_bytes_def)
qed

text \<open>The line written for an event is read back as that event.\<close>

lemma decrypt_written_line:
  assumes K: "codec_ok L" and "json_event L e = Inr plaintext"
    and "aead_encrypt L key nonce journal_aad plaintext = Some ciphertext"
    and "json_record L \<lparr>er_version = 1, er_nonce = b64_encode L (word_le_bytes 24 nonce),
           er_ciphertext = b64_encode L ciphertext\<rparr> = Inr encoded"
  shows "decrypt_line L T key encoded = Inr (Some e)"
proof -
  obtain t where t: "utf8_decode encoded = Some t" "trim t \<noteq> []"
      "parse_record L t = Inr \<lparr>er_version = 1, er_nonce = b64_encode L (word_le_bytes 24 nonce),
         er_ciphertext = b64_encode L ciphertext\<rparr>"
    using K assms(4) unfolding codec_ok_def by blast
  have "b64_decode L (b64_encode L b) = Inr b" for b using K by (simp add: codec_ok_def)
  moreover have "aead_decrypt L key nonce journal_aad ciphertext = Some plaintext"
    using K assms(3) unfolding codec_ok_def by blast
  moreover have "parse_event L plaintext = Inr e" using K assms(2) unfolding codec_ok_def by blast
  ultimately show ?thesis by (simp add: decrypt_line_def t nonce_bytes_round_trip)
qed

lemma on_disk_Inr: "on_disk m s = (Inr x, s') \<longleftrightarrow> (\<exists>d. m (fj_disk s) = (Inr x, d) \<and> s' = s\<lparr>fj_disk := d\<rparr>)"
  by (auto simp: on_disk_def split: prod.splits)

lemma eff_map_err_Inr: "eff_map_err f m w = (Inr x, w') \<longleftrightarrow> m w = (Inr x, w')"
  by (auto simp: eff_map_err_def map_err_def split: prod.splits sum.splits)

lemma write_all_Inr:
  "write_all bs f = (Inr u, g) \<Longrightarrow> jf_content g = map_option (\<lambda>c. c @ bs) (jf_content f)"
  by (auto simp: write_all_def next_call_def split: list.splits option.splits prod.splits)

lemma fill_nonce_content: "fill_nonce f = (r, g) \<Longrightarrow> jf_content g = jf_content f"
  by (auto simp: fill_nonce_def)

lemma file_append_Inr:
  assumes "file_append L T e s = (Inr (), s')"
  shows "extends_chain L (fj_last s) e"
    and "\<exists>plaintext nonce ciphertext encoded.
      json_event L e = Inr plaintext
      \<and> aead_encrypt L (fj_key s) nonce journal_aad plaintext = Some ciphertext
      \<and> json_record L \<lparr>er_version = 1, er_nonce = b64_encode L (word_le_bytes 24 nonce),
            er_ciphertext = b64_encode L ciphertext\<rparr> = Inr encoded
      \<and> jf_content (fj_disk s') = map_option (\<lambda>c. c @ encoded @ [10]) (jf_content (fj_disk s))"
    and "fj_key s' = fj_key s"
    and "fj_last s' = (fj_last s)(je_execution_id e \<mapsto> (je_sequence e, je_event_digest e))"
  using assms
  by (auto simp: file_append_def eff_bind_Inr lock_last_def lock_file_def eff_map_err_Inr on_disk_Inr
      eff_ask_def eff_do_def map_err_Inr ok_or_Inr simp del: eff_bind_eqs split: if_splits
      dest!: write_all_Inr fill_nonce_content) blast

lemma read_events_of_Inr:
  "read_events_of L T k c = Inr es \<longleftrightarrow>
     decrypt_lines L T k (lines_of c) = Inr es \<and> (\<forall>x. linked L None (of_execution x es))"
  by (auto simp: read_events_of_def try_bind_Inr validate_event_chains_Inr)

section \<open>The contract\<close>

text \<open>The heads kept in memory are those of the events in the file.\<close>

definition heads_of :: "journal_event list \<Rightarrow> chain_heads" where
  "heads_of es = (\<lambda>x. chain_head None (of_execution x es))"

definition fj_inv :: "'a journal_libs_scheme \<Rightarrow> error_texts \<Rightarrow> file_journal \<Rightarrow> bool" where
  "fj_inv L T s \<longleftrightarrow>
     codec_ok L
     \<and> (\<exists>c es. jf_content (fj_disk s) = Some c \<and> newline_terminated c
          \<and> read_events_of L T (fj_key s) c = Inr es \<and> fj_last s = heads_of es)"

definition fj_log :: "'a journal_libs_scheme \<Rightarrow> error_texts \<Rightarrow> file_journal \<Rightarrow> journal_event list" where
  "fj_log L T s =
     (case jf_content (fj_disk s) of
        None \<Rightarrow> []
      | Some c \<Rightarrow> (case read_events_of L T (fj_key s) c of Inl _ \<Rightarrow> [] | Inr es \<Rightarrow> es))"

lemma heads_of_snoc:
  "(heads_of es)(je_execution_id e \<mapsto> (je_sequence e, je_event_digest e)) = heads_of (es @ [e])"
  by (auto simp: heads_of_def chain_head_append fun_eq_iff)

lemma extends_heads_of:
  assumes "\<forall>x. linked L None (of_execution x es)" and "extends_chain L (heads_of es) e"
  shows "\<forall>x. linked L None (of_execution x (es @ [e]))"
  using assms by (auto simp: linked_append extends_chain_linked heads_of_def)

lemma file_append_ok:
  assumes inv: "fj_inv L T s" and app: "file_append L T e s = (Inr (), s')"
  shows "fj_inv L T s' \<and> fj_log L T s' = fj_log L T s @ [e]"
proof -
  obtain c es where K: "codec_ok L" and c: "jf_content (fj_disk s) = Some c"
    and nl: "newline_terminated c" and rd: "read_events_of L T (fj_key s) c = Inr es"
    and h: "fj_last s = heads_of es"
    using inv by (auto simp: fj_inv_def)
  note A = file_append_Inr [OF app]
  obtain plaintext nonce ciphertext encoded where
      w: "json_event L e = Inr plaintext" "aead_encrypt L (fj_key s) nonce journal_aad plaintext = Some ciphertext"
        "json_record L \<lparr>er_version = 1, er_nonce = b64_encode L (word_le_bytes 24 nonce),
            er_ciphertext = b64_encode L ciphertext\<rparr> = Inr encoded"
    and c': "jf_content (fj_disk s') = Some (c @ encoded @ [10])"
    using A(2) c by auto
  have nf: "10 \<notin> set encoded" "strip_cr encoded = encoded"
    using K w(3) unfolding codec_ok_def by blast+
  have "decrypt_lines L T (fj_key s) [encoded] = Inr [e]"
    using decrypt_written_line [OF K w] by simp
  moreover have "decrypt_lines L T (fj_key s) (lines_of c) = Inr es"
    using rd by (simp add: read_events_of_Inr)
  ultimately have "decrypt_lines L T (fj_key s) (lines_of (c @ encoded @ [10])) = Inr (es @ [e])"
    unfolding lines_of_append_line [OF nl nf(1)] nf(2) by (intro decrypt_lines_append)
  moreover have "\<forall>x. linked L None (of_execution x (es @ [e]))"
    using rd A(1) by (intro extends_heads_of) (simp_all add: read_events_of_Inr h)
  ultimately have rd': "read_events_of L T (fj_key s') (c @ encoded @ [10]) = Inr (es @ [e])"
    using A(3) by (simp add: read_events_of_Inr)
  have "fj_inv L T s'"
    unfolding fj_inv_def using K c' rd' A(4)
    by (intro conjI exI [of _ "c @ encoded @ [10]"] exI [of _ "es @ [e]"])
      (simp_all add: newline_terminated_def h heads_of_snoc)
  moreover have "fj_log L T s' = es @ [e]" "fj_log L T s = es"
    using c c' rd rd' by (simp_all add: fj_log_def)
  ultimately show ?thesis by simp
qed

lemma next_call_content: "next_call f = (c, g) \<Longrightarrow> jf_content g = jf_content f"
  by (auto simp: next_call_def split: list.splits)

lemma file_flush_Inr:
  "file_flush T s = (Inr (), s') \<Longrightarrow>
     jf_content (fj_disk s') = jf_content (fj_disk s) \<and> fj_key s' = fj_key s \<and> fj_last s' = fj_last s"
  by (auto simp: file_flush_def eff_bind_Inr lock_file_def eff_map_err_Inr on_disk_Inr sync_all_def
      split: if_splits prod.splits option.splits dest: next_call_content)

lemma open_read_Inr: "open_read f = (Inr c, g) \<Longrightarrow> jf_content f = Some c \<and> jf_content g = Some c"
  by (cases "next_call f")
    (auto simp: open_read_def split: option.splits dest: next_call_content)

lemma read_encrypted_events_Inr:
  assumes "read_encrypted_events L T k f = (Inr es, g)"
  shows "\<exists>c. jf_content f = Some c \<and> jf_content g = Some c \<and> read_events_of L T k c = Inr es"
proof -
  obtain c f' where o': "open_read f = (Inr c, f')"
    and r: "(case next_call f' of
          (None, g) \<Rightarrow> (read_events_of L T k c, g)
        | (Some (e, n), g) \<Rightarrow>
            (try_bind (decrypt_lines L T k (take n (lines_of c)))
               (\<lambda>_. Inl (OpsJournal (io_text T e))), g)) = (Inr es, g)"
    using assms by (auto simp: read_encrypted_events_def eff_bind_Inr eff_map_err_Inr)
  then show ?thesis
    using open_read_Inr [OF o']
    by (cases "next_call f'") (auto simp: try_bind_Inr split: option.splits dest: next_call_content)
qed

lemma file_read_Inr:
  "file_read L T s = (Inr es, s') \<Longrightarrow>
     \<exists>c. jf_content (fj_disk s) = Some c \<and> read_events_of L T (fj_key s) c = Inr es
       \<and> (\<exists>d. s' = s\<lparr>fj_disk := d\<rparr> \<and> jf_content d = Some c)"
  by (auto simp: file_read_def eff_bind_Inr eff_ask_def on_disk_Inr dest!: read_encrypted_events_Inr)

lemma fj_log_read: "file_read L T s = (Inr es, s') \<Longrightarrow> fj_log L T s = es \<and> fj_log L T s' = es"
  by (auto simp: fj_log_def dest!: file_read_Inr)

interpretation encrypted: durable_journal "file_journal_ops L T" "fj_inv L T" "fj_log L T" for L T
proof unfold_locales
  fix w e w' assume "fj_inv L T w" "j_append (file_journal_ops L T) e w = (Inr (), w')"
  then show "fj_inv L T w' \<and> fj_log L T w' = fj_log L T w @ [e]"
    by (intro file_append_ok) (simp_all add: file_journal_ops_def)
next
  fix w w' assume "fj_inv L T w" "j_flush (file_journal_ops L T) w = (Inr (), w')"
  then show "fj_inv L T w' \<and> fj_log L T w' = fj_log L T w"
    by (auto simp: file_journal_ops_def fj_inv_def fj_log_def dest!: file_flush_Inr)
next
  fix w x es w' assume "fj_inv L T w" "j_events (file_journal_ops L T) x w = (Inr es, w')"
  then obtain es' where "file_read L T w = (Inr es', w')" "es = of_execution x es'"
    by (auto simp: file_journal_ops_def file_events_def eff_bind_Inr)
  then show "es = filter (\<lambda>e. je_execution_id e = x) (fj_log L T w) \<and> fj_log L T w' = fj_log L T w"
    using fj_log_read [of L T w es' w'] by simp
qed

section \<open>Runs without faults\<close>

lemma next_call_quiet: "jf_script f = [] \<Longrightarrow> next_call f = (None, f)"
  by (simp add: next_call_def)

lemma read_quiet:
  "jf_script f = [] \<Longrightarrow> jf_content f = Some c
    \<Longrightarrow> read_encrypted_events L T k f = (read_events_of L T k c, f)"
  by (simp add: read_encrypted_events_def eff_bind_def eff_map_err_def open_read_def next_call_quiet)

lemma file_events_quiet:
  assumes "fj_inv L T s" and "jf_script (fj_disk s) = []"
  shows "\<exists>s'. file_events L T x s = (Inr (of_execution x (fj_log L T s)), s')"
proof -
  obtain c es where c: "jf_content (fj_disk s) = Some c" "read_events_of L T (fj_key s) c = Inr es"
    using assms(1) by (auto simp: fj_inv_def)
  then have "fj_log L T s = es" by (simp add: fj_log_def)
  then show ?thesis
    using c read_quiet [OF assms(2) c(1), of L T "fj_key s"]
    by (simp add: file_events_def file_read_def eff_bind_def eff_ask_def on_disk_def)
qed

lemma journal_open_quiet:
  assumes "jf_script f = []" and "\<not> jf_symlink f" and "jf_content f = Some c"
    and "read_events_of L T key c = Inr es"
  shows "journal_open L T key f =
    (Inr \<lparr>fj_disk = f, fj_key = key, fj_last = heads_of es,
          fj_file_poisoned = False, fj_last_poisoned = False\<rparr>, f)"
proof -
  have "validate_event_chains L es Map.empty = Inr (heads_of es)"
    using assms(4) by (auto simp: read_events_of_Inr validate_event_chains_Inr heads_of_def)
  moreover have "f\<lparr>jf_content := Some c\<rparr> = f" using assms(3) by (cases f) simp
  ultimately show ?thesis
    using assms read_quiet [OF assms(1,3), of L T key]
    by (simp add: journal_open_def is_symlink_ok_def path_exists_def next_call_quiet eff_bind_def
        eff_map_err_def open_append_def)
qed

lemma terminal_flags_last:
  "terminal_flags es m x =
     (if of_execution x es = [] then m x
      else Some (je_kind (last (of_execution x es)) = ExecutionFinished))"
  by (induction es arbitrary: m) auto

lemma pending_iff:
  "x \<in> set (pending_ids es) \<longleftrightarrow>
     of_execution x es \<noteq> [] \<and> je_kind (last (of_execution x es)) \<noteq> ExecutionFinished"
  by (auto simp: pending_ids_def Let_def terminal_flags_last filter_empty_conv split: if_splits)

section \<open>Properties\<close>

text \<open>C29: what is journalled is what is recovered. Once the journal has returned from an append
  and the flush after it, a query that meets no read fault returns, and its answer is the events
  recorded for that execution before, in order, followed by the new one if it is its own.\<close>

theorem appended_events_are_read_back:
  assumes "fj_inv L T s" and "file_append L T e s = (Inr (), s1)" and "file_flush T s1 = (Inr (), s2)"
    and "jf_script (fj_disk s2) = []"
  shows "\<exists>s3. file_events L T x s2 =
    (Inr (of_execution x (fj_log L T s) @ (if je_execution_id e = x then [e] else [])), s3)"
proof -
  have a: "j_append (file_journal_ops L T) e s = (Inr (), s1)"
    and f: "j_flush (file_journal_ops L T) s1 = (Inr (), s2)"
    using assms(2,3) by (simp_all add: file_journal_ops_def)
  have s1: "fj_inv L T s1 \<and> fj_log L T s1 = fj_log L T s @ [e]"
    using assms(1) a by (rule encrypted.append_ok)
  then have "fj_inv L T s2" and l: "fj_log L T s2 = fj_log L T s @ [e]"
    using encrypted.flush_ok [OF _ f] by simp_all
  then obtain s3 where "file_events L T x s2 = (Inr (of_execution x (fj_log L T s2)), s3)"
    using file_events_quiet assms(4) by blast
  then show ?thesis using l by auto
qed

text \<open>C34: closing and reopening the journal loses nothing. With the same key and no faults, opening
  the file that a journal left behind gives a journal with the same events and the same chain
  heads, in a state that satisfies the invariant again.\<close>

theorem reopened_journal_continues:
  assumes "fj_inv L T s" and "jf_script (fj_disk s) = []" and "\<not> jf_symlink (fj_disk s)"
  shows "\<exists>s' f. journal_open L T (fj_key s) (fj_disk s) = (Inr s', f)
    \<and> fj_inv L T s' \<and> fj_log L T s' = fj_log L T s \<and> fj_last s' = fj_last s"
proof -
  obtain c es where c: "jf_content (fj_disk s) = Some c" "newline_terminated c"
      "read_events_of L T (fj_key s) c = Inr es" "fj_last s = heads_of es" "codec_ok L"
    using assms(1) by (auto simp: fj_inv_def)
  show ?thesis
    unfolding journal_open_quiet [OF assms(2,3) c(1,3)]
    using c by (auto simp: fj_inv_def fj_log_def)
qed

text \<open>The executions offered for recovery are exactly those whose last journalled event is not
  the end of the execution; each is listed once, in ascending order.\<close>

lemma pending_executions_exact:
  "set (pending_ids es) =
     {x. of_execution x es \<noteq> [] \<and> je_kind (last (of_execution x es)) \<noteq> ExecutionFinished}
   \<and> distinct (pending_ids es) \<and> sorted (pending_ids es)"
proof -
  have "distinct (pending_ids es)" "sorted (pending_ids es)" by (simp_all add: pending_ids_def Let_def)
  then show ?thesis using pending_iff [of _ es] by blast
qed

section \<open>A concrete codec\<close>

text \<open>
  Bytes as pairs of letters, records as two such texts with a comma between them, and events
  by their position in a table.
\<close>

definition letters_of :: "byte list \<Rightarrow> ustring" where
  "letters_of bs = concat (map (\<lambda>b. [65 + unat b div 16, 65 + unat b mod 16]) bs)"

fun bytes_of_letters :: "ustring \<Rightarrow> byte list" where
  "bytes_of_letters (a # b # s) = of_nat (16 * (a - 65) + (b - 65)) # bytes_of_letters s"
| "bytes_of_letters _ = []"

definition is_letters :: "ustring \<Rightarrow> bool" where
  "is_letters s \<longleftrightarrow> list_all (\<lambda>c. 65 \<le> c \<and> c < 128) s"

definition sample_record_text :: "encrypted_journal_record \<Rightarrow> ustring" where
  "sample_record_text r = er_nonce r @ 44 # er_ciphertext r"

definition sample_parse_record :: "ustring \<Rightarrow> ustring + encrypted_journal_record" where
  "sample_parse_record t =
     (let c = drop 1 (dropWhile (\<lambda>x. x \<noteq> 44) t) in
      if 44 \<in> set t \<and> 44 \<notin> set c
      then Inr \<lparr>er_version = 1, er_nonce = takeWhile (\<lambda>x. x \<noteq> 44) t, er_ciphertext = c\<rparr>
      else Inl (lit ''trailing characters''))"

fun table_encode :: "nat \<Rightarrow> journal_event \<Rightarrow> journal_event list \<Rightarrow> byte list option" where
  "table_encode n e [] = None"
| "table_encode n e (x # xs) = (if x = e then Some [of_nat (Suc n)] else table_encode (Suc n) e xs)"

definition table_decode :: "journal_event list \<Rightarrow> byte list \<Rightarrow> journal_event option" where
  "table_decode es b =
     (case b of
        [i] \<Rightarrow> if 0 < unat i \<and> unat i \<le> length es then Some (es ! (unat i - 1)) else None
      | _ \<Rightarrow> None)"

lemma table_encode_Some:
  "table_encode n e es = Some b \<Longrightarrow> \<exists>i < length es. b = [of_nat (Suc (n + i))] \<and> es ! i = e"
  by (induction es arbitrary: n) (force split: if_splits)+

lemma table_encode_mem: "e \<in> set es \<Longrightarrow> \<exists>b. table_encode n e es = Some b"
  by (induction es arbitrary: n) auto

lemma table_round_trip:
  assumes "length es < 256" and "table_encode 0 e es = Some b"
  shows "table_decode es b = Some e"
proof -
  obtain i where i: "i < length es" "b = [of_nat (Suc i)]" "es ! i = e"
    using table_encode_Some [OF assms(2)] by auto
  then have "unat (of_nat (Suc i) :: byte) = Suc i"
    using assms(1) by (simp add: unsigned_of_nat take_bit_eq_mod del: of_nat_Suc)
  with i show ?thesis by (simp add: table_decode_def del: of_nat_Suc)
qed

definition table_libs :: "journal_event list \<Rightarrow> journal_libs" where
  "table_libs events =
     \<lparr>blake3 = blake3 sample_plan_libs, uuid_text = uuid_text sample_plan_libs,
      json_plan_draft = json_plan_draft sample_plan_libs,
      json_event = (\<lambda>e. ok_or (table_encode 0 e events) (lit ''unsupported'')),
      parse_event = (\<lambda>b. ok_or (table_decode events b) (lit ''unsupported'')),
      json_record = (\<lambda>r. if er_version r = 1 \<and> is_letters (er_nonce r) \<and> is_letters (er_ciphertext r)
                          then Inr (map of_nat (sample_record_text r)) else Inl (lit ''unsupported'')),
      parse_record = sample_parse_record,
      b64_encode = letters_of,
      b64_decode = (\<lambda>s. Inr (bytes_of_letters s)),
      aead_encrypt = (\<lambda>k n a m. Some m),
      aead_decrypt = (\<lambda>k n a c. Some c),
      derive_key = (\<lambda>c m. 0),
      parse_approved = (\<lambda>b. None)\<rparr>"

abbreviation sample_journal_libs :: journal_libs where
  "sample_journal_libs \<equiv> table_libs [sample_first, sample_second]"

lemma event_verify_cong:
  "blake3 L = blake3 M \<Longrightarrow> uuid_text L = uuid_text M \<Longrightarrow> event_verify L e p = event_verify M e p"
  by (cases "je_step_id e") (simp_all add: event_verify_def journal_event_new_def Let_def event_preimage_def)

lemma sample_libs_agree: "event_verify (table_libs es) e p = event_verify sample_plan_libs e p"
  by (rule event_verify_cong) (simp_all add: table_libs_def)

lemma bytes_of_letters_of: "bytes_of_letters (letters_of bs) = bs"
proof (induction bs)
  case (Cons b bs)
  have "of_nat (16 * (unat b div 16) + unat b mod 16) = (b :: byte)" by simp
  with Cons show ?case by (simp add: letters_of_def)
qed (simp add: letters_of_def)

lemma letters_of_letters: "is_letters (letters_of bs)"
proof (induction bs)
  case (Cons b bs)
  have "unat b < 256" using unsigned_less [of b] by simp
  then have "unat b div 16 < 16" by simp
  moreover have "unat b mod 16 < 16" by simp
  ultimately show ?case using Cons by (simp add: letters_of_def is_letters_def)
qed (simp add: letters_of_def is_letters_def)

lemma utf8_decode_ascii:
  assumes "list_all (\<lambda>c. c < 0x80) s"
  shows "utf8_decode (map of_nat s) = Some s"
proof -
  have "map unat (map of_nat s :: byte list) = s"
    using assms by (induction s) (auto simp: unsigned_of_nat take_bit_eq_mod)
  moreover have "utf8_decode_nats s = Some s" using assms by (induction s) auto
  ultimately show ?thesis by (simp add: utf8_decode_def)
qed

lemma sample_parse_record_text:
  assumes "is_letters (er_nonce r)" and "is_letters (er_ciphertext r)" and "er_version r = 1"
  shows "sample_parse_record (sample_record_text r) = Inr r"
proof -
  have n: "44 \<notin> set (er_nonce r)" "44 \<notin> set (er_ciphertext r)"
    using assms by (auto simp: is_letters_def list_all_iff)
  then have "takeWhile (\<lambda>x. x \<noteq> 44) (er_nonce r @ 44 # er_ciphertext r) = er_nonce r"
    and "dropWhile (\<lambda>x. x \<noteq> 44) (er_nonce r @ 44 # er_ciphertext r) = 44 # er_ciphertext r"
    by (subst takeWhile_append2 dropWhile_append2; auto)+
  with n assms(3) show ?thesis by (cases r) (simp add: sample_parse_record_def sample_record_text_def)
qed

lemma sample_record_ascii:
  "is_letters (er_nonce r) \<Longrightarrow> is_letters (er_ciphertext r)
    \<Longrightarrow> list_all (\<lambda>c. c < 0x80 \<and> c \<noteq> 10 \<and> c \<noteq> 13) (sample_record_text r)"
  by (auto simp: is_letters_def list_all_iff sample_record_text_def)

lemma of_nat_byte_eq: "c < 0x80 \<Longrightarrow> k < 0x80 \<Longrightarrow> (of_nat c :: byte) = of_nat k \<longleftrightarrow> c = k"
  by (auto dest!: arg_cong [where f = unat] simp: unsigned_of_nat take_bit_eq_mod)

lemma table_codec_ok:
  assumes "length es < 256"
  shows "codec_ok (table_libs es)"
  unfolding codec_ok_def
proof (intro conjI allI impI)
  fix e b assume "json_event (table_libs es) e = Inr b"
  then show "parse_event (table_libs es) b = Inr e"
    using table_round_trip [OF assms] by (auto simp: table_libs_def ok_or_Inr)
next
  fix r b assume "json_record (table_libs es) r = Inr b"
  then have r: "er_version r = 1" "is_letters (er_nonce r)" "is_letters (er_ciphertext r)"
    and b: "b = map of_nat (sample_record_text r)"
    by (auto simp: table_libs_def split: if_splits)
  note A = sample_record_ascii [OF r(2,3)]
  have ne: "\<forall>c \<in> set (sample_record_text r). (of_nat c :: byte) \<noteq> 10 \<and> (of_nat c :: byte) \<noteq> 13"
  proof
    fix c assume "c \<in> set (sample_record_text r)"
    then have "c < 0x80" "c \<noteq> 10" "c \<noteq> 13" using A by (auto simp: list_all_iff)
    then show "(of_nat c :: byte) \<noteq> 10 \<and> (of_nat c :: byte) \<noteq> 13"
      using of_nat_byte_eq [of c 10] of_nat_byte_eq [of c 13] by simp
  qed
  then show "10 \<notin> set b" by (auto simp: b)
  have "b \<noteq> [] \<Longrightarrow> last b \<in> set b" by simp
  then show "strip_cr b = b" using ne by (auto simp: strip_cr_def b)
  have "44 \<in> set (sample_record_text r)" by (simp add: sample_record_text_def)
  then have "trim (sample_record_text r) \<noteq> []"
    by (auto simp: trim_empty_iff list_all_iff is_whitespace_def intro!: bexI [of _ 44])
  moreover have "utf8_decode b = Some (sample_record_text r)"
    unfolding b using A by (intro utf8_decode_ascii) (auto simp: list_all_iff)
  ultimately show "\<exists>t. utf8_decode b = Some t \<and> trim t \<noteq> [] \<and> parse_record (table_libs es) t = Inr r"
    using sample_parse_record_text [OF r(2,3,1)] by (auto simp: table_libs_def)
next
  fix b show "b64_decode (table_libs es) (b64_encode (table_libs es) b) = Inr b"
    by (simp add: table_libs_def bytes_of_letters_of)
next
  fix k n a m c assume "aead_encrypt (table_libs es) k n a m = Some c"
  then show "aead_decrypt (table_libs es) k n a c = Some m"
    by (simp add: table_libs_def)
qed

lemma sample_codec_ok: "codec_ok sample_journal_libs"
  by (rule table_codec_ok) simp

definition sample_disk :: journal_file where
  "sample_disk =
     \<lparr>jf_content = None, jf_symlink = False, jf_script = [], jf_entropy = (\<lambda>n. Inr (of_nat n)),
      jf_drawn = 0\<rparr>"

definition sample_texts :: error_texts where
  "sample_texts = \<lparr>io_text = (\<lambda>_. lit ''os error''), serde_text = lit ''invalid type''\<rparr>"

text \<open>The journal opened on an absent file.\<close>

definition sample_journal :: file_journal where
  "sample_journal =
     \<lparr>fj_disk = sample_disk\<lparr>jf_content := Some []\<rparr>, fj_key = 9, fj_last = Map.empty,
      fj_file_poisoned = False, fj_last_poisoned = False\<rparr>"

lemma sample_open:
  "journal_open sample_journal_libs sample_texts 9 sample_disk
     = (Inr sample_journal, sample_disk\<lparr>jf_content := Some []\<rparr>)"
  by (simp add: journal_open_def sample_disk_def sample_journal_def is_symlink_ok_def path_exists_def
      next_call_def eff_bind_def eff_map_err_def open_append_def)

lemma sample_journal_inv: "fj_inv sample_journal_libs sample_texts sample_journal"
  by (auto simp: fj_inv_def sample_codec_ok sample_journal_def newline_terminated_def read_events_of_def
      heads_of_def)

lemma sample_journal_log: "fj_log sample_journal_libs sample_texts sample_journal = []"
  by (simp add: fj_log_def sample_journal_def read_events_of_def)

lemma sample_append:
  "\<exists>s1. file_append sample_journal_libs sample_texts sample_first sample_journal = (Inr (), s1)
     \<and> jf_script (fj_disk s1) = [] \<and> \<not> fj_file_poisoned s1 \<and> \<not> jf_symlink (fj_disk s1)"
  by (simp add: file_append_def eff_bind_def lock_last_def lock_file_def sample_journal_def sample_disk_def
      extends_chain_def sample_libs_agree sample_fields eff_map_err_def on_disk_def fill_nonce_def
      eff_ask_def eff_do_def write_all_def next_call_def)
    (simp add: table_libs_def letters_of_letters eff_bind_def eff_map_err_def on_disk_def
      fill_nonce_def eff_ask_def eff_do_def write_all_def next_call_def lock_file_def)

lemma sample_flush:
  "jf_script (fj_disk s) = [] \<Longrightarrow> \<not> fj_file_poisoned s \<Longrightarrow> file_flush T s = (Inr (), s)"
  by (cases s) (simp add: file_flush_def eff_bind_def lock_file_def eff_map_err_def on_disk_def sync_all_def
      next_call_def)

theorem appended_events_are_read_back_witness:
  "\<exists>s1 s2. file_append sample_journal_libs sample_texts sample_first sample_journal = (Inr (), s1)
     \<and> file_events sample_journal_libs sample_texts 1 s1 = (Inr [sample_first], s2)"
proof -
  obtain s1 where s1: "file_append sample_journal_libs sample_texts sample_first sample_journal = (Inr (), s1)"
    and q: "jf_script (fj_disk s1) = []" "\<not> fj_file_poisoned s1"
    using sample_append by blast
  from appended_events_are_read_back [OF sample_journal_inv s1 sample_flush [OF q] q(1), of 1] s1
  show ?thesis by (auto simp: sample_journal_log sample_fields)
qed

theorem reopened_journal_continues_witness:
  "\<exists>s' f. journal_open sample_journal_libs sample_texts 9 (sample_disk\<lparr>jf_content := Some []\<rparr>) = (Inr s', f)
     \<and> fj_log sample_journal_libs sample_texts s' = []"
  using reopened_journal_continues [OF sample_journal_inv]
  by (simp add: sample_journal_log) (simp add: sample_journal_def sample_disk_def, blast)

section \<open>A lost newline\<close>

text \<open>Two records on one line are not a record: JSON rejects trailing characters.\<close>

definition rejects_joined :: "'a journal_libs_scheme \<Rightarrow> bool" where
  "rejects_joined L \<longleftrightarrow>
     (\<forall>r r' b b'. json_record L r = Inr b \<longrightarrow> json_record L r' = Inr b' \<longrightarrow>
        (\<exists>t m. utf8_decode (b @ b') = Some t \<and> trim t \<noteq> [] \<and> parse_record L t = Inl m))"

lemma lines_of_append_tail:
  assumes "newline_terminated c" and "10 \<notin> set b" and "b \<noteq> []"
  shows "lines_of (c @ b) = lines_of c @ [b]"
proof -
  have tail: "lines_from acc b = [rev acc @ b]" for acc
    using assms(2,3)
  proof (induction b arbitrary: acc)
    case (Cons x xs)
    then show ?case by (cases "xs = []") auto
  qed simp
  show ?thesis
  proof (cases c rule: rev_cases)
    case Nil
    then show ?thesis by (simp add: tail)
  next
    case (snoc c' x)
    then have "x = 10" using assms(1) by (simp add: newline_terminated_def)
    then show ?thesis using lines_from_append [of "[]" c' b] snoc by (simp add: tail)
  qed
qed

lemma decrypt_lines_prefix:
  "decrypt_lines L T k (ls @ ms) = Inr es \<Longrightarrow> \<exists>fs. decrypt_lines L T k ls = Inr fs"
  by (induction ls arbitrary: es) (auto simp: try_bind_Inr)

lemma decrypt_lines_error:
  "decrypt_lines L T k ls = Inr fs \<Longrightarrow> decrypt_line L T k l = Inl m
    \<Longrightarrow> decrypt_lines L T k (ls @ l # ms) = Inl m"
  by (induction ls arbitrary: fs) (auto simp: try_bind_Inr)

lemma record_line:
  assumes "codec_ok L" and "json_record L r = Inr b"
  shows "10 \<notin> set b" and "b \<noteq> []" and "last b \<noteq> 13"
proof -
  obtain t where t: "10 \<notin> set b" "strip_cr b = b" "utf8_decode b = Some t" "trim t \<noteq> []"
    using assms unfolding codec_ok_def by blast
  show "b \<noteq> []"
  proof
    assume "b = []"
    with t(3) have "t = []" by (simp add: utf8_decode_def)
    with t(4) show False by (simp add: trim_def trim_end_by_def)
  qed
  with t(1,2) show "10 \<notin> set b" and "last b \<noteq> 13"
    by (auto simp: strip_cr_def split: if_splits)
      (metis One_nat_def Suc_pred diff_less length_butlast length_greater_0_conv less_irrefl zero_less_one)
qed

text \<open>Every codec succeeds on an event: nothing but a fault of the disk keeps it from being appended.\<close>

definition writable :: "'a journal_libs_scheme \<Rightarrow> digest \<Rightarrow> journal_file \<Rightarrow> journal_event \<Rightarrow> bool" where
  "writable L key f e \<longleftrightarrow>
     (\<exists>plaintext nonce ciphertext encoded.
        json_event L e = Inr plaintext \<and> jf_entropy f (jf_drawn f) = Inr nonce
        \<and> aead_encrypt L key nonce journal_aad plaintext = Some ciphertext
        \<and> json_record L \<lparr>er_version = 1, er_nonce = b64_encode L (word_le_bytes 24 nonce),
             er_ciphertext = b64_encode L ciphertext\<rparr> = Inr encoded)"

lemma file_append_quiet:
  assumes "extends_chain L (fj_last s) e" "writable L (fj_key s) (fj_disk s) e"
    and "jf_script (fj_disk s) = []" "\<not> fj_file_poisoned s" "\<not> fj_last_poisoned s"
  shows "\<exists>s'. file_append L T e s = (Inr (), s')"
proof -
  from assms(2) obtain plaintext nonce ciphertext encoded where
    w: "json_event L e = Inr plaintext" "jf_entropy (fj_disk s) (jf_drawn (fj_disk s)) = Inr nonce"
      "aead_encrypt L (fj_key s) nonce journal_aad plaintext = Some ciphertext"
      "json_record L \<lparr>er_version = 1, er_nonce = b64_encode L (word_le_bytes 24 nonce),
         er_ciphertext = b64_encode L ciphertext\<rparr> = Inr encoded"
    unfolding writable_def by blast
  show ?thesis
    using assms(1,3-5)
    by (simp add: file_append_def eff_bind_def lock_last_def w)
      (simp add: w eff_map_err_def on_disk_def fill_nonce_def eff_ask_def eff_bind_def lock_file_def
        write_all_def next_call_def eff_do_def)
qed

text \<open>Any further use of an open journal: appends, flushes and reads, successful or not.\<close>

inductive journal_use ::
  "'a journal_libs_scheme \<Rightarrow> error_texts \<Rightarrow> file_journal \<Rightarrow> file_journal \<Rightarrow> bool" for L T s where
  use_none: "journal_use L T s s"
| use_append: "journal_use L T s t \<Longrightarrow> file_append L T e t = (r, u) \<Longrightarrow> journal_use L T s u"
| use_flush: "journal_use L T s t \<Longrightarrow> file_flush T t = (r, u) \<Longrightarrow> journal_use L T s u"
| use_read: "journal_use L T s t \<Longrightarrow> file_events L T x t = (r', u) \<Longrightarrow> journal_use L T s u"

text \<open>Without faults, a use only adds to the end of the file.\<close>

definition grown :: "file_journal \<Rightarrow> file_journal \<Rightarrow> bool" where
  "grown s t \<longleftrightarrow> fj_key t = fj_key s \<and> jf_script (fj_disk t) = []
     \<and> jf_symlink (fj_disk t) = jf_symlink (fj_disk s)
     \<and> (\<exists>c rest. jf_content (fj_disk s) = Some c \<and> jf_content (fj_disk t) = Some (c @ rest))"

lemma grown_trans: "grown s t \<Longrightarrow> grown t u \<Longrightarrow> grown s u"
  by (auto simp: grown_def)

lemma grown_refl: "jf_script (fj_disk s) = [] \<Longrightarrow> jf_content (fj_disk s) = Some c \<Longrightarrow> grown s s"
  by (auto simp: grown_def)

lemma quiet_steps_grow:
  assumes "jf_script (fj_disk s) = []" "jf_content (fj_disk s) = Some c"
  shows "file_append L T e s = (r, t) \<Longrightarrow> grown s t"
    and "file_flush T s = (r, t) \<Longrightarrow> grown s t"
    and "file_events L T x s = (r', t) \<Longrightarrow> grown s t"
  using assms
  by (auto simp: file_append_def file_flush_def file_events_def file_read_def eff_bind_def lock_last_def
      lock_file_def eff_map_err_def on_disk_def fill_nonce_def eff_ask_def eff_do_def write_all_def
      sync_all_def read_encrypted_events_def open_read_def next_call_quiet grown_def eff_ok_def eff_err_def
      eff_lift_def split: sum.splits if_splits prod.splits)

lemma journal_use_grows:
  assumes "journal_use L T s t" "jf_script (fj_disk s) = []" "jf_content (fj_disk s) = Some c"
  shows "grown s t"
  using assms
proof induction
  case use_none
  then show ?case by (rule grown_refl)
next
  case (use_append t e r u)
  then obtain d where t: "jf_script (fj_disk t) = []" "jf_content (fj_disk t) = Some d" by (auto simp: grown_def)
  from use_append show ?case using grown_trans quiet_steps_grow(1) [OF t] by blast
next
  case (use_flush t r u)
  then obtain d where t: "jf_script (fj_disk t) = []" "jf_content (fj_disk t) = Some d" by (auto simp: grown_def)
  from use_flush show ?case using grown_trans quiet_steps_grow(2) [OF t] by blast
next
  case (use_read t x r u)
  then obtain d where t: "jf_script (fj_disk t) = []" "jf_content (fj_disk t) = Some d" by (auto simp: grown_def)
  from use_read show ?case using grown_trans quiet_steps_grow(3) [OF t] by blast
qed

text \<open>A file whose lines hold two joined records is not read, whatever follows them.\<close>

lemma joined_line_is_fatal:
  assumes K: "codec_ok L" and J: "rejects_joined L" and c: "newline_terminated c"
    and b: "json_record L r = Inr b" "json_record L r' = Inr b'"
    and rd: "read_events_of L T key (c @ b) = Inr es"
  shows "\<exists>m. \<forall>rest. read_events_of L T key (c @ (b @ b') @ [10] @ rest)
    = Inl (OpsJournal (lit ''invalid journal record: '' @ m))"
proof -
  note B = record_line [OF K b(1)] record_line [OF K b(2)]
  have joined: "10 \<notin> set (b @ b')" "strip_cr (b @ b') = b @ b'"
    using B by (simp_all add: strip_cr_def)
  have ls: "lines_of (c @ (b @ b') @ [10] @ rest) = lines_of c @ (b @ b') # lines_of rest" for rest
    using lines_from_append [of "[]" "c @ b @ b'" rest] lines_of_append_line [OF c joined(1)] joined(2) by simp
  obtain t m where "utf8_decode (b @ b') = Some t" "trim t \<noteq> []" "parse_record L t = Inl m"
    using J b unfolding rejects_joined_def by blast
  then have "decrypt_line L T key (b @ b') = Inl (OpsJournal (lit ''invalid journal record: '' @ m))"
    by (simp add: decrypt_line_def)
  moreover have "decrypt_lines L T key (lines_of c @ [b]) = Inr es"
    using rd lines_of_append_tail [OF c B(1,2)] by (simp add: read_events_of_Inr)
  then obtain fs where "decrypt_lines L T key (lines_of c) = Inr fs"
    using decrypt_lines_prefix by blast
  ultimately have "decrypt_lines L T key (lines_of c @ (b @ b') # lines_of rest)
      = Inl (OpsJournal (lit ''invalid journal record: '' @ m))" for rest
    using decrypt_lines_error by blast
  then show ?thesis unfolding read_events_of_def ls by auto
qed

text \<open>C35: the journal does not notice that its last newline is missing. Without faults of the disk, a
  file that lost only the newline of its last record still opens, and an event that continues its
  chain is still appended, but to the line of that record: from then on, whatever is appended,
  flushed or read, every read of the journal fails with an invalid record, and so does opening the
  file again, so that no event of the file can be recovered.\<close>

theorem lost_newline_breaks_journal:
  assumes "codec_ok L" "rejects_joined L"
    and "json_record L r = Inr b" "newline_terminated c"
    and "jf_content f = Some (c @ b)" "jf_script f = []" "\<not> jf_symlink f"
    and "read_events_of L T key (c @ b) = Inr es"
    and "extends_chain L (heads_of es) e" "writable L key f e"
  shows "\<exists>s s'. journal_open L T key f = (Inr s, f) \<and> file_append L T e s = (Inr (), s')
    \<and> (\<exists>m. \<forall>t x. journal_use L T s' t \<longrightarrow>
         fst (file_events L T x t) = Inl (OpsJournal (lit ''invalid journal record: '' @ m))
         \<and> fst (journal_open L T key (fj_disk t)) = Inl (OpsJournal (lit ''invalid journal record: '' @ m)))"
proof -
  let ?s = "\<lparr>fj_disk = f, fj_key = key, fj_last = heads_of es,
      fj_file_poisoned = False, fj_last_poisoned = False\<rparr>"
  have opened: "journal_open L T key f = (Inr ?s, f)"
    by (rule journal_open_quiet [OF assms(6,7,5,8)])
  obtain s' where app: "file_append L T e ?s = (Inr (), s')"
    using file_append_quiet [of L ?s e T] assms(6,9,10) by auto
  obtain r' b' where b': "json_record L r' = Inr b'"
    and c': "jf_content (fj_disk s') = Some (c @ (b @ b') @ [10])"
    using file_append_Inr(2) [OF app] assms(5) by auto
  from joined_line_is_fatal [OF assms(1,2,4,3) b' assms(8)] obtain m where
    fatal: "read_events_of L T key (c @ (b @ b') @ [10] @ rest)
      = Inl (OpsJournal (lit ''invalid journal record: '' @ m))" for rest by blast
  have first: "grown ?s s'" using quiet_steps_grow(1) [OF _ _ app] assms(5,6) by simp
  have "fst (file_events L T x t) = Inl (OpsJournal (lit ''invalid journal record: '' @ m))
      \<and> fst (journal_open L T key (fj_disk t)) = Inl (OpsJournal (lit ''invalid journal record: '' @ m))"
    if "journal_use L T s' t" for t x
  proof -
    have "grown s' t" by (rule journal_use_grows [OF that _ c']) (use first in \<open>simp add: grown_def\<close>)
    with first c' obtain rest where t: "jf_script (fj_disk t) = []" "\<not> jf_symlink (fj_disk t)" "fj_key t = key"
        "jf_content (fj_disk t) = Some (c @ (b @ b') @ [10] @ rest)"
      using assms(7) by (auto simp: grown_def)
    note read = read_quiet [OF t(1,4), of L T key, unfolded fatal]
    show ?thesis
      using t read by (simp add: file_events_def file_read_def journal_open_def is_symlink_ok_def
          path_exists_def next_call_quiet eff_bind_def eff_ask_def on_disk_def)
  qed
  with opened app show ?thesis by blast
qed

definition sample_record :: encrypted_journal_record where
  "sample_record = \<lparr>er_version = 1, er_nonce = letters_of (word_le_bytes 24 (0 :: nonce24)),
     er_ciphertext = letters_of [1]\<rparr>"

definition sample_line :: "byte list" where
  "sample_line = map of_nat (sample_record_text sample_record)"

lemma sample_line_record: "json_record sample_journal_libs sample_record = Inr sample_line"
  by (simp add: table_libs_def sample_record_def sample_line_def letters_of_letters)

lemma sample_rejects_joined: "rejects_joined sample_journal_libs"
  unfolding rejects_joined_def
proof (intro allI impI)
  fix r r' b b' assume "json_record sample_journal_libs r = Inr b" "json_record sample_journal_libs r' = Inr b'"
  then have r: "is_letters (er_nonce r)" "is_letters (er_ciphertext r)"
    and r': "is_letters (er_nonce r')" "is_letters (er_ciphertext r')"
    and b: "b @ b' = map of_nat (sample_record_text r @ sample_record_text r')"
    by (auto simp: table_libs_def split: if_splits)
  let ?t = "sample_record_text r @ sample_record_text r'"
  have "44 \<notin> set (er_nonce r)" using r by (auto simp: is_letters_def list_all_iff)
  then have "dropWhile (\<lambda>x. x \<noteq> 44) ?t = 44 # er_ciphertext r @ sample_record_text r'"
    unfolding sample_record_text_def append_assoc by (subst dropWhile_append2) auto
  then have "sample_parse_record ?t = Inl (lit ''trailing characters'')"
    by (simp add: sample_parse_record_def sample_record_text_def)
  moreover have "trim ?t \<noteq> []"
    by (auto simp: trim_empty_iff list_all_iff is_whitespace_def sample_record_text_def)
  moreover have "utf8_decode (b @ b') = Some ?t"
    unfolding b using sample_record_ascii [OF r] sample_record_ascii [OF r']
    by (intro utf8_decode_ascii) (auto simp: list_all_iff)
  ultimately show "\<exists>t m. utf8_decode (b @ b') = Some t \<and> trim t \<noteq> []
      \<and> parse_record sample_journal_libs t = Inl m"
    by (auto simp: table_libs_def)
qed

lemma sample_torn_read: "read_events_of sample_journal_libs T 9 ([] @ sample_line) = Inr [sample_first]"
proof -
  have "decrypt_line sample_journal_libs T 9 sample_line = Inr (Some sample_first)"
    by (rule decrypt_written_line [OF sample_codec_ok, of _ "[1]" _ 0 "[1]"])
      (simp_all add: table_libs_def sample_record_def sample_line_def letters_of_letters)
  moreover have "lines_of ([] @ sample_line) = [sample_line]"
    using lines_of_append_tail [of "[]" sample_line] record_line [OF sample_codec_ok sample_line_record]
    by (simp add: newline_terminated_def)
  ultimately show ?thesis by (simp add: read_events_of_Inr sample_libs_agree sample_fields)
qed

lemma sample_second_neq: "sample_second \<noteq> sample_first"
proof
  assume "sample_second = sample_first"
  then have "je_sequence sample_second = je_sequence sample_first" by (rule arg_cong)
  then show False by (simp add: sample_fields)
qed

theorem lost_newline_breaks_journal_witness:
  "\<exists>s s' m. journal_open sample_journal_libs sample_texts 9 (sample_disk\<lparr>jf_content := Some sample_line\<rparr>)
       = (Inr s, sample_disk\<lparr>jf_content := Some sample_line\<rparr>)
     \<and> file_append sample_journal_libs sample_texts sample_second s = (Inr (), s')
     \<and> fst (file_events sample_journal_libs sample_texts 1 s') = Inl m"
proof -
  let ?f = "sample_disk\<lparr>jf_content := Some sample_line\<rparr>"
  have f: "jf_content ?f = Some ([] @ sample_line)" "jf_script ?f = []" "\<not> jf_symlink ?f"
    by (simp_all add: sample_disk_def)
  have empty: "newline_terminated []" by (simp add: newline_terminated_def)
  have chain: "extends_chain sample_journal_libs (heads_of [sample_first]) sample_second"
    by (simp add: extends_chain_def heads_of_def sample_fields sample_libs_agree sat_succ64_def)
  have codecs: "writable sample_journal_libs 9 ?f sample_second"
    using sample_second_neq by (simp add: writable_def table_libs_def letters_of_letters sample_disk_def)
  from lost_newline_breaks_journal [OF sample_codec_ok sample_rejects_joined sample_line_record empty f
      sample_torn_read chain codecs]
  show ?thesis using use_none by blast
qed

text \<open>Why a journal would not open is told from the text of the error: a record that is not of the
  expected shape is reported as a broken chain when the parser's text mentions a sequence, as it
  does for a JSON array in place of a value.\<close>

lemma open_failures_are_classified_by_text:
  "jd_code (from_open_error T
         (OpsJournal (lit ''invalid journal record: '' @ lit ''invalid type: sequence'')) t)
     = lit ''external_journal_chain_invalid''"
  by code_simp

end
