(* ===== verification/Simulation.thy ===== *)
theory Simulation
  imports Domain_Plan Rust_Path Path_Safety
begin

text \<open>
  \<^verbatim>\<open>crates/simulation/src/lib.rs\<close>: the virtual file system on which a reviewed proposal is
  played before anything is sealed. One definition per branch of the loop body of
  \<^verbatim>\<open>simulate\<close>, composed in the order of the code; \<open>lower\<close> is Unicode \<^verbatim>\<open>to_lowercase\<close> and
  the JSON encoder of a proposal is a field of the parameter record.
\<close>

section \<open>Data\<close>

record simulation_file =
  sf_item_id :: proposal_item_id
  sf_root_id :: root_id
  sf_source_path :: native_path
  sf_source_display :: ustring
  sf_fingerprint :: file_fingerprint

record planned_move =
  pm_item_id :: proposal_item_id
  pm_source_root_id :: root_id
  pm_source_path :: native_path
  pm_destination_root_id :: root_id
  pm_destination_path :: native_path
  pm_fingerprint :: file_fingerprint

record planned_directory =
  pd_root_id :: root_id
  pd_path :: native_path
  pd_display_path :: ustring

record simulation_outcome =
  so_simulation :: proposal_simulation
  so_directories :: "planned_directory list"
  so_moves :: "planned_move list"

datatype simulation_error = SimSerialization | MissingSnapshot

text \<open>The hash maps from roots to sets of paths; a missing entry is the empty set.\<close>

record virtual_file_system =
  vfs_occupied_paths :: "root_id \<Rightarrow> ustring set"
  vfs_existing_directories :: "root_id \<Rightarrow> ustring set"

record sim_libs = libs +
  json_proposal :: "proposal_revision \<Rightarrow> byte list option"
  to_lowercase :: "ustring \<Rightarrow> ustring"

definition case_key :: "'a sim_libs_scheme \<Rightarrow> ustring \<Rightarrow> ustring" where
  "case_key L value = to_lowercase L value"

definition insert_path :: "(root_id \<Rightarrow> ustring set) \<Rightarrow> root_id \<Rightarrow> ustring \<Rightarrow> root_id \<Rightarrow> ustring set" where
  "insert_path m r key = m(r := insert key (m r))"

definition with_occupied_paths ::
  "'a sim_libs_scheme \<Rightarrow> (root_id \<times> ustring) list \<Rightarrow> virtual_file_system" where
  "with_occupied_paths L paths =
     \<lparr>vfs_occupied_paths =
        foldl (\<lambda>m (r, path). insert_path m r (case_key L path)) (\<lambda>_. {}) paths,
      vfs_existing_directories = (\<lambda>_. {})\<rparr>"

definition with_snapshot ::
  "'a sim_libs_scheme \<Rightarrow> (root_id \<times> ustring) list \<Rightarrow> (root_id \<times> ustring) list \<Rightarrow> virtual_file_system" where
  "with_snapshot L files directories =
     (let filesystem = with_occupied_paths L files
      in filesystem\<lparr>vfs_existing_directories :=
           foldl (\<lambda>m (r, path). insert_path m r (case_key L path))
             (vfs_existing_directories filesystem) directories\<rparr>)"

section \<open>Component validation and path encoding\<close>

definition sim_reserved_names :: "ustring list" where
  "sim_reserved_names =
     map lit [''CON'', ''PRN'', ''AUX'', ''NUL'', ''COM1'', ''COM2'', ''COM3'', ''COM4'', ''COM5'',
              ''COM6'', ''COM7'', ''COM8'', ''COM9'', ''LPT1'', ''LPT2'', ''LPT3'', ''LPT4'',
              ''LPT5'', ''LPT6'', ''LPT7'', ''LPT8'', ''LPT9'']"

definition sim_invalid_char :: "uchar \<Rightarrow> bool" where
  "sim_invalid_char c \<longleftrightarrow> c < 0x20 \<or> c \<in> {60, 62, 58, 34, 47, 92, 124, 63, 42}"

definition sim_validate_component :: "ustring \<Rightarrow> review_reason option" where
  "sim_validate_component c =
     (if c = [] \<or> c = lit ''.'' \<or> c = lit ''..'' \<or> ends_with_any [32, 46] c
         \<or> list_ex sim_invalid_char c \<or> utf16_count c > 255
      then Some InvalidPath
      else if to_ascii_uppercase (first_split 46 c) \<in> set sim_reserved_names
      then Some InvalidPath
      else None)"

fun encode_native_path :: "ustring \<Rightarrow> path_encoding \<Rightarrow> native_path" where
  "encode_native_path value UnixBytes =
     \<lparr>np_encoding = UnixBytes, np_bytes = utf8_bytes (replace_char 92 47 value)\<rparr>"
| "encode_native_path value WindowsUtf16Le =
     \<lparr>np_encoding = WindowsUtf16Le, np_bytes = units_to_le (encode_utf16 value)\<rparr>"

section \<open>The loop of simulate\<close>

record sim_state =
  st_occupied :: "root_id \<Rightarrow> ustring set"
  st_conflicts :: "simulation_conflict list"
  st_diffs :: "simulation_diff list"
  st_directories :: "planned_directory list"
  st_planned :: "root_id \<Rightarrow> ustring set"
  st_moves :: "planned_move list"

definition push_conflict ::
  "sim_state \<Rightarrow> proposal_item \<Rightarrow> review_reason \<Rightarrow> conflict_severity \<Rightarrow> ustring \<Rightarrow> sim_state" where
  "push_conflict st item reason severity message =
     st\<lparr>st_conflicts := st_conflicts st
        @ [\<lparr>conflict_item_id = item_id item, conflict_reason = reason,
            conflict_severity = severity, conflict_message = message\<rparr>]\<rparr>"

text \<open>The messages; 233 is e-acute and 8217 the typographic apostrophe.\<close>

definition msg_source :: ustring where
  "msg_source = lit ''La source est bloqu'' @ [233] @ lit ''e ou p'' @ [233] @ lit ''rim'' @ [233] @ lit ''e.''"
definition msg_component :: ustring where
  "msg_component = lit ''La destination contient un composant Windows non s'' @ [251] @ lit ''r.''"
definition msg_length :: ustring where
  "msg_length = lit ''La destination d'' @ [233] @ lit ''passe la limite produit de 240 unit'' @ [233] @ lit ''s UTF-16.''"
definition msg_occupied :: ustring where
  "msg_occupied = lit ''Une entr'' @ [233] @ lit ''e existe d'' @ [233, 106, 224] @ lit '' '' @ [224] @ lit '' cette destination.''"
definition msg_roots :: ustring where
  "msg_roots = lit ''Le MVP n'' @ [8217] @ lit ''autorise pas les transferts entre racines ou volumes.''"
definition msg_volume :: ustring where
  "msg_volume = lit ''Apply est limit'' @ [233] @ lit '' aux volumes locaux fixes.''"
definition msg_ntfs :: ustring where
  "msg_ntfs = lit ''Apply Windows est limit'' @ [233] @ lit '' aux volumes NTFS.''"
definition msg_identity :: ustring where
  "msg_identity = lit ''La source ne poss'' @ [232] @ lit ''de pas une identit'' @ [233] @ lit '' stable pour Apply.''"
definition msg_decision :: ustring where
  "msg_decision = lit ''Une d'' @ [233] @ lit ''cision explicite est requise avant le scellement.''"
definition msg_summary :: ustring where
  "msg_summary = lit ''D'' @ [233] @ lit ''placement intra-racine propos'' @ [233] @ lit '', sans '' @ [233] @ lit ''crasement.''"

definition item_destination :: "proposal_action \<Rightarrow> destination_intent option" where
  "item_destination a = (case a of Keep \<Rightarrow> None | Move d \<Rightarrow> Some d | PlaceInReview d \<Rightarrow> Some d)"

definition destination_components :: "destination_intent \<Rightarrow> ustring list" where
  "destination_components d = di_folder_components d @ [di_file_name d]"

definition destination_display :: "destination_intent \<Rightarrow> ustring" where
  "destination_display d = join_with [92] (destination_components d)"

text \<open>The checks on the source volume and identity, in order; the first that fails.\<close>

definition source_conflict ::
  "simulation_file \<Rightarrow> destination_intent \<Rightarrow> (review_reason \<times> ustring) option" where
  "source_conflict source d =
     (let volume = nid_volume (fp_native_identity (sf_fingerprint source)) in
      if sf_root_id source \<noteq> di_root_id d then Some (CrossVolume, msg_roots)
      else if \<not> vol_local volume \<or> vol_removable volume
      then Some (if vol_removable volume then RemovableVolume else NonLocalVolume, msg_volume)
      else if vol_platform volume = Windows
           \<and> \<not> (case vol_filesystem_type volume of
                   None \<Rightarrow> False
                 | Some v \<Rightarrow> eq_ignore_ascii_case v (lit ''NTFS''))
      then Some (NonNtfsVolume, msg_ntfs)
      else if \<not> stable_for_apply (sf_fingerprint source)
      then Some (if nid_link_count (fp_native_identity (sf_fingerprint source)) \<noteq> 1 then HardLink
                 else if nid_reparse_tag (fp_native_identity (sf_fingerprint source)) \<noteq> None
                 then ReparsePoint
                 else SourceChanged, msg_identity)
      else None)"

text \<open>One iteration of the directory loop, for the prefix of length \<open>index\<close>.\<close>

definition plan_directory ::
  "'a sim_libs_scheme \<Rightarrow> virtual_file_system \<Rightarrow> path_encoding \<Rightarrow> destination_intent
    \<Rightarrow> sim_state \<Rightarrow> nat \<Rightarrow> sim_state" where
  "plan_directory L fs enc d st index =
     (let display_path = join_with [92] (take index (di_folder_components d));
          key = case_key L display_path;
          exists = key \<in> vfs_existing_directories fs (di_root_id d);
          already_planned = key \<in> st_planned st (di_root_id d);
          st' = st\<lparr>st_planned := insert_path (st_planned st) (di_root_id d) key\<rparr>
      in if \<not> exists \<and> \<not> already_planned
         then st'\<lparr>st_directories := st_directories st'
                @ [\<lparr>pd_root_id = di_root_id d, pd_path = encode_native_path display_path enc,
                    pd_display_path = display_path\<rparr>]\<rparr>
         else st')"

definition plan_item ::
  "'a sim_libs_scheme \<Rightarrow> virtual_file_system \<Rightarrow> proposal_item \<Rightarrow> simulation_file
    \<Rightarrow> destination_intent \<Rightarrow> sim_state \<Rightarrow> sim_state" where
  "plan_item L fs item source d st =
     (let enc = np_encoding (sf_source_path source);
          display = destination_display d;
          st = (if item_review_state item = ToReview
                then push_conflict st item LowConfidence Warning msg_decision else st);
          st = foldl (plan_directory L fs enc d) st [1..<Suc (length (di_folder_components d))]
      in st\<lparr>st_diffs := st_diffs st
              @ [\<lparr>diff_item_id = item_id item, diff_display_label = sf_source_display source,
                  diff_before_label = Some (sf_source_display source),
                  diff_after_label = Some display, diff_summary = msg_summary\<rparr>],
            st_moves := st_moves st
              @ [\<lparr>pm_item_id = item_id item, pm_source_root_id = sf_root_id source,
                  pm_source_path = sf_source_path source, pm_destination_root_id = di_root_id d,
                  pm_destination_path = encode_native_path display enc,
                  pm_fingerprint = sf_fingerprint source\<rparr>]\<rparr>)"

definition place_item ::
  "'a sim_libs_scheme \<Rightarrow> virtual_file_system \<Rightarrow> proposal_item \<Rightarrow> simulation_file
    \<Rightarrow> destination_intent \<Rightarrow> sim_state \<Rightarrow> sim_state" where
  "place_item L fs item source d st =
     (case find_map sim_validate_component (destination_components d) of
        Some reason \<Rightarrow> push_conflict st item reason Blocker msg_component
      | None \<Rightarrow>
          (let display = destination_display d in
           if utf16_count display > 240 then push_conflict st item InvalidPath Blocker msg_length
           else if case_key L display \<in> st_occupied st (di_root_id d)
           then push_conflict st item DestinationConflict Blocker msg_occupied
           else
             (let st = st\<lparr>st_occupied := insert_path (st_occupied st) (di_root_id d) (case_key L display)\<rparr>
              in case source_conflict source d of
                   Some (reason, message) \<Rightarrow> push_conflict st item reason Blocker message
                 | None \<Rightarrow> plan_item L fs item source d st)))"

definition simulate_item ::
  "'a sim_libs_scheme \<Rightarrow> virtual_file_system \<Rightarrow> (proposal_item_id \<rightharpoonup> simulation_file)
    \<Rightarrow> sim_state \<Rightarrow> proposal_item \<Rightarrow> simulation_error + sim_state" where
  "simulate_item L fs files st item =
     (if item_review_state item = Rejected then Inr st
      else try_bind (ok_or (files (item_id item)) MissingSnapshot) (\<lambda>source.
        if item_review_state item = Blocked \<or> item_review_state item = Stale
        then Inr (push_conflict st item SourceChanged Blocker msg_source)
        else (case item_destination (item_action item) of
                None \<Rightarrow> Inr st
              | Some d \<Rightarrow> Inr (place_item L fs item source d st))))"

fun simulate_items ::
  "'a sim_libs_scheme \<Rightarrow> virtual_file_system \<Rightarrow> (proposal_item_id \<rightharpoonup> simulation_file)
    \<Rightarrow> sim_state \<Rightarrow> proposal_item list \<Rightarrow> simulation_error + sim_state" where
  "simulate_items L fs files st [] = Inr st"
| "simulate_items L fs files st (item # items) =
     try_bind (simulate_item L fs files st item) (\<lambda>st'. simulate_items L fs files st' items)"

definition initial_sim_state :: "virtual_file_system \<Rightarrow> sim_state" where
  "initial_sim_state fs =
     \<lparr>st_occupied = vfs_occupied_paths fs, st_conflicts = [], st_diffs = [], st_directories = [],
      st_planned = (\<lambda>_. {}), st_moves = []\<rparr>"

text \<open>Collecting into a hash map keeps the last file of an item.\<close>

definition file_map :: "simulation_file list \<Rightarrow> proposal_item_id \<rightharpoonup> simulation_file" where
  "file_map files = map_of (rev (map (\<lambda>f. (sf_item_id f, f)) files))"

definition simulate ::
  "'a sim_libs_scheme \<Rightarrow> virtual_file_system \<Rightarrow> proposal_revision \<Rightarrow> simulation_file list \<Rightarrow> int
    \<Rightarrow> simulation_error + simulation_outcome" where
  "simulate L fs proposal snapshot_files now_unix_ms =
     try_bind (ok_or (json_proposal L proposal) SimSerialization) (\<lambda>encoded.
     try_bind (simulate_items L fs (file_map snapshot_files) (initial_sim_state fs) (prop_items proposal))
       (\<lambda>st. Inr
          \<lparr>so_simulation =
             \<lparr>sim_proposal_id = prop_id proposal, sim_proposal_digest = blake3 L encoded,
              sim_diffs = st_diffs st, sim_conflicts = st_conflicts st,
              sim_simulated_at_unix_ms = now_unix_ms\<rparr>,
           so_directories = st_directories st, so_moves = st_moves st\<rparr>))"

section \<open>What one item does\<close>

text \<open>An accepted item with its source file and destination, and what it adds to the outcome.\<close>

type_synonym accepted = "proposal_item \<times> simulation_file \<times> destination_intent"

fun accepted_move :: "accepted \<Rightarrow> planned_move" where
  "accepted_move (item, source, d) =
     \<lparr>pm_item_id = item_id item, pm_source_root_id = sf_root_id source,
      pm_source_path = sf_source_path source, pm_destination_root_id = di_root_id d,
      pm_destination_path = encode_native_path (destination_display d) (np_encoding (sf_source_path source)),
      pm_fingerprint = sf_fingerprint source\<rparr>"

fun accepted_diff :: "accepted \<Rightarrow> simulation_diff" where
  "accepted_diff (item, source, d) =
     \<lparr>diff_item_id = item_id item, diff_display_label = sf_source_display source,
      diff_before_label = Some (sf_source_display source),
      diff_after_label = Some (destination_display d), diff_summary = msg_summary\<rparr>"

fun accepted_key :: "'a sim_libs_scheme \<Rightarrow> accepted \<Rightarrow> root_id \<times> ustring" where
  "accepted_key L (item, source, d) = (di_root_id d, case_key L (destination_display d))"

fun admissible :: "(proposal_item_id \<rightharpoonup> simulation_file) \<Rightarrow> accepted \<Rightarrow> bool" where
  "admissible files (item, source, d) \<longleftrightarrow>
     files (item_id item) = Some source
     \<and> item_destination (item_action item) = Some d
     \<and> item_review_state item \<notin> {Rejected, Blocked, Stale}
     \<and> list_all (\<lambda>c. sim_validate_component c = None) (destination_components d)
     \<and> utf16_count (destination_display d) \<le> 240
     \<and> source_conflict source d = None"

definition is_movable :: "proposal_item \<Rightarrow> bool" where
  "is_movable item \<longleftrightarrow>
     item_review_state item \<notin> {Rejected, Blocked, Stale} \<and> item_destination (item_action item) \<noteq> None"

definition has_blocker :: "simulation_conflict list \<Rightarrow> bool" where
  "has_blocker cs \<longleftrightarrow> list_ex (\<lambda>c. conflict_severity c = Blocker) cs"

lemma has_blocker_simps [simp]:
  "\<not> has_blocker []"
  "has_blocker (cs @ ds) \<longleftrightarrow> has_blocker cs \<or> has_blocker ds"
  "has_blocker (c # cs) \<longleftrightarrow> conflict_severity c = Blocker \<or> has_blocker cs"
  by (auto simp: has_blocker_def)

lemma plan_directory_frame:
  "st_occupied (plan_directory L fs enc d st i) = st_occupied st"
  "st_conflicts (plan_directory L fs enc d st i) = st_conflicts st"
  "st_diffs (plan_directory L fs enc d st i) = st_diffs st"
  "st_moves (plan_directory L fs enc d st i) = st_moves st"
  by (simp_all add: plan_directory_def Let_def)

lemma plan_directories_frame:
  "st_occupied (foldl (plan_directory L fs enc d) st is) = st_occupied st"
  "st_conflicts (foldl (plan_directory L fs enc d) st is) = st_conflicts st"
  "st_diffs (foldl (plan_directory L fs enc d) st is) = st_diffs st"
  "st_moves (foldl (plan_directory L fs enc d) st is) = st_moves st"
  by (induction "is" arbitrary: st) (simp_all add: plan_directory_frame)

lemma push_conflict_frame [simp]:
  "st_occupied (push_conflict st i r s m) = st_occupied st"
  "st_diffs (push_conflict st i r s m) = st_diffs st"
  "st_moves (push_conflict st i r s m) = st_moves st"
  "st_directories (push_conflict st i r s m) = st_directories st"
  "st_planned (push_conflict st i r s m) = st_planned st"
  by (simp_all add: push_conflict_def)

lemma push_conflict_conflicts:
  "st_conflicts (push_conflict st i r s m) = st_conflicts st
     @ [\<lparr>conflict_item_id = item_id i, conflict_reason = r, conflict_severity = s, conflict_message = m\<rparr>]"
  by (simp add: push_conflict_def)

lemma plan_item_frame:
  "st_occupied (plan_item L fs item source d st) = st_occupied st"
  "st_diffs (plan_item L fs item source d st) = st_diffs st @ [accepted_diff (item, source, d)]"
  "st_moves (plan_item L fs item source d st) = st_moves st @ [accepted_move (item, source, d)]"
  "has_blocker (st_conflicts (plan_item L fs item source d st)) = has_blocker (st_conflicts st)"
  by (simp_all add: plan_item_def Let_def plan_directories_frame push_conflict_conflicts)

lemma simulate_item_cases:
  assumes "simulate_item L fs files st item = Inr st'"
  obtains
    (skipped) "st' = st" "\<not> is_movable item"
  | (conflict) occupied reason message where
      "st' = push_conflict (st\<lparr>st_occupied := occupied\<rparr>) item reason Blocker message"
      "\<And>r. st_occupied st r \<subseteq> occupied r"
  | (planned) source d where
      "admissible files (item, source, d)"
      "case_key L (destination_display d) \<notin> st_occupied st (di_root_id d)"
      "st' = plan_item L fs item source d
         (st\<lparr>st_occupied := insert_path (st_occupied st) (di_root_id d)
                (case_key L (destination_display d))\<rparr>)"
proof (cases "item_review_state item = Rejected")
  case True
  with assms skipped show ?thesis by (simp add: simulate_item_def is_movable_def)
next
  case False
  then obtain source where s: "files (item_id item) = Some source"
    using assms by (cases "files (item_id item)") (auto simp: simulate_item_def)
  show ?thesis
  proof (cases "item_review_state item = Blocked \<or> item_review_state item = Stale")
    case True
    then have "st' = push_conflict (st\<lparr>st_occupied := st_occupied st\<rparr>) item SourceChanged Blocker msg_source"
      using assms False s by (auto simp: simulate_item_def)
    then show ?thesis by (rule conflict) simp
  next
    case live: False
    show ?thesis
    proof (cases "item_destination (item_action item)")
      case None
      with assms False s live skipped show ?thesis by (simp add: simulate_item_def is_movable_def)
    next
      case (Some d)
      then have st': "st' = place_item L fs item source d st"
        using assms False s live by (simp add: simulate_item_def)
      let ?k = "case_key L (destination_display d)"
      let ?occ = "insert_path (st_occupied st) (di_root_id d) ?k"
      have keep: "\<And>r. st_occupied st r \<subseteq> ?occ r" by (auto simp: insert_path_def)
      have same: "st = st\<lparr>st_occupied := st_occupied st\<rparr>" by simp
      show ?thesis
      proof (cases "find_map sim_validate_component (destination_components d)")
        case (Some reason)
        then have "st' = push_conflict (st\<lparr>st_occupied := st_occupied st\<rparr>) item reason Blocker msg_component"
          using st' by (simp add: place_item_def)
        then show ?thesis by (rule conflict) simp
      next
        case valid: None
        then have v: "list_all (\<lambda>c. sim_validate_component c = None) (destination_components d)"
          by (simp add: find_map_None list_all_iff)
        consider (long) "utf16_count (destination_display d) > 240"
          | (taken) "utf16_count (destination_display d) \<le> 240" "?k \<in> st_occupied st (di_root_id d)"
          | (free) "utf16_count (destination_display d) \<le> 240" "?k \<notin> st_occupied st (di_root_id d)"
          by linarith
        then show ?thesis
        proof cases
          case long
          then have "st' = push_conflict (st\<lparr>st_occupied := st_occupied st\<rparr>) item InvalidPath Blocker msg_length"
            using st' valid by (simp add: place_item_def)
          then show ?thesis by (rule conflict) simp
        next
          case taken
          then have "st' = push_conflict (st\<lparr>st_occupied := st_occupied st\<rparr>) item DestinationConflict
              Blocker msg_occupied"
            using st' valid by (simp add: place_item_def)
          then show ?thesis by (rule conflict) simp
        next
          case free
          show ?thesis
          proof (cases "source_conflict source d")
            case (Some rm)
            then have "st' = push_conflict (st\<lparr>st_occupied := ?occ\<rparr>) item (fst rm) Blocker (snd rm)"
              using st' valid free by (simp add: place_item_def split_beta)
            then show ?thesis by (rule conflict) (rule keep)
          next
            case None
            then have "st' = plan_item L fs item source d (st\<lparr>st_occupied := ?occ\<rparr>)"
              using st' valid free by (simp add: place_item_def)
            moreover have "admissible files (item, source, d)"
              using s \<open>item_destination (item_action item) = Some d\<close> False live v free None by simp
            ultimately show ?thesis using planned free by blast
          qed
        qed
      qed
    qed
  qed
qed

section \<open>The whole run\<close>

lemma simulate_items_trace:
  assumes "simulate_items L fs files st items = Inr st'"
  shows "\<exists>acc. st_moves st' = st_moves st @ map accepted_move acc
    \<and> st_diffs st' = st_diffs st @ map accepted_diff acc
    \<and> list_all (admissible files) acc
    \<and> distinct (map (accepted_key L) acc)
    \<and> (\<forall>a \<in> set acc. snd (accepted_key L a) \<notin> st_occupied st (fst (accepted_key L a)))
    \<and> (has_blocker (st_conflicts st) \<longrightarrow> has_blocker (st_conflicts st'))
    \<and> (\<not> has_blocker (st_conflicts st') \<longrightarrow> map fst acc = filter is_movable items)
    \<and> set (map fst acc) \<subseteq> set items"
  using assms
proof (induction items arbitrary: st)
  case Nil
  then show ?case by (intro exI [of _ "[]"]) auto
next
  case (Cons item items)
  then obtain st1 where one: "simulate_item L fs files st item = Inr st1"
    and rest: "simulate_items L fs files st1 items = Inr st'"
    by (auto simp: try_bind_Inr)
  obtain acc where IH: "st_moves st' = st_moves st1 @ map accepted_move acc"
      "st_diffs st' = st_diffs st1 @ map accepted_diff acc"
      "list_all (admissible files) acc" "distinct (map (accepted_key L) acc)"
      "\<forall>a \<in> set acc. snd (accepted_key L a) \<notin> st_occupied st1 (fst (accepted_key L a))"
      "has_blocker (st_conflicts st1) \<longrightarrow> has_blocker (st_conflicts st')"
      "\<not> has_blocker (st_conflicts st') \<longrightarrow> map fst acc = filter is_movable items"
      "set (map fst acc) \<subseteq> set items"
    using Cons.IH [OF rest] by blast
  from one show ?case
  proof (cases rule: simulate_item_cases)
    case skipped
    with IH show ?thesis by (intro exI [of _ acc]) auto
  next
    case (conflict occupied reason message)
    with IH show ?thesis
      by (intro exI [of _ acc]) (auto simp: push_conflict_conflicts)
  next
    case (planned source d)
    have occ: "st_occupied st1 = insert_path (st_occupied st) (di_root_id d)
        (case_key L (destination_display d))"
      using planned(3) by (simp add: plan_item_frame)
    have m: "is_movable item" using planned(1) by (simp add: is_movable_def)
    have new: "accepted_key L (item, source, d) \<notin> set (map (accepted_key L) acc)"
    proof
      assume "accepted_key L (item, source, d) \<in> set (map (accepted_key L) acc)"
      then have "\<exists>a \<in> set acc. accepted_key L (item, source, d) = accepted_key L a"
        unfolding set_map image_iff .
      then obtain a where a: "a \<in> set acc" "accepted_key L (item, source, d) = accepted_key L a" ..
      have "snd (accepted_key L a) \<notin> st_occupied st1 (fst (accepted_key L a))"
        using IH(5) a(1) by blast
      then show False unfolding a(2) [symmetric] by (simp add: occ insert_path_def)
    qed
    have old: "\<forall>a \<in> set acc. snd (accepted_key L a) \<notin> st_occupied st (fst (accepted_key L a))"
    proof -
      have "\<And>r. st_occupied st r \<subseteq> st_occupied st1 r" unfolding occ by (simp add: insert_path_def subset_insertI)
      then show ?thesis using IH(5) by blast
    qed
    have key: "snd (accepted_key L (item, source, d))
        \<notin> st_occupied st (fst (accepted_key L (item, source, d)))"
      using planned(2) by simp
    have frame: "st_moves st1 = st_moves st @ [accepted_move (item, source, d)]"
      "st_diffs st1 = st_diffs st @ [accepted_diff (item, source, d)]"
      "has_blocker (st_conflicts st1) = has_blocker (st_conflicts st)"
      using planned(3) by (simp_all add: plan_item_frame)
    have "st_moves st' = st_moves st @ map accepted_move ((item, source, d) # acc)"
      "st_diffs st' = st_diffs st @ map accepted_diff ((item, source, d) # acc)"
      using IH(1,2) frame by simp_all
    moreover have "list_all (admissible files) ((item, source, d) # acc)"
      using planned(1) IH(3) by simp
    moreover have "distinct (map (accepted_key L) ((item, source, d) # acc))"
      using new IH(4) by simp
    moreover have "\<forall>a \<in> set ((item, source, d) # acc).
        snd (accepted_key L a) \<notin> st_occupied st (fst (accepted_key L a))"
      using key old by auto
    moreover have "\<not> has_blocker (st_conflicts st')
        \<longrightarrow> map fst ((item, source, d) # acc) = filter is_movable (item # items)"
      using IH(7) m by simp
    moreover have "has_blocker (st_conflicts st) \<longrightarrow> has_blocker (st_conflicts st')"
      using IH(6) frame(3) by simp
    moreover have "set (map fst ((item, source, d) # acc)) \<subseteq> set (item # items)"
      using IH(8) by auto
    ultimately show ?thesis by blast
  qed
qed

lemma simulate_trace:
  assumes "simulate L fs proposal files now = Inr out"
  obtains acc where "so_moves out = map accepted_move acc"
    and "sim_diffs (so_simulation out) = map accepted_diff acc"
    and "list_all (admissible (file_map files)) acc"
    and "distinct (map (accepted_key L) acc)"
    and "\<forall>a \<in> set acc. snd (accepted_key L a) \<notin> vfs_occupied_paths fs (fst (accepted_key L a))"
    and "\<not> has_blockers (so_simulation out) \<Longrightarrow> map fst acc = filter is_movable (prop_items proposal)"
    and "set (map fst acc) \<subseteq> set (prop_items proposal)"
proof -
  obtain st' where run: "simulate_items L fs (file_map files) (initial_sim_state fs) (prop_items proposal) = Inr st'"
    and out: "so_moves out = st_moves st'" "sim_diffs (so_simulation out) = st_diffs st'"
      "sim_conflicts (so_simulation out) = st_conflicts st'"
    using assms by (auto simp: simulate_def try_bind_Inr)
  obtain acc where acc: "st_moves st' = map accepted_move acc" "st_diffs st' = map accepted_diff acc"
      "list_all (admissible (file_map files)) acc" "distinct (map (accepted_key L) acc)"
      "\<forall>a \<in> set acc. snd (accepted_key L a) \<notin> vfs_occupied_paths fs (fst (accepted_key L a))"
      "\<not> has_blocker (st_conflicts st') \<longrightarrow> map fst acc = filter is_movable (prop_items proposal)"
      "set (map fst acc) \<subseteq> set (prop_items proposal)"
    using simulate_items_trace [OF run] by (auto simp: initial_sim_state_def)
  show ?thesis
    by (rule that [of acc]) (use acc out in \<open>simp_all add: has_blockers_def has_blocker_def\<close>)
qed

text \<open>Facts that every accepted item carries.\<close>

lemma admissible_source:
  assumes "admissible files (item, source, d)"
  shows "sf_root_id source = di_root_id d" and "stable_for_apply (sf_fingerprint source)"
    and "vol_local (nid_volume (fp_native_identity (sf_fingerprint source)))"
    and "\<not> vol_removable (nid_volume (fp_native_identity (sf_fingerprint source)))"
  using assms by (auto simp: source_conflict_def Let_def split: if_splits)

section \<open>Accepted destinations are relative and descend only\<close>

lemma valid_component_text:
  assumes "sim_validate_component c = None"
  shows "c \<noteq> []" "c \<noteq> [46]" "c \<noteq> [46, 46]" "47 \<notin> set c" "92 \<notin> set c"
  using assms
  by (auto simp: sim_validate_component_def lit_simps sim_invalid_char_def list_ex_iff split: if_splits)

lemma utf8_bytes_ascii_inj:
  "wf_text s \<Longrightarrow> list_all (\<lambda>c. c < 0x80) t \<Longrightarrow> utf8_bytes s = map of_nat t \<Longrightarrow> s = t"
proof (induction s arbitrary: t)
  case (Cons x xs)
  obtain b bs where u: "utf8_char x = b # bs"
    by (cases "utf8_char x") (auto simp: utf8_char_def split: if_splits)
  obtain y ys where t: "t = y # ys" using Cons.prems(3) u by (cases t) (auto simp: utf8_bytes_Cons)
  have eq: "(of_nat b :: byte) = of_nat y" using Cons.prems(3) u t by (simp add: utf8_bytes_Cons)
  have sc: "is_scalar x" using Cons.prems(1) by simp
  have b: "b < 256" using utf8_char_range [OF sc, of b] u by simp
  have y: "y < 0x80" using Cons.prems(2) t by simp
  have "unat (of_nat b :: byte) = b" "unat (of_nat y :: byte) = y"
    using b y by (simp_all add: unsigned_of_nat take_bit_eq_mod)
  with eq have "b = y" by metis
  then have "x = y" using utf8_char_ascii [OF sc, of b] u y by simp
  then have "utf8_char x = [x]" using y by (simp add: utf8_char_def)
  then have "utf8_bytes xs = map of_nat ys" using Cons.prems(3) u t by (simp add: utf8_bytes_Cons)
  then have "xs = ys" using Cons t by simp
  with \<open>x = y\<close> t show ?case by simp
qed simp

lemma utf8_segment:
  assumes v: "sim_validate_component c = None" and w: "wf_text c"
  shows "wf_seg (Normal (utf8_bytes c))"
proof -
  note t = valid_component_text [OF v]
  have "utf8_bytes c \<noteq> []" using t(1) by (cases c) (auto simp: utf8_bytes_Cons utf8_char_def)
  moreover have "utf8_bytes c \<noteq> [46]" using utf8_bytes_ascii_inj [OF w, of "[46]"] t(2) by auto
  moreover have "utf8_bytes c \<noteq> [46, 46]" using utf8_bytes_ascii_inj [OF w, of "[46, 46]"] t(3) by auto
  moreover have "47 \<notin> set (utf8_bytes c)" using utf8_bytes_ascii [OF w, of 47] t(4) by auto
  ultimately show ?thesis by simp
qed

lemma replace_char_join:
  "\<forall>c \<in> set cs. 92 \<notin> set c \<Longrightarrow> replace_char 92 47 (join_with [92] cs) = join_with [47] cs"
proof (induction "[92::nat]" cs rule: join_with.induct)
  case (2 x)
  then show ?case by (auto simp: replace_char_def intro: map_idI)
next
  case (3 x y xs)
  have "replace_char 92 47 x = x" using 3(2) by (auto simp: replace_char_def intro: map_idI)
  then show ?case using 3 by (simp add: replace_char_def)
qed (simp add: replace_char_def)

lemma utf8_join: "utf8_bytes (join_with [47] cs) = join_slash (map utf8_bytes cs)"
proof (induction "[47::nat]" cs rule: join_with.induct)
  case (3 x y xs)
  then show ?case by (simp add: utf8_bytes_Cons utf8_char_def)
qed simp_all

lemma encoded_destination_components:
  assumes v: "list_all (\<lambda>c. sim_validate_component c = None) cs" and w: "list_all wf_text cs"
    and ne: "cs \<noteq> []"
  shows "components (np_bytes (encode_native_path (join_with [92] cs) UnixBytes))
    = map (\<lambda>c. Normal (utf8_bytes c)) cs"
proof -
  have "\<forall>c \<in> set cs. 92 \<notin> set c"
    using v valid_component_text(5) by (auto simp: list_all_iff)
  then have "np_bytes (encode_native_path (join_with [92] cs) UnixBytes)
      = join_slash (map component_bytes (map (\<lambda>c. Normal (utf8_bytes c)) cs))"
    by (simp add: replace_char_join utf8_join comp_def)
  moreover have "list_all wf_seg (map (\<lambda>c. Normal (utf8_bytes c)) cs)"
    using v w utf8_segment by (auto simp: list_all_iff simp del: wf_seg.simps)
  ultimately show ?thesis using ne components_join_segs by fastforce
qed

definition wf_destination :: "destination_intent \<Rightarrow> bool" where
  "wf_destination d \<longleftrightarrow> list_all wf_text (destination_components d)"

lemma accepted_destination_normal:
  assumes "admissible files (item, source, d)" and "wf_destination d"
    and "np_encoding (sf_source_path source) = UnixBytes"
  shows "all_normal (np_bytes (pm_destination_path (accepted_move (item, source, d))))"
  using assms encoded_destination_components [of "destination_components d"]
  by (auto simp: all_normal_def wf_destination_def destination_display_def list_all_iff
      destination_components_def simp del: encode_native_path.simps)

section \<open>Planned directories\<close>

text \<open>Every key marked as planned either existed or has a planned directory.\<close>

definition planned_ok :: "'a sim_libs_scheme \<Rightarrow> virtual_file_system \<Rightarrow> sim_state \<Rightarrow> bool" where
  "planned_ok L fs st \<longleftrightarrow>
     (\<forall>r k. k \<in> st_planned st r \<longrightarrow>
        k \<in> vfs_existing_directories fs r
        \<or> (\<exists>p \<in> set (st_directories st). pd_root_id p = r \<and> case_key L (pd_display_path p) = k))"

lemma plan_directory_ok: "planned_ok L fs st \<Longrightarrow> planned_ok L fs (plan_directory L fs enc d st i)"
  by (auto simp: planned_ok_def plan_directory_def Let_def insert_path_def)

lemma plan_directory_mono:
  "st_planned st r \<subseteq> st_planned (plan_directory L fs enc d st i) r"
  by (auto simp: plan_directory_def Let_def insert_path_def)

lemma plan_directory_marks:
  "case_key L (join_with [92] (take i (di_folder_components d)))
     \<in> st_planned (plan_directory L fs enc d st i) (di_root_id d)"
  by (simp add: plan_directory_def Let_def insert_path_def)

lemma plan_directories_ok:
  "planned_ok L fs st \<Longrightarrow> planned_ok L fs (foldl (plan_directory L fs enc d) st is)"
  by (induction "is" arbitrary: st) (simp_all add: plan_directory_ok)

lemma plan_directories_mono:
  "st_planned st r \<subseteq> st_planned (foldl (plan_directory L fs enc d) st is) r"
proof (induction "is" arbitrary: st)
  case (Cons j js)
  have "st_planned st r \<subseteq> st_planned (plan_directory L fs enc d st j) r"
    by (rule plan_directory_mono)
  also have "\<dots> \<subseteq> st_planned (foldl (plan_directory L fs enc d) (plan_directory L fs enc d st j) js) r"
    by (rule Cons.IH)
  finally show ?case by simp
qed simp

lemma plan_directories_marks:
  "i \<in> set is \<Longrightarrow> case_key L (join_with [92] (take i (di_folder_components d)))
     \<in> st_planned (foldl (plan_directory L fs enc d) st is) (di_root_id d)"
proof (induction "is" arbitrary: st)
  case (Cons j js)
  show ?case
  proof (cases "i = j")
    case True
    show ?thesis
      using plan_directory_marks [of L i d fs enc st] plan_directories_mono True by fastforce
  next
    case False
    with Cons show ?thesis by simp
  qed
qed simp

lemma plan_item_planned:
  assumes "planned_ok L fs st"
  shows "planned_ok L fs (plan_item L fs item source d st)"
    and "st_planned st r \<subseteq> st_planned (plan_item L fs item source d st) r"
    and "0 < i \<Longrightarrow> i \<le> length (di_folder_components d) \<Longrightarrow>
      case_key L (join_with [92] (take i (di_folder_components d)))
        \<in> st_planned (plan_item L fs item source d st) (di_root_id d)"
proof -
  define st1 where "st1 = (if item_review_state item = ToReview
    then push_conflict st item LowConfidence Warning msg_decision else st)"
  define st2 where "st2 = foldl (plan_directory L fs (np_encoding (sf_source_path source)) d) st1
    [1..<Suc (length (di_folder_components d))]"
  have p: "st_planned (plan_item L fs item source d st) = st_planned st2"
    "st_directories (plan_item L fs item source d st) = st_directories st2"
    by (simp_all add: plan_item_def Let_def st1_def st2_def)
  have p1: "st_planned st1 = st_planned st" "st_directories st1 = st_directories st"
    by (simp_all add: st1_def)
  have "planned_ok L fs st1" using assms p1 by (simp add: planned_ok_def)
  then have "planned_ok L fs st2" unfolding st2_def by (rule plan_directories_ok)
  then show "planned_ok L fs (plan_item L fs item source d st)" using p by (simp add: planned_ok_def)
  show "st_planned st r \<subseteq> st_planned (plan_item L fs item source d st) r"
    unfolding p st2_def p1(1) [symmetric] by (rule plan_directories_mono)
  show "0 < i \<Longrightarrow> i \<le> length (di_folder_components d) \<Longrightarrow>
      case_key L (join_with [92] (take i (di_folder_components d)))
        \<in> st_planned (plan_item L fs item source d st) (di_root_id d)"
    unfolding p st2_def by (rule plan_directories_marks) auto
qed

text \<open>Every folder on the way to an accepted destination exists or is planned.\<close>

definition folders_ready ::
  "'a sim_libs_scheme \<Rightarrow> virtual_file_system \<Rightarrow> planned_directory list \<Rightarrow> destination_intent \<Rightarrow> bool" where
  "folders_ready L fs directories d \<longleftrightarrow>
     (\<forall>i \<in> {1..length (di_folder_components d)}.
        case_key L (join_with [92] (take i (di_folder_components d))) \<in> vfs_existing_directories fs (di_root_id d)
        \<or> (\<exists>p \<in> set directories. pd_root_id p = di_root_id d
             \<and> case_key L (pd_display_path p) = case_key L (join_with [92] (take i (di_folder_components d)))))"

lemma simulate_items_planned:
  assumes "simulate_items L fs files st items = Inr st'" and "planned_ok L fs st"
  shows "planned_ok L fs st' \<and> (\<forall>r. st_planned st r \<subseteq> st_planned st' r)
    \<and> (\<forall>m \<in> set (st_moves st') - set (st_moves st). \<exists>item \<in> set items. \<exists>d.
         item_destination (item_action item) = Some d \<and> pm_item_id m = item_id item
         \<and> (\<forall>i \<in> {1..length (di_folder_components d)}.
              case_key L (join_with [92] (take i (di_folder_components d))) \<in> st_planned st' (di_root_id d)))"
  using assms
proof (induction items arbitrary: st)
  case (Cons item items)
  then obtain st1 where one: "simulate_item L fs files st item = Inr st1"
    and rest: "simulate_items L fs files st1 items = Inr st'"
    by (auto simp: try_bind_Inr)
  from one show ?case
  proof (cases rule: simulate_item_cases)
    case skipped
    with Cons.IH [OF rest] Cons.prems(2) show ?thesis by auto
  next
    case (conflict occupied reason message)
    then have "planned_ok L fs st1" "st_planned st1 = st_planned st" "st_moves st1 = st_moves st"
      using Cons.prems(2) by (auto simp: planned_ok_def)
    with Cons.IH [OF rest] show ?thesis by auto
  next
    case (planned source d)
    let ?st = "st\<lparr>st_occupied := insert_path (st_occupied st) (di_root_id d)
        (case_key L (destination_display d))\<rparr>"
    have "planned_ok L fs ?st" using Cons.prems(2) by (simp add: planned_ok_def)
    note P = plan_item_planned [OF this, where item = item and source = source and d = d,
        folded planned(3)]
    note IH = Cons.IH [OF rest P(1)]
    have mono: "st_planned st r \<subseteq> st_planned st' r" for r
      using P(2) [of r] IH by (auto simp: subset_iff)
    have new: "set (st_moves st1) = insert (accepted_move (item, source, d)) (set (st_moves st))"
      using planned(3) by (simp add: plan_item_frame)
    have marks: "\<forall>i \<in> {1..length (di_folder_components d)}.
        case_key L (join_with [92] (take i (di_folder_components d))) \<in> st_planned st' (di_root_id d)"
      using P(3) IH by (auto simp: subset_iff)
    have dest: "item_destination (item_action item) = Some d" using planned(1) by simp
    show ?thesis
    proof (intro conjI ballI)
      show "planned_ok L fs st'" using IH by blast
      show "\<forall>r. st_planned st r \<subseteq> st_planned st' r" using mono by blast
      fix m assume m: "m \<in> set (st_moves st') - set (st_moves st)"
      show "\<exists>item' \<in> set (item # items). \<exists>d. item_destination (item_action item') = Some d
          \<and> pm_item_id m = item_id item'
          \<and> (\<forall>i \<in> {1..length (di_folder_components d)}.
               case_key L (join_with [92] (take i (di_folder_components d))) \<in> st_planned st' (di_root_id d))"
      proof (cases "m \<in> set (st_moves st1)")
        case True
        then have "m = accepted_move (item, source, d)" using m new by blast
        then show ?thesis using dest marks by (intro bexI [of _ item] exI [of _ d]) auto
      next
        case False
        then show ?thesis using IH m by (meson DiffD1 DiffI list.set_intros(2))
      qed
    qed
  qed
qed simp

section \<open>Properties\<close>

definition sample_sim_libs :: sim_libs where
  "sample_sim_libs =
     \<lparr>blake3 = (\<lambda>_. 0), uuid_text = word_le_bytes 36, json_proposal = (\<lambda>_. Some []),
      to_lowercase = ascii_lower\<rparr>"

definition sample_fingerprint :: file_fingerprint where
  "sample_fingerprint =
     \<lparr>fp_native_identity =
        \<lparr>nid_volume = \<lparr>vol_platform = Linux, vol_stable_identifier = [], vol_filesystem_type = None,
                       vol_case_sensitive = True, vol_removable = False, vol_local = True\<rparr>,
         nid_object_key = [], nid_parent_key = [],
         nid_leaf_name = \<lparr>np_encoding = UnixBytes, np_bytes = [97]\<rparr>,
         nid_link_count = 1, nid_reparse_tag = None\<rparr>,
      fp_byte_size = 1, fp_modified_at_ns = None, fp_created_at_ns = None, fp_attributes = 0,
      fp_quick_digest = None, fp_content_digest = Some 0\<rparr>"

definition sample_file :: "nat \<Rightarrow> simulation_file" where
  "sample_file i =
     \<lparr>sf_item_id = of_nat i, sf_root_id = 9,
      sf_source_path = \<lparr>np_encoding = UnixBytes, np_bytes = [of_nat (96 + i)]\<rparr>,
      sf_source_display = [96 + i], sf_fingerprint = sample_fingerprint\<rparr>"

definition sample_intent :: "ustring list \<Rightarrow> ustring \<Rightarrow> destination_intent" where
  "sample_intent folders name =
     \<lparr>di_root_id = 9, di_folder_components = folders, di_file_name = name\<rparr>"

definition sample_item :: "nat \<Rightarrow> ustring list \<Rightarrow> ustring \<Rightarrow> proposal_item" where
  "sample_item i folders name =
     \<lparr>item_id = of_nat i, item_file_id = 0, item_expected_file_version_id = 0,
      item_action = Move (sample_intent folders name), item_review_state = Accepted,
      item_confidence = \<lparr>conf_raw_score = F32 1, conf_probability = None, conf_calibration = Uncalibrated\<rparr>,
      item_rationale = [], item_evidence = [], item_counter_evidence = [],
      item_uncertainty_reasons = [], item_alternatives = []\<rparr>"

definition sample_proposal :: "proposal_item list \<Rightarrow> proposal_revision" where
  "sample_proposal items =
     \<lparr>prop_id = 5, prop_workspace_id = 0, prop_base_scan_id = 0, prop_revision = 1,
      prop_policy_digest = 0, prop_items = items, prop_created_at_unix_ms = 0\<rparr>"

definition empty_fs :: virtual_file_system where
  "empty_fs = \<lparr>vfs_occupied_paths = (\<lambda>_. {}), vfs_existing_directories = (\<lambda>_. {})\<rparr>"

lemmas sample_sim_defs =
  sample_sim_libs_def sample_file_def sample_intent_def sample_item_def sample_proposal_def
  empty_fs_def

text \<open>Two accepted moves: file 1 to \<^verbatim>\<open>x\y\<close> and file 2 to \<^verbatim>\<open>x\<close>.\<close>

definition sample_clash :: "simulation_error + simulation_outcome" where
  "sample_clash =
     simulate sample_sim_libs empty_fs
       (sample_proposal [sample_item 1 [[120]] [121], sample_item 2 [] [120]])
       [sample_file 1, sample_file 2] 0"

lemma sample_valid: "sim_validate_component [120] = None" "sim_validate_component [121] = None"
  by (simp_all add: sim_validate_component_def lit_simps ends_with_any_def sim_invalid_char_def
      len_utf16_def first_split_def to_ascii_uppercase_def upper_char_def is_ascii_lower_def
      sim_reserved_names_def)

lemma sample_source_ok: "source_conflict (sample_file i) (sample_intent f n) = None"
  by (simp add: source_conflict_def sample_file_def sample_intent_def sample_fingerprint_def Let_def
      stable_for_apply_def)

lemma sample_step:
  assumes "list_all (\<lambda>c. sim_validate_component c = None) (folders @ [name])"
    and "utf16_count (join_with [92] (folders @ [name])) \<le> 240"
    and "files (of_nat i) = Some (sample_file j)"
    and "ascii_lower (join_with [92] (folders @ [name])) \<notin> st_occupied st 9"
  shows "simulate_item sample_sim_libs fs files st (sample_item i folders name)
    = Inr (plan_item sample_sim_libs fs (sample_item i folders name) (sample_file j)
        (sample_intent folders name)
        (st\<lparr>st_occupied := insert_path (st_occupied st) 9 (ascii_lower (join_with [92] (folders @ [name])))\<rparr>))"
proof -
  have "find_map sim_validate_component (folders @ [name]) = None"
    using assms(1) by (auto simp: find_map_None list_all_iff)
  moreover have "source_conflict (sample_file j) (sample_intent folders name) = None"
    by (rule sample_source_ok)
  ultimately show ?thesis
    using assms(2-4)
    by (simp add: simulate_item_def place_item_def item_destination_def destination_components_def
        destination_display_def sample_item_def sample_intent_def sample_sim_libs_def case_key_def Let_def)
qed

lemma sample_clash_run:
  obtains out where "sample_clash = Inr out" "sim_conflicts (so_simulation out) = []"
    "map (\<lambda>m. np_bytes (pm_destination_path m)) (so_moves out) = [[120, 47, 121], [120]]"
    "map pd_display_path (so_directories out) = [[120]]"
    "map pm_item_id (so_moves out) = [1, 2]"
proof -
  let ?i1 = "sample_item 1 [[120]] [121]" and ?i2 = "sample_item 2 [] [120]"
  let ?files = "file_map [sample_file 1, sample_file 2]"
  have f: "?files 1 = Some (sample_file 1)" "?files 2 = Some (sample_file 2)"
    by (simp_all add: file_map_def sample_file_def)
  define st1 where "st1 = plan_item sample_sim_libs empty_fs ?i1 (sample_file 1) (sample_intent [[120]] [121])
    ((initial_sim_state empty_fs)\<lparr>st_occupied := insert_path (\<lambda>_. {}) 9 [120, 92, 121]\<rparr>)"
  have one: "simulate_item sample_sim_libs empty_fs ?files (initial_sim_state empty_fs) ?i1 = Inr st1"
    using sample_step [of "[[120]]" "[121]" ?files 1 1 "initial_sim_state empty_fs" empty_fs] f
    by (simp add: sample_valid len_utf16_def initial_sim_state_def empty_fs_def ascii_lower_def
        lower_char_def is_ascii_upper_def st1_def)
  have occ1: "st_occupied st1 9 = {[120, 92, 121]}"
    by (simp add: st1_def plan_item_frame insert_path_def)
  define st2 where "st2 = plan_item sample_sim_libs empty_fs ?i2 (sample_file 2) (sample_intent [] [120])
    (st1\<lparr>st_occupied := insert_path (st_occupied st1) 9 [120]\<rparr>)"
  have two: "simulate_item sample_sim_libs empty_fs ?files st1 ?i2 = Inr st2"
    using sample_step [of "[]" "[120]" ?files 2 2 st1 empty_fs] f occ1
    by (simp add: sample_valid len_utf16_def ascii_lower_def lower_char_def is_ascii_upper_def st2_def)
  have run: "simulate_items sample_sim_libs empty_fs ?files (initial_sim_state empty_fs) [?i1, ?i2] = Inr st2"
    using one two by simp
  have "st_conflicts st2 = []" "map (\<lambda>m. np_bytes (pm_destination_path m)) (st_moves st2) = [[120, 47, 121], [120]]"
    "map pd_display_path (st_directories st2) = [[120]]" "map pm_item_id (st_moves st2) = [1, 2]"
    by (simp_all add: st2_def st1_def plan_item_def plan_directory_def Let_def initial_sim_state_def
        empty_fs_def sample_item_def sample_intent_def sample_file_def destination_display_def
        destination_components_def case_key_def sample_sim_libs_def insert_path_def utf8_bytes_def
        replace_char_def utf8_char_def)
  with run that show ?thesis
    by (simp add: sample_clash_def simulate_def sample_proposal_def sample_sim_libs_def)
qed

text \<open>The destination of a planned move as the collision test sees it.\<close>

definition outcome_keys :: "'a sim_libs_scheme \<Rightarrow> simulation_outcome \<Rightarrow> (root_id \<times> ustring) list" where
  "outcome_keys L out =
     map2 (\<lambda>m df. (pm_destination_root_id m, case_key L (the (diff_after_label df))))
       (so_moves out) (sim_diffs (so_simulation out))"

lemma outcome_keys_accepted:
  assumes "so_moves out = map accepted_move acc" "sim_diffs (so_simulation out) = map accepted_diff acc"
  shows "outcome_keys L out = map (accepted_key L) acc"
proof -
  have "map2 (\<lambda>m df. (pm_destination_root_id m, case_key L (the (diff_after_label df))))
      (map accepted_move acc) (map accepted_diff acc) = map (accepted_key L) acc"
    by (induction acc) auto
  then show ?thesis using assms by (simp add: outcome_keys_def)
qed

text \<open>The move goes where its diff says: its destination path encodes the label of the diff.\<close>

definition move_follows_diff :: "planned_move \<Rightarrow> simulation_diff \<Rightarrow> bool" where
  "move_follows_diff m df \<longleftrightarrow>
     pm_item_id m = diff_item_id df
     \<and> (\<exists>label. diff_after_label df = Some label
          \<and> pm_destination_path m = encode_native_path label (np_encoding (pm_source_path m)))"

lemma accepted_move_follows_diff:
  "list_all2 move_follows_diff (map accepted_move acc) (map accepted_diff acc)"
  by (induction acc) (auto simp: move_follows_diff_def)

text \<open>C21: in every outcome of a simulation the planned moves never collide: each move goes to the
  native encoding of the label that is shown for it, these labels are pairwise different within a
  root up to letter case, and none of them is a path that the snapshot marks as occupied. So no
  planned move overwrites an existing file or another move's result.\<close>

theorem simulated_moves_never_collide:
  assumes "simulate L fs proposal files now = Inr out"
  shows "list_all2 move_follows_diff (so_moves out) (sim_diffs (so_simulation out))
    \<and> distinct (outcome_keys L out)
    \<and> (\<forall>(r, k) \<in> set (outcome_keys L out). k \<notin> vfs_occupied_paths fs r)
    \<and> length (outcome_keys L out) = length (so_moves out)"
  using assms
proof (rule simulate_trace)
  fix acc
  assume acc: "so_moves out = map accepted_move acc" "sim_diffs (so_simulation out) = map accepted_diff acc"
    "distinct (map (accepted_key L) acc)"
    "\<forall>a \<in> set acc. snd (accepted_key L a) \<notin> vfs_occupied_paths fs (fst (accepted_key L a))"
  have k: "outcome_keys L out = map (accepted_key L) acc" using acc by (intro outcome_keys_accepted)
  have "\<forall>x \<in> set (map (accepted_key L) acc). snd x \<notin> vfs_occupied_paths fs (fst x)"
    using acc(4) unfolding set_map by blast
  then show ?thesis
    using acc(1-3) accepted_move_follows_diff [of acc] unfolding k by (simp add: split_beta)
qed

theorem simulated_moves_never_collide_witness:
  "\<exists>out. sample_clash = Inr out \<and> distinct (outcome_keys sample_sim_libs out) \<and> length (so_moves out) = 2"
proof -
  obtain out where out: "sample_clash = Inr out"
    "map (\<lambda>m. np_bytes (pm_destination_path m)) (so_moves out) = [[120, 47, 121], [120]]"
    by (rule sample_clash_run)
  have "length (so_moves out) = 2" using arg_cong [OF out(2), of length] by simp
  with simulated_moves_never_collide [OF out(1) [unfolded sample_clash_def]] out(1) show ?thesis by blast
qed

text \<open>A simulation without blockers is complete: its moves are exactly, and in order, the
  items that are not rejected and that have a destination, so no reviewed move is dropped
  silently.\<close>

lemma simulation_without_blockers_is_complete:
  assumes "simulate L fs proposal files now = Inr out" and "\<not> has_blockers (so_simulation out)"
  shows "map pm_item_id (so_moves out) = map item_id (filter is_movable (prop_items proposal))"
  using assms(1)
proof (rule simulate_trace)
  fix acc
  assume acc: "so_moves out = map accepted_move acc"
    "\<not> has_blockers (so_simulation out) \<Longrightarrow> map fst acc = filter is_movable (prop_items proposal)"
  have "map pm_item_id (map accepted_move acc) = map item_id (map fst acc)"
    by (induction acc) auto
  then show ?thesis using acc assms(2) by simp
qed

theorem simulation_without_blockers_is_complete_witness:
  "\<exists>out. sample_clash = Inr out \<and> map pm_item_id (so_moves out) = [1, 2]"
proof -
  obtain out where out: "sample_clash = Inr out" "sim_conflicts (so_simulation out) = []"
    by (rule sample_clash_run)
  have "\<not> has_blockers (so_simulation out)" using out(2) by (simp add: has_blockers_def)
  from simulation_without_blockers_is_complete [OF out(1) [unfolded sample_clash_def] this] out(1)
  show ?thesis
    by (auto simp: sample_proposal_def sample_item_def is_movable_def item_destination_def)
qed

text \<open>C30: every planned move stays inside its root and touches only a stable local file: source
  and destination roots agree, the source is on a local fixed volume with a single link, no
  reparse tag and a content digest, and for a Unix-encoded source the destination path has only
  normal components, so that joined to any base directory it stays below that directory.\<close>

theorem simulated_moves_are_confined:
  assumes "simulate L fs proposal files now = Inr out"
    and "\<forall>item \<in> set (prop_items proposal). \<forall>d.
           item_destination (item_action item) = Some d \<longrightarrow> wf_destination d"
    and "m \<in> set (so_moves out)"
  shows "pm_source_root_id m = pm_destination_root_id m \<and> stable_for_apply (pm_fingerprint m)
    \<and> vol_local (nid_volume (fp_native_identity (pm_fingerprint m)))
    \<and> \<not> vol_removable (nid_volume (fp_native_identity (pm_fingerprint m)))
    \<and> (np_encoding (pm_source_path m) = UnixBytes \<longrightarrow>
         all_normal (np_bytes (pm_destination_path m))
         \<and> (\<forall>base. path_starts_with (path_join base (np_bytes (pm_destination_path m))) base))"
  using assms(1)
proof (rule simulate_trace)
  fix acc
  assume acc: "so_moves out = map accepted_move acc" "list_all (admissible (file_map files)) acc"
    "set (map fst acc) \<subseteq> set (prop_items proposal)"
  obtain item source d where a: "(item, source, d) \<in> set acc" and m: "m = accepted_move (item, source, d)"
    using assms(3) acc(1) by auto
  have adm: "admissible (file_map files) (item, source, d)"
    using acc(2) a unfolding list_all_iff by blast
  have item: "item \<in> set (prop_items proposal)" using acc(3) a by force
  have d: "wf_destination d" using assms(2) item adm by auto
  have "all_normal (np_bytes (pm_destination_path m))" if "np_encoding (pm_source_path m) = UnixBytes"
    using accepted_destination_normal [OF adm d] that m by simp
  then show ?thesis using admissible_source [OF adm] path_starts_with_join m by auto
qed

theorem simulated_moves_are_confined_witness:
  "\<exists>out. sample_clash = Inr out
     \<and> (\<forall>m \<in> set (so_moves out). pm_source_root_id m = pm_destination_root_id m)"
proof -
  obtain out where out: "sample_clash = Inr out" by (rule sample_clash_run)
  have "\<forall>item \<in> set (prop_items (sample_proposal [sample_item 1 [[120]] [121], sample_item 2 [] [120]])).
      \<forall>d. item_destination (item_action item) = Some d \<longrightarrow> wf_destination d"
    by (auto simp: sample_proposal_def sample_item_def sample_intent_def item_destination_def
        wf_destination_def destination_components_def is_scalar_def)
  from simulated_moves_are_confined [OF out [unfolded sample_clash_def] this] out show ?thesis by blast
qed

text \<open>The planned directories suffice: every folder on the way to the destination of a planned
  move either exists in the snapshot or is the path of a planned directory of the same root, up
  to letter case.\<close>

lemma planned_directories_suffice:
  assumes "simulate L fs proposal files now = Inr out" and "m \<in> set (so_moves out)"
  shows "\<exists>item \<in> set (prop_items proposal). \<exists>d. item_destination (item_action item) = Some d
    \<and> pm_item_id m = item_id item \<and> folders_ready L fs (so_directories out) d"
proof -
  obtain st' where run: "simulate_items L fs (file_map files) (initial_sim_state fs) (prop_items proposal) = Inr st'"
    and out: "so_moves out = st_moves st'" "so_directories out = st_directories st'"
    using assms(1) by (auto simp: simulate_def try_bind_Inr)
  have "planned_ok L fs (initial_sim_state fs)" by (simp add: planned_ok_def initial_sim_state_def)
  note P = simulate_items_planned [OF run this]
  have "m \<in> set (st_moves st') - set (st_moves (initial_sim_state fs))"
    using assms(2) out by (simp add: initial_sim_state_def)
  then obtain item d where i: "item \<in> set (prop_items proposal)"
      "item_destination (item_action item) = Some d" "pm_item_id m = item_id item"
    and marks: "\<forall>i \<in> {1..length (di_folder_components d)}.
        case_key L (join_with [92] (take i (di_folder_components d))) \<in> st_planned st' (di_root_id d)"
    using P by blast
  have "folders_ready L fs (so_directories out) d"
    using marks P unfolding folders_ready_def planned_ok_def out by blast
  with i show ?thesis by blast
qed

theorem planned_directories_suffice_witness:
  "\<exists>out. sample_clash = Inr out
     \<and> folders_ready sample_sim_libs empty_fs (so_directories out) (sample_intent [[120]] [121])"
proof -
  obtain out where out: "sample_clash = Inr out"
    "map pm_item_id (so_moves out) = [1, 2]"
    by (rule sample_clash_run)
  have ids: "\<And>m. m \<in> set (so_moves out) \<Longrightarrow> \<exists>item \<in> {sample_item 1 [[120]] [121], sample_item 2 [] [120]}.
      \<exists>d. item_destination (item_action item) = Some d \<and> pm_item_id m = item_id item
        \<and> folders_ready sample_sim_libs empty_fs (so_directories out) d"
    using planned_directories_suffice [OF out(1) [unfolded sample_clash_def]]
    by (simp add: sample_proposal_def)
  have "1 \<in> set (map pm_item_id (so_moves out))" unfolding out(2) by simp
  then obtain m where m: "m \<in> set (so_moves out)" "pm_item_id m = 1" by auto
  then have "folders_ready sample_sim_libs empty_fs (so_directories out) (sample_intent [[120]] [121])"
    using ids [OF m(1)] by (auto simp: sample_item_def item_destination_def)
  with out(1) show ?thesis by blast
qed

text \<open>The simulation compares file destinations only with files. A proposal of two moves, one
  to \<^verbatim>\<open>x\y\<close> and one to \<^verbatim>\<open>x\<close>, passes without any conflict although the plan then needs a
  directory \<^verbatim>\<open>x\<close> and a file \<^verbatim>\<open>x\<close> at the same path.\<close>

lemma simulation_misses_file_directory_clash:
  "\<exists>out p m. sample_clash = Inr out \<and> \<not> has_blockers (so_simulation out)
     \<and> p \<in> set (so_directories out) \<and> m \<in> set (so_moves out)
     \<and> pd_display_path p = [120] \<and> np_bytes (pm_destination_path m) = [120]"
proof -
  obtain out where out: "sample_clash = Inr out" "sim_conflicts (so_simulation out) = []"
    "map (\<lambda>m. np_bytes (pm_destination_path m)) (so_moves out) = [[120, 47, 121], [120]]"
    "map pd_display_path (so_directories out) = [[120]]"
    by (rule sample_clash_run)
  have "[120] \<in> pd_display_path ` set (so_directories out)"
    unfolding set_map [symmetric] out(4) by simp
  then obtain p where p: "[120] = pd_display_path p" "p \<in> set (so_directories out)" by (rule imageE)
  have "[120] \<in> (\<lambda>m. np_bytes (pm_destination_path m)) ` set (so_moves out)"
    unfolding set_map [symmetric] out(3) by simp
  then obtain m where m: "[120] = np_bytes (pm_destination_path m)" "m \<in> set (so_moves out)"
    by (rule imageE)
  have "\<not> has_blockers (so_simulation out)" using out(2) by (simp add: has_blockers_def)
  then show ?thesis
    using out(1) p(2) m(2) p(1) [symmetric] m(1) [symmetric]
    by (intro exI [of _ out] exI [of _ p] exI [of _ m] conjI)
qed

end
