(* ===== verification/Plan_Compiler.thy ===== *)
theory Plan_Compiler
  imports File_Journal Simulation
begin

text \<open>
  \<^verbatim>\<open>compile_plan\<close> of \<^verbatim>\<open>crates/operations/src/lib.rs\<close>: from a reviewed proposal and its
  simulation to a sealed plan of reversible steps, and the recovery observation
  \<^verbatim>\<open>reconcile_observation\<close>. New UUIDs come from a function \<open>fresh\<close> and are drawn in the order
  of the code: for each step first the one of its inverse.
\<close>

record executor_libs = journal_libs +
  proposal_json :: "proposal_revision \<Rightarrow> byte list option"
  json_step :: "operation_step \<Rightarrow> byte list option"
  json_approved :: "sealed_plan \<Rightarrow> approval_receipt \<Rightarrow> (root_id \<rightharpoonup> path) \<Rightarrow> byte list option"

section \<open>compile\_plan\<close>

text \<open>\<^verbatim>\<open>u32::try_from(n).unwrap_or(u32::MAX)\<close>\<close>

definition u32_of :: "nat \<Rightarrow> u32" where
  "u32_of n = (if n < 2 ^ 32 then of_nat n else - 1)"

definition proposal_items :: "proposal_revision \<Rightarrow> proposal_item_id \<rightharpoonup> proposal_item" where
  "proposal_items proposal = map_of (rev (map (\<lambda>item. (item_id item, item)) (prop_items proposal)))"

text \<open>The steps so far and the number of UUIDs drawn.\<close>

type_synonym compile_state = "operation_step list \<times> nat"

definition compile_directory ::
  "(nat \<Rightarrow> uuid) \<Rightarrow> compile_state \<Rightarrow> planned_directory \<Rightarrow> compile_state" where
  "compile_directory fresh st directory =
     (case st of (steps, n) \<Rightarrow>
       (let undo = OperationStep (fresh n) None (u32_of (length steps + 1)) RemoveDirectoryIfEmpty
              None None (Some (pd_root_id directory)) (Some (pd_path directory)) [] None;
            step = OperationStep (fresh (n + 1)) None (u32_of (length steps + 1)) CreateDirectory
              None None (Some (pd_root_id directory)) (Some (pd_path directory))
              [DestinationAbsent (pd_root_id directory) (pd_path directory)] (Some undo)
        in (steps @ [step], n + 2)))"

definition rename_preconditions ::
  "file_fingerprint \<Rightarrow> root_id \<Rightarrow> native_path \<Rightarrow> step_precondition list" where
  "rename_preconditions fp r p =
     [SourceMatches fp, DestinationAbsent r p,
      SameVolume (vol_stable_identifier (nid_volume (fp_native_identity fp))),
      SingleLink, NotReparsePoint, LocalNtfsVolume]"

definition is_placement :: "proposal_action \<Rightarrow> bool" where
  "is_placement a = (case a of Keep \<Rightarrow> False | Move _ \<Rightarrow> True | PlaceInReview _ \<Rightarrow> True)"

definition compile_move ::
  "(nat \<Rightarrow> uuid) \<Rightarrow> (proposal_item_id \<rightharpoonup> proposal_item) \<Rightarrow> compile_state \<Rightarrow> nat \<times> planned_move
    \<Rightarrow> compile_state" where
  "compile_move fresh items st im =
     (case (st, im) of ((steps, n), (index, planned)) \<Rightarrow>
       (case items (pm_item_id planned) of
          None \<Rightarrow> st
        | Some item \<Rightarrow>
            if item_review_state item \<noteq> Accepted then st
            else if \<not> is_placement (item_action item) then st
            else
              (let undo = OperationStep (fresh n) (Some (item_id item))
                     (u32_of (length steps + index + 1)) RenameEntrySameVolume
                     (Some (pm_destination_root_id planned)) (Some (pm_destination_path planned))
                     (Some (pm_source_root_id planned)) (Some (pm_source_path planned))
                     (rename_preconditions (pm_fingerprint planned) (pm_source_root_id planned)
                        (pm_source_path planned)) None;
                   step = OperationStep (fresh (n + 1)) (Some (item_id item))
                     (u32_of (length steps + 1)) RenameEntrySameVolume
                     (Some (pm_source_root_id planned)) (Some (pm_source_path planned))
                     (Some (pm_destination_root_id planned)) (Some (pm_destination_path planned))
                     (rename_preconditions (pm_fingerprint planned) (pm_destination_root_id planned)
                        (pm_destination_path planned)) (Some undo)
               in (steps @ [step], n + 2))))"

definition compile_steps ::
  "(nat \<Rightarrow> uuid) \<Rightarrow> proposal_revision \<Rightarrow> simulation_outcome \<Rightarrow> compile_state" where
  "compile_steps fresh proposal simulation =
     foldl (compile_move fresh (proposal_items proposal))
       (foldl (compile_directory fresh) ([], 0) (so_directories simulation))
       (enumerate 0 (so_moves simulation))"

definition compile_plan ::
  "'a executor_libs_scheme \<Rightarrow> error_texts \<Rightarrow> (nat \<Rightarrow> uuid) \<Rightarrow> proposal_revision \<Rightarrow> simulation_outcome
    \<Rightarrow> operations_error + sealed_plan" where
  "compile_plan L T fresh proposal simulation =
     try_bind (ok_or (proposal_json L proposal) (OpsJournal (serde_text T))) (\<lambda>encoded.
       (let proposal_digest = blake3 L encoded in
        if sim_proposal_id (so_simulation simulation) \<noteq> prop_id proposal
           \<or> sim_proposal_digest (so_simulation simulation) \<noteq> proposal_digest
        then Inl OpsStaleSimulation
        else
          (case compile_steps fresh proposal simulation of (steps, n) \<Rightarrow>
             map_err OpsSeal (seal L
               \<lparr>draft_id = fresh n,
                draft_workspace_id = prop_workspace_id proposal,
                draft_proposal_id = prop_id proposal,
                draft_proposal_digest = proposal_digest,
                draft_steps = steps,
                draft_created_at_unix_ms = sim_simulated_at_unix_ms (so_simulation simulation)\<rparr>
               proposal_digest))))"

section \<open>Recovery observations\<close>

definition same_identity :: "native_file_identity \<Rightarrow> native_file_identity \<Rightarrow> bool" where
  "same_identity expected observed \<longleftrightarrow>
     vol_stable_identifier (nid_volume expected) = vol_stable_identifier (nid_volume observed)
     \<and> nid_object_key expected = nid_object_key observed"

definition reconcile_observation ::
  "native_file_identity \<Rightarrow> native_file_identity option \<Rightarrow> native_file_identity option
    \<Rightarrow> recovery_observation" where
  "reconcile_observation expected source destination =
     (let source_matches = (case source of None \<Rightarrow> False | Some v \<Rightarrow> same_identity expected v);
          destination_matches = (case destination of None \<Rightarrow> False | Some v \<Rightarrow> same_identity expected v)
      in (case (source, destination, source_matches, destination_matches) of
            (Some _, None, True, _) \<Rightarrow> NotApplied
          | (None, Some _, _, True) \<Rightarrow> Applied
          | (Some _, Some _, _, _) \<Rightarrow> BothEntriesPresent
          | (None, None, _, _) \<Rightarrow> NeitherEntryPresent
          | _ \<Rightarrow> IdentityMismatch))"

section \<open>The compiled steps\<close>

text \<open>What a step does: its kind, source and destination.\<close>

type_synonym step_effect =
  "operation_kind \<times> (root_id \<times> native_path) option \<times> root_id option \<times> native_path option"

definition effect_of :: "operation_step \<Rightarrow> step_effect" where
  "effect_of s =
     (step_kind s,
      (case (step_source_root_id s, step_source_path s) of (Some r, Some p) \<Rightarrow> Some (r, p) | _ \<Rightarrow> None),
      step_destination_root_id s, step_destination_path s)"

definition directory_effect :: "planned_directory \<Rightarrow> step_effect" where
  "directory_effect d = (CreateDirectory, None, Some (pd_root_id d), Some (pd_path d))"

definition move_effect :: "planned_move \<Rightarrow> step_effect" where
  "move_effect m =
     (RenameEntrySameVolume, Some (pm_source_root_id m, pm_source_path m),
      Some (pm_destination_root_id m), Some (pm_destination_path m))"

definition accepted_placement :: "proposal_revision \<Rightarrow> planned_move \<Rightarrow> bool" where
  "accepted_placement proposal m \<longleftrightarrow>
     (case proposal_items proposal (pm_item_id m) of
        None \<Rightarrow> False
      | Some item \<Rightarrow> item_review_state item = Accepted \<and> is_placement (item_action item))"

text \<open>Every compiled step is reversible, carries its number and draws its own identifiers.\<close>

definition compiled_ok :: "(nat \<Rightarrow> uuid) \<Rightarrow> compile_state \<Rightarrow> bool" where
  "compiled_ok fresh st \<longleftrightarrow>
     list_all step_is_safe_and_reversible (fst st)
     \<and> snd st = 2 * length (fst st)
     \<and> map step_uid (fst st) = map (\<lambda>i. fresh (2 * i + 1)) [0..<length (fst st)]
     \<and> map step_sequence (fst st) = map (\<lambda>i. u32_of (i + 1)) [0..<length (fst st)]"

lemma rename_preconditions_absent: "list_ex is_destination_absent (rename_preconditions fp r p)"
  by (simp add: rename_preconditions_def)

lemma compile_directory_ok:
  "compiled_ok fresh st \<Longrightarrow> compiled_ok fresh (compile_directory fresh st d)"
  by (cases st) (auto simp: compiled_ok_def compile_directory_def Let_def step_is_safe_and_reversible_def)

lemma compile_directory_effect:
  "map effect_of (fst (compile_directory fresh st d)) = map effect_of (fst st) @ [directory_effect d]"
  by (cases st) (simp add: compile_directory_def Let_def effect_of_def directory_effect_def)

lemma compile_move_ok:
  "compiled_ok fresh st \<Longrightarrow> compiled_ok fresh (compile_move fresh items st im)"
proof -
  assume ok: "compiled_ok fresh st"
  obtain steps n i m where st: "st = (steps, n)" and im: "im = (i, m)" by (cases st; cases im)
  have append: "compiled_ok fresh (steps @ [s], n + 2)"
    if "step_is_safe_and_reversible s" "step_uid s = fresh (n + 1)"
      "step_sequence s = u32_of (length steps + 1)" for s
    using ok that by (simp add: compiled_ok_def st)
  show ?thesis
  proof (cases "items (pm_item_id m)")
    case None
    then show ?thesis using ok by (simp add: compile_move_def st im)
  next
    case (Some item)
    then show ?thesis
      using ok unfolding compile_move_def st im prod.case Some option.case Let_def
      by (auto intro!: append [simplified] simp: step_is_safe_and_reversible_def rename_preconditions_absent)
  qed
qed

lemma compile_move_effect:
  "map effect_of (fst (compile_move fresh (proposal_items proposal) st (i, m))) =
     map effect_of (fst st) @ (if accepted_placement proposal m then [move_effect m] else [])"
  by (cases st) (auto simp: compile_move_def Let_def effect_of_def move_effect_def accepted_placement_def
      split: option.splits)

lemma foldl_preserves:
  "P st \<Longrightarrow> (\<And>st x. P st \<Longrightarrow> P (f st x)) \<Longrightarrow> P (foldl f st xs)"
  by (induction xs arbitrary: st) auto

lemma compile_steps_ok: "compiled_ok fresh (compile_steps fresh proposal simulation)"
proof -
  have "compiled_ok fresh (foldl (compile_directory fresh) ([], 0) (so_directories simulation))"
    by (rule foldl_preserves [where P = "compiled_ok fresh", OF _ compile_directory_ok])
      (simp_all add: compiled_ok_def)
  then show ?thesis
    unfolding compile_steps_def
    by (rule foldl_preserves [where P = "compiled_ok fresh", OF _ compile_move_ok])
qed

lemma compile_directories_effects:
  "map effect_of (fst (foldl (compile_directory fresh) st ds)) =
     map effect_of (fst st) @ map directory_effect ds"
  by (induction ds arbitrary: st) (simp_all add: compile_directory_effect)

lemma compile_moves_effects:
  "map effect_of (fst (foldl (compile_move fresh (proposal_items proposal)) st (enumerate k ms))) =
     map effect_of (fst st) @ map move_effect (filter (accepted_placement proposal) ms)"
  by (induction ms arbitrary: st k) (simp_all add: compile_move_effect)

lemma compile_steps_effects:
  "map effect_of (fst (compile_steps fresh proposal simulation)) =
     map directory_effect (so_directories simulation)
     @ map move_effect (filter (accepted_placement proposal) (so_moves simulation))"
  by (simp add: compile_steps_def compile_moves_effects compile_directories_effects)

lemma compile_plan_Inr:
  "compile_plan L T fresh proposal simulation = Inr p \<longleftrightarrow>
     (\<exists>encoded. proposal_json L proposal = Some encoded
        \<and> sim_proposal_id (so_simulation simulation) = prop_id proposal
        \<and> sim_proposal_digest (so_simulation simulation) = blake3 L encoded
        \<and> seal L \<lparr>draft_id = fresh (snd (compile_steps fresh proposal simulation)),
                 draft_workspace_id = prop_workspace_id proposal,
                 draft_proposal_id = prop_id proposal,
                 draft_proposal_digest = blake3 L encoded,
                 draft_steps = fst (compile_steps fresh proposal simulation),
                 draft_created_at_unix_ms = sim_simulated_at_unix_ms (so_simulation simulation)\<rparr>
               (blake3 L encoded) = Inr p)"
  by (cases "compile_steps fresh proposal simulation")
    (auto simp: compile_plan_def try_bind_Inr ok_or_Inr map_err_Inr Let_def split: if_splits)

section \<open>Properties\<close>

text \<open>C27: a compiled plan does exactly what was reviewed. Its steps create the simulated directories
  in order and then perform the simulated moves whose item is accepted, in order and nothing
  else; every step is reversible and numbered by its position, and the plan passes its own
  integrity check for the digest of the proposal.\<close>

theorem compiled_plan_refines_review:
  assumes "compile_plan L T fresh proposal simulation = Inr p"
  shows "map effect_of (plan_steps p) =
      map directory_effect (so_directories simulation)
      @ map move_effect (filter (accepted_placement proposal) (so_moves simulation))
    \<and> list_all step_is_safe_and_reversible (plan_steps p)
    \<and> map step_sequence (plan_steps p) = map (\<lambda>i. u32_of (i + 1)) [0..<length (plan_steps p)]
    \<and> verify_integrity L p = Inr ()
    \<and> plan_proposal_digest p = sim_proposal_digest (so_simulation simulation)"
proof -
  from assms obtain encoded where
      d: "sim_proposal_digest (so_simulation simulation) = blake3 L encoded"
    and s: "seal L \<lparr>draft_id = fresh (snd (compile_steps fresh proposal simulation)),
         draft_workspace_id = prop_workspace_id proposal, draft_proposal_id = prop_id proposal,
         draft_proposal_digest = blake3 L encoded,
         draft_steps = fst (compile_steps fresh proposal simulation),
         draft_created_at_unix_ms = sim_simulated_at_unix_ms (so_simulation simulation)\<rparr>
       (blake3 L encoded) = Inr p"
    by (auto simp: compile_plan_Inr)
  have p: "plan_steps p = fst (compile_steps fresh proposal simulation)"
    "plan_proposal_digest p = blake3 L encoded"
    using s by (auto simp: seal_Inr)
  have "compiled_ok fresh (compile_steps fresh proposal simulation)" by (rule compile_steps_ok)
  then show ?thesis
    using sealed_plan_verifies [OF s] d by (simp add: p compile_steps_effects compiled_ok_def)
qed

definition table_executor_libs :: "journal_event list \<Rightarrow> executor_libs" where
  "table_executor_libs es = journal_libs.extend (table_libs es)
     (executor_libs.fields (\<lambda>p. Some [1, 2]) (\<lambda>s. Some [3]) (\<lambda>p a r. Some [4]))"

abbreviation sample_executor_libs :: executor_libs where
  "sample_executor_libs \<equiv> table_executor_libs [sample_first, sample_second]"

definition sample_outcome :: simulation_outcome where
  "sample_outcome =
     \<lparr>so_simulation = \<lparr>sim_proposal_id = prop_id (sample_proposal []), sim_proposal_digest = 2,
        sim_diffs = [], sim_conflicts = [], sim_simulated_at_unix_ms = 0\<rparr>,
      so_directories = [\<lparr>pd_root_id = 1, pd_path = \<lparr>np_encoding = UnixBytes, np_bytes = [97]\<rparr>,
                         pd_display_path = [97]\<rparr>],
      so_moves = []\<rparr>"

lemmas sample_executor_libs_defs =
  table_executor_libs_def table_libs_def sample_plan_libs_def journal_libs.defs executor_libs.defs

lemma sample_compiled:
  "\<exists>p. compile_plan sample_executor_libs T (\<lambda>n. of_nat n) (sample_proposal []) sample_outcome = Inr p"
proof -
  have ok: "compiled_ok (\<lambda>n. of_nat n) (compile_steps (\<lambda>n. of_nat n) (sample_proposal []) sample_outcome)"
    by (rule compile_steps_ok)
  have "length (fst (compile_steps (\<lambda>n. of_nat n) (sample_proposal []) sample_outcome)) = 1"
    using arg_cong [OF compile_steps_effects [of "\<lambda>n. of_nat n" "sample_proposal []" sample_outcome],
        where f = length]
    by (simp add: sample_outcome_def)
  then have "fst (compile_steps (\<lambda>n. of_nat n) (sample_proposal []) sample_outcome) \<noteq> []" by auto
  with ok show ?thesis
    by (auto simp: compile_plan_Inr seal_Inr compiled_ok_def)
      (simp add: sample_executor_libs_defs sample_outcome_def)
qed

theorem compiled_plan_refines_review_witness:
  "\<exists>p. compile_plan sample_executor_libs sample_texts (\<lambda>n. of_nat n) (sample_proposal []) sample_outcome = Inr p
     \<and> map effect_of (plan_steps p)
       = [(CreateDirectory, None, Some 1, Some \<lparr>np_encoding = UnixBytes, np_bytes = [97]\<rparr>)]"
proof -
  obtain p where p: "compile_plan sample_executor_libs sample_texts (\<lambda>n. of_nat n) (sample_proposal [])
      sample_outcome = Inr p"
    using sample_compiled by blast
  with compiled_plan_refines_review [OF p] show ?thesis
    by (auto simp: sample_outcome_def directory_effect_def)
qed

text \<open>Compiling the simulation of the same proposal never fails for staleness or an unsafe step.
  It fails only when there is nothing to do or the draft cannot be serialised, and otherwise
  gives a plan.\<close>

lemma simulated_proposals_compile:
  assumes "simulate S fs proposal files now = Inr outcome"
    and "blake3 S = blake3 L" and "json_proposal S = proposal_json L"
  shows "(\<exists>p. compile_plan L T fresh proposal outcome = Inr p)
    \<or> (compile_plan L T fresh proposal outcome = Inl (OpsSeal SealEmpty)
        \<and> so_directories outcome = [] \<and> filter (accepted_placement proposal) (so_moves outcome) = [])
    \<or> (\<exists>draft. compile_plan L T fresh proposal outcome = Inl (OpsSeal SealSerialization)
        \<and> json_plan_draft L draft = None)"
proof -
  obtain encoded where e: "proposal_json L proposal = Some encoded"
    and o': "sim_proposal_id (so_simulation outcome) = prop_id proposal"
      "sim_proposal_digest (so_simulation outcome) = blake3 L encoded"
    using assms by (auto simp: simulate_def try_bind_Inr ok_or_Inr)
  obtain steps n where st: "compile_steps fresh proposal outcome = (steps, n)" by force
  have safe: "list_all step_is_safe_and_reversible steps"
    using compile_steps_ok [of fresh proposal outcome] st by (simp add: compiled_ok_def)
  have eff: "map effect_of steps = map directory_effect (so_directories outcome)
      @ map move_effect (filter (accepted_placement proposal) (so_moves outcome))"
    using compile_steps_effects [of fresh proposal outcome] st by simp
  let ?draft = "\<lparr>draft_id = fresh n, draft_workspace_id = prop_workspace_id proposal,
      draft_proposal_id = prop_id proposal, draft_proposal_digest = blake3 L encoded,
      draft_steps = steps,
      draft_created_at_unix_ms = sim_simulated_at_unix_ms (so_simulation outcome)\<rparr>"
  have c: "compile_plan L T fresh proposal outcome = map_err OpsSeal (seal L ?draft (blake3 L encoded))"
    by (simp add: compile_plan_def e o' st Let_def)
  show ?thesis
  proof (cases "steps = []")
    case True
    then show ?thesis using eff by (simp add: c seal_def)
  next
    case False
    then have "\<not> list_ex (\<lambda>step. \<not> step_is_safe_and_reversible step) steps"
      using safe by (auto simp: list_all_iff list_ex_iff)
    with False show ?thesis by (cases "json_plan_draft L ?draft") (auto simp: c seal_def)
  qed
qed

theorem simulated_proposals_compile_witness:
  "\<exists>outcome. simulate (sample_sim_libs\<lparr>json_proposal := proposal_json sample_executor_libs,
        blake3 := blake3 sample_executor_libs\<rparr>) empty_fs (sample_proposal []) [] 0 = Inr outcome
     \<and> compile_plan sample_executor_libs sample_texts (\<lambda>n. of_nat n) (sample_proposal []) outcome
        = Inl (OpsSeal SealEmpty)"
proof -
  let ?S = "sample_sim_libs\<lparr>json_proposal := proposal_json sample_executor_libs,
    blake3 := blake3 sample_executor_libs\<rparr>"
  obtain outcome where o': "simulate ?S empty_fs (sample_proposal []) [] 0 = Inr outcome"
      "so_directories outcome = []" "so_moves outcome = []"
    by (simp add: simulate_def sample_executor_libs_defs sample_proposal_def initial_sim_state_def)
  have "blake3 ?S = blake3 sample_executor_libs" "json_proposal ?S = proposal_json sample_executor_libs"
    by simp_all
  note res = simulated_proposals_compile [OF o'(1) this, of sample_texts "\<lambda>n. of_nat n"]
  have "fst (compile_steps (\<lambda>n. of_nat n) (sample_proposal []) outcome) = []"
    using compile_steps_effects [of "\<lambda>n. of_nat n" "sample_proposal []" outcome] o'(2,3) by simp
  then have "\<nexists>p. compile_plan sample_executor_libs sample_texts (\<lambda>n. of_nat n) (sample_proposal [])
      outcome = Inr p"
    by (auto simp: compile_plan_Inr seal_Inr)
  moreover have "json_plan_draft sample_executor_libs d \<noteq> None" for d
    by (simp add: sample_executor_libs_defs)
  ultimately show ?thesis using res o'(1) by blast
qed

text \<open>Recovery never guesses. A rename is reported as applied only when the source entry is gone
  and the entry at the destination is the expected file, and as not applied only when the
  destination is empty and the source still is that file; two entries are never decided.\<close>

lemma reconciliation_never_guesses:
  "(reconcile_observation f src dst = Applied
     \<longleftrightarrow> src = None \<and> (\<exists>d. dst = Some d \<and> same_identity f d))
   \<and> (reconcile_observation f src dst = NotApplied
     \<longleftrightarrow> dst = None \<and> (\<exists>s. src = Some s \<and> same_identity f s))
   \<and> (reconcile_observation f src dst = BothEntriesPresent \<longleftrightarrow> src \<noteq> None \<and> dst \<noteq> None)
   \<and> (reconcile_observation f src dst = NeitherEntryPresent \<longleftrightarrow> src = None \<and> dst = None)"
  by (cases src; cases dst) (auto simp: reconcile_observation_def split: bool.splits)

end
