(* ===== verification/Executor.thy ===== *)
theory Executor
  imports Plan_Compiler
begin

text \<open>
  \<^verbatim>\<open>OperationExecutor\<close> of \<^verbatim>\<open>crates/operations/src/lib.rs\<close>: the apply gate, the resolution of a
  native path below a registered root, the execution of one step and the execution of an
  approved plan, with every journal event appended and flushed in the order of the code. The
  journal and the file operations are the records of their traits over one world. The locale
  \<open>executor_env\<close> is what the executor relies on: a durable journal whose log the file
  operations leave alone.
\<close>

section \<open>The apply gate\<close>

record apply_gate =
  gate_enabled :: bool
  gate_reason :: ustring

text \<open>The compile-time flags and the environment variable the gate reads.\<close>

record host_config =
  cfg_windows :: bool
  cfg_macos :: bool
  cfg_windows_apply_qualified :: bool
  env_enable_apply :: "ustring option"

text \<open>233 is e-acute, 8217 the typographic apostrophe.\<close>

definition gate_from_environment :: "host_config \<Rightarrow> apply_gate" where
  "gate_from_environment c =
     (let explicitly_enabled = (env_enable_apply c = Some (lit ''I_UNDERSTAND_THE_RISK''));
          windows = cfg_windows c
      in \<lparr>gate_enabled = explicitly_enabled \<and> windows,
          gate_reason =
            (if \<not> windows
             then lit ''Apply environnemental reste limit'' @ [233] @ lit '' '' @ [224] @ lit '' Windows NTFS.''
             else if \<not> explicitly_enabled
             then lit ''Apply reste verrouill'' @ [233] @ lit '' tant que le gate local explicite n''
               @ [8217] @ lit ''est pas activ'' @ [233] @ lit ''.''
             else lit ''Apply Windows explicitement activ'' @ [233] @ lit ''.'')\<rparr>)"

definition gate_for_in_process_host :: apply_gate where
  "gate_for_in_process_host =
     \<lparr>gate_enabled = False,
      gate_reason = lit ''Apply exige l'' @ [8217] @ lit ''ex'' @ [233] @ lit ''cuteur isol'' @ [233]
        @ lit ''; le processus UI ne poss'' @ [232] @ lit ''de aucune capacit'' @ [233]
        @ lit '' de mutation.''\<rparr>"

definition gate_for_approved_execution_host :: "host_config \<Rightarrow> apply_gate" where
  "gate_for_approved_execution_host c =
     (let supported = cfg_macos c \<or> (cfg_windows c \<and> cfg_windows_apply_qualified c)
      in \<lparr>gate_enabled = supported,
          gate_reason =
            (if supported
             then lit ''L'' @ [8217] @ lit ''organisation peut '' @ [234] @ lit ''tre appliqu'' @ [233]
               @ lit ''e apr'' @ [232] @ lit ''s votre confirmation.''
             else if cfg_windows c
             then lit ''Cette version Windows propose une organisation '' @ [224]
               @ lit '' examiner ; le d'' @ [233] @ lit ''placement r'' @ [233]
               @ lit ''el des fichiers n'' @ [8217] @ lit ''est pas encore disponible.''
             else lit ''Cette version propose une organisation '' @ [224]
               @ lit '' examiner ; le d'' @ [233] @ lit ''placement r'' @ [233]
               @ lit ''el des fichiers n'' @ [8217] @ lit ''est pas disponible sur cette plateforme.'')\<rparr>)"

section \<open>Paths\<close>

text \<open>On Unix targets: the bytes themselves, or UTF-16 text re-encoded in UTF-8.\<close>

definition decode_native_path :: "native_path \<Rightarrow> operations_error + path" where
  "decode_native_path native =
     (case np_encoding native of
        UnixBytes \<Rightarrow> Inr (np_bytes native)
      | WindowsUtf16Le \<Rightarrow>
          try_bind (ok_or (units_from_le (np_bytes native)) OpsInvalidNativePath) (\<lambda>units.
          try_bind (ok_or (from_utf16 units) OpsInvalidNativePath) (\<lambda>text. Inr (utf8_bytes text))))"

definition resolve_within_root :: "path \<Rightarrow> native_path \<Rightarrow> operations_error + path" where
  "resolve_within_root root_path native =
     try_bind (decode_native_path native) (\<lambda>relative.
       if is_absolute relative \<or> \<not> list_all is_normal (components relative) then Inl OpsOutsideRoot
       else Inr (path_join root_path relative))"

section \<open>One step\<close>

definition HARD_MAX_REHASH_BYTES :: u64 where
  "HARD_MAX_REHASH_BYTES = MAX_EXECUTION_FINGERPRINT_BYTES"

definition source_matches :: "step_precondition \<Rightarrow> file_fingerprint option" where
  "source_matches c = (case c of SourceMatches fp \<Rightarrow> Some fp | _ \<Rightarrow> None)"

definition step_root :: "(root_id \<rightharpoonup> path) \<Rightarrow> root_id option \<Rightarrow> operations_error + path" where
  "step_root roots root_id = try_bind (ok_or root_id OpsRootMissing) (\<lambda>r. ok_or (roots r) OpsRootMissing)"

abbreviation platform_io :: "('w, platform_error, 'a) eff \<Rightarrow> ('w, operations_error, 'a) eff" where
  "platform_io \<equiv> eff_map_err OpsPlatform"

definition rename_request_of ::
  "(root_id \<rightharpoonup> path) \<Rightarrow> operation_step \<Rightarrow> operations_error + rename_request" where
  "rename_request_of roots step =
     try_bind (step_root roots (step_source_root_id step)) (\<lambda>source_root.
     try_bind (step_root roots (step_destination_root_id step)) (\<lambda>destination_root.
     if \<not> path_eq source_root destination_root
     then Inl (OpsPlatform (PlatUnsupported (lit ''cross-root move is disabled'')))
     else
       try_bind (ok_or (step_source_path step) OpsInvalidNativePath) (\<lambda>p.
       try_bind (resolve_within_root source_root p) (\<lambda>source.
       try_bind (ok_or (step_destination_path step) OpsInvalidNativePath) (\<lambda>q.
       try_bind (resolve_within_root destination_root q) (\<lambda>destination.
       try_bind (ok_or (find_map source_matches (step_preconditions step)) OpsMissingPrecondition) (\<lambda>fp.
       try_bind (ok_or (fp_content_digest fp) OpsMissingPrecondition) (\<lambda>content_digest.
         Inr \<lparr>rr_source = source, rr_destination = destination,
              rr_expected_identity = fp_native_identity fp, rr_expected_byte_size = fp_byte_size fp,
              rr_expected_modified_at_ns = fp_modified_at_ns fp,
              rr_expected_attributes = fp_attributes fp,
              rr_expected_content_digest = content_digest,
              rr_maximum_hash_bytes = HARD_MAX_REHASH_BYTES\<rparr>))))))))"

definition directory_of_step :: "(root_id \<rightharpoonup> path) \<Rightarrow> operation_step \<Rightarrow> operations_error + path" where
  "directory_of_step roots step =
     try_bind (step_root roots (step_destination_root_id step)) (\<lambda>root_path.
     try_bind (ok_or (step_destination_path step) OpsInvalidNativePath) (\<lambda>relative.
       resolve_within_root root_path relative))"

definition execute_step ::
  "('w, 'x) safe_file_operations_scheme \<Rightarrow> (root_id \<rightharpoonup> path) \<Rightarrow> operation_step
    \<Rightarrow> ('w, operations_error, unit) eff" where
  "execute_step F roots step =
     (case step_kind step of
        NoOp \<Rightarrow> eff_ok ()
      | CreateDirectory \<Rightarrow>
          eff_bind (eff_lift (directory_of_step roots step)) (\<lambda>destination.
            platform_io (create_directory_no_replace F destination))
      | RemoveDirectoryIfEmpty \<Rightarrow>
          eff_bind (eff_lift (directory_of_step roots step)) (\<lambda>destination.
            platform_io (remove_directory_if_empty F destination))
      | RenameEntrySameVolume \<Rightarrow>
          eff_bind (eff_lift (rename_request_of roots step)) (\<lambda>request.
          eff_bind (platform_io (rename_same_volume_no_replace F request)) (\<lambda>_. eff_ok ())))"

section \<open>A whole plan\<close>

record execution_report =
  xrep_id :: execution_id
  xrep_state :: execution_state
  xrep_applied_steps :: "operation_step_id list"
  xrep_error :: "ustring option"

definition append_and_flush ::
  "('w, 'y) journal_ops_scheme \<Rightarrow> journal_event \<Rightarrow> ('w, operations_error, unit) eff" where
  "append_and_flush J e = eff_bind (j_append J e) (\<lambda>_. j_flush J)"

text \<open>The events of one step, after the event numbered \<open>sequence\<close> with digest \<open>previous\<close>.\<close>

definition intent_event ::
  "'a libs_scheme \<Rightarrow> execution_id \<Rightarrow> int \<Rightarrow> u64 \<Rightarrow> digest \<Rightarrow> operation_step \<Rightarrow> byte list \<Rightarrow> journal_event" where
  "intent_event L x now sequence previous step payload =
     journal_event_new L x (sat_succ64 sequence) (Some (step_uid step)) IntentDurable payload
       (Some previous) now"

definition observed_event ::
  "'a libs_scheme \<Rightarrow> execution_id \<Rightarrow> int \<Rightarrow> u64 \<Rightarrow> digest \<Rightarrow> operation_step \<Rightarrow> byte list \<Rightarrow> journal_event" where
  "observed_event L x now sequence previous step payload =
     journal_event_new L x (sat_succ64 (sat_succ64 sequence)) (Some (step_uid step)) AppliedObserved
       payload (Some (je_event_digest (intent_event L x now sequence previous step payload))) now"

definition failed_event ::
  "'a libs_scheme \<Rightarrow> error_texts \<Rightarrow> execution_id \<Rightarrow> int \<Rightarrow> u64 \<Rightarrow> digest \<Rightarrow> operation_step \<Rightarrow> byte list
    \<Rightarrow> operations_error \<Rightarrow> journal_event" where
  "failed_event L T x now sequence previous step payload error =
     journal_event_new L x (sat_succ64 (sat_succ64 sequence)) (Some (step_uid step)) StepFailed
       (utf8_bytes (operations_error_text T error))
       (Some (je_event_digest (intent_event L x now sequence previous step payload))) now"

definition failed_report ::
  "error_texts \<Rightarrow> execution_id \<Rightarrow> operation_step_id list \<Rightarrow> operations_error \<Rightarrow> execution_report" where
  "failed_report T x applied error =
     \<lparr>xrep_id = x, xrep_state = (if applied = [] then ExecFailed else ExecPartial),
      xrep_applied_steps = applied, xrep_error = Some (operations_error_text T error)\<rparr>"

text \<open>
  The loop over the steps, with the sequence number and digest of the last event and the
  steps applied so far. A failed step is journalled and ends the run with a report; a failed
  journal ends it with an error.
\<close>

fun execute_steps ::
  "'a executor_libs_scheme \<Rightarrow> error_texts \<Rightarrow> ('w, 'y) journal_ops_scheme
    \<Rightarrow> ('w, 'x) safe_file_operations_scheme \<Rightarrow> (root_id \<rightharpoonup> path) \<Rightarrow> execution_id \<Rightarrow> int \<Rightarrow> digest
    \<Rightarrow> u64 \<Rightarrow> digest \<Rightarrow> operation_step_id list \<Rightarrow> operation_step list
    \<Rightarrow> ('w, operations_error, execution_report) eff" where
  "execute_steps L T J F roots x now pd sequence previous applied [] =
     eff_bind (append_and_flush J (journal_event_new L x (sat_succ64 sequence) None ExecutionFinished
         (digest_bytes pd) (Some previous) now)) (\<lambda>_.
       eff_ok \<lparr>xrep_id = x, xrep_state = ExecApplied, xrep_applied_steps = applied,
               xrep_error = None\<rparr>)"
| "execute_steps L T J F roots x now pd sequence previous applied (step # steps) =
     eff_bind (eff_lift (ok_or (json_step L step) (OpsJournal (serde_text T)))) (\<lambda>payload.
     eff_bind (append_and_flush J (intent_event L x now sequence previous step payload)) (\<lambda>_ w.
       (case execute_step F roots step w of
          (Inr _, w') \<Rightarrow>
            eff_bind (append_and_flush J (observed_event L x now sequence previous step payload)) (\<lambda>_.
              execute_steps L T J F roots x now pd (sat_succ64 (sat_succ64 sequence))
                (je_event_digest (observed_event L x now sequence previous step payload))
                (applied @ [step_uid step]) steps) w'
        | (Inl error, w') \<Rightarrow>
            eff_bind (append_and_flush J (failed_event L T x now sequence previous step payload error))
              (\<lambda>_. eff_ok (failed_report T x applied error)) w')))"

definition execute ::
  "'a executor_libs_scheme \<Rightarrow> error_texts \<Rightarrow> apply_gate \<Rightarrow> ('w, 'y) journal_ops_scheme
    \<Rightarrow> ('w, 'x) safe_file_operations_scheme \<Rightarrow> execution_id \<Rightarrow> sealed_plan \<Rightarrow> approval_receipt
    \<Rightarrow> (root_id \<rightharpoonup> path) \<Rightarrow> int \<Rightarrow> ('w, operations_error, execution_report) eff" where
  "execute L T gate J F x plan approval roots now =
     (if \<not> gate_enabled gate then eff_err (OpsGateDisabled (gate_reason gate))
      else if \<not> is_ok (verify_integrity L plan) then eff_err OpsPlanIntegrity
      else if appr_plan_id approval \<noteq> plan_id plan \<or> appr_plan_digest approval \<noteq> plan_digest plan
              \<or> appr_scope_digest approval \<noteq> plan_digest plan
      then eff_err OpsApprovalMismatch
      else
        eff_bind (eff_lift (ok_or (json_approved L plan approval roots) (OpsJournal (serde_text T))))
          (\<lambda>payload.
            (let approved = journal_event_new L x 0 None ApprovedDurable payload None now
             in eff_bind (append_and_flush J approved) (\<lambda>_.
                  execute_steps L T J F roots x now (plan_digest plan) 0 (je_event_digest approved) []
                    (plan_steps plan)))))"

section \<open>Confinement and the mutation of a step\<close>

datatype mutation = MRename rename_request | MCreate path | MRemove path

text \<open>The file operation a step asks for, or the error it fails with before asking.\<close>

definition step_mutation :: "(root_id \<rightharpoonup> path) \<Rightarrow> operation_step \<Rightarrow> operations_error + mutation option" where
  "step_mutation roots step =
     (case step_kind step of
        NoOp \<Rightarrow> Inr None
      | CreateDirectory \<Rightarrow> try_bind (directory_of_step roots step) (\<lambda>p. Inr (Some (MCreate p)))
      | RemoveDirectoryIfEmpty \<Rightarrow> try_bind (directory_of_step roots step) (\<lambda>p. Inr (Some (MRemove p)))
      | RenameEntrySameVolume \<Rightarrow> try_bind (rename_request_of roots step) (\<lambda>q. Inr (Some (MRename q))))"

definition run_mutation ::
  "('w, 'x) safe_file_operations_scheme \<Rightarrow> mutation \<Rightarrow> ('w, platform_error, unit) eff" where
  "run_mutation F m =
     (case m of
        MRename q \<Rightarrow> eff_bind (rename_same_volume_no_replace F q) (\<lambda>_. eff_ok ())
      | MCreate p \<Rightarrow> create_directory_no_replace F p
      | MRemove p \<Rightarrow> remove_directory_if_empty F p)"

lemma eff_map_err_bind_ok:
  "eff_map_err f (eff_bind m (\<lambda>_. eff_ok ())) w = eff_bind (eff_map_err f m) (\<lambda>_. eff_ok ()) w"
  by (cases "m w"; cases "fst (m w)") (auto simp: eff_map_err_def eff_bind_def)

lemma execute_step_mutation:
  "execute_step F roots step w =
     (case step_mutation roots step of
        Inl e \<Rightarrow> (Inl e, w)
      | Inr None \<Rightarrow> (Inr (), w)
      | Inr (Some m) \<Rightarrow> platform_io (run_mutation F m) w)"
  by (cases "step_kind step"; cases "directory_of_step roots step"; cases "rename_request_of roots step")
    (simp_all add: execute_step_def step_mutation_def run_mutation_def eff_map_err_bind_ok)

lemma execute_step_eq:
  "execute_step F roots step =
     (case step_mutation roots step of
        Inl e \<Rightarrow> eff_err e
      | Inr None \<Rightarrow> eff_ok ()
      | Inr (Some m) \<Rightarrow> platform_io (run_mutation F m))"
  by (rule ext) (simp add: execute_step_mutation split: sum.splits option.splits)

text \<open>The paths a mutation touches.\<close>

fun mutation_paths :: "mutation \<Rightarrow> path list" where
  "mutation_paths (MRename q) = [rr_source q, rr_destination q]"
| "mutation_paths (MCreate p) = [p]"
| "mutation_paths (MRemove p) = [p]"

lemma resolve_within_root_Inr:
  "resolve_within_root r native = Inr p \<Longrightarrow>
     \<exists>q. decode_native_path native = Inr q \<and> all_normal q \<and> p = path_join r q"
  by (auto simp: resolve_within_root_def try_bind_Inr all_normal_def split: if_splits)

definition below_root :: "(root_id \<rightharpoonup> path) \<Rightarrow> path \<Rightarrow> bool" where
  "below_root roots p \<longleftrightarrow>
     (\<exists>r root_path q. roots r = Some root_path \<and> all_normal q \<and> p = path_join root_path q
        \<and> components p = components root_path @ components q \<and> path_starts_with p root_path)"

lemma resolved_below_root:
  "roots r = Some root_path \<Longrightarrow> resolve_within_root root_path native = Inr p \<Longrightarrow> below_root roots p"
  unfolding below_root_def
  using resolve_within_root_Inr components_join_all_normal path_starts_with_join by blast

lemma step_root_Inr: "step_root roots r = Inr p \<longleftrightarrow> (\<exists>k. r = Some k \<and> roots k = Some p)"
  by (auto simp: step_root_def try_bind_Inr ok_or_Inr)

lemma directory_below_root: "directory_of_step roots step = Inr p \<Longrightarrow> below_root roots p"
  by (auto simp: directory_of_step_def try_bind_Inr step_root_Inr intro: resolved_below_root)

lemma rename_below_root:
  "rename_request_of roots step = Inr q \<Longrightarrow> below_root roots (rr_source q) \<and> below_root roots (rr_destination q)"
  by (auto simp: rename_request_of_def try_bind_Inr step_root_Inr split: if_splits
      intro: resolved_below_root)

lemma step_mutation_confined:
  "step_mutation roots step = Inr (Some m) \<Longrightarrow> p \<in> set (mutation_paths m) \<Longrightarrow> below_root roots p"
  by (cases "step_kind step")
    (auto simp: step_mutation_def try_bind_Inr dest: directory_below_root rename_below_root)

section \<open>Traces of effects\<close>

datatype trace_event = Appended journal_event | Flushed | Attempted mutation

definition traced_journal ::
  "('w, 'y) journal_ops_scheme \<Rightarrow> ('w \<times> trace_event list) journal_ops" where
  "traced_journal J =
     \<lparr>j_append = (\<lambda>e (w, tr). case j_append J e w of
          (Inr u, w') \<Rightarrow> (Inr u, (w', tr @ [Appended e])) | (Inl err, w') \<Rightarrow> (Inl err, (w', tr))),
      j_flush = (\<lambda>(w, tr). case j_flush J w of
          (Inr u, w') \<Rightarrow> (Inr u, (w', tr @ [Flushed])) | (Inl err, w') \<Rightarrow> (Inl err, (w', tr))),
      j_events = (\<lambda>x (w, tr). case j_events J x w of (r, w') \<Rightarrow> (r, (w', tr))),
      j_diagnostics = (\<lambda>(w, tr). j_diagnostics J w)\<rparr>"

definition traced_call ::
  "mutation \<Rightarrow> ('w, 'e, 'a) eff \<Rightarrow> ('w \<times> trace_event list, 'e, 'a) eff" where
  "traced_call m f = (\<lambda>(w, tr). case f w of (r, w') \<Rightarrow> (r, (w', tr @ [Attempted m])))"

definition traced_fs ::
  "('w, 'x) safe_file_operations_scheme \<Rightarrow> ('w \<times> trace_event list) safe_file_operations" where
  "traced_fs F =
     \<lparr>rename_same_volume_no_replace = (\<lambda>q. traced_call (MRename q) (rename_same_volume_no_replace F q)),
      create_directory_no_replace = (\<lambda>p. traced_call (MCreate p) (create_directory_no_replace F p)),
      remove_directory_if_empty = (\<lambda>p. traced_call (MRemove p) (remove_directory_if_empty F p))\<rparr>"

text \<open>The traced run does what the plain run does and adds to the trace only.\<close>

definition transparent ::
  "('w \<times> trace_event list, 'e, 'a) eff \<Rightarrow> ('w, 'e, 'a) eff \<Rightarrow> bool" where
  "transparent m' m \<longleftrightarrow> (\<forall>w tr. \<exists>tr'. m' (w, tr) = (fst (m w), (snd (m w), tr')))"

lemma transparent_bind:
  assumes "transparent m' m" and "\<And>x. transparent (k' x) (k x)"
  shows "transparent (eff_bind m' k') (eff_bind m k)"
  unfolding transparent_def
proof (intro allI)
  fix w tr
  obtain tr' where m': "m' (w, tr) = (fst (m w), (snd (m w), tr'))"
    using assms(1) unfolding transparent_def by blast
  show "\<exists>tr'. eff_bind m' k' (w, tr) = (fst (eff_bind m k w), (snd (eff_bind m k w), tr'))"
  proof (cases "fst (m w)")
    case (Inl e)
    then show ?thesis using m' by (cases "m w") (simp add: eff_bind_def)
  next
    case (Inr x)
    then show ?thesis
      using m' assms(2) [of x] unfolding transparent_def
      by (cases "m w") (simp add: eff_bind_def)
  qed
qed

lemma transparent_lift [simp]: "transparent (eff_lift r) (eff_lift r)" "transparent (eff_ok x) (eff_ok x)"
  "transparent (eff_err e) (eff_err e)"
  by (simp_all add: transparent_def)

lemma transparent_append: "transparent (append_and_flush (traced_journal J) e) (append_and_flush J e)"
  unfolding append_and_flush_def
  by (rule transparent_bind) (auto simp: transparent_def traced_journal_def split: prod.splits sum.splits)

lemma transparent_map_err: "transparent m' m \<Longrightarrow> transparent (eff_map_err f m') (eff_map_err f m)"
  unfolding transparent_def eff_map_err_def
  by (intro allI) (metis (mono_tags, lifting) case_prod_beta fst_conv snd_conv)

lemma transparent_call: "transparent (traced_call m f) f"
  by (auto simp: transparent_def traced_call_def split: prod.splits)

lemma transparent_step: "transparent (execute_step (traced_fs F) roots step) (execute_step F roots step)"
proof -
  have run: "transparent (run_mutation (traced_fs F) m) (run_mutation F m)" for m
    by (cases m) (auto simp: run_mutation_def traced_fs_def intro!: transparent_bind transparent_call)
  show ?thesis
    unfolding execute_step_eq
    by (cases "step_mutation roots step"; cases "projr (step_mutation roots step)")
      (auto intro: transparent_map_err [OF run])
qed

lemma transparent_execute_steps:
  "transparent (execute_steps L T (traced_journal J) (traced_fs F) roots x now pd sequence previous applied steps)
     (execute_steps L T J F roots x now pd sequence previous applied steps)"
proof (induction steps arbitrary: sequence previous applied)
  case Nil
  then show ?case by (auto intro!: transparent_bind transparent_append)
next
  case (Cons step steps)
  have o': "transparent (eff_bind (append_and_flush (traced_journal J) e)
      (\<lambda>_. execute_steps L T (traced_journal J) (traced_fs F) roots x now pd n d a steps))
      (eff_bind (append_and_flush J e) (\<lambda>_. execute_steps L T J F roots x now pd n d a steps))" for e n d a
    by (intro transparent_bind transparent_append Cons.IH)
  have f: "transparent (eff_bind (append_and_flush (traced_journal J) e) (\<lambda>_. eff_ok z))
      (eff_bind (append_and_flush J e) (\<lambda>_. eff_ok z))"
    for e and z :: execution_report
    by (intro transparent_bind transparent_append transparent_lift)
  have branch: "transparent
      (\<lambda>w. case execute_step (traced_fs F) roots step w of (Inr _, w') \<Rightarrow> m1' w' | (Inl e, w') \<Rightarrow> m2' e w')
      (\<lambda>w. case execute_step F roots step w of (Inr _, w') \<Rightarrow> m1 w' | (Inl e, w') \<Rightarrow> m2 e w')"
    if "transparent m1' m1" "\<And>e. transparent (m2' e) (m2 e)"
    for m1' and m1 :: "('a, operations_error, execution_report) eff" and m2' m2
    unfolding transparent_def
  proof (intro allI)
    fix w tr
    obtain tr' where s: "execute_step (traced_fs F) roots step (w, tr)
        = (fst (execute_step F roots step w), (snd (execute_step F roots step w), tr'))"
      using transparent_step [of F roots step] unfolding transparent_def by blast
    obtain r w' where e: "execute_step F roots step w = (r, w')" by force
    show "\<exists>tr''. (case execute_step (traced_fs F) roots step (w, tr) of
          (Inr _, w') \<Rightarrow> m1' w' | (Inl e, w') \<Rightarrow> m2' e w') =
        (fst (case execute_step F roots step w of (Inr _, w') \<Rightarrow> m1 w' | (Inl e, w') \<Rightarrow> m2 e w'),
         snd (case execute_step F roots step w of (Inr _, w') \<Rightarrow> m1 w' | (Inl e, w') \<Rightarrow> m2 e w'), tr'')"
      using that unfolding transparent_def s e
      by (cases r) (simp_all only: prod.case sum.case fst_conv snd_conv)
  qed
  show ?case
    unfolding execute_steps.simps
    by (intro transparent_bind transparent_append transparent_lift branch o' f)
qed

section \<open>Write-ahead\<close>

text \<open>
  Every attempt at a file operation comes right after the intent event of a step of the plan
  has been appended and flushed, and is the operation of that step.
\<close>

definition intent_of :: "'a executor_libs_scheme \<Rightarrow> operation_step \<Rightarrow> journal_event \<Rightarrow> bool" where
  "intent_of L step e \<longleftrightarrow>
     je_kind e = IntentDurable \<and> je_step_id e = Some (step_uid step)
     \<and> json_step L step = Some (je_payload e)"

definition write_ahead ::
  "'a executor_libs_scheme \<Rightarrow> (root_id \<rightharpoonup> path) \<Rightarrow> operation_step list \<Rightarrow> trace_event list \<Rightarrow> bool" where
  "write_ahead L roots steps tr \<longleftrightarrow>
     (\<forall>pre m post. tr = pre @ Attempted m # post \<longrightarrow>
        (\<exists>pre' e step. pre = pre' @ [Appended e, Flushed] \<and> step \<in> set steps \<and> intent_of L step e
           \<and> step_mutation roots step = Inr (Some m)))"

lemma write_ahead_quiet:
  "\<forall>m. Attempted m \<notin> set tr \<Longrightarrow> write_ahead L roots steps tr"
  by (auto simp: write_ahead_def)

lemma write_ahead_append:
  assumes "write_ahead L roots steps a" and "write_ahead L roots steps b"
  shows "write_ahead L roots steps (a @ b)"
  unfolding write_ahead_def
proof (intro allI impI)
  fix pre m post assume "a @ b = pre @ Attempted m # post"
  then consider u where "a = pre @ Attempted m # u" | v where "pre = a @ v" "b = v @ Attempted m # post"
    by (auto simp: append_eq_append_conv2 append_eq_Cons_conv)
  then show "\<exists>pre' e step. pre = pre' @ [Appended e, Flushed] \<and> step \<in> set steps \<and> intent_of L step e
      \<and> step_mutation roots step = Inr (Some m)"
  proof cases
    case 1
    then show ?thesis using assms(1) unfolding write_ahead_def by blast
  next
    case 2
    then obtain pre' e step where "v = pre' @ [Appended e, Flushed]" "step \<in> set steps" "intent_of L step e"
        "step_mutation roots step = Inr (Some m)"
      using assms(2) unfolding write_ahead_def by blast
    with 2 show ?thesis by (metis append_assoc)
  qed
qed

lemma write_ahead_mono: "write_ahead L roots steps tr \<Longrightarrow> set steps \<subseteq> set steps' \<Longrightarrow> write_ahead L roots steps' tr"
  unfolding write_ahead_def by blast

lemma write_ahead_intent:
  assumes "intent_of L step e" and "step_mutation roots step = Inr (Some m)" and "step \<in> set steps"
  shows "write_ahead L roots steps [Appended e, Flushed, Attempted m]"
proof -
  have "pre = [Appended e, Flushed] \<and> m' = m" if "[Appended e, Flushed, Attempted m] = pre @ Attempted m' # post"
    for pre m' post
    using that by (auto simp: Cons_eq_append_conv)
  then show ?thesis unfolding write_ahead_def using assms by (metis append_Nil)
qed

text \<open>What one call adds to the trace.\<close>

lemma traced_append_cases:
  assumes "append_and_flush (traced_journal J) e (w, tr) = (r, (w', tr'))"
  obtains (ok) "r = Inr ()" "tr' = tr @ [Appended e, Flushed]"
    | (failed) err d where "r = Inl err" "tr' = tr @ d" "d = [] \<or> d = [Appended e]"
proof -
  obtain r1 w1 where a: "j_append J e w = (r1, w1)" by force
  obtain r2 w2 where f: "j_flush J w1 = (r2, w2)" by force
  have "(r = Inr () \<and> tr' = tr @ [Appended e, Flushed])
    \<or> (\<exists>err d. r = Inl err \<and> tr' = tr @ d \<and> (d = [] \<or> d = [Appended e]))"
    using assms a f
    by (cases r1; cases r2) (simp_all add: append_and_flush_def traced_journal_def eff_bind_def, blast+)
  with ok failed show thesis by blast
qed

lemma traced_step:
  assumes "execute_step (traced_fs F) roots step (w, tr) = (r, (w', tr'))"
  shows "tr' = tr \<or> (\<exists>m. step_mutation roots step = Inr (Some m) \<and> tr' = tr @ [Attempted m])"
proof (cases "step_mutation roots step")
  case (Inl e)
  then show ?thesis using assms by (simp add: execute_step_eq)
next
  case (Inr om)
  show ?thesis
  proof (cases om)
    case None
    then show ?thesis using assms Inr by (simp add: execute_step_eq)
  next
    case (Some m)
    have "tr' = tr @ [Attempted m]"
    proof (cases m)
      case (MRename q)
      then show ?thesis using assms Inr Some
        by (cases "rename_same_volume_no_replace F q w"; cases "fst (rename_same_volume_no_replace F q w)")
          (auto simp: execute_step_eq run_mutation_def traced_fs_def traced_call_def eff_map_err_def eff_bind_def)
    next
      case (MCreate p)
      then show ?thesis using assms Inr Some
        by (cases "create_directory_no_replace F p w")
          (auto simp: execute_step_eq run_mutation_def traced_fs_def traced_call_def eff_map_err_def)
    next
      case (MRemove p)
      then show ?thesis using assms Inr Some
        by (cases "remove_directory_if_empty F p w")
          (auto simp: execute_step_eq run_mutation_def traced_fs_def traced_call_def eff_map_err_def)
    qed
    then show ?thesis using Inr Some by blast
  qed
qed

lemma append_then_write_ahead:
  assumes "eff_bind (append_and_flush (traced_journal J) e) k (w, tr) = (r, (w', tr'))"
    and "\<And>w1 tr1 r w' tr'. k () (w1, tr1) = (r, (w', tr')) \<Longrightarrow>
      \<exists>d. tr' = tr1 @ d \<and> write_ahead L roots steps d"
  shows "\<exists>d. tr' = tr @ d \<and> write_ahead L roots steps d"
proof -
  obtain r1 w1 tr1 where a: "append_and_flush (traced_journal J) e (w, tr) = (r1, (w1, tr1))"
    by (metis surj_pair)
  from a show ?thesis
  proof (cases rule: traced_append_cases)
    case ok
    then have "k () (w1, tr1) = (r, (w', tr'))" using assms(1) a by (simp add: eff_bind_def)
    then obtain d where d: "tr' = tr1 @ d" "write_ahead L roots steps d" using assms(2) by blast
    have "write_ahead L roots steps ([Appended e, Flushed] @ d)"
      by (rule write_ahead_append [OF write_ahead_quiet d(2)]) simp
    then show ?thesis using d(1) ok(2) by (intro exI [of _ "[Appended e, Flushed] @ d"]) simp
  next
    case (failed err d)
    then have "tr' = tr @ d" using assms(1) a by (auto simp: eff_bind_def)
    moreover have "write_ahead L roots steps d" using failed(3) by (intro write_ahead_quiet) auto
    ultimately show ?thesis by blast
  qed
qed

lemma execute_steps_write_ahead:
  assumes "execute_steps L T (traced_journal J) (traced_fs F) roots x now pd sequence previous applied steps
      (w, tr) = (r, (w', tr'))"
  shows "\<exists>d. tr' = tr @ d \<and> write_ahead L roots steps d"
  using assms
proof (induction steps arbitrary: sequence previous applied w tr r w' tr')
  case Nil
  show ?case
    by (rule append_then_write_ahead [OF Nil [unfolded execute_steps.simps]])
      (auto intro: write_ahead_quiet)
next
  case (Cons step steps)
  show ?case
  proof (cases "json_step L step")
    case None
    then show ?thesis using Cons.prems by (auto intro: write_ahead_quiet)
  next
    case (Some payload)
    let ?i = "intent_event L x now sequence previous step payload"
    let ?o = "observed_event L x now sequence previous step payload"
    have run: "eff_bind (append_and_flush (traced_journal J) ?i) (\<lambda>_ w.
       (case execute_step (traced_fs F) roots step w of
          (Inr _, w') \<Rightarrow> eff_bind (append_and_flush (traced_journal J) ?o) (\<lambda>_.
              execute_steps L T (traced_journal J) (traced_fs F) roots x now pd (sat_succ64 (sat_succ64 sequence))
                (je_event_digest ?o) (applied @ [step_uid step]) steps) w'
        | (Inl error, w') \<Rightarrow>
            eff_bind (append_and_flush (traced_journal J) (failed_event L T x now sequence previous step payload error))
              (\<lambda>_. eff_ok (failed_report T x applied error)) w')) (w, tr) = (r, (w', tr'))"
      using Cons.prems unfolding execute_steps.simps Some ok_or_simps by simp
    obtain r0 w0 tr0 where a: "append_and_flush (traced_journal J) ?i (w, tr) = (r0, (w0, tr0))"
      by (metis surj_pair)
    from a show ?thesis
    proof (cases rule: traced_append_cases)
      case (failed err d)
      then have "tr' = tr @ d" using run a by (auto simp: eff_bind_def)
      moreover have "write_ahead L roots (step # steps) d"
        using failed(3) by (intro write_ahead_quiet) auto
      ultimately show ?thesis by blast
    next
      case ok
      obtain r1 w1 tr1 where s: "execute_step (traced_fs F) roots step (w0, tr0) = (r1, (w1, tr1))"
        by (metis surj_pair)
      have n0: "(case execute_step (traced_fs F) roots step (w0, tr0) of
          (Inr _, w') \<Rightarrow> eff_bind (append_and_flush (traced_journal J) ?o) (\<lambda>_.
              execute_steps L T (traced_journal J) (traced_fs F) roots x now pd (sat_succ64 (sat_succ64 sequence))
                (je_event_digest ?o) (applied @ [step_uid step]) steps) w'
        | (Inl error, w') \<Rightarrow>
            eff_bind (append_and_flush (traced_journal J) (failed_event L T x now sequence previous step payload error))
              (\<lambda>_. eff_ok (failed_report T x applied error)) w') = (r, (w', tr'))"
        using run unfolding eff_bind_def [of "append_and_flush (traced_journal J) ?i"] a ok(1) by simp
      have "\<exists>d. tr' = tr1 @ d \<and> write_ahead L roots (step # steps) d"
      proof (cases r1)
        case (Inl error)
        then have n: "eff_bind (append_and_flush (traced_journal J)
            (failed_event L T x now sequence previous step payload error))
            (\<lambda>_. eff_ok (failed_report T x applied error)) (w1, tr1) = (r, (w', tr'))"
          using n0 unfolding s by simp
        show ?thesis by (rule append_then_write_ahead [OF n]) (auto intro: write_ahead_quiet)
      next
        case (Inr u)
        then have n: "eff_bind (append_and_flush (traced_journal J) ?o) (\<lambda>_.
            execute_steps L T (traced_journal J) (traced_fs F) roots x now pd (sat_succ64 (sat_succ64 sequence))
              (je_event_digest ?o) (applied @ [step_uid step]) steps) (w1, tr1) = (r, (w', tr'))"
          using n0 unfolding s by simp
        show ?thesis
        proof (rule append_then_write_ahead [OF n])
          fix w1 tr1 r w' tr'
          assume e: "execute_steps L T (traced_journal J) (traced_fs F) roots x now pd (sat_succ64 (sat_succ64 sequence))
            (je_event_digest ?o) (applied @ [step_uid step]) steps (w1, tr1) = (r, (w', tr'))"
          from Cons.IH [OF e] show "\<exists>d. tr' = tr1 @ d \<and> write_ahead L roots (step # steps) d"
            using write_ahead_mono [of L roots steps _ "step # steps"] by auto
        qed
      qed
      then obtain d where d: "tr' = tr1 @ d" "write_ahead L roots (step # steps) d" by blast
      have intent: "intent_of L step ?i" using Some by (simp add: intent_of_def intent_event_def)
      have "\<exists>a. tr1 = tr @ a \<and> write_ahead L roots (step # steps) a"
        using traced_step [OF s]
      proof
        assume "tr1 = tr0"
        then show ?thesis using ok(2)
          by (intro exI [of _ "[Appended ?i, Flushed]"]) (auto intro: write_ahead_quiet)
      next
        assume "\<exists>m. step_mutation roots step = Inr (Some m) \<and> tr1 = tr0 @ [Attempted m]"
        then obtain m where m: "step_mutation roots step = Inr (Some m)" "tr1 = tr0 @ [Attempted m]" by blast
        have "write_ahead L roots (step # steps) [Appended ?i, Flushed, Attempted m]"
          by (rule write_ahead_intent [OF intent m(1)]) simp
        then show ?thesis using m(2) ok(2)
          by (intro exI [of _ "[Appended ?i, Flushed, Attempted m]"]) simp
      qed
      then obtain a where a': "tr1 = tr @ a" "write_ahead L roots (step # steps) a" by blast
      from write_ahead_append [OF a'(2) d(2)] a'(1) d(1) show ?thesis by auto
    qed
  qed
qed

section \<open>The environment of the executor\<close>

text \<open>
  What the executor relies on: a durable journal, and file operations that keep its invariant
  and its log.
\<close>

locale executor_env = durable_journal J inv log
  for J :: "'w journal_ops" and inv :: "'w \<Rightarrow> bool" and log :: "'w \<Rightarrow> journal_event list" +
  fixes F :: "'w safe_file_operations"
  assumes rename_frame: "inv w \<Longrightarrow> rename_same_volume_no_replace F q w = (r1, w') \<Longrightarrow> inv w' \<and> log w' = log w"
    and create_frame: "inv w \<Longrightarrow> create_directory_no_replace F p w = (r2, w') \<Longrightarrow> inv w' \<and> log w' = log w"
    and remove_frame: "inv w \<Longrightarrow> remove_directory_if_empty F p w = (r2, w') \<Longrightarrow> inv w' \<and> log w' = log w"

text \<open>The ids of the steps observed as applied, and the journal of a run with its report.\<close>

definition observed_steps :: "journal_event list \<Rightarrow> operation_step_id list" where
  "observed_steps es = List.map_filter (\<lambda>e. if je_kind e = AppliedObserved then je_step_id e else None) es"

definition recorded_run ::
  "'a libs_scheme \<Rightarrow> execution_id \<Rightarrow> (u64 \<times> digest) option \<Rightarrow> journal_event list \<Rightarrow> execution_report \<Rightarrow> bool" where
  "recorded_run L x head es report \<longleftrightarrow>
     linked L head es \<and> es \<noteq> [] \<and> list_all (\<lambda>e. je_execution_id e = x) es
     \<and> xrep_id report = x
     \<and> (xrep_state report = ExecApplied \<longleftrightarrow> je_kind (last es) = ExecutionFinished)"

lemma observed_steps_simps [simp]:
  "observed_steps [] = []"
  "observed_steps (es @ fs) = observed_steps es @ observed_steps fs"
  "observed_steps (e # es) =
     (if je_kind e = AppliedObserved then (case je_step_id e of None \<Rightarrow> [] | Some s \<Rightarrow> [s]) else [])
     @ observed_steps es"
  by (auto simp: observed_steps_def List.map_filter_def split: option.splits)

lemma step_events_facts:
  "je_execution_id (intent_event L x now n d step pl) = x"
  "je_execution_id (observed_event L x now n d step pl) = x"
  "je_execution_id (failed_event L T x now n d step pl err) = x"
  "je_kind (intent_event L x now n d step pl) = IntentDurable"
  "je_kind (observed_event L x now n d step pl) = AppliedObserved"
  "je_kind (failed_event L T x now n d step pl err) = StepFailed"
  "je_step_id (observed_event L x now n d step pl) = Some (step_uid step)"
  "je_sequence (intent_event L x now n d step pl) = sat_succ64 n"
  "je_sequence (observed_event L x now n d step pl) = sat_succ64 (sat_succ64 n)"
  "je_sequence (failed_event L T x now n d step pl err) = sat_succ64 (sat_succ64 n)"
  "event_verify L (intent_event L x now n d step pl) (Some d)"
  "event_verify L (observed_event L x now n d step pl)
     (Some (je_event_digest (intent_event L x now n d step pl)))"
  "event_verify L (failed_event L T x now n d step pl err)
     (Some (je_event_digest (intent_event L x now n d step pl)))"
  by (simp_all add: intent_event_def observed_event_def failed_event_def)

lemma recorded_run_Cons2:
  assumes "recorded_run L x (Some (je_sequence b, je_event_digest b)) es report"
    and "linked L head [a, b]" and "je_execution_id a = x" and "je_execution_id b = x"
  shows "recorded_run L x head (a # b # es) report"
  using assms by (auto simp: recorded_run_def)

context executor_env begin

lemma mutation_frame: "inv w \<Longrightarrow> run_mutation F m w = (r, w') \<Longrightarrow> inv w' \<and> log w' = log w"
  by (cases m) (auto simp: run_mutation_def eff_bind_def split: prod.splits sum.splits
      dest: rename_frame create_frame remove_frame)

lemma step_frame: "inv w \<Longrightarrow> execute_step F roots step w = (r, w') \<Longrightarrow> inv w' \<and> log w' = log w"
  by (auto simp: execute_step_eq eff_map_err_def split: sum.splits option.splits prod.splits
      dest: mutation_frame)

lemma append_and_flush_log:
  "inv w \<Longrightarrow> append_and_flush J e w = (Inr (), w') \<Longrightarrow> inv w' \<and> log w' = log w @ [e]"
  using append_flush_ok by (simp add: append_flush_def append_and_flush_def)

lemma execute_steps_recorded:
  assumes "inv w"
    and "execute_steps L T J F roots x now pd sequence previous applied steps w = (Inr report, w')"
  shows "inv w' \<and> (\<exists>es. log w' = log w @ es
    \<and> recorded_run L x (Some (sequence, previous)) es report
    \<and> xrep_applied_steps report = applied @ observed_steps es
    \<and> (xrep_state report = ExecApplied \<longrightarrow> observed_steps es = map step_uid steps))"
  using assms
proof (induction steps arbitrary: sequence previous applied w)
  case Nil
  let ?e = "journal_event_new L x (sat_succ64 sequence) None ExecutionFinished (digest_bytes pd)
    (Some previous) now"
  have a: "append_and_flush J ?e w = (Inr (), w')"
    and r: "report = \<lparr>xrep_id = x, xrep_state = ExecApplied, xrep_applied_steps = applied, xrep_error = None\<rparr>"
    using Nil.prems(2) by (auto simp: eff_bind_Inr)
  from append_and_flush_log [OF Nil.prems(1) a] r show ?case
    by (intro conjI exI [of _ "[?e]"]) (simp_all add: recorded_run_def)
next
  case (Cons step steps)
  obtain payload w1 where p: "json_step L step = Some payload"
    and i: "append_and_flush J (intent_event L x now sequence previous step payload) w = (Inr (), w1)"
    and rest: "(case execute_step F roots step w1 of
          (Inr _, w') \<Rightarrow>
            eff_bind (append_and_flush J (observed_event L x now sequence previous step payload)) (\<lambda>_.
              execute_steps L T J F roots x now pd (sat_succ64 (sat_succ64 sequence))
                (je_event_digest (observed_event L x now sequence previous step payload))
                (applied @ [step_uid step]) steps) w'
        | (Inl error, w') \<Rightarrow>
            eff_bind (append_and_flush J (failed_event L T x now sequence previous step payload error))
              (\<lambda>_. eff_ok (failed_report T x applied error)) w') = (Inr report, w')"
    using Cons.prems(2) unfolding execute_steps.simps eff_bind_Inr by (auto simp: ok_or_Inr)
  let ?i = "intent_event L x now sequence previous step payload"
  let ?o = "observed_event L x now sequence previous step payload"
  have w1: "inv w1" "log w1 = log w @ [?i]" using append_and_flush_log [OF Cons.prems(1) i] by simp_all
  obtain r2 w2 where s: "execute_step F roots step w1 = (r2, w2)" by force
  have w2: "inv w2" "log w2 = log w @ [?i]" using step_frame [OF w1(1) s] w1(2) by simp_all
  show ?case
  proof (cases r2)
    case (Inl error)
    let ?f = "failed_event L T x now sequence previous step payload error"
    have f: "append_and_flush J ?f w2 = (Inr (), w')" and r: "report = failed_report T x applied error"
      using rest by (auto simp: s Inl eff_bind_Inr)
    have "inv w' \<and> log w' = log w @ [?i, ?f]" using append_and_flush_log [OF w2(1) f] w2(2) by simp
    moreover have "recorded_run L x (Some (sequence, previous)) [?i, ?f] report"
      by (simp add: recorded_run_def r failed_report_def step_events_facts)
    ultimately show ?thesis
      by (intro conjI exI [of _ "[?i, ?f]"]) (simp_all add: r failed_report_def step_events_facts)
  next
    case (Inr u)
    then obtain w3 where o': "append_and_flush J ?o w2 = (Inr (), w3)"
      and e: "execute_steps L T J F roots x now pd (sat_succ64 (sat_succ64 sequence))
        (je_event_digest ?o) (applied @ [step_uid step]) steps w3 = (Inr report, w')"
      using rest by (auto simp: s eff_bind_Inr)
    have w3: "inv w3" "log w3 = log w @ [?i, ?o]"
      using append_and_flush_log [OF w2(1) o'] w2(2) by simp_all
    from Cons.IH [OF w3(1) e] obtain es where es: "inv w'" "log w' = log w3 @ es"
        "recorded_run L x (Some (sat_succ64 (sat_succ64 sequence), je_event_digest ?o)) es report"
        "xrep_applied_steps report = (applied @ [step_uid step]) @ observed_steps es"
        "xrep_state report = ExecApplied \<longrightarrow> observed_steps es = map step_uid steps" by blast
    have "recorded_run L x (Some (sequence, previous)) (?i # ?o # es) report"
      by (rule recorded_run_Cons2) (use es(3) in \<open>simp_all add: step_events_facts\<close>)
    with es w3(2) show ?thesis
      by (intro conjI exI [of _ "?i # ?o # es"]) (simp_all add: step_events_facts)
  qed
qed

lemma execute_recorded:
  assumes "inv w" and "execute L T gate J F x plan approval roots now w = (Inr report, w')"
  shows "inv w' \<and> (\<exists>es. log w' = log w @ es \<and> recorded_run L x None es report
    \<and> je_kind (hd es) = ApprovedDurable
    \<and> xrep_applied_steps report = observed_steps es
    \<and> (xrep_state report = ExecApplied \<longrightarrow> observed_steps es = map step_uid (plan_steps plan)))"
proof -
  obtain payload w1 where
      a: "append_and_flush J (journal_event_new L x 0 None ApprovedDurable payload None now) w = (Inr (), w1)"
    and e: "execute_steps L T J F roots x now (plan_digest plan) 0
        (je_event_digest (journal_event_new L x 0 None ApprovedDurable payload None now)) []
        (plan_steps plan) w1 = (Inr report, w')"
    using assms(2)
    by (auto simp: execute_def Let_def eff_bind_Inr ok_or_Inr simp del: eff_bind_eqs split: if_splits)
  let ?a = "journal_event_new L x 0 None ApprovedDurable payload None now"
  have w1: "inv w1" "log w1 = log w @ [?a]" using append_and_flush_log [OF assms(1) a] by simp_all
  from execute_steps_recorded [OF w1(1) e] obtain es where es: "inv w'" "log w' = log w1 @ es"
      "recorded_run L x (Some (0, je_event_digest ?a)) es report"
      "xrep_applied_steps report = observed_steps es"
      "xrep_state report = ExecApplied \<longrightarrow> observed_steps es = map step_uid (plan_steps plan)" by auto
  have "recorded_run L x None (?a # es) report"
    using es(3) by (auto simp: recorded_run_def)
  with es w1(2) show ?thesis by (intro conjI exI [of _ "?a # es"]) simp_all
qed

end

section \<open>A journal beside a file system\<close>

text \<open>The world of the program: the journal's state and the state of the file operations.\<close>

definition journal_on_fst :: "'a journal_ops \<Rightarrow> ('a \<times> 'b) journal_ops" where
  "journal_on_fst J =
     \<lparr>j_append = (\<lambda>e (a, b). case j_append J e a of (r, a') \<Rightarrow> (r, (a', b))),
      j_flush = (\<lambda>(a, b). case j_flush J a of (r, a') \<Rightarrow> (r, (a', b))),
      j_events = (\<lambda>x (a, b). case j_events J x a of (r, a') \<Rightarrow> (r, (a', b))),
      j_diagnostics = (\<lambda>(a, b). j_diagnostics J a)\<rparr>"

definition fs_on_snd :: "'b safe_file_operations \<Rightarrow> ('a \<times> 'b) safe_file_operations" where
  "fs_on_snd F =
     \<lparr>rename_same_volume_no_replace = (\<lambda>q (a, b). case rename_same_volume_no_replace F q b of (r, b') \<Rightarrow> (r, (a, b'))),
      create_directory_no_replace = (\<lambda>p (a, b). case create_directory_no_replace F p b of (r, b') \<Rightarrow> (r, (a, b'))),
      remove_directory_if_empty = (\<lambda>p (a, b). case remove_directory_if_empty F p b of (r, b') \<Rightarrow> (r, (a, b')))\<rparr>"

lemma executor_env_product:
  assumes "durable_journal J good l"
  shows "executor_env (journal_on_fst J) (\<lambda>w. good (fst w)) (\<lambda>w. l (fst w)) (fs_on_snd F)"
proof unfold_locales
  fix w e w' assume "good (fst w)" "j_append (journal_on_fst J) e w = (Inr (), w')"
  then show "good (fst w') \<and> l (fst w') = l (fst w) @ [e]"
    using durable_journal.append_ok [OF assms, of "fst w" e "fst w'"]
    by (auto simp: journal_on_fst_def split: prod.splits)
next
  fix w w' assume "good (fst w)" "j_flush (journal_on_fst J) w = (Inr (), w')"
  then show "good (fst w') \<and> l (fst w') = l (fst w)"
    using durable_journal.flush_ok [OF assms, of "fst w" "fst w'"]
    by (auto simp: journal_on_fst_def split: prod.splits)
next
  fix w x es w' assume "good (fst w)" "j_events (journal_on_fst J) x w = (Inr es, w')"
  then show "es = filter (\<lambda>e. je_execution_id e = x) (l (fst w)) \<and> l (fst w') = l (fst w)"
    using durable_journal.events_ok [OF assms, of "fst w" x es "fst w'"]
    by (auto simp: journal_on_fst_def split: prod.splits)
qed (auto simp: fs_on_snd_def split: prod.splits)

interpretation on_memory: executor_env "journal_on_fst memory_journal_ops" "\<lambda>w. True"
    "\<lambda>w. mj_events (fst w)" "fs_on_snd F" for F :: "'b safe_file_operations"
  using executor_env_product [OF memory.durable_journal_axioms] .

interpretation on_file: executor_env "journal_on_fst (file_journal_ops L T)" "\<lambda>w. fj_inv L T (fst w)"
    "\<lambda>w. fj_log L T (fst w)" "fs_on_snd F" for L T and F :: "'b safe_file_operations"
  by (rule executor_env_product [OF encrypted.durable_journal_axioms])

section \<open>Properties\<close>

text \<open>C11: nothing is mutated before it is on record. In any run of a plan, over any journal and any
  file system and however it ends, every attempt at a file operation comes directly after the
  append and the flush of the intent event of a step of the approved plan, is the operation of
  that step and touches only paths below a registered root; the tracing does not change the
  run.\<close>

theorem mutations_follow_durable_intent:
  assumes "execute L T gate (traced_journal J) (traced_fs F) x plan approval roots now (w, []) = (r, (w', tr))"
  shows "write_ahead L roots (plan_steps plan) tr
    \<and> {p. \<exists>m. Attempted m \<in> set tr \<and> p \<in> set (mutation_paths m)} \<subseteq> Collect (below_root roots)
    \<and> execute L T gate J F x plan approval roots now w = (r, w')"
proof (intro conjI)
  show wa: "write_ahead L roots (plan_steps plan) tr"
  proof (cases "gate_enabled gate \<and> is_ok (verify_integrity L plan) \<and> appr_plan_id approval = plan_id plan
      \<and> appr_plan_digest approval = plan_digest plan \<and> appr_scope_digest approval = plan_digest plan")
    case False
    then have "tr = []" using assms by (auto simp: execute_def split: if_splits)
    then show ?thesis by (simp add: write_ahead_quiet)
  next
    case True
    show ?thesis
    proof (cases "json_approved L plan approval roots")
      case None
      then have "tr = []" using assms True by (auto simp: execute_def)
      then show ?thesis by (simp add: write_ahead_quiet)
    next
      case (Some payload)
      let ?a = "journal_event_new L x 0 None ApprovedDurable payload None now"
      have run: "eff_bind (append_and_flush (traced_journal J) ?a) (\<lambda>_.
          execute_steps L T (traced_journal J) (traced_fs F) roots x now (plan_digest plan) 0
            (je_event_digest ?a) [] (plan_steps plan)) (w, []) = (r, (w', tr))"
        using assms True by (simp add: execute_def Some Let_def)
      from append_then_write_ahead [OF run execute_steps_write_ahead] show ?thesis by auto
    qed
  qed
  show "{p. \<exists>m. Attempted m \<in> set tr \<and> p \<in> set (mutation_paths m)} \<subseteq> Collect (below_root roots)"
  proof clarsimp
    fix p m assume "Attempted m \<in> set tr" and p: "p \<in> set (mutation_paths m)"
    then obtain pre post where "tr = pre @ Attempted m # post" by (metis split_list)
    then obtain step where "step_mutation roots step = Inr (Some m)"
      using wa unfolding write_ahead_def by blast
    then show "below_root roots p" using p by (rule step_mutation_confined)
  qed
  have "transparent (execute L T gate (traced_journal J) (traced_fs F) x plan approval roots now)
      (execute L T gate J F x plan approval roots now)"
    by (auto simp: execute_def Let_def intro!: transparent_bind transparent_append transparent_execute_steps)
  then obtain tr' where "execute L T gate (traced_journal J) (traced_fs F) x plan approval roots now (w, [])
      = (fst (execute L T gate J F x plan approval roots now w),
         (snd (execute L T gate J F x plan approval roots now w), tr'))"
    unfolding transparent_def by blast
  with assms show "execute L T gate J F x plan approval roots now w = (r, w')"
    by (metis Pair_inject prod.collapse)
qed

definition sample_fs :: "'w safe_file_operations" where
  "sample_fs =
     \<lparr>rename_same_volume_no_replace = (\<lambda>q w. (Inl PlatSourceMissing, w)),
      create_directory_no_replace = (\<lambda>p w. (Inr (), w)),
      remove_directory_if_empty = (\<lambda>p w. (Inr (), w))\<rparr>"

definition sample_gate :: apply_gate where
  "sample_gate = \<lparr>gate_enabled = True, gate_reason = []\<rparr>"

definition receipt_for :: "sealed_plan \<Rightarrow> approval_receipt" where
  "receipt_for p = \<lparr>appr_plan_id = plan_id p, appr_plan_digest = plan_digest p, appr_actor_id = 1,
     appr_scope_digest = plan_digest p, appr_approved_at_unix_ms = 0\<rparr>"

abbreviation sample_roots :: "root_id \<rightharpoonup> path" where
  "sample_roots \<equiv> [1 \<mapsto> [47, 114]]"

definition sample_memory :: memory_journal where
  "sample_memory = \<lparr>mj_poisoned = False, mj_events = []\<rparr>"

lemma sample_create_plan:
  "\<exists>p s. verify_integrity sample_executor_libs p = Inr () \<and> plan_steps p = [s]
     \<and> step_mutation sample_roots s = Inr (Some (MCreate [47, 114, 47, 97]))"
proof -
  obtain p where p: "compile_plan sample_executor_libs sample_texts (\<lambda>n. of_nat n) (sample_proposal [])
      sample_outcome = Inr p"
    using sample_compiled by blast
  then have v: "verify_integrity sample_executor_libs p = Inr ()"
    by (auto simp: compile_plan_Inr intro: sealed_plan_verifies)
  have "plan_steps p = fst (compile_steps (\<lambda>n. of_nat n) (sample_proposal []) sample_outcome)"
    using p by (auto simp: compile_plan_Inr seal_Inr)
  then have e: "map effect_of (plan_steps p)
      = [(CreateDirectory, None, Some 1, Some \<lparr>np_encoding = UnixBytes, np_bytes = [97]\<rparr>)]"
    using compile_steps_effects [of "\<lambda>n. of_nat n" "sample_proposal []" sample_outcome]
    by (simp add: sample_outcome_def directory_effect_def)
  then obtain s where s: "plan_steps p = [s]" by auto
  have "resolve_within_root [47, 114] \<lparr>np_encoding = UnixBytes, np_bytes = [97]\<rparr> = Inr [47, 114, 47, 97]"
    by (simp add: resolve_within_root_def decode_native_path_def is_absolute_def components_def
        seg_component_def path_join_def)
  then have "step_mutation sample_roots s = Inr (Some (MCreate [47, 114, 47, 97]))"
    using e by (simp add: s effect_of_def step_mutation_def directory_of_step_def step_root_def)
  with v s show ?thesis by blast
qed

theorem mutations_follow_durable_intent_witness:
  "\<exists>p r w' tr. execute sample_executor_libs sample_texts sample_gate (traced_journal memory_journal_ops)
       (traced_fs sample_fs) 1 p (receipt_for p) sample_roots 0 (sample_memory, []) = (r, (w', tr))
     \<and> Attempted (MCreate [47, 114, 47, 97]) \<in> set tr
     \<and> below_root sample_roots [47, 114, 47, 97]"
proof -
  obtain p s where p: "verify_integrity sample_executor_libs p = Inr ()" "plan_steps p = [s]"
      "step_mutation sample_roots s = Inr (Some (MCreate [47, 114, 47, 97]))"
    using sample_create_plan by blast
  let ?run = "execute sample_executor_libs sample_texts sample_gate (traced_journal memory_journal_ops)
    (traced_fs sample_fs) 1 p (receipt_for p) sample_roots 0 (sample_memory, [])"
  have j: "json_step sample_executor_libs s = Some [3]" for s
    by (simp add: table_executor_libs_def journal_libs.defs executor_libs.defs)
  have a: "json_approved sample_executor_libs p q r = Some [4]" for p q r
    by (simp add: table_executor_libs_def journal_libs.defs executor_libs.defs)
  obtain r w' tr where run: "?run = (r, (w', tr))" by (metis surj_pair)
  have "Attempted (MCreate [47, 114, 47, 97]) \<in> set (snd (snd ?run))"
    using p(1) by (simp add: execute_def sample_gate_def receipt_for_def a j p(2,3) execute_step_eq
        append_and_flush_def traced_journal_def memory_journal_ops_def memory_lock_def sample_memory_def
        eff_bind_def Let_def run_mutation_def traced_fs_def traced_call_def sample_fs_def eff_map_err_def)
  then have "Attempted (MCreate [47, 114, 47, 97]) \<in> set tr" by (simp add: run)
  moreover from this have "below_root sample_roots [47, 114, 47, 97]"
    using mutations_follow_durable_intent [OF run] by force
  ultimately show ?thesis using run by blast
qed

text \<open>C22: a run that returns leaves a complete record. With the encrypted file journal, a returned
  report names exactly the steps that were observed as applied, the journal has grown by one
  valid chain for the new execution and nothing else, the run is reported as applied only when
  every step of the plan was applied, and the execution is offered for recovery afterwards if
  and only if it did not finish.\<close>

theorem executed_plans_are_recorded:
  assumes "fj_inv L T (fst w)" and "of_execution x (fj_log L T (fst w)) = []"
    and "execute L T gate (journal_on_fst (file_journal_ops L T)) (fs_on_snd F) x plan approval roots now w
      = (Inr report, w')"
  shows "\<exists>es. fj_log L T (fst w') = fj_log L T (fst w) @ es \<and> recorded_run L x None es report
    \<and> xrep_applied_steps report = observed_steps es
    \<and> (xrep_state report \<noteq> ExecApplied \<or> observed_steps es = map step_uid (plan_steps plan))
    \<and> (x \<in> set (pending_ids (fj_log L T (fst w'))) \<longleftrightarrow> xrep_state report \<noteq> ExecApplied)"
proof -
  from on_file.execute_recorded [OF assms(1,3)] obtain es where es:
      "fj_log L T (fst w') = fj_log L T (fst w) @ es" "recorded_run L x None es report"
      "xrep_applied_steps report = observed_steps es"
      "xrep_state report = ExecApplied \<longrightarrow> observed_steps es = map step_uid (plan_steps plan)" by blast
  have "of_execution x es = es"
    using es(2) by (simp add: recorded_run_def list_all_iff filter_id_conv)
  then have x: "of_execution x (fj_log L T (fst w')) = es" by (simp add: es(1) assms(2))
  have "x \<in> set (pending_ids (fj_log L T (fst w'))) \<longleftrightarrow> xrep_state report \<noteq> ExecApplied"
    unfolding pending_iff x using es(2) by (auto simp: recorded_run_def)
  with es show ?thesis by blast
qed

text \<open>A journal that can take the four events of a run of one step without effect.\<close>

definition quiet_journal :: "file_journal \<Rightarrow> bool" where
  "quiet_journal s \<longleftrightarrow>
     jf_script (fj_disk s) = [] \<and> jf_entropy (fj_disk s) = (\<lambda>n. Inr (of_nat n))
     \<and> \<not> fj_file_poisoned s \<and> \<not> fj_last_poisoned s"

lemma table_executor_fields:
  "json_event (table_executor_libs es) = json_event (table_libs es)"
  "parse_event (table_executor_libs es) = parse_event (table_libs es)"
  "json_record (table_executor_libs es) = json_record (table_libs es)"
  "parse_record (table_executor_libs es) = parse_record (table_libs es)"
  "b64_encode (table_executor_libs es) = b64_encode (table_libs es)"
  "b64_decode (table_executor_libs es) = b64_decode (table_libs es)"
  "aead_encrypt (table_executor_libs es) = aead_encrypt (table_libs es)"
  "aead_decrypt (table_executor_libs es) = aead_decrypt (table_libs es)"
  "blake3 (table_executor_libs es) = blake3 sample_plan_libs"
  "uuid_text (table_executor_libs es) = uuid_text sample_plan_libs"
  "json_plan_draft (table_executor_libs es) = json_plan_draft sample_plan_libs"
  "json_step (table_executor_libs es) s = Some [3]"
  "json_approved (table_executor_libs es) p q r = Some [4]"
  by (simp_all add: table_executor_libs_def table_libs_def journal_libs.defs executor_libs.defs)

lemma table_append:
  assumes "quiet_journal s" and "e \<in> set es" and "extends_chain sample_plan_libs (fj_last s) e"
  shows "\<exists>s'. append_and_flush (journal_on_fst (file_journal_ops (table_executor_libs es) T)) e (s, b) = (Inr (), (s', b))
    \<and> quiet_journal s' \<and> fj_last s' = (fj_last s)(je_execution_id e \<mapsto> (je_sequence e, je_event_digest e))"
proof -
  have "event_verify (table_executor_libs es) e p = event_verify sample_plan_libs e p" for p
    by (rule event_verify_cong) (simp_all add: table_executor_fields)
  then have x: "extends_chain (table_executor_libs es) (fj_last s) e"
    using assms(3) by (auto simp: extends_chain_def split: option.splits)
  obtain pl where pl: "table_encode 0 e es = Some pl" using table_encode_mem [OF assms(2)] by blast
  show ?thesis
    using assms(1) x
    by (simp add: append_and_flush_def journal_on_fst_def file_journal_ops_def file_append_def file_flush_def
        quiet_journal_def eff_bind_def lock_last_def lock_file_def eff_map_err_def on_disk_def fill_nonce_def
        eff_ask_def eff_do_def write_all_def sync_all_def next_call_def table_executor_fields)
      (simp add: table_libs_def letters_of_letters pl eff_bind_def eff_map_err_def on_disk_def
        fill_nonce_def eff_ask_def eff_do_def write_all_def sync_all_def next_call_def lock_file_def)
qed

definition run_first :: journal_event where
  "run_first = journal_event_new sample_plan_libs 1 0 None ApprovedDurable [4] None 0"
definition run_intent :: journal_event where
  "run_intent = intent_event sample_plan_libs 1 0 0 (je_event_digest run_first) sample_noop [3]"
definition run_observed :: journal_event where
  "run_observed = observed_event sample_plan_libs 1 0 0 (je_event_digest run_first) sample_noop [3]"
definition run_finished :: journal_event where
  "run_finished = journal_event_new sample_plan_libs 1 3 None ExecutionFinished (digest_bytes 16)
     (Some (je_event_digest run_observed)) 0"

abbreviation run_libs :: executor_libs where
  "run_libs \<equiv> table_executor_libs [run_first, run_intent, run_observed, run_finished]"

lemma run_events:
  "journal_event_new (table_executor_libs es) 1 0 None ApprovedDurable [4] None 0 = run_first"
  "intent_event (table_executor_libs es) 1 0 0 (je_event_digest run_first) sample_noop [3] = run_intent"
  "observed_event (table_executor_libs es) 1 0 0 (je_event_digest run_first) sample_noop [3] = run_observed"
  "journal_event_new (table_executor_libs es) 1 3 None ExecutionFinished (digest_bytes 16)
     (Some (je_event_digest run_observed)) 0 = run_finished"
  by (simp_all add: run_first_def run_intent_def run_observed_def run_finished_def intent_event_def
      observed_event_def journal_event_new_def Let_def event_preimage_def table_executor_fields)

lemma run_chain:
  "extends_chain sample_plan_libs Map.empty run_first"
  "extends_chain sample_plan_libs [1 \<mapsto> (0, je_event_digest run_first)] run_intent"
  "extends_chain sample_plan_libs [1 \<mapsto> (1, je_event_digest run_intent)] run_observed"
  "extends_chain sample_plan_libs [1 \<mapsto> (2, je_event_digest run_observed)] run_finished"
  "je_execution_id run_first = 1" "je_execution_id run_intent = 1"
  "je_execution_id run_observed = 1" "je_execution_id run_finished = 1"
  "je_sequence run_first = 0" "je_sequence run_intent = 1"
  "je_sequence run_observed = 2" "je_sequence run_finished = 3"
  by (simp_all add: extends_chain_def run_first_def run_intent_def run_observed_def run_finished_def
      intent_event_def observed_event_def sat_succ64_def)

lemma run_noop:
  assumes "quiet_journal s" and "fj_last s = Map.empty"
    and "verify_integrity sample_plan_libs p = Inr ()" and "plan_steps p = [sample_noop]" and "plan_digest p = 16"
  shows "\<exists>report s'. execute run_libs T sample_gate (journal_on_fst (file_journal_ops run_libs T))
    (fs_on_snd sample_fs) 1 p (receipt_for p) sample_roots 0 (s, ()) = (Inr report, (s', ()))
    \<and> xrep_state report = ExecApplied"
proof -
  let ?J = "journal_on_fst (file_journal_ops run_libs T)"
  let ?es = "[run_first, run_intent, run_observed, run_finished]"
  note step = table_append [where es = ?es and T = T and b = "()"]
  obtain s1 where s1: "append_and_flush ?J run_first (s, ()) = (Inr (), (s1, ()))" "quiet_journal s1"
      "fj_last s1 = [1 \<mapsto> (0, je_event_digest run_first)]"
    using step [OF assms(1), of run_first] by (auto simp: run_chain assms(2))
  obtain s2 where s2: "append_and_flush ?J run_intent (s1, ()) = (Inr (), (s2, ()))" "quiet_journal s2"
      "fj_last s2 = [1 \<mapsto> (1, je_event_digest run_intent)]"
    using step [OF s1(2), of run_intent] by (auto simp: run_chain s1(3))
  obtain s3 where s3: "append_and_flush ?J run_observed (s2, ()) = (Inr (), (s3, ()))" "quiet_journal s3"
      "fj_last s3 = [1 \<mapsto> (2, je_event_digest run_observed)]"
    using step [OF s2(2), of run_observed] by (auto simp: run_chain s2(3))
  obtain s4 where s4: "append_and_flush ?J run_finished (s3, ()) = (Inr (), (s4, ()))"
    using step [OF s3(2), of run_finished] by (auto simp: run_chain s3(3))
  have v: "is_ok (verify_integrity run_libs p)"
    using assms(3) by (simp add: verify_integrity_def table_executor_fields)
  have noop: "execute_step (fs_on_snd sample_fs) sample_roots sample_noop w = (Inr (), w)" for w :: "file_journal \<times> unit"
    by (simp add: execute_step_def sample_noop_def)
  have n: "sat_succ64 (sat_succ64 (sat_succ64 0)) = 3" "sat_succ64 (sat_succ64 0) = 2" "sat_succ64 2 = 3"
    by (simp_all add: sat_succ64_def)
  show ?thesis
    using v
    by (simp add: execute_def sample_gate_def receipt_for_def table_executor_fields assms(4,5) Let_def
        run_events s1(1) s2(1) s3(1) s4 eff_bind_def noop n)
qed

theorem executed_plans_are_recorded_witness:
  "\<exists>p report s'. execute run_libs sample_texts sample_gate
       (journal_on_fst (file_journal_ops run_libs sample_texts)) (fs_on_snd sample_fs) 1 p (receipt_for p)
       sample_roots 0 (sample_journal, ()) = (Inr report, (s', ()))
     \<and> xrep_applied_steps report = [step_uid sample_noop]
     \<and> 1 \<notin> set (pending_ids (fj_log run_libs sample_texts s'))"
proof -
  obtain p where p: "seal sample_plan_libs sample_draft 3 = Inr p" "plan_digest p = 16"
      "plan_steps p = [sample_noop]"
    using sample_sealed by blast
  have v: "verify_integrity sample_plan_libs p = Inr ()" using p(1) by (rule sealed_plan_verifies)
  have "quiet_journal sample_journal" "fj_last sample_journal = Map.empty"
    by (simp_all add: quiet_journal_def sample_journal_def sample_disk_def)
  from run_noop [OF this v p(3,2), of sample_texts] obtain report s' where
      run: "execute run_libs sample_texts sample_gate (journal_on_fst (file_journal_ops run_libs sample_texts))
        (fs_on_snd sample_fs) 1 p (receipt_for p) sample_roots 0 (sample_journal, ()) = (Inr report, (s', ()))"
    and st: "xrep_state report = ExecApplied" by blast
  have "codec_ok (table_libs [run_first, run_intent, run_observed, run_finished])"
    by (rule table_codec_ok) simp
  then have "codec_ok run_libs" by (simp add: codec_ok_def table_executor_fields)
  then have inv: "fj_inv run_libs sample_texts (fst (sample_journal, ()))"
    by (auto simp: fj_inv_def sample_journal_def newline_terminated_def read_events_of_def heads_of_def)
  have empty: "of_execution 1 (fj_log run_libs sample_texts (fst (sample_journal, ()))) = []"
    by (simp add: fj_log_def sample_journal_def read_events_of_def)
  from executed_plans_are_recorded [OF inv empty run] st p(3)
  have "xrep_applied_steps report = [step_uid sample_noop]
      \<and> 1 \<notin> set (pending_ids (fj_log run_libs sample_texts s'))" by auto
  with run show ?thesis by blast
qed

text \<open>Only a qualified host can mutate. The gate of the in-process host is closed, the
  environment opens it only on Windows and with the exact phrase; and with a closed gate, a plan
  that fails its integrity check or an approval of another digest, \<^verbatim>\<open>execute\<close> fails and leaves
  the journal and the file system as they were.\<close>

lemma closed_gates_change_nothing:
  assumes "\<not> gate_enabled gate \<or> \<not> is_ok (verify_integrity L plan)
    \<or> appr_plan_digest approval \<noteq> plan_digest plan"
  shows "\<exists>e. execute L T gate J F x plan approval roots now w = (Inl e, w)
    \<and> \<not> gate_enabled gate_for_in_process_host
    \<and> (gate_enabled (gate_from_environment c) \<longleftrightarrow>
         cfg_windows c \<and> env_enable_apply c = Some (lit ''I_UNDERSTAND_THE_RISK''))
    \<and> (gate_enabled (gate_for_approved_execution_host c) \<longleftrightarrow>
         cfg_macos c \<or> cfg_windows c \<and> cfg_windows_apply_qualified c)"
  using assms
  by (auto simp: execute_def gate_for_in_process_host_def gate_from_environment_def
      gate_for_approved_execution_host_def Let_def)

theorem closed_gates_change_nothing_witness:
  "\<exists>p e. execute sample_executor_libs sample_texts gate_for_in_process_host memory_journal_ops sample_fs 1 p
     (receipt_for p) sample_roots 0 sample_memory = (Inl e, sample_memory)"
proof -
  obtain p :: sealed_plan where True by simp
  have g: "\<not> gate_enabled gate_for_in_process_host \<or> \<not> is_ok (verify_integrity sample_executor_libs p)
      \<or> appr_plan_digest (receipt_for p) \<noteq> plan_digest p"
    by (simp add: gate_for_in_process_host_def)
  show ?thesis
    using closed_gates_change_nothing [OF g, where T = sample_texts and J = memory_journal_ops
        and F = sample_fs and x = 1 and roots = sample_roots and now = 0 and w = sample_memory]
    by blast
qed

end
