(* ===== verification/Executor_Messages.thy ===== *)
theory Executor_Messages
  imports Stored_Names Rust_Path
begin

text \<open>
  The messages of executor protocol v2 (\<^verbatim>\<open>crates/ipc-contracts/src/executor_v2/model.rs\<close>): the
  manifests a coordinator freezes into an execution envelope, their validators, the builders
  that turn a stored execution into an envelope or a consent binding, and the authorisations
  and outcomes exchanged with the isolated executor. \<^verbatim>\<open>FixedBytes32\<close> is a \<open>digest\<close> and
  \<^verbatim>\<open>HexBytes\<close> a byte list that \<open>hex_bytes_new\<close> bounds. The UUID parser is a parameter.
\<close>

section \<open>Bounds and errors\<close>

definition EXECUTOR_PROTOCOL_VERSION :: u16 where "EXECUTOR_PROTOCOL_VERSION = 2"
definition EXECUTOR_SCHEMA_VERSION :: u16 where "EXECUTOR_SCHEMA_VERSION = 2"
definition MAX_MANIFESTS :: nat where "MAX_MANIFESTS = 100000"
definition MAX_FRAME_BYTES :: nat where "MAX_FRAME_BYTES = 128 * 1024 * 1024"
definition MAX_RELATIVE_PATH_BYTES :: nat where "MAX_RELATIVE_PATH_BYTES = 4096"
definition MAX_NATIVE_PATH_BYTES :: nat where "MAX_NATIVE_PATH_BYTES = 65536"
definition MAX_IDENTITY_BYTES :: nat where "MAX_IDENTITY_BYTES = 4096"
definition MAX_TEXT_BYTES :: nat where "MAX_TEXT_BYTES = 2048"
definition MAX_ID_BYTES :: nat where "MAX_ID_BYTES = 128"
definition MAX_CLOCK_SKEW_MS :: int where "MAX_CLOCK_SKEW_MS = 30000"
definition MAX_SESSION_LIFETIME_MS :: int where "MAX_SESSION_LIFETIME_MS = 15 * 60 * 1000"
definition MAX_MESSAGE_LIFETIME_MS :: int where "MAX_MESSAGE_LIFETIME_MS = 30000"

datatype validation_error =
    ValUnsupportedSchema | ValBoundExceeded ustring | ValInvalidField ustring
  | ValDuplicateOrUnordered ustring | ValInvalidHex

text \<open>\<^verbatim>\<open>Uuid::parse_str\<close>\<close>

record protocol_libs = libs +
  parse_uuid :: "ustring \<Rightarrow> uuid option"

text \<open>\<^verbatim>\<open>id.to_string()\<close>\<close>

definition id_string :: "'a libs_scheme \<Rightarrow> uuid \<Rightarrow> ustring" where
  "id_string L u = map unat (uuid_text L u)"

text \<open>\<^verbatim>\<open>value.len()\<close> counts bytes.\<close>

abbreviation byte_length :: "ustring \<Rightarrow> nat" where
  "byte_length s \<equiv> length (utf8_bytes s)"

section \<open>Text validators\<close>

definition validate_string :: "ustring \<Rightarrow> nat \<Rightarrow> ustring \<Rightarrow> validation_error + unit" where
  "validate_string value maximum label =
     (if value = [] \<or> byte_length value > maximum \<or> 0 \<in> set value
      then Inl (ValInvalidField label) else Inr ())"

definition validate_domain_id ::
  "'a protocol_libs_scheme \<Rightarrow> ustring \<Rightarrow> ustring \<Rightarrow> validation_error + uuid" where
  "validate_domain_id L value label =
     try_bind (validate_string value MAX_ID_BYTES label) (\<lambda>_.
       ok_or (parse_uuid L value) (ValInvalidField label))"

definition is_separator :: "uchar \<Rightarrow> bool" where
  "is_separator c \<longleftrightarrow> c = 47 \<or> c = 92"

text \<open>\<^verbatim>\<open>value.split(['/', '\\'])\<close>\<close>

fun split_separators :: "ustring \<Rightarrow> ustring list" where
  "split_separators [] = [[]]"
| "split_separators (c # s) =
     (if is_separator c then [] # split_separators s
      else (case split_separators s of [] \<Rightarrow> [[c]] | t # ts \<Rightarrow> (c # t) # ts))"

definition is_windows_device_component :: "ustring \<Rightarrow> bool" where
  "is_windows_device_component component =
     (let stem = to_ascii_uppercase (trim_end_by (\<lambda>c. c = 32 \<or> c = 46) (first_split 46 component))
      in stem \<in> {lit ''CON'', lit ''PRN'', lit ''AUX'', lit ''NUL''}
         \<or> (case (case strip_prefix (lit ''COM'') stem of
                    None \<Rightarrow> strip_prefix (lit ''LPT'') stem | Some s \<Rightarrow> Some s) of
              None \<Rightarrow> False
            | Some suffix \<Rightarrow>
                byte_length suffix = 1
                \<and> (case utf8_bytes suffix of [] \<Rightarrow> False | digit # _ \<Rightarrow> 49 \<le> digit \<and> digit \<le> 57)))"

definition bad_component :: "ustring \<Rightarrow> bool" where
  "bad_component component \<longleftrightarrow>
     component = [] \<or> component = [46] \<or> component = [46, 46] \<or> ends_with_any [32, 46] component
     \<or> is_windows_device_component component"

definition validate_relative_path :: "ustring \<Rightarrow> validation_error + unit" where
  "validate_relative_path value =
     try_bind (validate_string value MAX_RELATIVE_PATH_BYTES (lit ''relative path'')) (\<lambda>_.
       if (value \<noteq> [] \<and> is_separator (hd value)) \<or> (value \<noteq> [] \<and> is_separator (last value))
          \<or> 58 \<in> set value \<or> list_ex bad_component (split_separators value)
       then Inl (ValInvalidField (lit ''relative path'')) else Inr ())"

definition validate_code_and_detail :: "ustring \<Rightarrow> ustring \<Rightarrow> validation_error + unit" where
  "validate_code_and_detail code detail =
     try_bind (validate_string code 128 (lit ''response code'')) (\<lambda>_.
       if \<not> list_all (\<lambda>b. (97 \<le> b \<and> b \<le> 122) \<or> (48 \<le> b \<and> b \<le> 57) \<or> b = 95) (utf8_bytes code)
       then Inl (ValInvalidField (lit ''response code''))
       else validate_string detail MAX_TEXT_BYTES (lit ''response detail''))"

section \<open>Hexadecimal bytes\<close>

definition fixed_is_zero :: "digest \<Rightarrow> bool" where
  "fixed_is_zero d \<longleftrightarrow> list_all (\<lambda>b. b = 0) (digest_bytes d)"

definition encode_hex :: "byte list \<Rightarrow> ustring" where
  "encode_hex bs = concat (map hex_byte bs)"

definition is_hex_byte :: "byte \<Rightarrow> bool" where
  "is_hex_byte b \<longleftrightarrow> (48 \<le> b \<and> b \<le> 57) \<or> (97 \<le> b \<and> b \<le> 102)"

text \<open>
  The bytes have all been checked when the pairs are cut, so every cut falls on a character
  boundary and \<^verbatim>\<open>u8::from_str_radix\<close> reads two digits.
\<close>

fun decode_pairs :: "byte list \<Rightarrow> validation_error + byte list" where
  "decode_pairs (a # b # bs) =
     try_bind (ok_or (from_str_radix_pair (unat a) (unat b)) ValInvalidHex) (\<lambda>x.
     try_bind (decode_pairs bs) (\<lambda>xs. Inr (x # xs)))"
| "decode_pairs _ = Inr []"

definition decode_hex :: "ustring \<Rightarrow> validation_error + byte list" where
  "decode_hex value =
     (if byte_length value mod 2 \<noteq> 0 \<or> list_ex (\<lambda>b. \<not> is_hex_byte b) (utf8_bytes value)
      then Inl ValInvalidHex else decode_pairs (utf8_bytes value))"

definition decode_fixed_hex :: "ustring \<Rightarrow> validation_error + digest" where
  "decode_fixed_hex value =
     (if byte_length value \<noteq> 64 then Inl ValInvalidHex
      else try_bind (decode_hex value) (\<lambda>decoded. Inr (digest_from_bytes decoded)))"

definition fixed_to_hex :: "digest \<Rightarrow> ustring" where
  "fixed_to_hex d = encode_hex (digest_bytes d)"

definition hex_bytes_new :: "byte list \<Rightarrow> validation_error + byte list" where
  "hex_bytes_new bytes =
     (if length bytes > MAX_NATIVE_PATH_BYTES then Inl (ValBoundExceeded (lit ''hex bytes''))
      else Inr bytes)"

datatype hex_deserialize_error = HexTextTooLong | HexTextInvalid validation_error

definition hex_bytes_deserialize :: "ustring \<Rightarrow> hex_deserialize_error + byte list" where
  "hex_bytes_deserialize value =
     (if byte_length value > MAX_NATIVE_PATH_BYTES * 2 then Inl HexTextTooLong
      else map_err HexTextInvalid (try_bind (decode_hex value) hex_bytes_new))"

section \<open>Manifests\<close>

record native_path_manifest =
  npm_encoding :: path_encoding
  npm_bytes :: "byte list"

definition native_path_validate :: "native_path_manifest \<Rightarrow> ustring \<Rightarrow> validation_error + unit" where
  "native_path_validate p label =
     (if npm_bytes p = [] \<or> length (npm_bytes p) > MAX_NATIVE_PATH_BYTES then Inl (ValInvalidField label)
      else if npm_encoding p = WindowsUtf16Le \<and> length (npm_bytes p) mod 2 \<noteq> 0
      then Inl (ValInvalidField label) else Inr ())"

record volume_manifest =
  vm_platform :: platform_kind
  vm_stable_identifier :: ustring
  vm_filesystem_type :: "ustring option"
  vm_case_sensitive :: bool
  vm_removable :: bool
  vm_local :: bool

definition volume_validate :: "volume_manifest \<Rightarrow> validation_error + unit" where
  "volume_validate v =
     try_bind (validate_string (vm_stable_identifier v) MAX_TEXT_BYTES
                 (lit ''volume stable identifier'')) (\<lambda>_.
     try_bind (case vm_filesystem_type v of
                 None \<Rightarrow> Inr () | Some t \<Rightarrow> validate_string t 128 (lit ''filesystem type'')) (\<lambda>_.
       if \<not> vm_local v \<or> vm_removable v then Inl (ValInvalidField (lit ''root volume eligibility''))
       else Inr ()))"

record root_binding_manifest =
  rbm_canonical_path :: native_path_manifest
  rbm_display_path :: ustring
  rbm_volume :: volume_manifest

definition root_binding_validate :: "root_binding_manifest \<Rightarrow> validation_error + unit" where
  "root_binding_validate r =
     try_bind (native_path_validate (rbm_canonical_path r) (lit ''canonical root'')) (\<lambda>_.
     try_bind (validate_string (rbm_display_path r) MAX_NATIVE_PATH_BYTES
                 (lit ''root display path'')) (\<lambda>_.
       volume_validate (rbm_volume r)))"

record safety_policy_manifest =
  spm_version :: ustring
  spm_maximum_rehash_bytes :: u64
  spm_allow_qualified_case_only_rename :: bool
  spm_digest :: digest

definition safety_policy_validate :: "safety_policy_manifest \<Rightarrow> validation_error + unit" where
  "safety_policy_validate p =
     try_bind (validate_string (spm_version p) MAX_TEXT_BYTES (lit ''safety policy version'')) (\<lambda>_.
       if spm_version p \<noteq> EXECUTION_SAFETY_POLICY_VERSION \<or> spm_maximum_rehash_bytes p = 0
          \<or> spm_maximum_rehash_bytes p > MAX_EXECUTION_VERIFICATION_BYTES
       then Inl (ValInvalidField (lit ''safety policy binding'')) else Inr ())"

record file_identity_manifest =
  fim_volume :: volume_manifest
  fim_object_key :: "byte list"
  fim_parent_key :: "byte list"
  fim_leaf_name :: native_path_manifest
  fim_link_count :: u32
  fim_reparse_tag :: "u32 option"

definition file_identity_validate ::
  "file_identity_manifest \<Rightarrow> volume_manifest \<Rightarrow> validation_error + unit" where
  "file_identity_validate f root_volume =
     try_bind (volume_validate (fim_volume f)) (\<lambda>_.
       if fim_volume f \<noteq> root_volume \<or> fim_object_key f = []
          \<or> length (fim_object_key f) > MAX_IDENTITY_BYTES
          \<or> length (fim_parent_key f) > MAX_IDENTITY_BYTES
          \<or> fim_link_count f \<noteq> 1 \<or> fim_reparse_tag f \<noteq> None
       then Inl (ValInvalidField (lit ''expected native identity''))
       else native_path_validate (fim_leaf_name f) (lit ''expected native leaf name''))"

record expected_state_manifest =
  esm_native_identity :: file_identity_manifest
  esm_byte_size :: u64
  esm_modified_at_ns :: "int option"
  esm_attributes :: u64
  esm_content_digest :: digest

text \<open>The fields the four same-volume variants share.\<close>

record file_move_manifest =
  mv_source_relative_path :: ustring
  mv_destination_relative_path :: ustring
  mv_original_source_relative_path :: ustring
  mv_expected_source :: expected_state_manifest

datatype operation_primitive =
    PrimCreateDirectory ustring
  | PrimRemoveDirectoryIfEmpty ustring
  | PrimSameVolumeMove file_move_manifest
  | PrimSameVolumeRename file_move_manifest
  | PrimSameVolumeMoveAndRename file_move_manifest
  | PrimInternalStage file_move_manifest

definition staging_prefix :: ustring where
  "staging_prefix = lit ''.supremacy-staging/''"

definition file_move_validate ::
  "bool \<Rightarrow> file_move_manifest \<Rightarrow> volume_manifest \<Rightarrow> validation_error + unit" where
  "file_move_validate staging m root_volume =
     try_bind (validate_relative_path (mv_source_relative_path m)) (\<lambda>_.
     try_bind (validate_relative_path (mv_destination_relative_path m)) (\<lambda>_.
     try_bind (validate_relative_path (mv_original_source_relative_path m)) (\<lambda>_.
       if mv_source_relative_path m = mv_destination_relative_path m
       then Inl (ValInvalidField (lit ''operation source and destination''))
       else if staging \<and> \<not> starts_with staging_prefix (mv_destination_relative_path m)
       then Inl (ValInvalidField (lit ''internal staging destination''))
       else file_identity_validate (esm_native_identity (mv_expected_source m)) root_volume)))"

fun primitive_validate :: "operation_primitive \<Rightarrow> volume_manifest \<Rightarrow> validation_error + unit" where
  "primitive_validate (PrimCreateDirectory d) v = validate_relative_path d"
| "primitive_validate (PrimRemoveDirectoryIfEmpty s) v = validate_relative_path s"
| "primitive_validate (PrimSameVolumeMove m) v = file_move_validate False m v"
| "primitive_validate (PrimSameVolumeRename m) v = file_move_validate False m v"
| "primitive_validate (PrimSameVolumeMoveAndRename m) v = file_move_validate False m v"
| "primitive_validate (PrimInternalStage m) v = file_move_validate True m v"

record approved_operation =
  ao_operation_id :: ustring
  ao_proposal_operation_id :: "ustring option"
  ao_sequence :: u32
  ao_dependencies :: "ustring list"
  ao_primitive :: operation_primitive

record frozen_plan =
  fpl_material_version :: u32
  fpl_plan_id :: ustring
  fpl_proposal_id :: ustring
  fpl_proposal_revision_id :: ustring
  fpl_proposal_revision :: u32
  fpl_source_snapshot_version :: ustring
  fpl_approved_operation_ids :: "ustring list"
  fpl_operation_count :: u64
  fpl_approval_timestamp :: ustring
  fpl_user_confirmed :: bool
  fpl_digest :: digest

record attested_consent =
  acm_issued_at_unix_ms :: int
  acm_expires_at_unix_ms :: int
  acm_attested_at_unix_ms :: int
  acm_consent_nonce :: digest
  acm_attestation_mac :: digest

definition attested_consent_validate :: "attested_consent \<Rightarrow> validation_error + unit" where
  "attested_consent_validate c =
     (if acm_issued_at_unix_ms c < 0 \<or> acm_attested_at_unix_ms c < acm_issued_at_unix_ms c
         \<or> acm_expires_at_unix_ms c \<le> acm_attested_at_unix_ms c
      then Inl (ValInvalidField (lit ''consent time range'')) else Inr ())"

record consent_binding =
  cb_material_version :: u32
  cb_plan_digest :: digest
  cb_execution_id :: ustring
  cb_plan_id :: ustring
  cb_proposal_id :: ustring
  cb_proposal_revision_id :: ustring
  cb_proposal_revision :: u32
  cb_approved_operation_ids :: "ustring list"
  cb_approved_operation_count :: u64
  cb_source_snapshot_version :: ustring
  cb_root_id :: ustring
  cb_destination_root :: root_binding_manifest
  cb_safety_policy :: safety_policy_manifest
  cb_consent_nonce :: digest
  cb_issued_at_unix_ms :: int
  cb_expires_at_unix_ms :: int

record execution_envelope =
  env_schema_version :: u16
  env_execution_id :: ustring
  env_root_id :: ustring
  env_plan :: frozen_plan
  env_root_binding :: root_binding_manifest
  env_safety_policy :: safety_policy_manifest
  env_consent :: attested_consent
  env_operations :: "approved_operation list"

section \<open>Validation of a consent binding and of an envelope\<close>

text \<open>
  The loop over the approved ids: each parses, is greater than the one before and has not been
  seen. It is the same loop in both validators.
\<close>

fun validate_approved_ids ::
  "'a protocol_libs_scheme \<Rightarrow> uuid option \<Rightarrow> ustring set \<Rightarrow> ustring list
    \<Rightarrow> validation_error + ustring set" where
  "validate_approved_ids L previous seen [] = Inr seen"
| "validate_approved_ids L previous seen (x # xs) =
     try_bind (validate_domain_id L x (lit ''approved operation id'')) (\<lambda>parsed.
       if (case previous of None \<Rightarrow> False | Some p \<Rightarrow> p \<ge> parsed) \<or> x \<in> seen
       then Inl (ValDuplicateOrUnordered (lit ''approved operation ids''))
       else validate_approved_ids L (Some parsed) (insert x seen) xs)"

definition consent_binding_validate ::
  "'a protocol_libs_scheme \<Rightarrow> consent_binding \<Rightarrow> validation_error + unit" where
  "consent_binding_validate L b =
     try_bind (validate_domain_id L (cb_execution_id b) (lit ''execution id'')) (\<lambda>_.
     try_bind (validate_domain_id L (cb_plan_id b) (lit ''plan id'')) (\<lambda>_.
     try_bind (validate_domain_id L (cb_proposal_id b) (lit ''proposal id'')) (\<lambda>_.
     try_bind (validate_domain_id L (cb_proposal_revision_id b) (lit ''proposal revision id'')) (\<lambda>_.
     try_bind (validate_domain_id L (cb_source_snapshot_version b) (lit ''source snapshot version'')) (\<lambda>_.
     try_bind (validate_domain_id L (cb_root_id b) (lit ''root id'')) (\<lambda>_.
     if cb_material_version b \<noteq> EXECUTION_PLAN_MATERIAL_VERSION
        \<or> fixed_is_zero (cb_plan_digest b) \<or> fixed_is_zero (cb_consent_nonce b)
        \<or> cb_issued_at_unix_ms b < 0 \<or> cb_expires_at_unix_ms b \<le> cb_issued_at_unix_ms b
        \<or> cb_approved_operation_ids b = []
        \<or> length (cb_approved_operation_ids b) > MAX_MANIFESTS
        \<or> unat (cb_approved_operation_count b) \<noteq> length (cb_approved_operation_ids b)
     then Inl (ValInvalidField (lit ''consent attestation binding''))
     else
       try_bind (validate_approved_ids L None {} (cb_approved_operation_ids b)) (\<lambda>_.
       try_bind (root_binding_validate (cb_destination_root b)) (\<lambda>_.
       try_bind (safety_policy_validate (cb_safety_policy b)) (\<lambda>_.
         if fixed_is_zero (spm_digest (cb_safety_policy b))
         then Inl (ValInvalidField (lit ''safety policy digest'')) else Inr ())))))))))"

text \<open>The inner loop over the dependencies of one operation.\<close>

fun validate_dependencies ::
  "'a protocol_libs_scheme \<Rightarrow> ustring set \<Rightarrow> ustring set \<Rightarrow> ustring list \<Rightarrow> validation_error + unit" where
  "validate_dependencies L operation_ids seen [] = Inr ()"
| "validate_dependencies L operation_ids seen (d # ds) =
     try_bind (validate_domain_id L d (lit ''dependency id'')) (\<lambda>_.
       if d \<notin> operation_ids \<or> d \<in> seen then Inl (ValInvalidField (lit ''operation dependency''))
       else validate_dependencies L operation_ids (insert d seen) ds)"

text \<open>
  The operation's proposal id, when it has one, must be approved; its use is counted in
  \<^verbatim>\<open>observed_approved\<close>.
\<close>

definition observe_proposal ::
  "'a protocol_libs_scheme \<Rightarrow> ustring set \<Rightarrow> ustring option \<Rightarrow> (ustring \<Rightarrow> nat option)
    \<Rightarrow> validation_error + (ustring \<Rightarrow> nat option)" where
  "observe_proposal L approved proposal observed =
     (case proposal of
        None \<Rightarrow> Inr observed
      | Some p \<Rightarrow>
          try_bind (validate_domain_id L p (lit ''proposal operation id'')) (\<lambda>_.
            if p \<notin> approved then Inl (ValInvalidField (lit ''operation outside approved set''))
            else Inr (observed(p \<mapsto> (case observed p of None \<Rightarrow> 0 | Some n \<Rightarrow> n) + 1))))"

definition proposal_binding_check :: "approved_operation \<Rightarrow> validation_error + unit" where
  "proposal_binding_check operation =
     (let bound = (ao_proposal_operation_id operation \<noteq> None);
          internal = (if bound then Inl (ValInvalidField (lit ''internal operation proposal binding''))
                      else Inr ());
          approved = (if bound then Inr ()
                      else Inl (ValInvalidField (lit ''approved operation proposal binding'')))
      in case ao_primitive operation of
           PrimCreateDirectory _ \<Rightarrow> internal
         | PrimInternalStage _ \<Rightarrow> internal
         | PrimSameVolumeMove _ \<Rightarrow> approved
         | PrimSameVolumeRename _ \<Rightarrow> approved
         | PrimSameVolumeMoveAndRename _ \<Rightarrow> approved
         | PrimRemoveDirectoryIfEmpty _ \<Rightarrow> Inr ())"

fun validate_operations ::
  "'a protocol_libs_scheme \<Rightarrow> volume_manifest \<Rightarrow> ustring set \<Rightarrow> nat \<Rightarrow> ustring set
    \<Rightarrow> (ustring \<Rightarrow> nat option) \<Rightarrow> approved_operation list
    \<Rightarrow> validation_error + (ustring \<Rightarrow> nat option)" where
  "validate_operations L v approved index ids observed [] = Inr observed"
| "validate_operations L v approved index ids observed (operation # rest) =
     try_bind (validate_domain_id L (ao_operation_id operation) (lit ''operation id'')) (\<lambda>_.
     if index \<ge> 2 ^ 32 then Inl (ValBoundExceeded (lit ''operation sequence''))
     else if ao_sequence operation \<noteq> of_nat index \<or> ao_operation_id operation \<in> ids
     then Inl (ValDuplicateOrUnordered (lit ''operation manifests''))
     else if length (ao_dependencies operation) > MAX_MANIFESTS
     then Inl (ValBoundExceeded (lit ''operation dependencies''))
     else
       (let ids' = insert (ao_operation_id operation) ids in
        try_bind (validate_dependencies L ids' {} (ao_dependencies operation)) (\<lambda>_.
        try_bind (observe_proposal L approved (ao_proposal_operation_id operation) observed) (\<lambda>observed'.
        try_bind (primitive_validate (ao_primitive operation) v) (\<lambda>_.
        try_bind (proposal_binding_check operation) (\<lambda>_.
          validate_operations L v approved (Suc index) ids' observed' rest))))))"

definition envelope_validate ::
  "'a protocol_libs_scheme \<Rightarrow> execution_envelope \<Rightarrow> validation_error + unit" where
  "envelope_validate L e =
     (let plan = env_plan e in
     if env_schema_version e \<noteq> EXECUTOR_SCHEMA_VERSION then Inl ValUnsupportedSchema
     else
     try_bind (validate_domain_id L (env_execution_id e) (lit ''execution id'')) (\<lambda>_.
     try_bind (validate_domain_id L (env_root_id e) (lit ''root id'')) (\<lambda>_.
     try_bind (validate_domain_id L (fpl_plan_id plan) (lit ''plan id'')) (\<lambda>_.
     try_bind (validate_domain_id L (fpl_proposal_id plan) (lit ''proposal id'')) (\<lambda>_.
     try_bind (validate_domain_id L (fpl_proposal_revision_id plan) (lit ''proposal revision id'')) (\<lambda>_.
     try_bind (validate_domain_id L (fpl_source_snapshot_version plan) (lit ''source snapshot version'')) (\<lambda>_.
     if fpl_material_version plan \<noteq> EXECUTION_PLAN_MATERIAL_VERSION \<or> \<not> fpl_user_confirmed plan
        \<or> fixed_is_zero (fpl_digest plan)
     then Inl (ValInvalidField (lit ''approved plan state''))
     else
     try_bind (validate_string (fpl_approval_timestamp plan) MAX_TEXT_BYTES
                 (lit ''approval timestamp'')) (\<lambda>_.
     if fpl_approved_operation_ids plan = []
        \<or> length (fpl_approved_operation_ids plan) > MAX_MANIFESTS
        \<or> env_operations e = [] \<or> length (env_operations e) > MAX_MANIFESTS
        \<or> unat (fpl_operation_count plan) \<noteq> length (fpl_approved_operation_ids plan)
     then Inl (ValBoundExceeded (lit ''operation manifests''))
     else
     try_bind (validate_approved_ids L None {} (fpl_approved_operation_ids plan)) (\<lambda>approved.
     try_bind (root_binding_validate (env_root_binding e)) (\<lambda>_.
     try_bind (safety_policy_validate (env_safety_policy e)) (\<lambda>_.
     if fixed_is_zero (spm_digest (env_safety_policy e))
     then Inl (ValInvalidField (lit ''safety policy digest''))
     else
     try_bind (attested_consent_validate (env_consent e)) (\<lambda>_.
     try_bind (validate_operations L (rbm_volume (env_root_binding e)) approved 0 {} (\<lambda>_. None)
                 (env_operations e)) (\<lambda>observed.
     if \<exists>i \<in> approved. observed i \<noteq> Some 1
     then Inl (ValInvalidField (lit ''exact approved operation set''))
     else Inr ())))))))))))))"

definition envelope_operation :: "execution_envelope \<Rightarrow> ustring \<Rightarrow> approved_operation option" where
  "envelope_operation e operation_id =
     find (\<lambda>operation. ao_operation_id operation = operation_id) (env_operations e)"

section \<open>From the stored execution\<close>

datatype envelope_purpose = PurposeForward | PurposeRollback

definition native_path_from_live :: "native_path \<Rightarrow> validation_error + native_path_manifest" where
  "native_path_from_live p =
     try_bind (hex_bytes_new (np_bytes p)) (\<lambda>bytes.
       Inr \<lparr>npm_encoding = np_encoding p, npm_bytes = bytes\<rparr>)"

definition volume_from_live :: "volume_identity \<Rightarrow> volume_manifest" where
  "volume_from_live v =
     \<lparr>vm_platform = vol_platform v, vm_stable_identifier = vol_stable_identifier v,
      vm_filesystem_type = vol_filesystem_type v, vm_case_sensitive = vol_case_sensitive v,
      vm_removable = vol_removable v, vm_local = vol_local v\<rparr>"

definition root_from_live :: "execution_root_binding \<Rightarrow> validation_error + root_binding_manifest" where
  "root_from_live r =
     try_bind (native_path_from_live (xrb_canonical_path r)) (\<lambda>canonical.
       Inr \<lparr>rbm_canonical_path = canonical, rbm_display_path = xrb_display_path r,
            rbm_volume = volume_from_live (xrb_volume r)\<rparr>)"

definition policy_from_live ::
  "execution_safety_policy_binding \<Rightarrow> validation_error + safety_policy_manifest" where
  "policy_from_live p =
     try_bind (decode_fixed_hex (xsp_digest_hex p)) (\<lambda>digest.
       Inr \<lparr>spm_version = xsp_version p, spm_maximum_rehash_bytes = xsp_maximum_rehash_bytes p,
            spm_allow_qualified_case_only_rename = xsp_allow_qualified_case_only_rename p,
            spm_digest = digest\<rparr>)"

text \<open>\<^verbatim>\<open>i128\<close> to \<^verbatim>\<open>i64\<close> fails outside the range.\<close>

definition expected_state_from_live ::
  "file_fingerprint \<Rightarrow> validation_error + expected_state_manifest" where
  "expected_state_from_live f =
     (let identity = fp_native_identity f in
     try_bind (case fp_modified_at_ns f of
                 None \<Rightarrow> Inr None
               | Some t \<Rightarrow> if i64_min \<le> t \<and> t \<le> i64_max then Inr (Some t)
                           else Inl (ValInvalidField (lit ''modified timestamp''))) (\<lambda>modified.
     try_bind (hex_bytes_new (nid_object_key identity)) (\<lambda>object_key.
     try_bind (hex_bytes_new (nid_parent_key identity)) (\<lambda>parent_key.
     try_bind (native_path_from_live (nid_leaf_name identity)) (\<lambda>leaf_name.
     try_bind (ok_or (fp_content_digest f) (ValInvalidField (lit ''content digest''))) (\<lambda>content_digest.
       Inr \<lparr>esm_native_identity =
              \<lparr>fim_volume = volume_from_live (nid_volume identity), fim_object_key = object_key,
               fim_parent_key = parent_key, fim_leaf_name = leaf_name,
               fim_link_count = nid_link_count identity, fim_reparse_tag = nid_reparse_tag identity\<rparr>,
            esm_byte_size = fp_byte_size f, esm_modified_at_ns = modified,
            esm_attributes = fp_attributes f, esm_content_digest = content_digest\<rparr>))))))"

definition consent_from_live ::
  "execution_consent \<Rightarrow> envelope_purpose \<Rightarrow> validation_error + attested_consent" where
  "consent_from_live c purpose =
     (let state_valid =
        (case purpose of
           PurposeForward \<Rightarrow> xc_state c = Consent_Attested \<and> xc_consumed_at_unix_ms c = None
         | PurposeRollback \<Rightarrow> xc_state c \<in> {Consent_Attested, Consent_Consumed, Consent_Expired})
     in if \<not> state_valid \<or> xc_invalidated_at_unix_ms c \<noteq> None \<or> xc_invalidation_reason c \<noteq> None
     then Inl (ValInvalidField (lit ''attested consent state''))
     else
     try_bind (ok_or (xc_issued_at_unix_ms c) (ValInvalidField (lit ''consent issue time''))) (\<lambda>issued.
     try_bind (ok_or (xc_expires_at_unix_ms c) (ValInvalidField (lit ''consent expiry''))) (\<lambda>expires.
     try_bind (ok_or (xc_attested_at_unix_ms c) (ValInvalidField (lit ''consent attestation time''))) (\<lambda>attested.
     try_bind (ok_or (xc_nonce c) (ValInvalidField (lit ''consent nonce''))) (\<lambda>nonce.
     try_bind (ok_or (xc_attestation_mac c) (ValInvalidField (lit ''consent attestation MAC''))) (\<lambda>mac.
       Inr \<lparr>acm_issued_at_unix_ms = issued, acm_expires_at_unix_ms = expires,
            acm_attested_at_unix_ms = attested, acm_consent_nonce = nonce,
            acm_attestation_mac = mac\<rparr>))))))"

text \<open>The source, original source and expected state of a file operation.\<close>

definition file_move_from_live ::
  "execution_operation \<Rightarrow> envelope_purpose \<Rightarrow> validation_error + file_move_manifest" where
  "file_move_from_live operation purpose =
     try_bind (ok_or (xop_source_relative_path operation)
                 (ValInvalidField (lit ''operation source''))) (\<lambda>source.
     try_bind (ok_or (xop_original_source_relative_path operation)
                 (ValInvalidField (lit ''original operation source''))) (\<lambda>original.
     try_bind (ok_or (case purpose of
                        PurposeForward \<Rightarrow> xop_live_fingerprint operation
                      | PurposeRollback \<Rightarrow>
                          (case xop_post_fingerprint operation of
                             None \<Rightarrow> xop_live_fingerprint operation | Some f \<Rightarrow> Some f))
                 (ValInvalidField (lit ''direction-bound source fingerprint''))) (\<lambda>fingerprint.
     try_bind (expected_state_from_live fingerprint) (\<lambda>expected.
       Inr \<lparr>mv_source_relative_path = source,
            mv_destination_relative_path = xop_destination_relative_path operation,
            mv_original_source_relative_path = original, mv_expected_source = expected\<rparr>))))"

definition primitive_from_live ::
  "execution_operation \<Rightarrow> envelope_purpose \<Rightarrow> validation_error + operation_primitive" where
  "primitive_from_live operation purpose =
     (case xop_kind operation of
        Xk_CreateDirectory \<Rightarrow>
          (if xop_source_relative_path operation \<noteq> None \<or> xop_live_fingerprint operation \<noteq> None
              \<or> xop_directory_existed_before operation \<noteq> Some False
           then Inl (ValInvalidField (lit ''create-directory manifest''))
           else Inr (PrimCreateDirectory (xop_destination_relative_path operation)))
      | Xk_RemoveDirectoryIfEmpty \<Rightarrow>
          try_bind (ok_or (xop_source_relative_path operation)
                      (ValInvalidField (lit ''cleanup source directory''))) (\<lambda>source.
            if xop_live_fingerprint operation \<noteq> None
               \<or> xop_directory_existed_before operation \<noteq> Some True
            then Inl (ValInvalidField (lit ''remove-empty-directory manifest''))
            else Inr (PrimRemoveDirectoryIfEmpty source))
      | Xk_Move \<Rightarrow> try_bind (file_move_from_live operation purpose) (\<lambda>m. Inr (PrimSameVolumeMove m))
      | Xk_Rename \<Rightarrow> try_bind (file_move_from_live operation purpose) (\<lambda>m. Inr (PrimSameVolumeRename m))
      | Xk_MoveAndRename \<Rightarrow>
          try_bind (file_move_from_live operation purpose) (\<lambda>m. Inr (PrimSameVolumeMoveAndRename m))
      | Xk_InternalStage \<Rightarrow>
          try_bind (file_move_from_live operation purpose) (\<lambda>m. Inr (PrimInternalStage m)))"

definition operation_from_live ::
  "'a libs_scheme \<Rightarrow> envelope_purpose \<Rightarrow> execution_operation \<Rightarrow> validation_error + approved_operation" where
  "operation_from_live L purpose operation =
     (if purpose = PurposeForward \<and> xop_status operation \<noteq> Op_PreflightOk
      then Inl (ValInvalidField (lit ''live operation is not preflight-approved''))
      else try_bind (primitive_from_live operation purpose) (\<lambda>primitive.
        Inr \<lparr>ao_operation_id = id_string L (xop_id operation),
             ao_proposal_operation_id = map_option (id_string L) (xop_proposal_operation_id operation),
             ao_sequence = xop_sequence operation,
             ao_dependencies = map (id_string L) (xop_dependencies operation),
             ao_primitive = primitive\<rparr>))"

text \<open>\<^verbatim>\<open>.map(f).collect::<Result<Vec<_>, _>>()\<close>\<close>

fun collect_results :: "('a \<Rightarrow> 'e + 'b) \<Rightarrow> 'a list \<Rightarrow> 'e + 'b list" where
  "collect_results f [] = Inr []"
| "collect_results f (x # xs) =
     try_bind (f x) (\<lambda>y. try_bind (collect_results f xs) (\<lambda>ys. Inr (y # ys)))"

definition is_frozen_operation :: "proposal_item_id set \<Rightarrow> execution_operation \<Rightarrow> bool" where
  "is_frozen_operation approved operation \<longleftrightarrow>
     (case xop_proposal_operation_id operation of None \<Rightarrow> True | Some i \<Rightarrow> i \<in> approved)
     \<and> xop_status operation \<notin> {Op_Planned, Op_Blocked, Op_Stale}"

definition purpose_state_check :: "execution_session \<Rightarrow> envelope_purpose \<Rightarrow> validation_error + unit" where
  "purpose_state_check s purpose =
     (case purpose of
        PurposeForward \<Rightarrow>
          (if xs_status s \<noteq> St_Approved \<or> xc_state (xs_consent s) \<noteq> Consent_Attested
           then Inl (ValInvalidField (lit ''live execution state'')) else Inr ())
      | PurposeRollback \<Rightarrow>
          (if xc_state (xs_consent s) \<notin> {Consent_Attested, Consent_Consumed, Consent_Expired}
           then Inl (ValInvalidField (lit ''stored consent state'')) else Inr ()))"

definition envelope_from_detail ::
  "'a protocol_libs_scheme \<Rightarrow> execution_detail \<Rightarrow> envelope_purpose
    \<Rightarrow> validation_error + execution_envelope" where
  "envelope_from_detail L detail purpose =
     (let session = xd_session detail; approval = xs_approval session in
     if xs_id session \<noteq> aep_execution_id approval \<or> xs_plan_id session \<noteq> aep_plan_id approval
        \<or> xs_plan_digest_hex session \<noteq> aep_digest_hex approval
     then Inl (ValInvalidField (lit ''live execution state''))
     else
     try_bind (purpose_state_check session purpose) (\<lambda>_.
     try_bind (collect_results (operation_from_live L purpose)
                 (filter (is_frozen_operation (set (aep_approved_operation_ids approval)))
                    (xd_operations detail))) (\<lambda>operations.
     try_bind (ok_or (aep_approval_timestamp approval)
                 (ValInvalidField (lit ''approval timestamp''))) (\<lambda>timestamp.
     try_bind (decode_fixed_hex (aep_digest_hex approval)) (\<lambda>digest.
     try_bind (root_from_live (aep_destination_root approval)) (\<lambda>root.
     try_bind (policy_from_live (aep_safety_policy approval)) (\<lambda>policy.
     try_bind (consent_from_live (xs_consent session) purpose) (\<lambda>consent.
       (let envelope =
          \<lparr>env_schema_version = EXECUTOR_SCHEMA_VERSION,
           env_execution_id = id_string L (xs_id session),
           env_root_id = id_string L (xs_root_id session),
           env_plan =
             \<lparr>fpl_material_version = aep_material_version approval,
              fpl_plan_id = id_string L (aep_plan_id approval),
              fpl_proposal_id = id_string L (aep_proposal_id approval),
              fpl_proposal_revision_id = id_string L (aep_proposal_revision_id approval),
              fpl_proposal_revision = aep_proposal_revision approval,
              fpl_source_snapshot_version = id_string L (aep_source_snapshot_version approval),
              fpl_approved_operation_ids = map (id_string L) (aep_approved_operation_ids approval),
              fpl_operation_count = aep_operation_count approval,
              fpl_approval_timestamp = timestamp,
              fpl_user_confirmed = aep_user_confirmed approval,
              fpl_digest = digest\<rparr>,
           env_root_binding = root, env_safety_policy = policy, env_consent = consent,
           env_operations = operations\<rparr>
        in try_bind (envelope_validate L envelope) (\<lambda>_. Inr envelope))))))))))"

definition consent_binding_from_detail ::
  "'a protocol_libs_scheme \<Rightarrow> execution_detail \<Rightarrow> digest \<Rightarrow> int \<Rightarrow> int
    \<Rightarrow> validation_error + consent_binding" where
  "consent_binding_from_detail L detail nonce issued expires =
     (let session = xd_session detail; approval = xs_approval session in
     try_bind (decode_fixed_hex (aep_digest_hex approval)) (\<lambda>digest.
     try_bind (root_from_live (aep_destination_root approval)) (\<lambda>root.
     try_bind (policy_from_live (aep_safety_policy approval)) (\<lambda>policy.
       (let binding =
          \<lparr>cb_material_version = aep_material_version approval,
           cb_plan_digest = digest,
           cb_execution_id = id_string L (xs_id session),
           cb_plan_id = id_string L (aep_plan_id approval),
           cb_proposal_id = id_string L (aep_proposal_id approval),
           cb_proposal_revision_id = id_string L (aep_proposal_revision_id approval),
           cb_proposal_revision = aep_proposal_revision approval,
           cb_approved_operation_ids = map (id_string L) (aep_approved_operation_ids approval),
           cb_approved_operation_count = aep_operation_count approval,
           cb_source_snapshot_version = id_string L (aep_source_snapshot_version approval),
           cb_root_id = id_string L (xs_root_id session),
           cb_destination_root = root, cb_safety_policy = policy,
           cb_consent_nonce = nonce, cb_issued_at_unix_ms = issued,
           cb_expires_at_unix_ms = expires\<rparr>
        in try_bind (consent_binding_validate L binding) (\<lambda>_. Inr binding))))))"

definition consent_binding_from_envelope :: "execution_envelope \<Rightarrow> consent_binding" where
  "consent_binding_from_envelope e =
     \<lparr>cb_material_version = fpl_material_version (env_plan e),
      cb_plan_digest = fpl_digest (env_plan e),
      cb_execution_id = env_execution_id e,
      cb_plan_id = fpl_plan_id (env_plan e),
      cb_proposal_id = fpl_proposal_id (env_plan e),
      cb_proposal_revision_id = fpl_proposal_revision_id (env_plan e),
      cb_proposal_revision = fpl_proposal_revision (env_plan e),
      cb_approved_operation_ids = fpl_approved_operation_ids (env_plan e),
      cb_approved_operation_count = fpl_operation_count (env_plan e),
      cb_source_snapshot_version = fpl_source_snapshot_version (env_plan e),
      cb_root_id = env_root_id e,
      cb_destination_root = env_root_binding e,
      cb_safety_policy = env_safety_policy e,
      cb_consent_nonce = acm_consent_nonce (env_consent e),
      cb_issued_at_unix_ms = acm_issued_at_unix_ms (env_consent e),
      cb_expires_at_unix_ms = acm_expires_at_unix_ms (env_consent e)\<rparr>"

section \<open>Authorisations, bindings and outcomes\<close>

datatype operation_direction = DirForward | DirRollback

record event_binding =
  evb_database_sequence :: u64
  evb_database_event_digest :: digest
  evb_external_sequence :: u64
  evb_external_event_digest :: digest

definition event_binding_validate :: "event_binding \<Rightarrow> validation_error + unit" where
  "event_binding_validate b =
     (if evb_database_sequence b \<noteq> evb_external_sequence b
         \<or> evb_database_event_digest b \<noteq> evb_external_event_digest b
         \<or> fixed_is_zero (evb_database_event_digest b)
      then Inl (ValInvalidField (lit ''durable journal event binding'')) else Inr ())"

datatype rollback_eligibility_state = EligibleApplied | EligibleRecovered

record rollback_eligibility =
  re_operation_id :: ustring
  re_state :: rollback_eligibility_state
  re_applied_event :: event_binding

definition rollback_eligibility_validate ::
  "'a protocol_libs_scheme \<Rightarrow> rollback_eligibility \<Rightarrow> execution_envelope \<Rightarrow> validation_error + unit" where
  "rollback_eligibility_validate L r e =
     try_bind (validate_domain_id L (re_operation_id r) (lit ''rollback operation id'')) (\<lambda>_.
     try_bind (event_binding_validate (re_applied_event r)) (\<lambda>_.
       if envelope_operation e (re_operation_id r) = None
       then Inl (ValInvalidField (lit ''rollback operation outside envelope'')) else Inr ()))"

datatype session_authorization = AuthForward | AuthRollback "rollback_eligibility list"

fun validate_eligible_operations ::
  "'a protocol_libs_scheme \<Rightarrow> execution_envelope \<Rightarrow> ustring set \<Rightarrow> rollback_eligibility list
    \<Rightarrow> validation_error + unit" where
  "validate_eligible_operations L e ids [] = Inr ()"
| "validate_eligible_operations L e ids (r # rs) =
     try_bind (rollback_eligibility_validate L r e) (\<lambda>_.
       if re_operation_id r \<in> ids
       then Inl (ValDuplicateOrUnordered (lit ''rollback eligible operations''))
       else validate_eligible_operations L e (insert (re_operation_id r) ids) rs)"

fun authorization_validate ::
  "'a protocol_libs_scheme \<Rightarrow> session_authorization \<Rightarrow> execution_envelope \<Rightarrow> validation_error + unit" where
  "authorization_validate L AuthForward e = Inr ()"
| "authorization_validate L (AuthRollback rs) e =
     (if rs = [] \<or> length rs > MAX_MANIFESTS
      then Inl (ValBoundExceeded (lit ''rollback eligible operations''))
      else validate_eligible_operations L e {} rs)"

fun authorization_permits :: "session_authorization \<Rightarrow> ustring \<Rightarrow> operation_direction \<Rightarrow> bool" where
  "authorization_permits AuthForward operation_id DirForward = True"
| "authorization_permits (AuthRollback rs) operation_id DirRollback =
     list_ex (\<lambda>r. re_operation_id r = operation_id) rs"
| "authorization_permits _ operation_id _ = False"

fun rollback_eligible_ids :: "session_authorization \<Rightarrow> ustring set" where
  "rollback_eligible_ids AuthForward = {}"
| "rollback_eligible_ids (AuthRollback rs) = set (map re_operation_id rs)"

record operation_binding =
  opb_operation_id :: ustring
  opb_direction :: operation_direction
  opb_journal_intent :: event_binding

definition operation_binding_validate ::
  "'a protocol_libs_scheme \<Rightarrow> operation_binding \<Rightarrow> validation_error + unit" where
  "operation_binding_validate L b =
     try_bind (validate_domain_id L (opb_operation_id b) (lit ''operation binding'')) (\<lambda>_.
       event_binding_validate (opb_journal_intent b))"

datatype refusal_category = RefusalProtocol | RefusalAuthentication | RefusalReplay

record protocol_refusal =
  prf_category :: refusal_category
  prf_code :: ustring
  prf_detail :: ustring

definition protocol_refusal_validate :: "protocol_refusal \<Rightarrow> validation_error + unit" where
  "protocol_refusal_validate r = validate_code_and_detail (prf_code r) (prf_detail r)"

datatype executor_error_class =
    XErr_SharingViolation | XErr_LockViolation | XErr_PermissionDenied | XErr_DiskFull
  | XErr_DestinationCollision | XErr_SourceMissing | XErr_PathPolicyRefusal | XErr_Precondition
  | XErr_VerificationLimit | XErr_Cancelled | XErr_Unsupported | XErr_Io
  | XErr_AmbiguousMutationOutcome

record attempt_audit =
  aud_attempt_count :: byte
  aud_error_class :: "executor_error_class option"

definition attempt_audit_validate :: "attempt_audit \<Rightarrow> validation_error + unit" where
  "attempt_audit_validate a =
     (if aud_attempt_count a = 0 \<or> aud_attempt_count a > 3
      then Inl (ValInvalidField (lit ''executor attempt count'')) else Inr ())"

datatype executor_outcome =
    OutcomeSuccess int digest attempt_audit
  | OutcomeProvenNotApplied ustring ustring attempt_audit
  | OutcomeRecoveryRequired ustring ustring attempt_audit
  | OutcomeProtocolRefusal protocol_refusal

fun outcome_validate :: "executor_outcome \<Rightarrow> validation_error + unit" where
  "outcome_validate (OutcomeSuccess applied_at observed audit) =
     (if applied_at < 0 then Inl (ValInvalidField (lit ''applied timestamp''))
      else attempt_audit_validate audit)"
| "outcome_validate (OutcomeProvenNotApplied code detail audit) =
     try_bind (validate_code_and_detail code detail) (\<lambda>_. attempt_audit_validate audit)"
| "outcome_validate (OutcomeRecoveryRequired code detail audit) =
     try_bind (validate_code_and_detail code detail) (\<lambda>_. attempt_audit_validate audit)"
| "outcome_validate (OutcomeProtocolRefusal refusal) = protocol_refusal_validate refusal"

end
