(* ===== verification/Executor_Auth.thy ===== *)
theory Executor_Auth
  imports Executor_Messages
begin

text \<open>
  Authentication of executor protocol v2 (\<^verbatim>\<open>crates/ipc-contracts/src/executor_v2/auth.rs\<close>). Each
  message is the record of its MAC material extended by the MAC: \<^verbatim>\<open>verify\<close> rebuilds the
  material from the message's own fields, which is the truncated record. Keyed BLAKE3 and the
  JSON form of a material are parameters.
\<close>

section \<open>MAC materials and messages\<close>

record hello_material =
  hel_protocol_version :: u16
  hel_schema_version :: u16
  hel_worker_pid :: u32
  hel_worker_nonce :: digest
  hel_issued_at_unix_ms :: int

record hello = hello_material +
  hel_mac :: digest

record open_session_material =
  osn_protocol_version :: u16
  osn_schema_version :: u16
  osn_child_pid :: u32
  osn_coordinator_pid :: u32
  osn_worker_nonce :: digest
  osn_coordinator_nonce :: digest
  osn_session_id :: digest
  osn_execution_id :: ustring
  osn_plan_id :: ustring
  osn_plan_digest :: digest
  osn_issued_at_unix_ms :: int
  osn_expires_at_unix_ms :: int
  osn_authorization :: session_authorization
  osn_envelope :: execution_envelope

record open_session = open_session_material +
  osn_mac :: digest

record session_key_material =
  skm_protocol_version :: u16
  skm_schema_version :: u16
  skm_worker_pid :: u32
  skm_coordinator_pid :: u32
  skm_worker_nonce :: digest
  skm_coordinator_nonce :: digest
  skm_session_id :: digest
  skm_execution_id :: ustring
  skm_plan_id :: ustring
  skm_plan_digest :: digest
  skm_authorization :: session_authorization

record session_opened_material =
  sop_protocol_version :: u16
  sop_schema_version :: u16
  sop_session_id :: digest
  sop_worker_pid :: u32
  sop_coordinator_pid :: u32
  sop_worker_nonce :: digest
  sop_coordinator_nonce :: digest
  sop_response_nonce :: digest
  sop_issued_at_unix_ms :: int

record session_opened = session_opened_material +
  sop_mac :: digest

record request_material =
  req_protocol_version :: u16
  req_schema_version :: u16
  req_session_id :: digest
  req_sequence :: u64
  req_message_nonce :: digest
  req_sent_at_unix_ms :: int
  req_expires_at_unix_ms :: int
  req_execution_id :: ustring
  req_plan_id :: ustring
  req_plan_digest :: digest
  req_operation :: operation_binding

record operation_request = request_material +
  req_mac :: digest

record response_material =
  rsp_protocol_version :: u16
  rsp_schema_version :: u16
  rsp_session_id :: digest
  rsp_sequence :: u64
  rsp_message_nonce :: digest
  rsp_sent_at_unix_ms :: int
  rsp_expires_at_unix_ms :: int
  rsp_execution_id :: ustring
  rsp_plan_id :: ustring
  rsp_plan_digest :: digest
  rsp_operation :: operation_binding
  rsp_outcome :: executor_outcome

record operation_response = response_material +
  rsp_mac :: digest

record refusal_material =
  hrf_protocol_version :: u16
  hrf_schema_version :: u16
  hrf_worker_pid :: u32
  hrf_worker_nonce :: digest
  hrf_response_nonce :: digest
  hrf_issued_at_unix_ms :: int
  hrf_refusal :: protocol_refusal

record handshake_refusal = refusal_material +
  hrf_mac :: digest

text \<open>Everything that is serialised under a key, and the domain each is hashed in.\<close>

datatype mac_material =
    HelloMac hello_material
  | OpenSessionMac open_session_material
  | SessionKeyMac session_key_material
  | SessionOpenedMac session_opened_material
  | RequestMac request_material
  | ResponseMac response_material
  | RefusalMac refusal_material
  | ConsentMac consent_binding

definition domain_text :: "string \<Rightarrow> byte list" where
  "domain_text s = map of_nat (lit ''com.workingname.operation-executor/v2/'' @ lit s) @ [0]"

fun mac_domain :: "mac_material \<Rightarrow> byte list" where
  "mac_domain (HelloMac _) = domain_text ''hello-mac''"
| "mac_domain (OpenSessionMac _) = domain_text ''open-session-mac''"
| "mac_domain (SessionKeyMac _) = domain_text ''session-key''"
| "mac_domain (SessionOpenedMac _) = domain_text ''session-opened-mac''"
| "mac_domain (RequestMac _) = domain_text ''request-mac''"
| "mac_domain (ResponseMac _) = domain_text ''response-mac''"
| "mac_domain (RefusalMac _) = domain_text ''handshake-refusal-mac''"
| "mac_domain (ConsentMac _) = domain_text ''consent-attestation-mac''"

definition CONSENT_KEY_DOMAIN :: "byte list" where
  "CONSENT_KEY_DOMAIN = domain_text ''consent-authority-key''"

record auth_libs = protocol_libs +
  keyed_blake3 :: "digest \<Rightarrow> byte list \<Rightarrow> digest"
  json_material :: "mac_material \<Rightarrow> byte list option"

section \<open>Errors\<close>

datatype authentication_error =
    AuthUnsupportedVersion | AuthInvalidMac | AuthInvalidBinding | AuthSequenceMismatch
  | AuthNonceReplay | AuthStaleOrInvalidTime | AuthSerialization
  | AuthValidation validation_error

fun auth_refusal_category :: "authentication_error \<Rightarrow> refusal_category" where
  "auth_refusal_category AuthInvalidMac = RefusalAuthentication"
| "auth_refusal_category AuthSequenceMismatch = RefusalReplay"
| "auth_refusal_category AuthNonceReplay = RefusalReplay"
| "auth_refusal_category AuthUnsupportedVersion = RefusalProtocol"
| "auth_refusal_category AuthInvalidBinding = RefusalProtocol"
| "auth_refusal_category AuthStaleOrInvalidTime = RefusalProtocol"
| "auth_refusal_category AuthSerialization = RefusalProtocol"
| "auth_refusal_category (AuthValidation _) = RefusalProtocol"

fun auth_refusal_code :: "authentication_error \<Rightarrow> ustring" where
  "auth_refusal_code AuthUnsupportedVersion = lit ''unsupported_protocol''"
| "auth_refusal_code AuthInvalidMac = lit ''authentication_failed''"
| "auth_refusal_code AuthInvalidBinding = lit ''binding_mismatch''"
| "auth_refusal_code AuthSequenceMismatch = lit ''sequence_replay''"
| "auth_refusal_code AuthNonceReplay = lit ''message_nonce_replay''"
| "auth_refusal_code AuthStaleOrInvalidTime = lit ''stale_or_invalid_time''"
| "auth_refusal_code AuthSerialization = lit ''protocol_serialization_failed''"
| "auth_refusal_code (AuthValidation _) = lit ''protocol_validation_failed''"

section \<open>Keys, codes and clocks\<close>

definition keyed_mac :: "'a auth_libs_scheme \<Rightarrow> digest \<Rightarrow> mac_material \<Rightarrow> authentication_error + digest" where
  "keyed_mac L key material =
     (case json_material L material of
        None \<Rightarrow> Inl AuthSerialization
      | Some encoded \<Rightarrow> Inr (keyed_blake3 L key (mac_domain material @ encoded)))"

definition require_mac :: "digest \<Rightarrow> digest \<Rightarrow> authentication_error + unit" where
  "require_mac expected presented = (if expected = presented then Inr () else Inl AuthInvalidMac)"

definition require_versions :: "u16 \<Rightarrow> u16 \<Rightarrow> authentication_error + unit" where
  "require_versions protocol schema =
     (if protocol = EXECUTOR_PROTOCOL_VERSION \<and> schema = EXECUTOR_SCHEMA_VERSION then Inr ()
      else Inl AuthUnsupportedVersion)"

definition within_clock_window :: "int \<Rightarrow> int \<Rightarrow> int \<Rightarrow> bool" where
  "within_clock_window value now window \<longleftrightarrow>
     value \<ge> sat_sub_i64 now window \<and> value \<le> sat_add_i64 now window"

definition validate_session_time ::
  "int \<Rightarrow> int \<Rightarrow> session_authorization \<Rightarrow> execution_envelope \<Rightarrow> int \<Rightarrow> authentication_error + unit" where
  "validate_session_time issued expires authorization envelope now =
     (if issued < 0 \<or> expires \<le> issued \<or> sat_sub_i64 expires issued > MAX_SESSION_LIFETIME_MS
         \<or> \<not> within_clock_window issued now MAX_CLOCK_SKEW_MS \<or> now \<ge> expires
         \<or> (authorization = AuthForward \<and> expires > acm_expires_at_unix_ms (env_consent envelope))
      then Inl AuthStaleOrInvalidTime else Inr ())"

definition validate_message_time :: "int \<Rightarrow> int \<Rightarrow> int \<Rightarrow> int \<Rightarrow> authentication_error + unit" where
  "validate_message_time sent expires session_expires now =
     (if sent < 0 \<or> expires \<le> sent \<or> expires > session_expires
         \<or> sat_sub_i64 expires sent > MAX_MESSAGE_LIFETIME_MS
         \<or> \<not> within_clock_window sent now MAX_CLOCK_SKEW_MS \<or> now \<ge> expires
      then Inl AuthStaleOrInvalidTime else Inr ())"

definition derive_consent_authority_key :: "'a auth_libs_scheme \<Rightarrow> digest \<Rightarrow> digest" where
  "derive_consent_authority_key L root_key = keyed_blake3 L root_key CONSENT_KEY_DOMAIN"

definition sign_consent_attestation ::
  "'a auth_libs_scheme \<Rightarrow> consent_binding \<Rightarrow> digest \<Rightarrow> authentication_error + digest" where
  "sign_consent_attestation L binding key =
     try_bind (map_err AuthValidation (consent_binding_validate L binding)) (\<lambda>_.
       keyed_mac L key (ConsentMac binding))"

definition verify_envelope_consent ::
  "'a auth_libs_scheme \<Rightarrow> execution_envelope \<Rightarrow> digest \<Rightarrow> int \<Rightarrow> bool \<Rightarrow> authentication_error + unit" where
  "verify_envelope_consent L envelope root_key now require_unexpired =
     (let binding = consent_binding_from_envelope envelope in
     try_bind (map_err AuthValidation (consent_binding_validate L binding)) (\<lambda>_.
     try_bind (sign_consent_attestation L binding (derive_consent_authority_key L root_key)) (\<lambda>expected.
     try_bind (require_mac expected (acm_attestation_mac (env_consent envelope))) (\<lambda>_.
       if acm_attested_at_unix_ms (env_consent envelope) < acm_issued_at_unix_ms (env_consent envelope)
          \<or> (require_unexpired \<and> now \<ge> acm_expires_at_unix_ms (env_consent envelope))
       then Inl AuthStaleOrInvalidTime else Inr ()))))"

section \<open>Hello\<close>

definition hello_signed ::
  "'a auth_libs_scheme \<Rightarrow> u32 \<Rightarrow> digest \<Rightarrow> int \<Rightarrow> digest \<Rightarrow> authentication_error + hello" where
  "hello_signed L worker_pid worker_nonce issued root_key =
     (if worker_pid = 0 \<or> fixed_is_zero worker_nonce \<or> issued < 0 then Inl AuthInvalidBinding
      else
        (let material =
           \<lparr>hel_protocol_version = EXECUTOR_PROTOCOL_VERSION, hel_schema_version = EXECUTOR_SCHEMA_VERSION,
            hel_worker_pid = worker_pid, hel_worker_nonce = worker_nonce,
            hel_issued_at_unix_ms = issued\<rparr>
         in try_bind (keyed_mac L root_key (HelloMac material)) (\<lambda>mac.
              Inr (hello_material.extend material (hello.fields mac)))))"

definition hello_verify :: "'a auth_libs_scheme \<Rightarrow> hello \<Rightarrow> digest \<Rightarrow> int \<Rightarrow> authentication_error + unit" where
  "hello_verify L h root_key now =
     try_bind (require_versions (hel_protocol_version h) (hel_schema_version h)) (\<lambda>_.
     if hel_worker_pid h = 0 \<or> fixed_is_zero (hel_worker_nonce h)
        \<or> \<not> within_clock_window (hel_issued_at_unix_ms h) now MAX_CLOCK_SKEW_MS
     then Inl AuthStaleOrInvalidTime
     else try_bind (keyed_mac L root_key (HelloMac (hello_material.truncate h))) (\<lambda>expected.
       require_mac expected (hel_mac h)))"

section \<open>Opening a session\<close>

definition open_session_signed ::
  "'a auth_libs_scheme \<Rightarrow> u32 \<Rightarrow> u32 \<Rightarrow> digest \<Rightarrow> digest \<Rightarrow> digest \<Rightarrow> int \<Rightarrow> int
    \<Rightarrow> session_authorization \<Rightarrow> execution_envelope \<Rightarrow> digest \<Rightarrow> authentication_error + open_session" where
  "open_session_signed L child_pid coordinator_pid worker_nonce coordinator_nonce session_id
       issued expires authorization envelope root_key =
     try_bind (map_err AuthValidation (envelope_validate L envelope)) (\<lambda>_.
     try_bind (map_err AuthValidation (authorization_validate L authorization envelope)) (\<lambda>_.
     if child_pid = 0 \<or> coordinator_pid = 0 \<or> fixed_is_zero worker_nonce
        \<or> fixed_is_zero coordinator_nonce \<or> fixed_is_zero session_id
     then Inl AuthInvalidBinding
     else
     try_bind (validate_session_time issued expires authorization envelope issued) (\<lambda>_.
     try_bind (verify_envelope_consent L envelope root_key issued (authorization = AuthForward)) (\<lambda>_.
       (let material =
          \<lparr>osn_protocol_version = EXECUTOR_PROTOCOL_VERSION, osn_schema_version = EXECUTOR_SCHEMA_VERSION,
           osn_child_pid = child_pid, osn_coordinator_pid = coordinator_pid,
           osn_worker_nonce = worker_nonce, osn_coordinator_nonce = coordinator_nonce,
           osn_session_id = session_id, osn_execution_id = env_execution_id envelope,
           osn_plan_id = fpl_plan_id (env_plan envelope),
           osn_plan_digest = fpl_digest (env_plan envelope),
           osn_issued_at_unix_ms = issued, osn_expires_at_unix_ms = expires,
           osn_authorization = authorization, osn_envelope = envelope\<rparr>
        in try_bind (keyed_mac L root_key (OpenSessionMac material)) (\<lambda>mac.
             Inr (open_session_material.extend material (open_session.fields mac))))))))"

definition open_session_verify ::
  "'a auth_libs_scheme \<Rightarrow> open_session \<Rightarrow> hello \<Rightarrow> digest \<Rightarrow> int \<Rightarrow> authentication_error + unit" where
  "open_session_verify L s h root_key now =
     try_bind (require_versions (osn_protocol_version s) (osn_schema_version s)) (\<lambda>_.
     try_bind (keyed_mac L root_key (OpenSessionMac (open_session_material.truncate s))) (\<lambda>expected.
     try_bind (require_mac expected (osn_mac s)) (\<lambda>_.
     try_bind (map_err AuthValidation (envelope_validate L (osn_envelope s))) (\<lambda>_.
     try_bind (map_err AuthValidation
                 (authorization_validate L (osn_authorization s) (osn_envelope s))) (\<lambda>_.
     if osn_child_pid s = 0 \<or> osn_coordinator_pid s = 0 \<or> fixed_is_zero (osn_worker_nonce s)
        \<or> fixed_is_zero (osn_coordinator_nonce s) \<or> fixed_is_zero (osn_session_id s)
        \<or> osn_child_pid s \<noteq> hel_worker_pid h \<or> osn_worker_nonce s \<noteq> hel_worker_nonce h
        \<or> osn_execution_id s \<noteq> env_execution_id (osn_envelope s)
        \<or> osn_plan_id s \<noteq> fpl_plan_id (env_plan (osn_envelope s))
        \<or> osn_plan_digest s \<noteq> fpl_digest (env_plan (osn_envelope s))
     then Inl AuthInvalidBinding
     else
     try_bind (validate_session_time (osn_issued_at_unix_ms s) (osn_expires_at_unix_ms s)
                 (osn_authorization s) (osn_envelope s) now) (\<lambda>_.
       verify_envelope_consent L (osn_envelope s) root_key now (osn_authorization s = AuthForward)))))))"

definition derive_session_key ::
  "'a auth_libs_scheme \<Rightarrow> digest \<Rightarrow> hello \<Rightarrow> open_session \<Rightarrow> authentication_error + digest" where
  "derive_session_key L root_key h s =
     keyed_mac L root_key (SessionKeyMac
       \<lparr>skm_protocol_version = EXECUTOR_PROTOCOL_VERSION, skm_schema_version = EXECUTOR_SCHEMA_VERSION,
        skm_worker_pid = hel_worker_pid h, skm_coordinator_pid = osn_coordinator_pid s,
        skm_worker_nonce = hel_worker_nonce h, skm_coordinator_nonce = osn_coordinator_nonce s,
        skm_session_id = osn_session_id s, skm_execution_id = osn_execution_id s,
        skm_plan_id = osn_plan_id s, skm_plan_digest = osn_plan_digest s,
        skm_authorization = osn_authorization s\<rparr>)"

definition session_opened_signed ::
  "'a auth_libs_scheme \<Rightarrow> open_session \<Rightarrow> digest \<Rightarrow> int \<Rightarrow> digest \<Rightarrow> authentication_error + session_opened" where
  "session_opened_signed L s response_nonce issued session_key =
     (if fixed_is_zero response_nonce \<or> issued < 0 then Inl AuthInvalidBinding
      else
        (let material =
           \<lparr>sop_protocol_version = EXECUTOR_PROTOCOL_VERSION, sop_schema_version = EXECUTOR_SCHEMA_VERSION,
            sop_session_id = osn_session_id s, sop_worker_pid = osn_child_pid s,
            sop_coordinator_pid = osn_coordinator_pid s, sop_worker_nonce = osn_worker_nonce s,
            sop_coordinator_nonce = osn_coordinator_nonce s, sop_response_nonce = response_nonce,
            sop_issued_at_unix_ms = issued\<rparr>
         in try_bind (keyed_mac L session_key (SessionOpenedMac material)) (\<lambda>mac.
              Inr (session_opened_material.extend material (session_opened.fields mac)))))"

definition session_opened_verify ::
  "'a auth_libs_scheme \<Rightarrow> session_opened \<Rightarrow> open_session \<Rightarrow> digest \<Rightarrow> int \<Rightarrow> authentication_error + unit" where
  "session_opened_verify L r s session_key now =
     try_bind (require_versions (sop_protocol_version r) (sop_schema_version r)) (\<lambda>_.
     try_bind (keyed_mac L session_key (SessionOpenedMac (session_opened_material.truncate r))) (\<lambda>expected.
     try_bind (require_mac expected (sop_mac r)) (\<lambda>_.
       if sop_session_id r \<noteq> osn_session_id s \<or> sop_worker_pid r \<noteq> osn_child_pid s
          \<or> sop_coordinator_pid r \<noteq> osn_coordinator_pid s
          \<or> sop_worker_nonce r \<noteq> osn_worker_nonce s
          \<or> sop_coordinator_nonce r \<noteq> osn_coordinator_nonce s
          \<or> fixed_is_zero (sop_response_nonce r)
          \<or> \<not> within_clock_window (sop_issued_at_unix_ms r) now MAX_CLOCK_SKEW_MS
          \<or> now \<ge> osn_expires_at_unix_ms s
       then Inl AuthInvalidBinding else Inr ())))"

section \<open>Requests and responses\<close>

definition request_signed ::
  "'a auth_libs_scheme \<Rightarrow> open_session \<Rightarrow> u64 \<Rightarrow> digest \<Rightarrow> int \<Rightarrow> int \<Rightarrow> operation_binding \<Rightarrow> digest
    \<Rightarrow> authentication_error + operation_request" where
  "request_signed L s sequence message_nonce sent expires operation session_key =
     try_bind (map_err AuthValidation (operation_binding_validate L operation)) (\<lambda>_.
     if sequence = 0 \<or> fixed_is_zero message_nonce then Inl AuthInvalidBinding
     else
     try_bind (validate_message_time sent expires (osn_expires_at_unix_ms s) sent) (\<lambda>_.
       (let material =
          \<lparr>req_protocol_version = EXECUTOR_PROTOCOL_VERSION, req_schema_version = EXECUTOR_SCHEMA_VERSION,
           req_session_id = osn_session_id s, req_sequence = sequence,
           req_message_nonce = message_nonce, req_sent_at_unix_ms = sent,
           req_expires_at_unix_ms = expires, req_execution_id = osn_execution_id s,
           req_plan_id = osn_plan_id s, req_plan_digest = osn_plan_digest s,
           req_operation = operation\<rparr>
        in try_bind (keyed_mac L session_key (RequestMac material)) (\<lambda>mac.
             Inr (request_material.extend material (operation_request.fields mac))))))"

definition request_verify ::
  "'a auth_libs_scheme \<Rightarrow> operation_request \<Rightarrow> open_session \<Rightarrow> u64 \<Rightarrow> digest \<Rightarrow> int
    \<Rightarrow> authentication_error + unit" where
  "request_verify L r s expected_sequence session_key now =
     try_bind (require_versions (req_protocol_version r) (req_schema_version r)) (\<lambda>_.
     try_bind (keyed_mac L session_key (RequestMac (request_material.truncate r))) (\<lambda>expected.
     try_bind (require_mac expected (req_mac r)) (\<lambda>_.
     try_bind (map_err AuthValidation (operation_binding_validate L (req_operation r))) (\<lambda>_.
     if req_sequence r = 0 \<or> fixed_is_zero (req_message_nonce r)
        \<or> req_session_id r \<noteq> osn_session_id s \<or> req_execution_id r \<noteq> osn_execution_id s
        \<or> req_plan_id r \<noteq> osn_plan_id s \<or> req_plan_digest r \<noteq> osn_plan_digest s
     then Inl AuthInvalidBinding
     else if req_sequence r \<noteq> expected_sequence then Inl AuthSequenceMismatch
     else validate_message_time (req_sent_at_unix_ms r) (req_expires_at_unix_ms r)
            (osn_expires_at_unix_ms s) now))))"

definition response_signed ::
  "'a auth_libs_scheme \<Rightarrow> open_session \<Rightarrow> u64 \<Rightarrow> digest \<Rightarrow> int \<Rightarrow> int \<Rightarrow> operation_binding
    \<Rightarrow> executor_outcome \<Rightarrow> digest \<Rightarrow> authentication_error + operation_response" where
  "response_signed L s sequence message_nonce sent expires operation result session_key =
     try_bind (map_err AuthValidation (operation_binding_validate L operation)) (\<lambda>_.
     try_bind (map_err AuthValidation (outcome_validate result)) (\<lambda>_.
     if sequence = 0 \<or> fixed_is_zero message_nonce then Inl AuthInvalidBinding
     else
     try_bind (validate_message_time sent expires (osn_expires_at_unix_ms s) sent) (\<lambda>_.
       (let material =
          \<lparr>rsp_protocol_version = EXECUTOR_PROTOCOL_VERSION, rsp_schema_version = EXECUTOR_SCHEMA_VERSION,
           rsp_session_id = osn_session_id s, rsp_sequence = sequence,
           rsp_message_nonce = message_nonce, rsp_sent_at_unix_ms = sent,
           rsp_expires_at_unix_ms = expires, rsp_execution_id = osn_execution_id s,
           rsp_plan_id = osn_plan_id s, rsp_plan_digest = osn_plan_digest s,
           rsp_operation = operation, rsp_outcome = result\<rparr>
        in try_bind (keyed_mac L session_key (ResponseMac material)) (\<lambda>mac.
             Inr (response_material.extend material (operation_response.fields mac)))))))"

definition response_verify ::
  "'a auth_libs_scheme \<Rightarrow> operation_response \<Rightarrow> open_session \<Rightarrow> u64 \<Rightarrow> operation_binding \<Rightarrow> digest \<Rightarrow> int
    \<Rightarrow> authentication_error + unit" where
  "response_verify L r s expected_sequence expected_operation session_key now =
     try_bind (require_versions (rsp_protocol_version r) (rsp_schema_version r)) (\<lambda>_.
     try_bind (keyed_mac L session_key (ResponseMac (response_material.truncate r))) (\<lambda>expected.
     try_bind (require_mac expected (rsp_mac r)) (\<lambda>_.
     try_bind (map_err AuthValidation (operation_binding_validate L (rsp_operation r))) (\<lambda>_.
     try_bind (map_err AuthValidation (outcome_validate (rsp_outcome r))) (\<lambda>_.
     if rsp_sequence r = 0 \<or> fixed_is_zero (rsp_message_nonce r)
        \<or> rsp_session_id r \<noteq> osn_session_id s \<or> rsp_execution_id r \<noteq> osn_execution_id s
        \<or> rsp_plan_id r \<noteq> osn_plan_id s \<or> rsp_plan_digest r \<noteq> osn_plan_digest s
        \<or> rsp_operation r \<noteq> expected_operation
     then Inl AuthInvalidBinding
     else if rsp_sequence r \<noteq> expected_sequence then Inl AuthSequenceMismatch
     else validate_message_time (rsp_sent_at_unix_ms r) (rsp_expires_at_unix_ms r)
            (osn_expires_at_unix_ms s) now)))))"

section \<open>The coordinator's verifier\<close>

record response_verifier =
  rv_next_sequence :: u64
  rv_seen_nonces :: "digest set"

definition response_verifier_new :: response_verifier where
  "response_verifier_new = \<lparr>rv_next_sequence = 1, rv_seen_nonces = {}\<rparr>"

text \<open>The nonce is recorded before the next sequence number is computed.\<close>

definition verify_next ::
  "'a auth_libs_scheme \<Rightarrow> operation_response \<Rightarrow> open_session \<Rightarrow> operation_binding \<Rightarrow> digest \<Rightarrow> int
    \<Rightarrow> (response_verifier, authentication_error, executor_outcome) eff" where
  "verify_next L r s expected_operation session_key now v =
     (case response_verify L r s (rv_next_sequence v) expected_operation session_key now of
        Inl e \<Rightarrow> (Inl e, v)
      | Inr _ \<Rightarrow>
          if rsp_message_nonce r \<in> rv_seen_nonces v then (Inl AuthNonceReplay, v)
          else
            (let v' = v\<lparr>rv_seen_nonces := insert (rsp_message_nonce r) (rv_seen_nonces v)\<rparr>
             in if rv_next_sequence v' = - 1 then (Inl AuthSequenceMismatch, v')
                else (Inr (rsp_outcome r), v'\<lparr>rv_next_sequence := rv_next_sequence v' + 1\<rparr>)))"

section \<open>Refusing a handshake\<close>

definition handshake_refusal_signed ::
  "'a auth_libs_scheme \<Rightarrow> hello \<Rightarrow> digest \<Rightarrow> int \<Rightarrow> protocol_refusal \<Rightarrow> digest
    \<Rightarrow> authentication_error + handshake_refusal" where
  "handshake_refusal_signed L h response_nonce issued refusal root_key =
     try_bind (map_err AuthValidation (protocol_refusal_validate refusal)) (\<lambda>_.
     if fixed_is_zero response_nonce \<or> issued < 0 then Inl AuthInvalidBinding
     else
       (let material =
          \<lparr>hrf_protocol_version = EXECUTOR_PROTOCOL_VERSION, hrf_schema_version = EXECUTOR_SCHEMA_VERSION,
           hrf_worker_pid = hel_worker_pid h, hrf_worker_nonce = hel_worker_nonce h,
           hrf_response_nonce = response_nonce, hrf_issued_at_unix_ms = issued,
           hrf_refusal = refusal\<rparr>
        in try_bind (keyed_mac L root_key (RefusalMac material)) (\<lambda>mac.
             Inr (refusal_material.extend material (handshake_refusal.fields mac)))))"

definition handshake_refusal_verify ::
  "'a auth_libs_scheme \<Rightarrow> handshake_refusal \<Rightarrow> hello \<Rightarrow> digest \<Rightarrow> int \<Rightarrow> authentication_error + unit" where
  "handshake_refusal_verify L r h root_key now =
     try_bind (require_versions (hrf_protocol_version r) (hrf_schema_version r)) (\<lambda>_.
     try_bind (keyed_mac L root_key (RefusalMac (refusal_material.truncate r))) (\<lambda>expected.
     try_bind (require_mac expected (hrf_mac r)) (\<lambda>_.
     try_bind (map_err AuthValidation (protocol_refusal_validate (hrf_refusal r))) (\<lambda>_.
       if fixed_is_zero (hrf_response_nonce r) \<or> hrf_worker_pid r \<noteq> hel_worker_pid h
          \<or> hrf_worker_nonce r \<noteq> hel_worker_nonce h
       then Inl AuthInvalidBinding
       else if \<not> within_clock_window (hrf_issued_at_unix_ms r) now MAX_CLOCK_SKEW_MS
       then Inl AuthStaleOrInvalidTime else Inr ()))))"

end
