(* ===== verification/Envelope_Properties.thy ===== *)
theory Envelope_Properties
  imports Executor_Messages
begin

text \<open>
  What the text validators of \<^verbatim>\<open>Executor_Messages\<close> establish: the hexadecimal form of a digest
  is canonical, and a validated relative path stays below the root it is joined to.
\<close>

section \<open>Hexadecimal digests\<close>

lemma le_bytes_0: "le_bytes k 0 = replicate k 0"
  by (induction k) auto

lemma unat_of_byte: "n < 256 \<Longrightarrow> unat (of_nat n :: byte) = n"
  by (simp add: unsigned_of_nat take_bit_eq_mod)

lemma fixed_is_zero_iff: "fixed_is_zero d \<longleftrightarrow> d = 0"
proof
  assume "fixed_is_zero d"
  then have "\<forall>b \<in> set (digest_bytes d). b = 0" by (simp add: fixed_is_zero_def list_all_iff)
  then have "digest_bytes d = replicate 32 0"
    by (intro replicate_eqI) simp_all
  also have "\<dots> = digest_bytes 0" by (simp add: word_le_bytes_def le_bytes_0)
  finally show "d = 0" by (rule digest_bytes_inj)
next
  assume "d = 0"
  then show "fixed_is_zero d" by (simp add: fixed_is_zero_def word_le_bytes_def le_bytes_0 list_all_iff)
qed

lemma hex_text_bytes: "utf8_bytes (hex_text bs) = map of_nat (hex_text bs)"
  by (rule utf8_bytes_ascii_text [OF hex_text_ascii])

lemma is_hex_digit_byte: "n < 16 \<Longrightarrow> is_hex_byte (of_nat (hex_digit n))"
  by (auto simp: is_hex_byte_def hex_digit_def word_le_nat_alt unsigned_of_nat take_bit_eq_mod)

lemma hex_text_is_hex: "b \<in> set (utf8_bytes (hex_text bs)) \<Longrightarrow> is_hex_byte b"
  unfolding hex_text_bytes
proof (induction bs)
  case (Cons a bs)
  have "unat a < 256" using unsigned_less [of a] by simp
  then have "unat a div 16 < 16" "unat a mod 16 < 16" by auto
  with Cons show ?case by (auto simp: hex_byte_def is_hex_digit_byte)
qed simp

lemma hex_digit_byte: "n < 16 \<Longrightarrow> unat (of_nat (hex_digit n) :: byte) = hex_digit n"
  by (rule unat_of_ascii) (simp add: hex_digit_ascii)

lemma decode_pairs_hex_text: "decode_pairs (map of_nat (hex_text bs)) = Inr bs"
proof (induction bs)
  case (Cons b bs)
  have "unat b < 256" using unsigned_less [of b] by simp
  then have "unat b div 16 < 16" "unat b mod 16 < 16" by auto
  then show ?case
    using Cons hex_pair [of b] by (simp add: hex_byte_def hex_digit_byte)
qed simp

lemma decode_encode_hex: "decode_hex (encode_hex bs) = Inr bs"
  using hex_text_is_hex [of _ bs]
  by (auto simp: decode_hex_def encode_hex_def hex_text_bytes list_ex_iff decode_pairs_hex_text)

lemma hex_value_of_byte:
  assumes "is_hex_byte b"
  shows "\<exists>n. hex_value (unat b) = Some n \<and> n < 16 \<and> hex_digit n = unat b"
proof -
  have "(48 \<le> unat b \<and> unat b \<le> 57) \<or> (97 \<le> unat b \<and> unat b \<le> 102)"
    using assms by (simp add: is_hex_byte_def word_le_nat_alt)
  then show ?thesis by (auto simp: hex_value_def hex_digit_def)
qed

lemma decode_pairs_Inr:
  assumes "list_all is_hex_byte bs" and "even (length bs)"
  shows "\<exists>xs. decode_pairs bs = Inr xs \<and> hex_text xs = map unat bs"
  using assms
proof (induction bs rule: decode_pairs.induct)
  case (1 a b bs)
  obtain x where x: "hex_value (unat a) = Some x" "x < 16" "hex_digit x = unat a"
    using hex_value_of_byte [of a] 1 by auto
  obtain y where y: "hex_value (unat b) = Some y" "y < 16" "hex_digit y = unat b"
    using hex_value_of_byte [of b] 1 by auto
  have u: "unat (of_nat (16 * x + y) :: byte) = 16 * x + y"
    using x(2) y(2) by (intro unat_of_byte) simp
  have "unat a \<noteq> 43" using hex_digit_ascii(2) [OF x(2)] x(3) by simp
  then have p: "from_str_radix_pair (unat a) (unat b) = Some (of_nat (16 * x + y))"
    using x(1) y(1) by (simp add: from_str_radix_pair_def)
  have h: "hex_byte (of_nat (16 * x + y)) = [unat a, unat b]"
    unfolding hex_byte_def u using x y by simp
  obtain xs where xs: "decode_pairs bs = Inr xs" "hex_text xs = map unat bs"
    using "1.IH" "1.prems" by auto
  show ?case using p h xs by simp
qed auto

lemma ascii_text_of_bytes:
  assumes "wf_text s" and "list_all is_hex_byte (utf8_bytes s)"
  shows "s = map unat (utf8_bytes s)"
  using assms
proof (induction s)
  case (Cons c s)
  have c: "is_scalar c" using Cons.prems by simp
  have "c < 0x80"
  proof (rule ccontr)
    assume "\<not> c < 0x80"
    then have "0x80 \<le> last (utf8_char c) \<and> last (utf8_char c) \<in> set (utf8_char c)"
      by (simp add: utf8_char_def)
    then obtain b where b: "b \<in> set (utf8_char c)" "b \<ge> 0x80" by blast
    have "unat (of_nat b :: byte) = b"
      using utf8_char_range [OF c b(1)] by (simp add: unsigned_of_nat take_bit_eq_mod)
    moreover have "is_hex_byte (of_nat b)"
      using Cons.prems b(1) by (auto simp: utf8_bytes_Cons list_all_iff)
    ultimately show False using b(2) by (auto simp: is_hex_byte_def word_le_nat_alt)
  qed
  moreover from this have "utf8_bytes (c # s) = of_nat c # utf8_bytes s"
    by (simp add: utf8_bytes_Cons utf8_char_def)
  ultimately show ?case using Cons by (simp add: unat_of_ascii)
qed simp

lemma digest_bytes_from_bytes: "length bs = 32 \<Longrightarrow> digest_bytes (digest_from_bytes bs) = bs"
proof -
  assume l: "length bs = 32"
  have "from_le bs < 256 ^ 32" using from_le_less [of bs] l by simp
  also have "(256::nat) ^ 32 = 2 ^ 256" by simp
  finally have "unat (of_nat (from_le bs) :: digest) = from_le bs"
    by (simp add: unsigned_of_nat take_bit_eq_mod)
  then show ?thesis using le_bytes_from_le [of bs] l by (simp add: digest_from_bytes_def word_le_bytes_def)
qed

lemma decode_fixed_to_hex: "decode_fixed_hex (fixed_to_hex d) = Inr d"
  by (simp add: decode_fixed_hex_def fixed_to_hex_def decode_encode_hex digest_from_digest_bytes)
     (simp add: encode_hex_def hex_text_bytes)

text \<open>
  The hexadecimal form of a 32-byte value is canonical: a text is accepted by
  \<^verbatim>\<open>FixedBytes32::from_hex\<close> with a value exactly when it is the text \<^verbatim>\<open>to_hex\<close> prints for
  that value. Upper case, a sign or any other spelling is refused.
\<close>

lemma fixed_hex_is_canonical:
  assumes "wf_text s"
  shows "decode_fixed_hex s = Inr d \<longleftrightarrow> s = fixed_to_hex d"
proof
  assume d: "decode_fixed_hex s = Inr d"
  let ?bs = "utf8_bytes s"
  have l: "length ?bs = 64" and h: "list_all is_hex_byte ?bs"
    and e: "even (length ?bs)"
    using d by (auto simp: decode_fixed_hex_def decode_hex_def list_ex_iff list_all_iff split: if_splits)
  obtain xs where xs: "decode_pairs ?bs = Inr xs" "hex_text xs = map unat ?bs"
    using decode_pairs_Inr [OF h e] by blast
  have "length (hex_text xs) = 64" using xs(2) l by simp
  then have lx: "length xs = 32" by simp
  have "d = digest_from_bytes xs"
    using d xs(1) l h by (auto simp: decode_fixed_hex_def decode_hex_def list_ex_iff list_all_iff split: if_splits)
  then have "digest_bytes d = xs" using digest_bytes_from_bytes [OF lx] by simp
  then have "fixed_to_hex d = map unat ?bs" using xs(2) by (simp add: fixed_to_hex_def encode_hex_def)
  then show "s = fixed_to_hex d" using ascii_text_of_bytes [OF assms h] by simp
next
  assume "s = fixed_to_hex d"
  then show "decode_fixed_hex s = Inr d" by (simp add: decode_fixed_to_hex)
qed


lemma wf_text_hex_text: "wf_text (hex_text bs)"
proof -
  have "is_scalar c" if "c < 0x80" for c using that by (simp add: is_scalar_def)
  then show ?thesis using hex_text_ascii [of bs] by (auto simp: wf_text_def list_all_iff)
qed

lemma fixed_hex_is_canonical_witness:
  "decode_fixed_hex (fixed_to_hex 255) = Inr 255
   \<and> (\<forall>d. decode_fixed_hex (replicate 64 65) \<noteq> Inr d)"
proof (intro conjI allI)
  show "decode_fixed_hex (fixed_to_hex 255) = Inr 255"
    using fixed_hex_is_canonical [of "fixed_to_hex 255" 255] wf_text_hex_text
    by (simp add: fixed_to_hex_def encode_hex_def)
next
  fix d
  have "wf_text (replicate 64 65)" by (simp add: wf_text_def list_all_iff is_scalar_def)
  moreover have "replicate 64 65 \<noteq> fixed_to_hex d"
  proof
    assume a: "replicate 64 65 = fixed_to_hex d"
    then have "decode_fixed_hex (replicate 64 65) = Inr d" by (simp add: decode_fixed_to_hex)
    moreover have "utf8_bytes (replicate 64 65) = replicate 64 65"
      by (subst utf8_bytes_ascii_text) (simp_all add: list_all_iff)
    ultimately show False by (simp add: decode_fixed_hex_def decode_hex_def is_hex_byte_def list_ex_iff)
  qed
  ultimately show "decode_fixed_hex (replicate 64 65) \<noteq> Inr d"
    using fixed_hex_is_canonical by blast
qed

section \<open>Relative paths\<close>

text \<open>Splitting at a coarser class of separators keeps the pieces without finer ones.\<close>

fun split_at_slash :: "ustring \<Rightarrow> ustring list" where
  "split_at_slash [] = [[]]"
| "split_at_slash (c # s) =
     (if c = 47 then [] # split_at_slash s
      else (c # hd (split_at_slash s)) # tl (split_at_slash s))"

lemma split_separators_neq_Nil [simp]: "split_separators s \<noteq> []"
  by (induction s) (auto split: list.splits)

lemma split_separators_Cons:
  "split_separators (c # s) =
     (if is_separator c then [] # split_separators s
      else (c # hd (split_separators s)) # tl (split_separators s))"
  by (auto split: list.splits)

declare split_separators.simps(2) [simp del]

lemma split_at_slash_neq_Nil [simp]: "split_at_slash s \<noteq> []"
  by (cases s) auto

lemma split_slash_hd_append:
  "47 \<notin> set p \<Longrightarrow> split_slash (p @ q) = (p @ hd (split_slash q)) # tl (split_slash q)"
  by (induction p) (auto split: list.splits)

lemma utf8_char_no_slash: "is_scalar c \<Longrightarrow> c \<noteq> 47 \<Longrightarrow> 47 \<notin> (of_nat ` set (utf8_char c) :: byte set)"
proof
  assume c: "is_scalar c" "c \<noteq> 47" and "47 \<in> (of_nat ` set (utf8_char c) :: byte set)"
  then obtain b where b: "b \<in> set (utf8_char c)" "(47 :: byte) = of_nat b" by auto
  have "unat (of_nat b :: byte) = b" using utf8_char_range [OF c(1) b(1)] by (rule unat_of_byte)
  moreover have "unat (47 :: byte) = 47" by simp
  ultimately have "b = 47" using b(2) by metis
  then show False using utf8_char_ascii [OF c(1) b(1)] c(2) by simp
qed

lemma split_slash_utf8:
  "wf_text s \<Longrightarrow> split_slash (utf8_bytes s) = map utf8_bytes (split_at_slash s)"
proof (induction s)
  case (Cons c s)
  then have c: "is_scalar c" and IH: "split_slash (utf8_bytes s) = map utf8_bytes (split_at_slash s)"
    by simp_all
  show ?case
  proof (cases "c = 47")
    case True
    then show ?thesis using IH by (simp add: utf8_bytes_Cons utf8_char_def)
  next
    case False
    have "47 \<notin> set (map of_nat (utf8_char c) :: byte list)"
      using utf8_char_no_slash [OF c False] by simp
    then show ?thesis
      using False IH by (simp add: utf8_bytes_Cons split_slash_hd_append hd_map map_tl)
  qed
qed simp

lemma split_at_slash_separators:
  "((\<forall>c \<in> set (hd (split_at_slash s)). c \<noteq> 92) \<longrightarrow> hd (split_separators s) = hd (split_at_slash s))
   \<and> (\<forall>t \<in> set (tl (split_at_slash s)). (\<forall>c \<in> set t. c \<noteq> 92) \<longrightarrow> t \<in> set (tl (split_separators s)))"
proof (induction s)
  case (Cons c s)
  have all: "t \<in> set (split_separators s)"
    if "t \<in> set (split_at_slash s)" "\<forall>c \<in> set t. c \<noteq> 92" for t
    using that Cons split_at_slash_neq_Nil [of s] split_separators_neq_Nil [of s]
    by (cases "split_at_slash s"; cases "split_separators s") auto
  have tl: "t \<in> set (split_separators s)" if "t \<in> set (tl (split_separators s))" for t
    using that by (cases "split_separators s") auto
  show ?case
    using Cons all by (auto simp: split_separators_Cons is_separator_def intro: tl)
qed simp

lemma split_at_slash_piece:
  assumes "t \<in> set (split_at_slash s)" and "92 \<notin> set t"
  shows "t \<in> set (split_separators s)"
proof -
  have "\<forall>c \<in> set t. c \<noteq> 92" using assms(2) by auto
  then show ?thesis
    using assms(1) split_at_slash_separators [of s] split_at_slash_neq_Nil [of s]
      split_separators_neq_Nil [of s]
    by (cases "split_at_slash s"; cases "split_separators s") auto
qed

lemma utf8_bytes_single: "is_scalar c \<Longrightarrow> c < 0x80 \<Longrightarrow> utf8_bytes s = [of_nat c] \<Longrightarrow> wf_text s \<Longrightarrow> s = [c]"
proof -
  assume c: "is_scalar c" "c < 0x80" and s: "utf8_bytes s = [of_nat c]" "wf_text s"
  then have "c \<in> set s" by (intro utf8_bytes_ascii) simp_all
  have "length (utf8_bytes s) \<ge> length s"
    by (induction s) (auto simp: utf8_bytes_Cons utf8_char_def)
  then have "length s \<le> 1" using s by simp
  with \<open>c \<in> set s\<close> show "s = [c]" by (cases s) auto
qed

lemma utf8_bytes_dots:
  assumes "wf_text s" and "utf8_bytes s = replicate n 46"
  shows "s = replicate n 46"
  using assms
proof (induction s arbitrary: n)
  case Nil
  then show ?case by simp
next
  case (Cons c s)
  have c: "is_scalar c" using Cons.prems by simp
  have ne: "utf8_char c \<noteq> []" by (simp add: utf8_char_def)
  then have "utf8_bytes (c # s) \<noteq> []" by (simp add: utf8_bytes_Cons)
  then obtain m where n: "n = Suc m" using Cons.prems(2) by (cases n) auto
  have sub: "set (utf8_bytes (c # s)) \<subseteq> {46}" using Cons.prems(2) by auto
  have "unat (of_nat (hd (utf8_char c)) :: byte) = hd (utf8_char c)"
    by (rule unat_of_byte) (use utf8_char_range [OF c] ne in auto)
  moreover have "(of_nat (hd (utf8_char c)) :: byte) = 46"
    using sub hd_in_set [OF ne] by (auto simp: utf8_bytes_Cons)
  moreover have "unat (46 :: byte) = 46" by simp
  ultimately have "hd (utf8_char c) = 46" by metis
  then have c46: "c = 46" using utf8_char_ascii [OF c hd_in_set [OF ne]] by simp
  then have "utf8_bytes s = replicate m 46" using Cons.prems(2) n by (simp add: utf8_bytes_Cons utf8_char_def)
  then show ?case using Cons c46 n by simp
qed

lemma wf_text_split_at_slash: "wf_text s \<Longrightarrow> t \<in> set (split_at_slash s) \<Longrightarrow> wf_text t"
proof (induction s arbitrary: t)
  case (Cons c s)
  then show ?case
    by (cases "split_at_slash s") (auto split: if_splits)
qed simp

text \<open>A path that \<^verbatim>\<open>validate_relative_path\<close> accepts stays below every root: it is relative, all
  its components are plain names, and joining it to a root appends exactly those components to
  the root's.
\<close>

lemma validated_path_stays_below_root:
  assumes "wf_text s" and "validate_relative_path s = Inr ()"
  shows "all_normal (utf8_bytes s)
    \<and> components (path_join base (utf8_bytes s)) = components base @ components (utf8_bytes s)
    \<and> components (utf8_bytes s) \<noteq> []
    \<and> path_starts_with (path_join base (utf8_bytes s)) base"
proof -
  let ?ts = "split_at_slash s"
  have ok: "s \<noteq> []" "\<not> is_separator (hd s)" "list_all (\<lambda>t. \<not> bad_component t) (split_separators s)"
    using assms(2) by (auto simp: validate_relative_path_def validate_string_def try_bind_Inr
        list_ex_iff list_all_iff split: if_splits)
  have seg: "\<exists>b. seg_component (utf8_bytes t) = Some (Normal b)" if t: "t \<in> set ?ts" for t
  proof -
    have w: "wf_text t" using wf_text_split_at_slash [OF assms(1) t] .
    have "t \<notin> {replicate 0 46, replicate 1 46, replicate 2 46}"
    proof
      assume d: "t \<in> {replicate 0 46, replicate 1 46, replicate 2 46}"
      then have "92 \<notin> set t" by auto
      then have "t \<in> set (split_separators s)" using t by (rule split_at_slash_piece [rotated])
      then have "\<not> bad_component t" using ok(3) by (simp add: list_all_iff)
      with d show False by (auto simp: bad_component_def numeral_2_eq_2)
    qed
    then have "utf8_bytes t \<noteq> replicate n 46" if "n \<in> {0, 1, 2}" for n
      using utf8_bytes_dots [OF w] that by blast
    from this [of 0] this [of 1] this [of 2] show ?thesis
      by (simp add: seg_component_def numeral_2_eq_2)
  qed
  have rootless: "\<not> has_root (utf8_bytes s)"
  proof (cases s)
    case (Cons c s')
    have c: "is_scalar c" "c \<noteq> 47" using Cons assms(1) ok by (auto simp: is_separator_def)
    have "utf8_char c \<noteq> []" by (simp add: utf8_char_def)
    then show ?thesis using Cons utf8_char_no_slash [OF c]
      by (cases "utf8_char c") (auto simp: utf8_bytes_Cons)
  qed simp
  have hd: "hd (split_slash (utf8_bytes s)) \<noteq> [46]"
  proof -
    have "\<exists>b. seg_component (utf8_bytes (hd ?ts)) = Some (Normal b)" using seg by (simp add: hd_in_set)
    then show ?thesis
      by (auto simp: split_slash_utf8 [OF assms(1)] hd_map seg_component_def split: if_splits)
  qed
  have body: "body_components (map utf8_bytes ts) = map (\<lambda>t. the (seg_component (utf8_bytes t))) ts"
    if "set ts \<subseteq> set ?ts" for ts
    using that by (induction ts) (auto dest!: seg)
  have comps: "components (utf8_bytes s) = map (\<lambda>t. the (seg_component (utf8_bytes t))) ?ts"
    using rootless hd body [of ?ts] by (simp add: components_def split_slash_utf8 [OF assms(1)])
  have norm: "all_normal (utf8_bytes s)"
    unfolding all_normal_def comps by (auto simp: list_all_iff dest!: seg)
  then show ?thesis
    using comps by (simp add: components_join_all_normal path_starts_with_join)
qed

theorem validated_path_stays_below_root_witness:
  "wf_text (lit ''docs/a.txt'') \<and> validate_relative_path (lit ''docs/a.txt'') = Inr ()
   \<and> all_normal (utf8_bytes (lit ''docs/a.txt''))"
proof -
  have w: "wf_text (lit ''docs/a.txt'')" by (simp add: lit_simps is_scalar_def)
  have b: "utf8_bytes (lit ''docs/a.txt'') = map of_nat (lit ''docs/a.txt'')"
    by (rule utf8_bytes_ascii_text) (simp add: lit_simps)
  have "split_separators (lit ''docs/a.txt'') = [lit ''docs'', lit ''a.txt'']"
    by (simp add: lit_simps split_separators_Cons is_separator_def)
  moreover have "\<not> bad_component (lit ''docs'')" "\<not> bad_component (lit ''a.txt'')"
    by (simp_all add: bad_component_def lit_simps ends_with_any_def is_windows_device_component_def
        first_split_def trim_end_by_def to_ascii_uppercase_def upper_char_def is_ascii_lower_def)
  ultimately have v: "validate_relative_path (lit ''docs/a.txt'') = Inr ()"
    by (simp add: validate_relative_path_def validate_string_def b MAX_RELATIVE_PATH_BYTES_def)
       (simp add: lit_simps is_separator_def)
  show ?thesis using validated_path_stays_below_root [OF w v] w v by blast
qed

end
