(* ===== verification/Envelope_Integrity.thy ===== *)
theory Envelope_Integrity
  imports Envelope_Properties "HOL-Library.Multiset"
begin

text \<open>
  What a valid execution envelope guarantees: it binds exactly the approved proposal items, its
  operations are numbered and depend backwards, and the consent binding recomputed from it is
  the one built from the stored execution. A stored execution with its envelope, for the
  witnesses, is at the end.
\<close>

section \<open>The approved set and the operations of an envelope\<close>

definition bound_ids :: "approved_operation list \<Rightarrow> ustring list" where
  "bound_ids operations = List.map_filter ao_proposal_operation_id operations"

lemma bound_ids_simps [simp]:
  "bound_ids [] = []"
  "bound_ids (x # xs) =
     (case ao_proposal_operation_id x of None \<Rightarrow> bound_ids xs | Some p \<Rightarrow> p # bound_ids xs)"
  by (simp_all add: bound_ids_def List.map_filter_def split: option.splits)

lemma validate_approved_ids_Inr:
  assumes "validate_approved_ids L previous seen xs = Inr out"
  shows "out = seen \<union> set xs \<and> distinct xs \<and> set xs \<inter> seen = {}
    \<and> (\<forall>x \<in> set xs. \<exists>u. parse_uuid L x = Some u)"
  using assms
proof (induction xs arbitrary: previous seen)
  case (Cons x xs)
  then obtain u where u: "validate_domain_id L x (lit ''approved operation id'') = Inr u"
    and x: "x \<notin> seen"
    and r: "validate_approved_ids L (Some u) (insert x seen) xs = Inr out"
    by (auto simp: try_bind_Inr split: if_splits)
  have "parse_uuid L x = Some u" using u by (simp add: validate_domain_id_def try_bind_Inr ok_or_Inr)
  then show ?case using Cons.IH [OF r] x by auto
qed simp

definition observed_count :: "(ustring \<Rightarrow> nat option) \<Rightarrow> ustring \<Rightarrow> nat" where
  "observed_count f i = (case f i of None \<Rightarrow> 0 | Some n \<Rightarrow> n)"

lemma validate_dependencies_Inr:
  "validate_dependencies L ids seen ds = Inr () \<Longrightarrow> set ds \<subseteq> ids \<and> distinct ds \<and> set ds \<inter> seen = {}"
  by (induction L ids seen ds rule: validate_dependencies.induct)
     (auto simp: try_bind_Inr split: if_splits)

lemma observe_proposal_Inr:
  assumes "observe_proposal L approved p observed = Inr observed'"
  shows "(\<forall>q. p = Some q \<longrightarrow> q \<in> approved)
    \<and> (\<forall>i. observed_count observed' i = observed_count observed i + (if p = Some i then 1 else 0))"
  using assms
  by (auto simp: observe_proposal_def observed_count_def try_bind_Inr split: option.splits if_splits)

definition needs_proposal :: "operation_primitive \<Rightarrow> bool" where
  "needs_proposal p \<longleftrightarrow>
     (case p of PrimSameVolumeMove _ \<Rightarrow> True | PrimSameVolumeRename _ \<Rightarrow> True
      | PrimSameVolumeMoveAndRename _ \<Rightarrow> True | _ \<Rightarrow> False)"

definition forbids_proposal :: "operation_primitive \<Rightarrow> bool" where
  "forbids_proposal p \<longleftrightarrow>
     (case p of PrimCreateDirectory _ \<Rightarrow> True | PrimInternalStage _ \<Rightarrow> True | _ \<Rightarrow> False)"

lemma proposal_binding_check_iff:
  "proposal_binding_check x = Inr () \<longleftrightarrow>
     (needs_proposal (ao_primitive x) \<longrightarrow> ao_proposal_operation_id x \<noteq> None)
     \<and> (forbids_proposal (ao_primitive x) \<longrightarrow> ao_proposal_operation_id x = None)"
  by (auto simp: proposal_binding_check_def needs_proposal_def forbids_proposal_def Let_def
      split: operation_primitive.splits)

text \<open>What one accepted operation satisfies, given the ids before it.\<close>

definition operation_ok ::
  "'a protocol_libs_scheme \<Rightarrow> volume_manifest \<Rightarrow> ustring set \<Rightarrow> approved_operation \<Rightarrow> bool" where
  "operation_ok L v approved x \<longleftrightarrow>
     primitive_validate (ao_primitive x) v = Inr ()
     \<and> (\<forall>p. ao_proposal_operation_id x = Some p \<longrightarrow> p \<in> approved)
     \<and> (needs_proposal (ao_primitive x) \<longrightarrow> ao_proposal_operation_id x \<noteq> None)
     \<and> (forbids_proposal (ao_primitive x) \<longrightarrow> ao_proposal_operation_id x = None)"

lemma validate_operations_Inr:
  assumes "validate_operations L v approved index ids observed xs = Inr out"
  shows "distinct (map ao_operation_id xs) \<and> ao_operation_id ` set xs \<inter> ids = {}
    \<and> list_all (operation_ok L v approved) xs
    \<and> (\<forall>k < length xs. ao_sequence (xs ! k) = of_nat (index + k) \<and> index + k < 2 ^ 32
         \<and> set (ao_dependencies (xs ! k)) \<subseteq> ids \<union> ao_operation_id ` set (take (Suc k) xs))
    \<and> (\<forall>i. observed_count out i = observed_count observed i + count_list (bound_ids xs) i)"
  using assms
proof (induction xs arbitrary: index ids observed)
  case Nil
  then show ?case by simp
next
  case (Cons x xs)
  let ?ids = "insert (ao_operation_id x) ids"
  obtain observed' where i: "index < 2 ^ 32" and s: "ao_sequence x = of_nat index"
    and n: "ao_operation_id x \<notin> ids"
    and d: "validate_dependencies L ?ids {} (ao_dependencies x) = Inr ()"
    and o: "observe_proposal L approved (ao_proposal_operation_id x) observed = Inr observed'"
    and p: "primitive_validate (ao_primitive x) v = Inr ()"
    and b: "proposal_binding_check x = Inr ()"
    and r: "validate_operations L v approved (Suc index) ?ids observed' xs = Inr out"
    using Cons.prems by (auto simp: try_bind_Inr Let_def split: if_splits)
  note IH = Cons.IH [OF r]
  have ok: "operation_ok L v approved x"
    using p b observe_proposal_Inr [OF o] by (auto simp: operation_ok_def proposal_binding_check_iff)
  have deps: "set (ao_dependencies x) \<subseteq> ?ids" using validate_dependencies_Inr [OF d] by simp
  have seq: "ao_sequence ((x # xs) ! k) = of_nat (index + k) \<and> index + k < 2 ^ 32
      \<and> set (ao_dependencies ((x # xs) ! k)) \<subseteq> ids \<union> ao_operation_id ` set (take (Suc k) (x # xs))"
    if "k < length (x # xs)" for k
  proof (cases k)
    case 0
    then show ?thesis using s i deps by auto
  next
    case (Suc m)
    then have m: "m < length xs" using that by simp
    then show ?thesis using IH Suc by (auto dest!: spec [of _ m])
  qed
  have cnt: "observed_count out i = observed_count observed i + count_list (bound_ids (x # xs)) i" for i
    using IH observe_proposal_Inr [OF o] by (auto split: option.splits)
  show ?case using IH n ok seq cnt by auto
qed

lemma envelope_validate_Inr:
  assumes "envelope_validate L e = Inr ()"
  shows "\<exists>observed. validate_operations L (rbm_volume (env_root_binding e))
      (set (fpl_approved_operation_ids (env_plan e))) 0 {} (\<lambda>_. None) (env_operations e) = Inr observed
    \<and> (\<forall>i \<in> set (fpl_approved_operation_ids (env_plan e)). observed i = Some 1)
    \<and> distinct (fpl_approved_operation_ids (env_plan e))
    \<and> length (env_operations e) \<le> MAX_MANIFESTS"
proof -
  obtain approved observed where
    a: "validate_approved_ids L None {} (fpl_approved_operation_ids (env_plan e)) = Inr approved"
    and l: "length (env_operations e) \<le> MAX_MANIFESTS"
    and v: "validate_operations L (rbm_volume (env_root_binding e)) approved 0 {} (\<lambda>_. None)
      (env_operations e) = Inr observed"
    and c: "\<not> (\<exists>i \<in> approved. observed i \<noteq> Some 1)"
    using assms by (auto simp: envelope_validate_def Let_def try_bind_Inr split: if_splits)
  have "approved = set (fpl_approved_operation_ids (env_plan e))"
    and "distinct (fpl_approved_operation_ids (env_plan e))"
    using validate_approved_ids_Inr [OF a] by simp_all
  then show ?thesis using v c l by auto
qed

lemma count_list_distinct: "distinct xs \<Longrightarrow> x \<in> set xs \<Longrightarrow> count_list xs x = 1"
  by (induction xs) (auto simp: count_list_0_iff)

text \<open>C13: A valid envelope carries exactly what was approved, in dependency order: the proposal
  items bound by its operations are the approved items, each exactly once; operation ids are
  distinct and numbered in order; an operation depends only on operations up to itself; every
  file operation is bound to an approved item, and no directory creation or internal staging
  step is.
\<close>

theorem valid_envelope_is_exact:
  assumes "envelope_validate L e = Inr ()"
  shows "mset (bound_ids (env_operations e)) = mset (fpl_approved_operation_ids (env_plan e))
    \<and> distinct (map ao_operation_id (env_operations e))
    \<and> (\<forall>k < length (env_operations e).
         unat (ao_sequence (env_operations e ! k)) = k
         \<and> set (ao_dependencies (env_operations e ! k))
             \<subseteq> ao_operation_id ` set (take (Suc k) (env_operations e)))
    \<and> (\<forall>x \<in> set (env_operations e).
         (needs_proposal (ao_primitive x) \<longrightarrow> ao_proposal_operation_id x \<noteq> None)
         \<and> (forbids_proposal (ao_primitive x) \<longrightarrow> ao_proposal_operation_id x = None))"
proof -
  let ?A = "fpl_approved_operation_ids (env_plan e)" and ?ops = "env_operations e"
  obtain observed where v: "validate_operations L (rbm_volume (env_root_binding e)) (set ?A) 0 {}
      (\<lambda>_. None) ?ops = Inr observed"
    and one: "\<forall>i \<in> set ?A. observed i = Some 1" and d: "distinct ?A"
    using envelope_validate_Inr [OF assms] by blast
  note V = validate_operations_Inr [OF v]
  have sub: "set (bound_ids ?ops) \<subseteq> set ?A"
    using V by (auto simp: bound_ids_def List.map_filter_def list_all_iff operation_ok_def)
  have "count_list (bound_ids ?ops) i = count_list ?A i" for i
  proof (cases "i \<in> set ?A")
    case True
    then have "observed_count observed i = 1" using one by (simp add: observed_count_def)
    then have "count_list (bound_ids ?ops) i = 1" using V by (simp add: observed_count_def)
    then show ?thesis using True d using count_list_distinct [of ?A i] by simp
  next
    case False
    then show ?thesis using sub by (metis count_list_0_iff subsetD)
  qed
  then have m: "mset (bound_ids ?ops) = mset ?A"
    by (intro multiset_eqI) (simp add: count_mset)
  have "unat (ao_sequence (?ops ! k)) = k" if "k < length ?ops" for k
    using V that by (simp add: unsigned_of_nat take_bit_eq_mod)
  then show ?thesis using m V by (auto simp: list_all_iff operation_ok_def)
qed

section \<open>The consent binding of an envelope\<close>

lemma envelope_from_detail_Inr:
  assumes "envelope_from_detail L d purpose = Inr e"
  shows "\<exists>digest root_b policy consent.
    decode_fixed_hex (aep_digest_hex (xs_approval (xd_session d))) = Inr digest
    \<and> root_from_live (aep_destination_root (xs_approval (xd_session d))) = Inr root_b
    \<and> policy_from_live (aep_safety_policy (xs_approval (xd_session d))) = Inr policy
    \<and> consent_from_live (xs_consent (xd_session d)) purpose = Inr consent
    \<and> fpl_digest (env_plan e) = digest \<and> env_root_binding e = root_b
    \<and> env_safety_policy e = policy \<and> env_consent e = consent
    \<and> env_execution_id e = id_string L (xs_id (xd_session d))
    \<and> env_root_id e = id_string L (xs_root_id (xd_session d))
    \<and> fpl_material_version (env_plan e) = aep_material_version (xs_approval (xd_session d))
    \<and> fpl_plan_id (env_plan e) = id_string L (aep_plan_id (xs_approval (xd_session d)))
    \<and> fpl_proposal_id (env_plan e) = id_string L (aep_proposal_id (xs_approval (xd_session d)))
    \<and> fpl_proposal_revision_id (env_plan e)
        = id_string L (aep_proposal_revision_id (xs_approval (xd_session d)))
    \<and> fpl_proposal_revision (env_plan e) = aep_proposal_revision (xs_approval (xd_session d))
    \<and> fpl_source_snapshot_version (env_plan e)
        = id_string L (aep_source_snapshot_version (xs_approval (xd_session d)))
    \<and> fpl_approved_operation_ids (env_plan e)
        = map (id_string L) (aep_approved_operation_ids (xs_approval (xd_session d)))
    \<and> fpl_operation_count (env_plan e) = aep_operation_count (xs_approval (xd_session d))
    \<and> envelope_validate L e = Inr ()"
  using assms
  by (auto simp: envelope_from_detail_def Let_def try_bind_Inr split: if_splits)

lemma envelope_validate_parts:
  assumes "envelope_validate L e = Inr ()"
  shows "is_ok (validate_domain_id L (env_execution_id e) (lit ''execution id''))"
    and "is_ok (validate_domain_id L (env_root_id e) (lit ''root id''))"
    and "is_ok (validate_domain_id L (fpl_plan_id (env_plan e)) (lit ''plan id''))"
    and "is_ok (validate_domain_id L (fpl_proposal_id (env_plan e)) (lit ''proposal id''))"
    and "is_ok (validate_domain_id L (fpl_proposal_revision_id (env_plan e)) (lit ''proposal revision id''))"
    and "is_ok (validate_domain_id L (fpl_source_snapshot_version (env_plan e)) (lit ''source snapshot version''))"
    and "fpl_material_version (env_plan e) = EXECUTION_PLAN_MATERIAL_VERSION"
    and "\<not> fixed_is_zero (fpl_digest (env_plan e))"
    and "fpl_approved_operation_ids (env_plan e) \<noteq> []"
    and "length (fpl_approved_operation_ids (env_plan e)) \<le> MAX_MANIFESTS"
    and "unat (fpl_operation_count (env_plan e)) = length (fpl_approved_operation_ids (env_plan e))"
    and "is_ok (validate_approved_ids L None {} (fpl_approved_operation_ids (env_plan e)))"
    and "root_binding_validate (env_root_binding e) = Inr ()"
    and "safety_policy_validate (env_safety_policy e) = Inr ()"
    and "\<not> fixed_is_zero (spm_digest (env_safety_policy e))"
    and "attested_consent_validate (env_consent e) = Inr ()"
  using assms by (auto simp: envelope_validate_def Let_def try_bind_Inr split: if_splits)

lemma is_ok_Inr: "is_ok r \<Longrightarrow> \<exists>x. r = Inr x"
  by (cases r) simp_all

text \<open>The binding of a valid envelope validates, but for the nonce the envelope never checks.\<close>

lemma binding_of_valid_envelope:
  assumes "envelope_validate L e = Inr ()"
  shows "consent_binding_validate L (consent_binding_from_envelope e) = Inr ()
    \<longleftrightarrow> \<not> fixed_is_zero (acm_consent_nonce (env_consent e))"
proof -
  note parts = envelope_validate_parts [OF assms]
  have times: "acm_issued_at_unix_ms (env_consent e) \<ge> 0"
    "acm_expires_at_unix_ms (env_consent e) > acm_issued_at_unix_ms (env_consent e)"
    using parts(16) by (auto simp: attested_consent_validate_def split: if_splits)
  obtain a b c d f g h where ids:
    "validate_domain_id L (env_execution_id e) (lit ''execution id'') = Inr a"
    "validate_domain_id L (env_root_id e) (lit ''root id'') = Inr b"
    "validate_domain_id L (fpl_plan_id (env_plan e)) (lit ''plan id'') = Inr c"
    "validate_domain_id L (fpl_proposal_id (env_plan e)) (lit ''proposal id'') = Inr d"
    "validate_domain_id L (fpl_proposal_revision_id (env_plan e)) (lit ''proposal revision id'') = Inr f"
    "validate_domain_id L (fpl_source_snapshot_version (env_plan e)) (lit ''source snapshot version'') = Inr g"
    "validate_approved_ids L None {} (fpl_approved_operation_ids (env_plan e)) = Inr h"
    using parts(1-6,12) is_ok_Inr by metis
  show ?thesis
    using parts(7-11,13-15) times ids
    by (simp add: consent_binding_validate_def consent_binding_from_envelope_def linorder_not_le
        linorder_not_less del: validate_approved_ids.simps)
qed

text \<open>
  The binding recomputed from the envelope of a stored execution is valid unless its nonce is
  zero, and it is the one built from the stored execution.
\<close>

lemma validated_binding:
  assumes "envelope_from_detail L d purpose = Inr e"
  shows "consent_binding_validate L (consent_binding_from_envelope e)
    = (if fixed_is_zero (acm_consent_nonce (env_consent e))
       then Inl (ValInvalidField (lit ''consent attestation binding'')) else Inr ())"
proof -
  have valid: "envelope_validate L e = Inr ()"
    using envelope_from_detail_Inr [OF assms] by blast
  note parts = envelope_validate_parts [OF valid]
  show ?thesis
  proof (cases "fixed_is_zero (acm_consent_nonce (env_consent e))")
    case True
    then show ?thesis
      using parts(1-6)
      by (auto simp: consent_binding_validate_def consent_binding_from_envelope_def dest!: is_ok_Inr)
  qed (use binding_of_valid_envelope [OF valid] in simp)
qed

lemma stored_binding_of_envelope:
  assumes "envelope_from_detail L d purpose = Inr e"
  shows "consent_binding_from_detail L d (acm_consent_nonce (env_consent e))
      (acm_issued_at_unix_ms (env_consent e)) (acm_expires_at_unix_ms (env_consent e))
    = (if fixed_is_zero (acm_consent_nonce (env_consent e))
       then Inl (ValInvalidField (lit ''consent attestation binding''))
       else Inr (consent_binding_from_envelope e))"
proof -
  let ?b = "consent_binding_from_envelope e"
  have "consent_binding_from_detail L d (acm_consent_nonce (env_consent e))
      (acm_issued_at_unix_ms (env_consent e)) (acm_expires_at_unix_ms (env_consent e))
    = try_bind (consent_binding_validate L ?b) (\<lambda>_. Inr ?b)"
    using envelope_from_detail_Inr [OF assms]
    by (auto simp: consent_binding_from_detail_def consent_binding_from_envelope_def Let_def)
  then show ?thesis using validated_binding [OF assms] by simp
qed

section \<open>A stored execution\<close>

text \<open>
  What the sources rely on of \<^verbatim>\<open>Uuid\<close>: parsing reads back what \<^verbatim>\<open>Display\<close> prints, which
  is 36 ASCII characters and no NUL.
\<close>

definition uuid_round_trip :: "'a protocol_libs_scheme \<Rightarrow> bool" where
  "uuid_round_trip L \<longleftrightarrow>
     (\<forall>u. parse_uuid L (id_string L u) = Some u \<and> length (uuid_text L u) = 36
        \<and> (\<forall>b \<in> set (uuid_text L u). 0 < b \<and> b < 0x80))"

lemma validate_printed_id:
  assumes "uuid_round_trip L"
  shows "validate_domain_id L (id_string L u) label = Inr u"
proof -
  have t: "length (uuid_text L u) = 36" "\<forall>b \<in> set (uuid_text L u). 0 < b \<and> b < 0x80"
    and p: "parse_uuid L (id_string L u) = Some u"
    using assms by (simp_all add: uuid_round_trip_def)
  have a: "list_all (\<lambda>c. c < 0x80) (id_string L u)"
    using t(2) by (auto simp: id_string_def list_all_iff word_less_nat_alt)
  have z: "0 \<notin> set (id_string L u)"
    using t(2) by (auto simp: id_string_def word_less_nat_alt unat_eq_0)
  have "length (id_string L u) = 36" using t(1) by (simp add: id_string_def)
  then show ?thesis
    using p z by (auto simp: validate_domain_id_def validate_string_def MAX_ID_BYTES_def
        utf8_bytes_ascii_text [OF a])
qed

lemma id_string_inj: "uuid_round_trip L \<Longrightarrow> id_string L u = id_string L w \<longleftrightarrow> u = w"
  by (metis option.inject uuid_round_trip_def)

definition sample_volume :: volume_identity where
  "sample_volume =
     \<lparr>vol_platform = Linux, vol_stable_identifier = lit ''v'', vol_filesystem_type = None,
      vol_case_sensitive = True, vol_removable = False, vol_local = True\<rparr>"

definition sample_native :: native_path where
  "sample_native = \<lparr>np_encoding = UnixBytes, np_bytes = [97]\<rparr>"

definition sample_stored_fingerprint :: file_fingerprint where
  "sample_stored_fingerprint =
     \<lparr>fp_native_identity =
        \<lparr>nid_volume = sample_volume, nid_object_key = [1], nid_parent_key = [2],
         nid_leaf_name = sample_native, nid_link_count = 1, nid_reparse_tag = None\<rparr>,
      fp_byte_size = 10, fp_modified_at_ns = None, fp_created_at_ns = None, fp_attributes = 0,
      fp_quick_digest = None, fp_content_digest = Some 5\<rparr>"

definition sample_operation :: execution_operation where
  "sample_operation =
     \<lparr>xop_id = 20, xop_execution_id = 1, xop_proposal_operation_id = None,
      xop_kind = Xk_CreateDirectory, xop_source_relative_path = None,
      xop_destination_relative_path = lit ''b'', xop_original_source_relative_path = None,
      xop_expected_source_hash = None, xop_expected_source_size = None,
      xop_expected_source_modified_at = None, xop_live_fingerprint = None,
      xop_post_fingerprint = None, xop_preconditions = [], xop_dependencies = [],
      xop_sequence = 0, xop_status = Op_PreflightOk, xop_directory_existed_before = Some False,
      xop_reason = None, xop_error_code = None, xop_error_message = None, xop_started_at = None,
      xop_completed_at = None, xop_rolled_back_at = None\<rparr>"

definition sample_move :: execution_operation where
  "sample_move = sample_operation
     \<lparr>xop_id := 21, xop_proposal_operation_id := Some 6, xop_kind := Xk_Move,
      xop_source_relative_path := Some (lit ''a''), xop_destination_relative_path := lit ''b/a'',
      xop_original_source_relative_path := Some (lit ''a''),
      xop_live_fingerprint := Some sample_stored_fingerprint, xop_dependencies := [20],
      xop_sequence := 1, xop_directory_existed_before := None\<rparr>"

definition sample_approval :: approved_execution_plan where
  "sample_approval =
     \<lparr>aep_material_version = EXECUTION_PLAN_MATERIAL_VERSION, aep_execution_id = 1,
      aep_plan_id = 2, aep_proposal_id = 3, aep_proposal_revision_id = 4, aep_proposal_revision = 1,
      aep_source_snapshot_version = 5, aep_approved_operation_ids = [6], aep_operation_count = 1,
      aep_destination_root =
        \<lparr>xrb_canonical_path = \<lparr>np_encoding = UnixBytes, np_bytes = [47, 97]\<rparr>, xrb_display_path = lit ''a'', xrb_volume = sample_volume\<rparr>,
      aep_safety_policy =
        \<lparr>xsp_version = EXECUTION_SAFETY_POLICY_VERSION, xsp_maximum_rehash_bytes = 1,
         xsp_allow_qualified_case_only_rename = False, xsp_digest_hex = fixed_to_hex 9\<rparr>,
      aep_approval_timestamp = Some (lit ''t''), aep_user_confirmed = True,
      aep_digest_hex = fixed_to_hex 7\<rparr>"

text \<open>The consent carries the given attestation code.\<close>

definition sample_consent_of :: "digest \<Rightarrow> execution_consent" where
  "sample_consent_of mac =
     \<lparr>xc_state = Consent_Attested, xc_issued_at_unix_ms = Some 1000,
      xc_expires_at_unix_ms = Some 600000, xc_attested_at_unix_ms = Some 2000,
      xc_consumed_at_unix_ms = None, xc_invalidated_at_unix_ms = None,
      xc_invalidation_reason = None, xc_nonce = Some 11, xc_attestation_mac = Some mac\<rparr>"

definition sample_detail :: "digest \<Rightarrow> execution_detail" where
  "sample_detail mac =
     \<lparr>xd_session =
        \<lparr>xs_id = 1, xs_plan_id = 2, xs_proposal_id = 3, xs_proposal_revision_id = 4,
         xs_proposal_revision = 1, xs_workspace_id = 30, xs_root_id = 31, xs_source_scan_id = 5,
         xs_status = St_Approved, xs_recovery_state = Rec_RecoveryNotRequired,
         xs_plan_digest_hex = fixed_to_hex 7, xs_approval = sample_approval,
         xs_consent = sample_consent_of mac, xs_summary = execution_summary_default,
         xs_current_operation = None, xs_rollback_available = False,
         xs_confirmation_phrase_required = False, xs_created_at = lit ''t'', xs_approved_at = None,
         xs_started_at = None, xs_completed_at = None, xs_rolled_back_at = None, xs_error = None\<rparr>,
      xd_operations = [sample_operation, sample_move]\<rparr>"

lemma simple_relative_paths:
  "validate_relative_path (lit ''a'') = Inr ()"
  "validate_relative_path (lit ''b'') = Inr ()"
  "validate_relative_path (lit ''b/a'') = Inr ()"
  by (simp_all add: validate_relative_path_def validate_string_def lit_simps utf8_bytes_Cons
      utf8_char_def MAX_RELATIVE_PATH_BYTES_def is_separator_def split_separators_Cons
      bad_component_def ends_with_any_def is_windows_device_component_def first_split_def
      trim_end_by_def to_ascii_uppercase_def upper_char_def is_ascii_lower_def)

lemma short_strings:
  "validate_string (lit ''a'') MAX_NATIVE_PATH_BYTES l = Inr ()"
  "validate_string (lit ''v'') MAX_TEXT_BYTES l = Inr ()"
  "validate_string (lit ''t'') MAX_TEXT_BYTES l = Inr ()"
  "validate_string EXECUTION_SAFETY_POLICY_VERSION MAX_TEXT_BYTES l = Inr ()"
  by (simp_all add: validate_string_def lit_simps utf8_bytes_Cons utf8_char_def MAX_TEXT_BYTES_def
      MAX_NATIVE_PATH_BYTES_def EXECUTION_SAFETY_POLICY_VERSION_def)

lemmas manifest_defs = native_path_from_live_def volume_from_live_def root_from_live_def
  policy_from_live_def expected_state_from_live_def hex_bytes_new_def native_path_validate_def
  volume_validate_def root_binding_validate_def safety_policy_validate_def
  file_identity_validate_def file_move_validate_def attested_consent_validate_def

lemmas sample_evaluation = manifest_defs envelope_from_detail_def Let_def sample_detail_def
  sample_approval_def sample_operation_def sample_move_def sample_consent_of_def sample_native_def
  sample_volume_def sample_stored_fingerprint_def purpose_state_check_def is_frozen_operation_def
  operation_from_live_def primitive_from_live_def file_move_from_live_def consent_from_live_def
  decode_fixed_to_hex envelope_validate_def simple_relative_paths short_strings
  short_strings(1) [unfolded MAX_NATIVE_PATH_BYTES_def] observe_proposal_def
  proposal_binding_check_def fixed_is_zero_iff MAX_MANIFESTS_def MAX_NATIVE_PATH_BYTES_def
  MAX_IDENTITY_BYTES_def MAX_EXECUTION_VERIFICATION_BYTES_def

lemma sample_detail_has_envelope:
  assumes "uuid_round_trip L"
  shows "\<exists>e. envelope_from_detail L (sample_detail mac) PurposeForward = Inr e"
proof -
  note ids = validate_printed_id [OF assms] id_string_inj [OF assms]
  show ?thesis
    by (simp add: sample_evaluation ids)
qed

text \<open>A \<^verbatim>\<open>Uuid\<close> printed with hyphens and read back.\<close>

definition hyphenate :: "'b list \<Rightarrow> 'b \<Rightarrow> 'b list" where
  "hyphenate h c = take 8 h @ c # take 4 (drop 8 h) @ c # take 4 (drop 12 h) @ c # take 4 (drop 16 h)
     @ c # drop 20 h"

definition uuid_display_text :: "uuid \<Rightarrow> ustring" where
  "uuid_display_text u = hyphenate (hex_text (word_le_bytes 16 u)) 45"

definition uuid_parse_text :: "ustring \<Rightarrow> uuid option" where
  "uuid_parse_text s =
     (case decode_pairs (map of_nat (filter (\<lambda>c. c \<noteq> 45) s)) of
        Inl e \<Rightarrow> None | Inr bs \<Rightarrow> Some (of_nat (from_le bs)))"

lemma filter_hyphenate: "c \<notin> set h \<Longrightarrow> filter (\<lambda>x. x \<noteq> c) (hyphenate h c) = h"
proof -
  assume c: "c \<notin> set h"
  have f: "filter (\<lambda>x. x \<noteq> c) t = t" if "set t \<subseteq> set h" for t
    using that c by (auto intro!: filter_True)
  have "filter (\<lambda>x. x \<noteq> c) (hyphenate h c)
      = take 8 h @ take 4 (drop 8 h) @ take 4 (drop 12 h) @ take 4 (drop 16 h) @ drop 20 h"
    by (simp add: hyphenate_def f set_drop_subset set_take_subset order_trans [OF set_take_subset set_drop_subset])
  also have "\<dots> = take 8 h @ drop 8 h"
    using append_take_drop_id [of 4 "drop 8 h"] append_take_drop_id [of 4 "drop 12 h"]
      append_take_drop_id [of 4 "drop 16 h"] by simp
  finally show ?thesis by simp
qed

lemma hex_digit_range: "n < 16 \<Longrightarrow> hex_digit n \<noteq> 45 \<and> 0 < hex_digit n \<and> hex_digit n < 0x80"
  by (auto simp: hex_digit_def split: if_splits)

lemma hex_text_range: "c \<in> set (hex_text bs) \<Longrightarrow> c \<noteq> 45 \<and> 0 < c \<and> c < 0x80"
proof (induction bs)
  case (Cons b bs)
  have "unat b < 256" using unsigned_less [of b] by simp
  then have "unat b div 16 < 16" "unat b mod 16 < 16" by auto
  then show ?case using Cons hex_digit_range [of "unat b div 16"] hex_digit_range [of "unat b mod 16"]
    by (auto simp: hex_byte_def)
qed simp

lemma uuid_text_round_trip: "uuid_parse_text (uuid_display_text u) = Some u"
proof -
  have "45 \<notin> set (hex_text (word_le_bytes 16 u))" using hex_text_range by blast
  moreover have "from_le (word_le_bytes 16 u) = unat u"
    using unsigned_less [of u, where ?'a = nat] by (simp add: word_le_bytes_def from_le_le_bytes)
  ultimately show ?thesis
    by (simp add: uuid_parse_text_def uuid_display_text_def filter_hyphenate decode_pairs_hex_text)
qed

lemma uuid_display_range: "c \<in> set (uuid_display_text u) \<Longrightarrow> 0 < c \<and> c < 0x80"
  using hex_text_range [of c "word_le_bytes 16 u"]
  by (auto simp: uuid_display_text_def hyphenate_def dest!: in_set_takeD in_set_dropD)

definition sample_protocol_libs :: protocol_libs where
  "sample_protocol_libs =
     \<lparr>blake3 = (\<lambda>b. of_nat (length b)), uuid_text = (\<lambda>u. map of_nat (uuid_display_text u)),
      parse_uuid = uuid_parse_text\<rparr>"

lemma uuid_text_bytes: "map unat (map of_nat (uuid_display_text u) :: byte list) = uuid_display_text u"
  using uuid_display_range [of _ u] by (auto intro!: map_idI simp: unat_of_ascii)

lemma sample_protocol_round_trip:
  assumes "uuid_text L = (\<lambda>u. map of_nat (uuid_display_text u))" and "parse_uuid L = uuid_parse_text"
  shows "uuid_round_trip L"
proof -
  have "length (uuid_display_text u) = 36" for u by (simp add: uuid_display_text_def hyphenate_def)
  moreover have "0 < b \<and> b < 0x80" if "b \<in> set (map of_nat (uuid_display_text u))" for b :: byte and u
    using that uuid_display_range [of _ u]
    by (auto simp: word_less_nat_alt unat_of_ascii)
  ultimately show ?thesis
    using uuid_text_bytes by (auto simp: uuid_round_trip_def id_string_def assms uuid_text_round_trip)
qed

definition sample_envelope :: "'a protocol_libs_scheme \<Rightarrow> digest \<Rightarrow> execution_envelope" where
  "sample_envelope L mac = projr (envelope_from_detail L (sample_detail mac) PurposeForward)"

lemma sample_envelope_of_detail:
  "uuid_round_trip L \<Longrightarrow>
     envelope_from_detail L (sample_detail mac) PurposeForward = Inr (sample_envelope L mac)"
  unfolding sample_envelope_def using sample_detail_has_envelope [of L mac] by force

lemmas sample_envelope_facts = envelope_from_detail_Inr [OF sample_envelope_of_detail]

text \<open>What the sample envelope contains.\<close>

definition sample_create_approved :: "'a protocol_libs_scheme \<Rightarrow> approved_operation" where
  "sample_create_approved L =
     \<lparr>ao_operation_id = id_string L 20, ao_proposal_operation_id = None, ao_sequence = 0,
      ao_dependencies = [], ao_primitive = PrimCreateDirectory (lit ''b'')\<rparr>"

lemma sample_envelope_operations:
  assumes "uuid_round_trip L"
  shows "hd (env_operations (sample_envelope L mac)) = sample_create_approved L"
    and "map ao_operation_id (env_operations (sample_envelope L mac)) = [id_string L 20, id_string L 21]"
    and "env_root_binding (sample_envelope L mac) =
      \<lparr>rbm_canonical_path = \<lparr>npm_encoding = UnixBytes, npm_bytes = [47, 97]\<rparr>,
       rbm_display_path = lit ''a'', rbm_volume = volume_from_live sample_volume\<rparr>"
    and "env_safety_policy (sample_envelope L mac) =
      \<lparr>spm_version = EXECUTION_SAFETY_POLICY_VERSION, spm_maximum_rehash_bytes = 1,
       spm_allow_qualified_case_only_rename = False, spm_digest = 9\<rparr>"
proof -
  note ids = validate_printed_id [OF assms] id_string_inj [OF assms]
  show "hd (env_operations (sample_envelope L mac)) = sample_create_approved L"
    and "map ao_operation_id (env_operations (sample_envelope L mac)) = [id_string L 20, id_string L 21]"
    and "env_root_binding (sample_envelope L mac) =
      \<lparr>rbm_canonical_path = \<lparr>npm_encoding = UnixBytes, npm_bytes = [47, 97]\<rparr>,
       rbm_display_path = lit ''a'', rbm_volume = volume_from_live sample_volume\<rparr>"
    and "env_safety_policy (sample_envelope L mac) =
      \<lparr>spm_version = EXECUTION_SAFETY_POLICY_VERSION, spm_maximum_rehash_bytes = 1,
       spm_allow_qualified_case_only_rename = False, spm_digest = 9\<rparr>"
    by (simp_all add: sample_envelope_def sample_create_approved_def sample_evaluation ids)
qed

lemma sample_libs_round_trip: "uuid_round_trip sample_protocol_libs"
  by (rule sample_protocol_round_trip) (simp_all add: sample_protocol_libs_def)

text \<open>An operation may name itself as its dependency: its own id is already in the set.\<close>

lemma self_dependency_is_accepted:
  assumes "uuid_round_trip L"
  shows "\<exists>e. envelope_from_detail L
      (sample_detail mac\<lparr>xd_operations := [sample_operation\<lparr>xop_dependencies := [20]\<rparr>, sample_move]\<rparr>)
      PurposeForward = Inr e
      \<and> (\<exists>x \<in> set (env_operations e). ao_operation_id x \<in> set (ao_dependencies x))"
proof -
  note ids = validate_printed_id [OF assms] id_string_inj [OF assms]
  show ?thesis
    by (simp add: sample_evaluation ids)
qed

theorem valid_envelope_is_exact_witness:
  "mset (bound_ids (env_operations (sample_envelope sample_protocol_libs 12)))
     = {# id_string sample_protocol_libs 6 #}"
proof -
  note facts = sample_envelope_facts [OF sample_libs_round_trip, of 12]
  have "envelope_validate sample_protocol_libs (sample_envelope sample_protocol_libs 12) = Inr ()"
    using facts by blast
  from valid_envelope_is_exact [OF this] show ?thesis
    using facts by (auto simp: sample_detail_def sample_approval_def)
qed

end
