(* ===== verification/Session_Authenticity.thy ===== *)
theory Session_Authenticity
  imports Executor_Auth Envelope_Integrity
begin

text \<open>
  Authenticity and freshness of the executor protocol: a message verifies exactly when it is
  the message its sender would sign and the clock is inside its window; equal codes mean equal
  messages of the same kind; no request is accepted after the consent of its session expired;
  and the coordinator accepts each response once, in order.
\<close>

section \<open>Signing and verifying\<close>

lemmas mac_records = hello_material.defs open_session_material.defs session_opened_material.defs
  request_material.defs response_material.defs refusal_material.defs hello.defs open_session.defs
  session_opened.defs operation_request.defs operation_response.defs handshake_refusal.defs

lemma require_mac_iff [simp]: "require_mac a b = Inr () \<longleftrightarrow> a = b"
  by (simp add: require_mac_def)

lemma require_versions_iff [simp]:
  "require_versions p s = Inr () \<longleftrightarrow> p = EXECUTOR_PROTOCOL_VERSION \<and> s = EXECUTOR_SCHEMA_VERSION"
  by (simp add: require_versions_def)

lemma own_clock_window: "is_i64 t \<Longrightarrow> within_clock_window t t MAX_CLOCK_SKEW_MS"
  by (auto simp: within_clock_window_def sat_sub_i64_def sat_add_i64_def clamp_i64_def is_i64_def
      MAX_CLOCK_SKEW_MS_def)

lemma message_time_iff:
  assumes "is_i64 sent"
  shows "validate_message_time sent expires s now = Inr () \<longleftrightarrow>
    validate_message_time sent expires s sent = Inr ()
    \<and> within_clock_window sent now MAX_CLOCK_SKEW_MS \<and> now < expires"
  using own_clock_window [OF assms] by (auto simp: validate_message_time_def)

lemma try_bind_unit_Inr:
  "try_bind r k = Inr y \<longleftrightarrow> r = Inr () \<and> k () = Inr y" for r :: "'e + unit"
  by (cases r) auto

lemma request_verify_iff:
  assumes "is_i64 (req_sent_at_unix_ms r)"
  shows "request_verify L r s n key now = Inr () \<longleftrightarrow>
    request_signed L s n (req_message_nonce r) (req_sent_at_unix_ms r) (req_expires_at_unix_ms r)
      (req_operation r) key = Inr r
    \<and> within_clock_window (req_sent_at_unix_ms r) now MAX_CLOCK_SKEW_MS
    \<and> now < req_expires_at_unix_ms r"
  using message_time_iff [OF assms, of "req_expires_at_unix_ms r" "osn_expires_at_unix_ms s" now]
  by (cases r)
     (auto simp: request_verify_def request_signed_def try_bind_Inr Let_def map_err_Inr mac_records
       split: if_splits)

text \<open>C17: A request is accepted exactly when it is the request its sender would sign: the executor
  accepts it in a session, at a sequence number and under a session key if and only if signing
  the same operation, nonce and times for that session and number gives this very message, and
  the moment is inside its clock window and before its expiry.
\<close>

theorem request_accepted_iff_signed:
  assumes "is_i64 (req_sent_at_unix_ms r)"
  shows "request_verify L r s n key now = Inr () \<longleftrightarrow>
    request_signed L s n (req_message_nonce r) (req_sent_at_unix_ms r) (req_expires_at_unix_ms r)
      (req_operation r) key = Inr r
    \<and> within_clock_window (req_sent_at_unix_ms r) now MAX_CLOCK_SKEW_MS
    \<and> now < req_expires_at_unix_ms r"
  using assms by (rule request_verify_iff)

lemma response_verify_iff:
  assumes "is_i64 (rsp_sent_at_unix_ms r)"
  shows "response_verify L r s n operation key now = Inr () \<longleftrightarrow>
    rsp_operation r = operation
    \<and> response_signed L s n (rsp_message_nonce r) (rsp_sent_at_unix_ms r) (rsp_expires_at_unix_ms r)
      operation (rsp_outcome r) key = Inr r
    \<and> within_clock_window (rsp_sent_at_unix_ms r) now MAX_CLOCK_SKEW_MS
    \<and> now < rsp_expires_at_unix_ms r"
  using message_time_iff [OF assms, of "rsp_expires_at_unix_ms r" "osn_expires_at_unix_ms s" now]
  by (cases r)
     (auto simp: response_verify_def response_signed_def try_bind_Inr Let_def map_err_Inr mac_records
       split: if_splits)

text \<open>
  A response is accepted exactly when it is the response the executor would sign for the
  expected operation: the coordinator accepts it at a sequence number if and only if it is
  bound to the operation it asked for, signing it again gives this very message, and the moment
  is inside its clock window and before its expiry.
\<close>

lemma response_accepted_iff_signed:
  assumes "is_i64 (rsp_sent_at_unix_ms r)"
  shows "response_verify L r s n operation key now = Inr () \<longleftrightarrow>
    rsp_operation r = operation
    \<and> response_signed L s n (rsp_message_nonce r) (rsp_sent_at_unix_ms r) (rsp_expires_at_unix_ms r)
      operation (rsp_outcome r) key = Inr r
    \<and> within_clock_window (rsp_sent_at_unix_ms r) now MAX_CLOCK_SKEW_MS
    \<and> now < rsp_expires_at_unix_ms r"
  using assms by (rule response_verify_iff)

lemma session_time_iff:
  assumes "is_i64 issued"
  shows "validate_session_time issued expires authorization e now = Inr () \<longleftrightarrow>
    validate_session_time issued expires authorization e issued = Inr ()
    \<and> within_clock_window issued now MAX_CLOCK_SKEW_MS \<and> now < expires"
  using own_clock_window [OF assms] by (auto simp: validate_session_time_def)

lemma envelope_consent_moment:
  assumes "validate_session_time issued expires authorization e issued = Inr ()"
    and "issued \<le> now \<or> now < expires" and "now < expires"
  shows "verify_envelope_consent L e root_key now (authorization = AuthForward) = Inr ()
    \<longleftrightarrow> verify_envelope_consent L e root_key issued (authorization = AuthForward) = Inr ()"
  using assms
  by (auto simp: verify_envelope_consent_def validate_session_time_def Let_def try_bind_Inr
      split: if_splits)

lemma open_session_verify_iff:
  assumes "is_i64 (osn_issued_at_unix_ms s)"
  shows "open_session_verify L s h root_key now = Inr () \<longleftrightarrow>
    osn_child_pid s = hel_worker_pid h \<and> osn_worker_nonce s = hel_worker_nonce h
    \<and> open_session_signed L (osn_child_pid s) (osn_coordinator_pid s) (osn_worker_nonce s)
        (osn_coordinator_nonce s) (osn_session_id s) (osn_issued_at_unix_ms s)
        (osn_expires_at_unix_ms s) (osn_authorization s) (osn_envelope s) root_key = Inr s
    \<and> within_clock_window (osn_issued_at_unix_ms s) now MAX_CLOCK_SKEW_MS
    \<and> now < osn_expires_at_unix_ms s"
  using session_time_iff [OF assms, of "osn_expires_at_unix_ms s" "osn_authorization s" "osn_envelope s" now]
    envelope_consent_moment [of "osn_issued_at_unix_ms s" "osn_expires_at_unix_ms s"
      "osn_authorization s" "osn_envelope s" now L root_key]
  by (cases s)
     (auto simp: open_session_verify_def open_session_signed_def try_bind_Inr Let_def map_err_Inr
       mac_records split: if_splits)

text \<open>C15: A session is opened exactly when it is the session the coordinator would sign for this
  worker: the executor accepts an opening message if and only if it names the process and nonce
  of its own greeting, signing its parts again gives this very message (so its envelope, its
  authorisation and its consent are valid), and the moment is inside its clock window and
  before its expiry.
\<close>

theorem session_accepted_iff_signed:
  assumes "is_i64 (osn_issued_at_unix_ms s)"
  shows "open_session_verify L s h root_key now = Inr () \<longleftrightarrow>
    osn_child_pid s = hel_worker_pid h \<and> osn_worker_nonce s = hel_worker_nonce h
    \<and> open_session_signed L (osn_child_pid s) (osn_coordinator_pid s) (osn_worker_nonce s)
        (osn_coordinator_nonce s) (osn_session_id s) (osn_issued_at_unix_ms s)
        (osn_expires_at_unix_ms s) (osn_authorization s) (osn_envelope s) root_key = Inr s
    \<and> within_clock_window (osn_issued_at_unix_ms s) now MAX_CLOCK_SKEW_MS
    \<and> now < osn_expires_at_unix_ms s"
  using assms by (rule open_session_verify_iff)

section \<open>Freshness\<close>

text \<open>C12: No forward request is accepted after the consent has expired: when a session was accepted
  at some moment and a request is accepted in it later, the request's moment lies before the
  session's expiry, the session's expiry within the attested consent's, and the consent's code
  is the code of the envelope's own binding under the key derived from the root key.
\<close>

theorem accepted_requests_are_consented:
  assumes "open_session_verify L s h root_key opened = Inr ()"
    and "osn_authorization s = AuthForward"
    and "request_verify L r s n key now = Inr ()"
  shows "now < osn_expires_at_unix_ms s
    \<and> osn_expires_at_unix_ms s \<le> acm_expires_at_unix_ms (env_consent (osn_envelope s))
    \<and> sign_consent_attestation L (consent_binding_from_envelope (osn_envelope s))
        (derive_consent_authority_key L root_key)
      = Inr (acm_attestation_mac (env_consent (osn_envelope s)))"
  using assms
  by (auto simp: open_session_verify_def request_verify_def verify_envelope_consent_def Let_def
      validate_session_time_def validate_message_time_def try_bind_Inr map_err_Inr
      split: if_splits)

text \<open>C16: The consent the executor checks is the consent that was given. When the envelope of a
  stored execution is accepted and its nonce is not zero, the binding the executor recomputes
  from the envelope alone is the binding the coordinator builds from the stored execution with
  the same nonce and times. The executor accepts the consent of the envelope exactly when the
  coordinator can build that binding, its code under the key derived from the root key is the
  attested one, the attestation is not older than the consent and, where that is asked for, the
  consent has not expired. With a zero nonce the coordinator builds no binding and the executor
  refuses the consent as invalid.
\<close>

theorem envelope_carries_attested_binding:
  assumes "envelope_from_detail L d purpose = Inr e"
  shows "consent_binding_from_detail L d (acm_consent_nonce (env_consent e))
      (acm_issued_at_unix_ms (env_consent e)) (acm_expires_at_unix_ms (env_consent e))
    = (if fixed_is_zero (acm_consent_nonce (env_consent e))
       then Inl (ValInvalidField (lit ''consent attestation binding''))
       else Inr (consent_binding_from_envelope e))
    \<and> (verify_envelope_consent L e root_key now unexpired = Inr () \<longleftrightarrow>
        (\<exists>b. consent_binding_from_detail L d (acm_consent_nonce (env_consent e))
               (acm_issued_at_unix_ms (env_consent e)) (acm_expires_at_unix_ms (env_consent e)) = Inr b
           \<and> keyed_mac L (derive_consent_authority_key L root_key) (ConsentMac b)
             = Inr (acm_attestation_mac (env_consent e)))
        \<and> acm_issued_at_unix_ms (env_consent e) \<le> acm_attested_at_unix_ms (env_consent e)
        \<and> (unexpired \<longrightarrow> now < acm_expires_at_unix_ms (env_consent e)))
    \<and> (fixed_is_zero (acm_consent_nonce (env_consent e)) \<longrightarrow>
        verify_envelope_consent L e root_key now unexpired
        = Inl (AuthValidation (ValInvalidField (lit ''consent attestation binding''))))"
proof -
  note stored = stored_binding_of_envelope [OF assms]
  note validated = validated_binding [OF assms]
  show ?thesis
  proof (cases "fixed_is_zero (acm_consent_nonce (env_consent e))")
    case True
    then show ?thesis using stored validated by (simp add: verify_envelope_consent_def)
  next
    case False
    then show ?thesis using stored validated
      by (auto simp: verify_envelope_consent_def sign_consent_attestation_def try_bind_Inr map_err_Inr
          require_mac_def split: if_splits)
  qed
qed

section \<open>Codes bind their materials\<close>

text \<open>\<^verbatim>\<open>serde_json\<close> writes different values of one type differently.\<close>

fun same_kind :: "mac_material \<Rightarrow> mac_material \<Rightarrow> bool" where
  "same_kind (HelloMac _) (HelloMac _) = True"
| "same_kind (OpenSessionMac _) (OpenSessionMac _) = True"
| "same_kind (SessionKeyMac _) (SessionKeyMac _) = True"
| "same_kind (SessionOpenedMac _) (SessionOpenedMac _) = True"
| "same_kind (RequestMac _) (RequestMac _) = True"
| "same_kind (ResponseMac _) (ResponseMac _) = True"
| "same_kind (RefusalMac _) (RefusalMac _) = True"
| "same_kind (ConsentMac _) (ConsentMac _) = True"
| "same_kind _ _ = False"

definition json_material_faithful :: "'a auth_libs_scheme \<Rightarrow> bool" where
  "json_material_faithful L \<longleftrightarrow>
     (\<forall>m m' b. same_kind m m' \<longrightarrow> json_material L m = Some b \<longrightarrow> json_material L m' = Some b \<longrightarrow> m = m')"

text \<open>What is hashed for a code: the domain of the kind, then the material as JSON.\<close>

definition hashed_text :: "'a auth_libs_scheme \<Rightarrow> mac_material \<Rightarrow> byte list" where
  "hashed_text L m = mac_domain m @ the (json_material L m)"

lemma zero_terminated_prefix:
  "a @ 0 # x = b @ 0 # y \<Longrightarrow> 0 \<notin> set a \<Longrightarrow> 0 \<notin> set b \<Longrightarrow> a = b" for a b :: "byte list"
  by (induction a arbitrary: b) (auto simp: Cons_eq_append_conv append_eq_Cons_conv)

lemma lit_bytes_nonzero: "list_all (\<lambda>c. 0 < c \<and> c < 256) (lit s) \<Longrightarrow> (0 :: byte) \<notin> set (map of_nat (lit s))"
proof
  assume r: "list_all (\<lambda>c. 0 < c \<and> c < 256) (lit s)" and "(0 :: byte) \<in> set (map of_nat (lit s))"
  then obtain c where c: "0 < c" "c < 256" "(of_nat c :: byte) = 0" by (auto simp: list_all_iff)
  then have "unat (of_nat c :: byte) = 0" by simp
  with c(1,2) show False by (simp add: unat_of_byte)
qed

definition domain_stem :: "string \<Rightarrow> byte list" where
  "domain_stem s = map of_nat (lit ''com.workingname.operation-executor/v2/'' @ lit s)"

lemma domain_text_stem: "domain_text s = domain_stem s @ [0]"
  by (simp add: domain_text_def domain_stem_def)

lemma domain_stem_inj:
  "domain_stem s = domain_stem t \<longleftrightarrow> (map of_nat (lit s) :: byte list) = map of_nat (lit t)"
  by (simp add: domain_stem_def)

lemma domain_stem_nonzero:
  assumes "list_all (\<lambda>c. 0 < c \<and> c < 256) (lit s)"
  shows "(0 :: byte) \<notin> set (domain_stem s)"
proof -
  have "(0 :: byte) \<notin> set (map of_nat (lit ''com.workingname.operation-executor/v2/''))"
    by (rule lit_bytes_nonzero) (simp add: lit_simps)
  moreover have "(0 :: byte) \<notin> set (map of_nat (lit s))" using assms by (rule lit_bytes_nonzero)
  ultimately show ?thesis by (simp add: domain_stem_def)
qed

fun mac_label :: "mac_material \<Rightarrow> string" where
  "mac_label (HelloMac _) = ''hello-mac''"
| "mac_label (OpenSessionMac _) = ''open-session-mac''"
| "mac_label (SessionKeyMac _) = ''session-key''"
| "mac_label (SessionOpenedMac _) = ''session-opened-mac''"
| "mac_label (RequestMac _) = ''request-mac''"
| "mac_label (ResponseMac _) = ''response-mac''"
| "mac_label (RefusalMac _) = ''handshake-refusal-mac''"
| "mac_label (ConsentMac _) = ''consent-attestation-mac''"

lemma mac_domain_label: "mac_domain m = domain_stem (mac_label m) @ [0]"
  by (cases m) (simp_all add: domain_text_stem)

lemma lit_bytes_inject:
  assumes "list_all (\<lambda>c. 0 < c \<and> c < 256) (lit s)" and "list_all (\<lambda>c. 0 < c \<and> c < 256) (lit t)"
    and "(map of_nat (lit s) :: byte list) = map of_nat (lit t)"
  shows "s = t"
proof -
  have "map unat (map of_nat (lit u) :: byte list) = lit u"
    if "list_all (\<lambda>c. 0 < c \<and> c < 256) (lit u)" for u
    using that by (auto intro!: map_idI simp: list_all_iff unat_of_byte)
  then have "lit s = lit t" using assms by metis
  then show ?thesis by simp
qed

lemma mac_label_range: "list_all (\<lambda>c. 0 < c \<and> c < 256) (lit (mac_label m))"
  by (cases m; simp add: lit_simps)

lemma mac_label_nonzero: "(0 :: byte) \<notin> set (domain_stem (mac_label m))"
  by (rule domain_stem_nonzero [OF mac_label_range])

text \<open>Length and first letter tell the labels apart.\<close>

fun mac_shape :: "mac_material \<Rightarrow> nat \<times> bool" where
  "mac_shape (HelloMac _) = (9, False)"
| "mac_shape (OpenSessionMac _) = (16, False)"
| "mac_shape (SessionKeyMac _) = (11, True)"
| "mac_shape (SessionOpenedMac _) = (18, True)"
| "mac_shape (RequestMac _) = (11, False)"
| "mac_shape (ResponseMac _) = (12, False)"
| "mac_shape (RefusalMac _) = (21, False)"
| "mac_shape (ConsentMac _) = (23, False)"

lemma mac_shape_label: "mac_shape m = (length (mac_label m), hd (mac_label m) = CHR ''s'')"
  by (cases m; simp)

lemma same_shape_same_kind: "mac_shape m = mac_shape m' \<Longrightarrow> same_kind m m'"
  by (cases m; cases m'; simp)

lemma same_label_same_kind:
  assumes "(map of_nat (lit (mac_label m)) :: byte list) = map of_nat (lit (mac_label m'))"
  shows "same_kind m m'"
proof -
  have "mac_label m = mac_label m'" using mac_label_range mac_label_range assms by (rule lit_bytes_inject)
  then show ?thesis by (intro same_shape_same_kind) (simp add: mac_shape_label del: mac_shape.simps mac_label.simps)
qed

text \<open>C37: An authentication code binds its message. If two materials, of whatever kinds, have the
  same code under one key, then they are the same material, or the keyed hash collides on the two
  different texts that were hashed for them: neither a field nor the kind of a message can be
  changed under its code, because every kind is hashed in a domain of its own. What is relied on
  of the JSON writer is that it writes different materials of one kind differently.
\<close>

theorem equal_codes_bind_materials:
  assumes "json_material_faithful L"
    and "keyed_mac L key m = Inr code" and "keyed_mac L key m' = Inr code"
  shows "m = m' \<or> collide (keyed_blake3 L key) (hashed_text L m) (hashed_text L m')"
proof (cases "collide (keyed_blake3 L key) (hashed_text L m) (hashed_text L m')")
  case False
  obtain b where b: "json_material L m = Some b" "code = keyed_blake3 L key (mac_domain m @ b)"
    using assms(2) by (auto simp: keyed_mac_def split: option.splits)
  obtain b' where b': "json_material L m' = Some b'" "code = keyed_blake3 L key (mac_domain m' @ b')"
    using assms(3) by (auto simp: keyed_mac_def split: option.splits)
  have eq: "mac_domain m @ b = mac_domain m' @ b'"
    using False b b' by (simp add: collide_def hashed_text_def del: mac_domain.simps)
  then have zero: "domain_stem (mac_label m) @ 0 # b = domain_stem (mac_label m') @ 0 # b'"
    by (simp add: mac_domain_label del: mac_domain.simps mac_label.simps)
  then have stem: "domain_stem (mac_label m) = domain_stem (mac_label m')"
    by (rule zero_terminated_prefix) (rule mac_label_nonzero)+
  then have "same_kind m m'" unfolding domain_stem_inj by (rule same_label_same_kind)
  moreover have "b = b'" using zero unfolding stem by simp
  ultimately show ?thesis using assms(1) b(1) b'(1) by (auto simp: json_material_faithful_def)
qed simp

section \<open>The verifier accepts each response once\<close>

text \<open>The responses the coordinator has accepted in a session, oldest first.\<close>

inductive accepted_responses ::
  "'a auth_libs_scheme \<Rightarrow> open_session \<Rightarrow> digest \<Rightarrow> response_verifier \<Rightarrow> operation_response list \<Rightarrow> bool"
  for L s key where
  accept_none: "accepted_responses L s key response_verifier_new []"
| accept_next: "accepted_responses L s key v rs \<Longrightarrow> verify_next L r s operation key now v = (Inr result, v')
    \<Longrightarrow> accepted_responses L s key v' (rs @ [r])"
| refuse_next: "accepted_responses L s key v rs \<Longrightarrow> verify_next L r s operation key now v = (Inl err, v')
    \<Longrightarrow> accepted_responses L s key v' rs"

lemma response_verify_sequence:
  "response_verify L r s n operation key now = Inr () \<Longrightarrow> rsp_sequence r = n \<and> rsp_operation r = operation"
  by (auto simp: response_verify_def try_bind_Inr split: if_splits)

lemma verify_next_Inr:
  "verify_next L r s operation key now v = (Inr result, v') \<longleftrightarrow>
     response_verify L r s (rv_next_sequence v) operation key now = Inr ()
     \<and> rsp_message_nonce r \<notin> rv_seen_nonces v \<and> rv_next_sequence v \<noteq> - 1 \<and> result = rsp_outcome r
     \<and> v' = \<lparr>rv_next_sequence = rv_next_sequence v + 1,
             rv_seen_nonces = insert (rsp_message_nonce r) (rv_seen_nonces v)\<rparr>"
  by (cases v) (auto simp: verify_next_def Let_def split: sum.splits if_splits)

lemma verify_next_Inl:
  assumes "verify_next L r s operation key now v = (Inl err, v')"
  shows "v' = v \<or> (rv_next_sequence v = - 1 \<and> rv_next_sequence v' = - 1
    \<and> rv_seen_nonces v' = insert (rsp_message_nonce r) (rv_seen_nonces v)
    \<and> rsp_sequence r = - 1)"
  using assms
  by (auto simp: verify_next_def Let_def split: sum.splits if_splits dest: response_verify_sequence)

lemma unat_plus_1: "n \<noteq> - 1 \<Longrightarrow> unat (n + 1) = unat n + 1" for n :: u64
proof -
  assume "n \<noteq> - 1"
  then have "1 + n \<noteq> 0" by (simp add: add_eq_0_iff)
  then show ?thesis using unatSuc [of n] by (simp add: add.commute)
qed

lemma accepted_responses_invariant:
  assumes "accepted_responses L s key v rs"
  shows "unat (rv_next_sequence v) = length rs + 1
    \<and> map (unat \<circ> rsp_sequence) rs = [1..<length rs + 1]
    \<and> distinct (map rsp_message_nonce rs)
    \<and> rsp_message_nonce ` set rs \<subseteq> rv_seen_nonces v"
  using assms
proof (induction rule: accepted_responses.induct)
  case accept_none
  then show ?case by (simp add: response_verifier_new_def)
next
  case (accept_next v rs r operation now result v')
  note step = accept_next.hyps(2) [unfolded verify_next_Inr]
  have "rsp_sequence r = rv_next_sequence v" using step response_verify_sequence by blast
  moreover have "unat (rv_next_sequence v + 1) = unat (rv_next_sequence v) + 1"
    using step by (intro unat_plus_1) simp
  ultimately show ?case using accept_next.IH step by auto
next
  case (refuse_next v rs r operation now err v')
  then show ?case using verify_next_Inl [OF refuse_next.hyps(2)] by auto
qed

text \<open>C14: The coordinator accepts each response once and in order: whatever it was shown before, the
  responses it has accepted in a session carry the sequence numbers 1, 2, 3 and so on and
  pairwise different nonces, and none of them is accepted a second time, for any operation and
  at any moment.
\<close>

theorem responses_are_accepted_once:
  assumes "accepted_responses L s key v rs"
  shows "map (unat \<circ> rsp_sequence) rs = [1..<length rs + 1]
    \<and> distinct (map rsp_message_nonce rs)
    \<and> (\<forall>r \<in> set rs. \<forall>operation now. \<not> is_ok (fst (verify_next L r s operation key now v)))"
proof -
  note I = accepted_responses_invariant [OF assms]
  have "\<not> is_ok (fst (verify_next L r s operation key now v))" if "r \<in> set rs" for r operation now
  proof -
    have "rsp_message_nonce r \<in> rv_seen_nonces v" using I that by auto
    then show ?thesis
      by (cases "verify_next L r s operation key now v"; cases "fst (verify_next L r s operation key now v)")
         (auto simp: verify_next_Inr)
  qed
  then show ?thesis using I by blast
qed

section \<open>A session that runs\<close>

text \<open>
  A checksum in place of the keyed hash, and JSON forms that exist for every material; the
  envelope and consent are those of the stored execution of \<^verbatim>\<open>Envelope_Integrity\<close>.
\<close>

definition sample_auth_libs :: auth_libs where
  "sample_auth_libs = protocol_libs.extend sample_protocol_libs
     (auth_libs.fields (\<lambda>key b. key + of_nat (from_le b)) (\<lambda>_. Some [1]))"

lemma sample_auth_fields:
  "uuid_text sample_auth_libs = uuid_text sample_protocol_libs"
  "parse_uuid sample_auth_libs = parse_uuid sample_protocol_libs"
  "json_material sample_auth_libs m = Some [1]"
  by (simp_all add: sample_auth_libs_def protocol_libs.defs auth_libs.defs libs.defs sample_protocol_libs_def)

lemma sample_auth_round_trip: "uuid_round_trip sample_auth_libs"
  by (rule sample_protocol_round_trip) (simp_all add: sample_auth_fields sample_protocol_libs_def)

lemma sample_keyed_mac: "\<exists>code. keyed_mac sample_auth_libs key m = Inr code"
  by (simp add: keyed_mac_def sample_auth_fields)

definition sample_root_key :: digest where "sample_root_key = 99"

definition sample_unsigned_envelope :: execution_envelope where
  "sample_unsigned_envelope = sample_envelope sample_auth_libs 0"

definition sample_attestation :: digest where
  "sample_attestation = projr (sign_consent_attestation sample_auth_libs
     (consent_binding_from_envelope sample_unsigned_envelope)
     (derive_consent_authority_key sample_auth_libs sample_root_key))"

definition sample_signed_envelope :: execution_envelope where
  "sample_signed_envelope = sample_envelope sample_auth_libs sample_attestation"

lemmas sample_sealed_facts = sample_envelope_facts [OF sample_auth_round_trip]

lemma sample_envelope_consent:
  "env_consent (sample_envelope sample_auth_libs mac) =
     \<lparr>acm_issued_at_unix_ms = 1000, acm_expires_at_unix_ms = 600000, acm_attested_at_unix_ms = 2000,
      acm_consent_nonce = 11, acm_attestation_mac = mac\<rparr>"
  using sample_sealed_facts [of mac]
  by (auto simp: sample_detail_def sample_consent_of_def consent_from_live_def)

text \<open>The binding does not contain the code.\<close>

lemma sample_envelope_binding:
  "consent_binding_from_envelope (sample_envelope sample_auth_libs mac)
     = consent_binding_from_envelope (sample_envelope sample_auth_libs mac')"
  using sample_sealed_facts [of mac] sample_sealed_facts [of mac']
  by (auto simp: consent_binding_from_envelope_def sample_envelope_consent sample_detail_def)

lemma sample_binding_validates:
  "consent_binding_validate sample_auth_libs
     (consent_binding_from_envelope (sample_envelope sample_auth_libs mac)) = Inr ()"
  using sample_sealed_facts [of mac]
  by (auto simp: binding_of_valid_envelope sample_envelope_consent fixed_is_zero_iff)

lemma sample_consent_verifies:
  assumes "now < 600000"
  shows "verify_envelope_consent sample_auth_libs sample_signed_envelope sample_root_key now True = Inr ()"
proof -
  obtain code where c: "sign_consent_attestation sample_auth_libs
      (consent_binding_from_envelope sample_unsigned_envelope)
      (derive_consent_authority_key sample_auth_libs sample_root_key) = Inr code"
    using sample_keyed_mac
    by (simp add: sign_consent_attestation_def sample_binding_validates sample_unsigned_envelope_def) blast
  then have "sample_attestation = code" by (simp add: sample_attestation_def)
  moreover have "consent_binding_from_envelope sample_signed_envelope
      = consent_binding_from_envelope sample_unsigned_envelope"
    unfolding sample_signed_envelope_def sample_unsigned_envelope_def by (rule sample_envelope_binding)
  ultimately show ?thesis
    using c assms sample_binding_validates [of 0]
    by (simp add: verify_envelope_consent_def sample_signed_envelope_def sample_envelope_consent
        sample_unsigned_envelope_def require_mac_def)
qed

lemma open_session_signed_Inr:
  "open_session_signed L pid cpid wn cn sid issued expires a e key = Inr s \<Longrightarrow>
     osn_child_pid s = pid \<and> osn_coordinator_pid s = cpid \<and> osn_worker_nonce s = wn
     \<and> osn_coordinator_nonce s = cn \<and> osn_session_id s = sid \<and> osn_issued_at_unix_ms s = issued
     \<and> osn_expires_at_unix_ms s = expires \<and> osn_authorization s = a \<and> osn_envelope s = e"
  by (auto simp: open_session_signed_def try_bind_Inr Let_def mac_records split: if_splits)

lemma request_signed_Inr:
  "request_signed L s n nonce sent expires operation key = Inr r \<Longrightarrow>
     req_sequence r = n \<and> req_message_nonce r = nonce \<and> req_sent_at_unix_ms r = sent
     \<and> req_expires_at_unix_ms r = expires \<and> req_operation r = operation"
  by (auto simp: request_signed_def try_bind_Inr Let_def mac_records split: if_splits)

lemma response_signed_Inr:
  "response_signed L s n nonce sent expires operation result key = Inr r \<Longrightarrow>
     rsp_sequence r = n \<and> rsp_message_nonce r = nonce \<and> rsp_sent_at_unix_ms r = sent
     \<and> rsp_expires_at_unix_ms r = expires \<and> rsp_operation r = operation \<and> rsp_outcome r = result"
  by (auto simp: response_signed_def try_bind_Inr Let_def mac_records split: if_splits)

definition sample_open :: open_session where
  "sample_open = projr (open_session_signed sample_auth_libs 7 6 8 9 10 3000 300000 AuthForward
     sample_signed_envelope sample_root_key)"

lemmas clock_defs = within_clock_window_def sat_sub_i64_def sat_add_i64_def clamp_i64_def i64_min_def
  i64_max_def MAX_CLOCK_SKEW_MS_def MAX_SESSION_LIFETIME_MS_def MAX_MESSAGE_LIFETIME_MS_def

lemma sample_open_signed:
  "open_session_signed sample_auth_libs 7 6 8 9 10 3000 300000 AuthForward sample_signed_envelope
     sample_root_key = Inr sample_open"
proof -
  have "envelope_validate sample_auth_libs sample_signed_envelope = Inr ()"
    unfolding sample_signed_envelope_def using sample_sealed_facts by blast
  moreover have "validate_session_time 3000 300000 AuthForward sample_signed_envelope 3000 = Inr ()"
    by (simp add: validate_session_time_def sample_signed_envelope_def sample_envelope_consent clock_defs)
  moreover have "verify_envelope_consent sample_auth_libs sample_signed_envelope sample_root_key 3000 True = Inr ()"
    by (rule sample_consent_verifies) simp
  ultimately have "\<exists>s. open_session_signed sample_auth_libs 7 6 8 9 10 3000 300000 AuthForward
      sample_signed_envelope sample_root_key = Inr s"
    by (simp add: open_session_signed_def Let_def fixed_is_zero_iff keyed_mac_def sample_auth_fields)
  then show ?thesis by (auto simp: sample_open_def)
qed

lemmas sample_open_fields = open_session_signed_Inr [OF sample_open_signed]

definition sample_hello :: hello where
  "sample_hello =
     \<lparr>hel_protocol_version = 2, hel_schema_version = 2, hel_worker_pid = 7, hel_worker_nonce = 8,
      hel_issued_at_unix_ms = 2500, hel_mac = 0\<rparr>"

lemma sample_open_verifies:
  "open_session_verify sample_auth_libs sample_open sample_hello sample_root_key 4000 = Inr ()"
proof -
  have "is_i64 (osn_issued_at_unix_ms sample_open)"
    using sample_open_fields by (simp add: is_i64_def i64_min_def i64_max_def)
  then show ?thesis
    using sample_open_fields sample_open_signed
    by (subst open_session_verify_iff) (simp_all add: sample_hello_def clock_defs)
qed

theorem session_accepted_iff_signed_witness:
  "open_session_verify sample_auth_libs sample_open sample_hello sample_root_key 4000 = Inr ()"
proof -
  have "is_i64 (osn_issued_at_unix_ms sample_open)"
    using sample_open_fields by (simp add: is_i64_def i64_min_def i64_max_def)
  from session_accepted_iff_signed [OF this, where L = sample_auth_libs and h = sample_hello
      and root_key = sample_root_key and now = 4000] show ?thesis
    using sample_open_fields sample_open_signed by (simp add: sample_hello_def clock_defs)
qed

definition sample_event :: event_binding where
  "sample_event =
     \<lparr>evb_database_sequence = 1, evb_database_event_digest = 2, evb_external_sequence = 1,
      evb_external_event_digest = 2\<rparr>"

definition sample_binding :: operation_binding where
  "sample_binding =
     \<lparr>opb_operation_id = id_string sample_auth_libs 20, opb_direction = DirForward,
      opb_journal_intent = sample_event\<rparr>"

lemma sample_binding_ok: "operation_binding_validate sample_auth_libs sample_binding = Inr ()"
  by (simp add: operation_binding_validate_def sample_binding_def sample_event_def
      event_binding_validate_def fixed_is_zero_iff validate_printed_id [OF sample_auth_round_trip])

definition sample_outcome :: executor_outcome where
  "sample_outcome = OutcomeSuccess 5000 77 \<lparr>aud_attempt_count = 1, aud_error_class = None\<rparr>"

definition sample_request :: operation_request where
  "sample_request = projr (request_signed sample_auth_libs sample_open 1 13 5000 6000 sample_binding 55)"

definition sample_response :: operation_response where
  "sample_response =
     projr (response_signed sample_auth_libs sample_open 1 14 5500 6500 sample_binding sample_outcome 55)"

lemma sample_request_signed:
  "request_signed sample_auth_libs sample_open 1 13 5000 6000 sample_binding 55 = Inr sample_request"
proof -
  have "\<exists>r. request_signed sample_auth_libs sample_open 1 13 5000 6000 sample_binding 55 = Inr r"
    by (simp add: request_signed_def Let_def sample_binding_ok fixed_is_zero_iff keyed_mac_def
        sample_auth_fields validate_message_time_def sample_open_fields clock_defs)
  then show ?thesis by (auto simp: sample_request_def)
qed

lemma sample_response_signed:
  "response_signed sample_auth_libs sample_open 1 14 5500 6500 sample_binding sample_outcome 55
     = Inr sample_response"
proof -
  have "\<exists>r. response_signed sample_auth_libs sample_open 1 14 5500 6500 sample_binding sample_outcome 55 = Inr r"
    by (simp add: response_signed_def Let_def sample_binding_ok sample_outcome_def
        attempt_audit_validate_def fixed_is_zero_iff keyed_mac_def
        sample_auth_fields validate_message_time_def sample_open_fields clock_defs)
  then show ?thesis by (auto simp: sample_response_def)
qed

lemmas sample_request_fields = request_signed_Inr [OF sample_request_signed]
lemmas sample_response_fields = response_signed_Inr [OF sample_response_signed]

theorem request_accepted_iff_signed_witness:
  "request_verify sample_auth_libs sample_request sample_open 1 55 5200 = Inr ()"
proof -
  have "is_i64 (req_sent_at_unix_ms sample_request)"
    using sample_request_fields by (simp add: is_i64_def i64_min_def i64_max_def)
  from request_accepted_iff_signed [OF this, where L = sample_auth_libs and s = sample_open
      and n = 1 and key = 55 and now = 5200] show ?thesis
    using sample_request_fields sample_request_signed by (simp add: clock_defs)
qed

lemma response_accepted_iff_signed_witness:
  "response_verify sample_auth_libs sample_response sample_open 1 sample_binding 55 5600 = Inr ()"
proof -
  have "is_i64 (rsp_sent_at_unix_ms sample_response)"
    using sample_response_fields by (simp add: is_i64_def i64_min_def i64_max_def)
  from response_accepted_iff_signed [OF this, where L = sample_auth_libs and s = sample_open
      and n = 1 and key = 55 and now = 5600 and operation = sample_binding] show ?thesis
    using sample_response_fields sample_response_signed by (simp add: clock_defs)
qed

lemma sample_request_verifies:
  "request_verify sample_auth_libs sample_request sample_open 1 55 5200 = Inr ()"
  using sample_request_fields sample_request_signed
  by (subst request_verify_iff) (simp_all add: clock_defs is_i64_def)

lemma sample_response_verifies:
  "response_verify sample_auth_libs sample_response sample_open 1 sample_binding 55 5600 = Inr ()"
  using sample_response_fields sample_response_signed
  by (subst response_verify_iff) (simp_all add: clock_defs is_i64_def)

theorem accepted_requests_are_consented_witness:
  "5200 < osn_expires_at_unix_ms sample_open
   \<and> sign_consent_attestation sample_auth_libs (consent_binding_from_envelope sample_signed_envelope)
       (derive_consent_authority_key sample_auth_libs sample_root_key) = Inr sample_attestation"
  using accepted_requests_are_consented [OF sample_open_verifies _ sample_request_verifies]
    sample_open_fields
  by (simp add: sample_signed_envelope_def sample_envelope_consent)

theorem responses_are_accepted_once_witness:
  "\<exists>v. accepted_responses sample_auth_libs sample_open 55 v [sample_response]
    \<and> \<not> is_ok (fst (verify_next sample_auth_libs sample_response sample_open sample_binding 55 5600 v))"
proof -
  obtain v where "verify_next sample_auth_libs sample_response sample_open sample_binding 55 5600
      response_verifier_new = (Inr (rsp_outcome sample_response), v)"
    using sample_response_verifies by (auto simp: verify_next_Inr response_verifier_new_def)
  then have a: "accepted_responses sample_auth_libs sample_open 55 v [sample_response]"
    using accept_next [OF accept_none] by fastforce
  then show ?thesis using responses_are_accepted_once [OF a] by auto
qed

text \<open>A serialiser of greetings alone, of fixed width.\<close>

definition greeting_libs :: auth_libs where
  "greeting_libs = protocol_libs.extend sample_protocol_libs
     (auth_libs.fields (\<lambda>key b. key + of_nat (from_le b))
       (\<lambda>m. case m of
          HelloMac h \<Rightarrow> if is_i64 (hel_issued_at_unix_ms h)
            then Some (word_le_bytes 2 (hel_protocol_version h) @ word_le_bytes 2 (hel_schema_version h)
              @ word_le_bytes 4 (hel_worker_pid h) @ digest_bytes (hel_worker_nonce h)
              @ i64_le_bytes (hel_issued_at_unix_ms h))
            else None
        | _ \<Rightarrow> None))"

lemma greeting_libs_faithful: "json_material_faithful greeting_libs"
  by (auto simp: json_material_faithful_def greeting_libs_def protocol_libs.defs auth_libs.defs
      split: mac_material.splits if_splits
      intro!: hello_material.equality
      dest: word_le_bytes_inj [rotated] digest_bytes_inj i64_le_bytes_inj)

theorem equal_codes_bind_materials_witness:
  "\<exists>code. keyed_mac greeting_libs 5 (HelloMac (hello_material.truncate sample_hello)) = Inr code
    \<and> (\<forall>m. keyed_mac greeting_libs 5 m = Inr code \<longrightarrow>
         m = HelloMac (hello_material.truncate sample_hello)
         \<or> collide (keyed_blake3 greeting_libs 5) (hashed_text greeting_libs m)
             (hashed_text greeting_libs (HelloMac (hello_material.truncate sample_hello))))"
proof -
  obtain code where code: "keyed_mac greeting_libs 5 (HelloMac (hello_material.truncate sample_hello)) = Inr code"
    by (simp add: keyed_mac_def greeting_libs_def protocol_libs.defs auth_libs.defs sample_hello_def
        hello_material.defs is_i64_def i64_min_def i64_max_def)
  then show ?thesis using equal_codes_bind_materials [OF greeting_libs_faithful _ code] by blast
qed

theorem envelope_carries_attested_binding_witness:
  "\<exists>b. consent_binding_from_detail sample_auth_libs (sample_detail sample_attestation) 11 1000 600000 = Inr b
     \<and> keyed_mac sample_auth_libs (derive_consent_authority_key sample_auth_libs sample_root_key) (ConsentMac b)
       = Inr sample_attestation"
proof -
  have "verify_envelope_consent sample_auth_libs sample_signed_envelope sample_root_key 3000 True = Inr ()"
    by (rule sample_consent_verifies) simp
  then show ?thesis
    using envelope_carries_attested_binding [OF sample_envelope_of_detail [OF sample_auth_round_trip],
        of sample_attestation sample_root_key 3000 True]
    unfolding sample_signed_envelope_def by (simp add: sample_envelope_consent)
qed

end
