(* ===== verification/Executor_Framing.thy ===== *)
theory Executor_Framing
  imports Executor_Auth Platform
begin

text \<open>
  The pipe framing of executor protocol v2 (\<^verbatim>\<open>crates/ipc-contracts/src/executor_v2/framing.rs\<close>):
  a frame is a big-endian length and the JSON of a message. A reader is what its successive
  reads deliver: pieces of any size, interruptions and failures; \<^verbatim>\<open>Read::read\<close> and
  \<^verbatim>\<open>Read::read_exact\<close> are defined on it as the standard library does. The JSON form of the
  messages is a parameter.
\<close>

section \<open>Frames\<close>

datatype coordinator_handshake_frame = FrameOpenSession open_session
datatype coordinator_session_frame = FrameExecuteOperation operation_request

datatype executor_frame =
    FrameHello hello
  | FrameSessionOpened session_opened
  | FrameHandshakeRefusal handshake_refusal
  | FrameOperationResponse operation_response

datatype frame_error = FrameOversized | FrameTruncated | FrameDecode | FrameEncode | FrameIo io_error

section \<open>Readers and writers\<close>

datatype read_event = ReadBytes "byte list" | ReadInterrupted | ReadFailed io_error

type_synonym reader = "read_event list"

datatype read_error = Interrupted | ReadError io_error
datatype exact_error = UnexpectedEof | ExactError io_error

text \<open>\<^verbatim>\<open>reader.read(&mut buffer)\<close> with a buffer of \<open>n\<close> bytes; no byte means the end.\<close>

fun read_call :: "nat \<Rightarrow> (reader, read_error, byte list) eff" where
  "read_call n [] = (Inr [], [])"
| "read_call n (ReadInterrupted # es) = (Inl Interrupted, es)"
| "read_call n (ReadFailed e # es) = (Inl (ReadError e), es)"
| "read_call n (ReadBytes bs # es) =
     (Inr (take n bs), if length bs \<le> n then es else ReadBytes (drop n bs) # es)"

text \<open>\<^verbatim>\<open>reader.read_exact(&mut buffer)\<close>: read until the buffer is full, retrying interruptions.\<close>

fun read_exact :: "nat \<Rightarrow> byte list \<Rightarrow> (reader, exact_error, byte list) eff" where
  "read_exact n acc [] = (if n = 0 then (Inr acc, []) else (Inl UnexpectedEof, []))"
| "read_exact n acc (ReadInterrupted # es) =
     (if n = 0 then (Inr acc, ReadInterrupted # es) else read_exact n acc es)"
| "read_exact n acc (ReadFailed e # es) =
     (if n = 0 then (Inr acc, ReadFailed e # es) else (Inl (ExactError e), es))"
| "read_exact n acc (ReadBytes bs # es) =
     (if n = 0 then (Inr acc, ReadBytes bs # es)
      else if bs = [] then (Inl UnexpectedEof, es)
      else if length bs \<le> n then read_exact (n - length bs) (acc @ bs) es
      else (Inr (acc @ take n bs), ReadBytes (drop n bs) # es))"

record 'w byte_writer =
  w_write_all :: "byte list \<Rightarrow> ('w, io_error, unit) eff"
  w_flush :: "('w, io_error, unit) eff"

record 'v frame_codec =
  frame_encode :: "'v \<Rightarrow> byte list option"
  frame_decode :: "byte list \<Rightarrow> 'v option"

section \<open>write_frame and read_frame\<close>

definition write_frame ::
  "'v frame_codec \<Rightarrow> 'w byte_writer \<Rightarrow> 'v \<Rightarrow> ('w, frame_error, unit) eff" where
  "write_frame K W v =
     eff_bind (eff_lift (ok_or (frame_encode K v) FrameEncode)) (\<lambda>payload.
     if payload = [] \<or> length payload > MAX_FRAME_BYTES then eff_err FrameOversized
     else if length payload \<ge> 2 ^ 32 then eff_err FrameOversized
     else
       eff_bind (eff_map_err FrameIo (w_write_all W (be_bytes 4 (length payload)))) (\<lambda>_.
       eff_bind (eff_map_err FrameIo (w_write_all W payload)) (\<lambda>_.
         eff_map_err FrameIo (w_flush W))))"

text \<open>The loop over the first byte: \<open>None\<close> is the end of the stream.\<close>

fun read_first :: "(reader, frame_error, byte option) eff" where
  "read_first [] = (Inr None, [])"
| "read_first (ReadInterrupted # es) = read_first es"
| "read_first (ReadFailed e # es) = (Inl (FrameIo e), es)"
| "read_first (ReadBytes bs # es) =
     (case bs of [] \<Rightarrow> (Inr None, es)
      | b # rest \<Rightarrow> (Inr (Some b), if rest = [] then es else ReadBytes rest # es))"

definition exact_frame_error :: "exact_error \<Rightarrow> frame_error" where
  "exact_frame_error e = (case e of UnexpectedEof \<Rightarrow> FrameTruncated | ExactError i \<Rightarrow> FrameIo i)"

definition read_frame :: "'v frame_codec \<Rightarrow> (reader, frame_error, 'v option) eff" where
  "read_frame K =
     eff_bind read_first (\<lambda>first.
     case first of None \<Rightarrow> eff_ok None
     | Some b \<Rightarrow>
       eff_bind (eff_map_err exact_frame_error (read_exact 3 [])) (\<lambda>more.
       let size = from_be (b # more) in
       if size = 0 \<or> size > MAX_FRAME_BYTES then eff_err FrameOversized
       else
         eff_bind (eff_map_err exact_frame_error (read_exact size [])) (\<lambda>payload.
           eff_lift (case frame_decode K payload of
                       None \<Rightarrow> Inl FrameDecode | Some v \<Rightarrow> Inr (Some v)))))"

text \<open>Both loops are the loops over \<^verbatim>\<open>Read::read\<close>.\<close>

lemma read_first_loop:
  "read_first es =
     (case read_call 1 es of
        (Inr [], es') \<Rightarrow> (Inr None, es')
      | (Inr (b # _), es') \<Rightarrow> (Inr (Some b), es')
      | (Inl Interrupted, es') \<Rightarrow> read_first es'
      | (Inl (ReadError e), es') \<Rightarrow> (Inl (FrameIo e), es'))"
  by (cases es rule: read_first.cases) (auto split: list.splits simp: le_Suc_eq)

lemma read_exact_0 [simp]: "read_exact 0 acc es = (Inr acc, es)"
  by (cases "(0 :: nat, acc, es)" rule: read_exact.cases) auto

lemma read_exact_loop:
  "read_exact n acc es =
     (if n = 0 then (Inr acc, es)
      else (case read_call n es of
              (Inr [], es') \<Rightarrow> (Inl UnexpectedEof, es')
            | (Inr (b # bs), es') \<Rightarrow> read_exact (n - length (b # bs)) (acc @ b # bs) es'
            | (Inl Interrupted, es') \<Rightarrow> read_exact n acc es'
            | (Inl (ReadError e), es') \<Rightarrow> (Inl (ExactError e), es')))"
proof (cases "(n, acc, es)" rule: read_exact.cases)
  case (4 n' acc' bs es')
  show ?thesis
  proof (cases "length bs \<le> n'")
    case True
    then show ?thesis using 4 by (cases bs) auto
  next
    case False
    then have "length (take n' bs) = n'" by simp
    then show ?thesis using 4 False by (cases "take n' bs") auto
  qed
qed auto

section \<open>Reading is independent of how the bytes arrive\<close>

fun event_bytes_of :: "read_event \<Rightarrow> byte list" where
  "event_bytes_of (ReadBytes bs) = bs"
| "event_bytes_of _ = []"

definition delivered :: "reader \<Rightarrow> byte list" where
  "delivered es = concat (map event_bytes_of es)"

text \<open>A stream without failures and without empty pieces before its end.\<close>

definition clean_stream :: "reader \<Rightarrow> bool" where
  "clean_stream es \<longleftrightarrow> list_all (\<lambda>e. \<exists>b bs. e = ReadInterrupted \<or> e = ReadBytes (b # bs)) es"

lemma delivered_simps [simp]:
  "delivered [] = []"
  "delivered (e # es) = event_bytes_of e @ delivered es"
  by (simp_all add: delivered_def)

lemma clean_stream_simps [simp]:
  "clean_stream []"
  "clean_stream (ReadInterrupted # es) = clean_stream es"
  "clean_stream (ReadFailed e # es) = False"
  "clean_stream (ReadBytes bs # es) = (bs \<noteq> [] \<and> clean_stream es)"
  by (auto simp: clean_stream_def neq_Nil_conv)

lemma read_exact_clean:
  assumes "clean_stream es" and "n \<le> length (delivered es)"
  shows "\<exists>es'. read_exact n acc es = (Inr (acc @ take n (delivered es)), es')
    \<and> clean_stream es' \<and> delivered es' = drop n (delivered es)"
  using assms
proof (induction n acc es rule: read_exact.induct)
  case (4 n acc bs es)
  consider "n = 0" | "n \<noteq> 0" "length bs \<le> n" | "n \<noteq> 0" "length bs > n" by linarith
  then show ?case
  proof cases
    case 2
    then show ?thesis using 4 by simp
  qed (use 4 in auto)
qed auto

lemma read_exact_short:
  assumes "clean_stream es" and "n > length (delivered es)"
  shows "\<exists>es'. read_exact n acc es = (Inl UnexpectedEof, es')"
  using assms
  by (induction n acc es rule: read_exact.induct) auto

lemma read_first_clean:
  assumes "clean_stream es"
  shows "\<exists>es'. read_first es = (Inr (case delivered es of [] \<Rightarrow> None | b # _ \<Rightarrow> Some b), es')
    \<and> clean_stream es' \<and> delivered es' = tl (delivered es)"
  using assms
  by (induction es rule: read_first.induct) (auto split: list.splits)

text \<open>The frame at the head of a byte string: what a reader is meant to see.\<close>

definition parse_frame :: "'v frame_codec \<Rightarrow> byte list \<Rightarrow> frame_error + 'v option" where
  "parse_frame K bs =
     (if bs = [] then Inr None
      else if length bs < 4 then Inl FrameTruncated
      else
        (let size = from_be (take 4 bs) in
         if size = 0 \<or> size > MAX_FRAME_BYTES then Inl FrameOversized
         else if length bs < 4 + size then Inl FrameTruncated
         else (case frame_decode K (take size (drop 4 bs)) of
                 None \<Rightarrow> Inl FrameDecode | Some v \<Rightarrow> Inr (Some v))))"

lemma read_frame_clean:
  assumes "clean_stream es"
  shows "fst (read_frame K es) = parse_frame K (delivered es)
    \<and> (\<forall>v. parse_frame K (delivered es) = Inr (Some v) \<longrightarrow>
         clean_stream (snd (read_frame K es))
         \<and> delivered (snd (read_frame K es))
             = drop (4 + from_be (take 4 (delivered es))) (delivered es))"
proof (cases "delivered es")
  case Nil
  then show ?thesis
    using read_first_clean [OF assms] by (auto simp: read_frame_def eff_bind_def parse_frame_def)
next
  case (Cons b bs)
  obtain es1 where e1: "read_first es = (Inr (Some b), es1)" "clean_stream es1" "delivered es1 = bs"
    using read_first_clean [OF assms] Cons by auto
  show ?thesis
  proof (cases "length bs < 3")
    case True
    then obtain es2 where "read_exact 3 [] es1 = (Inl UnexpectedEof, es2)"
      using read_exact_short [OF e1(2), of 3 "[]"] e1(3) by auto
    then show ?thesis using e1 Cons True
      by (simp add: read_frame_def eff_bind_def eff_map_err_def parse_frame_def exact_frame_error_def)
  next
    case False
    then obtain es2 where e2: "read_exact 3 [] es1 = (Inr (take 3 bs), es2)" "clean_stream es2"
      "delivered es2 = drop 3 bs"
      using read_exact_clean [OF e1(2), of 3 "[]"] e1(3) by auto
    let ?size = "from_be (b # take 3 bs)"
    have take4: "take 4 (delivered es) = b # take 3 bs" and drop4: "drop 4 (delivered es) = drop 3 bs"
      using Cons by (simp_all add: eval_nat_numeral)
    note run = e1 e2 Cons False take4 drop4
    show ?thesis
    proof (cases "?size = 0 \<or> ?size > MAX_FRAME_BYTES")
      case True
      then show ?thesis using run
        by (simp add: read_frame_def eff_bind_def eff_map_err_def parse_frame_def)
    next
      case size: False
      show ?thesis
      proof (cases "length (drop 3 bs) < ?size")
        case True
        then obtain es3 where "read_exact ?size [] es2 = (Inl UnexpectedEof, es3)"
          using read_exact_short [OF e2(2), of ?size "[]"] e2(3) by auto
        then show ?thesis using run True size
          by (auto simp: read_frame_def eff_bind_def eff_map_err_def parse_frame_def exact_frame_error_def Let_def)
      next
        case enough: False
        then obtain es3 where "read_exact ?size [] es2 = (Inr (take ?size (drop 3 bs)), es3)"
          "clean_stream es3" "delivered es3 = drop ?size (drop 3 bs)"
          using read_exact_clean [OF e2(2), of ?size "[]"] e2(3) by auto
        moreover have "drop (?size + 3) bs = drop (4 + ?size) (b # bs)"
          by (simp add: drop_Cons' add.commute)
        ultimately show ?thesis using run enough size
          by (auto simp: read_frame_def eff_bind_def eff_map_err_def parse_frame_def Let_def
              split: option.splits)
      qed
    qed
  qed
qed

text \<open>What \<^verbatim>\<open>read_frame\<close> returns depends only on the bytes, not on how they arrive: on every
  stream without I/O failures, in whatever pieces and with whatever interruptions its bytes
  come, the result is that of parsing the bytes at once. In particular a stream that ends inside
  a frame is reported as truncated and one that ends between frames as the end.
\<close>

lemma frames_do_not_depend_on_chunking:
  assumes "clean_stream es"
  shows "fst (read_frame K es) = parse_frame K (delivered es)"
  using read_frame_clean [OF assms] by blast

theorem frames_do_not_depend_on_chunking_witness:
  "fst (read_frame \<lparr>frame_encode = (\<lambda>v :: byte. Some [v]), frame_decode = (\<lambda>b. Some (hd b))\<rparr>
     [ReadBytes [0], ReadInterrupted, ReadBytes [0, 0, 1, 42]]) = Inr (Some 42)"
  using frames_do_not_depend_on_chunking
    [of "[ReadBytes [0], ReadInterrupted, ReadBytes [0, 0, 1, 42]]"
        "\<lparr>frame_encode = (\<lambda>v :: byte. Some [v]), frame_decode = (\<lambda>b. Some (hd b))\<rparr>"]
  by (simp add: parse_frame_def from_be_def MAX_FRAME_BYTES_def)

section \<open>Frames that are written are read back\<close>

text \<open>A writer that appends to a buffer.\<close>

definition buffer_writer :: "byte list byte_writer" where
  "buffer_writer = \<lparr>w_write_all = (\<lambda>bs w. (Inr (), w @ bs)), w_flush = eff_ok ()\<rparr>"

definition faithful_codec :: "'v frame_codec \<Rightarrow> bool" where
  "faithful_codec K \<longleftrightarrow> (\<forall>v p. frame_encode K v = Some p \<longrightarrow> frame_decode K p = Some v)"

fun write_frames :: "'v frame_codec \<Rightarrow> 'w byte_writer \<Rightarrow> 'v list \<Rightarrow> ('w, frame_error, unit) eff" where
  "write_frames K W [] = eff_ok ()"
| "write_frames K W (v # vs) = eff_bind (write_frame K W v) (\<lambda>_. write_frames K W vs)"

fun read_frames :: "nat \<Rightarrow> 'v frame_codec \<Rightarrow> (reader, frame_error, 'v list) eff" where
  "read_frames 0 K = eff_ok []"
| "read_frames (Suc n) K =
     eff_bind (read_frame K) (\<lambda>v.
       case v of None \<Rightarrow> eff_ok []
       | Some x \<Rightarrow> eff_bind (read_frames n K) (\<lambda>xs. eff_ok (x # xs)))"

lemma write_frame_buffer:
  assumes "write_frame K buffer_writer v w = (Inr (), w')"
  shows "\<exists>p. frame_encode K v = Some p \<and> p \<noteq> [] \<and> length p \<le> MAX_FRAME_BYTES
    \<and> w' = w @ be_bytes 4 (length p) @ p"
  using assms
  by (auto simp: write_frame_def buffer_writer_def eff_bind_def eff_map_err_def ok_or_def
      split: option.splits if_splits)

lemma parse_written_frame:
  assumes "frame_decode K p = Some v" and "p \<noteq> []" and "length p \<le> MAX_FRAME_BYTES"
  shows "parse_frame K (be_bytes 4 (length p) @ p @ rest) = Inr (Some v)"
    and "from_be (take 4 (be_bytes 4 (length p) @ p @ rest)) = length p"
proof -
  have "length p < 256 ^ 4" using assms(3) by (simp add: MAX_FRAME_BYTES_def)
  then have f: "from_be (be_bytes 4 (length p)) = length p" by (rule from_be_be_bytes)
  then show "from_be (take 4 (be_bytes 4 (length p) @ p @ rest)) = length p" by simp
  show "parse_frame K (be_bytes 4 (length p) @ p @ rest) = Inr (Some v)"
    using assms f by (simp add: parse_frame_def Let_def)
qed

text \<open>C38: Frames that were written are read back, in order: when a list of messages is written to
  one pipe without error, every stream that delivers the pipe's bytes and then nothing, in
  whatever pieces, reads as exactly those messages followed by the end of the stream.
\<close>

theorem written_frames_are_read_back:
  assumes "faithful_codec K" and "write_frames K buffer_writer vs [] = (Inr (), w)"
    and "clean_stream es" and "delivered es = w"
  shows "fst (read_frames (length vs + 1) K es) = Inr vs"
proof -
  have "fst (read_frames (length vs + 1) K es) = Inr vs"
    if "write_frames K buffer_writer vs pre = (Inr (), pre @ w)" "clean_stream es" "delivered es = w"
    for pre w es
    using that
  proof (induction vs arbitrary: pre w es)
    case Nil
    then have "fst (read_frame K es) = Inr None"
      using read_frame_clean [of es K] by (simp add: parse_frame_def)
    then show ?case by (cases "read_frame K es") (simp add: eff_bind_def)
  next
    case (Cons v vs)
    obtain w1 where v: "write_frame K buffer_writer v pre = (Inr (), w1)"
      and vs: "write_frames K buffer_writer vs w1 = (Inr (), pre @ w)"
      using Cons.prems(1) by (auto simp: eff_bind_Inr)
    obtain p where p: "frame_encode K v = Some p" "p \<noteq> []" "length p \<le> MAX_FRAME_BYTES"
      "w1 = pre @ be_bytes 4 (length p) @ p"
      using write_frame_buffer [OF v] by blast
    have grows: "\<exists>r. w2 = w1' @ r" if "write_frames K buffer_writer us w1' = (Inr (), w2)" for us w1' w2
      using that
      by (induction us arbitrary: w1') (auto simp: eff_bind_Inr dest!: write_frame_buffer, fastforce)
    obtain r where r: "pre @ w = w1 @ r" using grows [OF vs] by blast
    then have w: "w = be_bytes 4 (length p) @ p @ r" using p(4) by simp
    have d: "frame_decode K p = Some v" using assms(1) p(1) by (simp add: faithful_codec_def)
    have "parse_frame K (delivered es) = Inr (Some v)"
      and size: "from_be (take 4 (delivered es)) = length p"
      using parse_written_frame [OF d p(2,3)] Cons.prems(3) w by simp_all
    then obtain es' where e: "read_frame K es = (Inr (Some v), es')" "clean_stream es'"
      "delivered es' = r"
      using read_frame_clean [OF Cons.prems(2), of K] Cons.prems(3) w size
      by (cases "read_frame K es") auto
    have "write_frames K buffer_writer vs w1 = (Inr (), w1 @ r)" using vs r by simp
    then have "fst (read_frames (length vs + 1) K es') = Inr vs" using e(2,3) by (rule Cons.IH)
    then show ?case using e(1)
      by (cases "read_frames (length vs + 1) K es'") (simp add: eff_bind_def)
  qed
  from this [of "[]" w es] show ?thesis using assms by simp
qed

theorem written_frames_are_read_back_witness:
  "fst (read_frames 3 \<lparr>frame_encode = (\<lambda>v :: byte. Some [v]), frame_decode = (\<lambda>b. Some (hd b))\<rparr>
     [ReadBytes [0, 0], ReadInterrupted, ReadBytes [0, 1, 7, 0, 0], ReadBytes [0, 1], ReadBytes [8]])
   = Inr [7, 8]"
proof -
  let ?K = "\<lparr>frame_encode = (\<lambda>v :: byte. Some [v]), frame_decode = (\<lambda>b. Some (hd b))\<rparr>"
  have k: "faithful_codec ?K" by (simp add: faithful_codec_def)
  have b: "be_bytes 4 (Suc 0) = [0, 0, 0, 1]"
    using be_bytes_from_be [of "[0, 0, 0, 1]"] by (simp add: from_be_def numeral_eq_Suc)
  have w: "write_frames ?K buffer_writer [7, 8] [] = (Inr (), [0, 0, 0, 1, 7, 0, 0, 0, 1, 8])"
    by (simp add: write_frame_def buffer_writer_def eff_bind_def eff_map_err_def MAX_FRAME_BYTES_def b)
  show ?thesis
    using written_frames_are_read_back [OF k w,
        of "[ReadBytes [0, 0], ReadInterrupted, ReadBytes [0, 1, 7, 0, 0], ReadBytes [0, 1], ReadBytes [8]]"]
    by (simp add: numeral_3_eq_3)
qed

end
