(* ===== verification/Worker_Handler.thy ===== *)
theory Worker_Handler
  imports Executor_Auth Journal
begin

text \<open>
  \<^verbatim>\<open>NativeExecutorHandler\<close> of \<^verbatim>\<open>workers/operation-executor/src/lib.rs\<close>: what the isolated
  executor does with one authenticated operation. The operating system and the platform are
  records of functions over a world; an early return of the source is the error of an effect
  whose error type is the outcome itself. The environment variable that makes a qualification
  build exit at a chosen point is taken to be unset, and sleeping between attempts has no effect
  on the world.
\<close>

section \<open>Outcomes\<close>

datatype handler_outcome =
    HandlerSuccess digest attempt_audit
  | HandlerProvenNotApplied ustring ustring attempt_audit
  | HandlerRecoveryRequired ustring ustring attempt_audit

definition attempt_audit_of :: "byte \<Rightarrow> executor_error_class option \<Rightarrow> attempt_audit" where
  "attempt_audit_of count cls = \<lparr>aud_attempt_count = count, aud_error_class = cls\<rparr>"

definition proven_not_applied :: "string \<Rightarrow> ustring \<Rightarrow> handler_outcome" where
  "proven_not_applied code detail =
     HandlerProvenNotApplied (lit code) detail (attempt_audit_of 1 None)"

definition recovery_required_outcome :: "string \<Rightarrow> ustring \<Rightarrow> handler_outcome" where
  "recovery_required_outcome code detail =
     HandlerRecoveryRequired (lit code) detail (attempt_audit_of 1 None)"

definition refusing_handle :: handler_outcome where
  "refusing_handle =
     HandlerProvenNotApplied (lit ''executor_handler_not_wired'')
       (lit ''The authenticated executor handler is not wired in this milestone.'')
       (attempt_audit_of 1 (Some XErr_Unsupported))"

fun executor_error_class_of :: "platform_error_class \<Rightarrow> executor_error_class" where
  "executor_error_class_of ClassSharingViolation = XErr_SharingViolation"
| "executor_error_class_of ClassLockViolation = XErr_LockViolation"
| "executor_error_class_of ClassPermissionDenied = XErr_PermissionDenied"
| "executor_error_class_of ClassDiskFull = XErr_DiskFull"
| "executor_error_class_of ClassDestinationCollision = XErr_DestinationCollision"
| "executor_error_class_of ClassSourceMissing = XErr_SourceMissing"
| "executor_error_class_of ClassPathPolicyRefusal = XErr_PathPolicyRefusal"
| "executor_error_class_of ClassPrecondition = XErr_Precondition"
| "executor_error_class_of ClassVerificationLimit = XErr_VerificationLimit"
| "executor_error_class_of ClassCancelled = XErr_Cancelled"
| "executor_error_class_of ClassUnsupported = XErr_Unsupported"
| "executor_error_class_of ClassAmbiguousMutationOutcome = XErr_AmbiguousMutationOutcome"
| "executor_error_class_of ClassIo = XErr_Io"
| "executor_error_class_of ClassSecretStore = XErr_Io"

fun mutation_error :: "error_texts \<Rightarrow> platform_error \<Rightarrow> byte \<Rightarrow> handler_outcome" where
  "mutation_error T e count =
     (let audit = attempt_audit_of count (Some (executor_error_class_of (error_class e)));
          refused = HandlerProvenNotApplied (lit ''native_primitive_refused'') (platform_error_text T e) audit;
          ambiguous = HandlerRecoveryRequired (lit ''native_mutation_ambiguous'') (platform_error_text T e) audit;
          in_use = HandlerProvenNotApplied (lit ''file_in_use'')
            (lit ''This file is currently in use and was not moved.'') audit
      in case e of
           PlatSharingViolation \<Rightarrow> in_use
         | PlatLockViolation \<Rightarrow> in_use
         | PlatDestinationExists \<Rightarrow>
             HandlerProvenNotApplied (lit ''destination_exists'') (lit ''The destination already exists.'') audit
         | PlatPrecondition detail \<Rightarrow>
             HandlerProvenNotApplied (lit ''source_precondition_failed'') detail audit
         | PlatSourceMissing \<Rightarrow>
             HandlerProvenNotApplied (lit ''source_missing'') (lit ''The source no longer exists.'') audit
         | PlatOutsideRoot \<Rightarrow> refused
         | PlatReparsePoint \<Rightarrow> refused
         | PlatCloudPlaceholder \<Rightarrow> refused
         | PlatPathPolicyRefusal \<Rightarrow> refused
         | PlatUnsupported _ \<Rightarrow> refused
         | PlatPermissionDenied \<Rightarrow>
             HandlerProvenNotApplied (lit ''permission_denied'')
               (lit ''Permission policy refused the operation; no permissions were changed.'') audit
         | PlatDiskFull \<Rightarrow>
             HandlerProvenNotApplied (lit ''disk_full'')
               (lit ''The destination volume is full and the file was not moved.'') audit
         | PlatCancelled \<Rightarrow>
             HandlerProvenNotApplied (lit ''verification_cancelled'')
               (lit ''Streaming verification was cancelled before mutation.'') audit
         | PlatVerificationLimitExceeded _ \<Rightarrow>
             HandlerProvenNotApplied (lit ''verification_limit_exceeded'')
               (lit ''The file exceeds the authenticated execution verification bound.'') audit
         | PlatAmbiguousMutationOutcome \<Rightarrow> ambiguous
         | PlatIo _ \<Rightarrow> ambiguous
         | PlatSecretStore _ \<Rightarrow> ambiguous)"

section \<open>The environment\<close>

record file_metadata =
  md_is_dir :: bool
  md_is_symlink :: bool

text \<open>\<^verbatim>\<open>std::fs\<close>: the first entry of a directory is what \<^verbatim>\<open>entries.next()\<close> returns.\<close>

record 'w worker_os =
  os_metadata :: "path \<Rightarrow> ('w, io_error, file_metadata) eff"
  os_canonicalize :: "path \<Rightarrow> ('w, io_error, path) eff"
  os_first_entry :: "path \<Rightarrow> ('w, io_error, (io_error + unit) option) eff"

text \<open>The methods of \<^verbatim>\<open>ReadOnlyPlatform\<close> and \<^verbatim>\<open>SafeFileOperations\<close> the handler calls.\<close>

record 'w native_platform = "'w safe_file_operations" +
  np_inspect_volume :: "path \<Rightarrow> ('w, platform_error, volume_identity) eff"
  np_validate_destination_absent :: "path \<Rightarrow> ('w, platform_error, unit) eff"
  np_fingerprint_streaming ::
    "path \<Rightarrow> bool \<Rightarrow> u64 \<Rightarrow> ('w \<Rightarrow> bool) \<Rightarrow> (fingerprint_progress \<Rightarrow> 'w \<Rightarrow> 'w)
      \<Rightarrow> ('w, platform_error, file_fingerprint) eff"

record worker_libs = auth_libs +
  wl_lower :: "ustring \<Rightarrow> ustring"
  wl_texts :: error_texts
  wl_windows :: bool
  wl_macos :: bool

record 'w native_handler =
  nh_os :: "'w worker_os"
  nh_platform :: "'w native_platform"
  nh_is_cancelled :: "'w \<Rightarrow> bool"

fun validation_error_text :: "validation_error \<Rightarrow> ustring" where
  "validation_error_text ValUnsupportedSchema = lit ''unsupported executor protocol schema''"
| "validation_error_text (ValBoundExceeded f) = f @ lit '' exceeds its protocol bound''"
| "validation_error_text (ValInvalidField f) = lit ''invalid protocol field: '' @ f"
| "validation_error_text (ValDuplicateOrUnordered f) =
     lit ''duplicate or unordered protocol field: '' @ f"
| "validation_error_text ValInvalidHex = lit ''invalid hexadecimal encoding''"

section \<open>Paths\<close>

text \<open>On Unix targets.\<close>

definition decode_manifest_path :: "native_path_manifest \<Rightarrow> ustring + path" where
  "decode_manifest_path p =
     (case npm_encoding p of
        WindowsUtf16Le \<Rightarrow>
          (case units_from_le (npm_bytes p) of
             None \<Rightarrow> Inl (lit ''Windows native path has an odd byte length'')
           | Some units \<Rightarrow>
               (case from_utf16 units of
                  None \<Rightarrow> Inl (lit ''Windows native path is invalid UTF-16'')
                | Some text \<Rightarrow> Inr (utf8_bytes text)))
      | UnixBytes \<Rightarrow> Inr (npm_bytes p))"

text \<open>The loop that pushes one component after the other onto an empty path.\<close>

fun push_components :: "path \<Rightarrow> ustring list \<Rightarrow> ustring + path" where
  "push_components path [] = Inr path"
| "push_components path (c # cs) =
     (if bad_component c then Inl (lit ''relative path contains an unsafe component'')
      else push_components (path_join path (utf8_bytes c)) cs)"

definition resolve_relative :: "path \<Rightarrow> ustring \<Rightarrow> ustring + path" where
  "resolve_relative base relative =
     (if relative = [] \<or> is_separator (hd relative) \<or> is_separator (last relative)
         \<or> 58 \<in> set relative
      then Inl (lit ''relative path is malformed'')
      else try_bind (push_components [] (split_separators relative)) (\<lambda>path.
        if \<not> list_all is_normal (components path)
        then Inl (lit ''relative path contains a non-normal component'')
        else Inr (path_join base path)))"

section \<open>The root of an envelope\<close>

definition envelope_root_volume_matches :: "volume_identity \<Rightarrow> volume_manifest \<Rightarrow> bool" where
  "envelope_root_volume_matches observed expected \<longleftrightarrow>
     vol_platform observed = vm_platform expected
     \<and> vol_stable_identifier observed = vm_stable_identifier expected
     \<and> vol_filesystem_type observed = vm_filesystem_type expected
     \<and> vol_case_sensitive observed = vm_case_sensitive expected
     \<and> vol_removable observed = vm_removable expected
     \<and> vol_local observed = vm_local expected
     \<and> vol_local observed \<and> \<not> vol_removable observed"

definition filesystem_is :: "volume_manifest \<Rightarrow> string \<Rightarrow> bool" where
  "filesystem_is v name \<longleftrightarrow>
     (case vm_filesystem_type v of None \<Rightarrow> False | Some t \<Rightarrow> eq_ignore_ascii_case t (lit name))"

definition validate_envelope_root ::
  "'a worker_libs_scheme \<Rightarrow> 'w native_handler \<Rightarrow> execution_envelope \<Rightarrow> ('w, ustring, path) eff" where
  "validate_envelope_root L H e =
     eff_bind (eff_lift (map_err validation_error_text (envelope_validate L e))) (\<lambda>_.
     eff_bind (eff_lift (decode_manifest_path (rbm_canonical_path (env_root_binding e)))) (\<lambda>base.
     if \<not> is_absolute base then eff_err (lit ''approved root is not absolute'')
     else
     eff_bind (eff_map_err (io_text (wl_texts L)) (os_metadata (nh_os H) base)) (\<lambda>metadata.
     if md_is_symlink metadata \<or> \<not> md_is_dir metadata
     then eff_err (lit ''approved root is linked or is not a directory'')
     else
     eff_bind (eff_map_err (io_text (wl_texts L)) (os_canonicalize (nh_os H) base)) (\<lambda>canonical.
     if \<not> path_eq canonical base
     then eff_err (lit ''approved root no longer matches its canonical binding'')
     else
     eff_bind (eff_map_err (platform_error_text (wl_texts L))
                 (np_inspect_volume (nh_platform H) base)) (\<lambda>observed.
     let expected = rbm_volume (env_root_binding e); policy = env_safety_policy e in
     if spm_maximum_rehash_bytes policy = 0
        \<or> spm_maximum_rehash_bytes policy > MAX_EXECUTION_VERIFICATION_BYTES
     then eff_err (lit ''execution verification bound is invalid'')
     else if \<not> envelope_root_volume_matches observed expected
     then eff_err (lit ''approved root volume binding changed'')
     else if wl_windows L \<and> (vm_platform expected \<noteq> Windows \<or> \<not> filesystem_is expected ''NTFS'')
     then eff_err (lit ''Windows mutation requires the approved local NTFS volume'')
     else if wl_macos L \<and> vm_platform expected = MacOs
        \<and> \<not> (filesystem_is expected ''apfs'' \<or> filesystem_is expected ''hfs'')
     then eff_err (lit ''macOS mutation requires the approved local APFS or HFS volume'')
     else eff_ok base)))))"

section \<open>Directories\<close>

type_synonym 'w handler_run = "('w, handler_outcome, handler_outcome) eff"

definition handler_finish :: "'w handler_run \<Rightarrow> 'w \<Rightarrow> handler_outcome \<times> 'w" where
  "handler_finish m w = (case m w of (Inl out, w') \<Rightarrow> (out, w') | (Inr out, w') \<Rightarrow> (out, w'))"

definition state_digest :: "'a libs_scheme \<Rightarrow> string \<Rightarrow> ustring \<Rightarrow> digest" where
  "state_digest L tag value =
     blake3 L (map of_nat (lit ''com.workingname.operation-executor/v2/observed-directory-state'')
       @ [0] @ map of_nat (lit tag) @ utf8_bytes value)"

definition create_directory ::
  "'a worker_libs_scheme \<Rightarrow> 'w native_handler \<Rightarrow> path \<Rightarrow> ustring \<Rightarrow> 'w handler_run" where
  "create_directory L H base relative =
     eff_bind (eff_lift (map_err (proven_not_applied ''relative_path_invalid'')
                 (resolve_relative base relative))) (\<lambda>destination w.
     case os_metadata (nh_os H) destination w of
       (Inr _, w1) \<Rightarrow>
         (Inl (proven_not_applied ''destination_exists'' (lit ''directory destination already exists'')), w1)
     | (Inl absent, w1) \<Rightarrow>
         (if io_kind absent \<noteq> KindNotFound
          then (Inl (proven_not_applied ''destination_inspection_failed'' (io_text (wl_texts L) absent)), w1)
          else
          (case create_directory_no_replace (nh_platform H) destination w1 of
             (Inl error, w2) \<Rightarrow> (Inl (mutation_error (wl_texts L) error 1), w2)
           | (Inr _, w2) \<Rightarrow>
             (case os_metadata (nh_os H) destination w2 of
                (Inr metadata, w3) \<Rightarrow>
                  (if md_is_dir metadata \<and> \<not> md_is_symlink metadata
                   then (Inr (HandlerSuccess (state_digest L ''directory-present'' relative)
                                (attempt_audit_of 1 None)), w3)
                   else (Inr (recovery_required_outcome ''directory_postcondition_failed''
                                (lit ''created path is not an unlinked directory'')), w3))
              | (Inl error, w3) \<Rightarrow>
                  (Inr (recovery_required_outcome ''directory_postcondition_failed''
                         (io_text (wl_texts L) error)), w3)))))"

definition inspect_empty_directory ::
  "'a worker_libs_scheme \<Rightarrow> 'w native_handler \<Rightarrow> path \<Rightarrow> ('w, handler_outcome, unit) eff" where
  "inspect_empty_directory L H destination w =
     (let failed = (\<lambda>e. proven_not_applied ''rollback_directory_inspection_failed'' (io_text (wl_texts L) e))
      in case os_metadata (nh_os H) destination w of
        (Inl error, w1) \<Rightarrow>
          (if io_kind error = KindNotFound
           then (Inl (proven_not_applied ''rollback_directory_absent''
                        (lit ''rollback directory is already absent'')), w1)
           else (Inl (failed error), w1))
      | (Inr metadata, w1) \<Rightarrow>
          (if \<not> (md_is_dir metadata \<and> \<not> md_is_symlink metadata)
           then (Inl (proven_not_applied ''rollback_directory_invalid''
                        (lit ''rollback path is not an unlinked directory'')), w1)
           else
             (case os_first_entry (nh_os H) destination w1 of
                (Inl error, w2) \<Rightarrow> (Inl (failed error), w2)
              | (Inr None, w2) \<Rightarrow> (Inr (), w2)
              | (Inr (Some (Inr _)), w2) \<Rightarrow>
                  (Inl (proven_not_applied ''rollback_directory_not_empty''
                          (lit ''rollback removes a directory only when it is empty'')), w2)
              | (Inr (Some (Inl error)), w2) \<Rightarrow> (Inl (failed error), w2))))"

definition remove_directory ::
  "'a worker_libs_scheme \<Rightarrow> 'w native_handler \<Rightarrow> path \<Rightarrow> ustring \<Rightarrow> 'w handler_run" where
  "remove_directory L H base relative =
     eff_bind (eff_lift (map_err (proven_not_applied ''relative_path_invalid'')
                 (resolve_relative base relative))) (\<lambda>destination.
     eff_bind (inspect_empty_directory L H destination) (\<lambda>_ w.
     case remove_directory_if_empty (nh_platform H) destination w of
       (Inl error, w1) \<Rightarrow> (Inl (mutation_error (wl_texts L) error 1), w1)
     | (Inr _, w1) \<Rightarrow>
         (case os_metadata (nh_os H) destination w1 of
            (Inl error, w2) \<Rightarrow>
              (if io_kind error = KindNotFound
               then (Inr (HandlerSuccess (state_digest L ''directory-absent'' relative)
                            (attempt_audit_of 1 None)), w2)
               else (Inr (recovery_required_outcome ''directory_rollback_postcondition_failed''
                            (io_text (wl_texts L) error)), w2))
          | (Inr _, w2) \<Rightarrow>
              (Inr (recovery_required_outcome ''directory_rollback_postcondition_failed''
                     (lit ''directory remains after the native rollback primitive returned success'')), w2))))"

section \<open>Moving a file\<close>

definition manifest_volume :: "volume_manifest \<Rightarrow> volume_identity" where
  "manifest_volume v =
     \<lparr>vol_platform = vm_platform v, vol_stable_identifier = vm_stable_identifier v,
      vol_filesystem_type = vm_filesystem_type v, vol_case_sensitive = vm_case_sensitive v,
      vol_removable = vm_removable v, vol_local = vm_local v\<rparr>"

definition expected_matches :: "expected_state_manifest \<Rightarrow> file_fingerprint \<Rightarrow> bool \<Rightarrow> bool" where
  "expected_matches expected observed require_original_location \<longleftrightarrow>
     (let identity = fp_native_identity observed; native = esm_native_identity expected in
      nid_volume identity = manifest_volume (fim_volume native)
      \<and> nid_object_key identity = fim_object_key native
      \<and> (\<not> require_original_location
          \<or> (nid_parent_key identity = fim_parent_key native
             \<and> np_encoding (nid_leaf_name identity) = npm_encoding (fim_leaf_name native)
             \<and> np_bytes (nid_leaf_name identity) = npm_bytes (fim_leaf_name native)))
      \<and> fim_link_count native = 1 \<and> nid_link_count identity = 1
      \<and> fim_reparse_tag native = None \<and> nid_reparse_tag identity = None
      \<and> fp_byte_size observed = esm_byte_size expected
      \<and> fp_modified_at_ns observed = esm_modified_at_ns expected
      \<and> fp_attributes observed = esm_attributes expected
      \<and> fp_content_digest observed = Some (esm_content_digest expected))"

definition manifest_rename_request ::
  "path \<Rightarrow> path \<Rightarrow> expected_state_manifest \<Rightarrow> file_fingerprint \<Rightarrow> u64 \<Rightarrow> rename_request" where
  "manifest_rename_request source destination expected observed maximum =
     \<lparr>rr_source = source, rr_destination = destination,
      rr_expected_identity = fp_native_identity observed,
      rr_expected_byte_size = esm_byte_size expected,
      rr_expected_modified_at_ns = esm_modified_at_ns expected,
      rr_expected_attributes = esm_attributes expected,
      rr_expected_content_digest = esm_content_digest expected,
      rr_maximum_hash_bytes = maximum\<rparr>"

definition fingerprint_digest :: "'a libs_scheme \<Rightarrow> file_fingerprint \<Rightarrow> digest" where
  "fingerprint_digest L f =
     blake3 L (map of_nat (lit ''com.workingname.operation-executor/v2/observed-file-state'') @ [0]
       @ utf8_bytes (vol_stable_identifier (nid_volume (fp_native_identity f)))
       @ nid_object_key (fp_native_identity f) @ word_le_bytes 8 (fp_byte_size f)
       @ (case fp_content_digest f of None \<Rightarrow> [] | Some d \<Rightarrow> digest_bytes d))"

definition retries :: "platform_error \<Rightarrow> byte \<Rightarrow> bool" where
  "retries e attempt \<longleftrightarrow> retryable_before_mutation e \<and> \<not> attempt \<ge> 3"

abbreviation error_class_of :: "platform_error \<Rightarrow> executor_error_class" where
  "error_class_of e \<equiv> executor_error_class_of (error_class e)"

abbreviation stream_fingerprint ::
  "'w native_handler \<Rightarrow> path \<Rightarrow> u64 \<Rightarrow> ('w, platform_error, file_fingerprint) eff" where
  "stream_fingerprint H p maximum \<equiv>
     np_fingerprint_streaming (nh_platform H) p True maximum (nh_is_cancelled H) (\<lambda>_ w. w)"

text \<open>
  \<^verbatim>\<open>for attempt in 1..=3\<close>: the attempt that succeeded (0 when the loop ran out) with the class
  of the last error that was retried.
\<close>

fun rename_attempts ::
  "error_texts \<Rightarrow> 'w native_handler \<Rightarrow> path \<Rightarrow> path \<Rightarrow> bool \<Rightarrow> expected_state_manifest \<Rightarrow> u64
    \<Rightarrow> executor_error_class option \<Rightarrow> byte list
    \<Rightarrow> ('w, handler_outcome, byte \<times> executor_error_class option) eff" where
  "rename_attempts T H source destination at_origin expected maximum previous [] w =
     (Inr (0, previous), w)"
| "rename_attempts T H source destination at_origin expected maximum previous (attempt # later) w =
     (if nh_is_cancelled H w
      then (Inl (HandlerProvenNotApplied (lit ''verification_cancelled'')
                   (lit ''Streaming verification was cancelled before mutation.'')
                   (attempt_audit_of attempt (Some XErr_Cancelled))), w)
      else
      (case np_validate_destination_absent (nh_platform H) destination w of
         (Inl e, w1) \<Rightarrow>
           (if retries e attempt
            then rename_attempts T H source destination at_origin expected maximum
                   (Some (error_class_of e)) later w1
            else (Inl (mutation_error T e attempt), w1))
       | (Inr _, w1) \<Rightarrow>
         (case stream_fingerprint H source maximum w1 of
            (Inl e, w2) \<Rightarrow>
              (if retries e attempt
               then rename_attempts T H source destination at_origin expected maximum
                      (Some (error_class_of e)) later w2
               else (Inl (mutation_error T e attempt), w2))
          | (Inr observed, w2) \<Rightarrow>
            (if \<not> expected_matches expected observed at_origin
             then (Inl (HandlerProvenNotApplied (lit ''source_precondition_failed'')
                     (lit ''Source identity, location, size, modified time, or content digest changed.'')
                     (attempt_audit_of attempt (Some XErr_Precondition))), w2)
             else
             (case rename_same_volume_no_replace (nh_platform H)
                     (manifest_rename_request source destination expected observed maximum) w2 of
                (Inr _, w3) \<Rightarrow> (Inr (attempt, previous), w3)
              | (Inl e, w3) \<Rightarrow>
                (if retries e attempt
                 then rename_attempts T H source destination at_origin expected maximum
                        (Some (error_class_of e)) later w3
                 else (Inl (mutation_error T e attempt), w3)))))))"

definition verify_renamed ::
  "'a worker_libs_scheme \<Rightarrow> 'w native_handler \<Rightarrow> path \<Rightarrow> path \<Rightarrow> expected_state_manifest \<Rightarrow> u64
    \<Rightarrow> byte \<Rightarrow> executor_error_class option \<Rightarrow> 'w handler_run" where
  "verify_renamed L H source destination expected maximum attempt previous w =
     (let failed = (\<lambda>detail. HandlerRecoveryRequired (lit ''rename_postcondition_failed'') detail
            (attempt_audit_of attempt (Some XErr_AmbiguousMutationOutcome)))
      in case np_validate_destination_absent (nh_platform H) source w of
           (Inl e, w1) \<Rightarrow>
             (if e \<noteq> PlatDestinationExists
              then (Inl (failed (platform_error_text (wl_texts L) e)), w1)
              else (Inl (failed (lit ''source still exists after native rename returned success'')), w1))
         | (Inr _, w1) \<Rightarrow>
             (case stream_fingerprint H destination maximum w1 of
                (Inl e, w2) \<Rightarrow> (Inl (failed (platform_error_text (wl_texts L) e)), w2)
              | (Inr moved, w2) \<Rightarrow>
                  (if \<not> expected_matches expected moved False
                   then (Inl (failed (lit ''destination identity, size, or content digest does not match the manifest'')), w2)
                   else (Inr (HandlerSuccess (fingerprint_digest L moved)
                                (attempt_audit_of attempt previous)), w2))))"

definition rename_file ::
  "'a worker_libs_scheme \<Rightarrow> 'w native_handler \<Rightarrow> path \<Rightarrow> ustring \<Rightarrow> ustring \<Rightarrow> ustring
    \<Rightarrow> expected_state_manifest \<Rightarrow> u64 \<Rightarrow> 'w handler_run" where
  "rename_file L H base source_relative destination_relative original_relative expected maximum =
     (if maximum = 0 \<or> maximum > MAX_EXECUTION_VERIFICATION_BYTES \<or> esm_byte_size expected > maximum
      then eff_err (HandlerProvenNotApplied (lit ''verification_limit_exceeded'')
             (lit ''The source exceeds the authenticated execution verification bound.'')
             (attempt_audit_of 1 (Some XErr_VerificationLimit)))
      else
        eff_bind (eff_lift (map_err (proven_not_applied ''source_path_invalid'')
                    (resolve_relative base source_relative))) (\<lambda>source.
        eff_bind (eff_lift (map_err (proven_not_applied ''destination_path_invalid'')
                    (resolve_relative base destination_relative))) (\<lambda>destination.
        eff_bind (rename_attempts (wl_texts L) H source destination
                    (source_relative = original_relative) expected maximum None [1, 2, 3])
          (\<lambda>(attempt, previous).
             if attempt = 0
             then eff_err (HandlerRecoveryRequired (lit ''native_mutation_ambiguous'')
                    (lit ''The bounded retry loop ended without a classified result.'')
                    (attempt_audit_of 3 (Some XErr_AmbiguousMutationOutcome)))
             else verify_renamed L H source destination expected maximum attempt previous))))"

section \<open>Case-only renames\<close>

fun approved_move :: "operation_primitive \<Rightarrow> file_move_manifest option" where
  "approved_move (PrimSameVolumeMove m) = Some m"
| "approved_move (PrimSameVolumeRename m) = Some m"
| "approved_move (PrimSameVolumeMoveAndRename m) = Some m"
| "approved_move _ = None"

definition requires_case_only_staging :: "'a worker_libs_scheme \<Rightarrow> approved_operation \<Rightarrow> bool" where
  "requires_case_only_staging L operation =
     (case approved_move (ao_primitive operation) of
        None \<Rightarrow> False
      | Some m \<Rightarrow>
          (let source = mv_source_relative_path m; original = mv_original_source_relative_path m;
               destination = mv_destination_relative_path m; lower = wl_lower L
           in (source \<noteq> destination \<and> lower source = lower destination)
              \<or> (original \<noteq> destination \<and> lower original = lower destination)))"

definition same_journaled_file_identity ::
  "expected_state_manifest \<Rightarrow> expected_state_manifest \<Rightarrow> bool" where
  "same_journaled_file_identity left right \<longleftrightarrow>
     fim_object_key (esm_native_identity left) \<noteq> []
     \<and> fim_object_key (esm_native_identity left) = fim_object_key (esm_native_identity right)
     \<and> fim_volume (esm_native_identity left) = fim_volume (esm_native_identity right)
     \<and> esm_content_digest left = esm_content_digest right
     \<and> esm_byte_size left = esm_byte_size right"

definition is_canonical_uuid :: "ustring \<Rightarrow> bool" where
  "is_canonical_uuid value \<longleftrightarrow>
     byte_length value = 36
     \<and> (\<forall>(i, b) \<in> set (enumerate 0 (utf8_bytes value)).
          if i \<in> {8, 13, 18, 23} then b = 45 else (48 \<le> b \<and> b \<le> 57) \<or> (97 \<le> b \<and> b \<le> 102))"

fun split_slash_text :: "ustring \<Rightarrow> ustring list" where
  "split_slash_text [] = [[]]"
| "split_slash_text (c # s) =
     (if c = 47 then [] # split_slash_text s
      else (case split_slash_text s of [] \<Rightarrow> [[c]] | t # ts \<Rightarrow> (c # t) # ts))"

text \<open>Is the dependency the staging step that moved the original to this source?\<close>

definition is_stage_of ::
  "execution_envelope \<Rightarrow> approved_operation \<Rightarrow> file_move_manifest \<Rightarrow> ustring \<Rightarrow> bool" where
  "is_stage_of envelope operation m dependency =
     (case envelope_operation envelope dependency of
        None \<Rightarrow> False
      | Some candidate \<Rightarrow>
          (case ao_primitive candidate of
             PrimInternalStage s \<Rightarrow>
               mv_source_relative_path s = mv_original_source_relative_path m
               \<and> mv_destination_relative_path s = mv_source_relative_path m
               \<and> mv_original_source_relative_path s = mv_original_source_relative_path m
               \<and> same_journaled_file_identity (mv_expected_source s) (mv_expected_source m)
               \<and> ao_sequence candidate < ao_sequence operation
           | _ \<Rightarrow> False))"

definition case_only_stage_chain_valid ::
  "'a worker_libs_scheme \<Rightarrow> execution_envelope \<Rightarrow> approved_operation \<Rightarrow> bool" where
  "case_only_stage_chain_valid L envelope operation =
     (case approved_move (ao_primitive operation) of
        None \<Rightarrow> False
      | Some m \<Rightarrow>
          (let staging = split_slash_text (mv_source_relative_path m);
               original = mv_original_source_relative_path m;
               destination = mv_destination_relative_path m
           in original \<noteq> destination \<and> wl_lower L original = wl_lower L destination
              \<and> length staging = 3 \<and> staging ! 0 = lit ''.supremacy-staging''
              \<and> staging ! 1 = env_execution_id envelope \<and> is_canonical_uuid (staging ! 2)
              \<and> length (ao_dependencies operation) = 1
              \<and> length (filter (is_stage_of envelope operation m) (ao_dependencies operation)) = 1))"

section \<open>Handling one operation\<close>

fun perform_primitive ::
  "'a worker_libs_scheme \<Rightarrow> 'w native_handler \<Rightarrow> path \<Rightarrow> u64 \<Rightarrow> operation_direction
    \<Rightarrow> operation_primitive \<Rightarrow> 'w handler_run" where
  "perform_primitive L H base maximum DirForward (PrimCreateDirectory d) = create_directory L H base d"
| "perform_primitive L H base maximum DirRollback (PrimCreateDirectory d) = remove_directory L H base d"
| "perform_primitive L H base maximum DirForward (PrimRemoveDirectoryIfEmpty s) = remove_directory L H base s"
| "perform_primitive L H base maximum DirRollback (PrimRemoveDirectoryIfEmpty s) = create_directory L H base s"
| "perform_primitive L H base maximum direction primitive =
     (let m = (case primitive of PrimSameVolumeMove m \<Rightarrow> m | PrimSameVolumeRename m \<Rightarrow> m
               | PrimSameVolumeMoveAndRename m \<Rightarrow> m | PrimInternalStage m \<Rightarrow> m);
          source = mv_source_relative_path m; destination = mv_destination_relative_path m;
          original = mv_original_source_relative_path m
      in if direction = DirForward
         then rename_file L H base source destination original (mv_expected_source m) maximum
         else rename_file L H base destination source original (mv_expected_source m) maximum)"

definition native_handle ::
  "'a worker_libs_scheme \<Rightarrow> 'w native_handler \<Rightarrow> execution_envelope \<Rightarrow> approved_operation
    \<Rightarrow> operation_direction \<Rightarrow> 'w \<Rightarrow> handler_outcome \<times> 'w" where
  "native_handle L H envelope operation direction =
     handler_finish
       (eff_bind (eff_map_err (proven_not_applied ''root_binding_invalid'')
                    (validate_envelope_root L H envelope)) (\<lambda>base.
        if envelope_operation envelope (ao_operation_id operation) \<noteq> Some operation
        then eff_err (proven_not_applied ''operation_manifest_invalid''
               (lit ''The selected operation is not the exact manifest bound to this envelope.''))
        else
        eff_bind (eff_lift (map_err (\<lambda>e. proven_not_applied ''operation_manifest_invalid''
                                         (validation_error_text e))
                    (primitive_validate (ao_primitive operation) (rbm_volume (env_root_binding envelope))))) (\<lambda>_.
        if requires_case_only_staging L operation
           \<and> \<not> spm_allow_qualified_case_only_rename (env_safety_policy envelope)
        then eff_err (proven_not_applied ''case_only_rename_unqualified''
               (lit ''The authenticated safety policy does not qualify case-only staging.''))
        else if requires_case_only_staging L operation
           \<and> \<not> case_only_stage_chain_valid L envelope operation
        then eff_err (proven_not_applied ''operation_manifest_invalid''
               (lit ''The case-only operation is not bound to an internal staging transition.''))
        else perform_primitive L H base (spm_maximum_rehash_bytes (env_safety_policy envelope))
               direction (ao_primitive operation))))"

end
