(* ===== verification/Worker_Session.thy ===== *)
theory Worker_Session
  imports Worker_Handler Executor_Framing
begin

text \<open>
  The server loop of \<^verbatim>\<open>workers/operation-executor/src/lib.rs\<close>: the handshake of \<^verbatim>\<open>serve\<close> and the
  operation loop of \<^verbatim>\<open>serve_session\<close>. The coordinator's bytes are a reader of
  \<^verbatim>\<open>Executor_Framing\<close>; the writer, the clock, the nonces and the handler act on the rest of the
  world. A step of the loop is an effect whose error is the value the function returns.
\<close>

section \<open>Exits and errors\<close>

datatype server_exit = ExitCoordinatorEof | ExitRefused | ExitRecoveryRequired

datatype server_error =
    SrvRootAuthorityUnavailable | SrvClock | SrvRandomness
  | SrvFrame frame_error | SrvAuthentication authentication_error

type_synonym server_result = "server_error + server_exit"

definition frame_error_code :: "frame_error \<Rightarrow> ustring" where
  "frame_error_code e =
     (case e of FrameOversized \<Rightarrow> lit ''frame_oversized'' | FrameTruncated \<Rightarrow> lit ''frame_truncated''
      | FrameDecode \<Rightarrow> lit ''frame_invalid'' | FrameEncode \<Rightarrow> lit ''frame_encode_failed''
      | FrameIo _ \<Rightarrow> lit ''pipe_io_failed'')"

definition root_authority_from_bytes :: "byte list \<Rightarrow> server_error + byte list" where
  "root_authority_from_bytes stored =
     (if length stored \<noteq> 32 then Inl SrvRootAuthorityUnavailable else Inr stored)"

text \<open>\<^verbatim>\<open>SystemClock\<close>, for a clock that many nanoseconds after the epoch.\<close>

definition system_now_unix_ms :: "int \<Rightarrow> server_error + int" where
  "system_now_unix_ms since_epoch_ns =
     (if since_epoch_ns < 0 then Inl SrvClock
      else if \<not> is_i64 (since_epoch_ns div 1000000) then Inl SrvClock
      else Inr (since_epoch_ns div 1000000))"

section \<open>The environment of the server\<close>

record 'w server_env =
  se_handshakes :: "coordinator_handshake_frame frame_codec"
  se_requests :: "coordinator_session_frame frame_codec"
  se_frames :: "executor_frame frame_codec"
  se_writer :: "'w byte_writer"
  se_now :: "('w, server_error, int) eff"
  se_next_nonce :: "('w, server_error, digest) eff"
  se_handle :: "execution_envelope \<Rightarrow> approved_operation \<Rightarrow> operation_direction
                 \<Rightarrow> 'w \<Rightarrow> handler_outcome \<times> 'w"

definition server_send :: "'w server_env \<Rightarrow> executor_frame \<Rightarrow> ('w, server_error, unit) eff" where
  "server_send E f = eff_map_err SrvFrame (write_frame (se_frames E) (se_writer E) f)"

definition refuse_handshake ::
  "'a auth_libs_scheme \<Rightarrow> 'w server_env \<Rightarrow> hello \<Rightarrow> digest \<Rightarrow> refusal_category \<Rightarrow> ustring \<Rightarrow> string
    \<Rightarrow> ('w, server_error, server_exit) eff" where
  "refuse_handshake L E h root_key category code detail =
     eff_bind (se_next_nonce E) (\<lambda>nonce.
     eff_bind (se_now E) (\<lambda>now.
     eff_bind (eff_lift (map_err SrvAuthentication (handshake_refusal_signed L h nonce now
         \<lparr>prf_category = category, prf_code = code, prf_detail = lit detail\<rparr> root_key))) (\<lambda>refusal.
     eff_bind (server_send E (FrameHandshakeRefusal refusal)) (\<lambda>_.
       eff_ok ExitRefused))))"

definition send_response ::
  "'a auth_libs_scheme \<Rightarrow> 'w server_env \<Rightarrow> open_session \<Rightarrow> digest \<Rightarrow> u64 \<Rightarrow> operation_binding
    \<Rightarrow> executor_outcome \<Rightarrow> ('w, server_error, unit) eff" where
  "send_response L E s session_key sequence operation result =
     eff_bind (se_now E) (\<lambda>now.
     eff_bind (se_next_nonce E) (\<lambda>nonce.
     eff_bind (eff_lift (map_err SrvAuthentication (response_signed L s sequence nonce now
         (min (sat_add_i64 now MAX_MESSAGE_LIFETIME_MS) (osn_expires_at_unix_ms s))
         operation result session_key))) (\<lambda>response.
       server_send E (FrameOperationResponse response))))"

definition send_protocol_refusal ::
  "'a auth_libs_scheme \<Rightarrow> 'w server_env \<Rightarrow> open_session \<Rightarrow> digest \<Rightarrow> u64 \<Rightarrow> operation_binding
    \<Rightarrow> refusal_category \<Rightarrow> ustring \<Rightarrow> string \<Rightarrow> ('w, server_error, unit) eff" where
  "send_protocol_refusal L E s session_key sequence operation category code detail =
     send_response L E s session_key sequence operation
       (OutcomeProtocolRefusal \<lparr>prf_category = category, prf_code = code, prf_detail = lit detail\<rparr>)"

section \<open>One request\<close>

record session_state =
  ss_next_sequence :: u64
  ss_seen_nonces :: "digest set"
  ss_attempted :: "(ustring \<times> bool) set"
  ss_applied_forward :: "ustring set"
  ss_remaining_rollback :: "ustring set"

definition session_state_new :: "open_session \<Rightarrow> session_state" where
  "session_state_new s =
     \<lparr>ss_next_sequence = 1, ss_seen_nonces = {}, ss_attempted = {}, ss_applied_forward = {},
      ss_remaining_rollback = rollback_eligible_ids (osn_authorization s)\<rparr>"

text \<open>
  The checks between the frame and the handler, in order: the state with the nonce and the attempt
  recorded and the operation to handle, or the refusal.
\<close>

type_synonym refusal_reason = "refusal_category \<times> ustring \<times> string"

definition replay_key :: "operation_binding \<Rightarrow> ustring \<times> bool" where
  "replay_key b = (opb_operation_id b, opb_direction b = DirRollback)"

definition dependency_missing :: "session_state \<Rightarrow> approved_operation \<Rightarrow> bool" where
  "dependency_missing st x \<longleftrightarrow> list_ex (\<lambda>d. d \<notin> ss_applied_forward st) (ao_dependencies x)"

definition dependent_still_applied :: "session_state \<Rightarrow> execution_envelope \<Rightarrow> approved_operation \<Rightarrow> bool" where
  "dependent_still_applied st e x \<longleftrightarrow>
     list_ex (\<lambda>candidate. ao_operation_id candidate \<in> ss_remaining_rollback st
       \<and> ao_operation_id x \<in> set (ao_dependencies candidate)) (env_operations e)"

definition admit_request ::
  "'a auth_libs_scheme \<Rightarrow> open_session \<Rightarrow> digest \<Rightarrow> int \<Rightarrow> operation_request \<Rightarrow> session_state
    \<Rightarrow> refusal_reason + (session_state \<times> approved_operation)" where
  "admit_request L s session_key now r st =
     (case request_verify L r s (ss_next_sequence st) session_key now of
        Inl e \<Rightarrow> Inl (auth_refusal_category e, auth_refusal_code e,
                  ''The operation request failed authenticated session validation.'')
      | Inr _ \<Rightarrow>
     if req_message_nonce r \<in> ss_seen_nonces st
     then Inl (RefusalReplay, lit ''message_nonce_replay'',
            ''The operation request reused a session message nonce.'')
     else
     let st1 = st\<lparr>ss_seen_nonces := insert (req_message_nonce r) (ss_seen_nonces st)\<rparr>;
         b = req_operation r
     in if \<not> authorization_permits (osn_authorization s) (opb_operation_id b) (opb_direction b)
     then Inl (RefusalProtocol, lit ''operation_direction_not_authorized'',
            ''The root-authenticated session does not authorize this operation direction.'')
     else (case envelope_operation (osn_envelope s) (opb_operation_id b) of
       None \<Rightarrow> Inl (RefusalProtocol, lit ''operation_not_in_envelope'',
            ''The requested operation is not in the immutable session envelope.'')
     | Some x \<Rightarrow>
     if replay_key b \<in> ss_attempted st1
     then Inl (RefusalReplay, lit ''operation_replay'',
            ''The operation direction was already attempted in this child process.'')
     else
     let st2 = st1\<lparr>ss_attempted := insert (replay_key b) (ss_attempted st1)\<rparr>
     in if opb_direction b = DirForward \<and> dependency_missing st2 x
     then Inl (RefusalProtocol, lit ''dependency_not_applied'',
            ''An approved dependency has not completed in this child session.'')
     else if opb_direction b = DirRollback \<and> dependent_still_applied st2 (osn_envelope s) x
     then Inl (RefusalProtocol, lit ''rollback_dependency_still_applied'',
            ''A dependent operation must be rolled back before this operation.'')
     else Inr (st2, x)))"

fun outcome_of_handler :: "int \<Rightarrow> handler_outcome \<Rightarrow> executor_outcome" where
  "outcome_of_handler now (HandlerSuccess d audit) = OutcomeSuccess now d audit"
| "outcome_of_handler now (HandlerProvenNotApplied code detail audit) =
     OutcomeProvenNotApplied code detail audit"
| "outcome_of_handler now (HandlerRecoveryRequired code detail audit) =
     OutcomeRecoveryRequired code detail audit"

fun handler_succeeded :: "handler_outcome \<Rightarrow> bool" where
  "handler_succeeded (HandlerSuccess _ _) = True"
| "handler_succeeded _ = False"

fun handler_needs_recovery :: "handler_outcome \<Rightarrow> bool" where
  "handler_needs_recovery (HandlerRecoveryRequired _ _ _) = True"
| "handler_needs_recovery _ = False"

definition record_success :: "operation_binding \<Rightarrow> session_state \<Rightarrow> session_state" where
  "record_success b st =
     (if opb_direction b = DirForward
      then st\<lparr>ss_applied_forward := insert (opb_operation_id b) (ss_applied_forward st)\<rparr>
      else st\<lparr>ss_remaining_rollback := ss_remaining_rollback st - {opb_operation_id b}\<rparr>)"

text \<open>Handle an admitted request, respond, and move on.\<close>

definition handle_request ::
  "'a auth_libs_scheme \<Rightarrow> 'w server_env \<Rightarrow> open_session \<Rightarrow> digest \<Rightarrow> int \<Rightarrow> operation_binding
    \<Rightarrow> approved_operation \<Rightarrow> session_state \<Rightarrow> ('w, server_result, session_state) eff" where
  "handle_request L E s session_key now b x st w =
     (case se_handle E (osn_envelope s) x (opb_direction b) w of
        (outcome, w1) \<Rightarrow>
          eff_bind (eff_map_err Inl (send_response L E s session_key (ss_next_sequence st) b
                      (outcome_of_handler now outcome))) (\<lambda>_.
          let st1 = (if handler_succeeded outcome then record_success b st else st)
          in if ss_next_sequence st = - 1 then eff_err (Inl (SrvAuthentication AuthSequenceMismatch))
             else if handler_needs_recovery outcome then eff_err (Inr ExitRecoveryRequired)
             else eff_ok (st1\<lparr>ss_next_sequence := ss_next_sequence st + 1\<rparr>)) w1)"

definition request_step ::
  "'a auth_libs_scheme \<Rightarrow> 'w server_env \<Rightarrow> open_session \<Rightarrow> digest \<Rightarrow> operation_request \<Rightarrow> session_state
    \<Rightarrow> ('w, server_result, session_state) eff" where
  "request_step L E s session_key r st =
     eff_bind (eff_map_err Inl (se_now E)) (\<lambda>now.
     case admit_request L s session_key now r st of
       Inl (category, code, detail) \<Rightarrow>
         eff_bind (eff_map_err Inl (send_protocol_refusal L E s session_key (ss_next_sequence st)
                     (req_operation r) category code detail)) (\<lambda>_. eff_err (Inr ExitRefused))
     | Inr (st1, x) \<Rightarrow> handle_request L E s session_key now (req_operation r) x st1)"

section \<open>The loop\<close>

text \<open>Every frame takes bytes from the reader.\<close>

definition reader_size :: "reader \<Rightarrow> nat" where
  "reader_size es = length es + length (delivered es)"

lemma reader_size_simps [simp]:
  "reader_size [] = 0"
  "reader_size (ReadBytes bs # es) = Suc (length bs + reader_size es)"
  "reader_size (ReadInterrupted # es) = Suc (reader_size es)"
  "reader_size (ReadFailed e # es) = Suc (reader_size es)"
  by (simp_all add: reader_size_def)

lemma read_first_size:
  "read_first es = (r, es') \<Longrightarrow> reader_size es' \<le> reader_size es
     \<and> (\<forall>b. r = Inr (Some b) \<longrightarrow> reader_size es' < reader_size es)"
  by (induction es rule: read_first.induct) (auto split: list.splits if_splits)

lemma read_exact_size: "read_exact n acc es = (r, es') \<Longrightarrow> reader_size es' \<le> reader_size es"
  by (induction n acc es rule: read_exact.induct) (fastforce split: if_splits)+

lemma read_frame_size:
  assumes "read_frame K es = (Inr (Some v), es')"
  shows "reader_size es' < reader_size es"
  using assms
  by (auto simp: read_frame_def eff_bind_def eff_map_err_def Let_def
      split: prod.splits sum.splits option.splits if_splits dest!: read_first_size read_exact_size)

function session_loop ::
  "'a auth_libs_scheme \<Rightarrow> 'w server_env \<Rightarrow> open_session \<Rightarrow> digest \<Rightarrow> hello \<Rightarrow> digest \<Rightarrow> session_state
    \<Rightarrow> reader \<Rightarrow> 'w \<Rightarrow> server_result \<times> reader \<times> 'w" where
  "session_loop L E s session_key h root_key st es w =
     (case read_frame (se_requests E) es of
        (Inr None, es1) \<Rightarrow> (Inr ExitCoordinatorEof, es1, w)
      | (Inl error, es1) \<Rightarrow>
          (case refuse_handshake L E h root_key RefusalProtocol (frame_error_code error)
                  ''The authenticated session frame was malformed.'' w of
             (r, w1) \<Rightarrow> (r, es1, w1))
      | (Inr (Some (FrameExecuteOperation request)), es1) \<Rightarrow>
          (case request_step L E s session_key request st w of
             (Inl r, w1) \<Rightarrow> (r, es1, w1)
           | (Inr st1, w1) \<Rightarrow> session_loop L E s session_key h root_key st1 es1 w1))"
  by pat_completeness auto

termination
  by (relation "measure (\<lambda>(_, _, _, _, _, _, _, es, _). reader_size es)")
    (auto dest!: sym [of "(Inr _, _)"] read_frame_size)

declare session_loop.simps [simp del]

definition serve_session ::
  "'a auth_libs_scheme \<Rightarrow> 'w server_env \<Rightarrow> open_session \<Rightarrow> digest \<Rightarrow> hello \<Rightarrow> digest
    \<Rightarrow> reader \<Rightarrow> 'w \<Rightarrow> server_result \<times> reader \<times> 'w" where
  "serve_session L E s session_key h root_key =
     session_loop L E s session_key h root_key (session_state_new s)"

section \<open>The handshake\<close>

text \<open>The first frame sent, the hello.\<close>

definition send_hello ::
  "'a auth_libs_scheme \<Rightarrow> 'w server_env \<Rightarrow> digest \<Rightarrow> u32 \<Rightarrow> ('w, server_error, hello) eff" where
  "send_hello L E root_key worker_pid =
     eff_bind (se_next_nonce E) (\<lambda>nonce.
     eff_bind (se_now E) (\<lambda>now.
     eff_bind (eff_lift (map_err SrvAuthentication (hello_signed L worker_pid nonce now root_key))) (\<lambda>h.
     eff_bind (server_send E (FrameHello h)) (\<lambda>_. eff_ok h))))"

text \<open>The session the coordinator proposed is verified and its opening is confirmed.\<close>

definition accept_session ::
  "'a auth_libs_scheme \<Rightarrow> 'w server_env \<Rightarrow> digest \<Rightarrow> hello \<Rightarrow> open_session
    \<Rightarrow> ('w, server_result, digest) eff" where
  "accept_session L E root_key h s =
     eff_bind (eff_map_err Inl (se_now E)) (\<lambda>now.
     case open_session_verify L s h root_key now of
       Inl e \<Rightarrow>
         eff_bind (eff_map_err Inl (refuse_handshake L E h root_key (auth_refusal_category e)
                     (auth_refusal_code e) ''The execution session could not be authenticated.''))
           (\<lambda>exit. eff_err (Inr exit))
     | Inr _ \<Rightarrow>
         eff_bind (eff_lift (map_err (Inl \<circ> SrvAuthentication) (derive_session_key L root_key h s)))
           (\<lambda>session_key.
         eff_map_err Inl
           (eff_bind (se_next_nonce E) (\<lambda>nonce.
            eff_bind (se_now E) (\<lambda>issued.
            eff_bind (eff_lift (map_err SrvAuthentication
                        (session_opened_signed L s nonce issued session_key))) (\<lambda>opened.
            eff_bind (server_send E (FrameSessionOpened opened)) (\<lambda>_. eff_ok session_key)))))))"

definition serve ::
  "'a auth_libs_scheme \<Rightarrow> 'w server_env \<Rightarrow> digest \<Rightarrow> u32 \<Rightarrow> reader \<Rightarrow> 'w
    \<Rightarrow> server_result \<times> reader \<times> 'w" where
  "serve L E root_key worker_pid es w =
     (case send_hello L E root_key worker_pid w of
        (Inl e, w1) \<Rightarrow> (Inl e, es, w1)
      | (Inr h, w1) \<Rightarrow>
          (case read_frame (se_handshakes E) es of
             (Inr None, es1) \<Rightarrow> (Inr ExitCoordinatorEof, es1, w1)
           | (Inl error, es1) \<Rightarrow>
               (case refuse_handshake L E h root_key RefusalProtocol (frame_error_code error)
                       ''The coordinator handshake frame was rejected.'' w1 of
                  (r, w2) \<Rightarrow> (r, es1, w2))
           | (Inr (Some (FrameOpenSession s)), es1) \<Rightarrow>
               (case accept_session L E root_key h s w1 of
                  (Inl r, w2) \<Rightarrow> (r, es1, w2)
                | (Inr session_key, w2) \<Rightarrow>
                    serve_session L E s session_key h root_key es1 w2)))"

end
