(* ===== verification/Worker_Handler_Properties.thy ===== *)
theory Worker_Handler_Properties
  imports Worker_Handler Session_Authenticity
begin

text \<open>
  What the native handler does to the file system. The platform's contract is the locale
  \<open>logged_platform\<close>: the world has a log of the mutations that happened, reading does not
  change it, a successful primitive adds itself, and an error that is not of uncertain outcome
  means that nothing happened. Under it an outcome tells exactly what was done, and what was
  done is the approved operation below the approved root.
\<close>

section \<open>The contract of the platform\<close>

datatype mutation = Renamed rename_request | DirectoryCreated path | DirectoryRemoved path

fun uncertain_error :: "platform_error \<Rightarrow> bool" where
  "uncertain_error PlatAmbiguousMutationOutcome = True"
| "uncertain_error (PlatIo _) = True"
| "uncertain_error (PlatSecretStore _) = True"
| "uncertain_error _ = False"

definition keeps_log :: "('w \<Rightarrow> 'm list) \<Rightarrow> ('w, 'e, 'a) eff \<Rightarrow> bool" where
  "keeps_log trace f \<longleftrightarrow> (\<forall>w. trace (snd (f w)) = trace w)"

definition logs_mutation :: "('w \<Rightarrow> 'm list) \<Rightarrow> 'm \<Rightarrow> ('w, platform_error, 'a) eff \<Rightarrow> bool" where
  "logs_mutation trace m f \<longleftrightarrow>
     (\<forall>w w' x. f w = (Inr x, w') \<longrightarrow> trace w' = trace w @ [m])
     \<and> (\<forall>w w' err. f w = (Inl err, w') \<longrightarrow>
          trace w' = trace w \<or> (uncertain_error err \<and> trace w' = trace w @ [m]))"

definition platform_contract :: "'w native_handler \<Rightarrow> ('w \<Rightarrow> mutation list) \<Rightarrow> bool" where
  "platform_contract H trace \<longleftrightarrow>
     (\<forall>p. keeps_log trace (os_metadata (nh_os H) p) \<and> keeps_log trace (os_canonicalize (nh_os H) p)
        \<and> keeps_log trace (os_first_entry (nh_os H) p)
        \<and> keeps_log trace (np_inspect_volume (nh_platform H) p)
        \<and> keeps_log trace (np_validate_destination_absent (nh_platform H) p)
        \<and> (\<forall>n. keeps_log trace (stream_fingerprint H p n))
        \<and> logs_mutation trace (DirectoryCreated p) (create_directory_no_replace (nh_platform H) p)
        \<and> logs_mutation trace (DirectoryRemoved p) (remove_directory_if_empty (nh_platform H) p))
     \<and> (\<forall>r. logs_mutation trace (Renamed r) (rename_same_volume_no_replace (nh_platform H) r))"

section \<open>What is allowed\<close>

definition approved_paths :: "operation_direction \<Rightarrow> file_move_manifest \<Rightarrow> ustring \<times> ustring" where
  "approved_paths direction m =
     (if direction = DirForward then (mv_source_relative_path m, mv_destination_relative_path m)
      else (mv_destination_relative_path m, mv_source_relative_path m))"

fun move_of :: "operation_primitive \<Rightarrow> file_move_manifest option" where
  "move_of (PrimSameVolumeMove m) = Some m"
| "move_of (PrimSameVolumeRename m) = Some m"
| "move_of (PrimSameVolumeMoveAndRename m) = Some m"
| "move_of (PrimInternalStage m) = Some m"
| "move_of _ = None"

definition rename_allowed :: "path \<Rightarrow> operation_direction \<Rightarrow> operation_primitive \<Rightarrow> rename_request \<Rightarrow> bool" where
  "rename_allowed base direction primitive r \<longleftrightarrow>
     (\<exists>m. move_of primitive = Some m
       \<and> resolve_relative base (fst (approved_paths direction m)) = Inr (rr_source r)
       \<and> resolve_relative base (snd (approved_paths direction m)) = Inr (rr_destination r)
       \<and> nid_object_key (rr_expected_identity r)
           = fim_object_key (esm_native_identity (mv_expected_source m))
       \<and> nid_volume (rr_expected_identity r)
           = manifest_volume (fim_volume (esm_native_identity (mv_expected_source m)))
       \<and> nid_link_count (rr_expected_identity r) = 1 \<and> nid_reparse_tag (rr_expected_identity r) = None
       \<and> rr_expected_byte_size r = esm_byte_size (mv_expected_source m)
       \<and> rr_expected_modified_at_ns r = esm_modified_at_ns (mv_expected_source m)
       \<and> rr_expected_content_digest r = esm_content_digest (mv_expected_source m))"

fun creates_directory :: "operation_direction \<Rightarrow> operation_primitive \<Rightarrow> ustring option" where
  "creates_directory DirForward (PrimCreateDirectory d) = Some d"
| "creates_directory DirRollback (PrimRemoveDirectoryIfEmpty s) = Some s"
| "creates_directory _ _ = None"

fun removes_directory :: "operation_direction \<Rightarrow> operation_primitive \<Rightarrow> ustring option" where
  "removes_directory DirRollback (PrimCreateDirectory d) = Some d"
| "removes_directory DirForward (PrimRemoveDirectoryIfEmpty s) = Some s"
| "removes_directory _ _ = None"

fun mutation_allowed :: "path \<Rightarrow> operation_direction \<Rightarrow> operation_primitive \<Rightarrow> mutation \<Rightarrow> bool" where
  "mutation_allowed base direction primitive (Renamed r) = rename_allowed base direction primitive r"
| "mutation_allowed base direction primitive (DirectoryCreated p) =
     (\<exists>d. creates_directory direction primitive = Some d \<and> resolve_relative base d = Inr p)"
| "mutation_allowed base direction primitive (DirectoryRemoved p) =
     (\<exists>d. removes_directory direction primitive = Some d \<and> resolve_relative base d = Inr p)"

text \<open>The outcome and the log agree.\<close>

definition outcome_tells ::
  "(mutation \<Rightarrow> bool) \<Rightarrow> mutation list \<Rightarrow> mutation list \<Rightarrow> handler_outcome \<Rightarrow> bool" where
  "outcome_tells ok before after out \<longleftrightarrow>
     (case out of
        HandlerSuccess _ _ \<Rightarrow> \<exists>m. ok m \<and> after = before @ [m]
      | HandlerProvenNotApplied _ _ _ \<Rightarrow> after = before
      | HandlerRecoveryRequired _ _ _ \<Rightarrow> after = before \<or> (\<exists>m. ok m \<and> after = before @ [m]))"

lemma outcome_tells_simps [simp]:
  "outcome_tells ok b a (HandlerSuccess d u) \<longleftrightarrow> (\<exists>m. ok m \<and> a = b @ [m])"
  "outcome_tells ok b a (HandlerProvenNotApplied c t u) \<longleftrightarrow> a = b"
  "outcome_tells ok b a (HandlerRecoveryRequired c t u) \<longleftrightarrow> a = b \<or> (\<exists>m. ok m \<and> a = b @ [m])"
  "outcome_tells ok b a (proven_not_applied code t) \<longleftrightarrow> a = b"
  "outcome_tells ok b a (recovery_required_outcome code t) \<longleftrightarrow> a = b \<or> (\<exists>m. ok m \<and> a = b @ [m])"
  by (simp_all add: outcome_tells_def proven_not_applied_def recovery_required_outcome_def)

lemma mutation_error_tells:
  assumes "after = before \<or> (uncertain_error e \<and> (\<exists>m. ok m \<and> after = before @ [m]))"
  shows "outcome_tells ok before after (mutation_error T e n)"
  using assms by (cases e) (auto simp: Let_def)

declare mutation_error.simps [simp del]

definition attempts_tell ::
  "(mutation \<Rightarrow> bool) \<Rightarrow> mutation list \<Rightarrow> mutation list
    \<Rightarrow> handler_outcome + byte \<times> executor_error_class option \<Rightarrow> bool" where
  "attempts_tell ok before after r \<longleftrightarrow>
     (case r of
        Inl out \<Rightarrow> outcome_tells ok before after out
      | Inr (a, _) \<Rightarrow> if a = 0 then after = before else \<exists>m. ok m \<and> after = before @ [m])"

lemma attempts_tell_simps [simp]:
  "attempts_tell ok b a (Inl out) \<longleftrightarrow> outcome_tells ok b a out"
  "attempts_tell ok b a (Inr (n, p)) \<longleftrightarrow> (if n = 0 then a = b else \<exists>m. ok m \<and> a = b @ [m])"
  by (simp_all add: attempts_tell_def)

lemma retries_not_uncertain: "retries e a \<Longrightarrow> \<not> uncertain_error e"
  by (auto simp: retries_def retryable_before_mutation_def)

section \<open>The handler under the contract\<close>

locale logged_platform =
  fixes H :: "'w native_handler" and trace :: "'w \<Rightarrow> mutation list"
  assumes contract: "platform_contract H trace"
begin

lemma reads:
  "os_metadata (nh_os H) p w = (a, w') \<Longrightarrow> trace w' = trace w"
  "os_canonicalize (nh_os H) p w = (b, w') \<Longrightarrow> trace w' = trace w"
  "os_first_entry (nh_os H) p w = (c, w') \<Longrightarrow> trace w' = trace w"
  "np_inspect_volume (nh_platform H) p w = (d, w') \<Longrightarrow> trace w' = trace w"
  "np_validate_destination_absent (nh_platform H) p w = (e, w') \<Longrightarrow> trace w' = trace w"
  "stream_fingerprint H p n w = (f, w') \<Longrightarrow> trace w' = trace w"
  using contract by (metis keeps_log_def platform_contract_def snd_conv)+

lemma rename_logs:
  "rename_same_volume_no_replace (nh_platform H) r w = (Inr x, w') \<Longrightarrow> trace w' = trace w @ [Renamed r]"
  "rename_same_volume_no_replace (nh_platform H) r w = (Inl err, w') \<Longrightarrow>
     trace w' = trace w \<or> (uncertain_error err \<and> trace w' = trace w @ [Renamed r])"
  using contract by (auto simp: platform_contract_def logs_mutation_def)

lemma create_logs:
  "create_directory_no_replace (nh_platform H) p w = (Inr u, w') \<Longrightarrow> trace w' = trace w @ [DirectoryCreated p]"
  "create_directory_no_replace (nh_platform H) p w = (Inl err, w') \<Longrightarrow>
     trace w' = trace w \<or> (uncertain_error err \<and> trace w' = trace w @ [DirectoryCreated p])"
  using contract by (auto simp: platform_contract_def logs_mutation_def)

lemma remove_logs:
  "remove_directory_if_empty (nh_platform H) p w = (Inr u, w') \<Longrightarrow> trace w' = trace w @ [DirectoryRemoved p]"
  "remove_directory_if_empty (nh_platform H) p w = (Inl err, w') \<Longrightarrow>
     trace w' = trace w \<or> (uncertain_error err \<and> trace w' = trace w @ [DirectoryRemoved p])"
  using contract by (auto simp: platform_contract_def logs_mutation_def)

lemma create_directory_tells:
  assumes "handler_finish (create_directory L H base d) w = (out, w')"
    and "\<And>p. resolve_relative base d = Inr p \<Longrightarrow> ok (DirectoryCreated p)"
  shows "outcome_tells ok (trace w) (trace w') out"
proof (cases "resolve_relative base d")
  case (Inl e)
  then show ?thesis using assms(1) by (auto simp: create_directory_def handler_finish_def)
next
  case (Inr p)
  note ok = assms(2) [OF Inr]
  show ?thesis
    using assms(1) ok Inr
    by (auto simp: create_directory_def handler_finish_def
        split: prod.splits sum.splits if_splits
        dest!: reads(1) create_logs intro!: mutation_error_tells)
qed

lemma inspect_empty_directory_keeps:
  "inspect_empty_directory L H p w = (Inr u, w') \<Longrightarrow> trace w' = trace w"
  "inspect_empty_directory L H p w = (Inl out, w') \<Longrightarrow> outcome_tells ok (trace w) (trace w') out"
  by (auto simp: inspect_empty_directory_def Let_def
      split: prod.splits sum.splits if_splits option.splits dest!: reads(1) reads(3))

lemma remove_directory_tells:
  assumes "handler_finish (remove_directory L H base d) w = (out, w')"
    and "\<And>p. resolve_relative base d = Inr p \<Longrightarrow> ok (DirectoryRemoved p)"
  shows "outcome_tells ok (trace w) (trace w') out"
proof (cases "resolve_relative base d")
  case (Inl e)
  then show ?thesis using assms(1) by (auto simp: remove_directory_def handler_finish_def)
next
  case (Inr p)
  note ok = assms(2) [OF Inr]
  show ?thesis
  proof (cases "inspect_empty_directory L H p w")
    case (Pair r w1)
    show ?thesis
    proof (cases r)
      case (Inl e)
      then have "out = e" "w' = w1"
        using assms(1) Inr Pair by (simp_all add: remove_directory_def handler_finish_def eff_bind_def)
      then show ?thesis using inspect_empty_directory_keeps(2) Pair Inl by simp
    next
      case r: (Inr u)
      then have keep: "trace w1 = trace w" using inspect_empty_directory_keeps(1) Pair by simp
      show ?thesis
        using assms(1) ok Inr Pair r keep
        by (auto simp: remove_directory_def handler_finish_def eff_bind_def
            split: prod.splits sum.splits if_splits
            dest!: reads(1) remove_logs intro!: mutation_error_tells)
    qed
  qed
qed

lemma rename_attempts_tells:
  assumes "rename_attempts T H source destination located expected maximum previous attempts w = (r, w')"
    and "\<And>f. expected_matches expected f located \<Longrightarrow>
           ok (Renamed (manifest_rename_request source destination expected f maximum))"
    and "0 \<notin> set attempts"
  shows "attempts_tell ok (trace w) (trace w') r"
  using assms(1, 3)
proof (induction attempts arbitrary: previous w)
  case Nil
  then show ?case by auto
next
  case (Cons a later)
  have step: "rename_attempts T H source destination located expected maximum p later w1 = (r, w') \<Longrightarrow>
      trace w1 = trace w \<Longrightarrow> attempts_tell ok (trace w) (trace w') r" for p w1
    using Cons.IH [of p w1] Cons.prems(2) by simp
  show ?case
    using Cons.prems
    by (auto split: prod.splits sum.splits if_splits
        dest!: reads(5) reads(6) rename_logs retries_not_uncertain
        intro: step intro!: mutation_error_tells assms(2))
qed

lemma verify_renamed_tells:
  assumes "verify_renamed L H source destination expected maximum attempt previous w = (r, w')"
    and "m \<in> Collect ok" and "trace w = before @ [m]"
  shows "outcome_tells ok before (trace w') (case r of Inl out \<Rightarrow> out | Inr out \<Rightarrow> out)"
  using assms
  by (auto simp: verify_renamed_def Let_def split: prod.splits sum.splits if_splits
      dest!: reads(5) reads(6))

lemma rename_file_tells:
  assumes "handler_finish (rename_file L H base source_relative destination_relative original
             expected maximum) w = (out, w')"
    and "\<And>source destination f.
           resolve_relative base source_relative = Inr source \<Longrightarrow>
           resolve_relative base destination_relative = Inr destination \<Longrightarrow>
           expected_matches expected f (source_relative = original) \<Longrightarrow>
           ok (Renamed (manifest_rename_request source destination expected f maximum))"
  shows "outcome_tells ok (trace w) (trace w') out"
proof -
  consider (early) "\<exists>t. rename_file L H base source_relative destination_relative original expected
                        maximum w = (Inl t, w) \<and> outcome_tells ok (trace w) (trace w) t"
    | (run) source destination where
        "resolve_relative base source_relative = Inr source"
        "resolve_relative base destination_relative = Inr destination"
        "rename_file L H base source_relative destination_relative original expected maximum w =
           eff_bind (rename_attempts (wl_texts L) H source destination (source_relative = original)
                       expected maximum None [1, 2, 3])
             (\<lambda>(attempt, previous).
               if attempt = 0
               then eff_err (HandlerRecoveryRequired (lit ''native_mutation_ambiguous'')
                      (lit ''The bounded retry loop ended without a classified result.'')
                      (attempt_audit_of 3 (Some XErr_AmbiguousMutationOutcome)))
               else verify_renamed L H source destination expected maximum attempt previous) w"
  proof (cases "maximum = 0 \<or> maximum > MAX_EXECUTION_VERIFICATION_BYTES \<or> esm_byte_size expected > maximum")
    case True
    then show thesis by (intro early) (simp add: rename_file_def)
  next
    case False
    show thesis
    proof (cases "resolve_relative base source_relative")
      case (Inl e)
      then show thesis using False by (intro early) (simp add: rename_file_def)
    next
      case source: (Inr p)
      show thesis
      proof (cases "resolve_relative base destination_relative")
        case (Inl e)
        then show thesis using False source by (intro early) (simp add: rename_file_def)
      next
        case (Inr q)
        then show thesis using False source by (intro run [of p q]) (simp_all add: rename_file_def)
      qed
    qed
  qed
  then show ?thesis
  proof cases
    case early
    then show ?thesis using assms(1) by (auto simp: handler_finish_def)
  next
    case run
    obtain r w1 where attempts: "rename_attempts (wl_texts L) H source destination
        (source_relative = original) expected maximum None [1, 2, 3] w = (r, w1)"
      by fastforce
    have told: "attempts_tell ok (trace w) (trace w1) r"
      by (rule rename_attempts_tells [OF attempts]) (auto intro: assms(2) run)
    show ?thesis
    proof (cases r)
      case (Inl t)
      then show ?thesis
        using told attempts assms(1) run(3) by (auto simp: handler_finish_def eff_bind_def)
    next
      case r: (Inr x)
      obtain attempt previous where x: "x = (attempt, previous)" by fastforce
      show ?thesis
      proof (cases "attempt = 0")
        case True
        then show ?thesis
          using told attempts assms(1) run(3) r x
          by (auto simp: handler_finish_def eff_bind_def eff_err_def)
      next
        case False
        obtain v w2 where v: "verify_renamed L H source destination expected maximum attempt
            previous w1 = (v, w2)" by fastforce
        have "out = (case v of Inl out \<Rightarrow> out | Inr out \<Rightarrow> out)" "w' = w2"
          using attempts assms(1) run(3) r x v False
          by (auto simp: handler_finish_def eff_bind_def split: sum.splits)
        moreover obtain m where "m \<in> Collect ok" "trace w1 = trace w @ [m]"
          using told r x False by auto
        ultimately show ?thesis using verify_renamed_tells [OF v] by simp
      qed
    qed
  qed
qed

lemma expected_request_allowed:
  assumes "move_of primitive = Some m" and "expected_matches (mv_expected_source m) f located"
    and "resolve_relative base (fst (approved_paths direction m)) = Inr source"
    and "resolve_relative base (snd (approved_paths direction m)) = Inr destination"
  shows "mutation_allowed base direction primitive
           (Renamed (manifest_rename_request source destination (mv_expected_source m) f maximum))"
  using assms
  by (simp add: rename_allowed_def manifest_rename_request_def expected_matches_def Let_def)

lemma perform_primitive_tells:
  assumes "handler_finish (perform_primitive L H base maximum direction primitive) w = (out, w')"
  shows "outcome_tells (mutation_allowed base direction primitive) (trace w) (trace w') out"
proof -
  have moved: "outcome_tells (mutation_allowed base direction primitive) (trace w) (trace w') out"
    if m: "move_of primitive = Some m"
    and run: "perform_primitive L H base maximum direction primitive =
      rename_file L H base (fst (approved_paths direction m)) (snd (approved_paths direction m))
        (mv_original_source_relative_path m) (mv_expected_source m) maximum" for m
    by (rule rename_file_tells [OF assms [unfolded run]]) (rule expected_request_allowed [OF m])
  show ?thesis
    using assms moved
    by (cases primitive; cases direction)
      (auto simp: approved_paths_def intro: create_directory_tells remove_directory_tells)
qed

lemma validate_envelope_root_keeps:
  assumes "validate_envelope_root L H e w = (r, w')"
  shows "trace w' = trace w"
    and "r = Inr base \<Longrightarrow> decode_manifest_path (rbm_canonical_path (env_root_binding e)) = Inr base"
  using assms
  by (auto simp: validate_envelope_root_def eff_bind_def eff_map_err_def eff_lift_def eff_ok_def
      eff_err_def Let_def split: prod.splits sum.splits if_splits dest!: reads)

lemma native_handle_tells:
  assumes "native_handle L H e x direction w = (out, w')"
  shows "outcome_tells (\<lambda>m. \<exists>base. decode_manifest_path (rbm_canonical_path (env_root_binding e)) = Inr base
            \<and> envelope_operation e (ao_operation_id x) = Some x
            \<and> mutation_allowed base direction (ao_primitive x) m) (trace w) (trace w') out"
    (is "outcome_tells ?ok _ _ _")
proof -
  obtain r w1 where root: "validate_envelope_root L H e w = (r, w1)" by fastforce
  note keep = validate_envelope_root_keeps(1) [OF root]
  consider (early) code t where "out = proven_not_applied code t" "w' = w1"
    | (run) base where "r = Inr base" "envelope_operation e (ao_operation_id x) = Some x"
        "handler_finish (perform_primitive L H base (spm_maximum_rehash_bytes (env_safety_policy e))
           direction (ao_primitive x)) w1 = (out, w')"
    using assms root
    by (cases "primitive_validate (ao_primitive x) (rbm_volume (env_root_binding e))"; cases r)
      (auto simp: native_handle_def handler_finish_def eff_bind_def eff_map_err_def
        split: if_splits)
  then show ?thesis
  proof cases
    case early
    then show ?thesis using keep by simp
  next
    case run
    then have "outcome_tells (mutation_allowed base direction (ao_primitive x)) (trace w1) (trace w') out"
      by (intro perform_primitive_tells)
    moreover have "decode_manifest_path (rbm_canonical_path (env_root_binding e)) = Inr base"
      using validate_envelope_root_keeps(2) root run(1) by blast
    ultimately show ?thesis
      using run(2) keep by (cases out) auto
  qed
qed

end

section \<open>What was approved, and where\<close>

lemma push_components_all_normal:
  assumes "resolve_relative base relative = Inr p"
  shows "\<exists>q. all_normal q \<and> p = path_join base q"
  using assms by (auto simp: resolve_relative_def try_bind_Inr all_normal_def split: if_splits)

lemma resolved_below: "resolve_relative base relative = Inr p \<Longrightarrow> path_starts_with p base"
  using push_components_all_normal path_starts_with_join by blast

fun mutation_paths :: "mutation \<Rightarrow> path list" where
  "mutation_paths (Renamed r) = [rr_source r, rr_destination r]"
| "mutation_paths (DirectoryCreated p) = [p]"
| "mutation_paths (DirectoryRemoved p) = [p]"

lemma allowed_mutation_below:
  "mutation_allowed base direction primitive m \<Longrightarrow> p \<in> set (mutation_paths m) \<Longrightarrow> path_starts_with p base"
  by (cases m) (auto simp: rename_allowed_def dest: resolved_below)

text \<open>The mutation the envelope approves for this operation in this direction.\<close>

definition approved_mutation ::
  "execution_envelope \<Rightarrow> approved_operation \<Rightarrow> operation_direction \<Rightarrow> mutation \<Rightarrow> bool" where
  "approved_mutation e x direction m \<longleftrightarrow>
     envelope_operation e (ao_operation_id x) = Some x
     \<and> (\<exists>base. decode_manifest_path (rbm_canonical_path (env_root_binding e)) = Inr base
          \<and> mutation_allowed base direction (ao_primitive x) m
          \<and> (\<forall>p \<in> set (mutation_paths m). path_starts_with p base))"

context logged_platform
begin

lemma native_approves:
  assumes "native_handle L H e x direction w = (out, w')"
  shows "outcome_tells (approved_mutation e x direction) (trace w) (trace w') out"
  using native_handle_tells [OF assms]
  by (cases out) (auto simp: approved_mutation_def intro: allowed_mutation_below)

end

text \<open>C8: The handler does at most the one mutation the envelope approves for the operation, below the
  approved root, and its outcome tells the truth. On a platform that keeps the contract of its
  interface, success means that exactly the approved rename (of the file with the approved
  identity, size, time and content digest) or directory change was made; "proven not applied"
  means that nothing was changed; "recovery required" means nothing or exactly that mutation.
\<close>

theorem handler_does_only_what_is_approved:
  assumes "platform_contract H trace"
    and "native_handle L H e x direction w = (out, w')"
  shows "outcome_tells (approved_mutation e x direction) (trace w) (trace w') out"
  using logged_platform.native_approves [OF logged_platform.intro [OF assms(1)] assms(2)] .

section \<open>A file system in memory\<close>

record host_world =
  hw_directories :: "path list"
  hw_files :: "(path \<times> file_fingerprint) list"
  hw_log :: "mutation list"
  hw_output :: "byte list"
  hw_nonce :: digest

definition host_exists :: "host_world \<Rightarrow> path \<Rightarrow> bool" where
  "host_exists w p \<longleftrightarrow> p \<in> set (hw_directories w) \<or> p \<in> fst ` set (hw_files w)"

definition host_entry :: "host_world \<Rightarrow> path \<Rightarrow> bool" where
  "host_entry w p \<longleftrightarrow>
     list_ex (\<lambda>q. take (length p + 1) q = p @ [47]) (hw_directories w @ map fst (hw_files w))"

definition missing :: io_error where "missing = IoError KindNotFound (lit ''not found'')"

definition host_os :: "host_world worker_os" where
  "host_os =
     \<lparr>os_metadata = (\<lambda>p w.
        (if host_exists w p
         then Inr \<lparr>md_is_dir = p \<in> set (hw_directories w), md_is_symlink = False\<rparr>
         else Inl missing, w)),
      os_canonicalize = (\<lambda>p w. (if host_exists w p then Inr p else Inl missing, w)),
      os_first_entry = (\<lambda>p w.
        (if p \<notin> set (hw_directories w) then Inl missing
         else Inr (if host_entry w p then Some (Inr ()) else None), w))\<rparr>"

definition host_rename :: "rename_request \<Rightarrow> (host_world, platform_error, rename_outcome) eff" where
  "host_rename r w =
     (case map_of (hw_files w) (rr_source r) of
        None \<Rightarrow> (Inl PlatSourceMissing, w)
      | Some f \<Rightarrow>
          if host_exists w (rr_destination r) then (Inl PlatDestinationExists, w)
          else if fp_native_identity f \<noteq> rr_expected_identity r
          then (Inl (PlatPrecondition (lit ''identity changed'')), w)
          else (Inr \<lparr>ro_observed_identity = fp_native_identity f\<rparr>,
                w\<lparr>hw_files := (rr_destination r, f) # filter (\<lambda>(p, _). p \<noteq> rr_source r) (hw_files w),
                  hw_log := hw_log w @ [Renamed r]\<rparr>))"

definition host_create :: "path \<Rightarrow> (host_world, platform_error, unit) eff" where
  "host_create p w =
     (if host_exists w p then (Inl PlatDestinationExists, w)
      else (Inr (), w\<lparr>hw_directories := p # hw_directories w, hw_log := hw_log w @ [DirectoryCreated p]\<rparr>))"

definition host_remove :: "path \<Rightarrow> (host_world, platform_error, unit) eff" where
  "host_remove p w =
     (if p \<notin> set (hw_directories w) then (Inl PlatSourceMissing, w)
      else if host_entry w p then (Inl (PlatPrecondition (lit ''not empty'')), w)
      else (Inr (), w\<lparr>hw_directories := removeAll p (hw_directories w),
                      hw_log := hw_log w @ [DirectoryRemoved p]\<rparr>))"

definition host_platform :: "host_world native_platform" where
  "host_platform =
     \<lparr>rename_same_volume_no_replace = host_rename, create_directory_no_replace = host_create,
      remove_directory_if_empty = host_remove,
      np_inspect_volume = (\<lambda>_ w. (Inr sample_volume, w)),
      np_validate_destination_absent = (\<lambda>p w.
        (if host_exists w p then Inl PlatDestinationExists else Inr (), w)),
      np_fingerprint_streaming = (\<lambda>p _ maximum _ _ w.
        (case map_of (hw_files w) p of
           None \<Rightarrow> Inl PlatSourceMissing
         | Some f \<Rightarrow> if fp_byte_size f > maximum then Inl (PlatVerificationLimitExceeded maximum) else Inr f, w))\<rparr>"

definition host_handler :: "host_world native_handler" where
  "host_handler = \<lparr>nh_os = host_os, nh_platform = host_platform, nh_is_cancelled = (\<lambda>_. False)\<rparr>"

interpretation memory_host: logged_platform host_handler hw_log
  by unfold_locales
    (auto simp: platform_contract_def keeps_log_def logs_mutation_def host_handler_def host_os_def
      host_platform_def host_rename_def host_create_def host_remove_def split: option.splits if_splits)

text \<open>The sample envelope's first operation creates the directory \<^verbatim>\<open>b\<close> below \<^verbatim>\<open>/a\<close>.\<close>

definition sample_worker_libs :: worker_libs where
  "sample_worker_libs = auth_libs.extend sample_auth_libs
     (worker_libs.fields (\<lambda>s. s) \<lparr>io_text = (\<lambda>_. lit ''io''), serde_text = lit ''serde''\<rparr> False False)"

lemma sample_worker_fields:
  "uuid_text sample_worker_libs = uuid_text sample_protocol_libs"
  "parse_uuid sample_worker_libs = parse_uuid sample_protocol_libs"
  "json_material sample_worker_libs m = Some [1]"
  "\<not> wl_windows sample_worker_libs" "\<not> wl_macos sample_worker_libs"
  by (simp_all add: sample_worker_libs_def sample_auth_libs_def protocol_libs.defs auth_libs.defs
      libs.defs worker_libs.defs sample_protocol_libs_def)

lemma sample_worker_round_trip: "uuid_round_trip sample_worker_libs"
  by (rule sample_protocol_round_trip) (simp_all add: sample_worker_fields sample_protocol_libs_def)

lemmas sample_worker_facts =
  sample_envelope_facts [OF sample_worker_round_trip]
  sample_envelope_operations [OF sample_worker_round_trip]

definition sample_host :: host_world where
  "sample_host = \<lparr>hw_directories = [[47, 97]], hw_files = [], hw_log = [], hw_output = [], hw_nonce = 7\<rparr>"

lemma sample_root_validates:
  assumes "hw_directories w = [[47, 97]]"
  shows "validate_envelope_root sample_worker_libs host_handler (sample_envelope sample_worker_libs mac) w
     = (Inr [47, 97], w)"
proof -
  have "envelope_validate sample_worker_libs (sample_envelope sample_worker_libs mac) = Inr ()"
    using sample_worker_facts(1) by blast
  then show ?thesis
    using assms
    by (simp add: validate_envelope_root_def sample_worker_facts(4, 5) decode_manifest_path_def
        is_absolute_def has_root_def host_handler_def host_os_def host_platform_def host_exists_def
        eff_bind_def eff_map_err_def path_eq_def envelope_root_volume_matches_def
        volume_from_live_def sample_volume_def MAX_EXECUTION_VERIFICATION_BYTES_def Let_def
        sample_worker_fields)
qed

lemma sample_path: "resolve_relative [47, 97] (lit ''b'') = Inr [47, 97, 47, 98]"
  by (simp add: resolve_relative_def lit_simps is_separator_def split_separators_Cons
      bad_component_def ends_with_any_def is_windows_device_component_def first_split_def
      trim_end_by_def to_ascii_uppercase_def upper_char_def is_ascii_lower_def utf8_bytes_Cons
      utf8_char_def path_join_def has_root_def components_def body_components_def
      map_filter_simps seg_component_def)

lemma sample_operation_found:
  "envelope_operation (sample_envelope sample_worker_libs mac) (id_string sample_worker_libs 20)
     = Some (sample_create_approved sample_worker_libs)"
  using sample_worker_facts(2, 3) [of mac]
  by (cases "env_operations (sample_envelope sample_worker_libs mac)")
    (auto simp: envelope_operation_def sample_create_approved_def)

definition sample_created :: handler_outcome where
  "sample_created = HandlerSuccess (state_digest sample_worker_libs ''directory-present'' (lit ''b''))
     (attempt_audit_of 1 None)"

lemma sample_create_runs:
  assumes "hw_directories w = [[47, 97]]" and "hw_files w = []"
  shows "native_handle sample_worker_libs host_handler (sample_envelope sample_worker_libs mac)
      (sample_create_approved sample_worker_libs) DirForward w
    = (sample_created, w\<lparr>hw_directories := [[47, 97, 47, 98], [47, 97]],
         hw_log := hw_log w @ [DirectoryCreated [47, 97, 47, 98]]\<rparr>)"
proof -
  have "create_directory sample_worker_libs host_handler [47, 97] (lit ''b'') w
    = (Inr sample_created, w\<lparr>hw_directories := [[47, 97, 47, 98], [47, 97]],
         hw_log := hw_log w @ [DirectoryCreated [47, 97, 47, 98]]\<rparr>)"
    using assms
    by (simp add: create_directory_def sample_path host_handler_def host_os_def eff_bind_def
        host_platform_def host_create_def host_exists_def missing_def sample_created_def)
  then show ?thesis
    using sample_operation_found [of mac]
    by (simp add: native_handle_def handler_finish_def eff_bind_def eff_map_err_def
        sample_root_validates [OF assms(1)] sample_create_approved_def
        requires_case_only_staging_def simple_relative_paths)
qed

theorem handler_does_only_what_is_approved_witness:
  "\<exists>w'. native_handle sample_worker_libs host_handler (sample_envelope sample_worker_libs 0)
       (sample_create_approved sample_worker_libs) DirForward sample_host = (sample_created, w')
   \<and> outcome_tells (approved_mutation (sample_envelope sample_worker_libs 0)
       (sample_create_approved sample_worker_libs) DirForward) [] (hw_log w') sample_created
   \<and> hw_log w' = [DirectoryCreated [47, 97, 47, 98]]"
proof -
  note run = sample_create_runs [of sample_host 0, simplified sample_host_def, simplified]
  show ?thesis
    using handler_does_only_what_is_approved [OF memory_host.contract run] run
    by (auto simp: sample_host_def)
qed

end
