(* ===== verification/Worker_Session_Properties.thy ===== *)
theory Worker_Session_Properties
  imports Worker_Session Worker_Handler_Properties
begin

text \<open>
  What a session of the worker process handles. The environment is wrapped so that every call of
  the handler is noted beside the world; the wrapper changes nothing else. The calls of a whole
  run of \<^verbatim>\<open>serve\<close> then satisfy the session's rules, whatever the coordinator sends and however
  the reader, the writer, the clock and the handler behave.
\<close>

section \<open>Noting the calls\<close>

record handled_call =
  hc_envelope :: execution_envelope
  hc_operation :: approved_operation
  hc_direction :: operation_direction
  hc_outcome :: handler_outcome

definition beside :: "('w, 'e, 'a) eff \<Rightarrow> ('g \<times> 'w, 'e, 'a) eff" where
  "beside f = (\<lambda>(g, w). case f w of (r, w') \<Rightarrow> (r, (g, w')))"

definition recorded :: "'w server_env \<Rightarrow> (handled_call list \<times> 'w) server_env" where
  "recorded E =
     \<lparr>se_handshakes = se_handshakes E, se_requests = se_requests E, se_frames = se_frames E,
      se_writer = \<lparr>w_write_all = (\<lambda>bs. beside (w_write_all (se_writer E) bs)),
                   w_flush = beside (w_flush (se_writer E))\<rparr>,
      se_now = beside (se_now E), se_next_nonce = beside (se_next_nonce E),
      se_handle = (\<lambda>e x direction (calls, w).
        case se_handle E e x direction w of
          (outcome, w') \<Rightarrow>
            (outcome, (calls @ [\<lparr>hc_envelope = e, hc_operation = x, hc_direction = direction,
                                 hc_outcome = outcome\<rparr>], w')))\<rparr>"

lemma recorded_fields [simp]:
  "se_handshakes (recorded E) = se_handshakes E"
  "se_requests (recorded E) = se_requests E"
  "se_frames (recorded E) = se_frames E"
  "se_now (recorded E) = beside (se_now E)"
  "se_next_nonce (recorded E) = beside (se_next_nonce E)"
  by (simp_all add: recorded_def)

lemma beside_bind: "beside (eff_bind m k) = eff_bind (beside m) (\<lambda>x. beside (k x))"
  by (auto simp: fun_eq_iff beside_def eff_bind_def split: prod.splits sum.splits)

lemma beside_map_err: "beside (eff_map_err f m) = eff_map_err f (beside m)"
  by (auto simp: fun_eq_iff beside_def eff_map_err_def split: prod.splits)

lemma beside_pure:
  "beside (eff_lift r) = eff_lift r" "beside (eff_ok x) = eff_ok x" "beside (eff_err e) = eff_err e"
  by (auto simp: fun_eq_iff beside_def eff_lift_def eff_ok_def eff_err_def)

lemma beside_apply: "beside f (g, w) = (case f w of (r, w') \<Rightarrow> (r, (g, w')))"
  by (simp add: beside_def)

lemmas beside_rules = beside_bind beside_map_err beside_pure

lemma recorded_send: "server_send (recorded E) f = beside (server_send E f)"
  by (simp add: server_send_def write_frame_def recorded_def beside_rules Let_def
      if_distrib [of beside] cong: if_cong)

lemma recorded_refuse:
  "refuse_handshake L (recorded E) h root_key category code detail
     = beside (refuse_handshake L E h root_key category code detail)"
  by (simp add: refuse_handshake_def beside_rules recorded_send)

lemma recorded_response:
  "send_response L (recorded E) s session_key n operation result
     = beside (send_response L E s session_key n operation result)"
  by (simp add: send_response_def beside_rules recorded_send)

lemma recorded_refusal:
  "send_protocol_refusal L (recorded E) s session_key n operation category code detail
     = beside (send_protocol_refusal L E s session_key n operation category code detail)"
  by (simp add: send_protocol_refusal_def recorded_response)

lemma recorded_hello: "send_hello L (recorded E) root_key pid = beside (send_hello L E root_key pid)"
  by (simp add: send_hello_def beside_rules recorded_send)

lemma recorded_accept:
  "accept_session L (recorded E) root_key h s = beside (accept_session L E root_key h s)"
  by (simp add: accept_session_def beside_rules recorded_send recorded_refuse
      sum.case_distrib [of beside] cong: sum.case_cong)

text \<open>Only the handler adds a call.\<close>

lemma beside_same: "beside f (g, w) = (r, (g', w')) \<longleftrightarrow> g' = g \<and> f w = (r, w')"
  by (auto simp: beside_apply split: prod.splits)

lemma recorded_handle:
  "se_handle (recorded E) e x direction (calls, w) =
     (case se_handle E e x direction w of
        (outcome, w') \<Rightarrow>
          (outcome, (calls @ [\<lparr>hc_envelope = e, hc_operation = x, hc_direction = direction,
                               hc_outcome = outcome\<rparr>], w')))"
  by (simp add: recorded_def)

text \<open>An environment whose clock, nonces and writer leave the file system alone.\<close>

definition quiet_server :: "'w server_env \<Rightarrow> ('w \<Rightarrow> mutation list) \<Rightarrow> bool" where
  "quiet_server E trace \<longleftrightarrow>
     keeps_log trace (se_now E) \<and> keeps_log trace (se_next_nonce E)
     \<and> (\<forall>bs. keeps_log trace (w_write_all (se_writer E) bs)) \<and> keeps_log trace (w_flush (se_writer E))"

lemma keeps_log_rules:
  "keeps_log trace (eff_lift r)" "keeps_log trace (eff_ok x)" "keeps_log trace (eff_err e)"
  "keeps_log trace m \<Longrightarrow> keeps_log trace (eff_map_err f m)"
  "keeps_log trace m \<Longrightarrow> (\<And>x. keeps_log trace (k x)) \<Longrightarrow> keeps_log trace (eff_bind m k)"
  "(b \<Longrightarrow> keeps_log trace m) \<Longrightarrow> (\<not> b \<Longrightarrow> keeps_log trace n) \<Longrightarrow> keeps_log trace (if b then m else n)"
  by (auto simp: keeps_log_def eff_lift_def eff_ok_def eff_err_def eff_map_err_def eff_bind_def
      split: prod.splits sum.splits) (metis snd_conv)+

lemma quiet_server_keeps:
  assumes "quiet_server E trace"
  shows "keeps_log trace (server_send E f)"
    and "keeps_log trace (send_response L E s session_key n b result)"
    and "keeps_log trace (send_protocol_refusal L E s session_key n b category code detail)"
    and "keeps_log trace (refuse_handshake L E h root_key category code detail)"
    and "keeps_log trace (send_hello L E root_key pid)"
    and "keeps_log trace (accept_session L E root_key h s)"
proof -
  have q: "keeps_log trace (se_now E)" "keeps_log trace (se_next_nonce E)"
    "keeps_log trace (w_write_all (se_writer E) bs)" "keeps_log trace (w_flush (se_writer E))" for bs
    using assms by (simp_all add: quiet_server_def)
  show send: "keeps_log trace (server_send E f)" for f
    unfolding server_send_def write_frame_def by (intro keeps_log_rules q)
  show response: "keeps_log trace (send_response L E s session_key n b result)" for result
    unfolding send_response_def by (intro keeps_log_rules q send)
  show "keeps_log trace (send_protocol_refusal L E s session_key n b category code detail)"
    unfolding send_protocol_refusal_def by (rule response)
  show refuse: "keeps_log trace (refuse_handshake L E h root_key category code detail)"
    for category code detail
    unfolding refuse_handshake_def by (intro keeps_log_rules q send)
  show "keeps_log trace (send_hello L E root_key pid)"
    unfolding send_hello_def by (intro keeps_log_rules q send)
  show "keeps_log trace (accept_session L E root_key h s)"
    unfolding accept_session_def
    by (intro keeps_log_rules q send refuse allI)
      (auto split: sum.splits intro!: keeps_log_rules q send refuse)
qed

lemma quiet_run:
  "keeps_log trace f \<Longrightarrow> f w = (r, w') \<Longrightarrow> trace w' = trace w"
  by (metis keeps_log_def snd_conv)

definition next_state :: "operation_binding \<Rightarrow> handler_outcome \<Rightarrow> session_state \<Rightarrow> session_state" where
  "next_state b outcome st =
     (if handler_succeeded outcome then record_success b st else st)\<lparr>ss_next_sequence := ss_next_sequence st + 1\<rparr>"

text \<open>A handled request: what the loop knows, the call, and what happens afterwards.\<close>

lemma recorded_handle_request:
  assumes "handle_request L (recorded E) s session_key now b x st (calls, w) = (res, (calls', w'))"
  shows "\<exists>outcome w1 q.
      handle_request L E s session_key now b x st w = (res, w')
    \<and> se_handle E (osn_envelope s) x (opb_direction b) w = (outcome, w1)
    \<and> calls' = calls @ [\<lparr>hc_envelope = osn_envelope s, hc_operation = x,
                         hc_direction = opb_direction b, hc_outcome = outcome\<rparr>]
    \<and> send_response L E s session_key (ss_next_sequence st) b (outcome_of_handler now outcome) w1 = (q, w')
    \<and> (\<forall>st'. res = Inr st' \<longrightarrow> \<not> handler_needs_recovery outcome \<and> st' = next_state b outcome st)"
proof -
  obtain outcome w1 where h: "se_handle E (osn_envelope s) x (opb_direction b) w = (outcome, w1)"
    by fastforce
  obtain q w2 where r: "send_response L E s session_key (ss_next_sequence st) b
      (outcome_of_handler now outcome) w1 = (q, w2)"
    by fastforce
  show ?thesis
    using assms h r
    by (cases q)
      (auto simp: handle_request_def recorded_handle recorded_response eff_bind_def eff_map_err_def
        beside_apply next_state_def Let_def split: if_splits)
qed

lemma recorded_step:
  assumes "request_step L (recorded E) s session_key r st (calls, w) = (res, (calls', w'))"
  shows "request_step L E s session_key r st w = (res, w')
    \<and> ((calls' = calls \<and> (\<forall>st'. res \<noteq> Inr st')
          \<and> (\<forall>trace. quiet_server E trace \<longrightarrow> trace w' = trace w))
      \<or> (\<exists>now st1 x outcome w1 w2 q.
           se_now E w = (Inr now, w1) \<and> admit_request L s session_key now r st = Inr (st1, x)
         \<and> se_handle E (osn_envelope s) x (opb_direction (req_operation r)) w1 = (outcome, w2)
         \<and> calls' = calls @ [\<lparr>hc_envelope = osn_envelope s, hc_operation = x,
                              hc_direction = opb_direction (req_operation r), hc_outcome = outcome\<rparr>]
         \<and> send_response L E s session_key (ss_next_sequence st1) (req_operation r)
              (outcome_of_handler now outcome) w2 = (q, w')
         \<and> (\<forall>st'. res = Inr st' \<longrightarrow>
              \<not> handler_needs_recovery outcome \<and> st' = next_state (req_operation r) outcome st1)))"
proof -
  obtain n w1 where now: "se_now E w = (n, w1)" by fastforce
  show ?thesis
  proof (cases n)
    case (Inl e)
    then show ?thesis
      using assms now
      by (auto simp: request_step_def eff_bind_def eff_map_err_def beside_apply quiet_server_def
          dest: quiet_run [of _ "se_now E" w n w1])
  next
    case (Inr t)
    show ?thesis
    proof (cases "admit_request L s session_key t r st")
      case (Inl reason)
      obtain category code detail where reason: "reason = (category, code, detail)"
        by (cases reason)
      obtain q w2 where sent: "send_protocol_refusal L E s session_key (ss_next_sequence st)
          (req_operation r) category code detail w1 = (q, w2)" by fastforce
      have "trace w2 = trace w" if "quiet_server E trace" for trace
        using quiet_run [OF quiet_server_keeps(3) [OF that] sent] quiet_run [of trace "se_now E" w n w1] now that
        by (simp add: quiet_server_def)
      then show ?thesis
        using assms now Inr Inl reason sent
        by (cases q)
          (auto simp: request_step_def eff_bind_def eff_map_err_def beside_apply recorded_refusal)
    next
      case admitted: (Inr p)
      obtain st1 x where p: "p = (st1, x)" by fastforce
      have steps: "request_step L E s session_key r st w
          = handle_request L E s session_key t (req_operation r) x st1 w1"
        "request_step L (recorded E) s session_key r st (calls, w)
          = handle_request L (recorded E) s session_key t (req_operation r) x st1 (calls, w1)"
        using now Inr admitted p
        by (simp_all add: request_step_def eff_bind_def eff_map_err_def beside_apply)
      show ?thesis
        using recorded_handle_request [OF assms [unfolded steps(2)]] now Inr admitted p
        by (simp only: steps(1)) blast
    qed
  qed
qed

section \<open>The rules of a session\<close>

abbreviation call_id :: "handled_call \<Rightarrow> ustring" where
  "call_id c \<equiv> ao_operation_id (hc_operation c)"

definition done_in :: "handled_call list \<Rightarrow> operation_direction \<Rightarrow> ustring \<Rightarrow> bool" where
  "done_in before direction i \<longleftrightarrow>
     (\<exists>b \<in> set before. hc_direction b = direction \<and> call_id b = i \<and> handler_succeeded (hc_outcome b))"

text \<open>What must hold when a call is made after the calls before it.\<close>

definition call_allowed ::
  "'a auth_libs_scheme \<Rightarrow> open_session \<Rightarrow> digest \<Rightarrow> handled_call list \<Rightarrow> handled_call \<Rightarrow> bool" where
  "call_allowed L s session_key before c \<longleftrightarrow>
     hc_envelope c = osn_envelope s
     \<and> envelope_operation (osn_envelope s) (call_id c) = Some (hc_operation c)
     \<and> authorization_permits (osn_authorization s) (call_id c) (hc_direction c)
     \<and> (\<exists>r now. request_verify L r s (of_nat (length before + 1)) session_key now = Inr ()
          \<and> opb_operation_id (req_operation r) = call_id c
          \<and> opb_direction (req_operation r) = hc_direction c)
     \<and> (\<forall>b \<in> set before. \<not> handler_needs_recovery (hc_outcome b)
          \<and> \<not> (call_id b = call_id c \<and> hc_direction b = hc_direction c))
     \<and> (hc_direction c = DirForward \<longrightarrow>
          (\<forall>d \<in> set (ao_dependencies (hc_operation c)). done_in before DirForward d))
     \<and> (hc_direction c = DirRollback \<longrightarrow>
          (\<forall>y \<in> set (env_operations (osn_envelope s)).
             ao_operation_id y \<in> rollback_eligible_ids (osn_authorization s)
             \<and> call_id c \<in> set (ao_dependencies y)
             \<longrightarrow> done_in before DirRollback (ao_operation_id y)))"

definition calls_allowed ::
  "'a auth_libs_scheme \<Rightarrow> open_session \<Rightarrow> digest \<Rightarrow> handled_call list \<Rightarrow> bool" where
  "calls_allowed L s session_key calls \<longleftrightarrow>
     (\<forall>i < length calls. call_allowed L s session_key (take i calls) (calls ! i))"

lemma calls_allowed_simps [simp]:
  "calls_allowed L s session_key []"
  "calls_allowed L s session_key (calls @ [c])
     \<longleftrightarrow> calls_allowed L s session_key calls \<and> call_allowed L s session_key calls c"
  by (auto simp: calls_allowed_def less_Suc_eq nth_append)

text \<open>The state of the loop summarises the calls.\<close>

definition session_inv :: "open_session \<Rightarrow> session_state \<Rightarrow> handled_call list \<Rightarrow> bool" where
  "session_inv s st calls \<longleftrightarrow>
     ss_next_sequence st = of_nat (length calls + 1)
     \<and> ss_attempted st = (\<lambda>c. (call_id c, hc_direction c = DirRollback)) ` set calls
     \<and> (\<forall>i. i \<in> ss_applied_forward st \<longleftrightarrow> done_in calls DirForward i)
     \<and> (\<forall>i. i \<in> ss_remaining_rollback st \<longleftrightarrow>
          i \<in> rollback_eligible_ids (osn_authorization s) \<and> \<not> done_in calls DirRollback i)
     \<and> (\<forall>b \<in> set calls. \<not> handler_needs_recovery (hc_outcome b))"

lemma session_inv_new: "session_inv s (session_state_new s) []"
  by (simp add: session_inv_def session_state_new_def done_in_def)

lemma done_in_snoc:
  "done_in (calls @ [c]) direction i \<longleftrightarrow> done_in calls direction i
     \<or> (hc_direction c = direction \<and> call_id c = i \<and> handler_succeeded (hc_outcome c))"
  by (auto simp: done_in_def)

lemma envelope_operation_id: "envelope_operation e i = Some x \<Longrightarrow> ao_operation_id x = i"
  by (auto simp: envelope_operation_def find_Some_iff)

lemma direction_neq: "(d \<noteq> DirForward) = (d = DirRollback)" "(d \<noteq> DirRollback) = (d = DirForward)"
  by (cases d; simp)+

text \<open>What an admitted request has passed.\<close>

lemma admit_request_Inr:
  assumes "admit_request L s session_key now r st = Inr (st1, x)"
  shows "request_verify L r s (ss_next_sequence st) session_key now = Inr ()"
    and "authorization_permits (osn_authorization s) (opb_operation_id (req_operation r))
           (opb_direction (req_operation r))"
    and "envelope_operation (osn_envelope s) (opb_operation_id (req_operation r)) = Some x"
    and "replay_key (req_operation r) \<notin> ss_attempted st"
    and "opb_direction (req_operation r) = DirForward \<Longrightarrow> \<not> dependency_missing st x"
    and "opb_direction (req_operation r) = DirRollback \<Longrightarrow> \<not> dependent_still_applied st (osn_envelope s) x"
    and "st1 = st\<lparr>ss_seen_nonces := insert (req_message_nonce r) (ss_seen_nonces st),
                  ss_attempted := insert (replay_key (req_operation r)) (ss_attempted st)\<rparr>"
  using assms
  by (auto simp: admit_request_def Let_def dependency_missing_def dependent_still_applied_def
      split: sum.splits option.splits if_splits)

lemma admitted_call_allowed:
  assumes "admit_request L s session_key now r st = Inr (st1, x)" and "session_inv s st calls"
    and c: "hc_envelope c = osn_envelope s" "hc_operation c = x"
      "hc_direction c = opb_direction (req_operation r)"
  shows "call_allowed L s session_key calls c"
proof -
  note a = admit_request_Inr [OF assms(1)]
  have i: "ao_operation_id x = opb_operation_id (req_operation r)"
    using a(3) by (rule envelope_operation_id)
  have once: "\<not> (call_id b = call_id c \<and> hc_direction b = hc_direction c)" if "b \<in> set calls" for b
    using a(4) assms(2) c i imageI [OF that, of "\<lambda>c. (call_id c, hc_direction c = DirRollback)"]
    by (auto simp: session_inv_def replay_key_def)
  have "\<exists>r' n. request_verify L r' s (of_nat (length calls + 1)) session_key n = Inr ()
          \<and> opb_operation_id (req_operation r') = call_id c
          \<and> opb_direction (req_operation r') = hc_direction c"
    using a(1) assms(2) c i by (intro exI [of _ r] exI [of _ now]) (simp add: session_inv_def)
  then show ?thesis
    using a(2, 3, 5, 6) assms(2) c i once
    by (auto simp: call_allowed_def session_inv_def dependency_missing_def dependent_still_applied_def
        list_ex_iff)
qed

lemma next_state_inv:
  assumes "admit_request L s session_key now r st = Inr (st1, x)" and "session_inv s st calls"
    and c: "hc_operation c = x" "hc_direction c = opb_direction (req_operation r)"
    and "\<not> handler_needs_recovery (hc_outcome c)"
  shows "session_inv s (next_state (req_operation r) (hc_outcome c) st1) (calls @ [c])"
proof -
  note a = admit_request_Inr [OF assms(1)]
  have i: "ao_operation_id x = opb_operation_id (req_operation r)"
    using a(3) by (rule envelope_operation_id)
  show ?thesis
    using assms(2, 5) c i
    by (cases "opb_direction (req_operation r)"; cases "handler_succeeded (hc_outcome c)")
      (auto simp: session_inv_def a(7) next_state_def record_success_def replay_key_def done_in_snoc
        direction_neq)
qed

text \<open>One step keeps the rules, and the loop keeps them.\<close>

lemma step_keeps_rules:
  assumes "request_step L (recorded E) s session_key r st (calls, w) = (res, (calls', w'))"
    and "session_inv s st calls" and "calls_allowed L s session_key calls"
  shows "calls_allowed L s session_key calls'" and "res = Inr st' \<Longrightarrow> session_inv s st' calls'"
proof -
  consider (none) "calls' = calls" "\<And>st'. res \<noteq> Inr st'"
    | (one) now st1 x outcome where "admit_request L s session_key now r st = Inr (st1, x)"
        "calls' = calls @ [\<lparr>hc_envelope = osn_envelope s, hc_operation = x,
                            hc_direction = opb_direction (req_operation r), hc_outcome = outcome\<rparr>]"
        "\<And>st'. res = Inr st' \<Longrightarrow>
           \<not> handler_needs_recovery outcome \<and> st' = next_state (req_operation r) outcome st1"
    using recorded_step [OF assms(1)] by blast
  then have "calls_allowed L s session_key calls' \<and> (res = Inr st' \<longrightarrow> session_inv s st' calls')"
  proof cases
    case none
    then show ?thesis using assms(3) by simp
  next
    case one
    let ?c = "\<lparr>hc_envelope = osn_envelope s, hc_operation = x,
                hc_direction = opb_direction (req_operation r), hc_outcome = outcome\<rparr>"
    have "call_allowed L s session_key calls ?c"
      by (rule admitted_call_allowed [OF one(1) assms(2)]) simp_all
    moreover have "session_inv s st' calls'" if "res = Inr st'"
      using next_state_inv [OF one(1) assms(2), of ?c] one(2) one(3) [OF that] by simp
    ultimately show ?thesis using assms(3) one(2) by simp
  qed
  then show "calls_allowed L s session_key calls'" and "res = Inr st' \<Longrightarrow> session_inv s st' calls'"
    by simp_all
qed

lemma loop_keeps_rules:
  assumes "session_loop L (recorded E) s session_key h root_key st es (calls, w) = (r, es', (calls', w'))"
    and "session_inv s st calls" and "calls_allowed L s session_key calls"
  shows "calls_allowed L s session_key calls'
    \<and> session_loop L E s session_key h root_key st es w = (r, es', w')"
  using assms
proof (induction "reader_size es" arbitrary: es st calls w rule: less_induct)
  case less
  obtain f es1 where f: "read_frame (se_requests E) es = (f, es1)" by fastforce
  note unfold = session_loop.simps [of _ _ _ _ _ _ _ es]
  show ?case
  proof (cases f)
    case (Inl e)
    then show ?thesis
      using less.prems f by (auto simp: unfold recorded_refuse beside_apply split: prod.splits)
  next
    case (Inr m)
    show ?thesis
    proof (cases m)
      case None
      then show ?thesis using less.prems f Inr by (simp add: unfold)
    next
      case (Some c)
      obtain request where c: "c = FrameExecuteOperation request" by (cases c)
      obtain res calls1 w1 where step: "request_step L (recorded E) s session_key request st (calls, w)
          = (res, (calls1, w1))"
        by (metis surj_pair)
      note plain = recorded_step [OF step, THEN conjunct1]
      note rules = step_keeps_rules [OF step less.prems(2, 3)]
      show ?thesis
      proof (cases res)
        case (Inl e)
        then show ?thesis
          using less.prems(1) f Inr Some c step plain rules by (simp add: unfold)
      next
        case res: (Inr st1)
        have size: "reader_size es1 < reader_size es"
          using f Inr Some by (intro read_frame_size) auto
        have "session_loop L (recorded E) s session_key h root_key st1 es1 (calls1, w1)
            = (r, es', (calls', w'))"
          using less.prems(1) f Inr Some c step res by (simp add: unfold)
        from less.hyps [OF size this rules(2) [OF res] rules(1)]
        show ?thesis
          using f Inr Some c plain res by (simp add: unfold)
      qed
    qed
  qed
qed

section \<open>Whole runs\<close>

definition handled_calls ::
  "'a auth_libs_scheme \<Rightarrow> 'w server_env \<Rightarrow> digest \<Rightarrow> u32 \<Rightarrow> reader \<Rightarrow> 'w \<Rightarrow> handled_call list" where
  "handled_calls L E root_key pid es w =
     (case serve L (recorded E) root_key pid es ([], w) of (_, _, calls, _) \<Rightarrow> calls)"

lemma accept_session_Inr:
  assumes "accept_session L E root_key h s w = (Inr session_key, w')"
  shows "\<exists>now. open_session_verify L s h root_key now = Inr ()"
    and "derive_session_key L root_key h s = Inr session_key"
  using assms
  by (auto simp: accept_session_def eff_bind_def eff_map_err_def eff_lift_def eff_ok_def eff_err_def
      map_err_def split: prod.splits sum.splits)

lemma hello_signed_pid: "hello_signed L pid nonce t root_key = Inr h \<Longrightarrow> hel_worker_pid h = pid"
  by (auto simp: hello_signed_def try_bind_Inr Let_def mac_records split: if_splits)

lemma send_hello_pid:
  "send_hello L E root_key pid w = (Inr h, w') \<Longrightarrow> hel_worker_pid h = pid"
  by (auto simp: send_hello_def eff_bind_def eff_lift_def eff_ok_def map_err_def
      split: prod.splits sum.splits dest: hello_signed_pid)

lemma serve_keeps_rules:
  assumes "serve L (recorded E) root_key pid es ([], w) = (r, es', (calls, w'))"
  shows "serve L E root_key pid es w = (r, es', w')
    \<and> (calls \<noteq> [] \<longrightarrow> (\<exists>s h now session_key.
         open_session_verify L s h root_key now = Inr ()
       \<and> hel_worker_pid h = pid
       \<and> derive_session_key L root_key h s = Inr session_key
       \<and> calls_allowed L s session_key calls))"
proof -
  obtain hr w1 where h: "send_hello L E root_key pid w = (hr, w1)" by fastforce
  obtain fr es1 where f: "read_frame (se_handshakes E) es = (fr, es1)" by fastforce
  consider (early) "calls = []" "serve L E root_key pid es w = (r, es', w')"
    | (session) hello s session_key w2 where "hr = Inr hello"
        "fr = Inr (Some (FrameOpenSession s))"
        "accept_session L E root_key hello s w1 = (Inr session_key, w2)"
        "serve_session L (recorded E) s session_key hello root_key es1 ([], w2) = (r, es', (calls, w'))"
        "serve L E root_key pid es w = serve_session L E s session_key hello root_key es1 w2"
    using assms h f
    by (auto simp: serve_def recorded_hello recorded_accept recorded_refuse beside_apply
        split: sum.splits option.splits prod.splits coordinator_handshake_frame.splits)
  then show ?thesis
  proof cases
    case early
    then show ?thesis by simp
  next
    case session
    have "calls_allowed L s session_key calls
      \<and> serve_session L E s session_key hello root_key es1 w2 = (r, es', w')"
      using loop_keeps_rules [OF session(4) [unfolded serve_session_def] session_inv_new]
      by (simp add: serve_session_def)
    then show ?thesis
      using session accept_session_Inr [OF session(3)] send_hello_pid h by metis
  qed
qed

text \<open>C1: Whatever bytes the coordinator sends and however the clock, the writer and the handler behave,
  the worker process handles only what was consented, in order. If its handler is called at all,
  an \<^verbatim>\<open>OpenSession\<close> verified under the root key (consent included) for this process; the n-th
  call answers a request verified under the session key with sequence number n; the operation is
  the exact one of the envelope and its direction is authorised; no operation is handled twice in
  one direction; forward operations come after all their dependencies succeeded, rollbacks after
  everything that depends on them was rolled back; and nothing follows a call that needs recovery.
\<close>

theorem worker_handles_only_consented_requests:
  "handled_calls L E root_key pid es w = []
   \<or> (\<exists>s h now session_key.
        open_session_verify L s h root_key now = Inr ()
      \<and> hel_worker_pid h = pid
      \<and> derive_session_key L root_key h s = Inr session_key
      \<and> calls_allowed L s session_key (handled_calls L E root_key pid es w))"
proof -
  obtain r es' calls w' where run: "serve L (recorded E) root_key pid es ([], w) = (r, es', (calls, w'))"
    by (metis surj_pair)
  then have "handled_calls L E root_key pid es w = calls" by (simp add: handled_calls_def)
  then show ?thesis using serve_keeps_rules [OF run] by blast
qed

section \<open>The worker on a file system\<close>

definition call_tells :: "handled_call \<Rightarrow> mutation list \<Rightarrow> bool" where
  "call_tells c ms \<longleftrightarrow>
     outcome_tells (approved_mutation (hc_envelope c) (hc_operation c) (hc_direction c)) [] ms (hc_outcome c)"

definition calls_made ::
  "mutation list \<Rightarrow> mutation list \<Rightarrow> handled_call list \<Rightarrow> bool" where
  "calls_made before after calls \<longleftrightarrow>
     (\<exists>ms. after = before @ concat ms \<and> list_all2 call_tells calls ms)"

lemma outcome_tells_append:
  "outcome_tells ok before after out \<longleftrightarrow> (\<exists>ms. after = before @ ms \<and> outcome_tells ok [] ms out)"
  by (cases out) auto

lemma calls_made_snoc:
  assumes "calls_made before after calls"
    and "outcome_tells (approved_mutation (hc_envelope c) (hc_operation c) (hc_direction c))
           after after' (hc_outcome c)"
  shows "calls_made before after' (calls @ [c])"
proof -
  obtain ms where ms: "after = before @ concat ms" "list_all2 call_tells calls ms"
    using assms(1) by (auto simp: calls_made_def)
  obtain m where m: "after' = after @ m" "call_tells c m"
    using assms(2) by (auto simp: outcome_tells_append [of _ after] call_tells_def)
  show ?thesis
    unfolding calls_made_def
    by (rule exI [of _ "ms @ [m]"]) (simp add: ms m list_all2_appendI)
qed

locale native_server = logged_platform H trace
  for H :: "'w native_handler" and trace :: "'w \<Rightarrow> mutation list" +
  fixes L :: "'a worker_libs_scheme" and E :: "'w server_env"
  assumes quiet: "quiet_server E trace"
    and native: "se_handle E = native_handle L H"
begin

lemmas keeps = quiet_server_keeps [OF quiet]

lemma kept:
  "refuse_handshake L' E h root_key category code detail w = (r, w') \<Longrightarrow> trace w' = trace w"
  "accept_session L' E root_key h s w = (q, w') \<Longrightarrow> trace w' = trace w"
  by (auto intro: quiet_run keeps)

lemma step_made:
  assumes "request_step L' (recorded E) s session_key r st (calls, w) = (res, (calls', w'))"
    and "calls_made before (trace w) calls"
  shows "calls_made before (trace w') calls'"
proof -
  consider (none) "calls' = calls" "trace w' = trace w"
    | (one) now x outcome w1 w2 q and st1 :: session_state where "se_now E w = (Inr now, w1)"
        "native_handle L H (osn_envelope s) x (opb_direction (req_operation r)) w1 = (outcome, w2)"
        "calls' = calls @ [\<lparr>hc_envelope = osn_envelope s, hc_operation = x,
                            hc_direction = opb_direction (req_operation r), hc_outcome = outcome\<rparr>]"
        "send_response L' E s session_key (ss_next_sequence st1) (req_operation r)
           (outcome_of_handler now outcome) w2 = (q, w')"
    using recorded_step [OF assms(1)] quiet unfolding native
    by (elim conjE disjE exE) (auto intro: none one)
  then show ?thesis
  proof cases
    case none
    then show ?thesis using assms(2) by simp
  next
    case one
    have "trace w1 = trace w"
      using quiet_run [of trace "se_now E"] one(1) quiet by (auto simp: quiet_server_def)
    moreover have "trace w' = trace w2" by (rule quiet_run [OF keeps(2) one(4)])
    ultimately show ?thesis
      using native_approves [OF one(2)] assms(2) one(3) by (simp add: calls_made_snoc)
  qed
qed

lemma loop_made:
  assumes "session_loop L' (recorded E) s session_key h root_key st es (calls, w) = (r, es', (calls', w'))"
    and "calls_made before (trace w) calls"
  shows "calls_made before (trace w') calls'"
  using assms
proof (induction "reader_size es" arbitrary: es st calls w rule: less_induct)
  case less
  obtain f es1 where f: "read_frame (se_requests E) es = (f, es1)" by fastforce
  note unfold = session_loop.simps [of _ _ _ _ _ _ _ es]
  consider (eof) "f = Inr None" | (bad) e where "f = Inl e"
    | (frame) request where "f = Inr (Some (FrameExecuteOperation request))"
    by (metis coordinator_session_frame.exhaust not_None_eq sum.exhaust)
  then show ?case
  proof cases
    case eof
    then show ?thesis using less.prems f by (simp add: unfold)
  next
    case bad
    then show ?thesis
      using less.prems f
      by (auto simp: unfold recorded_refuse beside_apply split: prod.splits dest!: kept(1))
  next
    case frame
    obtain res calls1 w1 where step: "request_step L' (recorded E) s session_key request st (calls, w)
        = (res, (calls1, w1))" by (metis surj_pair)
    note made = step_made [OF step less.prems(2)]
    show ?thesis
    proof (cases res)
      case (Inl e)
      then show ?thesis using less.prems(1) f frame step made by (simp add: unfold)
    next
      case (Inr st1)
      have "reader_size es1 < reader_size es" using f frame by (intro read_frame_size) auto
      then show ?thesis
        using less.prems(1) f frame step Inr by (intro less.hyps [OF _ _ made]) (simp_all add: unfold)
    qed
  qed
qed

lemma serve_made:
  assumes "serve L' (recorded E) root_key pid es ([], w) = (r, es', (calls, w'))"
  shows "calls_made (trace w) (trace w') calls"
proof -
  have start: "calls_made (trace w) (trace w2) []" if "trace w2 = trace w" for w2
    using that by (simp add: calls_made_def)
  obtain hr w1 where h: "send_hello L' E root_key pid w = (hr, w1)" by fastforce
  obtain fr es1 where f: "read_frame (se_handshakes E) es = (fr, es1)" by fastforce
  have w1: "trace w1 = trace w" by (rule quiet_run [OF keeps(5) h])
  show ?thesis
    using assms h f w1
    by (auto simp: serve_def serve_session_def recorded_hello recorded_accept recorded_refuse beside_apply
        split: sum.splits option.splits prod.splits coordinator_handshake_frame.splits
        intro!: start dest!: kept loop_made [OF _ start])
qed

end

section \<open>Responses that cannot be sent\<close>

text \<open>
  A refusal repeats the operation binding of the request, and signing validates it: a request
  that is refused because its binding is malformed is never answered.
\<close>

lemma malformed_binding_is_not_refused:
  assumes "operation_binding_validate L b = Inl e"
  shows "fst (send_protocol_refusal L E s session_key n b category code detail w) \<noteq> Inr ()"
  using assms
  by (auto simp: send_protocol_refusal_def send_response_def eff_bind_def response_signed_def
      split: prod.splits sum.splits)

text \<open>After the session's expiry no response can be signed, whatever the handler has done.\<close>

lemma response_signed_time:
  "response_signed L s n nonce sent expires b result key = Inr r \<Longrightarrow>
     sent < expires \<and> expires \<le> osn_expires_at_unix_ms s"
  by (auto simp: response_signed_def try_bind_Inr validate_message_time_def split: if_splits)

lemma late_outcomes_are_not_reported:
  assumes "se_now E w = (Inr now, w1)" and "osn_expires_at_unix_ms s \<le> now"
  shows "fst (send_response L E s session_key n b result w) \<noteq> Inr ()"
  using assms
  by (auto simp: send_response_def eff_bind_def map_err_def split: prod.splits sum.splits
      dest!: response_signed_time)

end
