(* ===== verification/Worker_Run.thy ===== *)
theory Worker_Run
  imports Worker_Session_Properties
begin

text \<open>
  The worker process with the native handler, from the coordinator's bytes to the file system, and
  a run of it in memory: a session is opened, one directory is created, and the coordinator
  closes the stream.
\<close>

text \<open>C7: The mutations a worker process makes are the ones its session approved, and it reports them
  truthfully. With the native handler on a platform that keeps its contract, the file system's
  log after a run of \<^verbatim>\<open>serve\<close> is the log before it followed by what each handled call did, in the
  order of the calls: one approved mutation below the approved root for a success, none for
  "proven not applied", at most that one for "recovery required". Whatever the coordinator sends,
  nothing else is changed.
\<close>

theorem worker_mutates_only_what_was_approved:
  assumes "platform_contract H trace" and "quiet_server E trace"
    and "se_handle E = native_handle L H"
    and "serve L' E root_key pid es w = (r, es', w')"
  shows "calls_made (trace w) (trace w') (handled_calls L' E root_key pid es w)"
proof -
  obtain r1 es1 calls w1 where run: "serve L' (recorded E) root_key pid es ([], w) = (r1, es1, (calls, w1))"
    by (metis surj_pair)
  have "w1 = w'" using serve_keeps_rules [OF run] assms(4) by simp
  moreover have "handled_calls L' E root_key pid es w = calls" using run by (simp add: handled_calls_def)
  moreover have "native_server H trace L E"
    using assms(1-3) by unfold_locales
  ultimately show ?thesis using native_server.serve_made [OF _ run] by blast
qed

section \<open>A worker in memory\<close>

definition host_server ::
  "'a worker_libs_scheme \<Rightarrow> coordinator_handshake_frame frame_codec \<Rightarrow> coordinator_session_frame frame_codec
    \<Rightarrow> executor_frame frame_codec \<Rightarrow> int \<Rightarrow> host_world server_env" where
  "host_server L handshakes requests frames time =
     \<lparr>se_handshakes = handshakes, se_requests = requests, se_frames = frames,
      se_writer =
        \<lparr>w_write_all = (\<lambda>bs w. (Inr (), w\<lparr>hw_output := hw_output w @ bs\<rparr>)),
         w_flush = (\<lambda>w. (Inr (), w))\<rparr>,
      se_now = (\<lambda>w. (Inr time, w)),
      se_next_nonce = (\<lambda>w. (Inr (hw_nonce w + 1), w\<lparr>hw_nonce := hw_nonce w + 1\<rparr>)),
      se_handle = native_handle L host_handler\<rparr>"

interpretation memory_server: native_server host_handler hw_log L
  "host_server L handshakes requests frames time" for L handshakes requests frames time
  by unfold_locales
    (auto simp: quiet_server_def keeps_log_def host_server_def)

text \<open>
  The bytes 1 and 2 stand for the serialised messages; the session and its approval are those of
  \<^verbatim>\<open>Session_Authenticity\<close>.
\<close>

definition sample_run_request :: "digest \<Rightarrow> operation_request" where
  "sample_run_request key =
     projr (request_signed sample_auth_libs sample_open 1 13 4000 6000 sample_binding key)"

definition sample_server :: "digest \<Rightarrow> host_world server_env" where
  "sample_server key = host_server sample_worker_libs
     \<lparr>frame_encode = (\<lambda>_. Some [1]),
      frame_decode = (\<lambda>b. if b = [1] then Some (FrameOpenSession sample_open) else None)\<rparr>
     \<lparr>frame_encode = (\<lambda>_. Some [2]),
      frame_decode = (\<lambda>b. if b = [2] then Some (FrameExecuteOperation (sample_run_request key)) else None)\<rparr>
     \<lparr>frame_encode = (\<lambda>_. Some [3]), frame_decode = (\<lambda>_. None)\<rparr> 4000"

definition sample_reader :: reader where
  "sample_reader = [ReadBytes [0, 0, 0, 1, 1], ReadBytes [0, 0, 0, 1, 2]]"

lemma sample_frames:
  "read_frame (se_handshakes (sample_server key)) sample_reader
     = (Inr (Some (FrameOpenSession sample_open)), [ReadBytes [0, 0, 0, 1, 2]])"
  "read_frame (se_requests (sample_server key)) [ReadBytes [0, 0, 0, 1, 2]]
     = (Inr (Some (FrameExecuteOperation (sample_run_request key))), [])"
  "read_frame (se_requests (sample_server key)) [] = (Inr None, [])"
  by (simp_all add: sample_server_def host_server_def sample_reader_def read_frame_def eff_bind_def
      eff_map_err_def from_be_def MAX_FRAME_BYTES_def Let_def)

lemma frame_prefix_one: "be_bytes 4 (Suc 0) = [0, 0, 0, 1]"
  by code_simp

lemma sample_send:
  "server_send (sample_server key) f w
     = (Inr (), w\<lparr>hw_output := hw_output w @ [0, 0, 0, 1, 3]\<rparr>)"
  by (simp add: sample_server_def host_server_def server_send_def write_frame_def eff_bind_def
      eff_map_err_def MAX_FRAME_BYTES_def frame_prefix_one)

lemma sample_env:
  "se_now (sample_server key) w = (Inr 4000, w)"
  "se_next_nonce (sample_server key) w = (Inr (hw_nonce w + 1), w\<lparr>hw_nonce := hw_nonce w + 1\<rparr>)"
  "se_handle (sample_server key) = native_handle sample_worker_libs host_handler"
  by (simp_all add: sample_server_def host_server_def)

lemma sample_run_request_signed:
  "request_signed sample_auth_libs sample_open 1 13 4000 6000 sample_binding key
     = Inr (sample_run_request key)"
proof -
  have "\<exists>r. request_signed sample_auth_libs sample_open 1 13 4000 6000 sample_binding key = Inr r"
    by (simp add: request_signed_def Let_def sample_binding_ok fixed_is_zero_iff keyed_mac_def
        sample_auth_fields validate_message_time_def sample_open_fields clock_defs)
  then show ?thesis by (auto simp: sample_run_request_def)
qed

lemmas sample_run_request_fields = request_signed_Inr [OF sample_run_request_signed]

lemma sample_run_request_verifies:
  "request_verify sample_auth_libs (sample_run_request key) sample_open 1 key 4000 = Inr ()"
  using sample_run_request_fields [of key] sample_run_request_signed [of key]
  by (subst request_verify_iff) (simp_all add: clock_defs is_i64_def)

lemma sample_hello_sent:
  "\<exists>h w. send_hello sample_auth_libs (sample_server key) sample_root_key 7 sample_host = (Inr h, w)
     \<and> hel_worker_pid h = 7 \<and> hel_worker_nonce h = 8
     \<and> w = sample_host\<lparr>hw_nonce := 8, hw_output := hw_output w\<rparr>"
proof -
  obtain h where h: "hello_signed sample_auth_libs 7 8 4000 sample_root_key = Inr h"
    and "hel_worker_pid h = 7" "hel_worker_nonce h = 8"
    using sample_keyed_mac
    by (fastforce simp: hello_signed_def Let_def fixed_is_zero_iff keyed_mac_def sample_auth_fields
        mac_records)
  then show ?thesis
    by (simp add: send_hello_def eff_bind_def sample_env sample_send sample_host_def)
qed

lemma sample_open_for:
  assumes "hel_worker_pid h = 7" and "hel_worker_nonce h = 8"
  shows "open_session_verify sample_auth_libs sample_open h sample_root_key 4000 = Inr ()"
proof -
  have "is_i64 (osn_issued_at_unix_ms sample_open)"
    using sample_open_fields by (simp add: is_i64_def i64_min_def i64_max_def)
  then show ?thesis
    using sample_open_fields sample_open_signed assms
    by (subst open_session_verify_iff) (simp_all add: clock_defs)
qed

definition sample_session_key :: digest where
  "sample_session_key = projr (derive_session_key sample_auth_libs sample_root_key
     \<lparr>hel_protocol_version = 2, hel_schema_version = 2, hel_worker_pid = 7, hel_worker_nonce = 8,
      hel_issued_at_unix_ms = 0, hel_mac = 0\<rparr> sample_open)"

lemma sample_session_key_derived:
  assumes "hel_worker_pid h = 7" and "hel_worker_nonce h = 8"
  shows "derive_session_key sample_auth_libs sample_root_key h sample_open = Inr sample_session_key"
  using assms
  by (simp add: sample_session_key_def derive_session_key_def keyed_mac_def sample_auth_fields)

lemma sample_session_accepted:
  assumes "hel_worker_pid h = 7" and "hel_worker_nonce h = 8" and "hw_nonce w = 8"
  shows "\<exists>bs. accept_session sample_auth_libs (sample_server key) sample_root_key h sample_open w
    = (Inr sample_session_key, w\<lparr>hw_nonce := 9, hw_output := bs\<rparr>)"
proof -
  obtain opened where "session_opened_signed sample_auth_libs sample_open 9 4000 sample_session_key
      = Inr opened"
    using sample_keyed_mac
    by (fastforce simp: session_opened_signed_def Let_def fixed_is_zero_iff keyed_mac_def
        sample_auth_fields)
  then show ?thesis
    using assms
    by (simp add: accept_session_def eff_bind_def eff_map_err_def sample_env sample_send
        sample_open_for sample_session_key_derived)
      (rule exI, rule refl)
qed

text \<open>The signed envelope is also the one the handler's sample environment prints.\<close>

lemma sample_ids_agree: "id_string sample_worker_libs = id_string sample_auth_libs"
  by (simp add: fun_eq_iff id_string_def sample_worker_fields sample_auth_fields)

lemma sample_envelopes_agree:
  "sample_signed_envelope = sample_envelope sample_worker_libs sample_attestation"
proof -
  note ids = validate_printed_id [OF sample_worker_round_trip] validate_printed_id [OF sample_auth_round_trip]
    id_string_inj [OF sample_worker_round_trip] id_string_inj [OF sample_auth_round_trip]
  show ?thesis
    by (simp add: sample_signed_envelope_def sample_envelope_def sample_evaluation sample_ids_agree
        ids [unfolded sample_ids_agree])
qed

lemmas sample_run_operation = sample_operation_found [of sample_attestation, folded sample_envelopes_agree]

definition sample_call :: handled_call where
  "sample_call =
     \<lparr>hc_envelope = sample_signed_envelope, hc_operation = sample_create_approved sample_worker_libs,
      hc_direction = DirForward, hc_outcome = sample_created\<rparr>"

lemma sample_request_admitted:
  "\<exists>st. admit_request sample_auth_libs sample_open key 4000 (sample_run_request key)
      (session_state_new sample_open) = Inr (st, sample_create_approved sample_worker_libs)
    \<and> ss_next_sequence st = 1"
  using sample_run_request_verifies [of key] sample_run_request_fields [of key] sample_open_fields
  by (simp add: admit_request_def session_state_new_def Let_def sample_binding_def
      sample_run_operation [unfolded sample_ids_agree] dependency_missing_def
      sample_create_approved_def)

lemma sample_response_sent:
  "\<exists>bs. send_response sample_auth_libs (sample_server key) sample_open key 1 sample_binding
      (outcome_of_handler 4000 sample_created) w
    = (Inr (), w\<lparr>hw_nonce := hw_nonce w + 1, hw_output := bs\<rparr>)" if "hw_nonce w = 9"
proof -
  obtain response where "response_signed sample_auth_libs sample_open 1 10 4000 34000 sample_binding
      (outcome_of_handler 4000 sample_created) key = Inr response"
    using sample_keyed_mac
    by (fastforce simp: response_signed_def Let_def sample_binding_ok sample_created_def
        attempt_audit_of_def attempt_audit_validate_def fixed_is_zero_iff keyed_mac_def
        sample_auth_fields validate_message_time_def sample_open_fields clock_defs)
  then show ?thesis
    using that sample_open_fields
    by (simp add: send_response_def eff_bind_def sample_env sample_send clock_defs)
      (rule exI, rule refl)
qed

lemma sample_request_handled:
  assumes "hw_nonce w = 9" and "hw_directories w = [[47, 97]]" and "hw_files w = []" and "hw_log w = []"
  shows "\<exists>st w'. request_step sample_auth_libs (recorded (sample_server key)) sample_open key
      (sample_run_request key) (session_state_new sample_open) ([], w)
    = (Inr st, ([sample_call], w')) \<and> hw_log w' = [DirectoryCreated [47, 97, 47, 98]]"
proof -
  obtain st where st: "admit_request sample_auth_libs sample_open key 4000 (sample_run_request key)
      (session_state_new sample_open) = Inr (st, sample_create_approved sample_worker_libs)"
    "ss_next_sequence st = 1"
    using sample_request_admitted by blast
  have envelope: "osn_envelope sample_open = sample_envelope sample_worker_libs sample_attestation"
    using sample_open_fields sample_envelopes_agree by simp
  show ?thesis
    using st assms sample_run_request_fields [of key] sample_create_runs [OF assms(2, 3)]
      sample_response_sent [of "w\<lparr>hw_directories := [[47, 97, 47, 98], [47, 97]],
         hw_log := [DirectoryCreated [47, 97, 47, 98]]\<rparr>" key]
    by (auto simp: request_step_def eff_bind_def eff_map_err_def beside_apply sample_env
        handle_request_def recorded_handle envelope sample_binding_def recorded_response
        sample_call_def sample_envelopes_agree sample_created_def Let_def)
qed

text \<open>The whole run.\<close>

abbreviation run_server :: "host_world server_env" where
  "run_server \<equiv> sample_server sample_session_key"

lemma sample_run:
  "\<exists>w. serve sample_auth_libs (recorded run_server) sample_root_key 7 sample_reader ([], sample_host)
     = (Inr ExitCoordinatorEof, [], ([sample_call], w)) \<and> hw_log w = [DirectoryCreated [47, 97, 47, 98]]"
proof -
  obtain h w1 where h: "send_hello sample_auth_libs run_server sample_root_key 7 sample_host = (Inr h, w1)"
    "hel_worker_pid h = 7" "hel_worker_nonce h = 8"
    and w1: "w1 = sample_host\<lparr>hw_nonce := 8, hw_output := hw_output w1\<rparr>"
    using sample_hello_sent by blast
  have "hw_nonce w1 = 8" by (subst w1) simp
  then obtain bs where opened: "accept_session sample_auth_libs run_server sample_root_key h sample_open w1
      = (Inr sample_session_key, w1\<lparr>hw_nonce := 9, hw_output := bs\<rparr>)"
    using sample_session_accepted h by blast
  let ?w2 = "w1\<lparr>hw_nonce := 9, hw_output := bs\<rparr>"
  have "hw_nonce ?w2 = 9" "hw_directories ?w2 = [[47, 97]]" "hw_files ?w2 = []" "hw_log ?w2 = []"
    by (simp, (subst w1, simp add: sample_host_def)+)
  then obtain st w3 where handled: "request_step sample_auth_libs (recorded run_server) sample_open
      sample_session_key (sample_run_request sample_session_key) (session_state_new sample_open) ([], ?w2)
      = (Inr st, ([sample_call], w3))" "hw_log w3 = [DirectoryCreated [47, 97, 47, 98]]"
    using sample_request_handled by blast
  show ?thesis
    using h opened handled
    by (simp add: serve_def recorded_hello recorded_accept beside_apply sample_frames
        serve_session_def session_loop.simps)
qed

theorem worker_mutates_only_what_was_approved_witness:
  "calls_made [] [DirectoryCreated [47, 97, 47, 98]]
     (handled_calls sample_auth_libs run_server sample_root_key 7 sample_reader sample_host)
   \<and> handled_calls sample_auth_libs run_server sample_root_key 7 sample_reader sample_host = [sample_call]"
proof -
  obtain w where run: "serve sample_auth_libs (recorded run_server) sample_root_key 7 sample_reader
      ([], sample_host) = (Inr ExitCoordinatorEof, [], ([sample_call], w))"
    and log: "hw_log w = [DirectoryCreated [47, 97, 47, 98]]"
    using sample_run by blast
  have quiet: "quiet_server run_server hw_log"
    unfolding sample_server_def by (rule memory_server.quiet)
  have "handled_calls sample_auth_libs run_server sample_root_key 7 sample_reader sample_host = [sample_call]"
    using run by (simp add: handled_calls_def)
  then show ?thesis
    using worker_mutates_only_what_was_approved [OF memory_host.contract quiet sample_env(3)
        serve_keeps_rules [OF run, THEN conjunct1]] log
    by (simp add: sample_host_def)
qed

end
