(* ===== verification/Safety_Policy.thy ===== *)
theory Safety_Policy
  imports Executor Path_Safety Stored_Names "HOL-Library.List_Lexorder" "HOL-Library.Product_Lexorder"
begin

text \<open>
  \<^verbatim>\<open>crates/operations/src/safety.rs\<close> on Unix targets: the policy that decides which roots may be
  organised at all, where a source must lie and where a destination may be created, how a large
  batch is confirmed, and the digest under which the policy is bound to an approved plan. The
  file system calls and the JSON writer are parameters.
\<close>

section \<open>The policy\<close>

definition LARGE_BATCH_CONFIRMATION_THRESHOLD :: u64 where
  "LARGE_BATCH_CONFIRMATION_THRESHOLD = 1000"
definition CONFIRMATION_PHRASE :: ustring where "CONFIRMATION_PHRASE = lit ''ORGANIZE''"
definition STAGING_DIRECTORY_NAME :: ustring where "STAGING_DIRECTORY_NAME = lit ''.supremacy-staging''"

record safety_policy =
  pol_maximum_rehash_bytes :: u64
  pol_large_batch_confirmation_threshold :: u64
  pol_allow_independent_safe_subset :: bool
  pol_allow_qualified_case_only_rename :: bool
  pol_protected_paths :: "path list"

definition default_safety_policy :: safety_policy where
  "default_safety_policy =
     \<lparr>pol_maximum_rehash_bytes = HARD_MAX_REHASH_BYTES,
      pol_large_batch_confirmation_threshold = LARGE_BATCH_CONFIRMATION_THRESHOLD,
      pol_allow_independent_safe_subset = True, pol_allow_qualified_case_only_rename = False,
      pol_protected_paths = []\<rparr>"

definition with_protected_paths :: "safety_policy \<Rightarrow> path list \<Rightarrow> safety_policy" where
  "with_protected_paths P paths = P\<lparr>pol_protected_paths := paths\<rparr>"

datatype safety_error =
    PolInvalidRoot | PolLinkedOrInvalidRoot | PolOutsideRoot | PolProtectedPath
  | PolInvalidRelativePath | PolSourceMissing | PolLinkedOrSpecialEntry | PolDestinationExists
  | PolConfirmationRequired | PolConfirmationPhraseRequired | PolInvalidVerificationBound
  | PolSerializationFailed | PolIo io_error

section \<open>The binding\<close>

record canonical_policy_path =
  cpp_encoding :: path_encoding
  cpp_bytes :: "byte list"

record canonical_safety_policy =
  csp_version :: ustring
  csp_maximum_rehash_bytes :: u64
  csp_large_batch_confirmation_threshold :: u64
  csp_confirmation_phrase :: ustring
  csp_allow_independent_safe_subset :: bool
  csp_allow_qualified_case_only_rename :: bool
  csp_staging_directory_name :: ustring
  csp_protected_paths :: "canonical_policy_path list"

record policy_libs = libs +
  policy_json :: "canonical_safety_policy \<Rightarrow> byte list option"
  policy_macos :: bool

fun path_encoding_order :: "path_encoding \<Rightarrow> nat" where
  "path_encoding_order WindowsUtf16Le = 0"
| "path_encoding_order UnixBytes = 1"

definition native_path_bytes :: "path \<Rightarrow> path_encoding \<times> byte list" where
  "native_path_bytes p = (UnixBytes, p)"

definition canonical_policy_path_of :: "path \<Rightarrow> canonical_policy_path" where
  "canonical_policy_path_of p =
     \<lparr>cpp_encoding = fst (native_path_bytes p), cpp_bytes = snd (native_path_bytes p)\<rparr>"

definition policy_path_key :: "canonical_policy_path \<Rightarrow> nat \<times> byte list" where
  "policy_path_key p = (path_encoding_order (cpp_encoding p), cpp_bytes p)"

definition policy_material :: "safety_policy \<Rightarrow> canonical_safety_policy" where
  "policy_material P =
     \<lparr>csp_version = EXECUTION_SAFETY_POLICY_VERSION,
      csp_maximum_rehash_bytes = pol_maximum_rehash_bytes P,
      csp_large_batch_confirmation_threshold = pol_large_batch_confirmation_threshold P,
      csp_confirmation_phrase = CONFIRMATION_PHRASE,
      csp_allow_independent_safe_subset = pol_allow_independent_safe_subset P,
      csp_allow_qualified_case_only_rename = pol_allow_qualified_case_only_rename P,
      csp_staging_directory_name = STAGING_DIRECTORY_NAME,
      csp_protected_paths = sort_key policy_path_key (map canonical_policy_path_of (pol_protected_paths P))\<rparr>"

definition policy_binding ::
  "'a policy_libs_scheme \<Rightarrow> safety_policy \<Rightarrow> safety_error + execution_safety_policy_binding" where
  "policy_binding L P =
     (if pol_maximum_rehash_bytes P = 0 \<or> pol_maximum_rehash_bytes P > HARD_MAX_REHASH_BYTES
      then Inl PolInvalidVerificationBound
      else try_bind (ok_or (policy_json L (policy_material P)) PolSerializationFailed) (\<lambda>encoded.
        Inr \<lparr>xsp_version = EXECUTION_SAFETY_POLICY_VERSION,
             xsp_maximum_rehash_bytes = pol_maximum_rehash_bytes P,
             xsp_allow_qualified_case_only_rename = pol_allow_qualified_case_only_rename P,
             xsp_digest_hex = encode_digest (blake3 L encoded)\<rparr>))"

section \<open>Confirmation and virtual destinations\<close>

definition validate_confirmation ::
  "safety_policy \<Rightarrow> u64 \<Rightarrow> bool \<Rightarrow> ustring option \<Rightarrow> safety_error + unit" where
  "validate_confirmation P operation_count confirmed phrase =
     (if \<not> confirmed then Inl PolConfirmationRequired
      else if operation_count \<ge> pol_large_batch_confirmation_threshold P
              \<and> map_option trim phrase \<noteq> Some CONFIRMATION_PHRASE
      then Inl PolConfirmationPhraseRequired else Inr ())"

definition validate_destination_components ::
  "ustring list \<Rightarrow> ustring \<Rightarrow> safety_error + unit" where
  "validate_destination_components destination filename =
     try_bind (map_err (\<lambda>_. PolInvalidRelativePath)
                 (validate_user_destination default_path_policy destination)) (\<lambda>_.
     try_bind (map_err (\<lambda>_. PolInvalidRelativePath)
                 (validate_user_filename default_path_policy filename)) (\<lambda>_.
     if path_length_utf16 destination filename > maximum_path_utf16 default_path_policy
     then Inl PolInvalidRelativePath else Inr ()))"

section \<open>Paths on the file system\<close>

datatype entry_kind = EntryFile | EntryDirectory | EntrySymlink | EntryOther

record 'w policy_os =
  pos_metadata :: "path \<Rightarrow> ('w, io_error, entry_kind) eff"
  pos_canonicalize :: "path \<Rightarrow> ('w, io_error, path) eff"

abbreviation policy_canonicalize :: "'w policy_os \<Rightarrow> path \<Rightarrow> ('w, safety_error, path) eff" where
  "policy_canonicalize OS p \<equiv> eff_map_err PolIo (pos_canonicalize OS p)"

definition path_contains :: "path \<Rightarrow> path \<Rightarrow> bool" where
  "path_contains parent child \<longleftrightarrow> path_eq child parent \<or> path_starts_with child parent"

definition macos_protected_roots :: "path list" where
  "macos_protected_roots =
     map (\<lambda>s. utf8_bytes (lit s)) [''/System'', ''/Library'', ''/Applications'']"

definition is_platform_protected_root :: "'a policy_libs_scheme \<Rightarrow> path \<Rightarrow> bool" where
  "is_platform_protected_root L p =
     (if policy_macos L then list_ex (\<lambda>protected. path_contains protected p) macos_protected_roots
      else path_eq p [47])"

text \<open>The loop over the protected paths; a path that cannot be resolved stands for itself.\<close>

fun reject_app_owned_path :: "'w policy_os \<Rightarrow> path \<Rightarrow> path list \<Rightarrow> ('w, safety_error, unit) eff" where
  "reject_app_owned_path OS candidate [] w = (Inr (), w)"
| "reject_app_owned_path OS candidate (p # ps) w =
     (case pos_canonicalize OS p w of
        (r, w1) \<Rightarrow>
          (let protected = (case r of Inl _ \<Rightarrow> p | Inr q \<Rightarrow> q)
           in if path_contains protected candidate \<or> path_contains candidate protected
              then (Inl PolProtectedPath, w1)
              else reject_app_owned_path OS candidate ps w1))"

definition validate_root ::
  "'a policy_libs_scheme \<Rightarrow> 'w policy_os \<Rightarrow> safety_policy \<Rightarrow> path \<Rightarrow> ('w, safety_error, path) eff" where
  "validate_root L OS P root_path =
     (if \<not> is_absolute root_path
         \<or> list_ex (\<lambda>c. c = ParentDir \<or> c = CurDir) (components root_path)
      then eff_err PolInvalidRoot
      else
      eff_bind (eff_map_err PolIo (pos_metadata OS root_path)) (\<lambda>kind.
      if kind \<noteq> EntryDirectory then eff_err PolLinkedOrInvalidRoot
      else
      eff_bind (policy_canonicalize OS root_path) (\<lambda>canonical.
      if path_parent canonical = None \<or> is_platform_protected_root L canonical
      then eff_err PolProtectedPath
      else
      eff_bind (reject_app_owned_path OS canonical (pol_protected_paths P)) (\<lambda>_.
        eff_ok canonical))))"

definition resolve_lexically :: "path \<Rightarrow> path \<Rightarrow> safety_error + path" where
  "resolve_lexically root_path relative =
     (if relative = [] \<or> is_absolute relative \<or> \<not> list_all is_normal (components relative)
      then Inl PolInvalidRelativePath else Inr (path_join root_path relative))"

fun validate_existing_ancestors ::
  "'w policy_os \<Rightarrow> bool \<Rightarrow> path \<Rightarrow> component list \<Rightarrow> ('w, safety_error, unit) eff" where
  "validate_existing_ancestors OS include_leaf current [] w = (Inr (), w)"
| "validate_existing_ancestors OS include_leaf current (c # cs) w =
     (if \<not> include_leaf \<and> cs = [] then (Inr (), w)
      else
        (let current' = path_join current (component_bytes c)
         in case pos_metadata OS current' w of
              (Inr kind, w1) \<Rightarrow>
                (if kind = EntrySymlink then (Inl PolLinkedOrSpecialEntry, w1)
                 else if cs \<noteq> [] \<and> kind \<noteq> EntryDirectory then (Inl PolLinkedOrSpecialEntry, w1)
                 else validate_existing_ancestors OS include_leaf current' cs w1)
            | (Inl error, w1) \<Rightarrow>
                (if io_kind error = KindNotFound then (Inr (), w1) else (Inl (PolIo error), w1))))"

lemma path_parent_shorter:
  "path_parent p = Some q \<Longrightarrow> length (components q) < length (components p)"
  using components_parent [of p q] by (cases "components p") (auto simp: path_parent_def)

function nearest_existing_parent :: "'w policy_os \<Rightarrow> path \<Rightarrow> ('w, safety_error, path) eff" where
  "nearest_existing_parent OS current w =
     (case pos_metadata OS current w of
        (Inr kind, w1) \<Rightarrow>
          (if kind \<noteq> EntryDirectory then (Inl PolLinkedOrSpecialEntry, w1) else (Inr current, w1))
      | (Inl error, w1) \<Rightarrow>
          (if io_kind error = KindNotFound
           then (case path_parent current of
                   None \<Rightarrow> (Inl PolOutsideRoot, w1)
                 | Some p \<Rightarrow> nearest_existing_parent OS p w1)
           else (Inl (PolIo error), w1)))"
  by pat_completeness auto

termination
  by (relation "measure (\<lambda>(_, p, _). length (components p))") (auto simp: path_parent_shorter)

declare nearest_existing_parent.simps [simp del]

definition resolve_existing_source ::
  "'w policy_os \<Rightarrow> safety_policy \<Rightarrow> path \<Rightarrow> path \<Rightarrow> ('w, safety_error, path) eff" where
  "resolve_existing_source OS P root_path relative =
     eff_bind (eff_lift (resolve_lexically root_path relative)) (\<lambda>joined.
     eff_bind (eff_map_err (\<lambda>e. if io_kind e = KindNotFound then PolSourceMissing else PolIo e)
                 (pos_metadata OS joined)) (\<lambda>kind.
     if kind \<noteq> EntryFile then eff_err PolLinkedOrSpecialEntry
     else
     eff_bind (validate_existing_ancestors OS True root_path (components relative)) (\<lambda>_.
     eff_bind (policy_canonicalize OS root_path) (\<lambda>canonical_root.
     eff_bind (policy_canonicalize OS joined) (\<lambda>canonical_source.
     if path_eq canonical_source canonical_root \<or> \<not> path_contains canonical_root canonical_source
     then eff_err PolOutsideRoot
     else
     eff_bind (reject_app_owned_path OS canonical_source (pol_protected_paths P)) (\<lambda>_.
       eff_ok joined))))))"

definition destination_absent :: "'w policy_os \<Rightarrow> path \<Rightarrow> ('w, safety_error, unit) eff" where
  "destination_absent OS p w =
     (case pos_metadata OS p w of
        (Inr _, w1) \<Rightarrow> (Inl PolDestinationExists, w1)
      | (Inl error, w1) \<Rightarrow>
          (if io_kind error = KindNotFound then (Inr (), w1) else (Inl (PolIo error), w1)))"

definition first_is_staging :: "path \<Rightarrow> bool" where
  "first_is_staging relative \<longleftrightarrow>
     (case components relative of
        [] \<Rightarrow> False | c # _ \<Rightarrow> component_bytes c = utf8_bytes STAGING_DIRECTORY_NAME)"

definition resolve_absent_destination ::
  "'w policy_os \<Rightarrow> safety_policy \<Rightarrow> path \<Rightarrow> path \<Rightarrow> bool \<Rightarrow> ('w, safety_error, path) eff" where
  "resolve_absent_destination OS P root_path relative internal_staging =
     eff_bind (eff_lift (resolve_lexically root_path relative)) (\<lambda>joined.
     eff_bind (validate_existing_ancestors OS False root_path (components relative)) (\<lambda>_.
     eff_bind (destination_absent OS joined) (\<lambda>_.
     eff_bind (eff_lift (ok_or (path_parent joined) PolOutsideRoot)) (\<lambda>parent.
     eff_bind (nearest_existing_parent OS parent) (\<lambda>existing_parent.
     eff_bind (policy_canonicalize OS root_path) (\<lambda>canonical_root.
     eff_bind (policy_canonicalize OS existing_parent) (\<lambda>canonical_parent.
     if \<not> path_eq canonical_parent canonical_root \<and> \<not> path_contains canonical_root canonical_parent
     then eff_err PolOutsideRoot
     else if internal_staging then eff_ok joined
     else
     eff_bind (reject_app_owned_path OS joined (pol_protected_paths P)) (\<lambda>_.
     if first_is_staging relative then eff_err PolProtectedPath else eff_ok joined))))))))"

end
