(* ===== verification/Safety_Properties.thy ===== *)
theory Safety_Properties
  imports Safety_Policy "HOL-Library.Multiset"
begin

text \<open>
  What the safety policy guarantees of the paths it resolves, on a file system that its own reads
  do not change, and what its digest binds.
\<close>

section \<open>Reading a file system\<close>

definition steady :: "'w policy_os \<Rightarrow> bool" where
  "steady OS \<longleftrightarrow> (\<forall>p w. snd (pos_metadata OS p w) = w \<and> snd (pos_canonicalize OS p w) = w)"

definition entry_at :: "'w policy_os \<Rightarrow> 'w \<Rightarrow> path \<Rightarrow> io_error + entry_kind" where
  "entry_at OS w p = fst (pos_metadata OS p w)"

definition missing_at :: "'w policy_os \<Rightarrow> 'w \<Rightarrow> path \<Rightarrow> bool" where
  "missing_at OS w p \<longleftrightarrow> (\<exists>e. entry_at OS w p = Inl e \<and> io_kind e = KindNotFound)"

definition real_path :: "'w policy_os \<Rightarrow> 'w \<Rightarrow> path \<Rightarrow> io_error + path" where
  "real_path OS w p = fst (pos_canonicalize OS p w)"

definition resolved_or_self :: "'w policy_os \<Rightarrow> 'w \<Rightarrow> path \<Rightarrow> path" where
  "resolved_or_self OS w p = (case real_path OS w p of Inl _ \<Rightarrow> p | Inr q \<Rightarrow> q)"

lemma steady_reads:
  assumes "steady OS"
  shows "pos_metadata OS p w = (entry_at OS w p, w)" and "pos_canonicalize OS p w = (real_path OS w p, w)"
  using assms by (auto simp: steady_def entry_at_def real_path_def intro: prod_eqI)

text \<open>The candidate and the protected path do not contain each other.\<close>

definition clear_of :: "'w policy_os \<Rightarrow> 'w \<Rightarrow> path list \<Rightarrow> path \<Rightarrow> bool" where
  "clear_of OS w protected candidate \<longleftrightarrow>
     (\<forall>p \<in> set protected. \<not> path_contains (resolved_or_self OS w p) candidate
        \<and> \<not> path_contains candidate (resolved_or_self OS w p))"

lemma reject_app_owned_path_steady:
  assumes "steady OS"
  shows "reject_app_owned_path OS candidate ps w =
    (if clear_of OS w ps candidate then Inr () else Inl PolProtectedPath, w)"
  by (induction ps) (auto simp: clear_of_def steady_reads [OF assms] resolved_or_self_def Let_def)

text \<open>
  The way from the root to a relative path: each ancestor up to the first that is missing is a
  directory, and no entry on it is a symbolic link.
\<close>

fun clear_way :: "'w policy_os \<Rightarrow> 'w \<Rightarrow> bool \<Rightarrow> path \<Rightarrow> component list \<Rightarrow> bool" where
  "clear_way OS w include_leaf current [] = True"
| "clear_way OS w include_leaf current (c # cs) \<longleftrightarrow>
     (cs = [] \<and> \<not> include_leaf)
     \<or> missing_at OS w (path_join current (component_bytes c))
     \<or> ((\<exists>kind. entry_at OS w (path_join current (component_bytes c)) = Inr kind
            \<and> kind \<noteq> EntrySymlink \<and> (cs \<noteq> [] \<longrightarrow> kind = EntryDirectory))
        \<and> clear_way OS w include_leaf (path_join current (component_bytes c)) cs)"

lemma validate_existing_ancestors_steady:
  assumes "steady OS"
  shows "validate_existing_ancestors OS leaf current cs w = (r, w') \<Longrightarrow>
    w' = w \<and> (r = Inr () \<longleftrightarrow> clear_way OS w leaf current cs)"
  by (induction cs arbitrary: current)
    (auto simp: steady_reads [OF assms] missing_at_def Let_def split: sum.splits if_splits)

lemma path_parent_prefix:
  assumes "path_parent p = Some p'" and "path_starts_with p' q"
  shows "path_starts_with p q"
proof -
  have "components p \<noteq> []" using assms(1) by (auto simp: path_parent_def)
  then have "components p = components p' @ [last (components p)]"
    using components_parent [OF assms(1)] by simp
  then show ?thesis
    using assms(2) by (metis append_assoc path_starts_with_def starts_with_iff)
qed

lemma nearest_existing_parent_steady:
  assumes "steady OS"
  shows "nearest_existing_parent OS p w = (r, w') \<Longrightarrow>
    w' = w \<and> (\<forall>q. r = Inr q \<longrightarrow> entry_at OS w q = Inr EntryDirectory \<and> path_starts_with p q)"
proof (induction "length (components p)" arbitrary: p rule: less_induct)
  case less
  note unfold = nearest_existing_parent.simps [of OS p w]
  consider (found) kind where "entry_at OS w p = Inr kind"
    | (failed) e where "entry_at OS w p = Inl e" "io_kind e \<noteq> KindNotFound \<or> path_parent p = None"
    | (up) e p' where "entry_at OS w p = Inl e" "io_kind e = KindNotFound" "path_parent p = Some p'"
    by (cases "entry_at OS w p"; cases "path_parent p") auto
  then show ?case
  proof cases
    case found
    then show ?thesis
      using less.prems
      by (auto simp: unfold steady_reads [OF assms] path_starts_with_def starts_with_iff split: if_splits)
  next
    case failed
    then show ?thesis
      using less.prems by (auto simp: unfold steady_reads [OF assms] split: if_splits)
  next
    case up
    have "nearest_existing_parent OS p' w = (r, w')"
      using less.prems up by (simp add: unfold steady_reads [OF assms])
    from less.hyps [OF path_parent_shorter [OF up(3)] this]
    show ?thesis using path_parent_prefix [OF up(3)] by blast
  qed
qed

text \<open>
  The nearest existing ancestor of a path: a directory that is a proper prefix of its components,
  while every longer proper prefix is missing.
\<close>

definition nearest_ancestor :: "'w policy_os \<Rightarrow> 'w \<Rightarrow> path \<Rightarrow> path \<Rightarrow> bool" where
  "nearest_ancestor OS w p ancestor \<longleftrightarrow>
     (\<exists>k < length (components p). ancestor = render (take k (components p))
        \<and> entry_at OS w ancestor = Inr EntryDirectory
        \<and> (\<forall>j. k < j \<and> j < length (components p) \<longrightarrow> missing_at OS w (render (take j (components p)))))"

lemma wf_components_take: "wf_components cs \<Longrightarrow> wf_components (take m cs)"
  by (cases cs; cases m) (auto simp: wf_components_def list_all_iff dest: in_set_takeD)

lemma path_parent_render: "path_parent p = Some q \<Longrightarrow> q = render (butlast (components p))"
  by (auto simp: path_parent_def butlast_rev [symmetric] rev_swap split: list.splits component.splits)

lemma nearest_existing_parent_prefix:
  assumes "steady OS" "wf_components cs" "m \<le> length cs"
    and "nearest_existing_parent OS (render (take m cs)) w = (Inr q, w')"
  shows "\<exists>k \<le> m. q = render (take k cs) \<and> entry_at OS w q = Inr EntryDirectory
    \<and> (\<forall>j. k < j \<and> j \<le> m \<longrightarrow> missing_at OS w (render (take j cs)))"
  using assms(3,4)
proof (induction m)
  case 0
  have "path_parent (render (take 0 cs)) = None" by (simp add: path_parent_def components_def)
  then show ?case
    using 0 by (auto simp: nearest_existing_parent.simps [of OS "[]"] steady_reads [OF assms(1)]
        split: sum.splits if_splits)
next
  case (Suc m)
  let ?p = "render (take (Suc m) cs)"
  note unfold = nearest_existing_parent.simps [of OS ?p w]
  show ?case
  proof (cases "entry_at OS w ?p")
    case (Inr kind)
    then show ?thesis
      using Suc.prems by (intro exI [of _ "Suc m"]) (auto simp: unfold steady_reads [OF assms(1)] split: if_splits)
  next
    case (Inl e)
    then obtain q' where q': "io_kind e = KindNotFound" "path_parent ?p = Some q'"
        "nearest_existing_parent OS q' w = (Inr q, w')"
      using Suc.prems by (auto simp: unfold steady_reads [OF assms(1)] split: if_splits option.splits)
    have "components ?p = take (Suc m) cs"
      by (rule components_render) (rule wf_components_take [OF assms(2)])
    then have "q' = render (take m cs)"
      using path_parent_render [OF q'(2)] Suc.prems(1) by (simp add: butlast_take)
    with Suc.IH Suc.prems(1) q'(3) obtain k where k: "k \<le> m" "q = render (take k cs)"
        "entry_at OS w q = Inr EntryDirectory"
        "\<forall>j. k < j \<and> j \<le> m \<longrightarrow> missing_at OS w (render (take j cs))" by auto
    then have "missing_at OS w (render (take j cs))" if "k < j" "j \<le> Suc m" for j
      using that Inl q'(1) by (cases "j = Suc m") (auto simp: missing_at_def)
    with k show ?thesis by (intro exI [of _ k]) auto
  qed
qed

lemma nearest_existing_parent_nearest:
  assumes "steady OS" "path_parent p = Some parent"
    and "nearest_existing_parent OS parent w = (Inr ancestor, w')"
  shows "nearest_ancestor OS w p ancestor"
proof -
  let ?n = "length (components p)"
  have below: "j \<le> ?n - 1 \<longleftrightarrow> j < ?n" for j using path_parent_shorter [OF assms(2)] by linarith
  have "parent = render (take (?n - 1) (components p))"
    using path_parent_render [OF assms(2)] by (simp add: butlast_conv_take)
  then show ?thesis
    using nearest_existing_parent_prefix [OF assms(1) wf_components_components, of "?n - 1" p w ancestor w'] assms(3)
    unfolding nearest_ancestor_def below by simp
qed

text \<open>Resolving is deterministic on such a file system.\<close>

lemma resolve_lexically_Inr:
  "resolve_lexically root_path relative = Inr p \<longleftrightarrow>
     relative \<noteq> [] \<and> all_normal relative \<and> p = path_join root_path relative"
  using all_normal_relative [of relative]
  by (auto simp: resolve_lexically_def all_normal_def is_absolute_def)

lemma destination_absent_steady:
  "steady OS \<Longrightarrow> destination_absent OS p w = (r, w') \<Longrightarrow> w' = w \<and> (r = Inr () \<longleftrightarrow> missing_at OS w p)"
  by (auto simp: destination_absent_def steady_reads missing_at_def split: sum.splits if_splits)

section \<open>Sources and destinations\<close>

text \<open>C9: A source is resolved exactly when it is safe to move. On a file system that reading does
  not change, the policy returns a path for a relative path if and only if the relative path has
  only normal components, the path below the root names a regular file, no entry on the way is a
  link and every ancestor is a directory, the real path of the file is strictly below the real
  path of the root, and neither it nor a protected path of the application contains the other;
  and the path it returns is the relative path below the root.
\<close>

theorem resolved_sources_are_safe:
  assumes "steady OS"
  shows "resolve_existing_source OS P root_path relative w = (Inr p, w') \<longleftrightarrow>
    w' = w \<and> p = path_join root_path relative \<and> relative \<noteq> [] \<and> all_normal relative
    \<and> entry_at OS w p = Inr EntryFile
    \<and> clear_way OS w True root_path (components relative)
    \<and> (\<exists>real_root real_source.
         real_path OS w root_path = Inr real_root \<and> real_path OS w p = Inr real_source
         \<and> path_starts_with real_source real_root \<and> \<not> path_eq real_source real_root
         \<and> clear_of OS w (pol_protected_paths P) real_source)"
proof -
  obtain r w1 where way: "validate_existing_ancestors OS True root_path (components relative) w = (r, w1)"
    by fastforce
  note way' = validate_existing_ancestors_steady [OF assms way]
  show ?thesis
    using way way'
    by (cases r)
      (auto simp: resolve_existing_source_def eff_bind_Inr eff_map_err_def map_err_Inr
        resolve_lexically_Inr steady_reads [OF assms] reject_app_owned_path_steady [OF assms]
        path_contains_def simp del: eff_bind_eqs split: if_splits)
qed

text \<open>C10: A destination is resolved only where creating it is safe. On a file system that reading does
  not change, a resolved destination is a relative path of normal components below the root, it
  does not exist, every existing ancestor on the way is a directory and not a link, the nearest
  existing ancestor really lies in the root, and unless it is internal staging, it neither
  contains nor lies in a protected path of the application or the staging directory.
\<close>

theorem resolved_destinations_are_safe:
  assumes "steady OS"
    and "resolve_absent_destination OS P root_path relative internal w = (Inr p, w')"
  shows "p = path_join root_path relative \<and> relative \<noteq> [] \<and> all_normal relative
    \<and> missing_at OS w p
    \<and> clear_way OS w False root_path (components relative)
    \<and> (\<exists>ancestor real_root real_ancestor.
         path_starts_with p ancestor \<and> nearest_ancestor OS w p ancestor
         \<and> real_path OS w root_path = Inr real_root \<and> real_path OS w ancestor = Inr real_ancestor
         \<and> (path_eq real_ancestor real_root \<or> path_starts_with real_ancestor real_root))
    \<and> (\<not> internal \<longrightarrow> clear_of OS w (pol_protected_paths P) p \<and> \<not> first_is_staging relative)"
proof -
  have joined: "resolve_lexically root_path relative = Inr p"
    using assms(2)
    by (auto simp: resolve_absent_destination_def eff_bind_Inr simp del: eff_bind_eqs split: if_splits)
  note lex = joined [unfolded resolve_lexically_Inr]
  obtain r w1 where way: "validate_existing_ancestors OS False root_path (components relative) w = (r, w1)"
    by fastforce
  note way' = validate_existing_ancestors_steady [OF assms(1) way]
  obtain d w2 where absent: "destination_absent OS p w = (d, w2)" by fastforce
  note absent' = destination_absent_steady [OF assms(1) absent]
  obtain parent where parent: "path_parent p = Some parent"
    using assms(2) joined
    by (auto simp: resolve_absent_destination_def eff_bind_Inr ok_or_Inr simp del: eff_bind_eqs)
  obtain n w3 where nearest: "nearest_existing_parent OS parent w = (n, w3)" by fastforce
  note nearest' = nearest_existing_parent_steady [OF assms(1) nearest]
  have w1: "w1 = w" "w2 = w" "w3 = w" using way' absent' nearest' by simp_all
  note unfolded = assms(2) [unfolded resolve_absent_destination_def eff_bind_Inr eff_simps joined]
  have facts: "r = Inr ()" "d = Inr ()"
    "\<exists>ancestor real_root real_ancestor. n = Inr ancestor
       \<and> real_path OS w root_path = Inr real_root \<and> real_path OS w ancestor = Inr real_ancestor
       \<and> (path_eq real_ancestor real_root \<or> path_contains real_root real_ancestor)
       \<and> (\<not> internal \<longrightarrow> clear_of OS w (pol_protected_paths P) p \<and> \<not> first_is_staging relative)"
    using unfolded way absent nearest parent w1
    by (auto simp: eff_map_err_def map_err_Inr steady_reads [OF assms(1)] eff_bind_Inr
        reject_app_owned_path_steady [OF assms(1)] simp del: eff_bind_eqs split: if_splits)
  then obtain ancestor where "n = Inr ancestor" by blast
  note nearest_existing_parent_nearest [OF assms(1) parent, of w ancestor] nearest this w1
  then have "nearest_ancestor OS w p ancestor" by simp
  with \<open>n = Inr ancestor\<close> show ?thesis
    using lex facts way' absent' nearest' path_parent_prefix [OF parent]
    by (simp add: path_contains_def) blast
qed

section \<open>What the digest binds\<close>

definition policy_json_injective :: "'a policy_libs_scheme \<Rightarrow> bool" where
  "policy_json_injective L \<longleftrightarrow>
     (\<forall>m m' b. policy_json L m = Some b \<longrightarrow> policy_json L m' = Some b \<longrightarrow> m = m')"

lemma canonical_policy_path_inj: "inj canonical_policy_path_of"
  by (simp add: inj_def canonical_policy_path_of_def native_path_bytes_def)

lemma policy_path_key_of: "policy_path_key (canonical_policy_path_of p) = (1, p)"
  by (simp add: policy_path_key_def canonical_policy_path_of_def native_path_bytes_def)

lemma insort_policy_path:
  "insort_key policy_path_key (canonical_policy_path_of p) (map canonical_policy_path_of ps)
     = map canonical_policy_path_of (insort p ps)"
  by (induction ps) (auto simp: policy_path_key_of)

lemma policy_paths_sorted:
  "sort_key policy_path_key (map canonical_policy_path_of ps) = map canonical_policy_path_of (sort ps)"
  by (induction ps) (simp_all add: insort_policy_path)

lemma sort_eq_iff_mset: "sort xs = sort ys \<longleftrightarrow> mset xs = mset ys"
  by (metis mset_sort properties_for_sort sorted_sort)

lemma policy_material_eq_iff:
  "policy_material P = policy_material Q \<longleftrightarrow>
    pol_maximum_rehash_bytes P = pol_maximum_rehash_bytes Q
    \<and> pol_large_batch_confirmation_threshold P = pol_large_batch_confirmation_threshold Q
    \<and> pol_allow_independent_safe_subset P = pol_allow_independent_safe_subset Q
    \<and> pol_allow_qualified_case_only_rename P = pol_allow_qualified_case_only_rename Q
    \<and> mset (pol_protected_paths P) = mset (pol_protected_paths Q)"
  by (auto simp: policy_material_def policy_paths_sorted sort_eq_iff_mset
      inj_map_eq_map [OF canonical_policy_path_inj])

text \<open>The digest of a policy binds the whole policy, and nothing but it: when two policies are bound
  to the same digest (and the two texts under it do not collide), their limits, their gates and
  their protected paths, as a multiset, are the same; and two policies that differ only in the
  order of their protected paths have the same binding.
\<close>

lemma policy_digest_binds_policy:
  assumes "policy_json_injective L"
    and "policy_binding L P = Inr b" and "policy_binding L Q = Inr c"
    and "\<And>m m'. policy_json L (policy_material P) = Some m \<Longrightarrow>
           policy_json L (policy_material Q) = Some m' \<Longrightarrow> \<not> collide (blake3 L) m m'"
  shows "b = c \<longleftrightarrow>
    pol_maximum_rehash_bytes P = pol_maximum_rehash_bytes Q
    \<and> pol_large_batch_confirmation_threshold P = pol_large_batch_confirmation_threshold Q
    \<and> pol_allow_independent_safe_subset P = pol_allow_independent_safe_subset Q
    \<and> pol_allow_qualified_case_only_rename P = pol_allow_qualified_case_only_rename Q
    \<and> mset (pol_protected_paths P) = mset (pol_protected_paths Q)"
proof -
  obtain m where m: "policy_json L (policy_material P) = Some m"
    and b: "b = \<lparr>xsp_version = EXECUTION_SAFETY_POLICY_VERSION,
      xsp_maximum_rehash_bytes = pol_maximum_rehash_bytes P,
      xsp_allow_qualified_case_only_rename = pol_allow_qualified_case_only_rename P,
      xsp_digest_hex = encode_digest (blake3 L m)\<rparr>"
    using assms(2) by (auto simp: policy_binding_def try_bind_Inr ok_or_Inr split: if_splits)
  obtain m' where m': "policy_json L (policy_material Q) = Some m'"
    and c: "c = \<lparr>xsp_version = EXECUTION_SAFETY_POLICY_VERSION,
      xsp_maximum_rehash_bytes = pol_maximum_rehash_bytes Q,
      xsp_allow_qualified_case_only_rename = pol_allow_qualified_case_only_rename Q,
      xsp_digest_hex = encode_digest (blake3 L m')\<rparr>"
    using assms(3) by (auto simp: policy_binding_def try_bind_Inr ok_or_Inr split: if_splits)
  have "m = m'" if "b = c"
  proof -
    have "encode_digest (blake3 L m) = encode_digest (blake3 L m')"
      using that b c by simp
    then have "blake3 L m = blake3 L m'" by (rule encode_digest_inj)
    then show ?thesis using assms(4) [OF m m'] by (auto simp: collide_def)
  qed
  then have "b = c \<Longrightarrow> policy_material P = policy_material Q"
    using assms(1) m m' by (auto simp: policy_json_injective_def)
  moreover have "b = c" if same: "policy_material P = policy_material Q"
  proof -
    have "m = m'" using m m' same by simp
    then show ?thesis using same b c by (auto simp: policy_material_eq_iff)
  qed
  ultimately have "b = c \<longleftrightarrow> policy_material P = policy_material Q" by blast
  then show ?thesis by (simp only: policy_material_eq_iff)
qed

section \<open>A small disk\<close>

text \<open>A root with one file, one directory, and the application's own directory beside it.\<close>

definition disk :: "unit policy_os" where
  "disk =
     \<lparr>pos_metadata = (\<lambda>p w.
        (if p \<in> {[47, 114], [47, 114, 47, 100]} then Inr EntryDirectory
         else if p = [47, 114, 47, 102] then Inr EntryFile
         else Inl (IoError KindNotFound (lit ''no entry'')), w)),
      pos_canonicalize = (\<lambda>p w. (Inr p, w))\<rparr>"

definition disk_policy :: safety_policy where
  "disk_policy = with_protected_paths default_safety_policy [[47, 97]]"

lemma steady_disk: "steady disk"
  by (simp add: steady_def disk_def)

lemma disk_components:
  "components [47, 114] = [RootDir, Normal [114]]"
  "components [102] = [Normal [102]]"
  "components [100, 47, 110] = [Normal [100], Normal [110]]"
  "components [47, 97] = [RootDir, Normal [97]]"
  "components [47, 114, 47, 102] = [RootDir, Normal [114], Normal [102]]"
  "components [47, 114, 47, 100] = [RootDir, Normal [114], Normal [100]]"
  "components [47, 114, 47, 100, 47, 110] = [RootDir, Normal [114], Normal [100], Normal [110]]"
  by (simp_all add: components_def has_root_def body_components_def map_filter_simps seg_component_def)

lemmas disk_defs = disk_def disk_policy_def with_protected_paths_def path_contains_def path_eq_def
  path_starts_with_def starts_with_iff disk_components path_join_def has_root_def all_normal_def

theorem resolved_sources_are_safe_witness:
  "resolve_existing_source disk disk_policy [47, 114] [102] () = (Inr [47, 114, 47, 102], ())"
  using resolved_sources_are_safe [OF steady_disk, of disk_policy "[47, 114]" "[102]" "()"
      "[47, 114, 47, 102]" "()"]
  by (simp add: disk_defs clear_of_def resolved_or_self_def real_path_def entry_at_def)

theorem resolved_destinations_are_safe_witness:
  "resolve_absent_destination disk disk_policy [47, 114] [100, 47, 110] False ()
     = (Inr [47, 114, 47, 100, 47, 110], ())
   \<and> missing_at disk () [47, 114, 47, 100, 47, 110]"
proof -
  have parent: "path_parent [47, 114, 47, 100, 47, 110] = Some [47, 114, 47, 100]"
    by (simp add: path_parent_def disk_components)
  have run: "resolve_absent_destination disk disk_policy [47, 114] [100, 47, 110] False ()
     = (Inr [47, 114, 47, 100, 47, 110], ())"
    by (simp add: resolve_absent_destination_def resolve_lexically_def is_absolute_def eff_bind_def
        eff_map_err_def destination_absent_def parent nearest_existing_parent.simps
        reject_app_owned_path_steady [OF steady_disk] first_is_staging_def disk_defs clear_of_def
        resolved_or_self_def real_path_def STAGING_DIRECTORY_NAME_def lit_simps utf8_bytes_Cons
        utf8_char_def)
  then show ?thesis using resolved_destinations_are_safe [OF steady_disk run] by blast
qed

definition two_paths :: "path list \<Rightarrow> safety_policy" where
  "two_paths = with_protected_paths default_safety_policy"

text \<open>A writer for one text, which is enough for two policies of the same content.\<close>

definition small_policy_libs :: policy_libs where
  "small_policy_libs =
     \<lparr>blake3 = (\<lambda>b. of_nat (from_le b)), uuid_text = (\<lambda>_. []),
      policy_json = (\<lambda>m. if m = policy_material (two_paths [[47, 97], [47, 98]]) then Some [1] else None),
      policy_macos = False\<rparr>"

theorem policy_digest_binds_policy_witness:
  "\<exists>b. policy_binding small_policy_libs (two_paths [[47, 97], [47, 98]]) = Inr b
     \<and> policy_binding small_policy_libs (two_paths [[47, 98], [47, 97]]) = Inr b"
proof -
  have same: "policy_material (two_paths [[47, 98], [47, 97]]) = policy_material (two_paths [[47, 97], [47, 98]])"
    by (simp add: policy_material_eq_iff two_paths_def with_protected_paths_def)
  have limits: "pol_maximum_rehash_bytes (two_paths ps) = HARD_MAX_REHASH_BYTES"
      "HARD_MAX_REHASH_BYTES \<noteq> 0" for ps
    by (simp_all add: two_paths_def with_protected_paths_def default_safety_policy_def
        HARD_MAX_REHASH_BYTES_def MAX_EXECUTION_FINGERPRINT_BYTES_def MAX_EXECUTION_VERIFICATION_BYTES_def)
  have json: "policy_json_injective small_policy_libs"
    by (simp add: policy_json_injective_def small_policy_libs_def)
  obtain b c where
    b: "policy_binding small_policy_libs (two_paths [[47, 97], [47, 98]]) = Inr b"
    and c: "policy_binding small_policy_libs (two_paths [[47, 98], [47, 97]]) = Inr c"
    by (simp add: policy_binding_def limits same small_policy_libs_def)
  have "\<not> collide (blake3 small_policy_libs) m m'"
    if "policy_json small_policy_libs (policy_material (two_paths [[47, 97], [47, 98]])) = Some m"
      "policy_json small_policy_libs (policy_material (two_paths [[47, 98], [47, 97]])) = Some m'" for m m'
    using that by (simp add: same collide_def)
  from policy_digest_binds_policy [OF json b c this] have "b = c"
    by (simp add: two_paths_def with_protected_paths_def)
  then show ?thesis using b c by blast
qed

end
