(* ===== verification/Execution_Planning.thy ===== *)
theory Execution_Planning
  imports Safety_Policy Domain_Execution Domain_Review
begin

text \<open>
  The planning functions of \<^verbatim>\<open>crates/application/src/execution.rs\<close>: relative paths and their
  case-insensitive keys, collisions and blocked dependencies, the order of operations and the
  cycles among them, the directories a plan has to create and the source directories it empties.
  Candidates are processed in place; here a list of candidates is returned updated.
\<close>

section \<open>Errors\<close>

text \<open>The errors of \<^verbatim>\<open>ApplicationError\<close> that planning produces or passes on.\<close>

datatype application_error =
    AppPersistence persistence_error | AppPlatform platform_error | AppIo io_error
  | AppOperations operations_error | AppExecutionApprovalRequired | AppExecutionAlreadyActive
  | AppInvalidExecution | AppExecutionRecoveryRequired | AppJournalLocked
  | AppExecutionPreflightBlocked | AppExecutionConsentExpired | AppExecutionConfirmationDeclined
  | AppExecutionSafety safety_error

section \<open>Relative paths as text\<close>

definition normalize_relative_string :: "ustring \<Rightarrow> ustring" where
  "normalize_relative_string value = replace_char 92 47 value"

definition path_key :: "(ustring \<Rightarrow> ustring) \<Rightarrow> ustring \<Rightarrow> ustring" where
  "path_key lower value = lower (normalize_relative_string value)"

fun split_on_slash :: "ustring \<Rightarrow> ustring list" where
  "split_on_slash [] = [[]]"
| "split_on_slash (c # s) =
     (if c = 47 then [] # split_on_slash s
      else (case split_on_slash s of [] \<Rightarrow> [[c]] | t # ts \<Rightarrow> (c # t) # ts))"

fun push_relative_components :: "path \<Rightarrow> ustring list \<Rightarrow> path option" where
  "push_relative_components output [] = Some output"
| "push_relative_components output (c # cs) =
     (if c = [] \<or> c = [46] \<or> c = [46, 46] then None
      else push_relative_components (path_join output (utf8_bytes c)) cs)"

definition relative_path :: "ustring \<Rightarrow> application_error + path" where
  "relative_path value =
     (let normalized = normalize_relative_string value; bytes = utf8_bytes normalized in
      if normalized = [] \<or> hd normalized = 47 \<or> last normalized = 47
         \<or> (length bytes > 1 \<and> bytes ! 1 = 58)
      then Inl AppInvalidExecution
      else
        (case push_relative_components [] (split_on_slash normalized) of
           None \<Rightarrow> Inl AppInvalidExecution
         | Some output \<Rightarrow>
             if is_absolute output \<or> \<not> list_all is_normal (components output)
             then Inl AppInvalidExecution else Inr output))"

definition destination_relative :: "ustring list \<Rightarrow> ustring \<Rightarrow> ustring" where
  "destination_relative destination filename = join_with [47] (destination @ [filename])"

text \<open>\<^verbatim>\<open>Path::file_name\<close>: the last component, when it is a normal one.\<close>

definition path_file_name :: "path \<Rightarrow> byte list option" where
  "path_file_name p =
     (case rev (components p) of Normal s # _ \<Rightarrow> Some s | _ \<Rightarrow> None)"

definition same_parent :: "path option \<Rightarrow> path option \<Rightarrow> bool" where
  "same_parent p q \<longleftrightarrow>
     (case (p, q) of (Some a, Some b) \<Rightarrow> path_eq a b | (None, None) \<Rightarrow> True | _ \<Rightarrow> False)"

definition classify_operation :: "ustring \<Rightarrow> ustring \<Rightarrow> execution_operation_kind" where
  "classify_operation source destination =
     (let s = utf8_bytes source; d = utf8_bytes destination;
          moved = \<not> same_parent (path_parent s) (path_parent d);
          renamed = path_file_name s \<noteq> path_file_name d
      in if moved \<and> renamed then Xk_MoveAndRename else if moved then Xk_Move else Xk_Rename)"

section \<open>Candidates\<close>

record planned_candidate =
  pcd_operation :: execution_operation
  pcd_blocked :: bool

definition execution_preconditions :: "bool \<Rightarrow> ustring list" where
  "execution_preconditions internal_staging =
     map lit
       ([''source_exists'', ''source_identity_matches'', ''source_size_matches'',
         ''source_modified_time_matches'', ''source_content_hash_revalidated'',
         ''destination_absent'', ''same_volume'', ''single_link'',
         ''no_symlink_or_reparse_traversal'', ''no_overwrite'']
        @ (if internal_staging then [''application_controlled_staging_name''] else []))"

definition block_operation ::
  "bool \<Rightarrow> ustring \<Rightarrow> ustring \<Rightarrow> execution_operation \<Rightarrow> execution_operation" where
  "block_operation stale code message operation =
     operation\<lparr>xop_status := (if stale then Op_Stale else Op_Blocked),
               xop_error_code := Some code, xop_error_message := Some (take 2048 message)\<rparr>"

definition block_candidate :: "string \<Rightarrow> ustring \<Rightarrow> planned_candidate \<Rightarrow> planned_candidate" where
  "block_candidate code message c =
     c\<lparr>pcd_operation := block_operation False (lit code) message (pcd_operation c), pcd_blocked := True\<rparr>"

definition destination_key :: "(ustring \<Rightarrow> ustring) \<Rightarrow> planned_candidate \<Rightarrow> ustring" where
  "destination_key lower c = path_key lower (xop_destination_relative_path (pcd_operation c))"

definition source_key :: "(ustring \<Rightarrow> ustring) \<Rightarrow> planned_candidate \<Rightarrow> ustring" where
  "source_key lower c =
     path_key lower (case xop_source_relative_path (pcd_operation c) of None \<Rightarrow> [] | Some s \<Rightarrow> s)"

text \<open>
  The destinations are grouped by key; every member of a group of more than one is blocked. All
  groups are formed before any is blocked.
\<close>

definition shares_destination :: "(ustring \<Rightarrow> ustring) \<Rightarrow> planned_candidate list \<Rightarrow> planned_candidate \<Rightarrow> bool" where
  "shares_destination lower cs c \<longleftrightarrow>
     \<not> pcd_blocked c
     \<and> length (filter (\<lambda>d. \<not> pcd_blocked d \<and> destination_key lower d = destination_key lower c) cs) > 1"

definition detect_plan_collisions ::
  "(ustring \<Rightarrow> ustring) \<Rightarrow> planned_candidate list \<Rightarrow> planned_candidate list" where
  "detect_plan_collisions lower cs =
     map (\<lambda>c. if shares_destination lower cs c
              then block_candidate ''duplicate_plan_destination''
                     (lit ''Multiple approved operations target the same case-insensitive destination.'') c
              else c) cs"

text \<open>One round of the loop: the blocked ids are collected before the candidates change.\<close>

definition blocked_ids :: "planned_candidate list \<Rightarrow> operation_step_id set" where
  "blocked_ids cs = (xop_id \<circ> pcd_operation) ` set (filter pcd_blocked cs)"

definition depends_on_blocked :: "operation_step_id set \<Rightarrow> planned_candidate \<Rightarrow> bool" where
  "depends_on_blocked ids c \<longleftrightarrow>
     \<not> pcd_blocked c \<and> list_ex (\<lambda>d. d \<in> ids) (xop_dependencies (pcd_operation c))"

definition block_dependents :: "planned_candidate list \<Rightarrow> planned_candidate list" where
  "block_dependents cs =
     map (\<lambda>c. if depends_on_blocked (blocked_ids cs) c
              then block_candidate ''blocked_dependency'' (lit ''A destination dependency is blocked.'') c
              else c) cs"

lemma block_candidate_blocked [simp]: "pcd_blocked (block_candidate code message c)"
  by (simp add: block_candidate_def)

lemma block_dependents_progress:
  assumes "list_ex (depends_on_blocked (blocked_ids cs)) cs"
  shows "length (filter (\<lambda>c. \<not> pcd_blocked c) (block_dependents cs))
    < length (filter (\<lambda>c. \<not> pcd_blocked c) cs)"
proof -
  have le: "length (filter (\<lambda>c. \<not> pcd_blocked c) (map f ds)) \<le> length (filter (\<lambda>c. \<not> pcd_blocked c) ds)
      \<and> (list_ex (depends_on_blocked ids) ds \<longrightarrow>
         length (filter (\<lambda>c. \<not> pcd_blocked c) (map f ds)) < length (filter (\<lambda>c. \<not> pcd_blocked c) ds))"
    if "f = (\<lambda>c. if depends_on_blocked ids c
          then block_candidate ''blocked_dependency'' (lit ''A destination dependency is blocked.'') c
          else c)" for f ids ds
    unfolding that by (induction ds) (auto simp: depends_on_blocked_def)
  show ?thesis using le [OF refl, of "blocked_ids cs" cs] assms by (simp add: block_dependents_def)
qed

function propagate_dependency_blocks :: "planned_candidate list \<Rightarrow> planned_candidate list" where
  "propagate_dependency_blocks cs =
     (if list_ex (depends_on_blocked (blocked_ids cs)) cs
      then propagate_dependency_blocks (block_dependents cs) else cs)"
  by pat_completeness auto

termination
  by (relation "measure (\<lambda>cs. length (filter (\<lambda>c. \<not> pcd_blocked c) cs))")
    (simp_all add: block_dependents_progress)

declare propagate_dependency_blocks.simps [simp del]

section \<open>The order of operations\<close>

text \<open>
  \<open>remaining\<close> is a list of indices in increasing order. An index is ready when no dependency of
  its operation remains; among the ready ones the first with the smallest key is taken.
\<close>

abbreviation candidate_id :: "planned_candidate list \<Rightarrow> nat \<Rightarrow> operation_step_id" where
  "candidate_id cs i \<equiv> xop_id (pcd_operation (cs ! i))"

abbreviation candidate_dependencies :: "planned_candidate list \<Rightarrow> nat \<Rightarrow> operation_step_id list" where
  "candidate_dependencies cs i \<equiv> xop_dependencies (pcd_operation (cs ! i))"

definition is_ready :: "planned_candidate list \<Rightarrow> nat list \<Rightarrow> nat \<Rightarrow> bool" where
  "is_ready cs remaining i \<longleftrightarrow>
     list_all (\<lambda>d. d \<notin> set (map (candidate_id cs) remaining)) (candidate_dependencies cs i)"

definition order_key ::
  "(ustring \<Rightarrow> ustring) \<Rightarrow> planned_candidate list \<Rightarrow> nat \<Rightarrow> ustring \<times> operation_step_id" where
  "order_key lower cs i = (source_key lower (cs ! i), candidate_id cs i)"

definition next_ready :: "(ustring \<Rightarrow> ustring) \<Rightarrow> planned_candidate list \<Rightarrow> nat list \<Rightarrow> nat option" where
  "next_ready lower cs remaining =
     (case sort_key (order_key lower cs) (filter (is_ready cs remaining) remaining) of
        [] \<Rightarrow> None | i # _ \<Rightarrow> Some i)"

lemma next_ready_Some:
  "next_ready lower cs remaining = Some i \<Longrightarrow> i \<in> set remaining \<and> is_ready cs remaining i"
proof -
  assume "next_ready lower cs remaining = Some i"
  then obtain js where "sort_key (order_key lower cs) (filter (is_ready cs remaining) remaining) = i # js"
    by (auto simp: next_ready_def split: list.splits)
  then have "i \<in> set (filter (is_ready cs remaining) remaining)"
    by (metis list.set_intros(1) set_sort)
  then show ?thesis by simp
qed

lemma next_ready_shorter:
  "next_ready lower cs remaining = Some i \<Longrightarrow> length (remove1 i remaining) < length remaining"
  using next_ready_Some [of lower cs remaining i]
  by (auto simp: length_remove1 dest: length_pos_if_in_set)

function order_loop ::
  "(ustring \<Rightarrow> ustring) \<Rightarrow> planned_candidate list \<Rightarrow> nat list \<Rightarrow> nat list \<Rightarrow> nat list \<times> nat list" where
  "order_loop lower cs remaining ordered =
     (case next_ready lower cs remaining of
        None \<Rightarrow> (ordered, remaining)
      | Some i \<Rightarrow> order_loop lower cs (remove1 i remaining) (ordered @ [i]))"
  by pat_completeness auto

termination
  by (relation "measure (\<lambda>(_, _, remaining, _). length remaining)")
    (auto simp: next_ready_shorter)

declare order_loop.simps [simp del]

definition dependency_order ::
  "(ustring \<Rightarrow> ustring) \<Rightarrow> planned_candidate list \<Rightarrow> nat list \<times> nat list" where
  "dependency_order lower cs =
     (let remaining = filter (\<lambda>i. \<not> pcd_blocked (cs ! i)) [0..<length cs];
          (ordered, cyclic) = order_loop lower cs remaining []
      in (ordered, sort_key (\<lambda>i. source_key lower (cs ! i)) cyclic))"

section \<open>Case-only renames\<close>

definition is_case_only_operation :: "(ustring \<Rightarrow> ustring) \<Rightarrow> execution_operation \<Rightarrow> bool" where
  "is_case_only_operation lower operation \<longleftrightarrow>
     (case xop_source_relative_path operation of
        None \<Rightarrow> False
      | Some source \<Rightarrow>
          source \<noteq> xop_destination_relative_path operation
          \<and> path_key lower source = path_key lower (xop_destination_relative_path operation))"

definition is_case_only_proposal ::
  "(ustring \<Rightarrow> ustring) \<Rightarrow> organization_proposal_operation \<Rightarrow> bool" where
  "is_case_only_proposal lower operation \<longleftrightarrow>
     (let source = normalize_relative_string (snap_relative_path (pop_source operation));
          destination = destination_relative (pop_proposed_destination operation) (pop_proposed_name operation)
      in source \<noteq> destination \<and> path_key lower source = path_key lower destination)"

section \<open>Directories a plan needs\<close>

text \<open>The proper prefixes of a destination, shortest first.\<close>

definition proper_prefixes :: "ustring \<Rightarrow> ustring list" where
  "proper_prefixes destination =
     (let parts = split_on_slash (normalize_relative_string destination) in
      if length parts < 2 then []
      else map (\<lambda>depth. join_with [47] (take depth parts)) [1..<length parts])"

text \<open>
  The ordered map from keys to prefixes; of two spellings of one directory the smaller is kept.
  The first prefix that is no relative path ends the loop.
\<close>

fun collect_prefixes ::
  "(ustring \<Rightarrow> ustring) \<Rightarrow> ustring list \<Rightarrow> (ustring \<rightharpoonup> ustring) \<Rightarrow> application_error + (ustring \<rightharpoonup> ustring)" where
  "collect_prefixes lower [] output = Inr output"
| "collect_prefixes lower (prefix # ps) output =
     try_bind (relative_path prefix) (\<lambda>_.
       collect_prefixes lower ps
         (output(path_key lower prefix \<mapsto>
            (case output (path_key lower prefix) of
               None \<Rightarrow> prefix
             | Some existing \<Rightarrow> if prefix < existing then prefix else existing))))"

text \<open>
  The map's values in the order of its keys, then a stable sort by the number of slashes and the
  text: the order of the keys is not visible in the result, two values never being equal.
\<close>

definition prefix_order :: "ustring \<Rightarrow> nat \<times> ustring" where
  "prefix_order value = (count_list value 47, value)"

definition directory_prefixes ::
  "(ustring \<Rightarrow> ustring) \<Rightarrow> ustring list \<Rightarrow> application_error + ustring list" where
  "directory_prefixes lower destinations =
     (let prefixes = concat (map proper_prefixes destinations) in
      try_bind (collect_prefixes lower prefixes (\<lambda>_. None)) (\<lambda>output.
        Inr (sort_key prefix_order
               (map (\<lambda>key. the (output key))
                 (sort (remdups (map (path_key lower) prefixes)))))))"

section \<open>Directories a plan may empty\<close>

definition protected_top_levels :: "ustring list" where
  "protected_top_levels =
     map lit
       [''documents'', ''images'', ''pictures'', ''photos'', ''videos'', ''archives'',
        ''installateurs'', ''a verifier'', ''developpement'', ''applications'', ''library'',
        ''system'', ''windows'', ''program files'', ''program files (x86)'']
     @ [[118, 105, 100, 233, 111, 115],
        [224, 32, 118, 233, 114, 105, 102, 105, 101, 114],
        [100, 233, 118, 101, 108, 111, 112, 112, 101, 109, 101, 110, 116]]"

definition source_cleanup_top_level_is_protected :: "ustring \<Rightarrow> bool" where
  "source_cleanup_top_level_is_protected value \<longleftrightarrow>
     starts_with [46] value \<or> ascii_lower value \<in> set protected_top_levels"

section \<open>Comparing with the file system\<close>

text \<open>\<^verbatim>\<open>str::parse::<i128>()\<close>\<close>

fun decimal_value :: "ustring \<Rightarrow> int \<Rightarrow> int option" where
  "decimal_value [] acc = Some acc"
| "decimal_value (c # cs) acc =
     (if 48 \<le> c \<and> c \<le> 57 then decimal_value cs (10 * acc + int (c - 48)) else None)"

definition parse_i128 :: "ustring \<Rightarrow> int option" where
  "parse_i128 s =
     (let negative = (s \<noteq> [] \<and> hd s = 45);
          digits = (if s \<noteq> [] \<and> (hd s = 45 \<or> hd s = 43) then tl s else s)
      in if digits = [] then None
         else (case decimal_value digits 0 of
                 None \<Rightarrow> None
               | Some n \<Rightarrow>
                   (let value = (if negative then - n else n)
                    in if - (2 ^ 127) \<le> value \<and> value < 2 ^ 127 then Some value else None)))"

definition modified_time_matches :: "ustring option \<Rightarrow> int option \<Rightarrow> bool" where
  "modified_time_matches expected observed =
     (case expected of None \<Rightarrow> True | Some t \<Rightarrow> parse_i128 t = observed)"

text \<open>
  \<^verbatim>\<open>decode_hex_digest\<close>: the same slices and the same number grammar as the decoder of the
  store; the outer \<open>None\<close> is the panic of a cut inside a character.
\<close>

definition decode_hex_digest :: "ustring \<Rightarrow> digest option option" where
  "decode_hex_digest value =
     (if length (utf8_bytes value) \<noteq> 64 then Some None
      else (case decode_slices value [0..<32] of
              None \<Rightarrow> None
            | Some (Inl _) \<Rightarrow> Some None
            | Some (Inr bs) \<Rightarrow> Some (Some (digest_from_bytes bs))))"

definition encode_hex_bytes :: "byte list \<Rightarrow> ustring" where
  "encode_hex_bytes value = concat (map hex_byte value)"

definition same_file_state :: "file_fingerprint \<Rightarrow> file_fingerprint \<Rightarrow> bool" where
  "same_file_state expected observed \<longleftrightarrow>
     vol_stable_identifier (nid_volume (fp_native_identity expected))
       = vol_stable_identifier (nid_volume (fp_native_identity observed))
     \<and> nid_object_key (fp_native_identity expected) = nid_object_key (fp_native_identity observed)
     \<and> nid_link_count (fp_native_identity observed) = 1
     \<and> nid_reparse_tag (fp_native_identity observed) = None
     \<and> fp_byte_size expected = fp_byte_size observed
     \<and> fp_modified_at_ns expected = fp_modified_at_ns observed
     \<and> fp_attributes expected = fp_attributes observed
     \<and> fp_content_digest expected = fp_content_digest observed
     \<and> fp_content_digest expected \<noteq> None"

section \<open>Counts\<close>

definition count_candidates :: "(planned_candidate \<Rightarrow> bool) \<Rightarrow> planned_candidate list \<Rightarrow> u64" where
  "count_candidates P cs = of_nat (length (filter P cs))"

definition empty_execution_summary :: execution_summary where
  "empty_execution_summary =
     \<lparr>xsum_affected_files = 0, xsum_folders_to_create = 0, xsum_files_to_move = 0,
      xsum_files_to_rename = 0, xsum_files_unchanged = 0, xsum_conflicts = 0,
      xsum_needs_review = 0, xsum_preflight_ok = 0, xsum_applied = 0, xsum_blocked = 0,
      xsum_skipped = 0, xsum_failed = 0, xsum_rolled_back = 0, xsum_rollback_blocked = 0,
      xsum_rollback_failed = 0\<rparr>"

text \<open>The conversions of counts of an in-memory list to 64 bits do not fail.\<close>

definition execution_summary_of ::
  "organization_proposal \<Rightarrow> planned_candidate list \<Rightarrow> u64 \<Rightarrow> execution_summary" where
  "execution_summary_of proposal candidates directory_count =
     (let operation = pcd_operation; blocked = length (filter pcd_blocked candidates) in
      empty_execution_summary\<lparr>
        xsum_affected_files := of_nat (length candidates),
        xsum_folders_to_create := directory_count,
        xsum_files_to_move :=
          count_candidates (\<lambda>c. xop_kind (operation c) \<in> {Xk_Move, Xk_MoveAndRename}) candidates,
        xsum_files_to_rename :=
          count_candidates (\<lambda>c. xop_kind (operation c) \<in> {Xk_Rename, Xk_MoveAndRename}) candidates,
        xsum_files_unchanged := psum_unchanged (op_summary proposal),
        xsum_conflicts :=
          count_candidates
            (\<lambda>c. xop_error_code (operation c) = Some (lit ''duplicate_plan_destination'')
               \<or> xop_error_code (operation c) = Some (lit ''destination_exists'')) candidates,
        xsum_needs_review :=
          count_candidates
            (\<lambda>c. xop_error_code (operation c) = Some (lit ''proposal_needs_review'')
               \<or> xop_status (operation c) = Op_Stale) candidates,
        xsum_preflight_ok := of_nat (length candidates - blocked),
        xsum_blocked := of_nat blocked\<rparr>)"

end
