(* ===== verification/Execution_Preparing.thy ===== *)
theory Execution_Preparing
  imports Execution_Planning Executor_Messages
begin

text \<open>
  \<^verbatim>\<open>prepare_execution\<close> of \<^verbatim>\<open>crates/application/src/execution.rs\<close>: from an approved proposal to
  a frozen plan that waits for consent. The file system, the platform reader, the store and the
  clock are the operations of an environment over a world; every call the source makes is made
  here, in its order.
\<close>

section \<open>The environment\<close>

record root_record =
  rr_id :: root_id
  rr_absolute_path_native :: path

text \<open>The material of the plan digest.\<close>

record canonical_operation =
  cop_id :: operation_step_id
  cop_proposal_operation_id :: "proposal_item_id option"
  cop_kind :: execution_operation_kind
  cop_source_relative_path :: "ustring option"
  cop_destination_relative_path :: ustring
  cop_original_source_relative_path :: "ustring option"
  cop_expected_source_hash :: "ustring option"
  cop_expected_source_size :: "u64 option"
  cop_expected_source_modified_at :: "ustring option"
  cop_live_fingerprint :: "file_fingerprint option"
  cop_preconditions :: "ustring list"
  cop_dependencies :: "operation_step_id list"
  cop_sequence :: u32
  cop_directory_existed_before :: "bool option"

record plan_material =
  pmt_material_version :: u32
  pmt_execution_id :: execution_id
  pmt_plan_id :: plan_id
  pmt_proposal_id :: proposal_id
  pmt_proposal_revision_id :: organization_revision_id
  pmt_proposal_revision :: u32
  pmt_source_scan_id :: scan_id
  pmt_approved_operation_ids :: "proposal_item_id list"
  pmt_approved_operation_count :: u64
  pmt_root_id :: root_id
  pmt_destination_root :: execution_root_binding
  pmt_safety_policy :: execution_safety_policy_binding
  pmt_operations :: "canonical_operation list"

record planning_libs = policy_libs +
  pl_lower :: "ustring \<Rightarrow> ustring"
  pl_io_text :: "io_error \<Rightarrow> ustring"
  pl_platform_text :: "platform_error \<Rightarrow> ustring"
  pl_safety_text :: "safety_error \<Rightarrow> ustring"
  pl_application_text :: "application_error \<Rightarrow> ustring"
  pl_plan_json :: "plan_material \<Rightarrow> byte list option"

record 'w planning_env =
  pe_os :: "'w policy_os"
  pe_read_dir :: "path \<Rightarrow> ('w, io_error, (io_error + byte list) list) eff"
  pe_fresh_id :: "'w \<Rightarrow> uuid \<times> 'w"
  pe_now_iso :: "'w \<Rightarrow> ustring \<times> 'w"
  pe_fingerprint :: "path \<Rightarrow> u64 \<Rightarrow> ('w, platform_error, file_fingerprint) eff"
  pe_inspect_volume :: "path \<Rightarrow> ('w, platform_error, volume_identity) eff"
  pe_journal_locked :: "'w \<Rightarrow> bool"
  pe_blocking_execution_exists :: "('w, persistence_error, bool) eff"
  pe_organization_proposal :: "proposal_id \<Rightarrow> ('w, persistence_error, organization_proposal) eff"
  pe_root_by_id :: "workspace_id \<Rightarrow> root_id \<Rightarrow> ('w, persistence_error, root_record) eff"
  pe_persist_prepared_execution :: "execution_detail \<Rightarrow> ('w, persistence_error, unit) eff"
  pe_execution_detail :: "execution_id \<Rightarrow> ('w, persistence_error, execution_detail) eff"

text \<open>
  A run that does not return a plan stops with an error of the code, with a panic, or because the
  fuel of the directory walk ran out.
\<close>

datatype planning_stop = StopError application_error | StopPanic | StopFuel

abbreviation raise_app :: "application_error \<Rightarrow> ('w, planning_stop, 'a) eff" where
  "raise_app e \<equiv> eff_err (StopError e)"

abbreviation try_app ::
  "('e \<Rightarrow> application_error) \<Rightarrow> ('w, 'e, 'a) eff \<Rightarrow> ('w, planning_stop, 'a) eff" where
  "try_app f m \<equiv> eff_map_err (\<lambda>e. StopError (f e)) m"

abbreviation try_pure ::
  "application_error + 'a \<Rightarrow> ('w, planning_stop, 'a) eff" where
  "try_pure r \<equiv> eff_lift (map_err StopError r)"

definition draw_id :: "'w planning_env \<Rightarrow> ('w, planning_stop, uuid) eff" where
  "draw_id env w = (case pe_fresh_id env w of (u, w1) \<Rightarrow> (Inr u, w1))"

section \<open>File names as text\<close>

text \<open>
  \<^verbatim>\<open>to_string_lossy\<close>: every maximal prefix of a broken sequence becomes one replacement
  character. The pair is the character read and the number of bytes it took.
\<close>

definition second_byte_ok :: "nat \<Rightarrow> nat \<Rightarrow> bool" where
  "second_byte_ok a b \<longleftrightarrow>
     (if a = 0xE0 then 0xA0 \<le> b \<and> b < 0xC0
      else if a = 0xED then 0x80 \<le> b \<and> b < 0xA0
      else if a = 0xF0 then 0x90 \<le> b \<and> b < 0xC0
      else if a = 0xF4 then 0x80 \<le> b \<and> b < 0x90
      else 0xC2 \<le> a \<and> a < 0xF4 \<and> 0x80 \<le> b \<and> b < 0xC0)"

fun utf8_next :: "nat list \<Rightarrow> uchar \<times> nat" where
  "utf8_next [] = (0xFFFD, 1)"
| "utf8_next (a # xs) =
     (if a < 0x80 then (a, 1)
      else
        (case xs of
           [] \<Rightarrow> (0xFFFD, 1)
         | b # ys \<Rightarrow>
             if \<not> second_byte_ok a b then (0xFFFD, 1)
             else if a < 0xE0 then ((a - 0xC0) * 0x40 + (b - 0x80), 2)
             else
               (case ys of
                  [] \<Rightarrow> (0xFFFD, 2)
                | c # zs \<Rightarrow>
                    if \<not> (0x80 \<le> c \<and> c < 0xC0) then (0xFFFD, 2)
                    else if a < 0xF0
                    then ((a - 0xE0) * 0x1000 + (b - 0x80) * 0x40 + (c - 0x80), 3)
                    else
                      (case zs of
                         [] \<Rightarrow> (0xFFFD, 3)
                       | d # _ \<Rightarrow>
                           if \<not> (0x80 \<le> d \<and> d < 0xC0) then (0xFFFD, 3)
                           else ((a - 0xF0) * 0x40000 + (b - 0x80) * 0x1000 + (c - 0x80) * 0x40
                                   + (d - 0x80), 4)))))"

lemma utf8_next_takes: "0 < snd (utf8_next xs)"
  by (cases xs) (auto split: list.splits)

function utf8_lossy :: "nat list \<Rightarrow> ustring" where
  "utf8_lossy [] = []"
| "utf8_lossy (a # xs) = fst (utf8_next (a # xs)) # utf8_lossy (drop (snd (utf8_next (a # xs))) (a # xs))"
  by pat_completeness auto

termination
  by (relation "measure length") (simp_all add: utf8_next_takes del: utf8_next.simps)

definition to_string_lossy :: "byte list \<Rightarrow> ustring" where
  "to_string_lossy bytes = utf8_lossy (map unat bytes)"

text \<open>The first entry of a directory whose name has the given key.\<close>

fun find_entry ::
  "'a planning_libs_scheme \<Rightarrow> ustring \<Rightarrow> path \<Rightarrow> (io_error + byte list) list \<Rightarrow> io_error + path option" where
  "find_entry L key parent [] = Inr None"
| "find_entry L key parent (Inl e # es) = Inl e"
| "find_entry L key parent (Inr name # es) =
     (if pl_lower L (to_string_lossy name) = key then Inr (Some (path_join parent name))
      else find_entry L key parent es)"

definition case_insensitive_existing ::
  "'a planning_libs_scheme \<Rightarrow> 'w planning_env \<Rightarrow> path \<Rightarrow> ('w, io_error, path option) eff" where
  "case_insensitive_existing L env p w =
     (case pos_metadata (pe_os env) p w of
        (Inr _, w1) \<Rightarrow> (Inr (Some p), w1)
      | (Inl error, w1) \<Rightarrow>
          (if io_kind error \<noteq> KindNotFound then (Inl error, w1)
           else
             (case (path_parent p, path_file_name p) of
                (Some parent, Some name) \<Rightarrow>
                  (case pe_read_dir env parent w1 of
                     (Inl error', w2) \<Rightarrow>
                       (if io_kind error' = KindNotFound then (Inr None, w2) else (Inl error', w2))
                   | (Inr entries, w2) \<Rightarrow>
                       (find_entry L (pl_lower L (to_string_lossy name)) parent entries, w2))
              | _ \<Rightarrow> (Inr None, w1))))"

section \<open>One operation of the proposal\<close>

datatype source_failure = SourceRefused string ustring bool | SourcePanic

definition live_source_fingerprint ::
  "'a planning_libs_scheme \<Rightarrow> 'w planning_env \<Rightarrow> safety_policy \<Rightarrow> path
    \<Rightarrow> organization_proposal_operation \<Rightarrow> volume_identity \<Rightarrow> ('w, source_failure, file_fingerprint) eff" where
  "live_source_fingerprint L env P root_path proposal root_volume =
     (let snapshot = pop_source proposal in
      eff_bind (eff_lift (map_err (\<lambda>e. SourceRefused ''invalid_source_path'' (pl_application_text L e) True)
                  (relative_path (snap_relative_path snapshot)))) (\<lambda>relative.
      eff_bind (eff_map_err (\<lambda>e. SourceRefused ''source_unavailable'' (pl_safety_text L e) True)
                  (resolve_existing_source (pe_os env) P root_path relative)) (\<lambda>source.
      eff_bind (eff_map_err (\<lambda>e. SourceRefused ''source_fingerprint_failed'' (pl_platform_text L e) True)
                  (pe_fingerprint env source (pol_maximum_rehash_bytes P))) (\<lambda>observed.
      if \<not> stable_for_apply observed
         \<or> vol_stable_identifier (nid_volume (fp_native_identity observed))
             \<noteq> vol_stable_identifier root_volume
         \<or> fp_byte_size observed \<noteq> snap_byte_size snapshot
         \<or> \<not> modified_time_matches (snap_modified_at snapshot) (fp_modified_at_ns observed)
      then eff_err (SourceRefused ''source_drift''
             (lit ''Source identity, size, or modified time changed after proposal review.'') True)
      else
        (case snap_content_hash snapshot of
           None \<Rightarrow> eff_ok observed
         | Some expected_hash \<Rightarrow>
             (case decode_hex_digest expected_hash of
                None \<Rightarrow> eff_err SourcePanic
              | Some None \<Rightarrow>
                  eff_err (SourceRefused ''invalid_snapshot_hash''
                    (lit ''The proposal source hash is malformed.'') True)
              | Some (Some expected) \<Rightarrow>
                  if fp_content_digest observed \<noteq> Some expected
                  then eff_err (SourceRefused ''source_hash_drift''
                         (lit ''Source content hash changed after proposal review.'') True)
                  else eff_ok observed))))))"

definition candidate_operation ::
  "execution_id \<Rightarrow> operation_step_id \<Rightarrow> organization_proposal_operation \<Rightarrow> execution_operation" where
  "candidate_operation execution_id step_id proposal =
     (let source = normalize_relative_string (snap_relative_path (pop_source proposal));
          destination = destination_relative (pop_proposed_destination proposal) (pop_proposed_name proposal)
      in \<lparr>xop_id = step_id, xop_execution_id = execution_id,
          xop_proposal_operation_id = Some (pop_id proposal),
          xop_kind = classify_operation source destination,
          xop_source_relative_path = Some source, xop_destination_relative_path = destination,
          xop_original_source_relative_path = Some source,
          xop_expected_source_hash = snap_content_hash (pop_source proposal),
          xop_expected_source_size = Some (snap_byte_size (pop_source proposal)),
          xop_expected_source_modified_at = snap_modified_at (pop_source proposal),
          xop_live_fingerprint = None, xop_post_fingerprint = None,
          xop_preconditions = execution_preconditions False, xop_dependencies = [],
          xop_sequence = 0, xop_status = Op_PreflightOk, xop_directory_existed_before = None,
          xop_reason = Some (take 1024 (join_with [32] (map reason_explanation (pop_reasons proposal)))),
          xop_error_code = None, xop_error_message = None, xop_started_at = None,
          xop_completed_at = None, xop_rolled_back_at = None\<rparr>)"

definition refused :: "execution_operation \<Rightarrow> bool \<Rightarrow> string \<Rightarrow> ustring \<Rightarrow> planned_candidate" where
  "refused operation stale code message =
     \<lparr>pcd_operation = block_operation stale (lit code) message operation, pcd_blocked = True\<rparr>"

definition preflight_checks ::
  "'a planning_libs_scheme \<Rightarrow> 'w planning_env \<Rightarrow> safety_policy \<Rightarrow> path \<Rightarrow> volume_identity
    \<Rightarrow> organization_proposal_operation \<Rightarrow> execution_operation \<Rightarrow> ('w, planning_stop, planned_candidate) eff" where
  "preflight_checks L env P root_path root_volume proposal operation w =
     (let source = normalize_relative_string (snap_relative_path (pop_source proposal));
          destination = destination_relative (pop_proposed_destination proposal) (pop_proposed_name proposal)
      in if pop_stale proposal
         then (Inr (refused operation True ''stale_source'' (lit ''Source snapshot is stale.'')), w)
         else if (pop_needs_review proposal \<or> requires_review (pop_conflict_state proposal))
                 \<and> \<not> pop_user_override proposal
         then (Inr (refused operation False ''proposal_needs_review''
                 (lit ''The approved proposal operation still requires review.'')), w)
         else if source = destination
         then (Inr (refused operation False ''no_effect''
                 (lit ''The proposed operation has no filesystem effect.'')), w)
         else if path_key (pl_lower L) source = path_key (pl_lower L) destination
                 \<and> \<not> pol_allow_qualified_case_only_rename P
         then (Inr (refused operation False ''case_only_rename_unqualified''
                 (lit ''Case-only rename is blocked until native behavior is proven safe.'')), w)
         else
           (case validate_destination_components (pop_proposed_destination proposal)
                   (pop_proposed_name proposal) of
              Inl error \<Rightarrow>
                (Inr (refused operation False ''invalid_destination'' (pl_safety_text L error)), w)
            | Inr _ \<Rightarrow>
                (case live_source_fingerprint L env P root_path proposal root_volume w of
                   (Inr observed, w1) \<Rightarrow>
                     (Inr \<lparr>pcd_operation = operation\<lparr>xop_live_fingerprint := Some observed\<rparr>,
                           pcd_blocked = False\<rparr>, w1)
                 | (Inl (SourceRefused code message stale), w1) \<Rightarrow>
                     (Inr (refused operation stale code message), w1)
                 | (Inl SourcePanic, w1) \<Rightarrow> (Inl StopPanic, w1))))"

definition preflight_candidate ::
  "'a planning_libs_scheme \<Rightarrow> 'w planning_env \<Rightarrow> safety_policy \<Rightarrow> execution_id \<Rightarrow> path \<Rightarrow> volume_identity
    \<Rightarrow> organization_proposal_operation \<Rightarrow> ('w, planning_stop, planned_candidate) eff" where
  "preflight_candidate L env P execution_id root_path root_volume proposal =
     eff_bind (draw_id env) (\<lambda>step_id.
       preflight_checks L env P root_path root_volume proposal
         (candidate_operation execution_id step_id proposal))"

fun preflight_all ::
  "'a planning_libs_scheme \<Rightarrow> 'w planning_env \<Rightarrow> safety_policy \<Rightarrow> execution_id \<Rightarrow> path \<Rightarrow> volume_identity
    \<Rightarrow> organization_proposal_operation list \<Rightarrow> ('w, planning_stop, planned_candidate list) eff" where
  "preflight_all L env P execution_id root_path root_volume [] = eff_ok []"
| "preflight_all L env P execution_id root_path root_volume (p # ps) =
     eff_bind (preflight_candidate L env P execution_id root_path root_volume p) (\<lambda>c.
     eff_bind (preflight_all L env P execution_id root_path root_volume ps) (\<lambda>cs.
       eff_ok (c # cs)))"

section \<open>Destinations that are occupied\<close>

text \<open>
  The sources by key; of two sources with one key the later stands. An occupied destination is
  allowed when another unblocked operation of the plan moves the occupant away: then that
  operation becomes a dependency.
\<close>

definition sources_by_key ::
  "'a planning_libs_scheme \<Rightarrow> planned_candidate list \<Rightarrow> ustring \<rightharpoonup> nat" where
  "sources_by_key L cs =
     map_of (rev (concat (map
       (\<lambda>i. if pcd_blocked (cs ! i) then []
             else (case xop_source_relative_path (pcd_operation (cs ! i)) of
                     None \<Rightarrow> [] | Some source \<Rightarrow> [(path_key (pl_lower L) source, i)]))
       [0..<length cs])))"

definition add_dependency :: "operation_step_id \<Rightarrow> planned_candidate \<Rightarrow> planned_candidate" where
  "add_dependency d c =
     c\<lparr>pcd_operation := (pcd_operation c)\<lparr>xop_dependencies := xop_dependencies (pcd_operation c) @ [d]\<rparr>\<rparr>"

definition occupied_destination ::
  "'a planning_libs_scheme \<Rightarrow> safety_policy \<Rightarrow> (ustring \<rightharpoonup> nat) \<Rightarrow> nat \<Rightarrow> planned_candidate list
    \<Rightarrow> planned_candidate list" where
  "occupied_destination L P sources i cs =
     (let c = cs ! i in
      case sources (path_key (pl_lower L) (xop_destination_relative_path (pcd_operation c))) of
        None \<Rightarrow>
          cs[i := block_candidate ''destination_exists''
                    (lit ''Destination already exists and is not vacated by this plan.'') c]
      | Some occupant \<Rightarrow>
          if occupant = i \<and> pol_allow_qualified_case_only_rename P
             \<and> is_case_only_operation (pl_lower L) (pcd_operation c)
          then cs
          else if occupant = i \<or> pcd_blocked (cs ! occupant)
          then cs[i := block_candidate ''destination_exists'' (lit ''Destination already exists.'') c]
          else cs[i := add_dependency (xop_id (pcd_operation (cs ! occupant))) c])"

definition resolve_one ::
  "'a planning_libs_scheme \<Rightarrow> 'w planning_env \<Rightarrow> safety_policy \<Rightarrow> path \<Rightarrow> (ustring \<rightharpoonup> nat) \<Rightarrow> nat
    \<Rightarrow> planned_candidate list \<Rightarrow> 'w \<Rightarrow> planned_candidate list \<times> 'w" where
  "resolve_one L env P root_path sources i cs w =
     (let c = cs ! i in
      if pcd_blocked c then (cs, w)
      else
        (case relative_path (xop_destination_relative_path (pcd_operation c)) of
           Inl error \<Rightarrow>
             (cs[i := block_candidate ''invalid_destination'' (pl_application_text L error) c], w)
         | Inr relative \<Rightarrow>
             (case case_insensitive_existing L env (path_join root_path relative) w of
                (Inr (Some _), w1) \<Rightarrow> (occupied_destination L P sources i cs, w1)
              | (Inr None, w1) \<Rightarrow>
                  (case resolve_absent_destination (pe_os env) P root_path relative False w1 of
                     (Inl error, w2) \<Rightarrow>
                       (cs[i := block_candidate ''unsafe_destination'' (pl_safety_text L error) c], w2)
                   | (Inr _, w2) \<Rightarrow> (cs, w2))
              | (Inl error, w1) \<Rightarrow>
                  (cs[i := block_candidate ''destination_inspection_failed'' (pl_io_text L error) c], w1))))"

fun resolve_each ::
  "'a planning_libs_scheme \<Rightarrow> 'w planning_env \<Rightarrow> safety_policy \<Rightarrow> path \<Rightarrow> (ustring \<rightharpoonup> nat) \<Rightarrow> nat list
    \<Rightarrow> planned_candidate list \<Rightarrow> 'w \<Rightarrow> planned_candidate list \<times> 'w" where
  "resolve_each L env P root_path sources [] cs w = (cs, w)"
| "resolve_each L env P root_path sources (i # is) cs w =
     (case resolve_one L env P root_path sources i cs w of
        (cs1, w1) \<Rightarrow> resolve_each L env P root_path sources is cs1 w1)"

definition resolve_destination_dependencies ::
  "'a planning_libs_scheme \<Rightarrow> 'w planning_env \<Rightarrow> safety_policy \<Rightarrow> path \<Rightarrow> planned_candidate list
    \<Rightarrow> 'w \<Rightarrow> planned_candidate list \<times> 'w" where
  "resolve_destination_dependencies L env P root_path cs w =
     resolve_each L env P root_path (sources_by_key L cs) [0..<length cs] cs w"

section \<open>Staging\<close>

definition staging_candidate :: "'a libs_scheme \<Rightarrow> execution_id \<Rightarrow> uuid \<Rightarrow> ustring" where
  "staging_candidate L execution_id u =
     STAGING_DIRECTORY_NAME @ [47] @ id_string L execution_id @ [47] @ id_string L u"

fun unique_staging_loop ::
  "nat \<Rightarrow> 'a planning_libs_scheme \<Rightarrow> 'w planning_env \<Rightarrow> safety_policy \<Rightarrow> path \<Rightarrow> execution_id
    \<Rightarrow> ustring list \<Rightarrow> ('w, planning_stop, ustring) eff" where
  "unique_staging_loop 0 L env P root_path execution_id reserved = raise_app AppExecutionPreflightBlocked"
| "unique_staging_loop (Suc n) L env P root_path execution_id reserved =
     eff_bind (draw_id env) (\<lambda>u.
       let candidate = staging_candidate L execution_id u in
       eff_bind (try_pure (relative_path candidate)) (\<lambda>relative.
       if list_ex (\<lambda>existing. path_key (pl_lower L) existing = path_key (pl_lower L) candidate) reserved
       then unique_staging_loop n L env P root_path execution_id reserved
       else
       eff_bind (try_app AppIo (case_insensitive_existing L env (path_join root_path relative))) (\<lambda>found.
       if found \<noteq> None then unique_staging_loop n L env P root_path execution_id reserved
       else (\<lambda>w.
         (case resolve_absent_destination (pe_os env) P root_path relative True w of
            (Inr _, w1) \<Rightarrow> (Inr candidate, w1)
          | (Inl _, w1) \<Rightarrow> unique_staging_loop n L env P root_path execution_id reserved w1)))))"

definition unique_staging_path ::
  "'a planning_libs_scheme \<Rightarrow> 'w planning_env \<Rightarrow> safety_policy \<Rightarrow> path \<Rightarrow> execution_id
    \<Rightarrow> ustring list \<Rightarrow> ('w, planning_stop, ustring) eff" where
  "unique_staging_path = unique_staging_loop 16"

text \<open>The first of the two renames that replace one operation.\<close>

definition stage_operation ::
  "execution_id \<Rightarrow> operation_step_id \<Rightarrow> ustring \<Rightarrow> ustring \<Rightarrow> operation_step_id list \<Rightarrow> string
    \<Rightarrow> execution_operation \<Rightarrow> execution_operation" where
  "stage_operation execution_id stage_id source staging dependencies reason operation =
     \<lparr>xop_id = stage_id, xop_execution_id = execution_id, xop_proposal_operation_id = None,
      xop_kind = Xk_InternalStage, xop_source_relative_path = Some source,
      xop_destination_relative_path = staging, xop_original_source_relative_path = Some source,
      xop_expected_source_hash = xop_expected_source_hash operation,
      xop_expected_source_size = xop_expected_source_size operation,
      xop_expected_source_modified_at = xop_expected_source_modified_at operation,
      xop_live_fingerprint = xop_live_fingerprint operation, xop_post_fingerprint = None,
      xop_preconditions = execution_preconditions True, xop_dependencies = dependencies,
      xop_sequence = 0, xop_status = Op_PreflightOk, xop_directory_existed_before = None,
      xop_reason = Some (lit reason), xop_error_code = None, xop_error_message = None,
      xop_started_at = None, xop_completed_at = None, xop_rolled_back_at = None\<rparr>"

fun place_ordered ::
  "'a planning_libs_scheme \<Rightarrow> 'w planning_env \<Rightarrow> safety_policy \<Rightarrow> path \<Rightarrow> execution_id
    \<Rightarrow> planned_candidate list \<Rightarrow> nat list \<Rightarrow> execution_operation list \<Rightarrow> ustring list
    \<Rightarrow> ('w, planning_stop, execution_operation list \<times> ustring list) eff" where
  "place_ordered L env P root_path execution_id cs [] executable staged = eff_ok (executable, staged)"
| "place_ordered L env P root_path execution_id cs (i # is) executable staged =
     (let operation = pcd_operation (cs ! i) in
      if pol_allow_qualified_case_only_rename P \<and> is_case_only_operation (pl_lower L) operation
      then
        eff_bind (try_pure (ok_or (xop_source_relative_path operation) AppInvalidExecution)) (\<lambda>source.
        eff_bind (unique_staging_path L env P root_path execution_id staged) (\<lambda>staging.
        eff_bind (draw_id env) (\<lambda>stage_id.
          place_ordered L env P root_path execution_id cs is
            (executable
              @ [stage_operation execution_id stage_id source staging (xop_dependencies operation)
                   ''Qualification-only case rename staging transition.'' operation,
                 operation\<lparr>xop_source_relative_path := Some staging, xop_dependencies := [stage_id],
                   xop_reason := Some (lit ''Qualification-only final case rename transition.'')\<rparr>])
            (staged @ [staging]))))
      else place_ordered L env P root_path execution_id cs is (executable @ [operation]) staged)"

fun place_cyclic ::
  "'a planning_libs_scheme \<Rightarrow> 'w planning_env \<Rightarrow> safety_policy \<Rightarrow> path \<Rightarrow> execution_id
    \<Rightarrow> planned_candidate list \<Rightarrow> nat list \<Rightarrow> execution_operation list \<Rightarrow> execution_operation list
    \<Rightarrow> ustring list
    \<Rightarrow> ('w, planning_stop, execution_operation list \<times> execution_operation list \<times> ustring list) eff" where
  "place_cyclic L env P root_path execution_id cs [] stages finals staged = eff_ok (stages, finals, staged)"
| "place_cyclic L env P root_path execution_id cs (i # is) stages finals staged =
     (let operation = pcd_operation (cs ! i) in
        eff_bind (try_pure (ok_or (xop_source_relative_path operation) AppInvalidExecution)) (\<lambda>source.
        eff_bind (unique_staging_path L env P root_path execution_id staged) (\<lambda>staging.
        eff_bind (draw_id env) (\<lambda>stage_id.
          place_cyclic L env P root_path execution_id cs is
            (stages
              @ [stage_operation execution_id stage_id source staging []
                   ''Internal collision-safe staging step.'' operation])
            (finals @ [operation\<lparr>xop_source_relative_path := Some staging, xop_dependencies := [stage_id]\<rparr>])
            (staged @ [staging])))))"

text \<open>
  Every final operation of the cycles depends on all of their stages, in place of what it
  depended on before.
\<close>

definition order_operations ::
  "'a planning_libs_scheme \<Rightarrow> 'w planning_env \<Rightarrow> safety_policy \<Rightarrow> path \<Rightarrow> execution_id
    \<Rightarrow> planned_candidate list \<Rightarrow> ('w, planning_stop, execution_operation list \<times> ustring list) eff" where
  "order_operations L env P root_path execution_id cs =
     (case dependency_order (pl_lower L) cs of
        (ordered, cyclic) \<Rightarrow>
          eff_bind (place_ordered L env P root_path execution_id cs ordered [] []) (\<lambda>(executable, staged).
          eff_bind (place_cyclic L env P root_path execution_id cs cyclic [] [] staged) (\<lambda>(stages, finals, staged').
            eff_ok
              (executable @ stages
                 @ map (\<lambda>operation. operation\<lparr>xop_dependencies := map xop_id stages\<rparr>) finals,
               staged'))))"

section \<open>Directories\<close>

text \<open>A directory the plan creates, or a source directory it removes when it is left empty.\<close>

definition directory_operation ::
  "execution_operation_kind \<Rightarrow> execution_id \<Rightarrow> operation_step_id \<Rightarrow> ustring option \<Rightarrow> ustring
    \<Rightarrow> ustring list \<Rightarrow> bool \<Rightarrow> ustring \<Rightarrow> execution_operation" where
  "directory_operation kind execution_id step_id source destination preconditions existed reason =
     \<lparr>xop_id = step_id, xop_execution_id = execution_id, xop_proposal_operation_id = None,
      xop_kind = kind, xop_source_relative_path = source,
      xop_destination_relative_path = destination, xop_original_source_relative_path = source,
      xop_expected_source_hash = None, xop_expected_source_size = None,
      xop_expected_source_modified_at = None, xop_live_fingerprint = None,
      xop_post_fingerprint = None, xop_preconditions = preconditions, xop_dependencies = [],
      xop_sequence = 0, xop_status = Op_PreflightOk,
      xop_directory_existed_before = Some existed, xop_reason = Some reason,
      xop_error_code = None, xop_error_message = None, xop_started_at = None,
      xop_completed_at = None, xop_rolled_back_at = None\<rparr>"

definition create_directory_operation ::
  "execution_id \<Rightarrow> operation_step_id \<Rightarrow> bool \<Rightarrow> ustring \<Rightarrow> execution_operation" where
  "create_directory_operation execution_id step_id internal relative =
     directory_operation Xk_CreateDirectory execution_id step_id None relative
       (map lit [''destination_absent'', ''parent_inside_approved_root'',
          ''no_symlink_or_reparse_traversal'', ''remove_on_rollback_only_if_empty''])
       False
       (lit (if internal then ''Application-controlled staging directory.''
             else ''Approved destination directory required by the frozen plan.''))"

definition remove_directory_operation ::
  "execution_id \<Rightarrow> operation_step_id \<Rightarrow> ustring \<Rightarrow> execution_operation" where
  "remove_directory_operation execution_id step_id relative =
     directory_operation Xk_RemoveDirectoryIfEmpty execution_id step_id (Some relative) relative
       (map lit [''source_directory_is_unlinked'', ''source_directory_is_empty_after_planned_moves''])
       True
       (lit ''Remove an emptied source folder so Ranger cleans the visible folder tree.'')"

fun plan_each_directory ::
  "'w planning_env \<Rightarrow> safety_policy \<Rightarrow> execution_id \<Rightarrow> path \<Rightarrow> ustring set \<Rightarrow> ustring list
    \<Rightarrow> execution_operation list \<Rightarrow> nat \<Rightarrow> ('w, planning_stop, execution_operation list \<times> nat) eff" where
  "plan_each_directory env P execution_id root_path user_prefixes [] operations user_count =
     eff_ok (operations, user_count)"
| "plan_each_directory env P execution_id root_path user_prefixes (prefix # prefixes) operations user_count =
     eff_bind (try_pure (relative_path prefix)) (\<lambda>relative w.
       case pos_metadata (pe_os env) (path_join root_path relative) w of
         (Inr EntryDirectory, w1) \<Rightarrow>
           plan_each_directory env P execution_id root_path user_prefixes prefixes operations user_count w1
       | (Inr _, w1) \<Rightarrow> (Inl (StopError AppInvalidExecution), w1)
       | (Inl error, w1) \<Rightarrow>
           (if io_kind error \<noteq> KindNotFound then (Inl (StopError (AppExecutionSafety (PolIo error))), w1)
            else
              (let internal = starts_with STAGING_DIRECTORY_NAME prefix in
               eff_bind (try_app AppExecutionSafety
                   (resolve_absent_destination (pe_os env) P root_path relative internal)) (\<lambda>_.
               eff_bind (draw_id env) (\<lambda>step_id.
                 plan_each_directory env P execution_id root_path user_prefixes prefixes
                   (operations @ [create_directory_operation execution_id step_id internal prefix])
                   (if prefix \<in> user_prefixes then user_count + 1 else user_count))) w1)))"

definition plan_directories ::
  "'a planning_libs_scheme \<Rightarrow> 'w planning_env \<Rightarrow> safety_policy \<Rightarrow> execution_id \<Rightarrow> path \<Rightarrow> ustring list
    \<Rightarrow> ustring list \<Rightarrow> ('w, planning_stop, execution_operation list \<times> nat) eff" where
  "plan_directories L env P execution_id root_path all_destinations user_destinations =
     eff_bind (try_pure (directory_prefixes (pl_lower L) user_destinations)) (\<lambda>user_prefixes.
     eff_bind (try_pure (directory_prefixes (pl_lower L) all_destinations)) (\<lambda>all_prefixes.
       plan_each_directory env P execution_id root_path (set user_prefixes) all_prefixes [] 0))"

section \<open>Source directories that the plan empties\<close>

text \<open>
  \<^verbatim>\<open>Path::strip_prefix\<close> on the paths of directory entries, whose remainder has no redundant
  separators.
\<close>

definition path_strip_prefix :: "path \<Rightarrow> path \<Rightarrow> path option" where
  "path_strip_prefix p base =
     (if path_starts_with p base
      then Some (join_slash (map component_bytes (drop (length (components base)) (components p))))
      else None)"

fun all_entries :: "(io_error + byte list) list \<Rightarrow> io_error + byte list list" where
  "all_entries [] = Inr []"
| "all_entries (Inl e # es) = Inl e"
| "all_entries (Inr name # es) = try_bind (all_entries es) (\<lambda>names. Inr (name # names))"

text \<open>
  \<^verbatim>\<open>collect_fully_planned_directory_tree\<close> and its loop over the children. A directory is
  removable when it and everything below it consists of directories and files that the plan
  moves. The walk descends once per unit of fuel.
\<close>

fun collect_directory_tree ::
    "'w planning_env \<Rightarrow> path \<Rightarrow> ustring set \<Rightarrow> ustring list \<Rightarrow> nat \<Rightarrow> ustring \<Rightarrow> ustring list
      \<Rightarrow> ('w, planning_stop, bool \<times> ustring list) eff"
  and collect_children ::
    "'w planning_env \<Rightarrow> path \<Rightarrow> ustring set \<Rightarrow> ustring list \<Rightarrow> nat \<Rightarrow> path \<Rightarrow> byte list list
      \<Rightarrow> ustring list \<Rightarrow> ('w, planning_stop, bool \<times> ustring list) eff"
where
  "collect_directory_tree env root_path planned destinations 0 relative_directory removable =
     eff_err StopFuel"
| "collect_directory_tree env root_path planned destinations (Suc n) relative_directory removable =
     (let directory = normalize_relative_string relative_directory in
      if list_ex (\<lambda>d. d = directory \<or> starts_with (directory @ [47]) d) destinations
      then eff_ok (False, removable)
      else
      eff_bind (try_pure (relative_path directory)) (\<lambda>relative.
      let absolute = path_join root_path relative in
      eff_bind (try_app AppIo (pos_metadata (pe_os env) absolute)) (\<lambda>kind.
      if kind \<noteq> EntryDirectory then eff_ok (False, removable)
      else
      eff_bind (try_app AppIo (pe_read_dir env absolute)) (\<lambda>entries.
      eff_bind (try_pure (map_err AppIo (all_entries entries))) (\<lambda>names.
      eff_bind (collect_children env root_path planned destinations n absolute (sort names) removable)
        (\<lambda>(safe, found). eff_ok (if safe then (True, found @ [directory]) else (False, found))))))))"
| "collect_children env root_path planned destinations n absolute [] removable = eff_ok (True, removable)"
| "collect_children env root_path planned destinations n absolute (name # names) removable =
     (let entry_path = path_join absolute name in
      eff_bind (try_app AppIo (pos_metadata (pe_os env) entry_path)) (\<lambda>kind.
      if kind = EntrySymlink then eff_ok (False, removable)
      else
      eff_bind (try_pure (ok_or (path_strip_prefix entry_path root_path) AppInvalidExecution)) (\<lambda>stripped.
      let child = normalize_relative_string (to_string_lossy stripped) in
      if kind = EntryDirectory
      then
        eff_bind (collect_directory_tree env root_path planned destinations n child removable)
          (\<lambda>(safe, found).
            if safe then collect_children env root_path planned destinations n absolute names found
            else eff_ok (False, found))
      else if kind = EntryFile
      then
        (if normalize_relative_string child \<in> planned
         then collect_children env root_path planned destinations n absolute names removable
         else eff_ok (False, removable))
      else eff_ok (False, removable))))"

text \<open>\<^verbatim>\<open>retain\<close> over the top levels: an error of the walk counts as not safe.\<close>

fun collect_top_levels ::
  "'w planning_env \<Rightarrow> path \<Rightarrow> ustring set \<Rightarrow> ustring list \<Rightarrow> nat \<Rightarrow> ustring list \<Rightarrow> ustring list
    \<Rightarrow> ('w, planning_stop, ustring list) eff" where
  "collect_top_levels env root_path planned destinations n [] removable = eff_ok removable"
| "collect_top_levels env root_path planned destinations n (level # tops) removable = (\<lambda>w.
     case collect_directory_tree env root_path planned destinations n level [] w of
       (Inr (safe, discovered), w1) \<Rightarrow>
         collect_top_levels env root_path planned destinations n tops
           (if safe then removable @ discovered else removable) w1
     | (Inl (StopError _), w1) \<Rightarrow>
         collect_top_levels env root_path planned destinations n tops removable w1
     | (Inl stop, w1) \<Rightarrow> (Inl stop, w1))"

definition planned_source :: "execution_operation \<Rightarrow> ustring option" where
  "planned_source operation =
     (if xop_proposal_operation_id operation \<noteq> None \<and> xop_kind operation \<noteq> Xk_InternalStage
      then map_option normalize_relative_string
             (case xop_original_source_relative_path operation of
                None \<Rightarrow> xop_source_relative_path operation | s \<Rightarrow> s)
      else None)"

definition planned_sources :: "execution_operation list \<Rightarrow> ustring list" where
  "planned_sources executable = List.map_filter planned_source executable"

definition cleanup_top_levels :: "ustring list \<Rightarrow> ustring list" where
  "cleanup_top_levels sources =
     sort (remdups (filter (\<lambda>level. level \<noteq> [] \<and> \<not> source_cleanup_top_level_is_protected level)
       (map (\<lambda>s. hd (split_on_slash s)) sources)))"

text \<open>Deeper directories first.\<close>

definition removal_order :: "ustring \<Rightarrow> int \<times> ustring" where
  "removal_order relative = (- int (length (split_on_slash relative)), relative)"

fun remove_operations ::
  "'w planning_env \<Rightarrow> execution_id \<Rightarrow> ustring list \<Rightarrow> ('w, planning_stop, execution_operation list) eff" where
  "remove_operations env execution_id [] = eff_ok []"
| "remove_operations env execution_id (relative # rs) =
     eff_bind (draw_id env) (\<lambda>step_id.
     eff_bind (remove_operations env execution_id rs) (\<lambda>ops.
       eff_ok (remove_directory_operation execution_id step_id relative # ops)))"

definition plan_source_directory_cleanup ::
  "nat \<Rightarrow> 'w planning_env \<Rightarrow> execution_id \<Rightarrow> path \<Rightarrow> execution_operation list \<Rightarrow> ustring list
    \<Rightarrow> ('w, planning_stop, execution_operation list) eff" where
  "plan_source_directory_cleanup n env execution_id root_path executable user_destinations =
     (let sources = planned_sources executable in
      if sources = [] then eff_ok []
      else
        eff_bind (collect_top_levels env root_path (set sources)
            (map normalize_relative_string user_destinations) n (cleanup_top_levels sources) [])
          (\<lambda>removable.
             remove_operations env execution_id (remdups_adj (sort_key removal_order removable))))"

end
