(* ===== verification/Execution_Plan.thy ===== *)
theory Execution_Plan
  imports Execution_Preparing
begin

text \<open>
  The frozen plan: its digest, its verification, and \<^verbatim>\<open>prepare_execution\<close> itself, composed of
  the candidates, their order, the directories and the removals. All from
  \<^verbatim>\<open>crates/application/src/execution.rs\<close>.
\<close>

section \<open>The digest of a plan\<close>

definition canonical_operation_of :: "execution_operation \<Rightarrow> canonical_operation" where
  "canonical_operation_of operation =
     \<lparr>cop_id = xop_id operation, cop_proposal_operation_id = xop_proposal_operation_id operation,
      cop_kind = xop_kind operation, cop_source_relative_path = xop_source_relative_path operation,
      cop_destination_relative_path = xop_destination_relative_path operation,
      cop_original_source_relative_path = xop_original_source_relative_path operation,
      cop_expected_source_hash = xop_expected_source_hash operation,
      cop_expected_source_size = xop_expected_source_size operation,
      cop_expected_source_modified_at = xop_expected_source_modified_at operation,
      cop_live_fingerprint = xop_live_fingerprint operation,
      cop_preconditions = xop_preconditions operation,
      cop_dependencies = xop_dependencies operation, cop_sequence = xop_sequence operation,
      cop_directory_existed_before = xop_directory_existed_before operation\<rparr>"

text \<open>Operations of the proposal that were not approved are not part of the digest.\<close>

definition in_plan_digest :: "proposal_item_id list \<Rightarrow> execution_operation \<Rightarrow> bool" where
  "in_plan_digest approved operation \<longleftrightarrow>
     (case xop_proposal_operation_id operation of None \<Rightarrow> True | Some i \<Rightarrow> i \<in> set approved)"

definition plan_material_of ::
  "execution_id \<Rightarrow> plan_id \<Rightarrow> proposal_id \<Rightarrow> organization_revision_id \<Rightarrow> u32 \<Rightarrow> scan_id
    \<Rightarrow> proposal_item_id list \<Rightarrow> u64 \<Rightarrow> root_id \<Rightarrow> execution_root_binding
    \<Rightarrow> execution_safety_policy_binding \<Rightarrow> execution_operation list \<Rightarrow> plan_material" where
  "plan_material_of execution_id frozen_id proposal_id revision_id revision scan approved_ids count
     root_id destination_root safety_policy operations =
     \<lparr>pmt_material_version = EXECUTION_PLAN_MATERIAL_VERSION, pmt_execution_id = execution_id,
      pmt_plan_id = frozen_id, pmt_proposal_id = proposal_id,
      pmt_proposal_revision_id = revision_id, pmt_proposal_revision = revision,
      pmt_source_scan_id = scan, pmt_approved_operation_ids = approved_ids,
      pmt_approved_operation_count = count, pmt_root_id = root_id,
      pmt_destination_root = destination_root, pmt_safety_policy = safety_policy,
      pmt_operations =
        map canonical_operation_of (filter (in_plan_digest approved_ids) operations)\<rparr>"

definition execution_plan_digest ::
  "'a planning_libs_scheme \<Rightarrow> plan_material \<Rightarrow> application_error + ustring" where
  "execution_plan_digest L material =
     try_bind (ok_or (pl_plan_json L material) AppInvalidExecution) (\<lambda>encoded.
       Inr (encode_digest (blake3 L encoded)))"

definition detail_material :: "execution_detail \<Rightarrow> plan_material" where
  "detail_material d =
     (let s = xd_session d; a = xs_approval s in
      plan_material_of (xs_id s) (xs_plan_id s) (xs_proposal_id s) (xs_proposal_revision_id s)
        (xs_proposal_revision s) (xs_source_scan_id s) (aep_approved_operation_ids a)
        (aep_operation_count a) (xs_root_id s) (aep_destination_root a) (aep_safety_policy a)
        (xd_operations d))"

definition executable_operation_ids :: "execution_operation list \<Rightarrow> proposal_item_id list" where
  "executable_operation_ids operations =
     sort (List.map_filter xop_proposal_operation_id
       (filter (\<lambda>operation. xop_status operation \<noteq> Op_Blocked \<and> xop_status operation \<noteq> Op_Stale)
          operations))"

definition strictly_increasing :: "'a::linorder list \<Rightarrow> bool" where
  "strictly_increasing xs \<longleftrightarrow> list_all (\<lambda>(a, b). a < b) (zip xs (tl xs))"

definition verify_plan_digest ::
  "'a planning_libs_scheme \<Rightarrow> execution_detail \<Rightarrow> application_error + unit" where
  "verify_plan_digest L d =
     try_bind (execution_plan_digest L (detail_material d)) (\<lambda>computed.
       let s = xd_session d; a = xs_approval s; approved_ids = aep_approved_operation_ids a in
       if computed \<noteq> xs_plan_digest_hex s
          \<or> computed \<noteq> aep_digest_hex a
          \<or> aep_material_version a \<noteq> EXECUTION_PLAN_MATERIAL_VERSION
          \<or> aep_execution_id a \<noteq> xs_id s
          \<or> aep_plan_id a \<noteq> xs_plan_id s
          \<or> aep_proposal_id a \<noteq> xs_proposal_id s
          \<or> aep_proposal_revision_id a \<noteq> xs_proposal_revision_id s
          \<or> aep_proposal_revision a \<noteq> xs_proposal_revision s
          \<or> aep_source_snapshot_version a \<noteq> xs_source_scan_id s
          \<or> aep_operation_count a \<noteq> of_nat (length approved_ids)
          \<or> aep_operation_count a \<noteq> xsum_preflight_ok (xs_summary s)
          \<or> \<not> strictly_increasing approved_ids
          \<or> executable_operation_ids (xd_operations d) \<noteq> approved_ids
       then Inl AppInvalidExecution else Inr ())"

section \<open>The candidates of a proposal\<close>

definition eligible :: "'a planning_libs_scheme \<Rightarrow> organization_proposal_operation \<Rightarrow> bool" where
  "eligible L p \<longleftrightarrow>
     pop_operation_kind p = Pk_MoveProposal \<or> pop_operation_kind p = Pk_RenameProposal
     \<or> (pop_user_override p \<and> pop_operation_kind p = Pk_KeepInPlace
        \<and> is_case_only_proposal (pl_lower L) p)"

definition plan_candidates ::
  "'a planning_libs_scheme \<Rightarrow> 'w planning_env \<Rightarrow> safety_policy \<Rightarrow> execution_id \<Rightarrow> path \<Rightarrow> volume_identity
    \<Rightarrow> organization_proposal \<Rightarrow> ('w, planning_stop, planned_candidate list) eff" where
  "plan_candidates L env P execution_id root_path volume proposal =
     eff_bind (preflight_all L env P execution_id root_path volume
         (filter (eligible L) (op_operations proposal))) (\<lambda>candidates.
       if candidates = [] then raise_app AppExecutionPreflightBlocked
       else (\<lambda>w.
         (case resolve_destination_dependencies L env P root_path
                 (detect_plan_collisions (pl_lower L) candidates) w of
            (resolved, w1) \<Rightarrow> (Inr (propagate_dependency_blocks resolved), w1))))"

definition unblocked :: "planned_candidate list \<Rightarrow> planned_candidate list" where
  "unblocked cs = filter (\<lambda>c. \<not> pcd_blocked c) cs"

definition approved_ids_of :: "planned_candidate list \<Rightarrow> proposal_item_id list" where
  "approved_ids_of cs =
     sort (List.map_filter (xop_proposal_operation_id \<circ> pcd_operation) (unblocked cs))"

section \<open>All operations\<close>

text \<open>The sequence is the index, which has to fit 32 bits.\<close>

definition number_operations ::
  "execution_operation list \<Rightarrow> application_error + execution_operation list" where
  "number_operations operations =
     (if length operations > 2 ^ 32 then Inl AppInvalidExecution
      else Inr (map2 (\<lambda>i operation. operation\<lparr>xop_sequence := of_nat i\<rparr>)
                  [0..<length operations] operations))"

definition plan_operations ::
  "nat \<Rightarrow> 'a planning_libs_scheme \<Rightarrow> 'w planning_env \<Rightarrow> safety_policy \<Rightarrow> execution_id \<Rightarrow> path
    \<Rightarrow> planned_candidate list \<Rightarrow> ('w, planning_stop, execution_operation list \<times> nat) eff" where
  "plan_operations n L env P execution_id root_path cs =
     eff_bind (order_operations L env P root_path execution_id cs) (\<lambda>(executable, staged).
     let user_destinations =
       map xop_destination_relative_path
         (filter (\<lambda>operation. xop_kind operation \<noteq> Xk_InternalStage) executable) in
     eff_bind (plan_directories L env P execution_id root_path (user_destinations @ staged)
         user_destinations) (\<lambda>(directories, user_count).
     eff_bind (plan_source_directory_cleanup n env execution_id root_path executable user_destinations)
       (\<lambda>removals.
     eff_bind (try_pure (number_operations
         (directories @ executable @ removals @ map pcd_operation (filter pcd_blocked cs))))
       (\<lambda>operations. eff_ok (operations, user_count)))))"

section \<open>The frozen plan\<close>

definition unsigned_detail ::
  "safety_policy \<Rightarrow> organization_proposal \<Rightarrow> execution_id \<Rightarrow> plan_id \<Rightarrow> execution_root_binding
    \<Rightarrow> execution_safety_policy_binding \<Rightarrow> planned_candidate list \<Rightarrow> execution_operation list \<Rightarrow> nat
    \<Rightarrow> ustring \<Rightarrow> ustring \<Rightarrow> execution_detail" where
  "unsigned_detail P proposal execution_id frozen_id destination_root binding cs operations user_count
     created_at hex =
     (let approved_ids = approved_ids_of cs; count = of_nat (length approved_ids);
          approval =
            \<lparr>aep_material_version = EXECUTION_PLAN_MATERIAL_VERSION,
             aep_execution_id = execution_id, aep_plan_id = frozen_id,
             aep_proposal_id = op_id proposal, aep_proposal_revision_id = op_revision_id proposal,
             aep_proposal_revision = op_revision proposal,
             aep_source_snapshot_version = op_source_scan_id proposal,
             aep_approved_operation_ids = approved_ids, aep_operation_count = count,
             aep_destination_root = destination_root, aep_safety_policy = binding,
             aep_approval_timestamp = None, aep_user_confirmed = False, aep_digest_hex = hex\<rparr>
      in \<lparr>xd_session =
            \<lparr>xs_id = execution_id, xs_plan_id = frozen_id, xs_proposal_id = op_id proposal,
             xs_proposal_revision_id = op_revision_id proposal,
             xs_proposal_revision = op_revision proposal, xs_workspace_id = op_workspace_id proposal,
             xs_root_id = op_root_id proposal, xs_source_scan_id = op_source_scan_id proposal,
             xs_status = St_AwaitingConfirmation, xs_recovery_state = Rec_RecoveryNotRequired,
             xs_plan_digest_hex = hex, xs_approval = approval, xs_consent = consent_pending,
             xs_summary = execution_summary_of proposal cs (of_nat user_count),
             xs_current_operation = None, xs_rollback_available = False,
             xs_confirmation_phrase_required =
               count \<ge> pol_large_batch_confirmation_threshold P,
             xs_created_at = created_at, xs_approved_at = None, xs_started_at = None,
             xs_completed_at = None, xs_rolled_back_at = None, xs_error = None\<rparr>,
          xd_operations = operations\<rparr>)"

definition freeze_plan ::
  "'a planning_libs_scheme \<Rightarrow> safety_policy \<Rightarrow> organization_proposal \<Rightarrow> execution_id \<Rightarrow> plan_id
    \<Rightarrow> execution_root_binding \<Rightarrow> execution_safety_policy_binding \<Rightarrow> planned_candidate list
    \<Rightarrow> execution_operation list \<Rightarrow> nat \<Rightarrow> ustring \<Rightarrow> application_error + execution_detail" where
  "freeze_plan L P proposal execution_id frozen_id destination_root binding cs operations user_count created_at =
     try_bind
       (execution_plan_digest L (plan_material_of execution_id frozen_id (op_id proposal) (op_revision_id proposal)
          (op_revision proposal) (op_source_scan_id proposal) (approved_ids_of cs)
          (of_nat (length (approved_ids_of cs))) (op_root_id proposal) destination_root binding operations))
       (\<lambda>hex.
          let detail = unsigned_detail P proposal execution_id frozen_id destination_root binding cs
                operations user_count created_at hex
          in try_bind (verify_plan_digest L detail) (\<lambda>_. Inr detail))"

section \<open>prepare\_execution\<close>

definition require_apply_gate ::
  "'w planning_env \<Rightarrow> apply_gate \<Rightarrow> ('w, planning_stop, unit) eff" where
  "require_apply_gate env gate w =
     (if pe_journal_locked env w then (Inl (StopError AppJournalLocked), w)
      else if gate_enabled gate then (Inr (), w)
      else (Inl (StopError (AppOperations (OpsGateDisabled (gate_reason gate)))), w))"

definition volume_supported ::
  "'a planning_libs_scheme \<Rightarrow> volume_identity \<Rightarrow> application_error + unit" where
  "volume_supported L volume =
     (if \<not> vol_local volume \<or> vol_removable volume then Inl (AppExecutionSafety PolProtectedPath)
      else if policy_macos L
         \<and> \<not> (case vol_filesystem_type volume of
                 None \<Rightarrow> False
               | Some t \<Rightarrow> eq_ignore_ascii_case t (lit ''apfs'') \<or> eq_ignore_ascii_case t (lit ''hfs''))
      then Inl (AppOperations (OpsPlatform (PlatUnsupported
             (lit ''same-volume apply currently requires a local APFS or HFS volume''))))
      else Inr ())"

definition approved_proposal ::
  "'w planning_env \<Rightarrow> apply_gate \<Rightarrow> proposal_id \<Rightarrow> u32 \<Rightarrow> ('w, planning_stop, organization_proposal) eff" where
  "approved_proposal env gate proposal_id revision =
     eff_bind (require_apply_gate env gate) (\<lambda>_.
     eff_bind (try_app AppPersistence (pe_blocking_execution_exists env)) (\<lambda>blocking.
     if blocking then raise_app AppExecutionAlreadyActive
     else
     eff_bind (try_app AppPersistence (pe_organization_proposal env proposal_id)) (\<lambda>proposal.
     if op_status proposal \<noteq> Prop_ApprovedForFutureApply \<or> op_revision proposal \<noteq> revision
     then raise_app AppExecutionApprovalRequired else eff_ok proposal)))"

text \<open>The root the plan is bound to, with its volume.\<close>

definition plan_root ::
  "'a planning_libs_scheme \<Rightarrow> 'w planning_env \<Rightarrow> safety_policy \<Rightarrow> organization_proposal
    \<Rightarrow> ('w, planning_stop, path \<times> volume_identity) eff" where
  "plan_root L env P proposal =
     eff_bind (try_app AppPersistence
         (pe_root_by_id env (op_workspace_id proposal) (op_root_id proposal))) (\<lambda>record.
     eff_bind (try_app AppExecutionSafety
         (validate_root L (pe_os env) P (rr_absolute_path_native record))) (\<lambda>canonical_root.
     eff_bind (try_app AppPlatform (pe_inspect_volume env canonical_root)) (\<lambda>volume.
     eff_bind (try_pure (volume_supported L volume)) (\<lambda>_. eff_ok (canonical_root, volume)))))"

definition root_binding_of :: "path \<Rightarrow> volume_identity \<Rightarrow> execution_root_binding" where
  "root_binding_of canonical_root volume =
     \<lparr>xrb_canonical_path = \<lparr>np_encoding = UnixBytes, np_bytes = canonical_root\<rparr>,
      xrb_display_path = to_string_lossy canonical_root, xrb_volume = volume\<rparr>"

definition draw_now :: "'w planning_env \<Rightarrow> ('w, planning_stop, ustring) eff" where
  "draw_now env w = (case pe_now_iso env w of (t, w1) \<Rightarrow> (Inr t, w1))"

definition safe_subset_allowed :: "safety_policy \<Rightarrow> planned_candidate list \<Rightarrow> bool" where
  "safe_subset_allowed P cs \<longleftrightarrow>
     unblocked cs \<noteq> []
     \<and> (pol_allow_independent_safe_subset P \<or> length (unblocked cs) = length cs)"

definition prepare_execution ::
  "nat \<Rightarrow> 'a planning_libs_scheme \<Rightarrow> 'w planning_env \<Rightarrow> apply_gate \<Rightarrow> safety_policy \<Rightarrow> proposal_id \<Rightarrow> u32
    \<Rightarrow> ('w, planning_stop, execution_detail) eff" where
  "prepare_execution n L env gate P proposal_id revision =
     eff_bind (approved_proposal env gate proposal_id revision) (\<lambda>proposal.
     eff_bind (plan_root L env P proposal) (\<lambda>(canonical_root, volume).
     eff_bind (try_pure (map_err (\<lambda>_. AppInvalidExecution) (policy_binding L P))) (\<lambda>binding.
     eff_bind (draw_id env) (\<lambda>execution_id.
     eff_bind (draw_id env) (\<lambda>frozen_id.
     eff_bind (plan_candidates L env P execution_id canonical_root volume proposal) (\<lambda>cs.
     if \<not> safe_subset_allowed P cs then raise_app AppExecutionPreflightBlocked
     else
     eff_bind (plan_operations n L env P execution_id canonical_root cs) (\<lambda>(operations, user_count).
     eff_bind (draw_now env) (\<lambda>created_at.
     eff_bind (try_pure (freeze_plan L P proposal execution_id frozen_id
         (root_binding_of canonical_root volume) binding cs operations user_count created_at)) (\<lambda>detail.
     eff_bind (try_app AppPersistence (pe_persist_prepared_execution env detail)) (\<lambda>_.
       try_app AppPersistence (pe_execution_detail env execution_id)))))))))))"

end
