(* ===== verification/Execution_Planning_Properties.thy ===== *)
theory Execution_Planning_Properties
  imports Execution_Planning
begin

text \<open>
  What the planning functions guarantee: the order of operations, the blocks that spread along
  dependencies, the collisions and the directories.
\<close>

section \<open>The order of operations\<close>

lemma next_ready_None: "next_ready lower cs remaining = None \<longleftrightarrow> (\<forall>i \<in> set remaining. \<not> is_ready cs remaining i)"
proof -
  have "next_ready lower cs remaining = None
      \<longleftrightarrow> set (sort_key (order_key lower cs) (filter (is_ready cs remaining) remaining)) = {}"
    unfolding next_ready_def set_empty by (simp split: list.split)
  then show ?thesis by auto
qed

lemma is_ready_iff:
  "is_ready cs remaining i \<longleftrightarrow>
     (\<forall>j \<in> set remaining. candidate_id cs j \<notin> set (candidate_dependencies cs i))"
  by (auto simp: is_ready_def list_all_iff)

lemma order_loop_spec:
  assumes "distinct remaining" and "order_loop lower cs remaining ordered = (result, cyclic)"
  shows "\<exists>ys. result = ordered @ ys \<and> distinct (ys @ cyclic) \<and> set ys \<union> set cyclic = set remaining
    \<and> (\<forall>i \<in> set cyclic. \<not> is_ready cs cyclic i)
    \<and> (\<forall>xs i zs. ys = xs @ i # zs \<longrightarrow>
         (\<forall>j \<in> set remaining. candidate_id cs j \<in> set (candidate_dependencies cs i) \<longrightarrow> j \<in> set xs))"
  using assms
proof (induction lower cs remaining ordered arbitrary: result cyclic rule: order_loop.induct)
  case (1 lower cs remaining ordered)
  show ?case
  proof (cases "next_ready lower cs remaining")
    case None
    with "1.prems" show ?thesis by (auto simp: order_loop.simps [of _ _ remaining] next_ready_None)
  next
    case (Some i)
    note ready = next_ready_Some [OF Some]
    from Some "1.prems" obtain ys where ys: "result = (ordered @ [i]) @ ys" "distinct (ys @ cyclic)"
        "set ys \<union> set cyclic = set (remove1 i remaining)" "\<forall>i \<in> set cyclic. \<not> is_ready cs cyclic i"
        "\<forall>xs k zs. ys = xs @ k # zs \<longrightarrow> (\<forall>j \<in> set (remove1 i remaining).
           candidate_id cs j \<in> set (candidate_dependencies cs k) \<longrightarrow> j \<in> set xs)"
      using "1.IH" [OF Some] by (auto simp: order_loop.simps [of _ _ remaining])
    have rest: "set (remove1 i remaining) = set remaining - {i}"
      using "1.prems"(1) by simp
    have "\<forall>xs k zs. i # ys = xs @ k # zs \<longrightarrow> (\<forall>j \<in> set remaining.
        candidate_id cs j \<in> set (candidate_dependencies cs k) \<longrightarrow> j \<in> set xs)"
      using ys(5) ready rest by (auto simp: is_ready_iff Cons_eq_append_conv) blast
    moreover have "distinct ((i # ys) @ cyclic)" "set (i # ys) \<union> set cyclic = set remaining"
      using ys(2,3) rest ready by auto
    ultimately show ?thesis using ys(1,4) by (intro exI [of _ "i # ys"]) simp
  qed
qed

lemma dependency_order_spec:
  assumes "dependency_order lower cs = (ordered, cyclic)"
  shows "set ordered \<union> set cyclic = {i. i < length cs \<and> \<not> pcd_blocked (cs ! i)}
    \<and> distinct (ordered @ cyclic)
    \<and> (\<forall>xs i zs j. ordered = xs @ i # zs \<and> j < length cs \<and> \<not> pcd_blocked (cs ! j)
         \<and> candidate_id cs j \<in> set (candidate_dependencies cs i) \<longrightarrow> j \<in> set xs)
    \<and> (\<forall>i \<in> set cyclic. \<exists>j \<in> set cyclic. candidate_id cs j \<in> set (candidate_dependencies cs i))"
proof -
  let ?remaining = "filter (\<lambda>i. \<not> pcd_blocked (cs ! i)) [0..<length cs]"
  obtain left where loop: "order_loop lower cs ?remaining [] = (ordered, left)"
      and cyclic: "cyclic = sort_key (\<lambda>i. source_key lower (cs ! i)) left"
    using assms by (auto simp: dependency_order_def split: prod.splits)
  have "distinct ?remaining" by simp
  from order_loop_spec [OF this loop] cyclic show ?thesis
    by (auto simp: is_ready_iff)
qed

text \<open>C4: The order of a plan is complete and respects its dependencies. Every operation that is not
  blocked is placed exactly once, either in the ordered part or in the cyclic part. When an
  operation of the ordered part depends on another operation of the plan, that one comes before
  it; and an operation lands in the cyclic part only because it depends on one that is there too.\<close>
theorem dependency_order_is_topological:
  assumes "dependency_order lower cs = (ordered, cyclic)"
  shows "set ordered \<union> set cyclic = {i. i < length cs \<and> \<not> pcd_blocked (cs ! i)}
    \<and> distinct (ordered @ cyclic)
    \<and> (\<forall>xs i zs j. ordered = xs @ i # zs \<and> j < length cs \<and> \<not> pcd_blocked (cs ! j)
         \<and> candidate_id cs j \<in> set (candidate_dependencies cs i) \<longrightarrow> j \<in> set xs)
    \<and> (\<forall>i \<in> set cyclic. \<exists>j \<in> set cyclic. candidate_id cs j \<in> set (candidate_dependencies cs i))"
  using assms by (rule dependency_order_spec)

section \<open>Blocks\<close>

lemma propagate_dependency_blocks_spec:
  "length (propagate_dependency_blocks cs) = length cs
   \<and> (\<forall>i < length cs.
        (\<not> pcd_blocked (propagate_dependency_blocks cs ! i)
           \<longrightarrow> propagate_dependency_blocks cs ! i = cs ! i)
        \<and> candidate_id (propagate_dependency_blocks cs) i = candidate_id cs i)
   \<and> (\<forall>c \<in> set (propagate_dependency_blocks cs). \<not> pcd_blocked c \<longrightarrow>
        set (xop_dependencies (pcd_operation c)) \<inter> blocked_ids (propagate_dependency_blocks cs) = {})"
proof (induction cs rule: propagate_dependency_blocks.induct)
  case (1 cs)
  show ?case
  proof (cases "list_ex (depends_on_blocked (blocked_ids cs)) cs")
    case True
    have "length (block_dependents cs) = length cs" by (simp add: block_dependents_def)
    moreover have "\<not> pcd_blocked (block_dependents cs ! i) \<Longrightarrow> block_dependents cs ! i = cs ! i"
      if "i < length cs" for i using that by (simp add: block_dependents_def split: if_splits)
    moreover have "candidate_id (block_dependents cs) i = candidate_id cs i" if "i < length cs" for i
      using that by (simp add: block_dependents_def block_candidate_def block_operation_def)
    ultimately show ?thesis using 1 [OF True] True
      by (simp add: propagate_dependency_blocks.simps [of cs])
  next
    case False
    then have "\<not> depends_on_blocked (blocked_ids cs) c" if "c \<in> set cs" for c
      using that by (auto simp: list_ex_iff)
    then show ?thesis using False
      by (auto simp: propagate_dependency_blocks.simps [of cs] depends_on_blocked_def list_ex_iff)
  qed
qed

lemma detect_plan_collisions_spec:
  "length (detect_plan_collisions lower cs) = length cs
   \<and> (\<forall>i < length cs.
        (\<not> pcd_blocked (detect_plan_collisions lower cs ! i)
           \<longrightarrow> detect_plan_collisions lower cs ! i = cs ! i)
        \<and> candidate_id (detect_plan_collisions lower cs) i = candidate_id cs i)"
  by (simp add: detect_plan_collisions_def block_candidate_def block_operation_def)

lemma two_in_filter:
  assumes "i < j" "j < length xs" "P (xs ! i)" "P (xs ! j)"
  shows "1 < length (filter P xs)"
proof -
  have "xs = take j xs @ xs ! j # drop (Suc j) xs" using assms by (simp add: id_take_nth_drop)
  moreover have "filter P (take j xs) \<noteq> []" using assms
    by (auto simp: filter_empty_conv in_set_conv_nth intro!: bexI [of _ "xs ! i"] exI [of _ i])
  ultimately have "filter P xs = filter P (take j xs) @ xs ! j # filter P (drop (Suc j) xs)"
    using assms by (metis filter.simps(2) filter_append)
  with \<open>filter P (take j xs) \<noteq> []\<close> show ?thesis by (cases "filter P (take j xs)") auto
qed

lemma detect_plan_collisions_distinct:
  assumes "i < j" "j < length cs"
    and "\<not> pcd_blocked (detect_plan_collisions lower cs ! i)"
    and "\<not> pcd_blocked (detect_plan_collisions lower cs ! j)"
  shows "destination_key lower (cs ! i) \<noteq> destination_key lower (cs ! j)"
proof
  assume same: "destination_key lower (cs ! i) = destination_key lower (cs ! j)"
  have "\<not> shares_destination lower cs (cs ! j)" "\<not> pcd_blocked (cs ! i)" "\<not> pcd_blocked (cs ! j)"
    using assms by (auto simp: detect_plan_collisions_def split: if_splits)
  moreover have "1 < length (filter (\<lambda>d. \<not> pcd_blocked d
      \<and> destination_key lower d = destination_key lower (cs ! j)) cs)"
    using two_in_filter [OF assms(1,2), of "\<lambda>d. \<not> pcd_blocked d
      \<and> destination_key lower d = destination_key lower (cs ! j)"] calculation same by simp
  ultimately show False by (simp add: shares_destination_def)
qed

end
