(* ===== verification/Execution_Plan_Properties.thy ===== *)
theory Execution_Plan_Properties
  imports Execution_Plan Execution_Planning_Properties Safety_Properties
begin

text \<open>
  What a prepared plan guarantees: which operations it may contain, in which order they run, which
  directories it may remove, and what its digest binds.
\<close>

section \<open>Candidates\<close>

text \<open>What the code checks of one operation of the proposal before it may become part of a plan.\<close>

definition reviewed_operation ::
  "'a planning_libs_scheme \<Rightarrow> safety_policy \<Rightarrow> organization_proposal_operation \<Rightarrow> bool" where
  "reviewed_operation L P p \<longleftrightarrow>
     (let source = normalize_relative_string (snap_relative_path (pop_source p));
          destination = destination_relative (pop_proposed_destination p) (pop_proposed_name p)
      in \<not> pop_stale p
         \<and> (pop_user_override p \<or> \<not> pop_needs_review p \<and> \<not> requires_review (pop_conflict_state p))
         \<and> source \<noteq> destination
         \<and> (path_key (pl_lower L) source = path_key (pl_lower L) destination
              \<longrightarrow> pol_allow_qualified_case_only_rename P)
         \<and> is_ok (validate_destination_components (pop_proposed_destination p) (pop_proposed_name p)))"

definition matches_snapshot ::
  "volume_identity \<Rightarrow> organization_proposal_operation \<Rightarrow> file_fingerprint \<Rightarrow> bool" where
  "matches_snapshot root_volume p f \<longleftrightarrow>
     stable_for_apply f
     \<and> vol_stable_identifier (nid_volume (fp_native_identity f)) = vol_stable_identifier root_volume
     \<and> fp_byte_size f = snap_byte_size (pop_source p)
     \<and> modified_time_matches (snap_modified_at (pop_source p)) (fp_modified_at_ns f)
     \<and> (\<forall>h. snap_content_hash (pop_source p) = Some h
          \<longrightarrow> (\<exists>d. decode_hex_digest h = Some (Some d) \<and> fp_content_digest f = Some d))"

lemma live_source_fingerprint_matches:
  assumes "live_source_fingerprint L env P root_path p root_volume w = (Inr f, w')"
  shows "matches_snapshot root_volume p f"
  using assms
  by (auto simp: live_source_fingerprint_def matches_snapshot_def eff_bind_Inr Let_def
      simp del: eff_bind_eqs split: if_splits option.splits)

text \<open>A candidate as the preflight leaves it.\<close>

definition preflighted ::
  "'a planning_libs_scheme \<Rightarrow> safety_policy \<Rightarrow> execution_id \<Rightarrow> volume_identity
    \<Rightarrow> organization_proposal_operation \<Rightarrow> planned_candidate \<Rightarrow> bool" where
  "preflighted L P x root_volume p c \<longleftrightarrow>
     xop_proposal_operation_id (pcd_operation c) = Some (pop_id p)
     \<and> (if pcd_blocked c then xop_status (pcd_operation c) \<in> {Op_Blocked, Op_Stale}
        else reviewed_operation L P p
          \<and> (\<exists>step f. matches_snapshot root_volume p f
               \<and> pcd_operation c = (candidate_operation x step p)\<lparr>xop_live_fingerprint := Some f\<rparr>))"

lemma refused_fields [simp]:
  "pcd_blocked (refused operation stale code message)"
  "xop_proposal_operation_id (pcd_operation (refused operation stale code message))
     = xop_proposal_operation_id operation"
  "xop_status (pcd_operation (refused operation stale code message)) = (if stale then Op_Stale else Op_Blocked)"
  by (simp_all add: refused_def block_operation_def)

lemma candidate_operation_fields [simp]:
  "xop_proposal_operation_id (candidate_operation x step p) = Some (pop_id p)"
  "xop_dependencies (candidate_operation x step p) = []"
  "xop_status (candidate_operation x step p) = Op_PreflightOk"
  by (simp_all add: candidate_operation_def Let_def)

lemma preflight_checks_spec:
  assumes "preflight_checks L env P root_path root_volume p (candidate_operation x step p) w = (Inr c, w')"
  shows "preflighted L P x root_volume p c"
proof (cases "reviewed_operation L P p")
  case False
  have "\<exists>stale code message. c = refused (candidate_operation x step p) stale code message"
    using assms False
    by (simp add: preflight_checks_def reviewed_operation_def Let_def is_ok_def
        split: if_splits sum.splits) blast+
  then show ?thesis by (auto simp: preflighted_def)
next
  case True
  then obtain u where valid: "validate_destination_components (pop_proposed_destination p)
      (pop_proposed_name p) = Inr u"
    by (auto simp: reviewed_operation_def Let_def is_ok_def split: sum.splits)
  show ?thesis
  proof (cases "live_source_fingerprint L env P root_path p root_volume w")
    case (Pair r w1)
    then show ?thesis
      using assms True valid live_source_fingerprint_matches [of L env P root_path p root_volume w]
      by (cases r; auto simp: preflight_checks_def preflighted_def reviewed_operation_def Let_def
          split: source_failure.splits; blast)
  qed
qed

lemma preflight_all_spec:
  "preflight_all L env P x root_path root_volume ps w = (Inr cs, w')
    \<Longrightarrow> list_all2 (preflighted L P x root_volume) ps cs"
  by (induction ps arbitrary: cs w)
    (auto simp: eff_bind_Inr preflight_candidate_def simp del: eff_bind_eqs dest!: preflight_checks_spec)

section \<open>Resolving destinations\<close>

text \<open>
  How later stages change a candidate: they block it, or they add dependencies on other
  candidates; its identity stays.
\<close>

definition still_planned ::
  "operation_step_id set \<Rightarrow> planned_candidate \<Rightarrow> planned_candidate \<Rightarrow> bool" where
  "still_planned ids c c' \<longleftrightarrow>
     xop_id (pcd_operation c') = xop_id (pcd_operation c)
     \<and> xop_proposal_operation_id (pcd_operation c') = xop_proposal_operation_id (pcd_operation c)
     \<and> (if pcd_blocked c'
        then (pcd_blocked c \<longrightarrow> xop_status (pcd_operation c) \<in> {Op_Blocked, Op_Stale})
             \<longrightarrow> xop_status (pcd_operation c') \<in> {Op_Blocked, Op_Stale}
        else \<not> pcd_blocked c
          \<and> (\<exists>ds. set ds \<subseteq> ids \<and> pcd_operation c' =
               (pcd_operation c)\<lparr>xop_dependencies := xop_dependencies (pcd_operation c) @ ds\<rparr>))"

lemma still_planned_refl [simp]: "still_planned ids c c"
  by (simp add: still_planned_def exI [of _ "[]"])

lemma still_planned_trans:
  "still_planned ids c c' \<Longrightarrow> still_planned ids c' c'' \<Longrightarrow> still_planned ids c c''"
proof (cases "pcd_blocked c''")
  case True
  then show "still_planned ids c c' \<Longrightarrow> still_planned ids c' c'' \<Longrightarrow> still_planned ids c c''"
    by (cases "pcd_blocked c'"; simp add: still_planned_def; blast)
next
  case False
  assume steps: "still_planned ids c c'" "still_planned ids c' c''"
  from steps(2) False have open': "\<not> pcd_blocked c'" by (simp add: still_planned_def)
  from steps(1) open' obtain ds where "set ds \<subseteq> ids"
      and "pcd_operation c' = (pcd_operation c)\<lparr>xop_dependencies := xop_dependencies (pcd_operation c) @ ds\<rparr>"
    by (simp only: still_planned_def if_False) blast
  moreover from steps(2) False obtain es where "set es \<subseteq> ids"
      and "pcd_operation c'' = (pcd_operation c')\<lparr>xop_dependencies := xop_dependencies (pcd_operation c') @ es\<rparr>"
    by (simp only: still_planned_def if_False) blast
  ultimately have "set (ds @ es) \<subseteq> ids \<and> pcd_operation c''
      = (pcd_operation c)\<lparr>xop_dependencies := xop_dependencies (pcd_operation c) @ ds @ es\<rparr>"
    by simp
  then have "\<exists>fs. set fs \<subseteq> ids \<and> pcd_operation c''
      = (pcd_operation c)\<lparr>xop_dependencies := xop_dependencies (pcd_operation c) @ fs\<rparr>" ..
  moreover from steps open' False have "xop_id (pcd_operation c'') = xop_id (pcd_operation c)"
      "xop_proposal_operation_id (pcd_operation c'') = xop_proposal_operation_id (pcd_operation c)"
      "\<not> pcd_blocked c"
    by (simp_all add: still_planned_def split: if_splits)
  ultimately show "still_planned ids c c''"
    using False by (simp only: still_planned_def if_False simp_thms)
qed

lemma planned_list_trans:
  "list_all2 (still_planned ids) cs cs1 \<Longrightarrow> list_all2 (still_planned ids) cs1 cs'
    \<Longrightarrow> list_all2 (still_planned ids) cs cs'"
  using list_all2_trans [of "still_planned ids" "still_planned ids" "still_planned ids" cs cs1 cs']
    still_planned_trans by blast

lemma still_planned_block [simp]: "still_planned ids c (block_candidate code message c)"
  by (simp add: still_planned_def block_candidate_def block_operation_def)

lemma still_planned_add:
  "\<not> pcd_blocked c \<Longrightarrow> d \<in> ids \<Longrightarrow> still_planned ids c (add_dependency d c)"
  by (auto simp: still_planned_def add_dependency_def intro: exI [of _ "[d]"])

abbreviation candidate_ids :: "planned_candidate list \<Rightarrow> operation_step_id set" where
  "candidate_ids cs \<equiv> (xop_id \<circ> pcd_operation) ` set cs"

lemma still_planned_ids:
  "list_all2 (still_planned ids) cs cs' \<Longrightarrow> candidate_ids cs' = candidate_ids cs"
  by (induction rule: list_all2_induct) (auto simp: still_planned_def)

lemma still_planned_update:
  assumes "i < length cs" "still_planned ids (cs ! i) c"
  shows "list_all2 (still_planned ids) cs (cs[i := c])"
  using assms by (auto simp: list_all2_conv_all_nth nth_list_update)

lemma occupied_destination_planned:
  assumes "i < length cs" "\<not> pcd_blocked (cs ! i)" "candidate_ids cs \<subseteq> ids"
    and "\<And>key j. sources key = Some j \<Longrightarrow> j < length cs"
  shows "list_all2 (still_planned ids) cs (occupied_destination L P sources i cs)"
proof -
  have "xop_id (pcd_operation (cs ! j)) \<in> ids" if "sources key = Some j" for key j
    using assms(3,4) that by (auto simp: image_subset_iff)
  then show ?thesis using assms(1,2)
    by (auto simp: occupied_destination_def Let_def list_all2_refl still_planned_update
        still_planned_add split: option.splits)
qed

lemma resolve_one_planned:
  assumes "i < length cs" "candidate_ids cs \<subseteq> ids"
    and "\<And>key j. sources key = Some j \<Longrightarrow> j < length cs"
    and "resolve_one L env P root_path sources i cs w = (cs', w')"
  shows "list_all2 (still_planned ids) cs cs'"
  using assms(4) occupied_destination_planned [OF assms(1) _ assms(2,3)] assms(1)
  by (auto simp: resolve_one_def Let_def list_all2_refl still_planned_update
      split: if_splits sum.splits prod.splits option.splits)

lemma resolve_each_planned:
  assumes "set is \<subseteq> {..<length cs}" "candidate_ids cs \<subseteq> ids"
    and "\<And>key j. sources key = Some j \<Longrightarrow> j < length cs"
    and "resolve_each L env P root_path sources is cs w = (cs', w')"
  shows "list_all2 (still_planned ids) cs cs'"
  using assms
proof (induction "is" arbitrary: cs w)
  case Nil
  then show ?case by (simp add: list_all2_refl)
next
  case (Cons i "is")
  obtain cs1 w1 where one: "resolve_one L env P root_path sources i cs w = (cs1, w1)"
    by (cases "resolve_one L env P root_path sources i cs w")
  have first: "list_all2 (still_planned ids) cs cs1"
    using Cons.prems one by (intro resolve_one_planned [of i]) auto
  then have "length cs1 = length cs" "candidate_ids cs1 = candidate_ids cs"
    using still_planned_ids by (auto dest: list_all2_lengthD)
  with Cons.prems Cons.IH [of cs1 w1] one have "list_all2 (still_planned ids) cs1 cs'" by auto
  then show ?case by (rule planned_list_trans [OF first])
qed

lemma sources_by_key_index: "sources_by_key L cs key = Some j \<Longrightarrow> j < length cs"
  by (auto simp: sources_by_key_def dest!: map_of_SomeD split: if_splits option.splits)

lemma detect_plan_collisions_planned: "list_all2 (still_planned ids) cs (detect_plan_collisions lower cs)"
  by (simp add: detect_plan_collisions_def list_all2_map2 list_all2_refl)

lemma propagate_dependency_blocks_planned:
  "list_all2 (still_planned ids) cs (propagate_dependency_blocks cs)"
proof (induction cs rule: propagate_dependency_blocks.induct)
  case (1 cs)
  have "list_all2 (still_planned ids) cs (block_dependents cs)"
    by (simp add: block_dependents_def list_all2_map2 list_all2_refl)
  from planned_list_trans [OF this] 1 show ?case
    by (simp add: propagate_dependency_blocks.simps [of cs] list_all2_refl)
qed

lemma still_planned_unblocked:
  assumes "still_planned ids c c'" "\<not> pcd_blocked c'"
  shows "\<not> pcd_blocked c" and "destination_key lower c' = destination_key lower c"
  using assms by (auto simp: still_planned_def destination_key_def)

lemma plan_candidates_stages:
  assumes "plan_candidates L env P x root_path volume proposal w = (Inr cs, w')"
  obtains pre where
    "list_all2 (preflighted L P x volume) (filter (eligible L) (op_operations proposal)) pre"
    "list_all2 (still_planned (candidate_ids pre)) pre cs"
    "\<forall>c \<in> set cs. \<not> pcd_blocked c \<longrightarrow> set (xop_dependencies (pcd_operation c)) \<inter> blocked_ids cs = {}"
    "\<forall>i j. i < j \<and> j < length cs \<and> \<not> pcd_blocked (cs ! i) \<and> \<not> pcd_blocked (cs ! j)
       \<longrightarrow> destination_key (pl_lower L) (cs ! i) \<noteq> destination_key (pl_lower L) (cs ! j)"
proof -
  let ?lower = "pl_lower L"
  from assms obtain pre w1 where
    pre: "preflight_all L env P x root_path volume (filter (eligible L) (op_operations proposal)) w = (Inr pre, w1)"
    and rest: "(case resolve_destination_dependencies L env P root_path (detect_plan_collisions ?lower pre) w1 of
        (resolved, w2) \<Rightarrow> (Inr (propagate_dependency_blocks resolved), w2)) = (Inr cs :: planning_stop + _, w')"
    by (auto simp: plan_candidates_def eff_bind_Inr simp del: eff_bind_eqs split: if_split_asm)
  obtain resolved w2 where resolved:
      "resolve_destination_dependencies L env P root_path (detect_plan_collisions ?lower pre) w1 = (resolved, w2)"
    by (cases "resolve_destination_dependencies L env P root_path (detect_plan_collisions ?lower pre) w1")
  with rest have cs: "cs = propagate_dependency_blocks resolved" by simp
  let ?ids = "candidate_ids pre"
  have detected: "list_all2 (still_planned ?ids) pre (detect_plan_collisions ?lower pre)"
    by (rule detect_plan_collisions_planned)
  have "list_all2 (still_planned ?ids) (detect_plan_collisions ?lower pre) resolved"
    using resolved still_planned_ids [OF detected] unfolding resolve_destination_dependencies_def
    by (intro resolve_each_planned) (auto simp: sources_by_key_index)
  from planned_list_trans [OF this propagate_dependency_blocks_planned]
  have later: "list_all2 (still_planned ?ids) (detect_plan_collisions ?lower pre) cs" by (simp add: cs)
  have distinct: "destination_key ?lower (cs ! i) \<noteq> destination_key ?lower (cs ! j)"
    if ij: "i < j" "j < length cs" and un: "\<not> pcd_blocked (cs ! i)" "\<not> pcd_blocked (cs ! j)" for i j
  proof -
    have len: "length pre = length cs" "length (detect_plan_collisions ?lower pre) = length cs"
      using list_all2_lengthD [OF detected] list_all2_lengthD [OF later] by auto
    have steps: "still_planned ?ids (detect_plan_collisions ?lower pre ! k) (cs ! k)" if "k < length cs" for k
      using later that by (simp add: list_all2_conv_all_nth)
    have "i < length cs" using ij by simp
    note [simp] = still_planned_unblocked [OF steps [OF this] un(1)]
      still_planned_unblocked [OF steps [OF ij(2)] un(2)]
    show ?thesis
      using detect_plan_collisions_distinct [OF ij(1), of pre ?lower] len ij detect_plan_collisions_spec [of ?lower pre]
      by auto
  qed
  show thesis
    by (rule that [OF preflight_all_spec [OF pre] planned_list_trans [OF detected later]])
      (use distinct propagate_dependency_blocks_spec [of resolved] in \<open>auto simp: cs\<close>)
qed

lemma distinct_map_sorted_wrt: "distinct (map f xs) \<longleftrightarrow> sorted_wrt (\<lambda>x y. f x \<noteq> f y) xs"
  by (induction xs) auto

lemma list_all2_in_right: "list_all2 R xs ys \<Longrightarrow> y \<in> set ys \<Longrightarrow> \<exists>x \<in> set xs. R x y"
  by (auto simp: list_all2_conv_all_nth in_set_conv_nth) (metis nth_mem)

lemma planned_candidate_origin:
  assumes "list_all2 (preflighted L P x volume) ps pre" "list_all2 (still_planned ids) pre cs" "c \<in> set cs"
  obtains p c0 where "p \<in> set ps" "preflighted L P x volume p c0" "still_planned ids c0 c"
  using list_all2_in_right [OF assms(2,3)] list_all2_in_right [OF assms(1)] by blast

text \<open>C3: Only operations that were reviewed and whose source was observed unchanged become part of
  a plan. Every candidate left unblocked comes from an operation of the approved proposal that is
  not stale, needs no further review unless the user overrode it, has an effect and a valid
  destination; its live fingerprint is that of a stable file on the root's volume with the size,
  the modification time and the content hash of the snapshot. It depends only on unblocked
  candidates, and no two unblocked candidates have the same case-insensitive destination.\<close>
theorem planned_operations_were_reviewed_and_observed:
  assumes "plan_candidates L env P x root_path volume proposal w = (Inr cs, w')"
  shows "distinct (map (destination_key (pl_lower L)) (unblocked cs))
    \<and> (\<forall>c \<in> set (unblocked cs). \<exists>p \<in> set (op_operations proposal). \<exists>f.
         eligible L p \<and> reviewed_operation L P p \<and> matches_snapshot volume p f
         \<and> xop_live_fingerprint (pcd_operation c) = Some f
         \<and> xop_proposal_operation_id (pcd_operation c) = Some (pop_id p)
         \<and> xop_source_relative_path (pcd_operation c)
             = Some (normalize_relative_string (snap_relative_path (pop_source p)))
         \<and> xop_destination_relative_path (pcd_operation c)
             = destination_relative (pop_proposed_destination p) (pop_proposed_name p)
         \<and> (\<forall>d \<in> set (xop_dependencies (pcd_operation c)).
              \<exists>c' \<in> set (unblocked cs). xop_id (pcd_operation c') = d))"
proof -
  from assms obtain pre where
    pre: "list_all2 (preflighted L P x volume) (filter (eligible L) (op_operations proposal)) pre"
    and later: "list_all2 (still_planned (candidate_ids pre)) pre cs"
    and free: "\<forall>c \<in> set cs. \<not> pcd_blocked c \<longrightarrow> set (xop_dependencies (pcd_operation c)) \<inter> blocked_ids cs = {}"
    and keys: "\<forall>i j. i < j \<and> j < length cs \<and> \<not> pcd_blocked (cs ! i) \<and> \<not> pcd_blocked (cs ! j)
       \<longrightarrow> destination_key (pl_lower L) (cs ! i) \<noteq> destination_key (pl_lower L) (cs ! j)"
    by (rule plan_candidates_stages)
  let ?key = "destination_key (pl_lower L)"
  have "sorted_wrt (\<lambda>c d. \<not> pcd_blocked c \<and> \<not> pcd_blocked d \<longrightarrow> ?key c \<noteq> ?key d) cs"
    using keys by (simp add: sorted_wrt_iff_nth_less)
  from sorted_wrt_filter [OF this]
  have "distinct (map ?key (unblocked cs))"
    unfolding distinct_map_sorted_wrt unblocked_def by (rule sorted_wrt_mono_rel [rotated]) auto
  moreover have "\<exists>p \<in> set (op_operations proposal). \<exists>f.
         eligible L p \<and> reviewed_operation L P p \<and> matches_snapshot volume p f
         \<and> xop_live_fingerprint (pcd_operation c) = Some f
         \<and> xop_proposal_operation_id (pcd_operation c) = Some (pop_id p)
         \<and> xop_source_relative_path (pcd_operation c)
             = Some (normalize_relative_string (snap_relative_path (pop_source p)))
         \<and> xop_destination_relative_path (pcd_operation c)
             = destination_relative (pop_proposed_destination p) (pop_proposed_name p)
         \<and> (\<forall>d \<in> set (xop_dependencies (pcd_operation c)).
              \<exists>c' \<in> set (unblocked cs). xop_id (pcd_operation c') = d)"
    if "c \<in> set (unblocked cs)" for c
  proof -
    from that have c: "c \<in> set cs" "\<not> pcd_blocked c" by (simp_all add: unblocked_def)
    obtain p c0 where p: "p \<in> set (filter (eligible L) (op_operations proposal))"
        and c0: "preflighted L P x volume p c0" "still_planned (candidate_ids pre) c0 c"
      by (rule planned_candidate_origin [OF pre later c(1)])
    from c0 c(2) obtain step f ds where f: "matches_snapshot volume p f" "reviewed_operation L P p"
        and ds: "set ds \<subseteq> candidate_ids pre" "pcd_operation c = (candidate_operation x step p)\<lparr>
          xop_live_fingerprint := Some f, xop_dependencies := ds\<rparr>"
      by (auto simp: preflighted_def still_planned_def)
    have "\<exists>c' \<in> set (unblocked cs). xop_id (pcd_operation c') = d"
      if "d \<in> set (xop_dependencies (pcd_operation c))" for d
    proof -
      from that ds have "d \<in> candidate_ids cs" using still_planned_ids [OF later] by auto
      moreover from that free c have "d \<notin> blocked_ids cs" by blast
      ultimately show ?thesis by (auto simp: blocked_ids_def unblocked_def)
    qed
    with p f ds show ?thesis by (intro bexI [of _ p] exI [of _ f]) (auto simp: candidate_operation_def Let_def)
  qed
  ultimately show ?thesis by blast
qed

section \<open>The order of a plan\<close>

text \<open>Every dependency is the identity of an earlier operation.\<close>

definition backward :: "execution_operation list \<Rightarrow> bool" where
  "backward ops \<longleftrightarrow>
     (\<forall>xs operation ys. ops = xs @ operation # ys
        \<longrightarrow> set (xop_dependencies operation) \<subseteq> xop_id ` set xs)"

lemma backward_Nil [simp]: "backward []"
  by (simp add: backward_def)

lemma backward_snoc [simp]:
  "backward (ops @ [operation]) \<longleftrightarrow>
     backward ops \<and> set (xop_dependencies operation) \<subseteq> xop_id ` set ops"
proof
  assume all: "backward (ops @ [operation])"
  have "set (xop_dependencies o') \<subseteq> xop_id ` set xs" if "ops = xs @ o' # ys" for xs o' ys
    using all [unfolded backward_def, rule_format, of xs o' "ys @ [operation]"] that by simp
  then show "backward ops \<and> set (xop_dependencies operation) \<subseteq> xop_id ` set ops"
    using all [unfolded backward_def, rule_format, of ops operation "[]"] by (auto simp: backward_def)
next
  assume parts: "backward ops \<and> set (xop_dependencies operation) \<subseteq> xop_id ` set ops"
  show "backward (ops @ [operation])"
    unfolding backward_def
  proof (intro allI impI)
    fix xs o' ys assume "ops @ [operation] = xs @ o' # ys"
    then show "set (xop_dependencies o') \<subseteq> xop_id ` set xs"
      using parts by (cases ys rule: rev_cases) (auto simp: backward_def simp flip: append_assoc append_Cons)
  qed
qed

lemma backward_append:
  assumes "backward xs" "\<And>operation. operation \<in> set ys \<Longrightarrow> set (xop_dependencies operation) \<subseteq> xop_id ` set xs"
  shows "backward (xs @ ys)"
  using assms(2)
proof (induction ys rule: rev_induct)
  case (snoc operation ys)
  then show ?case using assms(1) by (auto simp flip: append_assoc)
qed (simp add: assms(1))

lemma stage_operation_fields [simp]:
  "xop_id (stage_operation x stage_id source staging ds reason operation) = stage_id"
  "xop_dependencies (stage_operation x stage_id source staging ds reason operation) = ds"
  by (simp_all add: stage_operation_def)

text \<open>Indices of a part of the plan whose dependencies are placed before them.\<close>

definition placeable :: "planned_candidate list \<Rightarrow> nat list \<Rightarrow> operation_step_id set \<Rightarrow> bool" where
  "placeable cs is ids \<longleftrightarrow>
     (\<forall>xs i ys. is = xs @ i # ys
        \<longrightarrow> set (candidate_dependencies cs i) \<subseteq> ids \<union> candidate_id cs ` set xs)"

lemma placeable_Cons:
  "placeable cs (i # is) ids \<Longrightarrow>
     set (candidate_dependencies cs i) \<subseteq> ids \<and> placeable cs is (insert (candidate_id cs i) ids)"
  unfolding placeable_def
  by (metis (no_types, lifting) Cons_eq_appendI Un_insert_left Un_insert_right append_Nil image_empty
      image_insert list.set(1,2) sup_bot_right)

lemma placeable_mono: "placeable cs is ids \<Longrightarrow> ids \<subseteq> ids' \<Longrightarrow> placeable cs is ids'"
  unfolding placeable_def by blast

lemma place_ordered_backward:
  assumes "place_ordered L env P root_path x cs is executable staged w = (Inr (result, staged'), w')"
    and "backward executable" "placeable cs is (xop_id ` set executable)"
  shows "backward result"
  using assms
proof (induction "is" arbitrary: executable staged w)
  case Nil
  then show ?case by simp
next
  case (Cons i "is")
  let ?operation = "pcd_operation (cs ! i)"
  from placeable_Cons [OF Cons.prems(3)]
  have deps: "set (xop_dependencies ?operation) \<subseteq> xop_id ` set executable"
    and rest: "placeable cs is (insert (xop_id ?operation) (xop_id ` set executable))" by auto
  show ?case
  proof (cases "pol_allow_qualified_case_only_rename P \<and> is_case_only_operation (pl_lower L) ?operation")
    case True
    with Cons.prems(1) obtain source staging stage_id w1 where
      "place_ordered L env P root_path x cs is
         (executable
           @ [stage_operation x stage_id source staging (xop_dependencies ?operation)
                ''Qualification-only case rename staging transition.'' ?operation,
              ?operation\<lparr>xop_source_relative_path := Some staging, xop_dependencies := [stage_id],
                xop_reason := Some (lit ''Qualification-only final case rename transition.'')\<rparr>])
         (staged @ [staging]) w1 = (Inr (result, staged'), w')"
      by (auto simp: Let_def eff_bind_Inr simp del: eff_bind_eqs)
    note step = this
    show ?thesis
    proof (rule Cons.IH [OF step])
      show "backward (executable
           @ [stage_operation x stage_id source staging (xop_dependencies ?operation)
                ''Qualification-only case rename staging transition.'' ?operation,
              ?operation\<lparr>xop_source_relative_path := Some staging, xop_dependencies := [stage_id],
                xop_reason := Some (lit ''Qualification-only final case rename transition.'')\<rparr>])"
        using Cons.prems(2) deps
          backward_snoc [of "executable @ [stage_operation x stage_id source staging
            (xop_dependencies ?operation) ''Qualification-only case rename staging transition.'' ?operation]"]
        by simp
    qed (rule placeable_mono [OF rest], auto)
  next
    case False
    with Cons.prems(1) have step:
      "place_ordered L env P root_path x cs is (executable @ [?operation]) staged w = (Inr (result, staged'), w')"
      by (auto simp: Let_def)
    show ?thesis
      by (rule Cons.IH [OF step]) (use Cons.prems(2) deps rest in simp_all)
  qed
qed

lemma place_cyclic_stages:
  assumes "place_cyclic L env P root_path x cs is stages finals staged w = (Inr (stages', finals', staged'), w')"
    and "\<forall>stage \<in> set stages. xop_dependencies stage = []"
  shows "\<forall>stage \<in> set stages'. xop_dependencies stage = []"
  using assms
proof (induction "is" arbitrary: stages finals staged w)
  case (Cons i "is")
  from Cons.prems(1) obtain source staging stage_id w1 where
    "place_cyclic L env P root_path x cs is
       (stages @ [stage_operation x stage_id source staging [] ''Internal collision-safe staging step.''
          (pcd_operation (cs ! i))])
       (finals @ [(pcd_operation (cs ! i))\<lparr>xop_source_relative_path := Some staging,
          xop_dependencies := [stage_id]\<rparr>]) (staged @ [staging]) w1 = (Inr (stages', finals', staged'), w')"
    by (auto simp: Let_def eff_bind_Inr simp del: eff_bind_eqs)
  from Cons.IH [OF this] Cons.prems(2) show ?case by auto
qed simp

lemma order_operations_backward:
  assumes "order_operations L env P root_path x cs w = (Inr (executable, staged), w')"
    and "\<And>c. c \<in> set (unblocked cs) \<Longrightarrow> set (xop_dependencies (pcd_operation c))
          \<subseteq> (xop_id \<circ> pcd_operation) ` set (unblocked cs)"
  shows "backward executable"
proof -
  obtain ordered cyclic where order: "dependency_order (pl_lower L) cs = (ordered, cyclic)"
    by (cases "dependency_order (pl_lower L) cs")
  with assms(1) obtain placed staged1 stages finals w1 w2 where
      placed: "place_ordered L env P root_path x cs ordered [] [] w = (Inr (placed, staged1), w1)"
      and cyc: "place_cyclic L env P root_path x cs cyclic [] [] staged1 w1 = (Inr (stages, finals, staged), w2)"
      and executable: "executable = placed @ stages
        @ map (\<lambda>operation. operation\<lparr>xop_dependencies := map xop_id stages\<rparr>) finals"
    by (auto simp: order_operations_def eff_bind_Inr simp del: eff_bind_eqs)
  have unblocked: "set (unblocked cs) = (!) cs ` {i. i < length cs \<and> \<not> pcd_blocked (cs ! i)}"
    by (auto simp: unblocked_def in_set_conv_nth)
  have "placeable cs ordered {}"
    unfolding placeable_def
  proof (intro allI impI)
    fix xs i ys assume split: "ordered = xs @ i # ys"
    with dependency_order_spec [OF order] have "i < length cs" "\<not> pcd_blocked (cs ! i)" by auto
    then have "cs ! i \<in> set (unblocked cs)" by (simp add: unblocked_def)
    from assms(2) [OF this]
    show "set (candidate_dependencies cs i) \<subseteq> {} \<union> candidate_id cs ` set xs"
      using dependency_order_spec [OF order] split by (auto simp: unblocked)
  qed
  with place_ordered_backward [OF placed] have "backward placed" by simp
  moreover have "\<forall>stage \<in> set stages. xop_dependencies stage = []"
    by (rule place_cyclic_stages [OF cyc]) simp
  ultimately have "backward (placed @ stages)" by (intro backward_append) auto
  then have "backward ((placed @ stages)
      @ map (\<lambda>operation. operation\<lparr>xop_dependencies := map xop_id stages\<rparr>) finals)"
    by (rule backward_append) auto
  then show ?thesis by (simp add: executable)
qed

lemma directory_operation_fields [simp]:
  "xop_dependencies (create_directory_operation x step internal relative) = []"
  "xop_dependencies (remove_directory_operation x step relative) = []"
  "xop_status (create_directory_operation x step internal relative) = Op_PreflightOk"
  "xop_status (remove_directory_operation x step relative) = Op_PreflightOk"
  "xop_proposal_operation_id (create_directory_operation x step internal relative) = None"
  "xop_proposal_operation_id (remove_directory_operation x step relative) = None"
  "xop_destination_relative_path (create_directory_operation x step internal relative) = relative"
  "xop_source_relative_path (remove_directory_operation x step relative) = Some relative"
  by (simp_all add: create_directory_operation_def remove_directory_operation_def directory_operation_def)

text \<open>The operations of a part of the plan that no approval names.\<close>

abbreviation unapproved_part :: "execution_operation list \<Rightarrow> bool" where
  "unapproved_part ops \<equiv>
     \<forall>operation \<in> set ops. xop_dependencies operation = [] \<and> xop_proposal_operation_id operation = None
       \<and> xop_status operation = Op_PreflightOk"

lemma plan_each_directory_step:
  assumes "plan_each_directory env P x root_path user (p # ps) operations n w = (Inr result, w')"
  obtains (existing) relative w1 where "relative_path p = Inr relative"
      "pos_metadata (pe_os env) (path_join root_path relative) w = (Inr EntryDirectory, w1)"
      "plan_each_directory env P x root_path user ps operations n w1 = (Inr result, w')"
    | (missing) relative e w1 q w2 step w3 m where "relative_path p = Inr relative"
      "pos_metadata (pe_os env) (path_join root_path relative) w = (Inl e, w1)" "io_kind e = KindNotFound"
      "resolve_absent_destination (pe_os env) P root_path relative (starts_with STAGING_DIRECTORY_NAME p) w1
         = (Inr q, w2)"
      "draw_id env w2 = (Inr step, w3)"
      "plan_each_directory env P x root_path user ps
         (operations @ [create_directory_operation x step (starts_with STAGING_DIRECTORY_NAME p) p]) m w3
         = (Inr result, w')"
proof -
  from assms obtain relative where relative: "relative_path p = Inr relative"
    by (cases "relative_path p") auto
  obtain r w1 where meta: "pos_metadata (pe_os env) (path_join root_path relative) w = (r, w1)"
    by (cases "pos_metadata (pe_os env) (path_join root_path relative) w")
  show thesis
  proof (cases r)
    case (Inr kind)
    then show thesis using assms relative meta by (cases kind) (auto intro: existing)
  next
    case (Inl e)
    then have e: "io_kind e = KindNotFound" using assms relative meta by (auto split: if_splits)
    with assms relative meta Inl obtain q w2 step w3 where
      "resolve_absent_destination (pe_os env) P root_path relative (starts_with STAGING_DIRECTORY_NAME p) w1
         = (Inr q, w2)" "draw_id env w2 = (Inr step, w3)"
      "plan_each_directory env P x root_path user ps
         (operations @ [create_directory_operation x step (starts_with STAGING_DIRECTORY_NAME p) p])
         (if p \<in> user then n + 1 else n) w3 = (Inr result, w')"
      by (auto simp: Let_def eff_bind_def eff_map_err_def map_err_Inr simp del: eff_bind_eqs
          split: prod.splits sum.splits)
    with relative meta Inl e show thesis by (intro missing) auto
  qed
qed

lemma plan_each_directory_plain:
  assumes "plan_each_directory env P x root_path user ps operations n w = (Inr (result, n'), w')"
    and "unapproved_part operations"
  shows "unapproved_part result"
  using assms
proof (induction ps arbitrary: operations n w)
  case (Cons p ps)
  from Cons.prems(1) show ?case
    by (cases rule: plan_each_directory_step) (auto elim!: Cons.IH simp: Cons.prems(2))
qed simp

lemma remove_operations_plain:
  "remove_operations env x rs w = (Inr ops, w') \<Longrightarrow>
     unapproved_part ops \<and> map xop_source_relative_path ops = map Some rs
     \<and> (\<forall>operation \<in> set ops. xop_kind operation = Xk_RemoveDirectoryIfEmpty)"
  by (induction rs arbitrary: ops w)
    (auto simp: eff_bind_Inr remove_directory_operation_def directory_operation_def simp del: eff_bind_eqs)

lemma plan_source_directory_cleanup_removals:
  assumes "plan_source_directory_cleanup n env x root_path executable dests w = (Inr ops, w')"
  obtains rs w1 where "remove_operations env x rs w1 = (Inr ops, w')"
proof (cases "planned_sources executable = []")
  case True
  with assms show thesis by (intro that [of "[]" w]) (simp add: plan_source_directory_cleanup_def)
next
  case False
  with assms that show thesis
    by (auto simp: plan_source_directory_cleanup_def Let_def eff_bind_Inr simp del: eff_bind_eqs)
qed

lemma unat_of_nat_u32: "j < 2 ^ 32 \<Longrightarrow> unat (of_nat j :: u32) = j"
  by (simp add: unsigned_of_nat take_bit_nat_eq_self)

lemma number_operations_spec:
  assumes "number_operations operations = Inr result"
  shows "length result = length operations \<and> length operations \<le> 2 ^ 32
    \<and> (\<forall>j < length operations. result ! j = (operations ! j)\<lparr>xop_sequence := of_nat j\<rparr>)"
  using assms by (auto simp: number_operations_def split: if_splits)

lemma plan_operations_parts:
  assumes "plan_operations n L env P x root_path cs w = (Inr (operations, k), w')"
  obtains executable staged directories removals unnumbered w1 w2 w3 where
    "order_operations L env P root_path x cs w = (Inr (executable, staged), w1)"
    "plan_directories L env P x root_path
       (map xop_destination_relative_path
          (filter (\<lambda>operation. xop_kind operation \<noteq> Xk_InternalStage) executable) @ staged)
       (map xop_destination_relative_path
          (filter (\<lambda>operation. xop_kind operation \<noteq> Xk_InternalStage) executable)) w1
     = (Inr (directories, k), w2)"
    "plan_source_directory_cleanup n env x root_path executable
       (map xop_destination_relative_path
          (filter (\<lambda>operation. xop_kind operation \<noteq> Xk_InternalStage) executable)) w2
     = (Inr removals, w3)"
    "unnumbered = directories @ executable @ removals @ map pcd_operation (filter pcd_blocked cs)"
    "number_operations unnumbered = Inr operations"
  using assms
  by (auto simp: plan_operations_def Let_def eff_bind_Inr simp del: eff_bind_eqs)
    (auto simp: map_err_Inr)

lemma plan_directories_plain:
  "plan_directories L env P x root_path ds us w = (Inr (directories, k), w') \<Longrightarrow> unapproved_part directories"
  by (auto simp: plan_directories_def eff_bind_Inr simp del: eff_bind_eqs dest!: plan_each_directory_plain)

lemma unnumbered_backward:
  assumes "backward executable" "unapproved_part directories" "unapproved_part removals"
  shows "backward (directories @ executable @ removals)"
proof -
  have "backward (directories @ xs)" if "backward xs" for xs
    using that
  proof (induction xs rule: rev_induct)
    case Nil
    show ?case using backward_append [of "[]" directories] assms(2) by simp
  next
    case (snoc operation xs)
    then show ?case by (auto simp flip: append_assoc)
  qed
  from this [OF assms(1)] have "backward ((directories @ executable) @ removals)"
    using assms(3) backward_append [of "directories @ executable" removals] by auto
  then show ?thesis by simp
qed

lemma planned_dependencies:
  assumes "plan_candidates L env P x root_path volume proposal w = (Inr cs, w')" "c \<in> set (unblocked cs)"
  shows "set (xop_dependencies (pcd_operation c)) \<subseteq> (xop_id \<circ> pcd_operation) ` set (unblocked cs)"
proof -
  from assms(1) obtain pre where
    pre: "list_all2 (preflighted L P x volume) (filter (eligible L) (op_operations proposal)) pre"
    and later: "list_all2 (still_planned (candidate_ids pre)) pre cs"
    and free: "\<forall>c \<in> set cs. \<not> pcd_blocked c \<longrightarrow> set (xop_dependencies (pcd_operation c)) \<inter> blocked_ids cs = {}"
    by (rule plan_candidates_stages)
  from assms(2) have c: "c \<in> set cs" "\<not> pcd_blocked c" by (simp_all add: unblocked_def)
  obtain p c0 where "preflighted L P x volume p c0" "still_planned (candidate_ids pre) c0 c"
    by (rule planned_candidate_origin [OF pre later c(1)])
  with c(2) have "set (xop_dependencies (pcd_operation c)) \<subseteq> candidate_ids pre"
    by (auto simp: preflighted_def still_planned_def)
  also have "\<dots> = candidate_ids cs" using still_planned_ids [OF later] by simp
  finally show ?thesis using free c by (auto simp: blocked_ids_def unblocked_def) blast
qed

lemma prepared_order:
  assumes "plan_candidates L env P x root_path volume proposal w = (Inr cs, w1)"
    and "plan_operations n L env P x root_path cs w2 = (Inr (operations, k), w3)"
    and "j < length operations"
  shows "unat (xop_sequence (operations ! j)) = j
    \<and> (xop_status (operations ! j) \<in> {Op_Blocked, Op_Stale}
       \<or> (\<forall>d \<in> set (xop_dependencies (operations ! j)). \<exists>i < j. xop_id (operations ! i) = d))"
proof -
  from assms(2) obtain executable staged directories removals unnumbered v1 v2 v3 user where
    order: "order_operations L env P root_path x cs w2 = (Inr (executable, staged), v1)"
    and directories: "plan_directories L env P x root_path (user @ staged) user v1 = (Inr (directories, k), v2)"
    and removals: "plan_source_directory_cleanup n env x root_path executable user v2 = (Inr removals, v3)"
    and unnumbered: "unnumbered = directories @ executable @ removals @ map pcd_operation (filter pcd_blocked cs)"
    and numbered: "number_operations unnumbered = Inr operations"
    by (rule plan_operations_parts)
  let ?runs = "directories @ executable @ removals"
  obtain rs v where "remove_operations env x rs v = (Inr removals, v3)"
    by (rule plan_source_directory_cleanup_removals [OF removals])
  note plain = plan_directories_plain [OF directories] remove_operations_plain [OF this, THEN conjunct1]
  have "backward executable"
    by (rule order_operations_backward [OF order planned_dependencies [OF assms(1)]])
  then have ordered: "backward ?runs" by (rule unnumbered_backward [OF _ plain])
  note spec = number_operations_spec [OF numbered]
  from spec assms(3) have j: "j < length unnumbered" "j < 2 ^ 32"
      "operations ! j = (unnumbered ! j)\<lparr>xop_sequence := of_nat j\<rparr>" by auto
  have ids: "xop_id (operations ! i) = xop_id (unnumbered ! i)" if "i \<le> j" for i
    using spec j that by auto
  show ?thesis
  proof (cases "j < length ?runs")
    case True
    then have here: "?runs = take j ?runs @ unnumbered ! j # drop (Suc j) ?runs"
      by (metis append_assoc id_take_nth_drop nth_append unnumbered)
    have "take j ?runs = take j unnumbered" using True by (simp add: unnumbered)
    then have "set (xop_dependencies (unnumbered ! j)) \<subseteq> xop_id ` set (take j unnumbered)"
      using ordered [unfolded backward_def, rule_format, OF here] by (simp only:)
    then have earlier: "d \<in> xop_id ` set (take j unnumbered)"
      if "d \<in> set (xop_dependencies (operations ! j))" for d
      using that j(3) by auto
    have "\<exists>i < j. xop_id (operations ! i) = d" if "d \<in> set (xop_dependencies (operations ! j))" for d
    proof -
      from earlier [OF that] obtain i where "i < j" "d = xop_id (unnumbered ! i)"
        by (auto simp: in_set_conv_nth)
      then show ?thesis using ids [of i] by auto
    qed
    with j show ?thesis by (simp add: unat_of_nat_u32)
  next
    case False
    let ?rest = "map pcd_operation (filter pcd_blocked cs)"
    have whole: "unnumbered = ?runs @ ?rest" by (simp add: unnumbered)
    with False have "unnumbered ! j = ?rest ! (j - length ?runs)" by (simp only: nth_append if_False)
    moreover have "j - length ?runs < length ?rest"
      using j(1) False unfolding whole length_append by linarith
    ultimately have "unnumbered ! j \<in> set ?rest" by (simp only: nth_mem)
    then obtain c where c: "c \<in> set cs" "pcd_blocked c" "unnumbered ! j = pcd_operation c" by auto
    from assms(1) obtain pre where
      pre: "list_all2 (preflighted L P x volume) (filter (eligible L) (op_operations proposal)) pre"
      and later: "list_all2 (still_planned (candidate_ids pre)) pre cs"
      by (rule plan_candidates_stages)
    obtain p c0 where "preflighted L P x volume p c0" "still_planned (candidate_ids pre) c0 c"
      by (rule planned_candidate_origin [OF pre later c(1)])
    with c(2) have "xop_status (pcd_operation c) \<in> {Op_Blocked, Op_Stale}"
      by (auto simp: preflighted_def still_planned_def split: if_splits)
    with j c(3) show ?thesis by (simp add: unat_of_nat_u32)
  qed
qed

section \<open>Verification of a prepared plan\<close>

text \<open>The operations of the proposal among those that are to run.\<close>

definition live_ids :: "execution_operation list \<Rightarrow> proposal_item_id list" where
  "live_ids ops =
     List.map_filter xop_proposal_operation_id
       (filter (\<lambda>operation. xop_status operation \<noteq> Op_Blocked \<and> xop_status operation \<noteq> Op_Stale) ops)"

lemma live_ids_simps [simp]:
  "live_ids [] = []"
  "live_ids (xs @ ys) = live_ids xs @ live_ids ys"
  "live_ids (operation # ops) =
     (if xop_status operation = Op_Blocked \<or> xop_status operation = Op_Stale then []
      else case xop_proposal_operation_id operation of None \<Rightarrow> [] | Some i \<Rightarrow> [i]) @ live_ids ops"
  by (auto simp: live_ids_def List.map_filter_def split: option.splits)

lemma live_ids_unapproved: "unapproved_part ops \<Longrightarrow> live_ids ops = []"
  by (induction ops) auto

lemma live_ids_stage [simp]: "live_ids [stage_operation x stage_id source staging ds reason operation] = []"
  by (simp add: stage_operation_def)

lemma live_ids_update [simp]:
  "live_ids (map (\<lambda>operation. operation\<lparr>xop_dependencies := ds\<rparr>) ops) = live_ids ops"
  by (induction ops) auto

lemma place_ordered_ids:
  assumes "place_ordered L env P root_path x cs is executable staged w = (Inr (result, staged'), w')"
  shows "live_ids result = live_ids executable @ live_ids (map (\<lambda>i. pcd_operation (cs ! i)) is)"
  using assms
proof (induction "is" arbitrary: executable staged w)
  case (Cons i "is")
  let ?operation = "pcd_operation (cs ! i)"
  show ?case
  proof (cases "pol_allow_qualified_case_only_rename P \<and> is_case_only_operation (pl_lower L) ?operation")
    case True
    with Cons.prems obtain stage staging stage_id w1 where
      "place_ordered L env P root_path x cs is
         (executable @ [stage, ?operation\<lparr>xop_source_relative_path := Some staging,
            xop_dependencies := [stage_id],
            xop_reason := Some (lit ''Qualification-only final case rename transition.'')\<rparr>])
         (staged @ [staging]) w1 = (Inr (result, staged'), w')"
      and "live_ids [stage] = []"
      by (auto simp: Let_def eff_bind_Inr simp del: eff_bind_eqs live_ids_simps)
    with Cons.IH [OF this(1)] show ?thesis by simp
  next
    case False
    with Cons.prems have step:
      "place_ordered L env P root_path x cs is (executable @ [?operation]) staged w = (Inr (result, staged'), w')"
      by (auto simp: Let_def)
    from Cons.IH [OF step] show ?thesis by simp
  qed
qed simp

lemma place_cyclic_ids:
  assumes "place_cyclic L env P root_path x cs is stages finals staged w = (Inr (stages', finals', staged'), w')"
  shows "live_ids stages' = live_ids stages
    \<and> live_ids finals' = live_ids finals @ live_ids (map (\<lambda>i. pcd_operation (cs ! i)) is)"
  using assms
proof (induction "is" arbitrary: stages finals staged w)
  case (Cons i "is")
  from Cons.prems obtain stage staging stage_id w1 where
    "place_cyclic L env P root_path x cs is (stages @ [stage])
       (finals @ [(pcd_operation (cs ! i))\<lparr>xop_source_relative_path := Some staging,
          xop_dependencies := [stage_id]\<rparr>]) (staged @ [staging]) w1 = (Inr (stages', finals', staged'), w')"
    and "live_ids [stage] = []"
    by (auto simp: Let_def eff_bind_Inr simp del: eff_bind_eqs live_ids_simps)
  with Cons.IH [OF this(1)] show ?case by simp
qed simp

lemma order_operations_ids:
  assumes "order_operations L env P root_path x cs w = (Inr (executable, staged), w')"
  shows "mset (live_ids executable) = mset (live_ids (map pcd_operation (unblocked cs)))"
proof -
  obtain ordered cyclic where order: "dependency_order (pl_lower L) cs = (ordered, cyclic)"
    by (cases "dependency_order (pl_lower L) cs")
  with assms obtain placed staged1 stages finals w1 w2 where
      placed: "place_ordered L env P root_path x cs ordered [] [] w = (Inr (placed, staged1), w1)"
      and cyc: "place_cyclic L env P root_path x cs cyclic [] [] staged1 w1 = (Inr (stages, finals, staged), w2)"
      and executable: "executable = placed @ stages
        @ map (\<lambda>operation. operation\<lparr>xop_dependencies := map xop_id stages\<rparr>) finals"
    by (auto simp: order_operations_def eff_bind_Inr simp del: eff_bind_eqs)
  let ?remaining = "filter (\<lambda>i. \<not> pcd_blocked (cs ! i)) [0..<length cs]"
  let ?operation = "\<lambda>i. pcd_operation (cs ! i)"
  have "live_ids executable = live_ids (map ?operation (ordered @ cyclic))"
    using place_ordered_ids [OF placed] place_cyclic_ids [OF cyc] by (simp add: executable)
  moreover have "mset (ordered @ cyclic) = mset ?remaining"
    using dependency_order_spec [OF order] by (intro set_eq_iff_mset_eq_distinct [THEN iffD1]) auto
  then have "mset (map ?operation (ordered @ cyclic)) = mset (map ?operation ?remaining)"
    by (simp only: mset_map)
  then have "mset (live_ids (map ?operation (ordered @ cyclic))) = mset (live_ids (map ?operation ?remaining))"
    unfolding live_ids_def List.map_filter_def by (simp only: mset_map mset_filter)
  moreover have "map ?operation ?remaining = map pcd_operation (unblocked cs)"
  proof -
    have "map ?operation ?remaining = map pcd_operation (filter (\<lambda>c. \<not> pcd_blocked c) (map ((!) cs) [0..<length cs]))"
      by (simp add: filter_map comp_def)
    then show ?thesis by (simp add: unblocked_def map_nth)
  qed
  ultimately show ?thesis by simp
qed

lemma live_ids_numbered:
  "length is = length ops \<Longrightarrow>
     live_ids (map2 (\<lambda>i operation. operation\<lparr>xop_sequence := of_nat i\<rparr>) is ops) = live_ids ops"
  by (induction "is" ops rule: list_induct2) simp_all

lemma live_ids_blocked:
  "\<forall>operation \<in> set ops. xop_status operation \<in> {Op_Blocked, Op_Stale} \<Longrightarrow> live_ids ops = []"
  by (induction ops) auto

lemma planned_statuses:
  assumes "plan_candidates L env P x root_path volume proposal w = (Inr cs, w')" "c \<in> set cs"
  shows "pcd_blocked c \<Longrightarrow> xop_status (pcd_operation c) \<in> {Op_Blocked, Op_Stale}"
    and "\<not> pcd_blocked c \<Longrightarrow> xop_status (pcd_operation c) = Op_PreflightOk"
proof -
  from assms(1) obtain pre where
    pre: "list_all2 (preflighted L P x volume) (filter (eligible L) (op_operations proposal)) pre"
    and later: "list_all2 (still_planned (candidate_ids pre)) pre cs"
    by (rule plan_candidates_stages)
  obtain p c0 where "preflighted L P x volume p c0" "still_planned (candidate_ids pre) c0 c"
    by (rule planned_candidate_origin [OF pre later assms(2)])
  then show "pcd_blocked c \<Longrightarrow> xop_status (pcd_operation c) \<in> {Op_Blocked, Op_Stale}"
    and "\<not> pcd_blocked c \<Longrightarrow> xop_status (pcd_operation c) = Op_PreflightOk"
    by (auto simp: preflighted_def still_planned_def split: if_splits)
qed

lemma planned_proposal_ids:
  assumes "plan_candidates L env P x root_path volume proposal w = (Inr cs, w')"
  shows "map (xop_proposal_operation_id \<circ> pcd_operation) cs
    = map (Some \<circ> pop_id) (filter (eligible L) (op_operations proposal))"
proof -
  from assms obtain pre where
    pre: "list_all2 (preflighted L P x volume) (filter (eligible L) (op_operations proposal)) pre"
    and later: "list_all2 (still_planned (candidate_ids pre)) pre cs"
    by (rule plan_candidates_stages)
  have "map (xop_proposal_operation_id \<circ> pcd_operation) pre
      = map (Some \<circ> pop_id) (filter (eligible L) (op_operations proposal))"
    using pre by (induction rule: list_all2_induct) (simp_all add: preflighted_def)
  moreover have "map (xop_proposal_operation_id \<circ> pcd_operation) cs
      = map (xop_proposal_operation_id \<circ> pcd_operation) pre"
    using later by (induction rule: list_all2_induct) (simp_all add: still_planned_def)
  ultimately show ?thesis by simp
qed

lemma plan_operations_ids:
  assumes "plan_candidates L env P x root_path volume proposal w = (Inr cs, w1)"
    and "plan_operations n L env P x root_path cs w2 = (Inr (operations, k), w3)"
  shows "executable_operation_ids operations = approved_ids_of cs"
    and "length (approved_ids_of cs) = length (unblocked cs)"
proof -
  from assms(2) obtain executable staged directories removals unnumbered v1 v2 v3 user where
    order: "order_operations L env P root_path x cs w2 = (Inr (executable, staged), v1)"
    and directories: "plan_directories L env P x root_path (user @ staged) user v1 = (Inr (directories, k), v2)"
    and removals: "plan_source_directory_cleanup n env x root_path executable user v2 = (Inr removals, v3)"
    and unnumbered: "unnumbered = directories @ executable @ removals @ map pcd_operation (filter pcd_blocked cs)"
    and numbered: "number_operations unnumbered = Inr operations"
    by (rule plan_operations_parts)
  obtain rs v where "remove_operations env x rs v = (Inr removals, v3)"
    by (rule plan_source_directory_cleanup_removals [OF removals])
  note plain = plan_directories_plain [OF directories] remove_operations_plain [OF this, THEN conjunct1]
  have blocked: "live_ids (map pcd_operation (filter pcd_blocked cs)) = []"
    using planned_statuses(1) [OF assms(1)] by (intro live_ids_blocked) auto
  have "live_ids operations = live_ids unnumbered"
    using numbered by (auto simp: number_operations_def live_ids_numbered split: if_splits)
  then have "mset (live_ids operations) = mset (live_ids (map pcd_operation (unblocked cs)))"
    using order_operations_ids [OF order] plain blocked by (simp add: unnumbered live_ids_unapproved)
  moreover have unblocked: "live_ids (map pcd_operation (unblocked cs))
      = List.map_filter (xop_proposal_operation_id \<circ> pcd_operation) (unblocked cs)"
  proof -
    have "\<forall>c \<in> set (unblocked cs). xop_status (pcd_operation c) = Op_PreflightOk"
      using planned_statuses(2) [OF assms(1)] by (auto simp: unblocked_def)
    then show ?thesis by (induction "unblocked cs" arbitrary: rule: list.induct)
       (auto simp: live_ids_def List.map_filter_def comp_def filter_map)
  qed
  ultimately show "executable_operation_ids operations = approved_ids_of cs"
    unfolding executable_operation_ids_def approved_ids_of_def live_ids_def
    by (simp only: sort_eq_iff_mset)
  have "\<forall>c \<in> set (unblocked cs). xop_proposal_operation_id (pcd_operation c) \<noteq> None"
  proof
    fix c assume "c \<in> set (unblocked cs)"
    then have "(xop_proposal_operation_id \<circ> pcd_operation) c
        \<in> set (map (xop_proposal_operation_id \<circ> pcd_operation) cs)"
      by (auto simp: unblocked_def)
    then show "xop_proposal_operation_id (pcd_operation c) \<noteq> None"
      unfolding planned_proposal_ids [OF assms(1)] by auto
  qed
  then have "filter (\<lambda>c. xop_proposal_operation_id (pcd_operation c) \<noteq> None) (unblocked cs) = unblocked cs"
    by simp
  then show "length (approved_ids_of cs) = length (unblocked cs)"
    by (simp add: approved_ids_of_def List.map_filter_def)
qed

lemma distinct_map_filter_option: "distinct (map f xs) \<Longrightarrow> distinct (List.map_filter f xs)"
proof (induction xs)
  case (Cons x xs)
  have "y \<in> set (List.map_filter f xs) \<Longrightarrow> Some y \<in> f ` set xs" for y
    by (auto simp: List.map_filter_def image_iff) (metis option.collapse)
  with Cons show ?case by (cases "f x") (auto simp: map_filter_simps)
qed (simp add: map_filter_simps)

lemma strictly_increasing_iff: "strictly_increasing xs \<longleftrightarrow> sorted_wrt (<) xs"
proof (induction xs)
  case (Cons a xs)
  then show ?case by (cases xs) (auto simp: strictly_increasing_def intro: less_trans)
qed (simp add: strictly_increasing_def)

lemma unsigned_detail_fields:
  assumes "d = unsigned_detail P proposal x plan destination binding cs operations k now hex"
  shows "xd_operations d = operations"
    and "xs_plan_digest_hex (xd_session d) = hex"
    and "xs_id (xd_session d) = x"
    and "xs_plan_id (xd_session d) = plan"
    and "xs_proposal_id (xd_session d) = op_id proposal"
    and "xs_proposal_revision_id (xd_session d) = op_revision_id proposal"
    and "xs_proposal_revision (xd_session d) = op_revision proposal"
    and "xs_source_scan_id (xd_session d) = op_source_scan_id proposal"
    and "xs_summary (xd_session d) = execution_summary_of proposal cs (of_nat k)"
    and "aep_digest_hex (xs_approval (xd_session d)) = hex"
    and "aep_material_version (xs_approval (xd_session d)) = EXECUTION_PLAN_MATERIAL_VERSION"
    and "aep_execution_id (xs_approval (xd_session d)) = x"
    and "aep_plan_id (xs_approval (xd_session d)) = plan"
    and "aep_proposal_id (xs_approval (xd_session d)) = op_id proposal"
    and "aep_proposal_revision_id (xs_approval (xd_session d)) = op_revision_id proposal"
    and "aep_proposal_revision (xs_approval (xd_session d)) = op_revision proposal"
    and "aep_source_snapshot_version (xs_approval (xd_session d)) = op_source_scan_id proposal"
    and "aep_approved_operation_ids (xs_approval (xd_session d)) = approved_ids_of cs"
    and "aep_operation_count (xs_approval (xd_session d)) = of_nat (length (approved_ids_of cs))"
  unfolding assms unsigned_detail_def Let_def by simp_all

lemma freeze_prepared:
  assumes "plan_candidates L env P x root_path volume proposal w = (Inr cs, w1)"
    and "plan_operations n L env P x root_path cs w2 = (Inr (operations, k), w3)"
    and "distinct (map pop_id (op_operations proposal))"
    and "\<And>material. pl_plan_json L material \<noteq> None"
  shows "\<exists>d. freeze_plan L P proposal x plan destination binding cs operations k now = Inr d
    \<and> verify_plan_digest L d = Inr () \<and> xd_operations d = operations
    \<and> aep_approved_operation_ids (xs_approval (xd_session d)) = approved_ids_of cs"
proof -
  let ?ids = "approved_ids_of cs"
  let ?material = "plan_material_of x plan (op_id proposal) (op_revision_id proposal) (op_revision proposal)
    (op_source_scan_id proposal) ?ids (of_nat (length ?ids)) (op_root_id proposal) destination binding operations"
  obtain hex where hex: "execution_plan_digest L ?material = Inr hex"
    using assms(4) [of ?material] by (auto simp: execution_plan_digest_def)
  let ?d = "unsigned_detail P proposal x plan destination binding cs operations k now hex"
  have material: "detail_material ?d = ?material"
    by (simp add: detail_material_def unsigned_detail_def Let_def)
  have "distinct (map (xop_proposal_operation_id \<circ> pcd_operation) cs)"
    unfolding planned_proposal_ids [OF assms(1)]
    using distinct_map_filter [OF assms(3)] by (simp add: distinct_map inj_on_def)
  then have "distinct (map (xop_proposal_operation_id \<circ> pcd_operation) (unblocked cs))"
    by (simp add: unblocked_def distinct_map_filter)
  then have "distinct ?ids"
    by (simp add: approved_ids_of_def distinct_map_filter_option)
  then have increasing: "strictly_increasing ?ids"
    by (simp add: strictly_increasing_iff strict_sorted_iff approved_ids_of_def)
  have "length cs - length (filter pcd_blocked cs) = length (unblocked cs)"
    using sum_length_filter_compl [of pcd_blocked cs] by (simp add: unblocked_def)
  then have count: "xsum_preflight_ok (execution_summary_of proposal cs (of_nat k)) = of_nat (length ?ids)"
    using plan_operations_ids(2) [OF assms(1,2)] by (simp add: execution_summary_of_def Let_def)
  have "verify_plan_digest L ?d = Inr ()"
    using increasing count plan_operations_ids(1) [OF assms(1,2)]
    by (simp add: verify_plan_digest_def material hex unsigned_detail_fields [OF refl])
  then show ?thesis
    by (intro exI [of _ ?d]) (simp add: freeze_plan_def hex Let_def unsigned_detail_fields [OF refl])
qed

text \<open>C39: A plan that was put together always verifies. When the operations of the proposal have
  distinct identifiers and the plan can be written as JSON, freezing the planned operations
  succeeds, and the frozen plan passes the verification that guards every later use: its digest,
  its counts, and the match between the approved identifiers and the operations that run.\<close>
theorem prepared_plans_always_verify:
  assumes "plan_candidates L env P x root_path volume proposal w = (Inr cs, w1)"
    and "plan_operations n L env P x root_path cs w2 = (Inr (operations, k), w3)"
    and "distinct (map pop_id (op_operations proposal))"
    and "\<And>material. pl_plan_json L material \<noteq> None"
  shows "\<exists>d. freeze_plan L P proposal x plan destination binding cs operations k now = Inr d
    \<and> verify_plan_digest L d = Inr () \<and> xd_operations d = operations
    \<and> aep_approved_operation_ids (xs_approval (xd_session d)) = approved_ids_of cs"
  using assms by (rule freeze_prepared)

section \<open>What the digest binds\<close>

definition plan_json_injective :: "'a planning_libs_scheme \<Rightarrow> bool" where
  "plan_json_injective L \<longleftrightarrow>
     (\<forall>m m' b. pl_plan_json L m = Some b \<and> pl_plan_json L m' = Some b \<longrightarrow> m = m')"

lemma verify_plan_digest_Inr:
  "verify_plan_digest L d = Inr () \<Longrightarrow>
     execution_plan_digest L (detail_material d) = Inr (xs_plan_digest_hex (xd_session d))
     \<and> executable_operation_ids (xd_operations d) = aep_approved_operation_ids (xs_approval (xd_session d))"
  by (auto simp: verify_plan_digest_def try_bind_Inr Let_def split: if_splits)

lemma verified_operation_in_digest:
  assumes "verify_plan_digest L d = Inr ()" "operation \<in> set (xd_operations d)"
    and "xop_status operation \<noteq> Op_Blocked" "xop_status operation \<noteq> Op_Stale"
  shows "canonical_operation_of operation \<in> set (pmt_operations (detail_material d))"
proof -
  have "i \<in> set (executable_operation_ids (xd_operations d))"
    if "xop_proposal_operation_id operation = Some i" for i
    using assms(2-4) that unfolding executable_operation_ids_def set_sort
    by (auto simp: List.map_filter_def image_iff intro!: bexI [of _ operation])
  then have "in_plan_digest (aep_approved_operation_ids (xs_approval (xd_session d))) operation"
    using verify_plan_digest_Inr [OF assms(1)] by (auto simp: in_plan_digest_def split: option.splits)
  with assms(2) show ?thesis by (auto simp: detail_material_def plan_material_of_def Let_def)
qed

text \<open>C6: The digest of a verified plan determines what it does. Two plans that verify and carry the
  same digest have the same material, that is the same proposal, root, policy, approved
  identifiers and operations, unless the hash collides on their encodings, when
  the JSON writer writes different materials differently; in particular every
  operation of the one that is to run is, up to its progress fields, an operation of the other.\<close>
theorem verified_plans_are_bound_by_their_digest:
  assumes "plan_json_injective L"
    and "verify_plan_digest L d = Inr ()" and "verify_plan_digest L d' = Inr ()"
    and "xs_plan_digest_hex (xd_session d) = xs_plan_digest_hex (xd_session d')"
    and "\<And>m m'. pl_plan_json L (detail_material d) = Some m \<Longrightarrow> pl_plan_json L (detail_material d') = Some m'
      \<Longrightarrow> \<not> collide (blake3 L) m m'"
  shows "detail_material d = detail_material d'
    \<and> (\<forall>operation \<in> set (xd_operations d). xop_status operation \<notin> {Op_Blocked, Op_Stale}
         \<longrightarrow> canonical_operation_of operation \<in> canonical_operation_of ` set (xd_operations d'))"
proof -
  obtain m m' where m: "pl_plan_json L (detail_material d) = Some m"
      "pl_plan_json L (detail_material d') = Some m'"
    and "encode_digest (blake3 L m) = encode_digest (blake3 L m')"
    using verify_plan_digest_Inr [OF assms(2)] verify_plan_digest_Inr [OF assms(3)] assms(4)
    by (auto simp: execution_plan_digest_def try_bind_Inr ok_or_Inr)
  then have "blake3 L m = blake3 L m'" by (simp only: encode_digest_inj)
  with assms(5) [OF m] have "m = m'" by (auto simp: collide_def)
  with m assms(1) have same: "detail_material d = detail_material d'" by (auto simp: plan_json_injective_def)
  have "set (pmt_operations (detail_material d')) \<subseteq> canonical_operation_of ` set (xd_operations d')"
    by (auto simp: detail_material_def plan_material_of_def Let_def)
  with verified_operation_in_digest [OF assms(2)] same show ?thesis by auto
qed

end
