(* ===== verification/Execution_Cleanup.thy ===== *)
theory Execution_Cleanup
  imports Execution_Plan_Properties
begin

text \<open>
  The removal of emptied source directories in a plan: the walk over the source directories reads
  only and returns, and what it collects is emptied by the plan.
\<close>

section \<open>Removing source directories\<close>

definition planning_steady :: "'w planning_env \<Rightarrow> bool" where
  "planning_steady env \<longleftrightarrow> steady (pe_os env) \<and> (\<forall>p w. snd (pe_read_dir env p w) = w)"

definition entries_at :: "'w planning_env \<Rightarrow> 'w \<Rightarrow> path \<Rightarrow> io_error + (io_error + byte list) list" where
  "entries_at env w p = fst (pe_read_dir env p w)"

definition listing :: "'w planning_env \<Rightarrow> 'w \<Rightarrow> path \<Rightarrow> io_error + byte list list" where
  "listing env w p = (case entries_at env w p of Inl e \<Rightarrow> Inl e | Inr es \<Rightarrow> all_entries es)"

text \<open>The path of a directory entry below the root, as the plan writes it.\<close>

definition child_relative :: "path \<Rightarrow> path \<Rightarrow> ustring option" where
  "child_relative root_path p =
     map_option (\<lambda>q. normalize_relative_string (to_string_lossy q)) (path_strip_prefix p root_path)"

text \<open>An entry of a directory is a planned file, or a directory among those found.\<close>

definition planned_entry ::
  "'w planning_env \<Rightarrow> path \<Rightarrow> ustring set \<Rightarrow> 'w \<Rightarrow> ustring set \<Rightarrow> path \<Rightarrow> bool" where
  "planned_entry env root_path planned w found p \<longleftrightarrow>
     (\<exists>child. child_relative root_path p = Some child
        \<and> (entry_at (pe_os env) w p = Inr EntryFile \<and> child \<in> planned
           \<or> entry_at (pe_os env) w p = Inr EntryDirectory \<and> child \<in> found))"

text \<open>
  An emptied directory is a real directory that holds only planned entries, and nothing is written
  into it: no destination of the plan is the directory or lies below it.
\<close>

definition written_into :: "ustring list \<Rightarrow> ustring \<Rightarrow> bool" where
  "written_into destinations directory \<longleftrightarrow>
     (\<exists>destination \<in> set destinations.
        destination = directory \<or> starts_with (directory @ [47]) destination)"

definition emptied_directory ::
  "'w planning_env \<Rightarrow> path \<Rightarrow> ustring set \<Rightarrow> ustring list \<Rightarrow> 'w \<Rightarrow> ustring set \<Rightarrow> ustring \<Rightarrow> bool" where
  "emptied_directory env root_path planned destinations w found directory \<longleftrightarrow>
     \<not> written_into destinations directory
     \<and> (\<exists>relative names. relative_path directory = Inr relative
        \<and> entry_at (pe_os env) w (path_join root_path relative) = Inr EntryDirectory
        \<and> listing env w (path_join root_path relative) = Inr names
        \<and> (\<forall>name \<in> set names.
             planned_entry env root_path planned w found (path_join (path_join root_path relative) name)))"

lemma planned_entry_mono:
  "planned_entry env root_path planned w found p \<Longrightarrow> found \<subseteq> found'
    \<Longrightarrow> planned_entry env root_path planned w found' p"
  by (auto simp: planned_entry_def)

lemma emptied_directory_mono:
  "emptied_directory env root_path planned destinations w found d \<Longrightarrow> found \<subseteq> found'
    \<Longrightarrow> emptied_directory env root_path planned destinations w found' d"
  unfolding emptied_directory_def by (meson planned_entry_mono)

lemma normalize_idem [simp]:
  "normalize_relative_string (normalize_relative_string s) = normalize_relative_string s"
  by (simp add: normalize_relative_string_def replace_char_def comp_def)

lemma planning_reads:
  assumes "planning_steady env"
  shows "pos_metadata (pe_os env) p w = (entry_at (pe_os env) w p, w)"
    and "pe_read_dir env p w = (entries_at env w p, w)"
  using assms steady_reads [of "pe_os env"] by (auto simp: planning_steady_def prod_eq_iff entries_at_def)

abbreviation emptied_all :: "'w planning_env \<Rightarrow> path \<Rightarrow> ustring set \<Rightarrow> ustring list \<Rightarrow> 'w \<Rightarrow> ustring list \<Rightarrow> bool" where
  "emptied_all env root_path planned destinations w new \<equiv>
     \<forall>d \<in> set new. emptied_directory env root_path planned destinations w (set new) d"

lemma emptied_all_append:
  "emptied_all env root_path planned destinations w xs \<Longrightarrow> emptied_all env root_path planned destinations w ys
    \<Longrightarrow> emptied_all env root_path planned destinations w (xs @ ys)"
  by (auto intro: emptied_directory_mono)

text \<open>One successful step into a directory and past one of its entries.\<close>

lemma collect_directory_tree_step:
  assumes steady: "planning_steady env"
    and run: "collect_directory_tree env root_path planned destinations (Suc n) dir removable w
      = (Inr (True, found), w')"
  obtains relative names found' where "\<not> written_into destinations (normalize_relative_string dir)"
    "relative_path (normalize_relative_string dir) = Inr relative"
    "entry_at (pe_os env) w (path_join root_path relative) = Inr EntryDirectory"
    "listing env w (path_join root_path relative) = Inr names"
    "collect_children env root_path planned destinations n (path_join root_path relative) (sort names)
       removable w = (Inr (True, found'), w')"
    "found = found' @ [normalize_relative_string dir]"
proof -
  note reads = planning_reads [OF steady]
  from run have kept: "\<not> written_into destinations (normalize_relative_string dir)"
    by (auto simp: Let_def written_into_def list_ex_iff split: if_splits)
  from run obtain relative where
    relative: "relative_path (normalize_relative_string dir) = Inr relative"
    by (auto simp: Let_def eff_bind_Inr map_err_Inr simp del: eff_bind_eqs split: if_splits)
  let ?absolute = "path_join root_path relative"
  from run relative have dir: "entry_at (pe_os env) w ?absolute = Inr EntryDirectory"
    by (auto simp: Let_def eff_bind_def eff_map_err_def reads map_err_def split: if_splits sum.splits)
  let ?add = "\<lambda>(safe, found). eff_ok
    (if safe then (True, found @ [normalize_relative_string dir]) else (False, found))"
  have "eff_bind (eff_map_err (\<lambda>e. StopError (AppIo e)) (pe_read_dir env ?absolute)) (\<lambda>entries.
      eff_bind (eff_lift (map_err StopError (map_err AppIo (all_entries entries)))) (\<lambda>names.
      eff_bind (collect_children env root_path planned destinations n ?absolute (sort names) removable) ?add)) w
    = (Inr (True, found), w')"
    using run relative dir
    by (simp add: Let_def eff_bind_step [of "eff_map_err _ _"] eff_map_err_def reads split: if_splits)
  then obtain es names where es: "entries_at env w ?absolute = Inr es" "all_entries es = Inr names"
    and children: "eff_bind
        (collect_children env root_path planned destinations n ?absolute (sort names) removable) ?add w
      = (Inr (True, found), w')"
    by (auto simp: eff_bind_Inr [of "eff_map_err _ _"] eff_bind_Inr [of "eff_lift _"] eff_map_err_def reads
        map_err_Inr simp del: eff_bind_eqs)
  from children obtain found' where "collect_children env root_path planned destinations n ?absolute
      (sort names) removable w = (Inr (True, found'), w')" "found = found' @ [normalize_relative_string dir]"
    by (auto simp: eff_bind_Inr split: if_splits)
  moreover have "listing env w ?absolute = Inr names" using es by (simp add: listing_def)
  ultimately show thesis using kept relative dir that by blast
qed

lemma collect_children_step:
  assumes steady: "planning_steady env"
    and run: "collect_children env root_path planned destinations n absolute (name # names) removable w
      = (Inr (True, found), w')"
  obtains child where "child_relative root_path (path_join absolute name) = Some child"
    "entry_at (pe_os env) w (path_join absolute name) = Inr EntryFile" "child \<in> planned"
    "collect_children env root_path planned destinations n absolute names removable w = (Inr (True, found), w')"
  | child found' w1 where "child_relative root_path (path_join absolute name) = Some child"
    "entry_at (pe_os env) w (path_join absolute name) = Inr EntryDirectory"
    "collect_directory_tree env root_path planned destinations n child removable w = (Inr (True, found'), w1)"
    "collect_children env root_path planned destinations n absolute names found' w1 = (Inr (True, found), w')"
proof -
  note reads = planning_reads [OF steady]
  let ?p = "path_join absolute name"
  from run obtain kind where kind: "entry_at (pe_os env) w ?p = Inr kind" "kind \<noteq> EntrySymlink"
    by (auto simp: Let_def eff_bind_def eff_map_err_def reads map_err_def split: if_splits sum.splits)
  with run obtain stripped where stripped: "path_strip_prefix ?p root_path = Some stripped"
    by (cases "path_strip_prefix ?p root_path")
      (auto simp: Let_def eff_bind_def eff_map_err_def reads map_err_def)
  then have child: "child_relative root_path ?p = Some (normalize_relative_string (to_string_lossy stripped))"
    by (simp add: child_relative_def)
  show thesis
  proof (cases kind)
    case EntryFile
    with run kind stripped child show thesis
      by (intro that(1)) (auto simp: Let_def eff_bind_def eff_map_err_def reads split: if_splits)
  next
    case EntryDirectory
    with run kind stripped have "eff_bind
        (collect_directory_tree env root_path planned destinations n
           (normalize_relative_string (to_string_lossy stripped)) removable)
        (\<lambda>(safe, found).
            if safe then collect_children env root_path planned destinations n absolute names found
            else eff_ok (False, found)) w = (Inr (True, found), w')"
      by (simp add: Let_def eff_bind_def eff_map_err_def reads)
    with kind EntryDirectory child show thesis
      by (auto simp: eff_bind_Inr intro: that(2) split: if_splits)
  qed (use run kind stripped in \<open>simp_all add: Let_def eff_bind_def eff_map_err_def reads\<close>)
qed

lemma collected_children:
  assumes "planning_steady env"
    and tree: "\<And>dir removable w found w'.
      collect_directory_tree env root_path planned destinations n dir removable w = (Inr (True, found), w')
      \<Longrightarrow> w' = w \<and> (\<exists>new. found = removable @ new \<and> normalize_relative_string dir \<in> set new
            \<and> emptied_all env root_path planned destinations w new)"
    and "collect_children env root_path planned destinations n absolute names removable w = (Inr (True, found), w')"
  shows "w' = w \<and> (\<exists>new. found = removable @ new \<and> emptied_all env root_path planned destinations w new
    \<and> (\<forall>name \<in> set names. planned_entry env root_path planned w (set new) (path_join absolute name)))"
  using assms(3)
proof (induction names arbitrary: removable w)
  case (Cons name names)
  from assms(1) Cons.prems show ?case
  proof (cases rule: collect_children_step)
    case (1 child)
    from Cons.IH [OF 1(4)] 1(1-3) show ?thesis by (auto simp: planned_entry_def)
  next
    case (2 child found1 w1)
    from tree [OF 2(3)] obtain new1 where w1: "w1 = w" "found1 = removable @ new1"
        "normalize_relative_string child \<in> set new1" "emptied_all env root_path planned destinations w new1" by blast
    from Cons.IH [OF 2(4)] obtain new2 where new2: "w' = w1" "found = found1 @ new2"
        "emptied_all env root_path planned destinations w1 new2"
        "\<forall>name \<in> set names. planned_entry env root_path planned w1 (set new2) (path_join absolute name)" by blast
    have "normalize_relative_string child = child"
      using 2(1) by (auto simp: child_relative_def)
    then have "planned_entry env root_path planned w (set (new1 @ new2)) (path_join absolute name)"
      using 2(1,2) w1(3) by (auto simp: planned_entry_def)
    moreover have "planned_entry env root_path planned w (set (new1 @ new2)) (path_join absolute name')"
      if "name' \<in> set names" for name'
      by (rule planned_entry_mono [of _ _ _ _ "set new2"]) (use new2(4) that w1(1) in auto)
    moreover have "emptied_all env root_path planned destinations w (new1 @ new2)"
      by (rule emptied_all_append) (use w1(1,4) new2(3) in auto)
    ultimately show ?thesis using w1 new2 by (intro conjI exI [of _ "new1 @ new2"]) auto
  qed
qed simp

lemma collected_directories:
  assumes "planning_steady env"
    and "collect_directory_tree env root_path planned destinations n dir removable w = (Inr (True, found), w')"
  shows "w' = w \<and> (\<exists>new. found = removable @ new \<and> normalize_relative_string dir \<in> set new
    \<and> emptied_all env root_path planned destinations w new)"
  using assms(2)
proof (induction n arbitrary: dir removable w found w')
  case (Suc n)
  let ?directory = "normalize_relative_string dir"
  from assms(1) Suc.prems show ?case
  proof (cases rule: collect_directory_tree_step)
    case (1 relative names found')
    from collected_children [OF assms(1) Suc.IH 1(5)] obtain new where new: "w' = w"
        "found' = removable @ new" "emptied_all env root_path planned destinations w new"
        "\<forall>name \<in> set names. planned_entry env root_path planned w (set new)
           (path_join (path_join root_path relative) name)" by auto
    have "set new \<subseteq> set (new @ [?directory])" by auto
    note grown = planned_entry_mono [OF _ this] emptied_directory_mono [OF _ this]
    have "\<forall>name \<in> set names. planned_entry env root_path planned w (set (new @ [?directory]))
       (path_join (path_join root_path relative) name)"
      by (intro ballI grown(1)) (use new(4) in auto)
    then have "emptied_directory env root_path planned destinations w (set (new @ [?directory])) ?directory"
      unfolding emptied_directory_def using 1(1-4) by blast
    moreover have "emptied_directory env root_path planned destinations w (set (new @ [?directory])) d" if "d \<in> set new" for d
      by (rule grown(2)) (use new(3) that in auto)
    ultimately have "emptied_all env root_path planned destinations w (new @ [?directory])" by auto
    with 1(6) new(1,2) show ?thesis by (intro conjI exI [of _ "new @ [?directory]"]) auto
  qed
qed simp

text \<open>The walk reads only.\<close>

definition reads_only :: "('w, 'e, 'a) eff \<Rightarrow> bool" where
  "reads_only m \<longleftrightarrow> (\<forall>w. snd (m w) = w)"

lemma reads_only_rules [intro]:
  "reads_only (eff_ok x)" "reads_only (eff_err e)" "reads_only (eff_lift r)"
  "reads_only m \<Longrightarrow> reads_only (eff_map_err f m)"
  "reads_only m \<Longrightarrow> (\<And>x. reads_only (k x)) \<Longrightarrow> reads_only (eff_bind m k)"
  by (auto simp: reads_only_def eff_bind_def eff_map_err_def split: prod.splits sum.splits)
    (metis snd_conv)+

lemma steady_reads_only:
  assumes "planning_steady env"
  shows "reads_only (pos_metadata (pe_os env) p)" and "reads_only (pe_read_dir env p)"
  using planning_reads [OF assms] by (auto simp: reads_only_def)

lemma collect_children_reads_only:
  assumes "planning_steady env"
    and "\<And>dir removable. reads_only (collect_directory_tree env root_path planned destinations n dir removable)"
  shows "reads_only (collect_children env root_path planned destinations n absolute names removable)"
  by (induction names arbitrary: removable)
    (auto simp: Let_def intro!: reads_only_rules steady_reads_only assms split: prod.splits)

lemma collect_directory_tree_reads_only:
  assumes "planning_steady env"
  shows "reads_only (collect_directory_tree env root_path planned destinations n dir removable)"
  by (induction n arbitrary: dir removable)
    (auto simp: Let_def intro!: reads_only_rules steady_reads_only collect_children_reads_only assms split: prod.splits)

lemma collect_top_levels_emptied:
  assumes "planning_steady env"
    and "collect_top_levels env root_path planned destinations n levels removable w = (Inr found, w')"
    and "emptied_all env root_path planned destinations w removable"
  shows "emptied_all env root_path planned destinations w found"
  using assms(2,3)
proof (induction levels arbitrary: removable)
  case (Cons level levels)
  obtain r where walk: "collect_directory_tree env root_path planned destinations n level [] w = (r, w)"
    using collect_directory_tree_reads_only [OF assms(1)] by (metis prod.collapse reads_only_def)
  show ?case
  proof (cases r)
    case (Inl stop)
    then show ?thesis using Cons walk by (cases stop) auto
  next
    case (Inr result)
    obtain safe discovered where "result = (safe, discovered)" by fastforce
    then show ?thesis
      using Cons walk Inr collected_directories [OF assms(1), of root_path planned destinations n level "[]" w discovered w]
        emptied_all_append [of removable env root_path planned destinations w discovered]
      by (cases safe) auto
  qed
qed simp

lemma sorted_wrt_remdups_adj: "sorted_wrt R xs \<Longrightarrow> sorted_wrt R (remdups_adj xs)"
  by (induction xs rule: remdups_adj.induct) auto

abbreviation depth_of :: "ustring \<Rightarrow> nat" where
  "depth_of relative \<equiv> length (split_on_slash relative)"

text \<open>C5: A plan removes only source directories that it empties itself and puts nothing into. On a
  file system that reading does not change, every directory the cleanup removes is a real
  directory, none of the destinations it is given is that directory or lies below it, and each of
  its entries is a regular file that the plan moves away or a directory that the plan removes too;
  deeper directories are removed first.\<close>
theorem cleanup_removes_only_emptied_directories:
  assumes "planning_steady env"
    and "plan_source_directory_cleanup n env x root_path executable destinations w = (Inr operations, w')"
  shows "\<exists>found. map xop_source_relative_path operations = map Some found
    \<and> (\<forall>d \<in> set found.
         emptied_directory env root_path (set (planned_sources executable))
           (map normalize_relative_string destinations) w (set found) d)
    \<and> sorted_wrt (\<lambda>a b. depth_of b \<le> depth_of a) found"
proof (cases "planned_sources executable = []")
  case True
  with assms(2) show ?thesis by (intro exI [of _ "[]"]) (simp add: plan_source_directory_cleanup_def)
next
  case False
  with assms(2) obtain removable w1 where
    walk: "collect_top_levels env root_path (set (planned_sources executable))
        (map normalize_relative_string destinations) n (cleanup_top_levels (planned_sources executable)) [] w
      = (Inr removable, w1)"
    and ops: "remove_operations env x (remdups_adj (sort_key removal_order removable)) w1 = (Inr operations, w')"
    by (auto simp: plan_source_directory_cleanup_def Let_def eff_bind_Inr simp del: eff_bind_eqs)
  let ?found = "remdups_adj (sort_key removal_order removable)"
  have "sorted (map removal_order (sort_key removal_order removable))" by (rule sorted_sort_key)
  then have "sorted_wrt (\<lambda>a b. removal_order a \<le> removal_order b) ?found"
    unfolding sorted_map by (rule sorted_wrt_remdups_adj)
  then have "sorted_wrt (\<lambda>a b. depth_of b \<le> depth_of a) ?found"
    by (rule sorted_wrt_mono_rel [rotated]) (auto simp only: removal_order_def less_eq_prod_def fst_conv)
  moreover have "emptied_all env root_path (set (planned_sources executable))
      (map normalize_relative_string destinations) w ?found"
    using collect_top_levels_emptied [OF assms(1) walk] by simp
  ultimately show ?thesis
    using remove_operations_plain [OF ops] by (intro exI [of _ ?found]) simp
qed

text \<open>
  The review folder the application creates starts with a capital A with a grave accent. The list of
  protected folders holds its lower-case form, and \<^verbatim>\<open>to_ascii_lowercase\<close> leaves the
  capital letter alone, so the folder the application itself creates is not protected.
\<close>

lemma review_folder_is_not_protected:
  "source_cleanup_top_level_is_protected [224, 32, 118, 233, 114, 105, 102, 105, 101, 114]
   \<and> \<not> source_cleanup_top_level_is_protected [192, 32, 118, 233, 114, 105, 102, 105, 101, 114]"
  by (simp add: source_cleanup_top_level_is_protected_def protected_top_levels_def starts_with_iff
      ascii_lower_def lower_char_def is_ascii_upper_def lit_simps)

section \<open>The walk returns\<close>

text \<open>A rank that decreases from each directory to its subdirectories.\<close>

definition depth_bounded :: "'w planning_env \<Rightarrow> path \<Rightarrow> 'w \<Rightarrow> (ustring \<Rightarrow> nat) \<Rightarrow> bool" where
  "depth_bounded env root_path w rank \<longleftrightarrow>
     (\<forall>dir relative names name child.
        relative_path dir = Inr relative
        \<and> entry_at (pe_os env) w (path_join root_path relative) = Inr EntryDirectory
        \<and> listing env w (path_join root_path relative) = Inr names \<and> name \<in> set names
        \<and> entry_at (pe_os env) w (path_join (path_join root_path relative) name) = Inr EntryDirectory
        \<and> child_relative root_path (path_join (path_join root_path relative) name) = Some child
        \<longrightarrow> rank child < rank dir)"

definition returns :: "('w, planning_stop, 'a) eff \<Rightarrow> 'w \<Rightarrow> bool" where
  "returns m w \<longleftrightarrow> fst (m w) \<noteq> Inl StopFuel"

lemma returns_bind:
  "returns m w \<Longrightarrow> (\<And>x w'. m w = (Inr x, w') \<Longrightarrow> returns (k x) w') \<Longrightarrow> returns (eff_bind m k) w"
  by (cases "m w") (auto simp: returns_def eff_bind_def split: sum.splits)

lemma returns_simps [simp]:
  "returns (eff_ok x) w" "returns (try_app f m) w" "returns (try_pure r) w"
  by (auto simp: returns_def eff_map_err_def map_err_def split: prod.splits sum.splits)

lemma collect_children_returns:
  assumes "planning_steady env"
    and "\<And>name child removable. name \<in> set names
      \<Longrightarrow> entry_at (pe_os env) w (path_join absolute name) = Inr EntryDirectory
      \<Longrightarrow> child_relative root_path (path_join absolute name) = Some child
      \<Longrightarrow> returns (collect_directory_tree env root_path planned destinations n child removable) w"
  shows "returns (collect_children env root_path planned destinations n absolute names removable) w"
  using assms(2)
proof (induction names arbitrary: removable)
  case (Cons name names)
  note reads = planning_reads [OF assms(1)]
  have rest: "returns (collect_children env root_path planned destinations n absolute names found) w" for found
    by (rule Cons.IH) (use Cons.prems in auto)
  have walk: "returns (eff_bind (collect_directory_tree env root_path planned destinations n
        (normalize_relative_string (to_string_lossy stripped)) removable)
      (\<lambda>(safe, found).
         if safe then collect_children env root_path planned destinations n absolute names found
         else eff_ok (False, found))) w"
    if "entry_at (pe_os env) w (path_join absolute name) = Inr EntryDirectory"
      "path_strip_prefix (path_join absolute name) root_path = Some stripped" for stripped
  proof (rule returns_bind)
    show "returns (collect_directory_tree env root_path planned destinations n
        (normalize_relative_string (to_string_lossy stripped)) removable) w"
      by (rule Cons.prems [of name]) (use that in \<open>auto simp: child_relative_def\<close>)
  next
    fix x w' assume "collect_directory_tree env root_path planned destinations n
        (normalize_relative_string (to_string_lossy stripped)) removable w = (Inr x, w')"
    then have "w' = w"
      using collect_directory_tree_reads_only [OF assms(1), of root_path planned destinations n
          "normalize_relative_string (to_string_lossy stripped)" removable]
      by (auto simp: reads_only_def) (metis snd_conv)
    then show "returns (case x of (safe, found) \<Rightarrow>
         if safe then collect_children env root_path planned destinations n absolute names found
         else eff_ok (False, found)) w'"
      using rest by (cases x) auto
  qed
  show ?case
    using walk rest
    by (auto simp: Let_def eff_map_err_def reads ok_or_Inr map_err_Inr simp del: returns_simps(2)
        intro!: returns_bind split: sum.splits)
      (auto simp: returns_def eff_map_err_def map_err_def reads split: sum.splits)
qed simp

lemma remove_operations_returns: "returns (remove_operations env x rs) w"
  by (induction rs arbitrary: w)
    (auto intro!: returns_bind, auto simp: returns_def draw_id_def split: prod.splits)

lemma split_on_slash_subset: "set (hd (split_on_slash s)) \<subseteq> set s"
  by (induction s) (auto split: list.splits)

lemma collect_directory_tree_returns:
  assumes "planning_steady env" "depth_bounded env root_path w rank"
    and "rank (normalize_relative_string dir) < n"
  shows "returns (collect_directory_tree env root_path planned destinations n dir removable) w"
  using assms(3)
proof (induction n arbitrary: dir removable)
  case (Suc n)
  note reads = planning_reads [OF assms(1)]
  let ?directory = "normalize_relative_string dir"
  have children: "returns (collect_children env root_path planned destinations n
      (path_join root_path relative) (sort names) removable) w"
    if dir: "relative_path ?directory = Inr relative"
      and kind: "entry_at (pe_os env) w (path_join root_path relative) = Inr EntryDirectory"
      and names: "listing env w (path_join root_path relative) = Inr names" for relative names
  proof (rule collect_children_returns [OF assms(1)])
      fix name child removable
      assume "name \<in> set (sort names)"
        "entry_at (pe_os env) w (path_join (path_join root_path relative) name) = Inr EntryDirectory"
        and child: "child_relative root_path (path_join (path_join root_path relative) name) = Some child"
      then have "rank child < rank ?directory"
        using assms(2) dir kind names by (auto simp: depth_bounded_def)
      moreover have "normalize_relative_string child = child"
        using child by (auto simp: child_relative_def)
      ultimately show "returns (collect_directory_tree env root_path planned destinations n child removable) w"
        using Suc.prems by (intro Suc.IH) simp
  qed
  show ?case
    using children
    by (auto simp: Let_def eff_map_err_def reads listing_def map_err_Inr simp del: returns_simps(2)
        intro!: returns_bind split: sum.splits prod.splits)
      (auto simp: returns_def eff_map_err_def map_err_def reads split: sum.splits)
qed simp

lemma ranked_walk_returns:
  assumes "planning_steady env" "depth_bounded env root_path w rank"
    and "\<And>level. level \<in> set (cleanup_top_levels (planned_sources executable)) \<Longrightarrow> rank level < n"
  shows "fst (plan_source_directory_cleanup n env x root_path executable destinations w) \<noteq> Inl StopFuel"
proof -
  have levels: "returns (collect_top_levels env root_path planned ds n levels removable) w"
    if "\<And>level. level \<in> set levels \<Longrightarrow> rank (normalize_relative_string level) < n" for planned ds levels removable
    using that
  proof (induction levels arbitrary: removable)
    case (Cons level levels)
    obtain r where walk: "collect_directory_tree env root_path planned ds n level [] w = (r, w)"
      using collect_directory_tree_reads_only [OF assms(1)] by (metis prod.collapse reads_only_def)
    have "r \<noteq> Inl StopFuel"
      using collect_directory_tree_returns [OF assms(1,2), of level n planned ds "[]"] Cons.prems walk
      by (auto simp: returns_def)
    then show ?case
      using Cons walk by (auto simp: returns_def split: sum.splits planning_stop.splits)
  qed simp
  have "normalize_relative_string level = level"
    if "level \<in> set (cleanup_top_levels (planned_sources executable))" for level
  proof -
    from that obtain source where "source \<in> set (planned_sources executable)"
        "level = hd (split_on_slash source)" by (auto simp: cleanup_top_levels_def)
    moreover have "92 \<notin> set (normalize_relative_string t)" for t
      by (simp add: normalize_relative_string_def replace_char_set)
    ultimately have "92 \<notin> set source"
      by (auto simp: planned_sources_def List.map_filter_def planned_source_def split: if_splits)
    then have "92 \<notin> set level" using \<open>level = _\<close> split_on_slash_subset by auto
    then show ?thesis by (auto simp: normalize_relative_string_def replace_char_def intro: map_idI)
  qed
  with assms(3) have bound: "rank (normalize_relative_string level) < n"
    if "level \<in> set (cleanup_top_levels (planned_sources executable))" for level
    using that by simp
  have "returns (plan_source_directory_cleanup n env x root_path executable destinations) w"
    unfolding plan_source_directory_cleanup_def Let_def
    by (auto intro!: returns_bind levels bound remove_operations_returns)
  then show ?thesis by (simp add: returns_def)
qed

section \<open>Directories of bounded depth\<close>

text \<open>
  A child in the walk is one component deeper than its directory, whatever characters of its
  name are replaced when the name is read as text.
\<close>

lemma length_split_on_slash: "length (split_on_slash s) = Suc (count_list s 47)"
  by (induction s) (auto split: list.splits)

lemma split_on_slash_no_slash: "t \<in> set (split_on_slash s) \<Longrightarrow> 47 \<notin> set t"
  by (induction s arbitrary: t) (auto split: if_splits list.splits)

lemma split_on_slash_chars: "t \<in> set (split_on_slash s) \<Longrightarrow> set t \<subseteq> set s"
  by (induction s arbitrary: t) (fastforce split: if_splits list.splits)+

lemma normalize_slashes: "count_list s 47 \<le> count_list (normalize_relative_string s) 47"
  by (induction s) (auto simp: normalize_relative_string_def replace_char_def)

lemma join_slash_slashes: "length ss \<le> Suc (count_list (join_slash ss) 47)"
  by (induction ss rule: join_slash.induct) auto

lemma second_byte_range: "second_byte_ok a b \<Longrightarrow> 0xC2 \<le> a \<and> a \<le> 0xF4 \<and> 0x80 \<le> b \<and> b < 0xC0"
  by (auto simp: second_byte_ok_def split: if_splits)

lemma utf8_next_ascii: "a < 0x80 \<Longrightarrow> utf8_next (a # xs) = (a, 1)"
  by simp

lemma utf8_next_takes_high:
  assumes "0x80 \<le> a" "c \<in> set (take (snd (utf8_next (a # xs))) (a # xs))"
  shows "0x80 \<le> c"
  using assms
  by (cases xs; cases "tl xs"; cases "tl (tl xs)")
    (auto dest: second_byte_range split: if_splits)

lemma utf8_lossy_slashes: "count_list bs 47 \<le> count_list (utf8_lossy bs) 47"
proof (induction bs rule: utf8_lossy.induct)
  case (2 a xs)
  let ?k = "snd (utf8_next (a # xs))"
  show ?case
  proof (cases "a < 0x80")
    case True
    with 2 show ?thesis by (auto simp add: utf8_next_ascii simp del: utf8_next.simps)
  next
    case False
    then have "47 \<notin> set (take ?k (a # xs))" using utf8_next_takes_high [of a 47 xs] by auto
    then have "count_list (take ?k (a # xs)) 47 = 0" by (simp only: count_list_0_iff not_False_eq_True)
    moreover have "count_list (a # xs) 47
        = count_list (take ?k (a # xs)) 47 + count_list (drop ?k (a # xs)) 47"
      by (metis append_take_drop_id count_list_append)
    ultimately show ?thesis using 2 by (simp del: utf8_next.simps count_list.simps(2) take.simps drop.simps) simp
  qed
qed simp

lemma two_byte_scalar: "second_byte_ok a b \<Longrightarrow> a < 0xE0 \<Longrightarrow> is_scalar ((a - 0xC0) * 0x40 + (b - 0x80))"
  by (drule second_byte_range) (auto simp: is_scalar_def)

lemma three_byte_scalar:
  assumes "second_byte_ok a b" "0xE0 \<le> a" "a < 0xF0" "0x80 \<le> c" "c < 0xC0"
  shows "is_scalar ((a - 0xE0) * 0x1000 + (b - 0x80) * 0x40 + (c - 0x80))"
proof -
  obtain p q r where p: "a = 0xE0 + p" "b = 0x80 + q" "c = 0x80 + r"
    using assms second_byte_range [OF assms(1)] by (metis le_Suc_ex)
  have "p < 16" "q < 64" "r < 64" "p = 13 \<Longrightarrow> q < 32"
    using assms p second_byte_range [OF assms(1)] by (auto simp: second_byte_ok_def)
  moreover from this have "p < 13 \<or> p = 13 \<and> q < 32 \<or> 14 \<le> p" by linarith
  ultimately show ?thesis by (auto simp: is_scalar_def p)
qed

lemma four_byte_scalar:
  assumes "second_byte_ok a b" "0xF0 \<le> a" "0x80 \<le> c" "c < 0xC0" "0x80 \<le> d" "d < 0xC0"
  shows "is_scalar ((a - 0xF0) * 0x40000 + (b - 0x80) * 0x1000 + (c - 0x80) * 0x40 + (d - 0x80))"
proof -
  obtain p q r t where p: "a = 0xF0 + p" "b = 0x80 + q" "c = 0x80 + r" "d = 0x80 + t"
    using assms second_byte_range [OF assms(1)] by (metis le_Suc_ex)
  have "p \<le> 4" "q < 64" "r < 64" "t < 64" "p = 4 \<Longrightarrow> q < 16" "p = 0 \<Longrightarrow> 16 \<le> q"
    using assms p second_byte_range [OF assms(1)] by (auto simp: second_byte_ok_def)
  moreover from this have "p = 0 \<and> 16 \<le> q \<or> 1 \<le> p \<and> p < 4 \<or> p = 4 \<and> q < 16" by linarith
  ultimately show ?thesis by (auto simp: is_scalar_def p)
qed

lemma replacement_scalar [simp]: "is_scalar 0xFFFD"
  by (simp add: is_scalar_def)

lemma utf8_next_scalar: "is_scalar (fst (utf8_next (a # xs)))"
  by (cases xs; cases "tl xs"; cases "tl (tl xs)")
    (auto simp: two_byte_scalar three_byte_scalar four_byte_scalar simp del: Nat.add_diff_assoc,
      auto simp: is_scalar_def)

lemma utf8_lossy_wf: "wf_text (utf8_lossy bs)"
  by (induction bs rule: utf8_lossy.induct)
    (auto simp: wf_text_def utf8_next_scalar simp del: utf8_next.simps)

text \<open>The components of a path below the root and of the text the walk makes of it.\<close>

lemma segment_bytes_not_dots:
  assumes "wf_text c" "c \<noteq> []" "c \<noteq> [46]" "c \<noteq> [46, 46]"
  shows "utf8_bytes c \<noteq> []" "utf8_bytes c \<noteq> [46]" "utf8_bytes c \<noteq> [46, 46]"
proof -
  show "utf8_bytes c \<noteq> []" using assms(2) by (cases c) (auto simp: utf8_bytes_Cons utf8_char_def)
  show "utf8_bytes c \<noteq> [46]" using utf8_bytes_ascii_inj [OF assms(1), of "[46]"] assms(3) by auto
  show "utf8_bytes c \<noteq> [46, 46]" using utf8_bytes_ascii_inj [OF assms(1), of "[46, 46]"] assms(4) by auto
qed

lemma push_relative_components_length:
  assumes "push_relative_components out cs = Some p"
    and "\<forall>c \<in> set cs. wf_text c \<and> 47 \<notin> set c"
  shows "length (components p) = length (components out) + length cs"
  using assms
proof (induction cs arbitrary: out)
  case (Cons c cs)
  let ?b = "utf8_bytes c"
  have c: "c \<noteq> []" "c \<noteq> [46]" "c \<noteq> [46, 46]" "wf_text c" "47 \<notin> set c"
    using Cons.prems by (auto split: if_splits)
  note b = segment_bytes_not_dots [OF c(4,1,2,3)]
  have slash: "47 \<notin> set ?b" using utf8_bytes_ascii [OF c(4), of 47] c(5) by auto
  then have "components ?b = [Normal ?b]"
    using b by (auto simp: components_def split_slash_no_slash seg_component_def has_root_def split: list.splits)
  moreover have "\<not> has_root ?b" using slash b(1) by (auto simp: has_root_def split: list.splits)
  ultimately have "length (components (path_join out ?b)) = Suc (length (components out))"
    by (simp add: components_join_normal)
  then show ?case using Cons by (auto split: if_splits)
qed simp

lemma relative_path_depth:
  assumes "relative_path s = Inr p" "wf_text s"
  shows "length (components p) = Suc (count_list (normalize_relative_string s) 47)"
proof -
  have "wf_text (normalize_relative_string s)"
    using assms(2) by (auto simp: wf_text_def normalize_relative_string_def replace_char_def list_all_iff is_scalar_def)
  then have segments: "\<forall>c \<in> set (split_on_slash (normalize_relative_string s)). wf_text c \<and> 47 \<notin> set c"
    using split_on_slash_chars split_on_slash_no_slash by (auto simp: wf_text_def list_all_iff)
  have "push_relative_components [] (split_on_slash (normalize_relative_string s)) = Some p"
    using assms(1) by (auto simp: relative_path_def Let_def split: if_splits option.splits)
  from push_relative_components_length [OF this segments] show ?thesis
    by (simp add: length_split_on_slash components_def)
qed

lemma child_relative_depth:
  assumes "all_normal relative" "components name = [Normal bytes]"
    and "child_relative root_path (path_join (path_join root_path relative) name) = Some child"
  shows "wf_text child" "length (components relative) \<le> count_list child 47"
proof -
  have "all_normal name" using assms(2) by (simp add: all_normal_def)
  then have "components (path_join (path_join root_path relative) name)
      = components root_path @ components relative @ components name"
    using assms(1) by (simp add: components_join_all_normal)
  then obtain q where child: "child = normalize_relative_string (to_string_lossy q)"
      "q = join_slash (map component_bytes (components relative @ components name))"
    using assms(3) by (auto simp: child_relative_def path_strip_prefix_def split: if_splits)
  show "wf_text child"
    using utf8_lossy_wf [of "map unat q"] unfolding child(1)
    by (auto simp: to_string_lossy_def wf_text_def normalize_relative_string_def replace_char_def list_all_iff
        is_scalar_def)
  have "Suc (length (components relative)) \<le> Suc (count_list q 47)"
    using join_slash_slashes [of "map component_bytes (components relative @ components name)"]
    by (simp add: child(2) assms(2))
  also have "count_list q 47 = count_list (map unat q) 47"
    by (induction q) (auto simp: word_unat_eq_iff)
  also have "Suc \<dots> \<le> Suc (count_list (to_string_lossy q) 47)"
    using utf8_lossy_slashes by (simp add: to_string_lossy_def)
  also have "\<dots> \<le> Suc (count_list child 47)" using normalize_slashes by (simp add: child(1))
  finally show "length (components relative) \<le> count_list child 47" by simp
qed

text \<open>
  What the walk relies on of the file system: a directory entry has a name of one component, and no
  directory is more than \<open>N\<close> levels below the root.
\<close>

definition names_are_components :: "'w planning_env \<Rightarrow> 'w \<Rightarrow> bool" where
  "names_are_components env w \<longleftrightarrow>
     (\<forall>p names. listing env w p = Inr names
        \<longrightarrow> (\<forall>name \<in> set names. \<exists>bytes. components name = [Normal bytes]))"

definition levels_bounded :: "'w planning_env \<Rightarrow> path \<Rightarrow> 'w \<Rightarrow> nat \<Rightarrow> bool" where
  "levels_bounded env root_path w N \<longleftrightarrow>
     (\<forall>p. all_normal p \<and> entry_at (pe_os env) w (path_join root_path p) = Inr EntryDirectory
        \<longrightarrow> length (components p) \<le> N)"

text \<open>The levels that may be left below a text, when it names a directory.\<close>

definition levels_left :: "'w planning_env \<Rightarrow> path \<Rightarrow> 'w \<Rightarrow> nat \<Rightarrow> ustring \<Rightarrow> nat" where
  "levels_left env root_path w N s =
     (case relative_path s of
        Inl _ \<Rightarrow> 0
      | Inr p \<Rightarrow>
          if entry_at (pe_os env) w (path_join root_path p) = Inr EntryDirectory
          then Suc (N - length (components p)) else 0)"

lemma relative_path_normal: "relative_path s = Inr p \<Longrightarrow> all_normal p"
  by (auto simp: relative_path_def Let_def all_normal_def split: if_splits option.splits)

lemma levels_left_decrease:
  assumes "names_are_components env w" "levels_bounded env root_path w N"
  shows "depth_bounded env root_path w (levels_left env root_path w N)"
  unfolding depth_bounded_def
proof (intro allI impI, elim conjE)
  fix dir relative names name child
  assume dir: "relative_path dir = Inr relative"
    and kind: "entry_at (pe_os env) w (path_join root_path relative) = Inr EntryDirectory"
    and names: "listing env w (path_join root_path relative) = Inr names" "name \<in> set names"
    and child: "child_relative root_path (path_join (path_join root_path relative) name) = Some child"
  note normal = relative_path_normal [OF dir]
  from assms(1) names obtain bytes where "components name = [Normal bytes]"
    unfolding names_are_components_def by blast
  note below = child_relative_depth [OF normal this child]
  have left: "levels_left env root_path w N dir = Suc (N - length (components relative))"
    using dir kind by (simp add: levels_left_def)
  show "levels_left env root_path w N child < levels_left env root_path w N dir"
  proof (cases "levels_left env root_path w N child = 0")
    case False
    then obtain p where p: "relative_path child = Inr p"
        "entry_at (pe_os env) w (path_join root_path p) = Inr EntryDirectory"
      by (auto simp: levels_left_def split: sum.splits if_splits)
    have "normalize_relative_string child = child" using child by (auto simp: child_relative_def)
    then have "length (components relative) < length (components p)"
      using relative_path_depth [OF p(1) below(1)] below(2) by simp
    moreover have "length (components p) \<le> N"
      using assms(2) relative_path_normal [OF p(1)] p(2) by (auto simp: levels_bounded_def)
    ultimately show ?thesis using p left by (simp add: levels_left_def)
  qed (simp add: left)
qed

text \<open>C40: The walk over the source directories comes to an end. On a file system that reading does not
  change, whose directory entries are named by single components and whose directories are at most
  \<^verbatim>\<open>N\<close> levels below the root, planning the removals never runs out of a fuel of more than
  \<^verbatim>\<open>N + 1\<close> units, whatever the operations, the errors of the file system and the characters in
  the names are.\<close>
theorem directory_walk_returns:
  assumes "planning_steady env" "names_are_components env w" "levels_bounded env root_path w N"
    and "N + 1 < n"
  shows "fst (plan_source_directory_cleanup n env x root_path executable destinations w) \<noteq> Inl StopFuel"
proof (rule ranked_walk_returns [OF assms(1) levels_left_decrease [OF assms(2,3)]])
  fix level show "levels_left env root_path w N level < n"
    using assms(4) by (auto simp: levels_left_def split: sum.splits)
qed

end
