(* ===== verification/Execution_Prepare_Properties.thy ===== *)
theory Execution_Prepare_Properties
  imports Execution_Cleanup
begin

text \<open>
  \<^verbatim>\<open>prepare_execution\<close> as a whole: what holds of a plan that it hands to the store.
\<close>

lemma freeze_plan_Inr:
  assumes "freeze_plan L P proposal x plan destination binding cs operations k now = Inr d"
  shows "verify_plan_digest L d = Inr () \<and> (\<exists>hex. d =
    unsigned_detail P proposal x plan destination binding cs operations k now hex)"
  using assms by (auto simp: freeze_plan_def try_bind_Inr Let_def)

lemma unsigned_detail_waits:
  assumes "d = unsigned_detail P proposal x plan destination binding cs operations k now hex"
  shows "xs_status (xd_session d) = St_AwaitingConfirmation"
    and "xs_consent (xd_session d) = consent_pending"
    and "aep_user_confirmed (xs_approval (xd_session d)) = False"
    and "aep_safety_policy (xs_approval (xd_session d)) = binding"
    and "aep_destination_root (xs_approval (xd_session d)) = destination"
  unfolding assms unsigned_detail_def Let_def by simp_all

lemma volume_supported_local: "volume_supported L v = Inr u \<Longrightarrow> vol_local v \<and> \<not> vol_removable v"
  by (auto simp: volume_supported_def split: if_splits)

lemma plan_root_Inr:
  assumes "plan_root L env P proposal w = (Inr (q, v), w')"
  shows "\<exists>root_row w1 w2.
      pe_root_by_id env (op_workspace_id proposal) (op_root_id proposal) w = (Inr root_row, w1)
    \<and> validate_root L (pe_os env) P (rr_absolute_path_native root_row) w1 = (Inr q, w2)
    \<and> pe_inspect_volume env q w2 = (Inr v, w') \<and> volume_supported L v = Inr ()"
  using assms
  by (auto simp: plan_root_def eff_bind_Inr eff_map_err_Inr map_err_Inr simp del: eff_bind_eqs)

lemma approved_proposal_Inr:
  assumes "approved_proposal env gate i revision w = (Inr proposal, w')"
  shows "gate_enabled gate \<and> \<not> pe_journal_locked env w
    \<and> (\<exists>w1. pe_blocking_execution_exists env w = (Inr False, w1)
         \<and> pe_organization_proposal env i w1 = (Inr proposal, w'))
    \<and> op_status proposal = Prop_ApprovedForFutureApply \<and> op_revision proposal = revision"
  using assms
  by (auto simp: approved_proposal_def require_apply_gate_def eff_bind_Inr eff_map_err_Inr
      simp del: eff_bind_eqs split: if_splits)

text \<open>C2: Whatever \<^verbatim>\<open>prepare_execution\<close> hands to the store is a sound plan of an approved proposal that
  nobody has consented to yet. When a call succeeds, the gate was open, the journal unlocked, no
  other execution was in the way, and the proposal that was read had the status approved and the
  requested revision; the stored plan is a plan of that proposal in its root, which the policy
  accepted, on the local fixed volume that was inspected; it verifies, waits for confirmation with
  a pending consent, is bound to the policy in force, names at least one approved operation, and
  every dependency of an operation that runs is at an earlier position, which its sequence number
  tells.\<close>
theorem prepared_executions_are_sound_and_unconfirmed:
  assumes "prepare_execution n L env gate P i revision w = (Inr result, w')"
  shows "gate_enabled gate \<and> \<not> pe_journal_locked env w
    \<and> (\<exists>proposal root_row q volume binding d w1 w2 w3 w4 w5 w6 w7.
           pe_blocking_execution_exists env w = (Inr False, w1)
         \<and> pe_organization_proposal env i w1 = (Inr proposal, w2)
         \<and> op_status proposal = Prop_ApprovedForFutureApply \<and> op_revision proposal = revision
         \<and> pe_root_by_id env (op_workspace_id proposal) (op_root_id proposal) w2 = (Inr root_row, w3)
         \<and> validate_root L (pe_os env) P (rr_absolute_path_native root_row) w3 = (Inr q, w4)
         \<and> pe_inspect_volume env q w4 = (Inr volume, w5)
         \<and> vol_local volume \<and> \<not> vol_removable volume
         \<and> pe_persist_prepared_execution env d w6 = (Inr (), w7)
         \<and> pe_execution_detail env (xs_id (xd_session d)) w7 = (Inr result, w')
         \<and> verify_plan_digest L d = Inr ()
         \<and> xs_proposal_id (xd_session d) = op_id proposal
         \<and> xs_proposal_revision_id (xd_session d) = op_revision_id proposal
         \<and> xs_proposal_revision (xd_session d) = revision
         \<and> xs_status (xd_session d) = St_AwaitingConfirmation
         \<and> xs_consent (xd_session d) = consent_pending
         \<and> \<not> aep_user_confirmed (xs_approval (xd_session d))
         \<and> policy_binding L P = Inr binding
         \<and> aep_safety_policy (xs_approval (xd_session d)) = binding
         \<and> aep_destination_root (xs_approval (xd_session d)) = root_binding_of q volume
         \<and> aep_approved_operation_ids (xs_approval (xd_session d)) \<noteq> []
         \<and> (\<forall>j < length (xd_operations d). unat (xop_sequence (xd_operations d ! j)) = j
              \<and> (xop_status (xd_operations d ! j) \<in> {Op_Blocked, Op_Stale}
                 \<or> (\<forall>e \<in> set (xop_dependencies (xd_operations d ! j)).
                      \<exists>i < j. xop_id (xd_operations d ! i) = e))))"
proof -
  from assms obtain proposal q volume binding x plan cs operations k now d v1 v2 v3 v4 v5 v6 v7 v8 u where
    proposal: "approved_proposal env gate i revision w = (Inr proposal, v1)"
    and place: "plan_root L env P proposal v1 = (Inr (q, volume), v2)"
    and binding: "policy_binding L P = Inr binding"
    and candidates: "plan_candidates L env P x q volume proposal v3 = (Inr cs, v4)"
    and some: "safe_subset_allowed P cs"
    and operations: "plan_operations n L env P x q cs v4 = (Inr (operations, k), v5)"
    and frozen: "freeze_plan L P proposal x plan (root_binding_of q volume) binding cs operations k now = Inr d"
    and stored: "pe_persist_prepared_execution env d v6 = (Inr u, v7)"
    and read: "pe_execution_detail env x v7 = (Inr result, w')"
    by (auto simp: prepare_execution_def eff_bind_Inr simp del: eff_bind_eqs split: if_splits)
      (auto simp: eff_map_err_def map_err_Inr split: prod.splits)
  from freeze_plan_Inr [OF frozen] obtain hex where verified: "verify_plan_digest L d = Inr ()"
      and d: "d = unsigned_detail P proposal x plan (root_binding_of q volume) binding cs operations k now hex"
    by blast
  note fields = unsigned_detail_fields [OF d] unsigned_detail_waits [OF d]
  note proposed = approved_proposal_Inr [OF proposal]
  then obtain u1 where read_proposal: "pe_blocking_execution_exists env w = (Inr False, u1)"
      "pe_organization_proposal env i u1 = (Inr proposal, v1)" by blast
  from plan_root_Inr [OF place] obtain root_row u2 u3 where placed:
      "pe_root_by_id env (op_workspace_id proposal) (op_root_id proposal) v1 = (Inr root_row, u2)"
      "validate_root L (pe_os env) P (rr_absolute_path_native root_row) u2 = (Inr q, u3)"
      "pe_inspect_volume env q u3 = (Inr volume, v2)" "volume_supported L volume = Inr ()" by blast
  have "approved_ids_of cs \<noteq> []"
    using plan_operations_ids(2) [OF candidates operations] some by (auto simp: safe_subset_allowed_def)
  note waiting = this prepared_order [OF candidates operations]
  have approved: "gate_enabled gate" "\<not> pe_journal_locked env w"
      "op_status proposal = Prop_ApprovedForFutureApply" "op_revision proposal = revision"
    using proposed by auto
  show ?thesis
    by (rule conjI [OF approved(1) conjI [OF approved(2)]], rule exI [of _ proposal],
        rule exI [of _ root_row], rule exI [of _ q], rule exI [of _ volume], rule exI [of _ binding],
        rule exI [of _ d], rule exI [of _ u1], rule exI [of _ v1], rule exI [of _ u2],
        rule exI [of _ u3], rule exI [of _ v2], rule exI [of _ v6], rule exI [of _ v7])
      (use volume_supported_local [OF placed(4)] stored read waiting in
        \<open>simp add: fields read_proposal placed approved verified binding\<close>)
qed

end
