(* ===== verification/Execution_Plan_Examples.thy ===== *)
theory Execution_Plan_Examples
  imports Execution_Prepare_Properties
begin

text \<open>
  A small root with one file in one directory, a proposal that moves the file to another
  directory, and the run of the planning functions on it: the properties of the planner hold
  there with all their hypotheses.
\<close>

section \<open>A root with one file\<close>

definition plan_volume :: volume_identity where
  "plan_volume =
     \<lparr>vol_platform = Linux, vol_stable_identifier = lit ''v'', vol_filesystem_type = None,
      vol_case_sensitive = True, vol_removable = False, vol_local = True\<rparr>"

definition plan_file :: file_fingerprint where
  "plan_file =
     \<lparr>fp_native_identity =
        \<lparr>nid_volume = plan_volume, nid_object_key = [1], nid_parent_key = [2],
         nid_leaf_name = \<lparr>np_encoding = UnixBytes, np_bytes = [102]\<rparr>, nid_link_count = 1,
         nid_reparse_tag = None\<rparr>,
      fp_byte_size = 3, fp_modified_at_ns = Some 5, fp_created_at_ns = None, fp_attributes = 0,
      fp_quick_digest = None, fp_content_digest = Some 9\<rparr>"

text \<open>The world: how many identities were drawn, and the plan in the store.\<close>

type_synonym sample_world = "nat \<times> execution_detail option"

abbreviation drawn :: "nat \<Rightarrow> sample_world" where
  "drawn n \<equiv> (n, None)"

definition plan_os :: "sample_world policy_os" where
  "plan_os =
     \<lparr>pos_metadata = (\<lambda>p w.
        (if p = [47, 114] \<or> p = [47, 114, 47, 111] then Inr EntryDirectory
         else if p = [47, 114, 47, 111, 47, 102] then Inr EntryFile
         else Inl (IoError KindNotFound []), w)),
      pos_canonicalize = (\<lambda>p w. (Inr p, w))\<rparr>"

definition plan_proposal_operation :: organization_proposal_operation where
  "plan_proposal_operation =
     \<lparr>pop_id = 5, pop_file_id = 1, pop_file_version_id = 1,
      pop_source = \<lparr>snap_relative_path = lit ''o/f'', snap_content_hash = None, snap_byte_size = 3,
        snap_modified_at = Some (lit ''5'')\<rparr>,
      pop_source_name = lit ''f'', pop_machine_destination = [lit ''n''], pop_machine_name = lit ''f'',
      pop_proposed_destination = [lit ''n''], pop_proposed_name = lit ''f'',
      pop_operation_kind = Pk_MoveProposal, pop_confidence_score = F32 1,
      pop_confidence_level = Level_High, pop_reasons = [], pop_conflict_state = Clash_None,
      pop_needs_review = False, pop_stale = False, pop_user_override = False,
      pop_disruption_score = F32 0, pop_proposed_path_length = 3, pop_proposed_depth = 1,
      pop_semantic_context = [], pop_document_type = [], pop_customer_name = None,
      pop_supplier_name = None, pop_project_name = None, pop_duplicate_group_id = None,
      pop_duplicate_canonical = False\<rparr>"

definition plan_proposal :: organization_proposal where
  "plan_proposal =
     \<lparr>op_id = 1, op_revision_id = 2, op_workspace_id = 3, op_root_id = 4, op_source_scan_id = 6,
      op_revision = 1, op_status = Prop_ApprovedForFutureApply, op_engine_version = [],
      op_policy_version = [], op_source_semantic_version = None,
      op_source_relationship_version = None, op_created_at = [], op_updated_at = [],
      op_summary =
        \<lparr>psum_files_analyzed = 1, psum_proposed_moves = 1, psum_proposed_renames = 0,
         psum_unchanged = 0, psum_needs_review = 0, psum_unresolved = 0, psum_conflicts = 0,
         psum_high_confidence = 1, psum_medium_confidence = 0, psum_low_confidence = 0,
         psum_duplicate_no_action = 0, psum_average_depth = F32 1, psum_maximum_depth = 1\<rparr>,
      op_diff = \<lparr>pdiff_destinations_changed = 0, pdiff_files_added = 0, pdiff_conflicts_resolved = 0,
        pdiff_moved_to_review = 0\<rparr>,
      op_nodes = [], op_operations = [plan_proposal_operation]\<rparr>"

definition plan_env :: "sample_world planning_env" where
  "plan_env =
     \<lparr>pe_os = plan_os,
      pe_read_dir = (\<lambda>p w.
        (if p = [47, 114] then Inr [Inr [111]] else if p = [47, 114, 47, 111] then Inr [Inr [102]]
         else Inl (IoError KindNotFound []), w)),
      pe_fresh_id = (\<lambda>(n, st). (of_nat (n + 1), (n + 1, st))), pe_now_iso = (\<lambda>w. (lit ''now'', w)),
      pe_fingerprint = (\<lambda>p n w. (Inr plan_file, w)),
      pe_inspect_volume = (\<lambda>p w. (Inr plan_volume, w)), pe_journal_locked = (\<lambda>w. False),
      pe_blocking_execution_exists = (\<lambda>w. (Inr False, w)),
      pe_organization_proposal = (\<lambda>i w. (Inr plan_proposal, w)),
      pe_root_by_id = (\<lambda>i j w. (Inr \<lparr>rr_id = 4, rr_absolute_path_native = [47, 114]\<rparr>, w)),
      pe_persist_prepared_execution = (\<lambda>d (n, st). (Inr (), (n, Some d))),
      pe_execution_detail = (\<lambda>i (n, st). (case st of None \<Rightarrow> Inl NotFound | Some d \<Rightarrow> Inr d, (n, st)))\<rparr>"

definition plan_libs_with :: "(plan_material \<Rightarrow> byte list option) \<Rightarrow> planning_libs" where
  "plan_libs_with json =
     \<lparr>blake3 = (\<lambda>b. of_nat (from_le b)), uuid_text = (\<lambda>_. []), policy_json = (\<lambda>m. Some []),
      policy_macos = False, pl_lower = ascii_lower, pl_io_text = (\<lambda>_. []),
      pl_platform_text = (\<lambda>_. []), pl_safety_text = (\<lambda>_. []), pl_application_text = (\<lambda>_. []),
      pl_plan_json = json\<rparr>"

definition plan_libs :: planning_libs where
  "plan_libs = plan_libs_with (\<lambda>_. Some [])"

section \<open>The plan\<close>

definition sample_move :: execution_operation where
  "sample_move =
     (candidate_operation 1 3 plan_proposal_operation)\<lparr>xop_live_fingerprint := Some plan_file\<rparr>"

definition sample_candidate :: planned_candidate where
  "sample_candidate = \<lparr>pcd_operation = sample_move, pcd_blocked = False\<rparr>"

lemma sample_component: "validate_component [c] (Suc m) = Inr ()" if "c = 102 \<or> c = 110"
  using that
  by (auto simp: validate_component_Inr trim_def trim_end_by_def is_whitespace_def has_drive_prefix_def
      ends_with_any_def is_reserved_windows_name_def first_split_def to_ascii_uppercase_def
      upper_char_def is_windows_invalid_def is_control_def is_ascii_lower_def device_digits_def
      lit_simps len_utf16_def strip_prefix_Some starts_with_iff Let_def split: option.splits)

lemma sample_plan_destination: "validate_destination_components (pop_proposed_destination plan_proposal_operation)
    (pop_proposed_name plan_proposal_operation) = Inr ()"
  using sample_component [of 110 79] sample_component [of 102 159]
  by (simp add: plan_proposal_operation_def lit_simps validate_destination_components_def
      validate_user_destination_def validate_user_filename_def policy_defs path_length_utf16_def len_utf16_def)

lemma sample_source:
  "live_source_fingerprint plan_libs plan_env default_safety_policy [47, 114] plan_proposal_operation
     plan_volume (drawn 3) = (Inr plan_file, drawn 3)"
  by code_simp

lemma sample_preflight:
  "preflight_all plan_libs plan_env default_safety_policy 1 [47, 114] plan_volume
     [plan_proposal_operation] (drawn 2) = (Inr [sample_candidate], drawn 3)"
proof -
  have eff: "pop_stale plan_proposal_operation = False" "pop_needs_review plan_proposal_operation = False"
      "requires_review (pop_conflict_state plan_proposal_operation) = False"
    by (simp_all add: plan_proposal_operation_def requires_review_def)
  have apart: "path_key ascii_lower (normalize_relative_string (snap_relative_path (pop_source plan_proposal_operation)))
      \<noteq> path_key ascii_lower (destination_relative (pop_proposed_destination plan_proposal_operation)
          (pop_proposed_name plan_proposal_operation))"
    by code_simp
  then have "normalize_relative_string (snap_relative_path (pop_source plan_proposal_operation))
      \<noteq> destination_relative (pop_proposed_destination plan_proposal_operation)
          (pop_proposed_name plan_proposal_operation)" by auto
  moreover have "draw_id plan_env (drawn 2) = (Inr 3, drawn 3)" by (simp add: draw_id_def plan_env_def)
  moreover have "pl_lower plan_libs = ascii_lower" by (simp add: plan_libs_def plan_libs_with_def)
  ultimately show ?thesis
    using eff apart sample_plan_destination sample_source
    by (simp add: preflight_candidate_def preflight_checks_def eff_bind_def sample_candidate_def
        sample_move_def Let_def)
qed

lemma sample_resolved:
  "detect_plan_collisions ascii_lower [sample_candidate] = [sample_candidate]"
  "resolve_destination_dependencies plan_libs plan_env default_safety_policy [47, 114] [sample_candidate] (drawn 3)
     = ([sample_candidate], drawn 3)"
  "propagate_dependency_blocks [sample_candidate] = [sample_candidate]"
  by code_simp+

lemma sample_candidates:
  "plan_candidates plan_libs plan_env default_safety_policy 1 [47, 114] plan_volume plan_proposal (drawn 2)
   = (Inr [sample_candidate], drawn 3)"
proof -
  have "filter (eligible plan_libs) (op_operations plan_proposal) = [plan_proposal_operation]"
    by (simp add: plan_proposal_def eligible_def plan_proposal_operation_def)
  moreover have "pl_lower plan_libs = ascii_lower" by (simp add: plan_libs_def plan_libs_with_def)
  ultimately show ?thesis
    using sample_preflight sample_resolved by (simp add: plan_candidates_def eff_bind_step)
qed

definition sample_operations :: "execution_operation list" where
  "sample_operations =
     [(create_directory_operation 1 4 False (lit ''n''))\<lparr>xop_sequence := 0\<rparr>,
      sample_move\<lparr>xop_sequence := 1\<rparr>,
      (remove_directory_operation 1 5 (lit ''o''))\<lparr>xop_sequence := 2\<rparr>]"

lemma sample_plan_ordered:
  "order_operations plan_libs plan_env default_safety_policy [47, 114] 1 [sample_candidate] (drawn 3)
   = (Inr ([sample_move], []), drawn 3)"
  by code_simp

lemma sample_directories:
  "plan_directories plan_libs plan_env default_safety_policy 1 [47, 114] [lit ''n/f''] [lit ''n/f''] (drawn 3)
   = (Inr ([create_directory_operation 1 4 False (lit ''n'')], 1), drawn 4)"
  by code_simp

lemma sample_sources: "planned_sources [sample_move] = [lit ''o/f'']"
  by code_simp

lemma sample_levels: "cleanup_top_levels [lit ''o/f''] = [lit ''o'']"
  by code_simp

lemma sample_walk:
  "collect_top_levels plan_env [47, 114] (set [lit ''o/f'']) [lit ''n/f''] 2 [lit ''o''] [] (drawn 4)
   = (Inr [lit ''o''], drawn 4)"
  by code_simp

lemma sample_cleanup:
  "plan_source_directory_cleanup 2 plan_env 1 [47, 114] [sample_move] [lit ''n/f''] (drawn 4)
   = (Inr [remove_directory_operation 1 5 (lit ''o'')], drawn 5)"
proof -
  have "remdups_adj (sort_key removal_order [lit ''o'']) = [lit ''o'']" by simp
  moreover have "map normalize_relative_string [lit ''n/f''] = [lit ''n/f'']" by code_simp
  moreover have "remove_operations plan_env 1 [lit ''o''] (drawn 4) = (Inr [remove_directory_operation 1 5 (lit ''o'')], drawn 5)"
    by (simp add: draw_id_def plan_env_def eff_bind_def)
  ultimately show ?thesis
    using sample_walk by (simp add: plan_source_directory_cleanup_def sample_sources sample_levels
        eff_bind_step Let_def)
qed

lemma sample_planned:
  "plan_operations 2 plan_libs plan_env default_safety_policy 1 [47, 114] [sample_candidate] (drawn 3)
   = (Inr (sample_operations, 1), drawn 5)"
proof -
  have dests: "map xop_destination_relative_path
      (filter (\<lambda>operation. xop_kind operation \<noteq> Xk_InternalStage) [sample_move]) = [lit ''n/f'']"
    by code_simp
  have "number_operations ([create_directory_operation 1 4 False (lit ''n'')] @ [sample_move]
      @ [remove_directory_operation 1 5 (lit ''o'')] @ map pcd_operation (filter pcd_blocked [sample_candidate]))
    = Inr sample_operations"
    by (simp add: number_operations_def sample_operations_def sample_candidate_def upt_rec)
  then show ?thesis
    by (simp only: plan_operations_def eff_bind_def sample_plan_ordered sample_directories sample_cleanup
        prod.case Let_def dests append_Nil2 map_err_simps eff_simps sum.case)
qed

section \<open>The properties of the sample\<close>

text \<open>Two operations that swap their files, and one that waits for nothing.\<close>

definition swap_candidate :: "operation_step_id \<Rightarrow> operation_step_id list \<Rightarrow> planned_candidate" where
  "swap_candidate i ds =
     sample_candidate\<lparr>pcd_operation := sample_move\<lparr>xop_id := i, xop_dependencies := ds\<rparr>\<rparr>"

theorem dependency_order_is_topological_witness:
  "dependency_order ascii_lower [swap_candidate 1 [2], swap_candidate 2 [1], swap_candidate 3 []] = ([2], [0, 1])
   \<and> {2} \<union> {0, 1} = {i. i < 3
        \<and> \<not> pcd_blocked ([swap_candidate 1 [2], swap_candidate 2 [1], swap_candidate 3 []] ! i)}"
proof -
  have run: "dependency_order ascii_lower [swap_candidate 1 [2], swap_candidate 2 [1], swap_candidate 3 []]
      = ([2], [0, 1])"
    by code_simp
  from dependency_order_is_topological [OF run] run show ?thesis by (simp add: numeral_3_eq_3)
qed

theorem planned_operations_were_reviewed_and_observed_witness:
  "plan_candidates plan_libs plan_env default_safety_policy 1 [47, 114] plan_volume plan_proposal (drawn 2)
     = (Inr [sample_candidate], drawn 3)
   \<and> (\<exists>p f. eligible plan_libs p \<and> matches_snapshot plan_volume p f
        \<and> xop_live_fingerprint (pcd_operation sample_candidate) = Some f)"
proof -
  have "sample_candidate \<in> set (unblocked [sample_candidate])"
    by (simp add: unblocked_def sample_candidate_def)
  with planned_operations_were_reviewed_and_observed [OF sample_candidates] sample_candidates
  show ?thesis by blast
qed

lemma sample_plan_ids: "distinct (map pop_id (op_operations plan_proposal))"
  by (simp add: plan_proposal_def)

lemma sample_json: "pl_plan_json plan_libs material \<noteq> None"
  by (simp add: plan_libs_def plan_libs_with_def)

theorem prepared_plans_always_verify_witness:
  "\<exists>d. verify_plan_digest plan_libs d = Inr () \<and> xd_operations d = sample_operations"
  using prepared_plans_always_verify [OF sample_candidates sample_planned sample_plan_ids sample_json] by blast

lemma steady_plan_env: "planning_steady plan_env"
  by (simp add: planning_steady_def steady_def plan_env_def plan_os_def)

theorem cleanup_removes_only_emptied_directories_witness:
  "emptied_directory plan_env [47, 114] {lit ''o/f''} [lit ''n/f''] (drawn 4) {lit ''o''} (lit ''o'')"
proof -
  obtain found where found: "map xop_source_relative_path [remove_directory_operation 1 5 (lit ''o'')] = map Some found"
      "\<forall>d \<in> set found. emptied_directory plan_env [47, 114] (set (planned_sources [sample_move]))
        (map normalize_relative_string [lit ''n/f'']) (drawn 4) (set found) d"
    using cleanup_removes_only_emptied_directories [OF steady_plan_env sample_cleanup] by blast
  from found(1) have "found = [lit ''o'']" by (simp add: map_eq_Cons_conv Cons_eq_map_conv)
  with found(2) show ?thesis
    by (simp add: sample_sources normalize_relative_string_def replace_char_def lit_simps)
qed

lemma names_plan_env: "names_are_components plan_env w"
  by (auto simp: names_are_components_def listing_def entries_at_def plan_env_def components_def
      seg_component_def split: if_splits)

lemma levels_plan_env: "levels_bounded plan_env [47, 114] (drawn 4) 1"
  unfolding levels_bounded_def
proof (intro allI impI, elim conjE)
  fix p assume "all_normal p" "entry_at (pe_os plan_env) (drawn 4) (path_join [47, 114] p) = Inr EntryDirectory"
  then have "p = [111]"
    by (auto simp: path_join_def all_normal_relative plan_env_def plan_os_def entry_at_def split: if_splits)
  then show "length (components p) \<le> 1" by (simp add: components_def seg_component_def)
qed

theorem directory_walk_returns_witness:
  "fst (plan_source_directory_cleanup 3 plan_env 1 [47, 114] [sample_move] [lit ''n/f''] (drawn 4)) \<noteq> Inl StopFuel"
  by (rule directory_walk_returns [OF steady_plan_env names_plan_env levels_plan_env]) simp

text \<open>The same plan at a later moment: the session runs, the digest is the same.\<close>

definition sample_detail :: "ustring \<Rightarrow> execution_detail" where
  "sample_detail hex =
     unsigned_detail default_safety_policy plan_proposal 1 2 (root_binding_of [47, 114] plan_volume)
       \<lparr>xsp_version = [], xsp_maximum_rehash_bytes = 1, xsp_allow_qualified_case_only_rename = False,
        xsp_digest_hex = []\<rparr> [sample_candidate] sample_operations 1 (lit ''now'') hex"

definition running_detail :: "execution_detail \<Rightarrow> execution_detail" where
  "running_detail d = d\<lparr>xd_session := (xd_session d)\<lparr>xs_status := St_Running\<rparr>\<rparr>"

lemma running_detail_same [simp]:
  "detail_material (running_detail d) = detail_material d"
  "verify_plan_digest L (running_detail d) = verify_plan_digest L d"
  "xs_plan_digest_hex (xd_session (running_detail d)) = xs_plan_digest_hex (xd_session d)"
proof -
  show material: "detail_material (running_detail d) = detail_material d"
    by (simp add: detail_material_def running_detail_def Let_def)
  show "verify_plan_digest L (running_detail d) = verify_plan_digest L d"
    unfolding verify_plan_digest_def material by (simp add: running_detail_def Let_def)
  show "xs_plan_digest_hex (xd_session (running_detail d)) = xs_plan_digest_hex (xd_session d)"
    by (simp add: running_detail_def)
qed

theorem verified_plans_are_bound_by_their_digest_witness:
  "\<exists>(L :: planning_libs) d. verify_plan_digest L d = Inr () \<and> d \<noteq> running_detail d
     \<and> detail_material d = detail_material (running_detail d)"
proof -
  let ?hex = "encode_digest 0"
  let ?d = "sample_detail ?hex"
  define material where "material = detail_material ?d"
  define L where "L = plan_libs_with (\<lambda>m. if m = material then Some [] else None)"
  have inj: "plan_json_injective L"
    by (simp add: plan_json_injective_def L_def plan_libs_with_def)
  have digest: "execution_plan_digest L (detail_material ?d) = Inr ?hex"
    by (simp add: execution_plan_digest_def L_def plan_libs_with_def material_def)
  have ids: "executable_operation_ids sample_operations = approved_ids_of [sample_candidate]"
    by (rule plan_operations_ids [OF sample_candidates sample_planned])
  have "approved_ids_of [sample_candidate] = [5]"
    by (simp add: approved_ids_of_def unblocked_def sample_candidate_def sample_move_def
        List.map_filter_def plan_proposal_operation_def)
  then have verified: "verify_plan_digest L ?d = Inr ()"
    unfolding verify_plan_digest_def digest
    by (simp add: sample_detail_def unsigned_detail_fields [OF refl] ids strictly_increasing_def
        execution_summary_of_def sample_candidate_def Let_def)
  from verified_plans_are_bound_by_their_digest [OF inj verified, of "running_detail ?d"] verified
  have "detail_material ?d = detail_material (running_detail ?d)" by (simp add: collide_def)
  moreover have "?d \<noteq> running_detail ?d"
  proof -
    have "xs_status (xd_session ?d) = St_AwaitingConfirmation"
      by (simp add: sample_detail_def unsigned_detail_def Let_def)
    moreover have "xs_status (xd_session (running_detail ?d)) = St_Running" by (simp add: running_detail_def)
    ultimately show ?thesis by auto
  qed
  ultimately show ?thesis using verified by blast
qed

lemma sample_root: "plan_root plan_libs plan_env default_safety_policy plan_proposal (drawn 0)
    = (Inr ([47, 114], plan_volume), drawn 0)"
  by code_simp

lemma sample_proposal_approved: "approved_proposal plan_env \<lparr>gate_enabled = True, gate_reason = []\<rparr> 1 1 (drawn 0)
    = (Inr plan_proposal, drawn 0)"
  by (simp add: approved_proposal_def require_apply_gate_def eff_bind_def eff_map_err_def plan_env_def
      plan_proposal_def)

theorem prepared_executions_are_sound_and_unconfirmed_witness:
  "\<exists>d. prepare_execution 2 plan_libs plan_env \<lparr>gate_enabled = True, gate_reason = []\<rparr> default_safety_policy 1 1
       (drawn 0) = (Inr d, (5, Some d))
     \<and> verify_plan_digest plan_libs d = Inr () \<and> xs_consent (xd_session d) = consent_pending"
proof -
  let ?gate = "\<lparr>gate_enabled = True, gate_reason = []\<rparr>"
  obtain binding where binding: "policy_binding plan_libs default_safety_policy = Inr binding"
    by (simp add: policy_binding_def plan_libs_def plan_libs_with_def default_safety_policy_def
        HARD_MAX_REHASH_BYTES_def MAX_EXECUTION_FINGERPRINT_BYTES_def MAX_EXECUTION_VERIFICATION_BYTES_def)
  obtain d where frozen: "freeze_plan plan_libs default_safety_policy plan_proposal 1 2
      (root_binding_of [47, 114] plan_volume) binding [sample_candidate] sample_operations 1 (lit ''now'') = Inr d"
    using freeze_prepared [OF sample_candidates sample_planned sample_plan_ids sample_json] by blast
  have some: "safe_subset_allowed default_safety_policy [sample_candidate]"
    by (simp add: safe_subset_allowed_def unblocked_def sample_candidate_def default_safety_policy_def)
  have ids: "draw_id plan_env (drawn 0) = (Inr 1, drawn 1)" "draw_id plan_env (drawn 1) = (Inr 2, drawn 2)"
      "draw_now plan_env (drawn 5) = (Inr (lit ''now''), drawn 5)"
    by (simp_all add: draw_id_def draw_now_def plan_env_def)
  have store: "pe_persist_prepared_execution plan_env d (drawn 5) = (Inr (), (5, Some d))"
      "pe_execution_detail plan_env 1 (5, Some d) = (Inr d, (5, Some d))"
    by (simp_all add: plan_env_def)
  have run: "prepare_execution 2 plan_libs plan_env ?gate default_safety_policy 1 1 (drawn 0) = (Inr d, (5, Some d))"
    by (simp add: prepare_execution_def eff_bind_def eff_map_err_def sample_proposal_approved sample_root
        binding ids sample_candidates some sample_planned frozen store del: One_nat_def)
  from prepared_executions_are_sound_and_unconfirmed [OF run] obtain d' w1 w2 where
    "pe_persist_prepared_execution plan_env d' w1 = (Inr (), w2)"
    "pe_execution_detail plan_env (xs_id (xd_session d')) w2 = (Inr d, (5, Some d))"
    "verify_plan_digest plan_libs d' = Inr ()" "xs_consent (xd_session d') = consent_pending"
    by blast
  moreover from this(1,2) have "d' = d" by (auto simp: plan_env_def split: prod.splits)
  ultimately show ?thesis using run by blast
qed

end
