(* ===== verification/Spec2Isabelle.thy ===== *)
theory Spec2Isabelle
  imports Rule_Engine Path_Properties Consent_Store Consent_Ledger Store_History Executor
    Session_Authenticity Executor_Framing Worker_Run
    Safety_Properties Execution_Plan_Examples
begin

text \<open>
  A verification library for ZEMO, a local-first file organiser written in Rust. ZEMO scans the
  folders a user selects, proposes a new organisation of them, simulates it, asks for confirmation
  and only then moves files, with a durable journal before every mutation so that an interrupted
  execution can be recovered. The library models the part of the program on which that promise
  rests.

  \<^bold>\<open>The parts and how they interact.\<close> The organiser proposes destinations that are safe as
  Windows paths (\<^verbatim>\<open>crates/organizer/src/path_safety.rs\<close>) and may be steered by local rules
  (\<^verbatim>\<open>crates/organizer/src/rules.rs\<close>). A reviewed proposal is simulated on a virtual file system
  (\<^verbatim>\<open>crates/simulation/src/lib.rs\<close>); an outcome without conflicts is compiled into reversible
  steps and sealed with a digest (\<^verbatim>\<open>crates/operations/src/lib.rs\<close>,
  \<^verbatim>\<open>crates/domain/src/operation.rs\<close>). The user confirms a sealed plan through a challenge that
  is stored, attested and consumed once (\<^verbatim>\<open>crates/persistence/src/execution.rs\<close>). The executor
  appends an intent to a journal, flushes it, performs the step through the platform's capability
  (\<^verbatim>\<open>crates/platform/src/lib.rs\<close>) and appends what it observed. The database keeps a second
  journal, chained in the same way, with the requests that were sent to the executor process and
  what became of them.

  \<^bold>\<open>The theories.\<close>
  \<^item> \<^verbatim>\<open>Prelude\<close>, \<^verbatim>\<open>Rust_Text\<close>, \<^verbatim>\<open>Rust_Path\<close>: machine words, \<^verbatim>\<open>Result\<close>, effects, saturating
    arithmetic; strings as lists of Unicode scalars with UTF-8 and UTF-16; Unix paths as bytes with
    the component iterator of the standard library.
  \<^item> \<^verbatim>\<open>Domain_Types\<close>, \<^verbatim>\<open>Domain_Review\<close>, \<^verbatim>\<open>Domain_Plan\<close>, \<^verbatim>\<open>Domain_Execution\<close>: the crate
    \<^verbatim>\<open>crates/domain\<close>, file by file: files, proposals, revisions and rules, operation plans and
    journal events, executions with their consent and executor requests.
  \<^item> \<^verbatim>\<open>Path_Safety\<close>, \<^verbatim>\<open>Path_Properties\<close>, \<^verbatim>\<open>Rule_Engine\<close>, \<^verbatim>\<open>Simulation\<close>: path policy, rules and the
    virtual file system, with what validation, sanitising, rule precedence and simulation guarantee.
  \<^item> \<^verbatim>\<open>Platform\<close>: error classes, guarded reads and the mutation capability of
    \<^verbatim>\<open>crates/platform\<close>; the operating system behind them is a record of functions.
  \<^item> \<^verbatim>\<open>Journal\<close>, \<^verbatim>\<open>File_Journal\<close>: the trait \<^verbatim>\<open>DurableJournal\<close> as the locale
    \<^verbatim>\<open>durable_journal\<close>, its in-memory, locked and encrypted file implementations as
    interpretations, chain validation and the recovery queries.
  \<^item> \<^verbatim>\<open>Plan_Compiler\<close>, \<^verbatim>\<open>Executor\<close>: \<^verbatim>\<open>compile_plan\<close>, \<^verbatim>\<open>reconcile_observation\<close>, the apply gate and
    \<^verbatim>\<open>ExecutionService::execute\<close>. The locale \<^verbatim>\<open>executor_env\<close> extends a durable journal by a
    file system that leaves the journal alone; it is interpreted on both journals.
  \<^item> \<^verbatim>\<open>Safety_Policy\<close>, \<^verbatim>\<open>Safety_Properties\<close>: \<^verbatim>\<open>crates/operations/src/safety.rs\<close>: which roots,
    sources and destinations an execution may touch, and the digest of the policy.
  \<^item> \<^verbatim>\<open>Execution_Planning\<close>, \<^verbatim>\<open>Execution_Preparing\<close>, \<^verbatim>\<open>Execution_Plan\<close>: the planner of
    \<^verbatim>\<open>crates/application/src/execution.rs\<close>, that is \<^verbatim>\<open>prepare_execution\<close> with everything it
    calls: the check of each approved operation against the live file, occupied destinations,
    blocked dependencies, the order with its staging of cycles and case-only renames, the
    directories to create and to remove, the digest of the plan and its verification. The
    repository, the clock, the random ids and the operating system are the record \<^verbatim>\<open>planning_env\<close>.
    \<^verbatim>\<open>Execution_Planning_Properties\<close>, \<^verbatim>\<open>Execution_Plan_Properties\<close>, \<^verbatim>\<open>Execution_Cleanup\<close> and
    \<^verbatim>\<open>Execution_Prepare_Properties\<close> hold what is shown of it, \<^verbatim>\<open>Execution_Plan_Examples\<close> a small
    world in which the planner runs and the hypotheses of these theorems hold.
  \<^item> \<^verbatim>\<open>Stored_Names\<close>, \<^verbatim>\<open>Consent_Store\<close>, \<^verbatim>\<open>Execution_Store\<close>, \<^verbatim>\<open>Store_History\<close>: the execution
    part of \<^verbatim>\<open>crates/persistence\<close>. Names and digests as text; the consent state machine over its
    three tables; the journal, requests, control, recovery and retention tables; and the
    histories of the latter as the step relation \<^verbatim>\<open>store_step\<close>. An SQL statement is a
    function on rows with the constraints of the migrations, a transaction is a function that
    leaves the database alone unless it commits. The locale \<^verbatim>\<open>row_update\<close> states what an update by
    key may do, and is interpreted on the three consent tables.
  \<^item> \<^verbatim>\<open>Executor_Messages\<close>, \<^verbatim>\<open>Envelope_Properties\<close>, \<^verbatim>\<open>Envelope_Integrity\<close>, \<^verbatim>\<open>Executor_Auth\<close>,
    \<^verbatim>\<open>Session_Authenticity\<close>, \<^verbatim>\<open>Executor_Framing\<close>: protocol v2 between the coordinator and the
    isolated executor (\<^verbatim>\<open>crates/ipc-contracts/src/executor_v2\<close>): manifests and envelopes with
    their validators and builders, authenticated messages, key derivation, the coordinator's
    response verifier and the framing on the pipe.
  \<^item> \<^verbatim>\<open>Worker_Handler\<close>, \<^verbatim>\<open>Worker_Handler_Properties\<close>, \<^verbatim>\<open>Worker_Session\<close>,
    \<^verbatim>\<open>Worker_Session_Properties\<close>, \<^verbatim>\<open>Worker_Run\<close>: the isolated executor process
    (\<^verbatim>\<open>workers/operation-executor/src/lib.rs\<close>): \<^verbatim>\<open>NativeExecutorHandler\<close> over a platform with a
    log of mutations (the locale \<^verbatim>\<open>logged_platform\<close>, interpreted on a file system in memory),
    \<^verbatim>\<open>serve\<close> and \<^verbatim>\<open>serve_session\<close> over the reader of \<^verbatim>\<open>Executor_Framing\<close>, whose size is the
    measure of the request loop, and both together (the locale \<^verbatim>\<open>native_server\<close>).
  \<^item> \<^verbatim>\<open>Consent_Ledger\<close>: the one-task cloud consent of \<^verbatim>\<open>crates/privacy\<close>.

  \<^bold>\<open>What the properties show.\<close> Plans: what is sealed is reversible and bound by its digest, and
  compiling a simulated review yields exactly the accepted moves. The planner: an operation becomes
  part of a plan only when it was reviewed and its source was observed unchanged below the root; a
  plan runs every operation after what it depends on, verifies, is bound by its digest and waits for
  a confirmation; and it removes only directories that it has emptied itself. Simulation: planned moves never
  collide, stay below their roots, and their directories suffice. Execution: no mutation happens
  before its intent is durable, a closed gate changes nothing, and a finished execution is recorded
  and not pending. The safety policy: what it resolves exists, or is absent, really inside the root,
  with no link on the way and clear of the application's own files; its digest binds it. Journals: what is appended is read back, a chain is accepted exactly when it is
  consecutive and hashed, its last digest binds its history, and an opened journal continues.
  The executor protocol: a valid envelope carries exactly the approved operations, numbered and
  depending backwards, with paths below the root; the consent binding recomputed from it is the
  attested one; a message verifies exactly when it is the one its sender would sign and its window
  is open; equal codes mean equal messages; no forward request outlives the consent; responses are
  accepted once and in order; frames are read back whatever the pipe does to their bytes. The
  executor process: whatever the coordinator sends, the handler is called only for requests of a
  verified session, once per operation and direction and after what it depends on; each call
  makes at most the approved mutation and its outcome says which; a run of the whole process,
  from bytes to a directory created in memory, is carried out in \<^verbatim>\<open>Worker_Run\<close>.
  Consent: it is used at most once, only while attested and before its expiry, and the flags of the
  three tables agree. The store: stored journals always validate, requests rest on journaled intents
  and only progress, retention keeps evidence that is still needed. The cloud ledger: no grant is
  overspent and a revocation is final. Some theorems record where the code does less than it says.

  \<^bold>\<open>Parameters and hypotheses.\<close> Third-party code is a field of a record passed to the
  definitions that use it: BLAKE3 (plain and keyed), UUID text and its
  parser, JSON writers and readers, the AEAD cipher, base64,
  Unicode case folding, file system calls, SQLite's date functions. What the properties assume of
  them is stated in each: that the two inputs of a comparison do not collide under the hash
  (\<^verbatim>\<open>collide\<close>), that a reader inverts its writer, that decryption inverts encryption, that a file
  system call does not write the journal, that a
  platform error of certain outcome means that nothing was changed. Each such property has a witness at concrete functions.

  \<^bold>\<open>Bounds.\<close> One definition uses fuel, the walk of the planner over the directories it may remove,
  which spends one unit for each level of directories; \<^verbatim>\<open>directory_walk_returns\<close> shows that two
  units more than the directories are levels deep are enough. Other loops are structural recursions over the lists
  the code iterates, or recursions with a measure: blocking dependents lowers the number of
  operations that are not blocked, ordering lowers the number that remain, and the request loop of the executor process recurses on what is left of its reader.
  \<^verbatim>\<open>u64\<close>, \<^verbatim>\<open>u32\<close> and \<^verbatim>\<open>u8\<close> are words; \<^verbatim>\<open>i64\<close> times and counters are integers whose
  saturating operations are written out; the sequence numbers of both journals are followed to the
  end of their range.

  \<^bold>\<open>Not modelled.\<close> The search index, extraction, knowledge and embedding crates (third-party
  decoders and floating-point scores); the desktop shell, the parser worker and the platform
  back ends (operating system calls); in the executor process, loading the root key, drawing
  nonces and the switch that makes a qualification build exit at a chosen point; monitoring, identity and proposal tables, the rest of the application
  layer (of its execution use case, the coordinator that starts the executor process, pauses,
  recovers and rolls back) and the cross-volume transfer, which the source disables. In the execution store, storing a prepared execution and reading a whole
  detail are left; lengths of JSON columns are not checked, and \<^verbatim>\<open>length(text)\<close> of SQLite is
  the number of characters, which differs for a text that contains NUL.
\<close>

end
